(* ===== verification/Prelude.thy ===== *)
theory Prelude
  imports Main "HOL-Library.Word" "HOL-Library.Char_ord" "HOL-Library.List_Lexorder"
begin

text \<open>
  Shared vocabulary of the development: the machine integer types of the C++ sources, the
  collections of facts the components contribute to, and the generic lemmas on lists, words,
  options and characters that the component theories use.

  A \<open>std::uint64_t\<close> is a \<open>64 word\<close>; comparison, addition and subtraction on it are unsigned and
  wrap around. A \<open>std::int64_t\<close> (timestamps, durations) is an \<open>int\<close> in the range \<open>i64_ok\<close>, and
  every operation that could leave the range writes out what the source does there. A
  \<open>std::byte\<close> is an \<open>8 word\<close> and a \<open>std::string\<close> a list of characters, one per byte.
\<close>

unbundle bit_operations_syntax

type_synonym byte = "8 word"
type_synonym u8 = "8 word"
type_synonym u16 = "16 word"
type_synonym u32 = "32 word"
type_synonym u64 = "64 word"
type_synonym bytes = "byte list"

named_theorems codec_simps \<open>decoding what was just encoded\<close>
named_theorems codec_defs \<open>definitions of the encoders and decoders\<close>
named_theorems frame_simps \<open>fields an operation leaves alone\<close>

section \<open>Words\<close>

lemma unat_le_max: "unat (w :: 'a::len word) \<le> 2 ^ LENGTH('a) - 1"
  using unsigned_less [of w, where ?'a = nat] by linarith

lemma unat_max_minus: "unat (- 1 - b :: 'a::len word) = 2 ^ LENGTH('a) - 1 - unat b"
  using unat_le_max [of b]
  by (simp add: unat_sub_if_size word_size unsigned_minus_1_eq_mask mask_eq_exp_minus_1)

lemma word_add_no_wrap_iff:
  fixes a b :: "'a::len word"
  shows "a \<le> - 1 - b \<longleftrightarrow> unat a + unat b < 2 ^ LENGTH('a)"
proof -
  have "unat b \<le> 2 ^ LENGTH('a) - 1" by (rule unat_le_max)
  moreover have "0 < (2 :: nat) ^ LENGTH('a)" by simp
  ultimately show ?thesis
    unfolding word_le_nat_alt unat_max_minus by linarith
qed

lemma unat_add_small:
  fixes a b :: "'a::len word"
  assumes "unat a + unat b < 2 ^ LENGTH('a)"
  shows "unat (a + b) = unat a + unat b"
  using assms by (simp add: unat_word_ariths)

lemma unat_sub_le: "(b :: 'a::len word) \<le> a \<Longrightarrow> unat (a - b) = unat a - unat b"
  by (simp add: unat_sub_if_size word_le_nat_alt)

definition i64_ok :: "int \<Rightarrow> bool" where
  "i64_ok x \<longleftrightarrow> - (2 ^ 63) \<le> x \<and> x < 2 ^ 63"

lemma i64_roundtrip: "i64_ok x \<Longrightarrow> sint (word_of_int x :: u64) = x"
  by (simp add: i64_ok_def sint_sbintrunc' signed_take_bit_int_eq_self)

lemma i64_sint_ok [simp]: "i64_ok (sint (w :: u64))"
  using sint_greater_eq [of w] sint_less [of w] by (simp add: i64_ok_def)

section \<open>Characters and bytes\<close>

definition byte_of_char :: "char \<Rightarrow> byte" where
  "byte_of_char c = word_of_nat (of_char c)"

definition char_of_byte :: "byte \<Rightarrow> char" where
  "char_of_byte b = char_of (unat b)"

lemma unat_byte_of_char [simp]: "unat (byte_of_char c) = of_char c"
  by (simp add: byte_of_char_def unat_of_nat take_bit_nat_eq_self of_char_mod_256
      take_bit_eq_mod)

lemma char_of_byte_of_char [simp]: "char_of_byte (byte_of_char c) = c"
  by (simp add: char_of_byte_def)

lemma byte_of_char_of_byte [simp]: "byte_of_char (char_of_byte b) = b"
proof -
  have "unat b < 256" using unsigned_less [of b, where ?'a = nat] by simp
  then show ?thesis by (simp add: byte_of_char_def char_of_byte_def)
qed

definition bytes_of_string :: "string \<Rightarrow> bytes" where
  "bytes_of_string s = map byte_of_char s"

definition string_of_bytes :: "bytes \<Rightarrow> string" where
  "string_of_bytes bs = map char_of_byte bs"

lemma string_of_bytes_of_string [simp]: "string_of_bytes (bytes_of_string s) = s"
  by (simp add: string_of_bytes_def bytes_of_string_def o_def)

lemma bytes_of_string_of_bytes [simp]: "bytes_of_string (string_of_bytes bs) = bs"
  by (simp add: string_of_bytes_def bytes_of_string_def o_def)

lemma length_bytes_of_string [simp]: "length (bytes_of_string s) = length s"
  by (simp add: bytes_of_string_def)

lemma length_string_of_bytes [simp]: "length (string_of_bytes s) = length s"
  by (simp add: string_of_bytes_def)

section \<open>Arrays of two\<close>

text \<open>
  A \<open>std::array<T, kPartyCount>\<close> has exactly two cells and is a pair; \<open>party_at\<close> is its indexing.
\<close>

definition party_at :: "'a \<times> 'a \<Rightarrow> nat \<Rightarrow> 'a" where
  "party_at p i = (if i = 0 then fst p else snd p)"

lemma party_at_simps [simp]: "party_at (a, b) 0 = a" "party_at (a, b) (Suc 0) = b"
    "party_at p 0 = fst p" "party_at p (Suc 0) = snd p" "party_at p 1 = snd p"
  by (simp_all add: party_at_def)

section \<open>Lists\<close>

lemma find_SomeD: "find P xs = Some x \<Longrightarrow> x \<in> set xs \<and> P x"
  by (induction xs) (auto split: if_splits)

lemma find_eq_None_iff: "find P xs = None \<longleftrightarrow> (\<forall>x \<in> set xs. \<not> P x)"
  by (induction xs) auto

text \<open>A character in a range, as the sources compare characters.\<close>

definition char_between :: "char \<Rightarrow> char \<Rightarrow> char \<Rightarrow> bool" where
  [simp]: "char_between lo hi c \<longleftrightarrow> lo \<le> c \<and> c \<le> hi"

end
