(* ===== verification/Status.thy ===== *)
theory Status
  imports Prelude
begin

text \<open>
  \<open>core/status.hpp\<close> and \<open>core/status.cpp\<close>: the typed outcomes, the status a call returns and the
  result that carries either a value or a status. \<open>Result<T>\<close> is the sum \<open>'a result\<close>, with the
  failing status on the left; a call that returns \<open>Status\<close> and changes an object is a function
  returning the status together with the object afterwards.
\<close>

datatype outcome =
    Outcome_Ok
  | Outcome_Unknown
  | Outcome_Unsupported
  | Outcome_Stale
  | Outcome_Conflicting
  | Outcome_Incomplete
  | Outcome_Indeterminate
  | Outcome_Refused
  | Outcome_Cancelled
  | Outcome_Invalid
  | Outcome_Unreachable
  | Outcome_Partitioned
  | Outcome_DegradedAuthorized
  | Outcome_Fenced
  | Outcome_Expired
  | Outcome_Unauthorized
  | Outcome_NotFound
  | Outcome_CapacityExceeded
  | Outcome_Replayed
  | Outcome_Reincarnated
  | Outcome_Corrupt
  | Outcome_Incompatible
  | Outcome_Overflow
  | Outcome_Busy
  | Outcome_AlreadyExists
  | Outcome_Internal

definition kOutcomeNames :: "(outcome \<times> string) list" where
  "kOutcomeNames =
    [(Outcome_Ok, ''OK''),
     (Outcome_Unknown, ''UNKNOWN''),
     (Outcome_Unsupported, ''UNSUPPORTED''),
     (Outcome_Stale, ''STALE''),
     (Outcome_Conflicting, ''CONFLICTING''),
     (Outcome_Incomplete, ''INCOMPLETE''),
     (Outcome_Indeterminate, ''INDETERMINATE''),
     (Outcome_Refused, ''REFUSED''),
     (Outcome_Cancelled, ''CANCELLED''),
     (Outcome_Invalid, ''INVALID''),
     (Outcome_Unreachable, ''UNREACHABLE''),
     (Outcome_Partitioned, ''PARTITIONED''),
     (Outcome_DegradedAuthorized, ''DEGRADED_AUTHORIZED''),
     (Outcome_Fenced, ''FENCED''),
     (Outcome_Expired, ''EXPIRED''),
     (Outcome_Unauthorized, ''UNAUTHORIZED''),
     (Outcome_NotFound, ''NOT_FOUND''),
     (Outcome_CapacityExceeded, ''CAPACITY_EXCEEDED''),
     (Outcome_Replayed, ''REPLAYED''),
     (Outcome_Reincarnated, ''REINCARNATED''),
     (Outcome_Corrupt, ''CORRUPT''),
     (Outcome_Incompatible, ''INCOMPATIBLE''),
     (Outcome_Overflow, ''OVERFLOW''),
     (Outcome_Busy, ''BUSY''),
     (Outcome_AlreadyExists, ''ALREADY_EXISTS''),
     (Outcome_Internal, ''INTERNAL'')]"

text \<open>The two linear searches of the table, first by outcome and then by name.\<close>

fun outcome_search :: "(outcome \<times> string) list \<Rightarrow> outcome \<Rightarrow> string option" where
  "outcome_search [] x = None"
| "outcome_search ((y, n) # rest) x = (if y = x then Some n else outcome_search rest x)"

definition outcome_to_string :: "outcome \<Rightarrow> string" where
  "outcome_to_string x = (case outcome_search kOutcomeNames x of None \<Rightarrow> ''INVALID'' | Some n \<Rightarrow> n)"

fun outcome_name_search :: "(outcome \<times> string) list \<Rightarrow> string \<Rightarrow> outcome option" where
  "outcome_name_search [] t = None"
| "outcome_name_search ((y, n) # rest) t = (if n = t then Some y else outcome_name_search rest t)"

definition outcome_from_string :: "string \<Rightarrow> outcome option" where
  "outcome_from_string t = outcome_name_search kOutcomeNames t"

definition outcome_is_ok :: "outcome \<Rightarrow> bool" where
  "outcome_is_ok x \<longleftrightarrow> x = Outcome_Ok"

definition is_authorized :: "outcome \<Rightarrow> bool" where
  "is_authorized x \<longleftrightarrow> x = Outcome_Ok \<or> x = Outcome_DegradedAuthorized"

definition is_indeterminate_family :: "outcome \<Rightarrow> bool" where
  "is_indeterminate_family x =
    (case x of
       Outcome_Unknown \<Rightarrow> True
     | Outcome_Incomplete \<Rightarrow> True
     | Outcome_Indeterminate \<Rightarrow> True
     | Outcome_Unreachable \<Rightarrow> True
     | Outcome_Partitioned \<Rightarrow> True
     | Outcome_Stale \<Rightarrow> True
     | Outcome_Busy \<Rightarrow> True
     | Outcome_Cancelled \<Rightarrow> True
     | _ \<Rightarrow> False)"

text \<open>The numeric value of an outcome, as the enumeration lays them out and the wire carries them.\<close>

definition outcome_values :: "outcome list" where
  "outcome_values = map fst kOutcomeNames"

fun list_index :: "'a list \<Rightarrow> 'a \<Rightarrow> nat" where
  "list_index [] x = 0"
| "list_index (y # ys) x = (if y = x then 0 else Suc (list_index ys x))"

definition outcome_code :: "outcome \<Rightarrow> nat" where
  "outcome_code x = list_index outcome_values x"

text \<open>The cast back from the integer, defined where the integer names an enumerator.\<close>

definition outcome_of_code :: "nat \<Rightarrow> outcome option" where
  "outcome_of_code n = (if n < length outcome_values then Some (outcome_values ! n) else None)"

section \<open>Status and Result\<close>

record status =
  st_outcome :: outcome
  st_message :: string

type_synonym 'a result = "status + 'a"

definition status_ok :: status where
  "status_ok = \<lparr>st_outcome = Outcome_Ok, st_message = []\<rparr>"

definition status_make :: "outcome \<Rightarrow> string \<Rightarrow> status" where
  "status_make out msg = \<lparr>st_outcome = out, st_message = msg\<rparr>"

definition is_ok :: "status \<Rightarrow> bool" where
  "is_ok s \<longleftrightarrow> st_outcome s = Outcome_Ok"

definition invalid :: "string \<Rightarrow> status" where
  "invalid msg = status_make Outcome_Invalid msg"

definition unsupported :: "string \<Rightarrow> status" where
  "unsupported msg = status_make Outcome_Unsupported msg"

definition not_found :: "string \<Rightarrow> status" where
  "not_found msg = status_make Outcome_NotFound msg"

definition internal_error :: "string \<Rightarrow> status" where
  "internal_error msg = status_make Outcome_Internal msg"

text \<open>\<open>Result::status\<close>: the status of a failed result, a default status of a successful one.\<close>

definition result_status :: "'a result \<Rightarrow> status" where
  "result_status r = (case r of Inl s \<Rightarrow> s | Inr _ \<Rightarrow> status_ok)"

lemma is_ok_simps [simp]:
  "is_ok status_ok"
  "is_ok (status_make out msg) \<longleftrightarrow> out = Outcome_Ok"
  "\<not> is_ok (invalid msg)"
  "\<not> is_ok (unsupported msg)"
  "\<not> is_ok (not_found msg)"
  "\<not> is_ok (internal_error msg)"
  by (simp_all add: is_ok_def status_ok_def status_make_def invalid_def unsupported_def
      not_found_def internal_error_def)

lemma status_fields [simp]:
  "st_outcome status_ok = Outcome_Ok"
  "st_outcome (status_make out msg) = out"
  "st_message (status_make out msg) = msg"
  "st_outcome (invalid msg) = Outcome_Invalid"
  "st_message (invalid msg) = msg"
  "st_outcome (unsupported msg) = Outcome_Unsupported"
  "st_outcome (not_found msg) = Outcome_NotFound"
  "st_outcome (internal_error msg) = Outcome_Internal"
  by (simp_all add: status_ok_def status_make_def invalid_def unsupported_def
      not_found_def internal_error_def)

section \<open>Facts about outcomes\<close>

lemma list_index_nth: "x \<in> set xs \<Longrightarrow> list_index xs x < length xs \<and> xs ! list_index xs x = x"
  by (induction xs) auto

lemma outcome_values_complete: "x \<in> set outcome_values"
  by (cases x) (simp_all add: outcome_values_def kOutcomeNames_def)

lemma outcome_of_code_code [simp]: "outcome_of_code (outcome_code x) = Some x"
  using list_index_nth [OF outcome_values_complete, of x]
  by (simp add: outcome_of_code_def outcome_code_def)

lemma length_outcome_values [simp]: "length outcome_values = 26"
  by (simp add: outcome_values_def kOutcomeNames_def)

lemma outcome_code_bound: "outcome_code x \<le> 25"
  using list_index_nth [OF outcome_values_complete, of x] by (simp add: outcome_code_def)

text \<open>
  Only the two authorizing outcomes let connectivity be used, and neither of them is one of the
  outcomes that mean "the truth is not established".
\<close>

lemma authorized_not_indeterminate: "is_authorized x \<Longrightarrow> \<not> is_indeterminate_family x"
  by (auto simp: is_authorized_def is_indeterminate_family_def)

end
