(* ===== verification/Checked.thy ===== *)
theory Checked
  imports Status
begin

text \<open>
  \<open>core/checked.cpp\<close> (arithmetic that refuses to overflow), the bounds of \<open>core/limits.hpp\<close>, and
  the monotonic counters of \<open>core/ids.hpp\<close>. A checked operation returns \<open>bool\<close> and writes its
  result through a reference; here it is an option, \<open>None\<close> where the source returns false.
  \<open>std::size_t\<close> is 64 bits wide.
\<close>

section \<open>Limits\<close>

definition kMaxNameLength :: nat where "kMaxNameLength = 96"
definition kMaxScopeLength :: nat where "kMaxScopeLength = 192"
definition kMaxStringField :: nat where "kMaxStringField = 512"
definition kMaxClusters :: nat where "kMaxClusters = 1024"
definition kMaxEndpointsPerCluster :: nat where "kMaxEndpointsPerCluster = 4096"
definition kMaxEndpointsTotal :: nat where "kMaxEndpointsTotal = 65536"
definition kMaxEdges :: nat where "kMaxEdges = 65536"
definition kMaxPathHops :: nat where "kMaxPathHops = 16"
definition kMaxPaths :: nat where "kMaxPaths = 65536"
definition kMaxPolicyRules :: nat where "kMaxPolicyRules = 4096"
definition kMaxContracts :: nat where "kMaxContracts = 65536"
definition kMaxGrants :: nat where "kMaxGrants = 131072"
definition kMaxReservations :: nat where "kMaxReservations = 131072"
definition kMaxAuditRecords :: nat where "kMaxAuditRecords = 65536"
definition kMaxFencePlanEntries :: nat where "kMaxFencePlanEntries = 65536"
definition kMaxCapacity :: u64 where "kMaxCapacity = 281474976710656"
definition kMaxDurationNanos :: u64 where "kMaxDurationNanos = 31536000000000000"
definition kMaxGeneration :: u64 where "kMaxGeneration = 4611686018427387904"
definition kMaxStoreRecordPayload :: nat where "kMaxStoreRecordPayload = 1048576"
definition kMaxRevalidateAttempts :: u64 where "kMaxRevalidateAttempts = 64"
definition kMaxDecisionReasons :: nat where "kMaxDecisionReasons = 32"
definition kMaxDecisionPaths :: nat where "kMaxDecisionPaths = 8"

lemmas count_limits =
  kMaxNameLength_def kMaxScopeLength_def kMaxStringField_def kMaxClusters_def
  kMaxEndpointsPerCluster_def kMaxEndpointsTotal_def kMaxEdges_def kMaxPathHops_def kMaxPaths_def
  kMaxPolicyRules_def kMaxContracts_def kMaxGrants_def kMaxReservations_def kMaxAuditRecords_def
  kMaxFencePlanEntries_def kMaxStoreRecordPayload_def kMaxDecisionReasons_def kMaxDecisionPaths_def

lemma kMaxCapacity_pow: "unat kMaxCapacity = 2 ^ 48"
  by (simp add: kMaxCapacity_def)

lemma kMaxGeneration_pow: "unat kMaxGeneration = 2 ^ 62"
  by (simp add: kMaxGeneration_def)

lemma kMaxDurationNanos_year: "unat kMaxDurationNanos = 365 * 24 * 3600 * 1000000000"
  by (simp add: kMaxDurationNanos_def)

section \<open>Checked arithmetic\<close>

definition add_u64 :: "u64 \<Rightarrow> u64 \<Rightarrow> u64 option" where
  "add_u64 a b = (if a > - 1 - b then None else Some (a + b))"

definition sub_u64 :: "u64 \<Rightarrow> u64 \<Rightarrow> u64 option" where
  "sub_u64 a b = (if b > a then None else Some (a - b))"

definition mul_u64 :: "u64 \<Rightarrow> u64 \<Rightarrow> u64 option" where
  "mul_u64 a b = (if a \<noteq> 0 \<and> b > - 1 div a then None else Some (a * b))"

definition add_size :: "u64 \<Rightarrow> u64 \<Rightarrow> u64 option" where
  "add_size a b = (if a > - 1 - b then None else Some (a + b))"

definition mul_size :: "u64 \<Rightarrow> u64 \<Rightarrow> u64 option" where
  "mul_size a b = (if a \<noteq> 0 \<and> b > - 1 div a then None else Some (a * b))"

definition to_u32 :: "u64 \<Rightarrow> u32 option" where
  "to_u32 v = (if v > 4294967295 then None else Some (ucast v))"

definition to_u16 :: "u64 \<Rightarrow> u16 option" where
  "to_u16 v = (if v > 65535 then None else Some (ucast v))"

definition to_size :: "u64 \<Rightarrow> u64 option" where
  "to_size v = (if v > - 1 then None else Some v)"

definition checked_sum :: "u64 \<Rightarrow> u64 \<Rightarrow> u64 result" where
  "checked_sum a b =
    (case add_size a b of
       None \<Rightarrow> Inl (status_make Outcome_Overflow ''size computation overflow'')
     | Some out \<Rightarrow> Inr out)"

section \<open>Counters\<close>

definition counter_increment :: "u64 \<Rightarrow> bool \<times> u64" where
  "counter_increment v = (if v = - 1 then (False, v) else (True, v + 1))"

definition counter_next :: "u64 \<Rightarrow> u64 result" where
  "counter_next v =
    (case counter_increment v of
       (False, _) \<Rightarrow> Inl (status_make Outcome_Overflow ''counter overflow'')
     | (True, v') \<Rightarrow> Inr v')"

definition counter_add :: "u64 \<Rightarrow> u64 \<Rightarrow> u64 result" where
  "counter_add a b =
    (if a > - 1 - b then Inl (status_make Outcome_Overflow ''counter addition overflow'')
     else Inr (a + b))"

definition counter_subtract :: "u64 \<Rightarrow> u64 \<Rightarrow> u64 result" where
  "counter_subtract a b =
    (if b > a then Inl (status_make Outcome_Overflow ''counter subtraction underflow'')
     else Inr (a - b))"

text \<open>The decimal parser of a counter: at most 20 digits, refused once the value passes 64 bits.\<close>

definition digit_value :: "char \<Rightarrow> nat" where
  "digit_value c = of_char c - of_char (CHR ''0'')"

definition is_digit :: "char \<Rightarrow> bool" where
  "is_digit c \<longleftrightarrow> CHR ''0'' \<le> c \<and> c \<le> CHR ''9''"

fun counter_parse_digits :: "string \<Rightarrow> u64 \<Rightarrow> u64 result" where
  "counter_parse_digits [] value = Inr value"
| "counter_parse_digits (c # cs) value =
    (if \<not> is_digit c then Inl (invalid ''counter must be a decimal number'')
     else let digit = word_of_nat (digit_value c) in
       if value > (- 1 - digit) div 10
       then Inl (status_make Outcome_Overflow ''counter does not fit in 64 bits'')
       else counter_parse_digits cs (value * 10 + digit))"

definition counter_parse :: "string \<Rightarrow> u64 result" where
  "counter_parse text =
    (if text = [] \<or> length text > 20 then Inl (invalid ''counter must be a decimal number'')
     else counter_parse_digits text 0)"

section \<open>Correctness of the checked operations\<close>

lemma add_u64_spec:
  "add_u64 a b = (if unat a + unat b < 2 ^ 64 then Some (a + b) else None)"
proof -
  have "a \<le> - 1 - b \<longleftrightarrow> unat a + unat b < 2 ^ 64"
    using word_add_no_wrap_iff [of a b] by simp
  then show ?thesis by (simp add: add_u64_def not_le [symmetric])
qed

lemma add_u64_SomeD: "add_u64 a b = Some c \<Longrightarrow> unat c = unat a + unat b"
  by (auto simp: add_u64_spec unat_add_small split: if_splits)

lemma sub_u64_SomeD: "sub_u64 a b = Some c \<Longrightarrow> unat c = unat a - unat b \<and> unat b \<le> unat a"
  by (auto simp: sub_u64_def unat_sub_le word_le_nat_alt not_less split: if_splits)

lemma mul_u64_guard: "a \<noteq> 0 \<Longrightarrow> (b :: u64) \<le> - 1 div a \<longleftrightarrow> unat a * unat b < 2 ^ 64"
proof -
  assume "a \<noteq> 0"
  then have a: "0 < unat a" by (simp add: unat_gt_0)
  have "b \<le> - 1 div a \<longleftrightarrow> unat b \<le> (2 ^ 64 - 1) div unat a"
    by (simp add: word_le_nat_alt unat_div unsigned_minus_1_eq_mask mask_eq_exp_minus_1)
  also have "\<dots> \<longleftrightarrow> unat b * unat a \<le> 2 ^ 64 - 1"
    using a by (rule less_eq_div_iff_mult_less_eq)
  also have "\<dots> \<longleftrightarrow> unat a * unat b < 2 ^ 64"
    by (simp add: mult.commute less_Suc_eq_le [symmetric])
  finally show ?thesis .
qed

lemma mul_u64_spec:
  "mul_u64 a b = (if unat a * unat b < 2 ^ 64 then Some (a * b) else None)"
  using mul_u64_guard [of a b] by (cases "a = 0") (auto simp: mul_u64_def not_le [symmetric])

lemma mul_u64_SomeD: "mul_u64 a b = Some c \<Longrightarrow> unat c = unat a * unat b"
  by (auto simp: mul_u64_spec unat_word_ariths split: if_splits)

lemma add_size_eq: "add_size = add_u64"
  by (simp add: add_size_def add_u64_def fun_eq_iff)

lemma mul_size_eq: "mul_size = mul_u64"
  by (simp add: mul_size_def mul_u64_def fun_eq_iff)

lemma to_u32_SomeD: "to_u32 v = Some w \<Longrightarrow> unat w = unat v"
  by (auto simp: to_u32_def unsigned_ucast_eq take_bit_nat_eq_self word_le_nat_alt not_less
      split: if_splits)

lemma counter_next_Inr: "counter_next v = Inr w \<longleftrightarrow> v \<noteq> - 1 \<and> w = v + 1"
  by (auto simp: counter_next_def counter_increment_def)

lemma unat_suc_word: "v \<noteq> - 1 \<Longrightarrow> unat (v + 1 :: u64) = Suc (unat v)"
  by (metis unatSuc add.commute eq_neg_iff_add_eq_0)

lemma counter_next_mono: "counter_next v = Inr w \<Longrightarrow> v < w"
  by (auto simp: counter_next_Inr word_less_nat_alt unat_suc_word)

lemma counter_increment_mono: "v \<le> snd (counter_increment v)"
  by (simp add: counter_increment_def word_le_nat_alt unat_suc_word)

end
