(* ===== verification/Hash.thy ===== *)
theory Hash
  imports Checked
begin

text \<open>
  \<open>core/hash.cpp\<close>: CRC32C, SHA-256, HMAC-SHA256, the comparison that does not stop early, and hex
  text. A digest is the list of its 32 bytes. The round constants of SHA-256 are computed in the
  source from \<open>std::cbrt\<close>; the model takes the exact cube root to 32 fractional bits. The buffer of
  the hasher is kept as its filled part, so its length is the source's \<open>buffer_length_\<close>.
\<close>

type_synonym digest = bytes

definition kDigestSize :: nat where "kDigestSize = 32"

definition zero_digest :: digest where
  "zero_digest = replicate 32 0"

definition digest_ok :: "digest \<Rightarrow> bool" where
  "digest_ok d \<longleftrightarrow> length d = 32"

section \<open>CRC32C\<close>

fun crc32c_entry_bits :: "nat \<Rightarrow> u32 \<Rightarrow> u32" where
  "crc32c_entry_bits 0 crc = crc"
| "crc32c_entry_bits (Suc n) crc =
    crc32c_entry_bits n
      (if crc AND 1 \<noteq> 0 then drop_bit 1 crc XOR 0x82F63B78 else drop_bit 1 crc)"

definition make_crc32c_table :: "u32 list" where
  "make_crc32c_table = map (\<lambda>i. crc32c_entry_bits 8 (word_of_nat i)) [0..<256]"

definition crc32c_step :: "u32 \<Rightarrow> byte \<Rightarrow> u32" where
  "crc32c_step crc b =
    (let index = (ucast (crc XOR ucast b) :: byte)
     in make_crc32c_table ! unat index XOR drop_bit 8 crc)"

fun crc32c_loop :: "u32 \<Rightarrow> bytes \<Rightarrow> u32" where
  "crc32c_loop crc [] = crc"
| "crc32c_loop crc (b # bs) = crc32c_loop (crc32c_step crc b) bs"

definition crc32c_extend :: "u32 \<Rightarrow> bytes \<Rightarrow> u32" where
  "crc32c_extend seed data = NOT (crc32c_loop (NOT seed) data)"

definition crc32c :: "bytes \<Rightarrow> u32" where
  "crc32c data = crc32c_extend 0 data"

section \<open>SHA-256\<close>

definition sha256_trial_primes :: "nat list" where
  "sha256_trial_primes = [2, 3, 5, 7, 11, 13, 17, 19]"

text \<open>Trial division, leaving the loop once the square of the divisor passes the candidate.\<close>

fun sha256_is_prime :: "nat list \<Rightarrow> nat \<Rightarrow> bool" where
  "sha256_is_prime [] c = True"
| "sha256_is_prime (p # ps) c =
    (if p * p > c then True else if c mod p = 0 then False else sha256_is_prime ps c)"

text \<open>The greatest \<open>r\<close> of the given number of bits with \<open>r\<^sup>3 \<le> n\<close>.\<close>

fun icbrt_bits :: "nat \<Rightarrow> nat \<Rightarrow> nat \<Rightarrow> nat" where
  "icbrt_bits 0 n r = r"
| "icbrt_bits (Suc b) n r =
    (let r' = r + 2 ^ b in icbrt_bits b n (if r' * r' * r' \<le> n then r' else r))"

text \<open>
  The candidates of the source run until 64 primes are found; the 64th is 311. The integer part of
  the root falls away in the conversion to 32 bits.
\<close>

definition make_sha256_k :: "u32 list" where
  "make_sha256_k =
    map (\<lambda>c. word_of_nat (icbrt_bits 36 (c * 2 ^ 96) 0))
      (take 64 (filter (sha256_is_prime sha256_trial_primes) [2..<312]))"

record sha256_state =
  sh_state :: "u32 list"
  sh_buffer :: bytes
  sh_total :: u64

definition sha256_reset :: sha256_state where
  "sha256_reset =
    \<lparr>sh_state = [0x6a09e667, 0xbb67ae85, 0x3c6ef372, 0xa54ff53a,
                 0x510e527f, 0x9b05688c, 0x1f83d9ab, 0x5be0cd19],
     sh_buffer = [], sh_total = 0\<rparr>"

definition rotr :: "nat \<Rightarrow> u32 \<Rightarrow> u32" where
  "rotr n x = drop_bit n x OR push_bit (32 - n) x"

definition sha256_block_word :: "bytes \<Rightarrow> nat \<Rightarrow> u32" where
  "sha256_block_word block i =
    push_bit 24 (ucast (block ! (i * 4))) OR push_bit 16 (ucast (block ! (i * 4 + 1)))
    OR push_bit 8 (ucast (block ! (i * 4 + 2))) OR ucast (block ! (i * 4 + 3))"

definition sha256_schedule_step :: "nat \<Rightarrow> u32 list \<Rightarrow> u32 list" where
  "sha256_schedule_step i w =
    (let w15 = w ! (i - 15); w2 = w ! (i - 2);
         s0 = rotr 7 w15 XOR rotr 18 w15 XOR drop_bit 3 w15;
         s1 = rotr 17 w2 XOR rotr 19 w2 XOR drop_bit 10 w2
     in w @ [w ! (i - 16) + s0 + w ! (i - 7) + s1])"

definition sha256_schedule :: "bytes \<Rightarrow> u32 list" where
  "sha256_schedule block = fold sha256_schedule_step [16..<64] (map (sha256_block_word block) [0..<16])"

type_synonym sha256_regs = "u32 \<times> u32 \<times> u32 \<times> u32 \<times> u32 \<times> u32 \<times> u32 \<times> u32"

definition sha256_round :: "u32 list \<Rightarrow> nat \<Rightarrow> sha256_regs \<Rightarrow> sha256_regs" where
  "sha256_round w i = (\<lambda>(a, b, c, d, e, f, g, h).
    let s1 = rotr 6 e XOR rotr 11 e XOR rotr 25 e;
        ch = (e AND f) XOR (NOT e AND g);
        temp1 = h + s1 + ch + make_sha256_k ! i + w ! i;
        s0 = rotr 2 a XOR rotr 13 a XOR rotr 22 a;
        maj = (a AND b) XOR (a AND c) XOR (b AND c);
        temp2 = s0 + maj
    in (temp1 + temp2, a, b, c, d + temp1, e, f, g))"

definition sha256_compress :: "u32 list \<Rightarrow> bytes \<Rightarrow> u32 list" where
  "sha256_compress st block =
    (let w = sha256_schedule block;
         (a, b, c, d, e, f, g, h) = fold (sha256_round w) [0..<64]
           (st ! 0, st ! 1, st ! 2, st ! 3, st ! 4, st ! 5, st ! 6, st ! 7)
     in [st ! 0 + a, st ! 1 + b, st ! 2 + c, st ! 3 + d,
         st ! 4 + e, st ! 5 + f, st ! 6 + g, st ! 7 + h])"

text \<open>
  The loop of \<open>update\<close>. The buffer is never full when the loop tests its condition, so a chunk is
  never empty; the second disjunct of the guard is that invariant and is never taken
  (\<open>sha256_update_buffer\<close>).
\<close>

function sha256_update_loop :: "u32 list \<Rightarrow> bytes \<Rightarrow> bytes \<Rightarrow> u32 list \<times> bytes" where
  "sha256_update_loop st buf data =
    (if data = [] \<or> 64 \<le> length buf then (st, buf)
     else let free_space = 64 - length buf;
              n = min (length data) free_space;
              buf' = buf @ take n data
          in if length buf' = 64
             then sha256_update_loop (sha256_compress st buf') [] (drop n data)
             else sha256_update_loop st buf' (drop n data))"
  by pat_completeness auto
termination
  by (relation "measure (\<lambda>(st, buf, data). length data)") auto

declare sha256_update_loop.simps [simp del]

definition sha256_update :: "sha256_state \<Rightarrow> bytes \<Rightarrow> sha256_state" where
  "sha256_update s data =
    (let (st, buf) = sha256_update_loop (sh_state s) (sh_buffer s) data
     in \<lparr>sh_state = st, sh_buffer = buf, sh_total = sh_total s + word_of_nat (length data)\<rparr>)"

definition sha256_word_bytes :: "u32 \<Rightarrow> bytes" where
  "sha256_word_bytes w =
    [ucast (drop_bit 24 w), ucast (drop_bit 16 w), ucast (drop_bit 8 w), ucast w]"

definition sha256_digest :: "sha256_state \<Rightarrow> digest" where
  "sha256_digest s =
    (let bit_length = sh_total s * 8;
         n = length (sh_buffer s);
         pad_length = (if n < 56 then 56 - n else 120 - n);
         padded = sha256_update s (take pad_length (0x80 # replicate 63 0));
         block = sh_buffer padded @ map (\<lambda>i. ucast (drop_bit (56 - i * 8) bit_length)) [0..<8];
         st = sha256_compress (sh_state padded) block
     in concat (map sha256_word_bytes st))"

definition sha256_hash :: "bytes \<Rightarrow> digest" where
  "sha256_hash data = sha256_digest (sha256_update sha256_reset data)"

section \<open>HMAC and comparison\<close>

definition hmac_block_key :: "bytes \<Rightarrow> bytes" where
  "hmac_block_key key =
    (if length key > 64 then sha256_hash key @ replicate 32 0
     else key @ replicate (64 - length key) 0)"

definition hmac_sha256 :: "bytes \<Rightarrow> bytes \<Rightarrow> digest" where
  "hmac_sha256 key message =
    (let block_key = hmac_block_key key;
         inner_pad = map (\<lambda>b. b XOR 0x36) block_key;
         outer_pad = map (\<lambda>b. b XOR 0x5c) block_key;
         inner_digest = sha256_digest (sha256_update (sha256_update sha256_reset inner_pad) message)
     in sha256_digest (sha256_update (sha256_update sha256_reset outer_pad) inner_digest))"

fun constant_time_diff :: "byte \<Rightarrow> bytes \<Rightarrow> bytes \<Rightarrow> byte" where
  "constant_time_diff difference (a # as) (b # bs) = constant_time_diff (difference OR (a XOR b)) as bs"
| "constant_time_diff difference _ _ = difference"

definition constant_time_equal :: "bytes \<Rightarrow> bytes \<Rightarrow> bool" where
  "constant_time_equal a b =
    (if length a \<noteq> length b then False else constant_time_diff 0 a b = 0)"

section \<open>Hex\<close>

definition kHex :: string where "kHex = ''0123456789abcdef''"

definition hex_encode :: "bytes \<Rightarrow> string" where
  "hex_encode data =
    concat (map (\<lambda>b. [kHex ! unat (drop_bit 4 b), kHex ! unat (b AND 0x0F)]) data)"

text \<open>The value of a hex digit; \<open>None\<close> stands for the source's \<open>-1\<close>.\<close>

definition hex_value :: "char \<Rightarrow> nat option" where
  "hex_value c =
    (if CHR ''0'' \<le> c \<and> c \<le> CHR ''9'' then Some (of_char c - of_char (CHR ''0''))
     else if CHR ''a'' \<le> c \<and> c \<le> CHR ''f'' then Some (of_char c - of_char (CHR ''a'') + 10)
     else if CHR ''A'' \<le> c \<and> c \<le> CHR ''F'' then Some (of_char c - of_char (CHR ''A'') + 10)
     else None)"

fun hex_decode_pairs :: "string \<Rightarrow> bytes result" where
  "hex_decode_pairs (c # d # cs) =
    (case (hex_value c, hex_value d) of
       (Some high, Some low) \<Rightarrow>
         (case hex_decode_pairs cs of
            Inl e \<Rightarrow> Inl e
          | Inr bs \<Rightarrow> Inr ((push_bit 4 (word_of_nat high) OR word_of_nat low) # bs))
     | _ \<Rightarrow> Inl (invalid ''hex string contains a non-hex character''))"
| "hex_decode_pairs _ = Inr []"

definition hex_decode :: "string \<Rightarrow> bytes result" where
  "hex_decode text =
    (if length text mod 2 \<noteq> 0 then Inl (invalid ''hex string must have an even length'')
     else hex_decode_pairs text)"

definition digest_from_bytes :: "bytes \<Rightarrow> digest" where
  "digest_from_bytes bs = take 32 bs @ replicate (32 - length bs) 0"

definition digest_parse_hex :: "string \<Rightarrow> digest result" where
  "digest_parse_hex text =
    (if length text \<noteq> 64 then Inl (invalid ''digest must be 64 hex characters'')
     else case hex_decode text of
       Inl e \<Rightarrow> Inl e
     | Inr raw \<Rightarrow> Inr (digest_from_bytes raw))"

definition digest_is_zero :: "digest \<Rightarrow> bool" where
  "digest_is_zero d \<longleftrightarrow> list_all (\<lambda>b. b = 0) d"

section \<open>Facts\<close>

lemma crc32c_loop_append: "crc32c_loop crc (a @ b) = crc32c_loop (crc32c_loop crc a) b"
  by (induction a arbitrary: crc) auto

lemma crc32c_extend_append:
  "crc32c_extend (crc32c_extend seed a) b = crc32c_extend seed (a @ b)"
  by (simp add: crc32c_extend_def crc32c_loop_append)

lemma constant_time_diff_zero:
  "length a = length b \<Longrightarrow> constant_time_diff d a b = 0 \<longleftrightarrow> d = 0 \<and> a = b"
proof (induction a b arbitrary: d rule: list_induct2)
  case (Cons x xs y ys)
  have "(d OR (x XOR y) = 0) = (d = 0 \<and> x = y)"
    by (metis or.right_neutral or_eq_0_iff xor_self_eq bit.xor_cancel_right xor.left_neutral xor.right_neutral xor.assoc)
  with Cons.IH show ?case by simp
qed simp

lemma constant_time_equal_iff: "constant_time_equal a b \<longleftrightarrow> a = b"
  by (auto simp: constant_time_equal_def constant_time_diff_zero)

text \<open>The chunked loop of \<open>update\<close> is absorbing the bytes one at a time.\<close>

definition sha256_absorb :: "u32 list \<times> bytes \<Rightarrow> byte \<Rightarrow> u32 list \<times> bytes" where
  "sha256_absorb s b =
    (let buf = snd s @ [b] in if length buf = 64 then (sha256_compress (fst s) buf, []) else (fst s, buf))"

lemma foldl_absorb_chunk:
  "length buf + length ds < 64 \<Longrightarrow> foldl sha256_absorb (st, buf) ds = (st, buf @ ds)"
  by (induction ds arbitrary: buf) (auto simp: sha256_absorb_def)

lemma foldl_absorb_full:
  assumes "length buf + length ds = 64" "ds \<noteq> []"
  shows "foldl sha256_absorb (st, buf) ds = (sha256_compress st (buf @ ds), [])"
proof -
  obtain init x where ds: "ds = init @ [x]" using assms(2) by (cases ds rule: rev_cases) auto
  have "foldl sha256_absorb (st, buf) init = (st, buf @ init)"
    using assms ds by (intro foldl_absorb_chunk) simp
  then show ?thesis using assms ds by (simp add: sha256_absorb_def)
qed

lemma sha256_update_loop_absorb:
  "length buf < 64 \<Longrightarrow> sha256_update_loop st buf data = foldl sha256_absorb (st, buf) data"
proof (induction st buf data rule: sha256_update_loop.induct)
  case (1 st buf data)
  let ?n = "min (length data) (64 - length buf)"
  have split: "foldl sha256_absorb (st, buf) data
      = foldl sha256_absorb (foldl sha256_absorb (st, buf) (take ?n data)) (drop ?n data)"
    by (simp flip: foldl_append)
  show ?case
  proof (cases "data = []")
    case False
    show ?thesis
    proof (cases "length (buf @ take ?n data) = 64")
      case True
      have "foldl sha256_absorb (st, buf) (take ?n data) = (sha256_compress st (buf @ take ?n data), [])"
        using True False "1.prems" by (intro foldl_absorb_full) auto
      with split True False 1 show ?thesis
        by (subst sha256_update_loop.simps) (simp add: Let_def)
    next
      case False': False
      have "foldl sha256_absorb (st, buf) (take ?n data) = (st, buf @ take ?n data)"
        using False' "1.prems" by (intro foldl_absorb_chunk) (auto simp: min_def split: if_splits)
      moreover have "length (buf @ take ?n data) < 64"
        using False' "1.prems" by (auto simp: min_def split: if_splits)
      ultimately show ?thesis
        using split False False' 1 by (subst sha256_update_loop.simps) (simp add: Let_def)
    qed
  qed (simp add: sha256_update_loop.simps)
qed

lemma foldl_absorb_buffer:
  "length (snd s) < 64 \<Longrightarrow> length (snd (foldl sha256_absorb s data)) < 64"
  by (induction data arbitrary: s) (auto simp: sha256_absorb_def Let_def)

lemma sha256_update_buffer:
  "length (sh_buffer s) < 64 \<Longrightarrow> length (sh_buffer (sha256_update s data)) < 64"
  using foldl_absorb_buffer [of "(sh_state s, sh_buffer s)" data]
  by (auto simp: sha256_update_def sha256_update_loop_absorb split: prod.splits)

lemma sha256_update_append:
  assumes "length (sh_buffer s) < 64"
  shows "sha256_update s (a @ b) = sha256_update (sha256_update s a) b"
proof -
  obtain st buf where ab: "foldl sha256_absorb (sh_state s, sh_buffer s) a = (st, buf)" by fastforce
  have "length buf < 64"
    using foldl_absorb_buffer [of "(sh_state s, sh_buffer s)" a] assms ab by simp
  then show ?thesis
    using assms ab
    by (simp add: sha256_update_def sha256_update_loop_absorb add.assoc split: prod.splits)
qed

lemma length_sha256_compress [simp]: "length (sha256_compress st block) = 8"
  by (simp add: sha256_compress_def Let_def split: prod.splits)

lemma length_sha256_word_bytes [simp]: "length (sha256_word_bytes w) = 4"
  by (simp add: sha256_word_bytes_def)

lemma length_sha256_digest [simp]: "length (sha256_digest s) = 32"
proof -
  have "length (concat (map sha256_word_bytes st)) = 4 * length st" for st
    by (induction st) auto
  then show ?thesis by (simp add: sha256_digest_def Let_def)
qed

lemma digest_ok_sha256_hash [simp]: "digest_ok (sha256_hash data)"
  by (simp add: digest_ok_def sha256_hash_def)

lemma digest_ok_zero [simp]: "digest_ok zero_digest"
  by (simp add: digest_ok_def zero_digest_def)

lemma digest_from_bytes_ok [simp]: "digest_ok d \<Longrightarrow> digest_from_bytes d = d"
  by (simp add: digest_ok_def digest_from_bytes_def)

end
