(* ===== verification/Utf8.thy ===== *)
theory Utf8
  imports Prelude
begin

text \<open>
  \<open>core/utf8.cpp\<close>: the validator every text field of a frame or a stored record passes through, and
  the helper that cuts a text at a code point boundary. The index into the text is the suffix that
  is still to be read.
\<close>

section \<open>The validator\<close>

text \<open>The branch on the lead byte: extra bytes, initial code point, least permitted code point.\<close>

definition utf8_lead :: "byte \<Rightarrow> (nat \<times> u32 \<times> u32) option" where
  "utf8_lead c0 =
    (if c0 AND 0xE0 = 0xC0 then Some (1, ucast (c0 AND 0x1F), 0x80)
     else if c0 AND 0xF0 = 0xE0 then Some (2, ucast (c0 AND 0x0F), 0x800)
     else if c0 AND 0xF8 = 0xF0 then Some (3, ucast (c0 AND 0x07), 0x10000)
     else None)"

text \<open>The loop over the continuation bytes.\<close>

fun utf8_continue :: "nat \<Rightarrow> bytes \<Rightarrow> u32 \<Rightarrow> u32 option" where
  "utf8_continue 0 rest cp = Some cp"
| "utf8_continue (Suc extra) [] cp = None"
| "utf8_continue (Suc extra) (ck # rest) cp =
    (if ck AND 0xC0 \<noteq> 0x80 then None
     else utf8_continue extra rest (push_bit 6 cp OR ucast (ck AND 0x3F)))"

function is_valid_utf8 :: "bytes \<Rightarrow> bool" where
  "is_valid_utf8 [] = True"
| "is_valid_utf8 (c0 # rest) =
    (if c0 < 0x80 then is_valid_utf8 rest
     else case utf8_lead c0 of
       None \<Rightarrow> False
     | Some (extra, cp0, minimum) \<Rightarrow>
         if length (c0 # rest) \<le> extra then False
         else case utf8_continue extra rest cp0 of
           None \<Rightarrow> False
         | Some cp \<Rightarrow>
             if cp < minimum then False
             else if cp > 0x10FFFF then False
             else if 0xD800 \<le> cp \<and> cp \<le> 0xDFFF then False
             else is_valid_utf8 (drop extra rest))"
  by pat_completeness auto
termination
  by (relation "measure length") auto

declare is_valid_utf8.simps(2) [simp del]

section \<open>Cutting at a code point boundary\<close>

text \<open>The walk back over continuation bytes; \<open>text[end]\<close> is in range since \<open>end < size\<close>.\<close>

fun utf8_walk_back :: "bytes \<Rightarrow> nat \<Rightarrow> nat" where
  "utf8_walk_back text 0 = 0"
| "utf8_walk_back text (Suc e) =
    (if text ! Suc e AND 0xC0 = 0x80 then utf8_walk_back text e else Suc e)"

definition utf8_prefix_length :: "bytes \<Rightarrow> nat \<Rightarrow> nat" where
  "utf8_prefix_length text max_bytes =
    (if length text \<le> max_bytes then length text else utf8_walk_back text max_bytes)"

section \<open>Facts\<close>

text \<open>ASCII text is valid, which is why every parsed identity can be read back from a blob.\<close>

lemma ascii_valid_utf8: "list_all (\<lambda>b. b < 0x80) bs \<Longrightarrow> is_valid_utf8 bs"
  by (induction bs) (auto simp: is_valid_utf8.simps(2))

lemma utf8_walk_back_le: "utf8_walk_back text e \<le> e"
  by (induction e) (auto intro: le_SucI)

lemma utf8_prefix_length_le: "utf8_prefix_length text n \<le> n"
  by (simp add: utf8_prefix_length_def utf8_walk_back_le)

lemma utf8_continue_drop:
  "utf8_continue extra rest cp = Some cp' \<Longrightarrow> extra \<le> length rest"
  by (induction extra rest cp rule: utf8_continue.induct) (auto split: if_splits)

lemma utf8_continue_append:
  "extra \<le> length rest \<Longrightarrow> utf8_continue extra (rest @ more) cp = utf8_continue extra rest cp"
  by (induction extra rest cp rule: utf8_continue.induct) auto

lemma utf8_continue_take:
  "extra \<le> length rest \<Longrightarrow> utf8_continue extra (take extra rest) cp = utf8_continue extra rest cp"
  using utf8_continue_append [of extra "take extra rest" "drop extra rest" cp] by simp

lemma utf8_continue_bytes:
  "utf8_continue extra rest cp = Some cp' \<Longrightarrow> i < extra \<Longrightarrow> rest ! i AND 0xC0 = 0x80"
proof (induction extra rest cp arbitrary: i rule: utf8_continue.induct)
  case (3 extra ck rest cp)
  then show ?case by (cases i) (auto split: if_splits)
qed auto

text \<open>A valid text does not begin with a continuation byte.\<close>

lemma lead_not_continuation:
  assumes "c0 AND 0xC0 = (0x80 :: byte)"
  shows "\<not> c0 < 0x80" "utf8_lead c0 = None"
proof -
  have "c0 AND 0xC0 \<le> c0" by (simp add: word_and_le2)
  with assms show "\<not> c0 < 0x80" by simp
  have "\<not> bit (c0 AND 0xC0) 6"
    using assms by (simp add: bit_numeral_rec)
  then have bit6: "\<not> bit c0 6"
    by (simp add: bit_simps bit_numeral_rec)
  have "\<not> bit (c0 AND 0xE0) 6" "\<not> bit (c0 AND 0xF0) 6" "\<not> bit (c0 AND 0xF8) 6"
    using bit6 by (simp_all add: bit_simps)
  moreover have "bit (0xC0 :: byte) 6" "bit (0xE0 :: byte) 6" "bit (0xF0 :: byte) 6"
    by (simp_all add: bit_numeral_rec)
  ultimately show "utf8_lead c0 = None"
    unfolding utf8_lead_def by metis
qed

text \<open>
  The first code point of a valid text occupies \<open>u\<close> bytes, of which all but the first are
  continuation bytes; what follows it decides the rest, whatever it is.
\<close>

lemma utf8_first_unit:
  assumes "is_valid_utf8 t" "t = c0 # rest"
  obtains u where "0 < u" "u \<le> length t"
    and "\<And>i. 0 < i \<Longrightarrow> i < u \<Longrightarrow> t ! i AND 0xC0 = 0x80"
    and "is_valid_utf8 (drop u t)"
    and "\<And>s. take u t = take u s \<Longrightarrow> is_valid_utf8 s = is_valid_utf8 (drop u s)"
proof (cases "c0 < 0x80")
  case True
  show thesis
  proof (rule that [of 1])
    fix s assume "take 1 t = take 1 s"
    then obtain s' where "s = c0 # s'" using assms(2) by (cases s) auto
    with True show "is_valid_utf8 s = is_valid_utf8 (drop 1 s)"
      by (simp add: is_valid_utf8.simps(2))
  qed (use True assms in \<open>auto simp: is_valid_utf8.simps(2)\<close>)
next
  case False
  with assms obtain extra cp0 m cp where lead: "utf8_lead c0 = Some (extra, cp0, m)"
    and cont: "utf8_continue extra rest cp0 = Some cp"
    and range: "\<not> cp < m" "\<not> cp > 0x10FFFF" "\<not> (0xD800 \<le> cp \<and> cp \<le> 0xDFFF)"
    and valid: "is_valid_utf8 (drop extra rest)"
    by (auto simp: is_valid_utf8.simps(2) split: option.splits if_splits prod.splits)
  have len: "extra \<le> length rest" using cont by (rule utf8_continue_drop)
  show thesis
  proof (rule that [of "Suc extra"])
    fix i assume "0 < i" "i < Suc extra"
    then show "t ! i AND 0xC0 = 0x80"
      using utf8_continue_bytes [OF cont, of "i - 1"] assms(2) by (simp add: nth_Cons')
  next
    fix s assume s: "take (Suc extra) t = take (Suc extra) s"
    then obtain t' where t': "s = c0 # t'" "take extra rest = take extra t'"
      using assms(2) by (cases s) auto
    have len': "extra \<le> length t'"
      using t'(2) len by (metis length_take min.absorb_iff2 min_def nle_le)
    have "utf8_continue extra t' cp0 = Some cp"
      using utf8_continue_take [OF len, of cp0] utf8_continue_take [OF len', of cp0] cont t'(2)
      by simp
    then show "is_valid_utf8 s = is_valid_utf8 (drop (Suc extra) s)"
      using False lead range len' t'(1) by (auto simp: is_valid_utf8.simps(2))
  qed (use len valid assms(2) in auto)
qed

lemma valid_utf8_start:
  assumes "is_valid_utf8 t" "t \<noteq> []"
  shows "t ! 0 AND 0xC0 \<noteq> (0x80 :: byte)"
  using assms by (cases t) (auto simp: is_valid_utf8.simps(2) lead_not_continuation)

lemma utf8_walk_back_shift:
  assumes "u \<le> e" "u \<le> length t" "t ! u AND 0xC0 \<noteq> (0x80 :: byte)"
  shows "utf8_walk_back t e = u + utf8_walk_back (drop u t) (e - u)"
  using assms(1)
proof (induction e)
  case (Suc e)
  show ?case
  proof (cases "u = Suc e")
    case True
    with assms(3) show ?thesis by simp
  next
    case False
    then have "Suc e - u = Suc (e - u)" and "u \<le> e" using Suc.prems by auto
    with Suc.IH assms(2) show ?thesis by simp
  qed
qed simp

lemma utf8_walk_back_zero:
  "(\<And>i. 0 < i \<Longrightarrow> i \<le> e \<Longrightarrow> t ! i AND 0xC0 = (0x80 :: byte)) \<Longrightarrow> utf8_walk_back t e = 0"
  by (induction e) auto

lemma utf8_walk_back_valid:
  "is_valid_utf8 t \<Longrightarrow> e < length t \<Longrightarrow> is_valid_utf8 (take (utf8_walk_back t e) t)"
proof (induction t arbitrary: e rule: length_induct)
  case (1 t)
  then obtain c0 rest where t: "t = c0 # rest" by (cases t) auto
  from 1 have "is_valid_utf8 t" by simp
  then obtain u where u: "0 < u" "u \<le> length t"
    and conts: "\<And>i. 0 < i \<Longrightarrow> i < u \<Longrightarrow> t ! i AND 0xC0 = (0x80 :: byte)"
    and rest_ok: "is_valid_utf8 (drop u t)"
    and decides: "\<And>t'. take u t = take u t' \<Longrightarrow> is_valid_utf8 t' = is_valid_utf8 (drop u t')"
    using t by (rule utf8_first_unit) blast
  show ?case
  proof (cases "e < u")
    case True
    then have "utf8_walk_back t e = 0" using conts by (intro utf8_walk_back_zero) auto
    then show ?thesis by simp
  next
    case False
    then have ne: "u < length t" using \<open>e < length t\<close> by simp
    have "t ! u AND 0xC0 \<noteq> (0x80 :: byte)"
      using valid_utf8_start [OF rest_ok] ne by simp
    then have wb: "utf8_walk_back t e = u + utf8_walk_back (drop u t) (e - u)"
      using False ne by (intro utf8_walk_back_shift) auto
    have "is_valid_utf8 (take (utf8_walk_back (drop u t) (e - u)) (drop u t))"
      using 1 u ne rest_ok False by auto
    moreover have "take u t = take u (take (utf8_walk_back t e) t)" using wb by simp
    ultimately show ?thesis
      using decides [of "take (utf8_walk_back t e) t"] wb by (simp add: drop_take)
  qed
qed

end
