(* ===== verification/Bytes.thy ===== *)
theory Bytes
  imports Hash Utf8
begin

text \<open>
  \<open>core/bytes.cpp\<close>: the big-endian codec every digest, stored record and frame body goes through.
  A \<open>ByteWriter\<close> only ever appends, so writing a field is the list of bytes it appends. A
  \<open>ByteReader\<close> is the suffix that is still to be read, and a read returns its value together with
  the rest, or the status of the failure. The locale \<open>codec\<close> states what one field or record
  promises its users; the record codecs are interpretations of it.
\<close>

section \<open>Writer\<close>

definition append_be :: "u64 \<Rightarrow> nat \<Rightarrow> bytes" where
  "append_be value width = map (\<lambda>i. ucast (drop_bit ((width - 1 - i) * 8) value)) [0..<width]"

definition w_u8 :: "u8 \<Rightarrow> bytes" where "w_u8 v = [v]"
definition w_u16 :: "u16 \<Rightarrow> bytes" where "w_u16 v = append_be (ucast v) 2"
definition w_u32 :: "u32 \<Rightarrow> bytes" where "w_u32 v = append_be (ucast v) 4"
definition w_u64 :: "u64 \<Rightarrow> bytes" where "w_u64 v = append_be v 8"
definition w_i64 :: "int \<Rightarrow> bytes" where "w_i64 v = append_be (word_of_int v) 8"
definition w_boolean :: "bool \<Rightarrow> bytes" where "w_boolean v = w_u8 (if v then 1 else 0)"
definition w_raw :: "bytes \<Rightarrow> bytes" where "w_raw d = d"

definition w_blob :: "string \<Rightarrow> bytes" where
  "w_blob text = w_u32 (word_of_nat (length text)) @ w_raw (bytes_of_string text)"

definition w_uuid :: "bytes \<Rightarrow> bytes" where "w_uuid v = w_raw v"
definition w_digest :: "digest \<Rightarrow> bytes" where "w_digest v = w_raw v"

text \<open>\<open>count\<close> writes nothing where the value does not fit, and says so.\<close>

definition w_count :: "nat \<Rightarrow> bool \<times> bytes" where
  "w_count v =
    (case to_u32 (word_of_nat v) of
       None \<Rightarrow> (False, [])
     | Some narrowed \<Rightarrow> (True, w_u32 narrowed))"

section \<open>Reader\<close>

type_synonym 'a reader = "bytes \<Rightarrow> ('a \<times> bytes) result"

text \<open>
  The pattern \<open>Result<T> x = read(); if (!x) return x.status();\<close> of the decoders: continue with the
  value, or return the status.
\<close>

definition and_then :: "'a reader \<Rightarrow> ('a \<Rightarrow> 'b reader) \<Rightarrow> 'b reader" where
  "and_then m f bs = (case m bs of Inl e \<Rightarrow> Inl e | Inr (x, rest) \<Rightarrow> f x rest)"

definition give :: "'a \<Rightarrow> 'a reader" where "give x bs = Inr (x, bs)"
definition refuse :: "status \<Rightarrow> 'a reader" where "refuse s bs = Inl s"

definition require :: "bool \<Rightarrow> status \<Rightarrow> 'a reader \<Rightarrow> 'a reader" where
  "require ok s k = (if ok then k else refuse s)"

definition be_value :: "bytes \<Rightarrow> u64" where
  "be_value bs = foldl (\<lambda>v b. push_bit 8 v OR ucast b) 0 bs"

definition read_be :: "nat \<Rightarrow> bytes \<Rightarrow> (u64 \<times> bytes) option" where
  "read_be width data =
    (if width > length data then None else Some (be_value (take width data), drop width data))"

definition r_u8 :: "u8 reader" where
  "r_u8 bs = (case bs of
     [] \<Rightarrow> Inl (status_make Outcome_Incomplete ''truncated frame: uint8'')
   | b # rest \<Rightarrow> Inr (b, rest))"

definition r_u16 :: "u16 reader" where
  "r_u16 bs = (case read_be 2 bs of
     None \<Rightarrow> Inl (status_make Outcome_Incomplete ''truncated frame: uint16'')
   | Some (v, rest) \<Rightarrow> Inr (ucast v, rest))"

definition r_u32 :: "u32 reader" where
  "r_u32 bs = (case read_be 4 bs of
     None \<Rightarrow> Inl (status_make Outcome_Incomplete ''truncated frame: uint32'')
   | Some (v, rest) \<Rightarrow> Inr (ucast v, rest))"

definition r_u64 :: "u64 reader" where
  "r_u64 bs = (case read_be 8 bs of
     None \<Rightarrow> Inl (status_make Outcome_Incomplete ''truncated frame: uint64'')
   | Some (v, rest) \<Rightarrow> Inr (v, rest))"

definition r_i64 :: "int reader" where
  "r_i64 = and_then r_u64 (\<lambda>v. give (sint v))"

definition r_boolean :: "bool reader" where
  "r_boolean = and_then r_u8 (\<lambda>v.
     require (\<not> v > 1) (invalid ''boolean field must be 0 or 1'') (give (v = 1)))"

definition r_raw :: "nat \<Rightarrow> bytes reader" where
  "r_raw n bs =
    (if n > length bs then Inl (status_make Outcome_Incomplete ''truncated frame: byte field'')
     else Inr (take n bs, drop n bs))"

definition r_blob :: "nat \<Rightarrow> string reader" where
  "r_blob max_length =
    and_then r_u32 (\<lambda>len.
    require (\<not> unat len > max_length) (invalid ''string field exceeds the maximum permitted length'')
    (and_then (r_raw (unat len)) (\<lambda>body.
    require (is_valid_utf8 body) (invalid ''string field is not valid UTF-8'')
    (give (string_of_bytes body)))))"

definition uuid_from_bytes :: "bytes \<Rightarrow> bytes" where
  "uuid_from_bytes bs = take 16 bs @ replicate (16 - length bs) 0"

definition r_uuid :: "bytes reader" where
  "r_uuid = and_then (r_raw 16) (\<lambda>body. give (uuid_from_bytes body))"

definition r_digest :: "digest reader" where
  "r_digest = and_then (r_raw 32) (\<lambda>body. give (digest_from_bytes body))"

definition r_count :: "nat \<Rightarrow> nat reader" where
  "r_count max_count =
    and_then r_u32 (\<lambda>v.
    require (\<not> unat v > max_count) (invalid ''collection count exceeds the maximum permitted size'')
    (give (unat v)))"

definition expect_end :: "bytes \<Rightarrow> status" where
  "expect_end rest =
    (if rest \<noteq> [] then invalid ''frame contains trailing bytes beyond the declared schema''
     else status_ok)"

section \<open>Running a chain of reads\<close>

lemma and_then_Inr [codec_simps]: "m bs = Inr (x, rest) \<Longrightarrow> and_then m f bs = f x rest"
  by (simp add: and_then_def)

lemma give_run [codec_simps, simp]: "give x bs = Inr (x, bs)"
  by (simp add: give_def)

lemma require_True [codec_simps, simp]: "require True s k = k"
  by (simp add: require_def)

lemma require_False [simp]: "require False s k = refuse s"
  by (simp add: require_def)

lemma refuse_run [simp]: "refuse s bs = Inl s"
  by (simp add: refuse_def)

lemma and_then_eq_Inr_iff:
  "and_then m f bs = Inr r \<longleftrightarrow> (\<exists>x rest. m bs = Inr (x, rest) \<and> f x rest = Inr r)"
  by (auto simp: and_then_def split: sum.splits)

lemma require_eq_Inr_iff: "require ok s k bs = Inr r \<longleftrightarrow> ok \<and> k bs = Inr r"
  by (simp add: require_def)

section \<open>Big-endian integers\<close>

lemma length_append_be [simp]: "length (append_be v n) = n"
  by (simp add: append_be_def)

lemma be_value_snoc: "be_value (bs @ [b]) = push_bit 8 (be_value bs) OR ucast b"
  by (simp add: be_value_def)

lemma append_be_Suc: "append_be v (Suc n) = append_be (drop_bit 8 v) n @ [ucast v]"
proof -
  have "map (\<lambda>i. ucast (drop_bit ((Suc n - 1 - i) * 8) v) :: byte) [0..<n]
      = map (\<lambda>i. ucast (drop_bit ((n - 1 - i) * 8) (drop_bit 8 v))) [0..<n]"
  proof (rule map_cong)
    fix i assume "i \<in> set [0..<n]"
    then have "(Suc n - 1 - i) * 8 = (n - 1 - i) * 8 + 8" by (auto simp: algebra_simps)
    then show "(ucast (drop_bit ((Suc n - 1 - i) * 8) v) :: byte)
        = ucast (drop_bit ((n - 1 - i) * 8) (drop_bit 8 v))"
      by (simp add: add.commute)
  qed simp
  then show ?thesis by (simp add: append_be_def)
qed

lemma be_value_append_be: "be_value (append_be v n) = take_bit (n * 8) v"
proof (induction n arbitrary: v)
  case 0
  show ?case by (simp add: append_be_def be_value_def)
next
  case (Suc n)
  have "push_bit 8 (take_bit (n * 8) (drop_bit 8 v)) OR ucast (ucast v :: byte)
      = take_bit (Suc n * 8) v"
    by (rule bit_word_eqI) (auto simp: bit_simps not_le)
  then show ?case by (simp only: append_be_Suc be_value_snoc Suc.IH)
qed

lemma read_be_append_be: "read_be n (append_be v n @ rest) = Some (take_bit (n * 8) v, rest)"
  by (simp add: read_be_def be_value_append_be)

section \<open>What a codec promises\<close>

text \<open>
  \<open>enc\<close> writes a value, \<open>dec\<close> reads one. On every value that satisfies \<open>ok\<close>, reading what was
  written gives the value back and leaves exactly what followed it.
\<close>

locale codec =
  fixes enc :: "'a \<Rightarrow> bytes" and dec :: "'a reader" and ok :: "'a \<Rightarrow> bool"
  assumes dec_enc: "ok x \<Longrightarrow> dec (enc x @ rest) = Inr (x, rest)"
begin

lemma dec_enc_end: "ok x \<Longrightarrow> dec (enc x) = Inr (x, [])"
  using dec_enc [of x "[]"] by simp

text \<open>The encoding is prefix free, hence injective: equal bytes mean equal records.\<close>

lemma enc_prefix_free:
  assumes "ok x" "ok y" "enc x @ r = enc y @ r'"
  shows "x = y \<and> r = r'"
  using dec_enc [OF assms(1), of r] dec_enc [OF assms(2), of r'] unfolding assms(3) by simp

lemma enc_inj: "ok x \<Longrightarrow> ok y \<Longrightarrow> enc x = enc y \<Longrightarrow> x = y"
  using enc_prefix_free [of x y "[]" "[]"] by simp

lemma dec_step: "ok x \<Longrightarrow> and_then dec f (enc x @ rest) = f x rest"
  by (simp add: and_then_def dec_enc)

end

text \<open>The loop \<open>for (i = 0; i < count; ++i)\<close> that decodes a bounded collection.\<close>

fun read_times :: "nat \<Rightarrow> 'a reader \<Rightarrow> 'a list reader" where
  "read_times 0 m = give []"
| "read_times (Suc n) m = and_then m (\<lambda>x. and_then (read_times n m) (\<lambda>xs. give (x # xs)))"

context codec
begin

lemma read_times_enc:
  "list_all ok xs \<Longrightarrow> read_times (length xs) dec (concat (map enc xs) @ rest) = Inr (xs, rest)"
  by (induction xs) (simp_all add: dec_step and_then_Inr)

end

section \<open>The field codecs\<close>

interpretation u8: codec w_u8 r_u8 "\<lambda>_. True"
  by unfold_locales (simp add: w_u8_def r_u8_def)

lemma u16_through_u64: "(ucast (take_bit 16 (ucast (v :: u16) :: u64)) :: u16) = v"
  by (rule bit_word_eqI) (auto simp: bit_simps)

lemma u32_through_u64: "(ucast (take_bit 32 (ucast (v :: u32) :: u64)) :: u32) = v"
  by (rule bit_word_eqI) (auto simp: bit_simps)

interpretation u16: codec w_u16 r_u16 "\<lambda>_. True"
  using read_be_append_be [where n = 2] u16_through_u64
  by unfold_locales (simp add: w_u16_def r_u16_def)

interpretation u32: codec w_u32 r_u32 "\<lambda>_. True"
  using read_be_append_be [where n = 4] u32_through_u64
  by unfold_locales (simp add: w_u32_def r_u32_def)

lemma take_bit_64: "take_bit 64 (v :: u64) = v"
  by (rule bit_word_eqI) (auto simp: bit_simps)

interpretation u64: codec w_u64 r_u64 "\<lambda>_. True"
  using read_be_append_be [where n = 8] take_bit_64
  by unfold_locales (simp add: w_u64_def r_u64_def)

interpretation i64: codec w_i64 r_i64 i64_ok
proof
  fix x :: int and rest :: bytes assume "i64_ok x"
  then show "r_i64 (w_i64 x @ rest) = Inr (x, rest)"
    using u64.dec_enc [of "word_of_int x" rest]
    by (simp add: r_i64_def w_i64_def w_u64_def and_then_Inr i64_roundtrip)
qed

interpretation boolean: codec w_boolean r_boolean "\<lambda>_. True"
  using u8.dec_enc by unfold_locales (simp add: w_boolean_def r_boolean_def and_then_Inr)

lemma r_raw_append: "length d = n \<Longrightarrow> r_raw n (d @ rest) = Inr (d, rest)"
  by (simp add: r_raw_def)

definition uuid_ok :: "bytes \<Rightarrow> bool" where "uuid_ok u \<longleftrightarrow> length u = 16"

interpretation uuid: codec w_uuid r_uuid uuid_ok
  by unfold_locales
    (simp add: w_uuid_def w_raw_def r_uuid_def uuid_ok_def and_then_Inr r_raw_append uuid_from_bytes_def)

interpretation digest: codec w_digest r_digest digest_ok
  by unfold_locales
    (simp add: w_digest_def w_raw_def r_digest_def digest_ok_def and_then_Inr r_raw_append
      digest_from_bytes_def)

definition text_ok :: "nat \<Rightarrow> string \<Rightarrow> bool" where
  "text_ok n s \<longleftrightarrow> length s \<le> n \<and> n < 2 ^ 32 \<and> is_valid_utf8 (bytes_of_string s)"

lemma unat_word_of_nat_u32: "n < 2 ^ 32 \<Longrightarrow> unat (word_of_nat n :: u32) = n"
  by (simp add: unat_of_nat take_bit_nat_eq_self)

interpretation blob: codec w_blob "r_blob n" "text_ok n" for n
proof
  fix x :: string and rest :: bytes assume ok: "text_ok n x"
  then have len: "unat (word_of_nat (length x) :: u32) = length x"
    by (auto simp: text_ok_def intro: unat_word_of_nat_u32)
  have raw: "r_raw (length x) (bytes_of_string x @ rest) = Inr (bytes_of_string x, rest)"
    by (simp add: r_raw_append)
  show "r_blob n (w_blob x @ rest) = Inr (x, rest)"
    using ok by (simp add: w_blob_def w_raw_def r_blob_def u32.dec_step len text_ok_def
        and_then_Inr raw)
qed

text \<open>A count written before a collection that the registry keeps below its bound.\<close>

interpretation count: codec "\<lambda>n. snd (w_count n)" "r_count k" "\<lambda>n. n \<le> k \<and> k < 2 ^ 32" for k
proof
  fix n :: nat and rest :: bytes assume ok: "n \<le> k \<and> k < 2 ^ 32"
  then have small: "n < 2 ^ 32" by simp
  then have w: "unat (word_of_nat n :: u64) = n"
    by (simp add: unat_of_nat take_bit_nat_eq_self)
  have le: "\<not> (word_of_nat n :: u64) > 4294967295"
    using small w by (simp add: word_less_nat_alt)
  then obtain v where v: "to_u32 (word_of_nat n) = Some v" by (simp add: to_u32_def)
  then have "unat v = n" using to_u32_SomeD w by metis
  then show "r_count k (snd (w_count n) @ rest) = Inr (n, rest)"
    using v ok by (simp add: w_count_def r_count_def u32.dec_step)
qed

lemma length_field [simp]:
  "length (w_u8 a) = 1" "length (w_u16 b) = 2" "length (w_u32 c) = 4" "length (w_u64 d) = 8"
  "length (w_i64 e) = 8" "length (w_boolean f) = 1"
  by (simp_all add: w_u8_def w_u16_def w_u32_def w_u64_def w_i64_def w_boolean_def)

lemma length_w_blob [simp]: "length (w_blob s) = 4 + length s"
  by (simp add: w_blob_def w_raw_def)

text \<open>The rules that drive a record's round trip: one step of the decoder per field.\<close>

lemmas field_steps [codec_simps] =
  u8.dec_step u16.dec_step u32.dec_step u64.dec_step i64.dec_step boolean.dec_step
  uuid.dec_step digest.dec_step blob.dec_step count.dec_step

section \<open>Canonical codecs\<close>

text \<open>
  A canonical codec also accepts nothing but encodings: what it reads satisfies \<open>ok\<close> and is exactly
  what the writer would have written, so no two byte strings stand for one value.
\<close>

locale canonical_codec = codec +
  assumes dec_sound: "dec bs = Inr (x, rest) \<Longrightarrow> ok x \<and> bs = enc x @ rest"
begin

lemma dec_iff: "dec bs = Inr (x, rest) \<longleftrightarrow> ok x \<and> bs = enc x @ rest"
  using dec_sound dec_enc by blast

lemma dec_unique:
  assumes "dec bs = Inr (x, [])" "dec bs' = Inr (x, [])"
  shows "bs = bs'"
  using assms by (simp add: dec_iff)

lemma read_times_sound:
  "read_times n dec bs = Inr (xs, rest) \<Longrightarrow>
    length xs = n \<and> list_all ok xs \<and> bs = concat (map enc xs) @ rest"
proof (induction n arbitrary: bs xs)
  case (Suc n)
  then obtain x r1 ys where x: "dec bs = Inr (x, r1)" and ys: "read_times n dec r1 = Inr (ys, rest)"
    and xs: "xs = x # ys"
    by (auto simp: and_then_eq_Inr_iff)
  show ?case using Suc.IH [OF ys] dec_sound [OF x] xs by simp
qed simp

end

lemma append_be_be_value: "length bs \<le> 8 \<Longrightarrow> append_be (be_value bs) (length bs) = bs"
proof (induction bs rule: rev_induct)
  case Nil
  show ?case by (simp add: append_be_def)
next
  case (snoc b bs)
  have len: "length bs \<le> 7" using snoc.prems by simp
  then have IH: "append_be (be_value bs) (length bs) = bs" using snoc.IH by simp
  have small: "n < 56" if "bit (be_value bs) n" for n
  proof -
    have "bit (take_bit (length bs * 8) (be_value bs)) n"
      using that be_value_append_be [of "be_value bs" "length bs"] unfolding IH by simp
    then show ?thesis using len by (simp add: bit_take_bit_iff)
  qed
  have "drop_bit 8 (push_bit 8 (be_value bs) OR ucast b) = be_value bs"
    by (rule bit_word_eqI) (auto simp: bit_simps dest: small bit_imp_le_length)
  moreover have "(ucast (push_bit 8 (be_value bs) OR ucast b :: u64) :: byte) = b"
    by (rule bit_word_eqI) (auto simp: bit_simps)
  ultimately show ?case using IH by (simp add: append_be_Suc be_value_snoc)
qed

lemma read_be_sound:
  "read_be n bs = Some (v, rest) \<Longrightarrow> n \<le> 8 \<Longrightarrow> bs = append_be v n @ rest \<and> v = take_bit (n * 8) v"
  using append_be_be_value [of "take n bs"] be_value_append_be [of "be_value (take n bs)" n]
  by (auto simp: read_be_def split: if_splits)

lemma u16_back: "(ucast (ucast (v :: u64) :: u16) :: u64) = take_bit 16 v"
  by (rule bit_word_eqI) (auto simp: bit_simps)

lemma u32_back: "(ucast (ucast (v :: u64) :: u32) :: u64) = take_bit 32 v"
  by (rule bit_word_eqI) (auto simp: bit_simps)

lemma r_u8_sound: "r_u8 bs = Inr (v, rest) \<Longrightarrow> bs = w_u8 v @ rest"
  by (auto simp: r_u8_def w_u8_def split: list.splits)

lemma r_u16_sound: "r_u16 bs = Inr (v, rest) \<Longrightarrow> bs = w_u16 v @ rest"
  by (auto simp: r_u16_def w_u16_def split: option.splits simp: u16_back dest!: read_be_sound)

lemma r_u32_sound: "r_u32 bs = Inr (v, rest) \<Longrightarrow> bs = w_u32 v @ rest"
  by (auto simp: r_u32_def w_u32_def split: option.splits simp: u32_back dest!: read_be_sound)

lemma r_u64_sound: "r_u64 bs = Inr (v, rest) \<Longrightarrow> bs = w_u64 v @ rest"
  by (auto simp: r_u64_def w_u64_def split: option.splits dest!: read_be_sound)

interpretation u8: canonical_codec w_u8 r_u8 "\<lambda>_. True"
  by unfold_locales (simp add: r_u8_sound)

interpretation u16: canonical_codec w_u16 r_u16 "\<lambda>_. True"
  by unfold_locales (simp add: r_u16_sound)

interpretation u32: canonical_codec w_u32 r_u32 "\<lambda>_. True"
  by unfold_locales (simp add: r_u32_sound)

interpretation u64: canonical_codec w_u64 r_u64 "\<lambda>_. True"
  by unfold_locales (simp add: r_u64_sound)

interpretation i64: canonical_codec w_i64 r_i64 i64_ok
  by unfold_locales
    (auto simp: r_i64_def and_then_eq_Inr_iff w_i64_def w_u64_def dest!: r_u64_sound)

lemma u8_boolean: "\<not> v > (1 :: u8) \<Longrightarrow> w_u8 v = w_boolean (v = 1)"
proof -
  assume "\<not> v > 1"
  then have "unat v \<le> 1" by (simp add: word_less_nat_alt)
  then have "unat v = unat (0 :: u8) \<or> unat v = unat (1 :: u8)" by auto
  then have "v = 0 \<or> v = 1" by (metis unsigned_word_eqI)
  then show ?thesis by (auto simp: w_boolean_def)
qed

interpretation boolean: canonical_codec w_boolean r_boolean "\<lambda>_. True"
  by unfold_locales
    (auto simp: r_boolean_def and_then_eq_Inr_iff require_eq_Inr_iff u8_boolean dest!: r_u8_sound)

lemma r_raw_sound: "r_raw n bs = Inr (d, rest) \<Longrightarrow> length d = n \<and> bs = d @ rest"
  by (auto simp: r_raw_def split: if_splits)

interpretation uuid: canonical_codec w_uuid r_uuid uuid_ok
  by unfold_locales
    (auto simp: r_uuid_def and_then_eq_Inr_iff uuid_from_bytes_def uuid_ok_def w_uuid_def w_raw_def
      dest!: r_raw_sound)

interpretation digest: canonical_codec w_digest r_digest digest_ok
  by unfold_locales
    (auto simp: r_digest_def and_then_eq_Inr_iff digest_from_bytes_def digest_ok_def w_digest_def w_raw_def
      dest!: r_raw_sound)

lemma r_blob_sound:
  assumes "r_blob n bs = Inr (s, rest)" "n < 2 ^ 32"
  shows "text_ok n s \<and> bs = w_blob s @ rest"
  using assms
  by (auto simp: r_blob_def and_then_eq_Inr_iff require_eq_Inr_iff text_ok_def w_blob_def w_raw_def
      dest!: r_u32_sound r_raw_sound)

lemma word_nat_cast_u32: "ucast (word_of_nat (unat (v :: u32)) :: u64) = v"
  by (rule bit_word_eqI) (auto simp: bit_simps)

lemma r_count_sound:
  assumes "r_count k bs = Inr (n, rest)" "k < 2 ^ 32"
  shows "n \<le> k \<and> bs = snd (w_count n) @ rest"
proof -
  obtain v where v: "bs = w_u32 v @ rest" "unat v = n" "n \<le> k"
    using assms(1) by (auto simp: r_count_def and_then_eq_Inr_iff require_eq_Inr_iff dest!: r_u32_sound)
  have "unat v < 2 ^ 32" using unsigned_less [of v, where ?'a = nat] by simp
  then have "unat (word_of_nat n :: u64) = unat v"
    using v(2) by (simp add: unat_of_nat take_bit_nat_eq_self)
  moreover from this have "ucast (word_of_nat n :: u64) = v"
    using v(2) word_nat_cast_u32 [of v] by simp
  ultimately have "to_u32 (word_of_nat n) = Some v"
    using \<open>unat v < 2 ^ 32\<close> by (simp add: to_u32_def word_less_nat_alt)
  then show ?thesis using v by (simp add: w_count_def)
qed

lemmas field_sound = r_u8_sound r_u16_sound r_u32_sound r_u64_sound
  i64.dec_sound boolean.dec_sound uuid.dec_sound digest.dec_sound

end
