(* ===== verification/Ids.thy ===== *)
theory Ids
  imports Bytes
begin

text \<open>
  \<open>core/ids.hpp\<close> and \<open>core/ids.cpp\<close>: text identities with a validated character set, UUIDs as the
  list of their sixteen bytes, and the type names of the strongly typed identities. The counters
  are in \<open>Checked\<close>.
\<close>

type_synonym uuid = bytes

type_synonym cluster_id = string
type_synonym domain_id = string
type_synonym endpoint_id = string
type_synonym edge_id = string
type_synonym path_id = string
type_synonym scope_name = string

type_synonym incarnation_id = uuid
type_synonym contract_id = uuid
type_synonym grant_id = uuid
type_synonym attempt_id = uuid
type_synonym session_token = uuid
type_synonym reservation_id = uuid

type_synonym timestamp = int
type_synonym duration = int

section \<open>Text identities\<close>

record name_tag =
  nt_extra :: string
  nt_max_length :: nat
  nt_leading :: bool

definition id_tag :: name_tag where
  "id_tag = \<lparr>nt_extra = ''._-'', nt_max_length = kMaxNameLength, nt_leading = False\<rparr>"

definition scope_tag :: name_tag where
  "scope_tag = \<lparr>nt_extra = ''._-/:@'', nt_max_length = kMaxScopeLength, nt_leading = True\<rparr>"

definition is_alnum :: "char \<Rightarrow> bool" where
  "is_alnum c \<longleftrightarrow>
    char_between (CHR ''a'') (CHR ''z'') c \<or> char_between (CHR ''A'') (CHR ''Z'') c
    \<or> char_between (CHR ''0'') (CHR ''9'') c"

definition is_extra :: "name_tag \<Rightarrow> char \<Rightarrow> bool" where
  "is_extra tag c \<longleftrightarrow> list_ex (\<lambda>extra. c = extra) (nt_extra tag)"

definition name_parse :: "name_tag \<Rightarrow> string \<Rightarrow> string result" where
  "name_parse tag text =
    (if text = [] then Inl (invalid ''identifier must not be empty'')
     else if length text > nt_max_length tag
     then Inl (invalid ''identifier exceeds the maximum permitted length'')
     else if \<not> is_alnum (hd text) \<and> \<not> (nt_leading tag \<and> is_extra tag (hd text))
     then Inl (invalid ''identifier must begin with an alphanumeric character'')
     else if \<not> list_all (\<lambda>c. is_alnum c \<or> is_extra tag c) text
     then Inl (invalid ''identifier contains a character outside the permitted set'')
     else Inr text)"

definition name_ok :: "name_tag \<Rightarrow> string \<Rightarrow> bool" where
  "name_ok tag s \<longleftrightarrow> name_parse tag s = Inr s"

section \<open>UUIDs\<close>

definition nil_uuid :: uuid where
  "nil_uuid = replicate 16 0"

definition is_nil :: "uuid \<Rightarrow> bool" where
  "is_nil u \<longleftrightarrow> list_all (\<lambda>b. b = 0) u"

definition uuid_hex :: "uuid \<Rightarrow> string" where
  "uuid_hex u = concat (map (\<lambda>b. [kHex ! unat (drop_bit 4 b), kHex ! unat (b AND 0x0F)]) u)"

definition uuid_to_string :: "uuid \<Rightarrow> string" where
  "uuid_to_string u =
    (let raw = uuid_hex u
     in concat (map (\<lambda>i. (if i = 8 \<or> i = 12 \<or> i = 16 \<or> i = 20 then ''-'' else []) @ [raw ! i])
          [0..<length raw]))"

text \<open>The parser's loop; \<open>high\<close> is the pending first digit, \<open>None\<close> for the source's \<open>-1\<close>.\<close>

fun uuid_parse_loop :: "string \<Rightarrow> bytes \<Rightarrow> nat option \<Rightarrow> (bytes \<times> nat option) result" where
  "uuid_parse_loop [] written high = Inr (written, high)"
| "uuid_parse_loop (c # cs) written high =
    (if c = CHR ''-'' then uuid_parse_loop cs written high
     else case hex_value c of
       None \<Rightarrow> Inl (invalid ''uuid contains a non-hex character'')
     | Some value \<Rightarrow>
         (case high of
            None \<Rightarrow> uuid_parse_loop cs written (Some value)
          | Some h \<Rightarrow>
              if length written \<ge> 16 then Inl (invalid ''uuid is longer than 32 hex characters'')
              else uuid_parse_loop cs
                     (written @ [push_bit 4 (word_of_nat h) OR word_of_nat value]) None))"

definition uuid_parse :: "string \<Rightarrow> uuid result" where
  "uuid_parse text =
    (case uuid_parse_loop text [] None of
       Inl e \<Rightarrow> Inl e
     | Inr (written, high) \<Rightarrow>
         if high \<noteq> None \<or> length written \<noteq> 16
         then Inl (invalid ''uuid must contain exactly 32 hex characters'')
         else Inr written)"

text \<open>The version 4 layout put on sixteen random bytes.\<close>

definition uuid_from_random :: "bytes \<Rightarrow> uuid" where
  "uuid_from_random bs =
    bs[6 := (bs ! 6 AND 0x0F) OR 0x40, 8 := (bs ! 8 AND 0x3F) OR 0x80]"

section \<open>Facts\<close>

lemma name_parse_InrD: "name_parse tag s = Inr t \<Longrightarrow> t = s"
  by (auto simp: name_parse_def split: if_splits)

lemma name_ok_nonempty: "name_ok tag s \<Longrightarrow> s \<noteq> []"
  by (auto simp: name_ok_def name_parse_def)

lemma name_ok_length: "name_ok tag s \<Longrightarrow> length s \<le> nt_max_length tag"
  by (auto simp: name_ok_def name_parse_def split: if_splits)

lemma is_alnum_ascii: "is_alnum c \<Longrightarrow> (of_char c :: nat) < 128"
  by (auto simp: is_alnum_def less_eq_char_def)

lemma id_tag_extra_ascii: "is_extra id_tag c \<Longrightarrow> (of_char c :: nat) < 128"
  by (auto simp: is_extra_def id_tag_def)

lemma scope_tag_extra_ascii: "is_extra scope_tag c \<Longrightarrow> (of_char c :: nat) < 128"
  by (auto simp: is_extra_def scope_tag_def)

lemma ascii_string_valid_utf8:
  "list_all (\<lambda>c. (of_char c :: nat) < 128) s \<Longrightarrow> is_valid_utf8 (bytes_of_string s)"
  by (intro ascii_valid_utf8) (auto simp: bytes_of_string_def list_all_iff word_less_nat_alt)

lemma name_ok_chars: "name_ok tag s \<Longrightarrow> list_all (\<lambda>c. is_alnum c \<or> is_extra tag c) s"
  by (auto simp: name_ok_def name_parse_def split: if_splits)

lemma name_ok_text [simp]:
  "name_ok id_tag s \<Longrightarrow> text_ok kMaxNameLength s"
  "name_ok scope_tag s \<Longrightarrow> text_ok kMaxScopeLength s"
proof -
  assume ok: "name_ok id_tag s"
  then have "is_valid_utf8 (bytes_of_string s)"
    using name_ok_chars [OF ok] is_alnum_ascii id_tag_extra_ascii
    by (intro ascii_string_valid_utf8) (auto simp: list_all_iff)
  then show "text_ok kMaxNameLength s"
    using name_ok_length [OF ok] by (simp add: text_ok_def id_tag_def kMaxNameLength_def)
next
  assume ok: "name_ok scope_tag s"
  then have "is_valid_utf8 (bytes_of_string s)"
    using name_ok_chars [OF ok] is_alnum_ascii scope_tag_extra_ascii
    by (intro ascii_string_valid_utf8) (auto simp: list_all_iff)
  then show "text_ok kMaxScopeLength s"
    using name_ok_length [OF ok] by (simp add: text_ok_def scope_tag_def kMaxScopeLength_def)
qed

subsection \<open>Hex digits\<close>

lemma hex_value_kHex: "n < 16 \<Longrightarrow> hex_value (kHex ! n) = Some n"
proof -
  assume n: "n < 16"
  have "list_all (\<lambda>n. hex_value (kHex ! n) = Some n) [0..<16]" by code_simp
  with n show ?thesis by (simp add: list_all_iff)
qed

lemma kHex_not_dash: "n < 16 \<Longrightarrow> kHex ! n \<noteq> CHR ''-''"
  using hex_value_kHex [of n] by (auto simp: hex_value_def less_eq_char_def)

lemma unat_drop_bit4: "unat (drop_bit 4 (b :: byte)) < 16"
proof -
  have "unat b < 256" using unsigned_less [of b, where ?'a = nat] by simp
  then show ?thesis by (simp add: drop_bit_eq_div unat_div)
qed

lemma unat_and_0F: "unat ((b :: byte) AND 0x0F) < 16"
proof -
  have "b AND 0x0F \<le> 0x0F" by (simp add: word_and_le1)
  then show ?thesis by (simp add: word_le_nat_alt)
qed

lemma nibbles_or: "push_bit 4 (drop_bit 4 (b :: byte)) OR (b AND 0x0F) = b"
proof -
  have "push_bit 4 (drop_bit 4 b) OR (b AND mask 4) = b"
    by (rule bit_word_eqI) (auto simp: bit_simps)
  moreover have "mask 4 = (0x0F :: byte)" by (simp add: mask_eq_exp_minus_1)
  ultimately show ?thesis by simp
qed

lemma nibbles_join: "push_bit 4 (word_of_nat (unat (drop_bit 4 (b :: byte)))) OR
    word_of_nat (unat (b AND 0x0F)) = b"
  by (simp add: nibbles_or)

subsection \<open>Printing and parsing a UUID\<close>

lemma uuid_parse_loop_no_dash:
  "uuid_parse_loop (filter (\<lambda>c. c \<noteq> CHR ''-'') cs) written high = uuid_parse_loop cs written high"
  by (induction cs written high rule: uuid_parse_loop.induct)
    (auto split: option.splits)

lemma uuid_hex_Cons:
  "uuid_hex (b # u) = kHex ! unat (drop_bit 4 b) # kHex ! unat (b AND 0x0F) # uuid_hex u"
  by (simp add: uuid_hex_def)

lemma uuid_parse_loop_hex:
  "length written + length u \<le> 16 \<Longrightarrow>
    uuid_parse_loop (uuid_hex u) written None = Inr (written @ u, None)"
proof (induction u arbitrary: written)
  case Nil
  then show ?case by (simp add: uuid_hex_def)
next
  case (Cons b u)
  then show ?case
    using kHex_not_dash [OF unat_drop_bit4, of b] kHex_not_dash [OF unat_and_0F, of b]
    by (simp add: uuid_hex_Cons hex_value_kHex [OF unat_drop_bit4] hex_value_kHex [OF unat_and_0F]
        nibbles_or)
qed

lemma uuid_hex_no_dash: "filter (\<lambda>c. c \<noteq> CHR ''-'') (uuid_hex u) = uuid_hex u"
  by (induction u)
    (simp_all add: uuid_hex_Cons kHex_not_dash unat_drop_bit4 unat_and_0F, simp add: uuid_hex_def)

lemma filter_dashed:
  "filter (\<lambda>c. c \<noteq> CHR ''-'')
     (concat (map (\<lambda>i. (if P i then ''-'' else []) @ [raw ! i]) [0..<n]))
   = filter (\<lambda>c. c \<noteq> CHR ''-'') (map (\<lambda>i. raw ! i) [0..<n])"
  by (induction n) auto

lemma uuid_to_string_no_dash: "filter (\<lambda>c. c \<noteq> CHR ''-'') (uuid_to_string u) = uuid_hex u"
  unfolding uuid_to_string_def Let_def filter_dashed map_nth uuid_hex_no_dash by (rule refl)

lemma uuid_parse_to_string: "uuid_ok u \<Longrightarrow> uuid_parse (uuid_to_string u) = Inr u"
  using uuid_parse_loop_hex [of "[]" u]
  by (simp add: uuid_parse_def uuid_to_string_no_dash uuid_ok_def
      flip: uuid_parse_loop_no_dash [of "uuid_to_string u"])

lemma uuid_parse_ok: "uuid_parse t = Inr u \<Longrightarrow> uuid_ok u"
  by (auto simp: uuid_parse_def uuid_ok_def split: sum.splits if_splits)

lemma nil_uuid_ok [simp]: "uuid_ok nil_uuid"
  by (simp add: uuid_ok_def nil_uuid_def)

lemma is_nil_iff: "uuid_ok u \<Longrightarrow> is_nil u \<longleftrightarrow> u = nil_uuid"
  by (auto simp: is_nil_def nil_uuid_def uuid_ok_def list_all_iff intro: replicate_eqI)

end
