(* ===== verification/Core_Properties.thy ===== *)
theory Core_Properties
  imports Bytes Ids
begin

text \<open>
  The properties of the core library: checked arithmetic, identifiers, text, hashing and the
  byte codec.
\<close>

section \<open>Checked arithmetic\<close>

text \<open>
  The checked operations on 64-bit values return the mathematical result exactly when it fits,
  and nothing otherwise; the overflow guards themselves never wrap.
\<close>

lemma checked_arithmetic_exact:
  "map_option unat (add_u64 a b) = (if unat a + unat b < 2 ^ 64 then Some (unat a + unat b) else None)
   \<and> map_option unat (sub_u64 a b) = (if unat b \<le> unat a then Some (unat a - unat b) else None)
   \<and> map_option unat (mul_u64 a b) = (if unat a * unat b < 2 ^ 64 then Some (unat a * unat b) else None)
   \<and> map_option unat (to_u32 a) = (if unat a < 2 ^ 32 then Some (unat a) else None)"
proof (intro conjI)
  show "map_option unat (add_u64 a b) = (if unat a + unat b < 2 ^ 64 then Some (unat a + unat b) else None)"
    by (auto simp: add_u64_spec unat_add_small)
  show "map_option unat (sub_u64 a b) = (if unat b \<le> unat a then Some (unat a - unat b) else None)"
    by (auto simp: sub_u64_def unat_sub_le word_le_nat_alt word_less_nat_alt)
  show "map_option unat (mul_u64 a b) = (if unat a * unat b < 2 ^ 64 then Some (unat a * unat b) else None)"
    by (auto simp: mul_u64_spec unat_word_ariths)
  show "map_option unat (to_u32 a) = (if unat a < 2 ^ 32 then Some (unat a) else None)"
    using to_u32_SomeD [of a] by (auto simp: to_u32_def word_le_nat_alt word_less_nat_alt)
qed

section \<open>Identifiers and text\<close>

text \<open>Parsing the printed form of a UUID gives the UUID back.\<close>

lemma uuid_text_round_trip:
  assumes "uuid_ok u"
  shows "uuid_parse (uuid_to_string u) = Inr u"
  using assms by (rule uuid_parse_to_string)

text \<open>
  Cutting valid UTF-8 at the computed length never splits a code point: the length is within the
  limit and within the text, the cut text is valid, and a text that fits is not cut.
\<close>


lemma utf8_prefix_is_valid:
  assumes "is_valid_utf8 t"
  shows "utf8_prefix_length t n \<le> min n (length t) \<and> is_valid_utf8 (take (utf8_prefix_length t n) t)
    \<and> (length t \<le> n \<longrightarrow> take (utf8_prefix_length t n) t = t)"
proof (cases "length t \<le> n")
  case True
  then show ?thesis using assms by (simp add: utf8_prefix_length_def)
next
  case False
  then show ?thesis
    using utf8_walk_back_valid [OF assms, of n] utf8_walk_back_le [of t n]
    by (simp add: utf8_prefix_length_def)
qed

section \<open>Hashing\<close>

text \<open>
  The incremental SHA-256 does not depend on how its input is split: feeding any list of chunks
  one after the other gives the digest of their concatenation.
\<close>

lemma sha256_chunks:
  "sha256_digest (foldl sha256_update sha256_reset chunks) = sha256_hash (concat chunks)"
proof -
  have "length (sh_buffer s) < 64 \<Longrightarrow> foldl sha256_update s chunks = sha256_update s (concat chunks)" for s
  proof (induction chunks arbitrary: s)
    case Nil
    then show ?case by (simp add: sha256_update_def sha256_update_loop.simps)
  next
    case (Cons c cs)
    then show ?case using sha256_update_buffer [of s c] by (simp add: sha256_update_append)
  qed
  then show ?thesis by (simp add: sha256_hash_def sha256_reset_def)
qed

text \<open>
  The comparison that does not return early decides equality of byte strings.
\<close>

lemma constant_time_equal_decides:
  "constant_time_equal a b \<longleftrightarrow> a = b"
  by (rule constant_time_equal_iff)

end
