(* ===== verification/Ordered_Map.thy ===== *)
theory Ordered_Map
  imports Prelude
begin

text \<open>
  \<open>std::map\<close>, the container of every registry table: a finite map whose iteration visits the keys
  in increasing order. The model is the list of entries in iteration order. The locale
  \<open>ordered_map\<close> is what the registry relies on; \<open>om\<close> below shows the list model keeps it.
\<close>

type_synonym ('k, 'v) omap = "('k \<times> 'v) list"

section \<open>The interface\<close>

lemma map_fst_map_of_eq:
  assumes "map fst xs = map fst ys" "distinct (map fst xs)" "map_of xs = map_of ys"
  shows "xs = ys"
proof (rule nth_equalityI)
  show len: "length xs = length ys" using assms(1) by (metis length_map)
  fix i assume i: "i < length xs"
  have k: "fst (xs ! i) = fst (ys ! i)"
    using i len assms(1) by (metis nth_map)
  have "map_of xs (fst (xs ! i)) = Some (snd (xs ! i))"
    using i assms(2) by simp
  moreover have "map_of ys (fst (ys ! i)) = Some (snd (ys ! i))"
    using i len assms(1,2) by simp
  ultimately show "xs ! i = ys ! i"
    using k assms(3) by (simp add: prod_eq_iff)
qed

locale ordered_map =
  fixes find :: "'m \<Rightarrow> 'k::linorder \<Rightarrow> 'v option"
    and assign :: "'k \<Rightarrow> 'v \<Rightarrow> 'm \<Rightarrow> 'm"
    and erase :: "'k \<Rightarrow> 'm \<Rightarrow> 'm"
    and entries :: "'m \<Rightarrow> ('k \<times> 'v) list"
    and wf :: "'m \<Rightarrow> bool"
    and fresh :: 'm
  assumes wf_fresh: "wf fresh"
    and wf_assign: "wf m \<Longrightarrow> wf (assign k v m)"
    and wf_erase: "wf m \<Longrightarrow> wf (erase k m)"
    and find_fresh: "find fresh k = None"
    and find_assign: "wf m \<Longrightarrow> find (assign k v m) k' = (if k' = k then Some v else find m k')"
    and find_erase: "wf m \<Longrightarrow> find (erase k m) k' = (if k' = k then None else find m k')"
    and entries_find: "wf m \<Longrightarrow> (k, v) \<in> set (entries m) \<longleftrightarrow> find m k = Some v"
    and entries_sorted: "wf m \<Longrightarrow> sorted_wrt (<) (map fst (entries m))"
begin

lemma entries_distinct: "wf m \<Longrightarrow> distinct (map fst (entries m))"
  using entries_sorted strict_sorted_iff by blast

lemma entries_functional:
  assumes "wf m" "(k, v) \<in> set (entries m)" "(k, v') \<in> set (entries m)"
  shows "v = v'"
  using assms entries_find by force

text \<open>
  Two maps that answer every lookup alike hold the same entries in the same order: the iteration
  order is a function of the contents, not of the history of insertions.
\<close>

lemma entries_extensional:
  assumes "wf m" "wf m'" "\<And>k. find m k = find m' k"
  shows "entries m = entries m'"
proof -
  have mem: "(k, v) \<in> set (entries m) \<longleftrightarrow> (k, v) \<in> set (entries m')" for k v
    by (simp only: entries_find [OF assms(1)] entries_find [OF assms(2)] assms(3))
  then have set_eq: "set (entries m) = set (entries m')"
    by (simp add: set_eq_iff split_paired_all)
  then have "set (map fst (entries m)) = set (map fst (entries m'))" by simp
  then have keys: "map fst (entries m) = map fst (entries m')"
    using strict_sorted_equal [OF entries_sorted [OF assms(1)] entries_sorted [OF assms(2)]] by simp
  have "map_of (entries m) = map_of (entries m')"
    using entries_distinct [OF assms(1)] entries_distinct [OF assms(2)] set_eq
    by (simp add: map_of_inject_set)
  then show ?thesis
    using entries_distinct [OF assms(1)] entries_distinct [OF assms(2)] keys
    by (intro map_fst_map_of_eq) auto
qed

text \<open>Assignments to different keys commute, so the tables do not depend on arrival order.\<close>

lemma assign_commute:
  assumes "wf m" "k \<noteq> k'"
  shows "entries (assign k v (assign k' v' m)) = entries (assign k' v' (assign k v m))"
  using assms by (intro entries_extensional) (auto simp: wf_assign find_assign)

lemma assign_overwrite:
  assumes "wf m"
  shows "entries (assign k v (assign k v' m)) = entries (assign k v m)"
  using assms by (intro entries_extensional) (auto simp: wf_assign find_assign)

lemma assign_same:
  assumes "wf m" "find m k = Some v"
  shows "entries (assign k v m) = entries m"
  using assms by (intro entries_extensional) (auto simp: wf_assign find_assign)

end

section \<open>The model\<close>

definition om_find :: "('k, 'v) omap \<Rightarrow> 'k \<Rightarrow> 'v option" where
  "om_find m k = map_of m k"

fun om_put :: "'k::linorder \<Rightarrow> 'v \<Rightarrow> ('k, 'v) omap \<Rightarrow> ('k, 'v) omap" where
  "om_put k v [] = [(k, v)]"
| "om_put k v ((k', v') # rest) =
    (if k < k' then (k, v) # (k', v') # rest
     else if k = k' then (k, v) # rest
     else (k', v') # om_put k v rest)"

definition om_erase :: "'k \<Rightarrow> ('k, 'v) omap \<Rightarrow> ('k, 'v) omap" where
  "om_erase k m = filter (\<lambda>e. fst e \<noteq> k) m"

definition om_ok :: "('k::linorder, 'v) omap \<Rightarrow> bool" where
  "om_ok m \<longleftrightarrow> sorted_wrt (<) (map fst m)"

text \<open>Changing a value in place through an iterator keeps the keys.\<close>

definition om_map :: "('k \<Rightarrow> 'v \<Rightarrow> 'w) \<Rightarrow> ('k, 'v) omap \<Rightarrow> ('k, 'w) omap" where
  "om_map f m = map (\<lambda>(k, v). (k, f k v)) m"

lemma om_ok_Nil [simp]: "om_ok []"
  by (simp add: om_ok_def)

lemma om_ok_Cons: "om_ok ((k, v) # m) \<longleftrightarrow> (\<forall>k' \<in> fst ` set m. k < k') \<and> om_ok m"
  by (auto simp: om_ok_def)

lemma keys_om_put: "fst ` set (om_put k v m) = insert k (fst ` set m)"
  by (induction k v m rule: om_put.induct) (simp_all add: insert_commute)

lemma om_ok_put [simp]: "om_ok m \<Longrightarrow> om_ok (om_put k v m)"
proof (induction m)
  case (Cons e m)
  obtain k' v' where e: "e = (k', v')" by fastforce
  show ?case
  proof (cases "k < k'")
    case True
    with Cons.prems e show ?thesis by (auto simp: om_ok_Cons dest: less_trans)
  next
    case False
    with Cons e show ?thesis by (auto simp: om_ok_Cons keys_om_put)
  qed
qed (simp add: om_ok_Cons)

lemma om_ok_erase [simp]: "om_ok m \<Longrightarrow> om_ok (om_erase k m)"
  by (induction m) (auto simp: om_ok_Cons om_erase_def)

lemma om_find_Nil [simp]: "om_find [] k = None"
  by (simp add: om_find_def)

lemma om_find_Cons [simp]: "om_find ((k, v) # m) k' = (if k = k' then Some v else om_find m k')"
  by (simp add: om_find_def)

lemma om_find_None_iff: "om_find m k = None \<longleftrightarrow> k \<notin> fst ` set m"
  by (simp add: om_find_def map_of_eq_None_iff)

lemma om_find_put: "om_find (om_put k v m) k' = (if k' = k then Some v else om_find m k')"
  by (induction m) auto

lemma om_find_erase: "om_find (om_erase k m) k' = (if k' = k then None else om_find m k')"
  by (induction m) (auto simp: om_erase_def)

lemma om_find_in: "om_find m k = Some v \<Longrightarrow> (k, v) \<in> set m"
  by (simp add: om_find_def map_of_SomeD)

lemma in_om_find: "om_ok m \<Longrightarrow> (k, v) \<in> set m \<longleftrightarrow> om_find m k = Some v"
  by (simp add: om_find_def om_ok_def strict_sorted_iff)

lemma om_find_map: "om_find (om_map f m) k = map_option (f k) (om_find m k)"
  by (induction m) (auto simp: om_map_def)

lemma keys_om_map [simp]: "map fst (om_map f m) = map fst m"
  by (simp add: om_map_def o_def case_prod_beta)

lemma length_om_map [simp]: "length (om_map f m) = length m"
  by (simp add: om_map_def)

lemma om_ok_map [simp]: "om_ok (om_map f m) \<longleftrightarrow> om_ok m"
  by (simp add: om_ok_def)

interpretation om: ordered_map om_find om_put om_erase "\<lambda>m. m" om_ok "[]"
  by unfold_locales
    (simp_all add: om_find_put om_find_erase in_om_find, simp add: om_ok_def)

lemma om_put_length:
  "length (om_put k v m) = (if om_find m k = None then Suc (length m) else length m)" if "om_ok m"
  using that
proof (induction m)
  case (Cons e m)
  obtain k' v' where e: "e = (k', v')" by fastforce
  have "k < k' \<Longrightarrow> k \<notin> fst ` set m"
    using Cons.prems e by (auto simp: om_ok_Cons dest: less_asym)
  with Cons e show ?case by (auto simp: om_ok_Cons om_find_None_iff)
qed simp

lemma om_erase_length: "length (om_erase k m) \<le> length m"
  by (simp add: om_erase_def)

lemma om_put_id: "om_ok m \<Longrightarrow> om_find m k = Some v \<Longrightarrow> om_put k v m = m"
  by (rule om.assign_same)

lemma set_om_put_subset: "set (om_put k v m) \<subseteq> insert (k, v) (set m)"
  by (induction m) (auto split: if_splits)

text \<open>Inserting keys in increasing order rebuilds the list: how a decoded table comes back.\<close>

lemma om_put_snoc:
  "\<forall>k' \<in> fst ` set m. k' < k \<Longrightarrow> om_put k v m = m @ [(k, v)]"
  by (induction m) auto

end
