(* ===== verification/Records.thy ===== *)
theory Records
  imports Ids Ordered_Map
begin

text \<open>
  \<open>model/types.hpp\<close>, \<open>model/records.hpp\<close> and \<open>model/records.cpp\<close>: the enumerations and the records
  the coordinator owns. A scoped enumerator \<open>E::X\<close> is the constructor \<open>E_X\<close>; the list \<open>..._values\<close>
  gives the enumerators in the order of their numeric values, which the sources fix explicitly.
  A record field carries a two-letter prefix of its record, since HOL field names are global.
\<close>

section \<open>Enumerations\<close>

datatype cluster_state =
    ClusterState_Unknown
  | ClusterState_Active
  | ClusterState_Suspended
  | ClusterState_Draining
  | ClusterState_Retired

datatype endpoint_state =
    EndpointState_Unknown
  | EndpointState_Active
  | EndpointState_Suspended
  | EndpointState_Draining
  | EndpointState_Retired

datatype link_kind =
    LinkKind_Unknown
  | LinkKind_LoopbackTcp
  | LinkKind_SyntheticModel
  | LinkKind_OpticalInterconnect

datatype link_state =
    LinkState_Unknown
  | LinkState_Up
  | LinkState_Degraded
  | LinkState_Down
  | LinkState_Unsupported

datatype path_state =
    PathState_Unknown
  | PathState_Up
  | PathState_Degraded
  | PathState_Down

datatype contract_state =
    ContractState_Proposed
  | ContractState_AwaitingConsent
  | ContractState_Consented
  | ContractState_Active
  | ContractState_Refused
  | ContractState_Withdrawn
  | ContractState_Expired
  | ContractState_Fenced

datatype grant_state =
    GrantState_Preparing
  | GrantState_Prepared
  | GrantState_Committed
  | GrantState_Active
  | GrantState_Indeterminate
  | GrantState_Aborted
  | GrantState_Fenced
  | GrantState_Expired
  | GrantState_Withdrawn

datatype consent_decision =
    ConsentDecision_Accepted
  | ConsentDecision_Refused

datatype evidence_source =
    EvidenceSource_Unspecified
  | EvidenceSource_AdminConfigured
  | EvidenceSource_AgentReported
  | EvidenceSource_DerivedFromTopology
  | EvidenceSource_RecoveredFromStore
  | EvidenceSource_Synthetic

datatype verification_state =
    VerificationState_Unverified
  | VerificationState_Verified
  | VerificationState_Failed
  | VerificationState_NotApplicable
  | VerificationState_Unsupported

datatype transport_authenticity =
    TransportAuthenticity_None
  | TransportAuthenticity_SharedKeyMac

definition cluster_state_values :: "cluster_state list" where
  "cluster_state_values = [ClusterState_Unknown, ClusterState_Active, ClusterState_Suspended, ClusterState_Draining, ClusterState_Retired]"

definition endpoint_state_values :: "endpoint_state list" where
  "endpoint_state_values = [EndpointState_Unknown, EndpointState_Active, EndpointState_Suspended, EndpointState_Draining, EndpointState_Retired]"

definition link_kind_values :: "link_kind list" where
  "link_kind_values = [LinkKind_Unknown, LinkKind_LoopbackTcp, LinkKind_SyntheticModel, LinkKind_OpticalInterconnect]"

definition link_state_values :: "link_state list" where
  "link_state_values = [LinkState_Unknown, LinkState_Up, LinkState_Degraded, LinkState_Down, LinkState_Unsupported]"

definition path_state_values :: "path_state list" where
  "path_state_values = [PathState_Unknown, PathState_Up, PathState_Degraded, PathState_Down]"

definition contract_state_values :: "contract_state list" where
  "contract_state_values = [ContractState_Proposed, ContractState_AwaitingConsent, ContractState_Consented, ContractState_Active, ContractState_Refused, ContractState_Withdrawn, ContractState_Expired, ContractState_Fenced]"

definition grant_state_values :: "grant_state list" where
  "grant_state_values = [GrantState_Preparing, GrantState_Prepared, GrantState_Committed, GrantState_Active, GrantState_Indeterminate, GrantState_Aborted, GrantState_Fenced, GrantState_Expired, GrantState_Withdrawn]"

definition consent_decision_values :: "consent_decision list" where
  "consent_decision_values = [ConsentDecision_Accepted, ConsentDecision_Refused]"

definition evidence_source_values :: "evidence_source list" where
  "evidence_source_values = [EvidenceSource_Unspecified, EvidenceSource_AdminConfigured, EvidenceSource_AgentReported, EvidenceSource_DerivedFromTopology, EvidenceSource_RecoveredFromStore, EvidenceSource_Synthetic]"

definition verification_state_values :: "verification_state list" where
  "verification_state_values = [VerificationState_Unverified, VerificationState_Verified, VerificationState_Failed, VerificationState_NotApplicable, VerificationState_Unsupported]"

definition transport_authenticity_values :: "transport_authenticity list" where
  "transport_authenticity_values = [TransportAuthenticity_None, TransportAuthenticity_SharedKeyMac]"

text \<open>The printed names.\<close>

fun cluster_state_to_string :: "cluster_state \<Rightarrow> string" where
  "cluster_state_to_string ClusterState_Unknown = ''UNKNOWN''"
| "cluster_state_to_string ClusterState_Active = ''ACTIVE''"
| "cluster_state_to_string ClusterState_Suspended = ''SUSPENDED''"
| "cluster_state_to_string ClusterState_Draining = ''DRAINING''"
| "cluster_state_to_string ClusterState_Retired = ''RETIRED''"

fun endpoint_state_to_string :: "endpoint_state \<Rightarrow> string" where
  "endpoint_state_to_string EndpointState_Unknown = ''UNKNOWN''"
| "endpoint_state_to_string EndpointState_Active = ''ACTIVE''"
| "endpoint_state_to_string EndpointState_Suspended = ''SUSPENDED''"
| "endpoint_state_to_string EndpointState_Draining = ''DRAINING''"
| "endpoint_state_to_string EndpointState_Retired = ''RETIRED''"

fun link_kind_to_string :: "link_kind \<Rightarrow> string" where
  "link_kind_to_string LinkKind_Unknown = ''UNKNOWN''"
| "link_kind_to_string LinkKind_LoopbackTcp = ''LOOPBACK_TCP''"
| "link_kind_to_string LinkKind_SyntheticModel = ''SYNTHETIC_MODEL''"
| "link_kind_to_string LinkKind_OpticalInterconnect = ''OPTICAL_INTERCONNECT''"

fun link_state_to_string :: "link_state \<Rightarrow> string" where
  "link_state_to_string LinkState_Unknown = ''UNKNOWN''"
| "link_state_to_string LinkState_Up = ''UP''"
| "link_state_to_string LinkState_Degraded = ''DEGRADED''"
| "link_state_to_string LinkState_Down = ''DOWN''"
| "link_state_to_string LinkState_Unsupported = ''UNSUPPORTED''"

fun path_state_to_string :: "path_state \<Rightarrow> string" where
  "path_state_to_string PathState_Unknown = ''UNKNOWN''"
| "path_state_to_string PathState_Up = ''UP''"
| "path_state_to_string PathState_Degraded = ''DEGRADED''"
| "path_state_to_string PathState_Down = ''DOWN''"

fun contract_state_to_string :: "contract_state \<Rightarrow> string" where
  "contract_state_to_string ContractState_Proposed = ''PROPOSED''"
| "contract_state_to_string ContractState_AwaitingConsent = ''AWAITING_CONSENT''"
| "contract_state_to_string ContractState_Consented = ''CONSENTED''"
| "contract_state_to_string ContractState_Active = ''ACTIVE''"
| "contract_state_to_string ContractState_Refused = ''REFUSED''"
| "contract_state_to_string ContractState_Withdrawn = ''WITHDRAWN''"
| "contract_state_to_string ContractState_Expired = ''EXPIRED''"
| "contract_state_to_string ContractState_Fenced = ''FENCED''"

fun grant_state_to_string :: "grant_state \<Rightarrow> string" where
  "grant_state_to_string GrantState_Preparing = ''PREPARING''"
| "grant_state_to_string GrantState_Prepared = ''PREPARED''"
| "grant_state_to_string GrantState_Committed = ''COMMITTED''"
| "grant_state_to_string GrantState_Active = ''ACTIVE''"
| "grant_state_to_string GrantState_Indeterminate = ''INDETERMINATE''"
| "grant_state_to_string GrantState_Aborted = ''ABORTED''"
| "grant_state_to_string GrantState_Fenced = ''FENCED''"
| "grant_state_to_string GrantState_Expired = ''EXPIRED''"
| "grant_state_to_string GrantState_Withdrawn = ''WITHDRAWN''"

fun consent_decision_to_string :: "consent_decision \<Rightarrow> string" where
  "consent_decision_to_string ConsentDecision_Accepted = ''ACCEPTED''"
| "consent_decision_to_string ConsentDecision_Refused = ''REFUSED''"

fun evidence_source_to_string :: "evidence_source \<Rightarrow> string" where
  "evidence_source_to_string EvidenceSource_Unspecified = ''UNSPECIFIED''"
| "evidence_source_to_string EvidenceSource_AdminConfigured = ''ADMIN_CONFIGURED''"
| "evidence_source_to_string EvidenceSource_AgentReported = ''AGENT_REPORTED''"
| "evidence_source_to_string EvidenceSource_DerivedFromTopology = ''DERIVED_FROM_TOPOLOGY''"
| "evidence_source_to_string EvidenceSource_RecoveredFromStore = ''RECOVERED_FROM_STORE''"
| "evidence_source_to_string EvidenceSource_Synthetic = ''SYNTHETIC''"

fun verification_state_to_string :: "verification_state \<Rightarrow> string" where
  "verification_state_to_string VerificationState_Unverified = ''UNVERIFIED''"
| "verification_state_to_string VerificationState_Verified = ''VERIFIED''"
| "verification_state_to_string VerificationState_Failed = ''FAILED''"
| "verification_state_to_string VerificationState_NotApplicable = ''NOT_APPLICABLE''"
| "verification_state_to_string VerificationState_Unsupported = ''UNSUPPORTED''"

fun transport_authenticity_to_string :: "transport_authenticity \<Rightarrow> string" where
  "transport_authenticity_to_string TransportAuthenticity_None = ''NONE''"
| "transport_authenticity_to_string TransportAuthenticity_SharedKeyMac = ''SHARED_KEY_MAC''"

text \<open>The table search behind the \<open>..._from_string\<close> functions; \<open>None\<close> where the source returns false.\<close>

fun parse_enum :: "('e \<times> string) list \<Rightarrow> string \<Rightarrow> 'e option" where
  "parse_enum [] text = None"
| "parse_enum (entry # rest) text = (if text = snd entry then Some (fst entry) else parse_enum rest text)"

definition cluster_state_from_string :: "string \<Rightarrow> cluster_state option" where
  "cluster_state_from_string text = parse_enum
    [(ClusterState_Unknown, ''UNKNOWN''),
     (ClusterState_Active, ''ACTIVE''),
     (ClusterState_Suspended, ''SUSPENDED''),
     (ClusterState_Draining, ''DRAINING''),
     (ClusterState_Retired, ''RETIRED'')] text"

definition endpoint_state_from_string :: "string \<Rightarrow> endpoint_state option" where
  "endpoint_state_from_string text = parse_enum
    [(EndpointState_Unknown, ''UNKNOWN''),
     (EndpointState_Active, ''ACTIVE''),
     (EndpointState_Suspended, ''SUSPENDED''),
     (EndpointState_Draining, ''DRAINING''),
     (EndpointState_Retired, ''RETIRED'')] text"

definition link_kind_from_string :: "string \<Rightarrow> link_kind option" where
  "link_kind_from_string text = parse_enum
    [(LinkKind_Unknown, ''UNKNOWN''),
     (LinkKind_LoopbackTcp, ''LOOPBACK_TCP''),
     (LinkKind_SyntheticModel, ''SYNTHETIC_MODEL''),
     (LinkKind_OpticalInterconnect, ''OPTICAL_INTERCONNECT'')] text"

definition link_state_from_string :: "string \<Rightarrow> link_state option" where
  "link_state_from_string text = parse_enum
    [(LinkState_Unknown, ''UNKNOWN''),
     (LinkState_Up, ''UP''),
     (LinkState_Degraded, ''DEGRADED''),
     (LinkState_Down, ''DOWN''),
     (LinkState_Unsupported, ''UNSUPPORTED'')] text"

definition link_kind_supported :: "link_kind \<Rightarrow> bool" where
  "link_kind_supported kind \<longleftrightarrow> kind = LinkKind_LoopbackTcp \<or> kind = LinkKind_SyntheticModel"

fun link_kind_support_note :: "link_kind \<Rightarrow> string" where
  "link_kind_support_note LinkKind_LoopbackTcp = ''real framed transport over a real TCP socket''"
| "link_kind_support_note LinkKind_SyntheticModel =
    ''SYNTHETIC: declared topology, no transport is driven or observed''"
| "link_kind_support_note LinkKind_OpticalInterconnect =
    ''UNSUPPORTED: this runtime owns no optical hardware control path''"
| "link_kind_support_note LinkKind_Unknown = ''UNKNOWN: no evidence describes this link''"

section \<open>Records\<close>

record provenance =
  pv_source :: evidence_source
  pv_verification :: verification_state
  pv_observed_at :: timestamp
  pv_revision :: u64
  pv_session :: session_token
  pv_evidence_digest :: digest

definition default_provenance :: provenance where
  "default_provenance =
    \<lparr>pv_source = EvidenceSource_Unspecified, pv_verification = VerificationState_Unverified,
     pv_observed_at = 0, pv_revision = 0, pv_session = nil_uuid, pv_evidence_digest = zero_digest\<rparr>"

definition provenance_usable :: "provenance \<Rightarrow> bool" where
  "provenance_usable p \<longleftrightarrow>
    pv_verification p = VerificationState_Verified
    \<and> pv_source p \<noteq> EvidenceSource_RecoveredFromStore
    \<and> pv_source p \<noteq> EvidenceSource_Unspecified"

record endpoint_record =
  ep_id :: endpoint_id
  ep_cluster :: cluster_id
  ep_scope :: scope_name
  ep_capacity :: u64
  ep_reserved :: u64
  ep_policy_generation :: u64
  ep_state :: endpoint_state
  ep_inter_cluster_allowed :: bool
  ep_permits_degraded :: bool
  ep_provenance :: provenance

record cluster_record =
  cl_id :: cluster_id
  cl_domain :: domain_id
  cl_incarnation :: incarnation_id
  cl_generation :: u64
  cl_policy_generation :: u64
  cl_state :: cluster_state
  cl_consent_withdrawn :: bool
  cl_last_seen :: timestamp
  cl_endpoints :: "endpoint_record list"
  cl_content_digest :: digest
  cl_generation_conflict :: bool
  cl_conflicting_generation :: "u64 option"
  cl_revision :: u64
  cl_provenance :: provenance
  cl_incarnation_changes :: u64

record link_record =
  ln_id :: edge_id
  ln_a :: endpoint_id
  ln_b :: endpoint_id
  ln_kind :: link_kind
  ln_state :: link_state
  ln_capacity :: u64
  ln_reserved :: u64
  ln_latency_micros :: u32
  ln_revision :: u64
  ln_provenance :: provenance

record path_record =
  pa_id :: path_id
  pa_a :: endpoint_id
  pa_b :: endpoint_id
  pa_hops :: "edge_id list"
  pa_bottleneck :: u64
  pa_state :: path_state
  pa_revision :: u64
  pa_provenance :: provenance
  pa_contains_unsupported_edge :: bool

record consent_record =
  cs_cluster :: cluster_id
  cs_endpoint :: endpoint_id
  cs_incarnation :: incarnation_id
  cs_generation :: u64
  cs_policy_generation :: u64
  cs_agent_term :: u64
  cs_terms_digest :: digest
  cs_decision :: consent_decision
  cs_decided_at :: timestamp
  cs_session :: session_token
  cs_authenticity :: transport_authenticity
  cs_reason :: string

record party_ref =
  pt_cluster :: cluster_id
  pt_endpoint :: endpoint_id
  pt_domain :: domain_id

record contract_record =
  co_id :: contract_id
  co_parties :: "party_ref \<times> party_ref"
  co_capacity :: u64
  co_lease_duration :: duration
  co_terms_digest :: digest
  co_state :: contract_state
  co_consents :: "consent_record option \<times> consent_record option"
  co_created_at :: timestamp
  co_updated_at :: timestamp
  co_revision :: u64
  co_provenance :: provenance

record grant_record =
  gr_id :: grant_id
  gr_contract :: contract_id
  gr_terms_digest :: digest
  gr_coordinator_term :: u64
  gr_coordinator :: incarnation_id
  gr_attempt :: attempt_id
  gr_incarnations :: "incarnation_id \<times> incarnation_id"
  gr_generations :: "u64 \<times> u64"
  gr_policies :: "u64 \<times> u64"
  gr_capacity :: u64
  gr_issued_at :: timestamp
  gr_valid_until :: timestamp
  gr_state :: grant_state
  gr_acknowledged :: "bool \<times> bool"
  gr_enforcement_digest :: "digest \<times> digest"
  gr_revalidate_attempts :: u64
  gr_note :: string
  gr_revision :: u64
  gr_provenance :: provenance

record reservation_record =
  rs_id :: reservation_id
  rs_grant :: grant_id
  rs_endpoint :: endpoint_id
  rs_cluster :: cluster_id
  rs_amount :: u64
  rs_released :: bool
  rs_created_at :: timestamp
  rs_released_at :: timestamp
  rs_revision :: u64
  rs_provenance :: provenance

record audit_record =
  au_sequence :: u64
  au_at :: timestamp
  au_actor :: string
  au_action :: string
  au_subject :: string
  au_outcome :: outcome
  au_detail :: string

record policy_rule =
  pr_id :: string
  pr_owner :: domain_id
  pr_cluster_a :: cluster_id
  pr_cluster_b :: cluster_id
  pr_endpoint_a :: endpoint_id
  pr_endpoint_b :: endpoint_id
  pr_generation :: u64
  pr_allow :: bool
  pr_allow_degraded :: bool
  pr_max_capacity :: u64
  pr_revision :: u64
  pr_provenance :: provenance

section \<open>Member functions\<close>

text \<open>The index of a cluster among the parties; \<open>None\<close> for the source's \<open>-1\<close>.\<close>

definition parties_side_of :: "party_ref \<times> party_ref \<Rightarrow> cluster_id \<Rightarrow> nat option" where
  "parties_side_of parties cluster =
    (if pt_cluster (fst parties) = cluster then Some 0
     else if pt_cluster (snd parties) = cluster then Some 1
     else None)"

definition contract_side_of :: "contract_record \<Rightarrow> cluster_id \<Rightarrow> nat option" where
  "contract_side_of contract cluster = parties_side_of (co_parties contract) cluster"

definition consent_accepted :: "consent_record option \<Rightarrow> bool" where
  "consent_accepted c \<longleftrightarrow>
    (case c of None \<Rightarrow> False | Some consent \<Rightarrow> cs_decision consent = ConsentDecision_Accepted)"

definition both_consented :: "contract_record \<Rightarrow> bool" where
  "both_consented contract \<longleftrightarrow>
    consent_accepted (fst (co_consents contract)) \<and> consent_accepted (snd (co_consents contract))"

definition both_acknowledged :: "grant_record \<Rightarrow> bool" where
  "both_acknowledged g \<longleftrightarrow> fst (gr_acknowledged g) \<and> snd (gr_acknowledged g)"

definition usable_state :: "grant_record \<Rightarrow> bool" where
  "usable_state g \<longleftrightarrow> gr_state g = GrantState_Committed \<or> gr_state g = GrantState_Active"

definition policy_matches ::
  "policy_rule \<Rightarrow> cluster_id \<Rightarrow> cluster_id \<Rightarrow> endpoint_id \<Rightarrow> endpoint_id \<Rightarrow> bool" where
  "policy_matches rule a b ea eb \<longleftrightarrow>
    (pr_cluster_a rule = [] \<or> pr_cluster_a rule = a)
    \<and> (pr_cluster_b rule = [] \<or> pr_cluster_b rule = b)
    \<and> (pr_endpoint_a rule = [] \<or> pr_endpoint_a rule = ea)
    \<and> (pr_endpoint_b rule = [] \<or> pr_endpoint_b rule = eb)"

section \<open>Facts\<close>

text \<open>Every enumeration the sources can parse from text reads its own printed names.\<close>

lemma cluster_state_from_to_string: "cluster_state_from_string (cluster_state_to_string x) = Some x"
  by (cases x) (simp_all add: cluster_state_from_string_def)

lemma endpoint_state_from_to_string: "endpoint_state_from_string (endpoint_state_to_string x) = Some x"
  by (cases x) (simp_all add: endpoint_state_from_string_def)

lemma link_kind_from_to_string: "link_kind_from_string (link_kind_to_string x) = Some x"
  by (cases x) (simp_all add: link_kind_from_string_def)

lemma link_state_from_to_string: "link_state_from_string (link_state_to_string x) = Some x"
  by (cases x) (simp_all add: link_state_from_string_def)

lemma outcome_from_to_string: "outcome_from_string (outcome_to_string x) = Some x"
  by (cases x) (simp_all add: outcome_from_string_def outcome_to_string_def kOutcomeNames_def)

text \<open>The value lists are complete, so an enumerator is found at its numeric value.\<close>

lemma cluster_state_values_complete [simp]: "x \<in> set cluster_state_values"
  by (cases x) (simp_all add: cluster_state_values_def)

lemma endpoint_state_values_complete [simp]: "x \<in> set endpoint_state_values"
  by (cases x) (simp_all add: endpoint_state_values_def)

lemma link_kind_values_complete [simp]: "x \<in> set link_kind_values"
  by (cases x) (simp_all add: link_kind_values_def)

lemma link_state_values_complete [simp]: "x \<in> set link_state_values"
  by (cases x) (simp_all add: link_state_values_def)

lemma path_state_values_complete [simp]: "x \<in> set path_state_values"
  by (cases x) (simp_all add: path_state_values_def)

lemma contract_state_values_complete [simp]: "x \<in> set contract_state_values"
  by (cases x) (simp_all add: contract_state_values_def)

lemma grant_state_values_complete [simp]: "x \<in> set grant_state_values"
  by (cases x) (simp_all add: grant_state_values_def)

lemma consent_decision_values_complete [simp]: "x \<in> set consent_decision_values"
  by (cases x) (simp_all add: consent_decision_values_def)

lemma evidence_source_values_complete [simp]: "x \<in> set evidence_source_values"
  by (cases x) (simp_all add: evidence_source_values_def)

lemma verification_state_values_complete [simp]: "x \<in> set verification_state_values"
  by (cases x) (simp_all add: verification_state_values_def)

lemma transport_authenticity_values_complete [simp]: "x \<in> set transport_authenticity_values"
  by (cases x) (simp_all add: transport_authenticity_values_def)

lemma enum_value_counts [simp]:
  "length cluster_state_values = 5"
  "length endpoint_state_values = 5"
  "length link_kind_values = 4"
  "length link_state_values = 5"
  "length path_state_values = 4"
  "length contract_state_values = 8"
  "length grant_state_values = 9"
  "length consent_decision_values = 2"
  "length evidence_source_values = 6"
  "length verification_state_values = 5"
  "length transport_authenticity_values = 2"
  by (simp_all add: cluster_state_values_def
      endpoint_state_values_def
      link_kind_values_def
      link_state_values_def
      path_state_values_def
      contract_state_values_def
      grant_state_values_def
      consent_decision_values_def
      evidence_source_values_def
      verification_state_values_def
      transport_authenticity_values_def)

lemma parties_side_of_Some:
  "parties_side_of parties c = Some i \<Longrightarrow> i < 2 \<and> pt_cluster (party_at parties i) = c"
  by (auto simp: parties_side_of_def split: if_splits)

lemma parties_side_of_None:
  "parties_side_of parties c = None \<longleftrightarrow>
    pt_cluster (fst parties) \<noteq> c \<and> pt_cluster (snd parties) \<noteq> c"
  by (simp add: parties_side_of_def)

end
