(* ===== verification/Registry.thy ===== *)
theory Registry
  imports Records
begin

text \<open>
  \<open>model/registry.cpp\<close>: the authoritative tables and their operations. An operation that returns a
  \<open>Status\<close> and changes the registry is a function to the pair of both. \<open>None\<close> as the result of
  \<open>registry_append_audit\<close> is the exception \<open>Result::value\<close> raises on a failed result.
\<close>

record registry =
  rg_clusters :: "(cluster_id, cluster_record) omap"
  rg_links :: "(edge_id, link_record) omap"
  rg_paths :: "(path_id, path_record) omap"
  rg_policies :: "(string, policy_rule) omap"
  rg_contracts :: "(contract_id, contract_record) omap"
  rg_grants :: "(grant_id, grant_record) omap"
  rg_reservations :: "(reservation_id, reservation_record) omap"
  rg_audit :: "audit_record list"

definition empty_registry :: registry where
  "empty_registry =
    \<lparr>rg_clusters = [], rg_links = [], rg_paths = [], rg_policies = [], rg_contracts = [],
     rg_grants = [], rg_reservations = [], rg_audit = []\<rparr>"

section \<open>Operations\<close>

definition insert_bounded ::
  "('k::linorder, 'v) omap \<Rightarrow> 'k \<Rightarrow> 'v \<Rightarrow> nat \<Rightarrow> string \<Rightarrow> status \<times> ('k, 'v) omap" where
  "insert_bounded m key rec bound what =
    (if om_find m key = None \<and> length m \<ge> bound
     then (status_make Outcome_CapacityExceeded (''too many '' @ what @ '' records''), m)
     else (status_ok, om_put key rec m))"

subsection \<open>Clusters and endpoints\<close>

definition find_cluster :: "registry \<Rightarrow> cluster_id \<Rightarrow> cluster_record option" where
  "find_cluster r key = om_find (rg_clusters r) key"

text \<open>\<open>std::lower_bound\<close> on the endpoints, which are sorted by identity, and the test that follows.\<close>

definition cluster_endpoint :: "endpoint_record list \<Rightarrow> endpoint_id \<Rightarrow> endpoint_record option" where
  "cluster_endpoint eps key =
    (case dropWhile (\<lambda>e. ep_id e < key) eps of
       [] \<Rightarrow> None
     | e # _ \<Rightarrow> if ep_id e = key then Some e else None)"

fun find_endpoint_in :: "(cluster_id \<times> cluster_record) list \<Rightarrow> endpoint_id \<Rightarrow> endpoint_record option" where
  "find_endpoint_in [] key = None"
| "find_endpoint_in ((k, cluster) # rest) key =
    (case cluster_endpoint (cl_endpoints cluster) key of
       Some e \<Rightarrow> Some e
     | None \<Rightarrow> find_endpoint_in rest key)"

definition find_endpoint :: "registry \<Rightarrow> endpoint_id \<Rightarrow> endpoint_record option" where
  "find_endpoint r key = find_endpoint_in (rg_clusters r) key"

text \<open>A loop that returns the first failing status of its elements.\<close>

fun first_failure :: "('a \<Rightarrow> status) \<Rightarrow> 'a list \<Rightarrow> status" where
  "first_failure f [] = status_ok"
| "first_failure f (x # xs) = (if is_ok (f x) then first_failure f xs else f x)"

definition put_cluster_endpoint_check :: "cluster_id \<Rightarrow> endpoint_record \<Rightarrow> status" where
  "put_cluster_endpoint_check cid e =
    (if ep_cluster e \<noteq> cid
     then invalid ''endpoint scope is bound to a different cluster identity''
     else if ep_reserved e > ep_capacity e
     then status_make Outcome_CapacityExceeded ''endpoint reservations exceed declared capacity''
     else status_ok)"

text \<open>Two neighbours with the same identity, in a list sorted by identity.\<close>

fun adjacent_duplicate :: "endpoint_record list \<Rightarrow> bool" where
  "adjacent_duplicate (a # b # rest) = (if ep_id a = ep_id b then True else adjacent_duplicate (b # rest))"
| "adjacent_duplicate _ = False"

definition put_cluster :: "cluster_record \<Rightarrow> registry \<Rightarrow> status \<times> registry" where
  "put_cluster rec r =
    (if cl_id rec = [] then (invalid ''cluster record requires an identity'', r)
     else if cl_domain rec = [] then (invalid ''cluster record requires an authority domain'', r)
     else if length (cl_endpoints rec) > kMaxEndpointsPerCluster
     then (status_make Outcome_CapacityExceeded ''cluster declares too many endpoints'', r)
     else
       let eps = sort_key ep_id (cl_endpoints rec);
           rec' = rec\<lparr>cl_endpoints := eps\<rparr>;
           checked = first_failure (put_cluster_endpoint_check (cl_id rec)) eps
       in if \<not> is_ok checked then (checked, r)
          else if adjacent_duplicate eps
          then (status_make Outcome_AlreadyExists ''cluster declares a duplicate endpoint identity'', r)
          else let (s, m) = insert_bounded (rg_clusters r) (cl_id rec) rec' kMaxClusters ''cluster''
               in (s, r\<lparr>rg_clusters := m\<rparr>))"

definition erase_cluster :: "cluster_id \<Rightarrow> registry \<Rightarrow> status \<times> registry" where
  "erase_cluster key r =
    (if om_find (rg_clusters r) key = None then (not_found ''cluster is not registered'', r)
     else (status_ok, r\<lparr>rg_clusters := om_erase key (rg_clusters r)\<rparr>))"

subsection \<open>Links and paths\<close>

definition find_link :: "registry \<Rightarrow> edge_id \<Rightarrow> link_record option" where
  "find_link r key = om_find (rg_links r) key"

definition put_link :: "link_record \<Rightarrow> registry \<Rightarrow> status \<times> registry" where
  "put_link rec r =
    (if ln_id rec = [] \<or> ln_a rec = [] \<or> ln_b rec = []
     then (invalid ''link record requires an identity and two endpoints'', r)
     else if ln_a rec = ln_b rec then (invalid ''a link must join two distinct endpoints'', r)
     else if ln_reserved rec > ln_capacity rec
     then (status_make Outcome_CapacityExceeded ''link reservations exceed declared capacity'', r)
     else let (s, m) = insert_bounded (rg_links r) (ln_id rec) rec kMaxEdges ''link''
          in (s, r\<lparr>rg_links := m\<rparr>))"

definition erase_link :: "edge_id \<Rightarrow> registry \<Rightarrow> status \<times> registry" where
  "erase_link key r =
    (if om_find (rg_links r) key = None then (not_found ''link is not registered'', r)
     else (status_ok, r\<lparr>rg_links := om_erase key (rg_links r)\<rparr>))"

definition find_path :: "registry \<Rightarrow> path_id \<Rightarrow> path_record option" where
  "find_path r key = om_find (rg_paths r) key"

definition put_path :: "path_record \<Rightarrow> registry \<Rightarrow> status \<times> registry" where
  "put_path rec r =
    (if pa_id rec = [] \<or> pa_a rec = [] \<or> pa_b rec = []
     then (invalid ''path record requires an identity and two endpoints'', r)
     else if pa_hops rec = [] then (invalid ''path record requires at least one hop'', r)
     else if length (pa_hops rec) > kMaxPathHops
     then (status_make Outcome_CapacityExceeded ''path declares too many hops'', r)
     else let (s, m) = insert_bounded (rg_paths r) (pa_id rec) rec kMaxPaths ''path''
          in (s, r\<lparr>rg_paths := m\<rparr>))"

definition erase_path :: "path_id \<Rightarrow> registry \<Rightarrow> status \<times> registry" where
  "erase_path key r =
    (if om_find (rg_paths r) key = None then (not_found ''path is not registered'', r)
     else (status_ok, r\<lparr>rg_paths := om_erase key (rg_paths r)\<rparr>))"

text \<open>The locals of the hop loop: path state, bottleneck, \<open>first\<close> and \<open>unsupported\<close>.\<close>

type_synonym hop_scan = "path_state \<times> u64 \<times> bool \<times> bool"

text \<open>The \<open>switch\<close> on the state of a supported link: the new path state and \<open>unsupported\<close>.\<close>

fun hop_state :: "link_state \<Rightarrow> path_state \<Rightarrow> bool \<Rightarrow> path_state \<times> bool" where
  "hop_state LinkState_Down st uns = (PathState_Down, uns)"
| "hop_state LinkState_Unknown st uns =
    (if st \<noteq> PathState_Down then PathState_Unknown else st, uns)"
| "hop_state LinkState_Degraded st uns =
    (if st \<noteq> PathState_Down \<and> st \<noteq> PathState_Unknown then PathState_Degraded else st, uns)"
| "hop_state LinkState_Unsupported st uns = (PathState_Down, True)"
| "hop_state LinkState_Up st uns = (st, uns)"

fun scan_hops :: "(edge_id, link_record) omap \<Rightarrow> edge_id list \<Rightarrow> hop_scan \<Rightarrow> hop_scan" where
  "scan_hops links [] s = s"
| "scan_hops links (hop # hops) (st, bottleneck, first, uns) =
    (case om_find links hop of
       None \<Rightarrow> (PathState_Unknown, bottleneck, first, uns)
     | Some link \<Rightarrow>
         if \<not> link_kind_supported (ln_kind link) then (PathState_Down, bottleneck, first, True)
         else let (st', uns') = hop_state (ln_state link) st uns in
           if st' = PathState_Down then (st', bottleneck, first, uns')
           else if first \<or> ln_capacity link < bottleneck
           then scan_hops links hops (st', ln_capacity link, False, uns')
           else scan_hops links hops (st', bottleneck, first, uns'))"

definition recompute_path :: "(edge_id, link_record) omap \<Rightarrow> path_record \<Rightarrow> path_record" where
  "recompute_path links path =
    (let (st, bottleneck, first, uns) = scan_hops links (pa_hops path) (PathState_Up, 0, True, False)
     in path\<lparr>pa_contains_unsupported_edge := uns,
             pa_bottleneck := (if first then 0 else bottleneck),
             pa_state := st\<rparr>)"

definition recompute_path_states :: "registry \<Rightarrow> registry" where
  "recompute_path_states r =
    r\<lparr>rg_paths := om_map (\<lambda>_ p. recompute_path (rg_links r) p) (rg_paths r)\<rparr>"

subsection \<open>Policies\<close>

definition put_policy :: "policy_rule \<Rightarrow> registry \<Rightarrow> status \<times> registry" where
  "put_policy rule r =
    (if pr_id rule = [] \<or> length (pr_id rule) > kMaxNameLength
     then (invalid ''policy rule requires a bounded identity'', r)
     else if pr_owner rule = []
     then (invalid ''policy rule requires an owning authority domain'', r)
     else let (s, m) = insert_bounded (rg_policies r) (pr_id rule) rule kMaxPolicyRules ''policy''
          in (s, r\<lparr>rg_policies := m\<rparr>))"

definition erase_policy :: "string \<Rightarrow> registry \<Rightarrow> status \<times> registry" where
  "erase_policy key r =
    (if om_find (rg_policies r) key = None then (not_found ''policy rule is not registered'', r)
     else (status_ok, r\<lparr>rg_policies := om_erase key (rg_policies r)\<rparr>))"

subsection \<open>Contracts, grants and reservations\<close>

definition find_contract :: "registry \<Rightarrow> contract_id \<Rightarrow> contract_record option" where
  "find_contract r key = om_find (rg_contracts r) key"

definition put_contract :: "contract_record \<Rightarrow> registry \<Rightarrow> status \<times> registry" where
  "put_contract rec r =
    (if is_nil (co_id rec) then (invalid ''contract requires an identity'', r)
     else if pt_cluster (fst (co_parties rec)) = [] \<or> pt_cluster (snd (co_parties rec)) = []
     then (invalid ''contract requires two cluster identities'', r)
     else if pt_cluster (fst (co_parties rec)) = pt_cluster (snd (co_parties rec))
     then (invalid ''contract must join two distinct clusters'', r)
     else if co_capacity rec > kMaxCapacity
     then (status_make Outcome_Overflow ''contract capacity exceeds the maximum'', r)
     else let (s, m) = insert_bounded (rg_contracts r) (co_id rec) rec kMaxContracts ''contract''
          in (s, r\<lparr>rg_contracts := m\<rparr>))"

definition erase_contract :: "contract_id \<Rightarrow> registry \<Rightarrow> status \<times> registry" where
  "erase_contract key r =
    (if om_find (rg_contracts r) key = None then (not_found ''contract is not registered'', r)
     else (status_ok, r\<lparr>rg_contracts := om_erase key (rg_contracts r)\<rparr>))"

definition find_grant :: "registry \<Rightarrow> grant_id \<Rightarrow> grant_record option" where
  "find_grant r key = om_find (rg_grants r) key"

definition put_grant :: "grant_record \<Rightarrow> registry \<Rightarrow> status \<times> registry" where
  "put_grant rec r =
    (if is_nil (gr_id rec) then (invalid ''grant requires an identity'', r)
     else if is_nil (gr_contract rec) then (invalid ''grant requires a contract'', r)
     else if gr_capacity rec > kMaxCapacity
     then (status_make Outcome_Overflow ''grant capacity exceeds the maximum'', r)
     else let (s, m) = insert_bounded (rg_grants r) (gr_id rec) rec kMaxGrants ''grant''
          in (s, r\<lparr>rg_grants := m\<rparr>))"

definition erase_grant :: "grant_id \<Rightarrow> registry \<Rightarrow> status \<times> registry" where
  "erase_grant key r =
    (if om_find (rg_grants r) key = None then (not_found ''grant is not registered'', r)
     else (status_ok, r\<lparr>rg_grants := om_erase key (rg_grants r)\<rparr>))"

definition find_reservation :: "registry \<Rightarrow> reservation_id \<Rightarrow> reservation_record option" where
  "find_reservation r key = om_find (rg_reservations r) key"

definition put_reservation :: "reservation_record \<Rightarrow> registry \<Rightarrow> status \<times> registry" where
  "put_reservation rec r =
    (if is_nil (rs_id rec) then (invalid ''reservation requires an identity'', r)
     else let (s, m) = insert_bounded (rg_reservations r) (rs_id rec) rec kMaxReservations ''reservation''
          in (s, r\<lparr>rg_reservations := m\<rparr>))"

subsection \<open>Audit\<close>

definition registry_append_audit :: "audit_record \<Rightarrow> registry \<Rightarrow> (status \<times> registry) option" where
  "registry_append_audit rec r =
    (if length (rg_audit r) \<ge> kMaxAuditRecords
     then Some (status_make Outcome_CapacityExceeded ''audit trail is at its configured bound'', r)
     else if rg_audit r = [] then Some (status_ok, r\<lparr>rg_audit := rg_audit r @ [rec]\<rparr>)
     else case counter_next (au_sequence (last (rg_audit r))) of
       Inl _ \<Rightarrow> None
     | Inr expected \<Rightarrow>
         if au_sequence rec \<noteq> expected
         then Some (invalid ''audit sequence is not contiguous'', r)
         else Some (status_ok, r\<lparr>rg_audit := rg_audit r @ [rec]\<rparr>))"

subsection \<open>Derived values\<close>

record registry_counts =
  rc_clusters :: nat
  rc_endpoints :: nat
  rc_links :: nat
  rc_paths :: nat
  rc_contracts :: nat
  rc_grants :: nat
  rc_reservations :: nat
  rc_policies :: nat
  rc_audit :: nat

definition counts :: "registry \<Rightarrow> registry_counts" where
  "counts r =
    \<lparr>rc_clusters = length (rg_clusters r),
     rc_endpoints = sum_list (map (\<lambda>e. length (cl_endpoints (snd e))) (rg_clusters r)),
     rc_links = length (rg_links r), rc_paths = length (rg_paths r),
     rc_contracts = length (rg_contracts r), rc_grants = length (rg_grants r),
     rc_reservations = length (rg_reservations r), rc_policies = length (rg_policies r),
     rc_audit = length (rg_audit r)\<rparr>"

definition registry_clear :: "registry \<Rightarrow> registry" where
  "registry_clear r = empty_registry"

definition endpoint_reserved :: "registry \<Rightarrow> endpoint_id \<Rightarrow> u64 result" where
  "endpoint_reserved r key =
    (case find_endpoint r key of
       None \<Rightarrow> Inl (not_found ''endpoint is not registered'')
     | Some e \<Rightarrow> Inr (ep_reserved e))"

definition link_reserved :: "registry \<Rightarrow> edge_id \<Rightarrow> u64 result" where
  "link_reserved r key =
    (case find_link r key of
       None \<Rightarrow> Inl (not_found ''link is not registered'')
     | Some l \<Rightarrow> Inr (ln_reserved l))"

subsection \<open>Validation\<close>

text \<open>Continue only after a success, as a sequence of early returns does.\<close>

definition after :: "status \<Rightarrow> status \<Rightarrow> status" where
  "after s k = (if is_ok s then k else s)"

definition validate_endpoint :: "cluster_record \<Rightarrow> endpoint_record \<Rightarrow> status" where
  "validate_endpoint cluster e =
    (if ep_id e = [] then invalid ''endpoint record has an empty identity''
     else if ep_cluster e \<noteq> cl_id cluster
     then invalid ''endpoint record is bound to a different cluster''
     else if ep_reserved e > ep_capacity e
     then status_make Outcome_CapacityExceeded ''endpoint reservations exceed capacity''
     else status_ok)"

fun validate_clusters :: "(cluster_id \<times> cluster_record) list \<Rightarrow> nat \<Rightarrow> status" where
  "validate_clusters [] seen = status_ok"
| "validate_clusters ((key, cluster) # rest) seen =
    (if cl_id cluster \<noteq> key then invalid ''cluster map key does not match the record identity''
     else let seen' = seen + length (cl_endpoints cluster) in
       if seen' > kMaxEndpointsTotal
       then status_make Outcome_CapacityExceeded ''endpoint total exceeds the configured bound''
       else after (first_failure (validate_endpoint cluster) (cl_endpoints cluster))
              (validate_clusters rest seen'))"

definition validate_link :: "registry \<Rightarrow> edge_id \<times> link_record \<Rightarrow> status" where
  "validate_link r = (\<lambda>(key, link).
    if ln_id link \<noteq> key then invalid ''link map key does not match the record identity''
    else if find_endpoint r (ln_a link) = None \<or> find_endpoint r (ln_b link) = None
    then invalid ''link references an endpoint that is not registered''
    else if ln_reserved link > ln_capacity link
    then status_make Outcome_CapacityExceeded ''link reservations exceed capacity''
    else status_ok)"

definition validate_path :: "registry \<Rightarrow> path_id \<times> path_record \<Rightarrow> status" where
  "validate_path r = (\<lambda>(key, path).
    if pa_id path \<noteq> key then invalid ''path map key does not match the record identity''
    else first_failure (\<lambda>hop. if find_link r hop = None
           then invalid ''path references a link that is not registered'' else status_ok) (pa_hops path))"

definition validate_policy :: "string \<times> policy_rule \<Rightarrow> status" where
  "validate_policy = (\<lambda>(key, rule).
    if pr_id rule \<noteq> key then invalid ''policy map key does not match the rule identity''
    else status_ok)"

definition validate_party :: "registry \<Rightarrow> party_ref \<Rightarrow> status" where
  "validate_party r party =
    (if find_cluster r (pt_cluster party) = None
     then invalid ''contract references a cluster that is not registered''
     else if find_endpoint r (pt_endpoint party) = None
     then invalid ''contract references an endpoint that is not registered''
     else status_ok)"

definition validate_contract :: "registry \<Rightarrow> contract_id \<times> contract_record \<Rightarrow> status" where
  "validate_contract r = (\<lambda>(key, contract).
    if co_id contract \<noteq> key then invalid ''contract map key does not match the record identity''
    else first_failure (validate_party r) [fst (co_parties contract), snd (co_parties contract)])"

definition validate_grant :: "registry \<Rightarrow> grant_id \<times> grant_record \<Rightarrow> status" where
  "validate_grant r = (\<lambda>(key, grant).
    if gr_id grant \<noteq> key then invalid ''grant map key does not match the record identity''
    else if find_contract r (gr_contract grant) = None
    then invalid ''grant references a contract that is not registered''
    else if gr_valid_until grant < gr_issued_at grant
    then invalid ''grant validity window ends before it begins''
    else status_ok)"

definition validate_reservation :: "registry \<Rightarrow> reservation_id \<times> reservation_record \<Rightarrow> status" where
  "validate_reservation r = (\<lambda>(key, reservation).
    if rs_id reservation \<noteq> key
    then invalid ''reservation map key does not match the record identity''
    else if find_grant r (rs_grant reservation) = None
    then invalid ''reservation references a grant that is not registered''
    else if rs_released reservation \<and> rs_released_at reservation < rs_created_at reservation
    then invalid ''reservation was released before it was created''
    else status_ok)"

fun validate_audit :: "audit_record list \<Rightarrow> status" where
  "validate_audit (a # b # rest) =
    (if \<not> au_sequence a < au_sequence b then invalid ''audit sequence is not strictly increasing''
     else validate_audit (b # rest))"
| "validate_audit _ = status_ok"

definition validate :: "registry \<Rightarrow> status" where
  "validate r =
    after (validate_clusters (rg_clusters r) 0)
    (after (first_failure (validate_link r) (rg_links r))
    (after (first_failure (validate_path r) (rg_paths r))
    (after (first_failure validate_policy (rg_policies r))
    (after (first_failure (validate_contract r) (rg_contracts r))
    (after (first_failure (validate_grant r) (rg_grants r))
    (after (first_failure (validate_reservation r) (rg_reservations r))
      (validate_audit (rg_audit r))))))))"

end
