(* ===== verification/Registry_Invariant.thy ===== *)
theory Registry_Invariant
  imports Registry
begin

text \<open>
  The invariant of the registry and the contract of its operations: each operation keeps the
  invariant, changes nothing when it fails, and a stored record is the one a lookup returns.
  The contract is the locale \<open>registry_operation\<close>, interpreted for every operation that changes a
  table.
\<close>

section \<open>Tables\<close>

definition table_ok :: "('k::linorder, 'v) omap \<Rightarrow> nat \<Rightarrow> ('k \<Rightarrow> 'v \<Rightarrow> bool) \<Rightarrow> bool" where
  "table_ok m bound P \<longleftrightarrow> om_ok m \<and> length m \<le> bound \<and> (\<forall>(k, v) \<in> set m. P k v)"

lemma table_ok_Nil [simp]: "table_ok [] bound P"
  by (simp add: table_ok_def)

lemma table_ok_om: "table_ok m bound P \<Longrightarrow> om_ok m"
  by (simp add: table_ok_def)

lemma table_ok_find: "table_ok m bound P \<Longrightarrow> om_find m k = Some v \<Longrightarrow> P k v"
  by (auto simp: table_ok_def dest!: om_find_in)

lemma table_ok_insert:
  assumes "table_ok m bound P" "P k v"
  shows "table_ok (snd (insert_bounded m k v bound what)) bound P"
  using assms set_om_put_subset [of k v m]
  by (auto simp: table_ok_def insert_bounded_def om_put_length split: if_splits)

lemma set_om_erase: "set (om_erase k m) \<subseteq> set m"
  by (auto simp: om_erase_def)

lemma table_ok_erase: "table_ok m bound P \<Longrightarrow> table_ok (om_erase k m) bound P"
  using om_erase_length [of k m] set_om_erase [of k m] by (fastforce simp: table_ok_def)

lemma in_om_map: "(k, w) \<in> set (om_map f m) \<Longrightarrow> \<exists>v. (k, v) \<in> set m \<and> w = f k v"
  by (auto simp: om_map_def)

lemma table_ok_map:
  "table_ok m bound P \<Longrightarrow> (\<And>k v. P k v \<Longrightarrow> P k (f k v)) \<Longrightarrow> table_ok (om_map f m) bound P"
  by (fastforce simp: table_ok_def dest: in_om_map)

lemma insert_bounded_failed:
  "\<not> is_ok (fst (insert_bounded m k v bound what)) \<Longrightarrow> snd (insert_bounded m k v bound what) = m"
  by (simp add: insert_bounded_def split: if_splits)

lemma insert_bounded_ok:
  "is_ok (fst (insert_bounded m k v bound what)) \<Longrightarrow> snd (insert_bounded m k v bound what) = om_put k v m"
  by (auto simp: insert_bounded_def)

section \<open>The invariant\<close>

definition endpoints_ok :: "cluster_id \<Rightarrow> endpoint_record list \<Rightarrow> bool" where
  "endpoints_ok cid eps \<longleftrightarrow>
    sorted_wrt (<) (map ep_id eps) \<and> length eps \<le> kMaxEndpointsPerCluster
    \<and> (\<forall>e \<in> set eps. ep_cluster e = cid \<and> ep_reserved e \<le> ep_capacity e)"

definition cluster_ok :: "cluster_id \<Rightarrow> cluster_record \<Rightarrow> bool" where
  "cluster_ok key c \<longleftrightarrow>
    cl_id c = key \<and> cl_id c \<noteq> [] \<and> cl_domain c \<noteq> [] \<and> endpoints_ok (cl_id c) (cl_endpoints c)"

definition link_ok :: "edge_id \<Rightarrow> link_record \<Rightarrow> bool" where
  "link_ok key l \<longleftrightarrow>
    ln_id l = key \<and> ln_id l \<noteq> [] \<and> ln_a l \<noteq> [] \<and> ln_b l \<noteq> [] \<and> ln_a l \<noteq> ln_b l
    \<and> ln_reserved l \<le> ln_capacity l"

definition path_ok :: "path_id \<Rightarrow> path_record \<Rightarrow> bool" where
  "path_ok key p \<longleftrightarrow>
    pa_id p = key \<and> pa_id p \<noteq> [] \<and> pa_a p \<noteq> [] \<and> pa_b p \<noteq> [] \<and> pa_hops p \<noteq> []
    \<and> length (pa_hops p) \<le> kMaxPathHops"

definition policy_ok :: "string \<Rightarrow> policy_rule \<Rightarrow> bool" where
  "policy_ok key p \<longleftrightarrow>
    pr_id p = key \<and> pr_id p \<noteq> [] \<and> length (pr_id p) \<le> kMaxNameLength \<and> pr_owner p \<noteq> []"

definition contract_ok :: "contract_id \<Rightarrow> contract_record \<Rightarrow> bool" where
  "contract_ok key c \<longleftrightarrow>
    co_id c = key \<and> \<not> is_nil (co_id c)
    \<and> pt_cluster (fst (co_parties c)) \<noteq> [] \<and> pt_cluster (snd (co_parties c)) \<noteq> []
    \<and> pt_cluster (fst (co_parties c)) \<noteq> pt_cluster (snd (co_parties c))
    \<and> co_capacity c \<le> kMaxCapacity"

definition grant_ok :: "grant_id \<Rightarrow> grant_record \<Rightarrow> bool" where
  "grant_ok key g \<longleftrightarrow>
    gr_id g = key \<and> \<not> is_nil (gr_id g) \<and> \<not> is_nil (gr_contract g) \<and> gr_capacity g \<le> kMaxCapacity"

definition reservation_ok :: "reservation_id \<Rightarrow> reservation_record \<Rightarrow> bool" where
  "reservation_ok key rs \<longleftrightarrow> rs_id rs = key \<and> \<not> is_nil (rs_id rs)"

text \<open>The trail is bounded and its sequence numbers are contiguous.\<close>

fun contiguous :: "u64 list \<Rightarrow> bool" where
  "contiguous (a # b # rest) \<longleftrightarrow> counter_next a = Inr b \<and> contiguous (b # rest)"
| "contiguous _ \<longleftrightarrow> True"

definition audit_ok :: "audit_record list \<Rightarrow> bool" where
  "audit_ok xs \<longleftrightarrow> length xs \<le> kMaxAuditRecords \<and> contiguous (map au_sequence xs)"

definition registry_ok :: "registry \<Rightarrow> bool" where
  "registry_ok r \<longleftrightarrow>
    table_ok (rg_clusters r) kMaxClusters cluster_ok
    \<and> table_ok (rg_links r) kMaxEdges link_ok
    \<and> table_ok (rg_paths r) kMaxPaths path_ok
    \<and> table_ok (rg_policies r) kMaxPolicyRules policy_ok
    \<and> table_ok (rg_contracts r) kMaxContracts contract_ok
    \<and> table_ok (rg_grants r) kMaxGrants grant_ok
    \<and> table_ok (rg_reservations r) kMaxReservations reservation_ok
    \<and> audit_ok (rg_audit r)"

lemma registry_ok_empty: "registry_ok empty_registry"
  by (simp add: registry_ok_def empty_registry_def audit_ok_def)

lemma contiguous_append:
  "contiguous xs \<Longrightarrow> (xs \<noteq> [] \<Longrightarrow> counter_next (last xs) = Inr x) \<Longrightarrow> contiguous (xs @ [x])"
  by (induction xs rule: contiguous.induct) auto

section \<open>Endpoint lists\<close>

lemma first_failure_ok_iff: "is_ok (first_failure f xs) \<longleftrightarrow> (\<forall>x \<in> set xs. is_ok (f x))"
  by (induction xs) auto

lemma sorted_adjacent_strict:
  "sorted (map ep_id eps) \<Longrightarrow> \<not> adjacent_duplicate eps \<longleftrightarrow> sorted_wrt (<) (map ep_id eps)"
proof (induction eps rule: adjacent_duplicate.induct)
  case (1 a b rest)
  then have "sorted (map ep_id (b # rest))" "ep_id a \<le> ep_id b" by simp_all
  moreover have "sorted_wrt (<) (map ep_id (a # b # rest))
      \<longleftrightarrow> ep_id a < ep_id b \<and> sorted_wrt (<) (map ep_id (b # rest))"
    using sorted_wrt2 [of "(<)" "ep_id a" "ep_id b" "map ep_id rest"] by simp
  moreover have "ep_id a < ep_id b \<longleftrightarrow> ep_id a \<noteq> ep_id b"
    using \<open>ep_id a \<le> ep_id b\<close> by (metis order.strict_iff_order)
  ultimately show ?case using 1 by (cases "ep_id a = ep_id b") simp_all
qed auto

lemma put_cluster_endpoint_check_ok:
  "is_ok (put_cluster_endpoint_check cid e) \<longleftrightarrow> ep_cluster e = cid \<and> ep_reserved e \<le> ep_capacity e"
  by (auto simp: put_cluster_endpoint_check_def not_le)

lemma put_cluster_endpoints_ok:
  assumes "length (cl_endpoints rec) \<le> kMaxEndpointsPerCluster"
    and "is_ok (first_failure (put_cluster_endpoint_check cid) (sort_key ep_id (cl_endpoints rec)))"
    and "\<not> adjacent_duplicate (sort_key ep_id (cl_endpoints rec))"
  shows "endpoints_ok cid (sort_key ep_id (cl_endpoints rec))"
  using assms sorted_adjacent_strict [of "sort_key ep_id (cl_endpoints rec)"]
  by (auto simp: endpoints_ok_def first_failure_ok_iff put_cluster_endpoint_check_ok)

text \<open>On a sorted list the binary search finds the one endpoint with the identity, if there is one.\<close>

lemma cluster_endpoint_Some:
  "cluster_endpoint eps key = Some e \<Longrightarrow> e \<in> set eps \<and> ep_id e = key"
  using set_dropWhileD [of e "\<lambda>x. ep_id x < key" eps]
  by (auto simp: cluster_endpoint_def split: list.splits if_splits)

lemma cluster_endpoint_found:
  "sorted_wrt (<) (map ep_id eps) \<Longrightarrow> e \<in> set eps \<Longrightarrow> cluster_endpoint eps (ep_id e) = Some e"
  by (induction eps) (auto simp: cluster_endpoint_def)


section \<open>The contract of an operation\<close>

locale registry_operation =
  fixes run :: "registry \<Rightarrow> status \<times> registry"
  assumes run_keeps: "registry_ok r \<Longrightarrow> registry_ok (snd (run r))"
    and run_failed: "\<not> is_ok (fst (run r)) \<Longrightarrow> snd (run r) = r"
begin

lemma run_cases:
  obtains "is_ok (fst (run r))" | "\<not> is_ok (fst (run r))" "snd (run r) = r"
  using run_failed by blast

end

lemma registry_ok_update:
  "registry_ok r \<Longrightarrow> table_ok m kMaxClusters cluster_ok \<Longrightarrow> registry_ok (r\<lparr>rg_clusters := m\<rparr>)"
  "registry_ok r \<Longrightarrow> table_ok l kMaxEdges link_ok \<Longrightarrow> registry_ok (r\<lparr>rg_links := l\<rparr>)"
  "registry_ok r \<Longrightarrow> table_ok pa kMaxPaths path_ok \<Longrightarrow> registry_ok (r\<lparr>rg_paths := pa\<rparr>)"
  "registry_ok r \<Longrightarrow> table_ok po kMaxPolicyRules policy_ok \<Longrightarrow> registry_ok (r\<lparr>rg_policies := po\<rparr>)"
  "registry_ok r \<Longrightarrow> table_ok co kMaxContracts contract_ok \<Longrightarrow> registry_ok (r\<lparr>rg_contracts := co\<rparr>)"
  "registry_ok r \<Longrightarrow> table_ok gr kMaxGrants grant_ok \<Longrightarrow> registry_ok (r\<lparr>rg_grants := gr\<rparr>)"
  "registry_ok r \<Longrightarrow> table_ok rs kMaxReservations reservation_ok \<Longrightarrow> registry_ok (r\<lparr>rg_reservations := rs\<rparr>)"
  "registry_ok r \<Longrightarrow> audit_ok au \<Longrightarrow> registry_ok (r\<lparr>rg_audit := au\<rparr>)"
  by (simp_all add: registry_ok_def)

lemma registry_ok_tables:
  assumes "registry_ok r"
  shows "table_ok (rg_clusters r) kMaxClusters cluster_ok" "table_ok (rg_links r) kMaxEdges link_ok"
    "table_ok (rg_paths r) kMaxPaths path_ok" "table_ok (rg_policies r) kMaxPolicyRules policy_ok"
    "table_ok (rg_contracts r) kMaxContracts contract_ok" "table_ok (rg_grants r) kMaxGrants grant_ok"
    "table_ok (rg_reservations r) kMaxReservations reservation_ok" "audit_ok (rg_audit r)"
  using assms by (simp_all add: registry_ok_def)

lemma insert_bounded_let:
  "(let (s, m) = insert_bounded t k v b w in (s, f m))
    = (fst (insert_bounded t k v b w), f (snd (insert_bounded t k v b w)))"
  by (simp add: split_beta Let_def)

lemmas registry_intros = registry_ok_update table_ok_insert table_ok_erase registry_ok_tables

text \<open>A call that erases a present key, in any table.\<close>

lemma insert_bounded_same:
  "\<not> is_ok (fst (insert_bounded t k v b w)) \<Longrightarrow> f (snd (insert_bounded t k v b w)) = f t"
  by (simp add: insert_bounded_failed)

interpretation put_cluster: registry_operation "put_cluster rec" for rec
proof
  fix r assume ok: "registry_ok r"
  let ?eps = "sort_key ep_id (cl_endpoints rec)"
  show "registry_ok (snd (put_cluster rec r))"
  proof (cases "cl_id rec = [] \<or> cl_domain rec = [] \<or> length (cl_endpoints rec) > kMaxEndpointsPerCluster
      \<or> \<not> is_ok (first_failure (put_cluster_endpoint_check (cl_id rec)) ?eps) \<or> adjacent_duplicate ?eps")
    case True
    then show ?thesis using ok by (auto simp: put_cluster_def Let_def)
  next
    case False
    then have "cluster_ok (cl_id rec) (rec\<lparr>cl_endpoints := ?eps\<rparr>)"
      using put_cluster_endpoints_ok [of rec "cl_id rec"] by (simp add: cluster_ok_def)
    with False ok show ?thesis
      by (simp add: put_cluster_def Let_def split_beta registry_intros)
  qed
next
  fix r assume "\<not> is_ok (fst (put_cluster rec r))"
  then show "snd (put_cluster rec r) = r"
    by (auto simp: put_cluster_def Let_def split_beta insert_bounded_failed split: if_splits)
qed

interpretation put_link: registry_operation "put_link rec" for rec
  by unfold_locales
    (auto simp: put_link_def split_beta link_ok_def insert_bounded_failed registry_intros split: if_splits)

interpretation put_path: registry_operation "put_path rec" for rec
  by unfold_locales
    (auto simp: put_path_def split_beta path_ok_def insert_bounded_failed registry_intros split: if_splits)

interpretation put_policy: registry_operation "put_policy rec" for rec
  by unfold_locales
    (auto simp: put_policy_def split_beta policy_ok_def insert_bounded_failed registry_intros split: if_splits)

interpretation put_contract: registry_operation "put_contract rec" for rec
  by unfold_locales
    (auto simp: put_contract_def split_beta contract_ok_def insert_bounded_failed registry_intros split: if_splits)

interpretation put_grant: registry_operation "put_grant rec" for rec
  by unfold_locales
    (auto simp: put_grant_def split_beta grant_ok_def insert_bounded_failed registry_intros split: if_splits)

interpretation put_reservation: registry_operation "put_reservation rec" for rec
  by unfold_locales
    (auto simp: put_reservation_def split_beta reservation_ok_def insert_bounded_failed registry_intros split: if_splits)

interpretation erase_cluster: registry_operation "erase_cluster key" for key
  by unfold_locales (auto simp: erase_cluster_def registry_intros split: if_splits)

interpretation erase_link: registry_operation "erase_link key" for key
  by unfold_locales (auto simp: erase_link_def registry_intros split: if_splits)

interpretation erase_path: registry_operation "erase_path key" for key
  by unfold_locales (auto simp: erase_path_def registry_intros split: if_splits)

interpretation erase_policy: registry_operation "erase_policy key" for key
  by unfold_locales (auto simp: erase_policy_def registry_intros split: if_splits)

interpretation erase_contract: registry_operation "erase_contract key" for key
  by unfold_locales (auto simp: erase_contract_def registry_intros split: if_splits)

interpretation erase_grant: registry_operation "erase_grant key" for key
  by unfold_locales (auto simp: erase_grant_def registry_intros split: if_splits)

text \<open>The audit trail: the same two laws, and the exception only at the last sequence number.\<close>

lemma append_audit_keeps:
  "registry_ok r \<Longrightarrow> registry_append_audit rec r = Some (s, r') \<Longrightarrow> registry_ok r'"
  by (auto simp: registry_append_audit_def audit_ok_def last_map
      intro!: registry_ok_update contiguous_append dest: registry_ok_tables
      split: if_splits sum.splits)
    (auto dest!: registry_ok_tables(8) simp: audit_ok_def last_map counter_next_Inr)

lemma append_audit_failed:
  "registry_append_audit rec r = Some (s, r') \<Longrightarrow> \<not> is_ok s \<Longrightarrow> r' = r"
  by (auto simp: registry_append_audit_def split: if_splits sum.splits)

lemma recompute_path_states_keeps: "registry_ok r \<Longrightarrow> registry_ok (recompute_path_states r)"
  unfolding recompute_path_states_def
  by (intro registry_ok_update table_ok_map)
    (auto simp: registry_ok_tables path_ok_def recompute_path_def split: prod.splits)

end
