(* ===== verification/Canonical.thy ===== *)
theory Canonical
  imports Registry_Invariant
begin

text \<open>
  \<open>model/canonical.cpp\<close>: the canonical encoding of every record and of the whole registry. An
  encoder is the bytes it appends, a decoder a reader of \<open>Bytes\<close>; the decoders check in the order
  of the source. \<open>None\<close> as the result of \<open>decode_registry\<close> is the exception that appending to the
  audit trail can raise.
\<close>

section \<open>Shared readers\<close>

definition kMaxText :: nat where "kMaxText = kMaxStringField"

definition decode_text :: "string reader" where
  "decode_text = r_blob kMaxText"

text \<open>A check that returns \<open>Result\<close> and reads nothing.\<close>

definition lift_result :: "'a result \<Rightarrow> 'a reader" where
  "lift_result res bs = (case res of Inl e \<Rightarrow> Inl e | Inr x \<Rightarrow> Inr (x, bs))"

definition decode_name :: "name_tag \<Rightarrow> nat \<Rightarrow> string reader" where
  "decode_name tag max_length = and_then (r_blob max_length) (\<lambda>text. lift_result (name_parse tag text))"

definition encode_enum8 :: "'e list \<Rightarrow> 'e \<Rightarrow> bytes" where
  "encode_enum8 vs x = w_u8 (word_of_nat (list_index vs x))"

definition encode_enum16 :: "'e list \<Rightarrow> 'e \<Rightarrow> bytes" where
  "encode_enum16 vs x = w_u16 (word_of_nat (list_index vs x))"

definition decode_enum8 :: "'e list \<Rightarrow> nat \<Rightarrow> 'e reader" where
  "decode_enum8 vs max_value =
    and_then r_u8 (\<lambda>raw.
    require (\<not> unat raw > max_value) (invalid ''enumeration value is out of range'')
    (give (vs ! unat raw)))"

definition decode_enum16 :: "'e list \<Rightarrow> nat \<Rightarrow> 'e reader" where
  "decode_enum16 vs max_value =
    and_then r_u16 (\<lambda>raw.
    require (\<not> unat raw > max_value) (invalid ''enumeration value is out of range'')
    (give (vs ! unat raw)))"

definition decode_counter :: "u64 \<Rightarrow> u64 reader" where
  "decode_counter max_value =
    and_then r_u64 (\<lambda>raw.
    require (\<not> raw > max_value)
      (status_make Outcome_Overflow ''counter exceeds the maximum permitted value'')
    (give raw))"

section \<open>Records\<close>

definition encode_provenance :: "provenance \<Rightarrow> bytes" where
  "encode_provenance p =
    encode_enum8 evidence_source_values (pv_source p)
    @ encode_enum8 verification_state_values (pv_verification p)
    @ w_i64 (pv_observed_at p)
    @ w_u64 (pv_revision p)
    @ w_uuid (pv_session p)
    @ w_digest (pv_evidence_digest p)"

definition decode_provenance :: "provenance reader" where
  "decode_provenance =
    and_then (decode_enum8 evidence_source_values 5) (\<lambda>source.
    and_then (decode_enum8 verification_state_values 4) (\<lambda>verification.
    and_then r_i64 (\<lambda>observed.
    and_then (decode_counter kMaxGeneration) (\<lambda>revision.
    and_then r_uuid (\<lambda>session.
    and_then r_digest (\<lambda>evidence.
    give \<lparr>pv_source = source, pv_verification = verification, pv_observed_at = observed,
      pv_revision = revision, pv_session = session, pv_evidence_digest = evidence\<rparr>))))))"

definition encode_endpoint :: "endpoint_record \<Rightarrow> bytes" where
  "encode_endpoint e =
    w_blob (ep_id e)
    @ w_blob (ep_cluster e)
    @ w_blob (ep_scope e)
    @ w_u64 (ep_capacity e)
    @ w_u64 (ep_reserved e)
    @ w_u64 (ep_policy_generation e)
    @ encode_enum8 endpoint_state_values (ep_state e)
    @ w_boolean (ep_inter_cluster_allowed e)
    @ w_boolean (ep_permits_degraded e)
    @ encode_provenance (ep_provenance e)"

definition decode_endpoint :: "endpoint_record reader" where
  "decode_endpoint =
    and_then (decode_name id_tag kMaxNameLength) (\<lambda>key.
    and_then (decode_name id_tag kMaxNameLength) (\<lambda>cluster.
    and_then (decode_name scope_tag kMaxScopeLength) (\<lambda>scope.
    and_then (decode_counter kMaxCapacity) (\<lambda>capacity.
    and_then (decode_counter kMaxCapacity) (\<lambda>reserved.
    and_then (decode_counter kMaxGeneration) (\<lambda>policy.
    and_then (decode_enum8 endpoint_state_values 4) (\<lambda>state.
    and_then r_boolean (\<lambda>allowed.
    and_then r_boolean (\<lambda>degraded.
    and_then decode_provenance (\<lambda>prov.
    give \<lparr>ep_id = key, ep_cluster = cluster, ep_scope = scope, ep_capacity = capacity,
      ep_reserved = reserved, ep_policy_generation = policy, ep_state = state,
      ep_inter_cluster_allowed = allowed, ep_permits_degraded = degraded,
      ep_provenance = prov\<rparr>))))))))))"

definition encode_consent :: "consent_record \<Rightarrow> bytes" where
  "encode_consent c =
    w_blob (cs_cluster c)
    @ w_blob (cs_endpoint c)
    @ w_uuid (cs_incarnation c)
    @ w_u64 (cs_generation c)
    @ w_u64 (cs_policy_generation c)
    @ w_u64 (cs_agent_term c)
    @ w_digest (cs_terms_digest c)
    @ encode_enum8 consent_decision_values (cs_decision c)
    @ w_i64 (cs_decided_at c)
    @ w_uuid (cs_session c)
    @ encode_enum8 transport_authenticity_values (cs_authenticity c)
    @ w_blob (cs_reason c)"

definition decode_consent :: "consent_record reader" where
  "decode_consent =
    and_then (decode_name id_tag kMaxNameLength) (\<lambda>cluster.
    and_then (decode_name id_tag kMaxNameLength) (\<lambda>endpoint.
    and_then r_uuid (\<lambda>incarnation.
    and_then (decode_counter kMaxGeneration) (\<lambda>generation.
    and_then (decode_counter kMaxGeneration) (\<lambda>policy.
    and_then (decode_counter kMaxGeneration) (\<lambda>term.
    and_then r_digest (\<lambda>terms_digest.
    and_then (decode_enum8 consent_decision_values 1) (\<lambda>decision.
    and_then r_i64 (\<lambda>decided_at.
    and_then r_uuid (\<lambda>session.
    and_then (decode_enum8 transport_authenticity_values 1) (\<lambda>authenticity.
    and_then decode_text (\<lambda>reason.
    give \<lparr>cs_cluster = cluster, cs_endpoint = endpoint, cs_incarnation = incarnation,
      cs_generation = generation, cs_policy_generation = policy, cs_agent_term = term,
      cs_terms_digest = terms_digest, cs_decision = decision, cs_decided_at = decided_at,
      cs_session = session, cs_authenticity = authenticity, cs_reason = reason\<rparr>))))))))))))"

definition encode_cluster :: "cluster_record \<Rightarrow> bytes" where
  "encode_cluster c =
    w_blob (cl_id c)
    @ w_blob (cl_domain c)
    @ w_uuid (cl_incarnation c)
    @ w_u64 (cl_generation c)
    @ w_u64 (cl_policy_generation c)
    @ encode_enum8 cluster_state_values (cl_state c)
    @ w_boolean (cl_consent_withdrawn c)
    @ w_i64 (cl_last_seen c)
    @ snd (w_count (length (cl_endpoints c)))
    @ concat (map encode_endpoint (cl_endpoints c))
    @ w_digest (cl_content_digest c)
    @ w_boolean (cl_generation_conflict c)
    @ w_boolean (cl_conflicting_generation c \<noteq> None)
    @ w_u64 (case cl_conflicting_generation c of Some g \<Rightarrow> g | None \<Rightarrow> 0)
    @ w_u64 (cl_revision c)
    @ encode_provenance (cl_provenance c)
    @ w_u64 (cl_incarnation_changes c)"

definition decode_cluster :: "cluster_record reader" where
  "decode_cluster =
    and_then (decode_name id_tag kMaxNameLength) (\<lambda>key.
    and_then (decode_name id_tag kMaxNameLength) (\<lambda>domain.
    and_then r_uuid (\<lambda>incarnation.
    and_then (decode_counter kMaxGeneration) (\<lambda>generation.
    and_then (decode_counter kMaxGeneration) (\<lambda>policy.
    and_then (decode_enum8 cluster_state_values 4) (\<lambda>state.
    and_then r_boolean (\<lambda>withdrawn.
    and_then r_i64 (\<lambda>last_seen.
    and_then (r_count kMaxEndpointsPerCluster) (\<lambda>endpoint_count.
    and_then (read_times endpoint_count decode_endpoint) (\<lambda>endpoints.
    require (\<not> adjacent_duplicate (sort_key ep_id endpoints))
      (invalid ''cluster record contains a duplicate endpoint identity'')
    (and_then r_digest (\<lambda>content.
    and_then r_boolean (\<lambda>conflict.
    and_then r_boolean (\<lambda>has_conflict_generation.
    and_then (decode_counter kMaxGeneration) (\<lambda>conflict_generation.
    and_then (decode_counter kMaxGeneration) (\<lambda>revision.
    and_then decode_provenance (\<lambda>prov.
    and_then (decode_counter kMaxGeneration) (\<lambda>incarnation_changes.
    give \<lparr>cl_id = key, cl_domain = domain, cl_incarnation = incarnation,
      cl_generation = generation, cl_policy_generation = policy, cl_state = state,
      cl_consent_withdrawn = withdrawn, cl_last_seen = last_seen,
      cl_endpoints = sort_key ep_id endpoints, cl_content_digest = content,
      cl_generation_conflict = conflict,
      cl_conflicting_generation =
        (if has_conflict_generation then Some conflict_generation else None),
      cl_revision = revision, cl_provenance = prov,
      cl_incarnation_changes = incarnation_changes\<rparr>))))))))))))))))))"

definition encode_link :: "link_record \<Rightarrow> bytes" where
  "encode_link l =
    w_blob (ln_id l)
    @ w_blob (ln_a l)
    @ w_blob (ln_b l)
    @ encode_enum16 link_kind_values (ln_kind l)
    @ encode_enum8 link_state_values (ln_state l)
    @ w_u64 (ln_capacity l)
    @ w_u64 (ln_reserved l)
    @ w_u32 (ln_latency_micros l)
    @ w_u64 (ln_revision l)
    @ encode_provenance (ln_provenance l)"

definition decode_link :: "link_record reader" where
  "decode_link =
    and_then (decode_name id_tag kMaxNameLength) (\<lambda>key.
    and_then (decode_name id_tag kMaxNameLength) (\<lambda>a.
    and_then (decode_name id_tag kMaxNameLength) (\<lambda>b.
    and_then (decode_enum16 link_kind_values 3) (\<lambda>kind.
    and_then (decode_enum8 link_state_values 4) (\<lambda>state.
    and_then (decode_counter kMaxCapacity) (\<lambda>capacity.
    and_then (decode_counter kMaxCapacity) (\<lambda>reserved.
    and_then r_u32 (\<lambda>latency.
    and_then (decode_counter kMaxGeneration) (\<lambda>revision.
    and_then decode_provenance (\<lambda>prov.
    give \<lparr>ln_id = key, ln_a = a, ln_b = b, ln_kind = kind, ln_state = state,
      ln_capacity = capacity, ln_reserved = reserved, ln_latency_micros = latency,
      ln_revision = revision, ln_provenance = prov\<rparr>))))))))))"

definition encode_path :: "path_record \<Rightarrow> bytes" where
  "encode_path p =
    w_blob (pa_id p)
    @ w_blob (pa_a p)
    @ w_blob (pa_b p)
    @ snd (w_count (length (pa_hops p)))
    @ concat (map w_blob (pa_hops p))
    @ w_u64 (pa_bottleneck p)
    @ encode_enum8 path_state_values (pa_state p)
    @ w_u64 (pa_revision p)
    @ encode_provenance (pa_provenance p)
    @ w_boolean (pa_contains_unsupported_edge p)"

definition decode_path :: "path_record reader" where
  "decode_path =
    and_then (decode_name id_tag kMaxNameLength) (\<lambda>key.
    and_then (decode_name id_tag kMaxNameLength) (\<lambda>a.
    and_then (decode_name id_tag kMaxNameLength) (\<lambda>b.
    and_then (r_count kMaxPathHops) (\<lambda>hop_count.
    and_then (read_times hop_count (decode_name id_tag kMaxNameLength)) (\<lambda>hops.
    and_then (decode_counter kMaxCapacity) (\<lambda>bottleneck.
    and_then (decode_enum8 path_state_values 3) (\<lambda>state.
    and_then (decode_counter kMaxGeneration) (\<lambda>revision.
    and_then decode_provenance (\<lambda>prov.
    and_then r_boolean (\<lambda>contains_unsupported.
    give \<lparr>pa_id = key, pa_a = a, pa_b = b, pa_hops = hops, pa_bottleneck = bottleneck,
      pa_state = state, pa_revision = revision, pa_provenance = prov,
      pa_contains_unsupported_edge = contains_unsupported\<rparr>))))))))))"

definition encode_policy :: "policy_rule \<Rightarrow> bytes" where
  "encode_policy p =
    w_blob (pr_id p)
    @ w_blob (pr_owner p)
    @ w_blob (pr_cluster_a p)
    @ w_blob (pr_cluster_b p)
    @ w_blob (pr_endpoint_a p)
    @ w_blob (pr_endpoint_b p)
    @ w_u64 (pr_generation p)
    @ w_boolean (pr_allow p)
    @ w_boolean (pr_allow_degraded p)
    @ w_u64 (pr_max_capacity p)
    @ w_u64 (pr_revision p)
    @ encode_provenance (pr_provenance p)"

text \<open>The two lambdas \<open>optional_cluster\<close> and \<open>optional_endpoint\<close>: an empty text is the wildcard.\<close>

definition decode_optional_name :: "string reader" where
  "decode_optional_name =
    and_then (r_blob kMaxNameLength) (\<lambda>text.
      if text = [] then give [] else lift_result (name_parse id_tag text))"

definition decode_policy :: "policy_rule reader" where
  "decode_policy =
    and_then decode_text (\<lambda>key.
    require (\<not> (key = [] \<or> length key > kMaxNameLength))
      (invalid ''policy rule identity has an invalid length'')
    (and_then (decode_name id_tag kMaxNameLength) (\<lambda>owner.
    and_then decode_optional_name (\<lambda>cluster_a.
    and_then decode_optional_name (\<lambda>cluster_b.
    and_then decode_optional_name (\<lambda>endpoint_a.
    and_then decode_optional_name (\<lambda>endpoint_b.
    and_then (decode_counter kMaxGeneration) (\<lambda>generation.
    and_then r_boolean (\<lambda>allow.
    and_then r_boolean (\<lambda>degraded.
    and_then (decode_counter kMaxCapacity) (\<lambda>max_capacity.
    and_then (decode_counter kMaxGeneration) (\<lambda>revision.
    and_then decode_provenance (\<lambda>prov.
    give \<lparr>pr_id = key, pr_owner = owner, pr_cluster_a = cluster_a, pr_cluster_b = cluster_b,
      pr_endpoint_a = endpoint_a, pr_endpoint_b = endpoint_b, pr_generation = generation,
      pr_allow = allow, pr_allow_degraded = degraded, pr_max_capacity = max_capacity,
      pr_revision = revision, pr_provenance = prov\<rparr>)))))))))))))"

definition encode_party :: "party_ref \<Rightarrow> bytes" where
  "encode_party p = w_blob (pt_cluster p) @ w_blob (pt_endpoint p) @ w_blob (pt_domain p)"

definition decode_party :: "party_ref reader" where
  "decode_party =
    and_then (decode_name id_tag kMaxNameLength) (\<lambda>cluster.
    and_then (decode_name id_tag kMaxNameLength) (\<lambda>endpoint.
    and_then (decode_name id_tag kMaxNameLength) (\<lambda>domain.
    give \<lparr>pt_cluster = cluster, pt_endpoint = endpoint, pt_domain = domain\<rparr>)))"

definition encode_consent_slot :: "consent_record option \<Rightarrow> bytes" where
  "encode_consent_slot c =
    w_boolean (c \<noteq> None) @ (case c of None \<Rightarrow> [] | Some consent \<Rightarrow> encode_consent consent)"

definition decode_consent_slot :: "consent_record option reader" where
  "decode_consent_slot =
    and_then r_boolean (\<lambda>present.
      if present then and_then decode_consent (\<lambda>decoded. give (Some decoded)) else give None)"

definition encode_contract :: "contract_record \<Rightarrow> bytes" where
  "encode_contract c =
    w_uuid (co_id c)
    @ encode_party (fst (co_parties c))
    @ encode_party (snd (co_parties c))
    @ w_u64 (co_capacity c)
    @ w_i64 (co_lease_duration c)
    @ w_digest (co_terms_digest c)
    @ encode_enum8 contract_state_values (co_state c)
    @ encode_consent_slot (fst (co_consents c))
    @ encode_consent_slot (snd (co_consents c))
    @ w_i64 (co_created_at c)
    @ w_i64 (co_updated_at c)
    @ w_u64 (co_revision c)
    @ encode_provenance (co_provenance c)"

definition decode_contract :: "contract_record reader" where
  "decode_contract =
    and_then r_uuid (\<lambda>key.
    and_then decode_party (\<lambda>party0.
    and_then decode_party (\<lambda>party1.
    require (\<not> pt_cluster party0 = pt_cluster party1)
      (invalid ''a contract must join two distinct cluster identities'')
    (and_then (decode_counter kMaxCapacity) (\<lambda>capacity.
    and_then r_i64 (\<lambda>lease.
    require (\<not> (lease < 0 \<or> word_of_int lease > kMaxDurationNanos))
      (invalid ''contract lease duration is out of range'')
    (and_then r_digest (\<lambda>terms.
    and_then (decode_enum8 contract_state_values 7) (\<lambda>state.
    and_then decode_consent_slot (\<lambda>consent0.
    and_then decode_consent_slot (\<lambda>consent1.
    and_then r_i64 (\<lambda>created.
    and_then r_i64 (\<lambda>updated.
    and_then (decode_counter kMaxGeneration) (\<lambda>revision.
    and_then decode_provenance (\<lambda>prov.
    give \<lparr>co_id = key, co_parties = (party0, party1), co_capacity = capacity,
      co_lease_duration = lease, co_terms_digest = terms, co_state = state,
      co_consents = (consent0, consent1), co_created_at = created, co_updated_at = updated,
      co_revision = revision, co_provenance = prov\<rparr>)))))))))))))))"

text \<open>The three fields the grant's party loop handles in each round.\<close>

definition encode_binding :: "incarnation_id \<times> u64 \<times> u64 \<Rightarrow> bytes" where
  "encode_binding b = w_uuid (fst b) @ w_u64 (fst (snd b)) @ w_u64 (snd (snd b))"

definition decode_binding :: "(incarnation_id \<times> u64 \<times> u64) reader" where
  "decode_binding =
    and_then r_uuid (\<lambda>incarnation.
    and_then (decode_counter kMaxGeneration) (\<lambda>generation.
    and_then (decode_counter kMaxGeneration) (\<lambda>policy.
    give (incarnation, generation, policy))))"

definition encode_grant :: "grant_record \<Rightarrow> bytes" where
  "encode_grant g =
    w_uuid (gr_id g)
    @ w_uuid (gr_contract g)
    @ w_digest (gr_terms_digest g)
    @ w_u64 (gr_coordinator_term g)
    @ w_uuid (gr_coordinator g)
    @ w_uuid (gr_attempt g)
    @ encode_binding (fst (gr_incarnations g), fst (gr_generations g), fst (gr_policies g))
    @ encode_binding (snd (gr_incarnations g), snd (gr_generations g), snd (gr_policies g))
    @ w_u64 (gr_capacity g)
    @ w_i64 (gr_issued_at g)
    @ w_i64 (gr_valid_until g)
    @ encode_enum8 grant_state_values (gr_state g)
    @ w_boolean (fst (gr_acknowledged g))
    @ w_digest (fst (gr_enforcement_digest g))
    @ w_boolean (snd (gr_acknowledged g))
    @ w_digest (snd (gr_enforcement_digest g))
    @ w_u64 (gr_revalidate_attempts g)
    @ w_blob (gr_note g)
    @ w_u64 (gr_revision g)
    @ encode_provenance (gr_provenance g)"

definition decode_grant :: "grant_record reader" where
  "decode_grant =
    and_then r_uuid (\<lambda>key.
    and_then r_uuid (\<lambda>contract.
    and_then r_digest (\<lambda>terms.
    and_then (decode_counter kMaxGeneration) (\<lambda>term.
    and_then r_uuid (\<lambda>coordinator.
    and_then r_uuid (\<lambda>attempt.
    and_then decode_binding (\<lambda>(incarnation0, generation0, policy0).
    and_then decode_binding (\<lambda>(incarnation1, generation1, policy1).
    and_then (decode_counter kMaxCapacity) (\<lambda>capacity.
    and_then r_i64 (\<lambda>issued.
    and_then r_i64 (\<lambda>valid_until.
    and_then (decode_enum8 grant_state_values 8) (\<lambda>state.
    and_then r_boolean (\<lambda>acknowledged0.
    and_then r_digest (\<lambda>digest0.
    and_then r_boolean (\<lambda>acknowledged1.
    and_then r_digest (\<lambda>digest1.
    and_then (decode_counter (kMaxRevalidateAttempts * 4096)) (\<lambda>attempts.
    and_then decode_text (\<lambda>note.
    and_then (decode_counter kMaxGeneration) (\<lambda>revision.
    and_then decode_provenance (\<lambda>prov.
    give \<lparr>gr_id = key, gr_contract = contract, gr_terms_digest = terms,
      gr_coordinator_term = term, gr_coordinator = coordinator, gr_attempt = attempt,
      gr_incarnations = (incarnation0, incarnation1), gr_generations = (generation0, generation1),
      gr_policies = (policy0, policy1), gr_capacity = capacity, gr_issued_at = issued,
      gr_valid_until = valid_until, gr_state = state,
      gr_acknowledged = (acknowledged0, acknowledged1), gr_enforcement_digest = (digest0, digest1),
      gr_revalidate_attempts = attempts, gr_note = note, gr_revision = revision,
      gr_provenance = prov\<rparr>))))))))))))))))))))"

definition encode_reservation :: "reservation_record \<Rightarrow> bytes" where
  "encode_reservation rs =
    w_uuid (rs_id rs)
    @ w_uuid (rs_grant rs)
    @ w_blob (rs_endpoint rs)
    @ w_blob (rs_cluster rs)
    @ w_u64 (rs_amount rs)
    @ w_boolean (rs_released rs)
    @ w_i64 (rs_created_at rs)
    @ w_i64 (rs_released_at rs)
    @ w_u64 (rs_revision rs)
    @ encode_provenance (rs_provenance rs)"

definition decode_reservation :: "reservation_record reader" where
  "decode_reservation =
    and_then r_uuid (\<lambda>key.
    and_then r_uuid (\<lambda>grant.
    and_then (decode_name id_tag kMaxNameLength) (\<lambda>endpoint.
    and_then (decode_name id_tag kMaxNameLength) (\<lambda>cluster.
    and_then (decode_counter kMaxCapacity) (\<lambda>amount.
    and_then r_boolean (\<lambda>released.
    and_then r_i64 (\<lambda>created.
    and_then r_i64 (\<lambda>released_at.
    and_then (decode_counter kMaxGeneration) (\<lambda>revision.
    and_then decode_provenance (\<lambda>prov.
    give \<lparr>rs_id = key, rs_grant = grant, rs_endpoint = endpoint, rs_cluster = cluster,
      rs_amount = amount, rs_released = released, rs_created_at = created,
      rs_released_at = released_at, rs_revision = revision, rs_provenance = prov\<rparr>))))))))))"

definition encode_audit :: "audit_record \<Rightarrow> bytes" where
  "encode_audit a =
    w_u64 (au_sequence a)
    @ w_i64 (au_at a)
    @ w_blob (au_actor a)
    @ w_blob (au_action a)
    @ w_blob (au_subject a)
    @ w_u16 (word_of_nat (outcome_code (au_outcome a)))
    @ w_blob (au_detail a)"

definition decode_audit :: "audit_record reader" where
  "decode_audit =
    and_then r_u64 (\<lambda>sequence.
    and_then r_i64 (\<lambda>at.
    and_then decode_text (\<lambda>actor.
    and_then decode_text (\<lambda>action.
    and_then decode_text (\<lambda>subject.
    and_then r_u16 (\<lambda>raw.
    require (\<not> unat raw > outcome_code Outcome_Internal) (invalid ''audit outcome is out of range'')
    (and_then decode_text (\<lambda>detail.
    give \<lparr>au_sequence = sequence, au_at = at, au_actor = actor, au_action = action,
      au_subject = subject, au_outcome = outcome_values ! unat raw, au_detail = detail\<rparr>))))))))"

section \<open>The registry\<close>

definition kModelEncodingVersion :: u16 where "kModelEncodingVersion = 1"

text \<open>The count of a table and its records in iteration order.\<close>

definition encode_table :: "('v \<Rightarrow> bytes) \<Rightarrow> ('k, 'v) omap \<Rightarrow> bytes" where
  "encode_table enc m = snd (w_count (length m)) @ concat (map (\<lambda>entry. enc (snd entry)) m)"

definition encode_registry :: "registry \<Rightarrow> bool \<Rightarrow> bytes" where
  "encode_registry r include_audit =
    w_u16 kModelEncodingVersion
    @ w_boolean include_audit
    @ encode_table encode_cluster (rg_clusters r)
    @ encode_table encode_link (rg_links r)
    @ encode_table encode_path (rg_paths r)
    @ encode_table encode_policy (rg_policies r)
    @ encode_table encode_contract (rg_contracts r)
    @ encode_table encode_grant (rg_grants r)
    @ encode_table encode_reservation (rg_reservations r)
    @ (if include_audit
       then snd (w_count (length (rg_audit r))) @ concat (map encode_audit (rg_audit r))
       else [])"

text \<open>One decoding loop: read a record, put it into the registry, return a failing status.\<close>

fun decode_into :: "nat \<Rightarrow> 'a reader \<Rightarrow> ('a \<Rightarrow> registry \<Rightarrow> status \<times> registry) \<Rightarrow> registry \<Rightarrow> registry reader" where
  "decode_into 0 dec put r = give r"
| "decode_into (Suc n) dec put r =
    and_then dec (\<lambda>rec.
      let (s, r') = put rec r in
      if is_ok s then decode_into n dec put r' else refuse s)"

definition decode_table ::
  "nat \<Rightarrow> 'a reader \<Rightarrow> ('a \<Rightarrow> registry \<Rightarrow> status \<times> registry) \<Rightarrow> registry \<Rightarrow> registry reader" where
  "decode_table bound dec put r = and_then (r_count bound) (\<lambda>n. decode_into n dec put r)"

text \<open>The loop over the audit records; \<open>None\<close> where appending raises.\<close>

fun decode_audit_into :: "nat \<Rightarrow> registry \<Rightarrow> bytes \<Rightarrow> (registry \<times> bytes) result option" where
  "decode_audit_into 0 r bs = Some (Inr (r, bs))"
| "decode_audit_into (Suc n) r bs =
    (case decode_audit bs of
       Inl e \<Rightarrow> Some (Inl e)
     | Inr (rec, rest) \<Rightarrow>
         (case registry_append_audit rec r of
            None \<Rightarrow> None
          | Some (s, r') \<Rightarrow> if is_ok s then decode_audit_into n r' rest else Some (Inl s)))"

text \<open>Everything before the audit trail: the flag that announces it, and the tables.\<close>

definition decode_tables :: "(bool \<times> registry) reader" where
  "decode_tables =
    and_then r_u16 (\<lambda>version.
    require (version = kModelEncodingVersion)
      (status_make Outcome_Incompatible ''model encoding version is not supported'')
    (and_then r_boolean (\<lambda>include_audit.
    and_then (decode_table kMaxClusters decode_cluster put_cluster empty_registry) (\<lambda>r1.
    and_then (decode_table kMaxEdges decode_link put_link r1) (\<lambda>r2.
    and_then (decode_table kMaxPaths decode_path put_path r2) (\<lambda>r3.
    and_then (decode_table kMaxPolicyRules decode_policy put_policy r3) (\<lambda>r4.
    and_then (decode_table kMaxContracts decode_contract put_contract r4) (\<lambda>r5.
    and_then (decode_table kMaxGrants decode_grant put_grant r5) (\<lambda>r6.
    and_then (decode_table kMaxReservations decode_reservation put_reservation r6) (\<lambda>r7.
    give (include_audit, r7)))))))))))"

definition decode_audit_trail :: "bool \<Rightarrow> registry \<Rightarrow> bytes \<Rightarrow> (registry \<times> bytes) result option" where
  "decode_audit_trail include_audit r bs =
    (if include_audit
     then (case r_count kMaxAuditRecords bs of
             Inl e \<Rightarrow> Some (Inl e)
           | Inr (n, rest) \<Rightarrow> decode_audit_into n r rest)
     else Some (Inr (r, bs)))"

definition decode_registry :: "bytes \<Rightarrow> registry result option" where
  "decode_registry bs =
    (case decode_tables bs of
       Inl e \<Rightarrow> Some (Inl e)
     | Inr ((include_audit, r), rest) \<Rightarrow>
         (case decode_audit_trail include_audit r rest of
            None \<Rightarrow> None
          | Some (Inl e) \<Rightarrow> Some (Inl e)
          | Some (Inr (r', rest')) \<Rightarrow>
              Some (if is_ok (expect_end rest') then Inr r' else Inl (expect_end rest'))))"

definition registry_digest :: "registry \<Rightarrow> digest" where
  "registry_digest r = sha256_hash (encode_registry r False)"

end
