(* ===== verification/Canonical_Laws.thy ===== *)
theory Canonical_Laws
  imports Canonical
begin

text \<open>
  Every record codec of \<open>Canonical\<close> is an interpretation of the interface \<open>codec\<close> of \<open>Bytes\<close>, and
  all but the cluster's are canonical: they accept exactly the encodings. The predicate \<open>..._wire\<close>
  of a record says which field values its encoding can carry.
\<close>

section \<open>Shared readers\<close>

lemma lift_result_eq_Inr: "lift_result res bs = Inr (x, rest) \<longleftrightarrow> res = Inr x \<and> rest = bs"
  by (auto simp: lift_result_def split: sum.splits)

lemma decode_name_sound:
  assumes "decode_name tag n bs = Inr (s, rest)" "n < 2 ^ 32"
  shows "name_ok tag s \<and> bs = w_blob s @ rest"
  using assms
  by (auto simp: decode_name_def and_then_eq_Inr_iff lift_result_eq_Inr name_ok_def
      dest!: r_blob_sound dest: name_parse_InrD)

interpretation ident: canonical_codec w_blob "decode_name id_tag kMaxNameLength" "name_ok id_tag"
proof
  fix x rest assume "name_ok id_tag x"
  then show "decode_name id_tag kMaxNameLength (w_blob x @ rest) = Inr (x, rest)"
    by (simp add: decode_name_def blob.dec_step) (simp add: lift_result_def name_ok_def)
next
  fix bs x rest assume "decode_name id_tag kMaxNameLength bs = Inr (x, rest)"
  then show "name_ok id_tag x \<and> bs = w_blob x @ rest"
    by (rule decode_name_sound) (simp add: kMaxNameLength_def)
qed

interpretation scope: canonical_codec w_blob "decode_name scope_tag kMaxScopeLength" "name_ok scope_tag"
proof
  fix x rest assume "name_ok scope_tag x"
  then show "decode_name scope_tag kMaxScopeLength (w_blob x @ rest) = Inr (x, rest)"
    by (simp add: decode_name_def blob.dec_step) (simp add: lift_result_def name_ok_def)
next
  fix bs x rest assume "decode_name scope_tag kMaxScopeLength bs = Inr (x, rest)"
  then show "name_ok scope_tag x \<and> bs = w_blob x @ rest"
    by (rule decode_name_sound) (simp add: kMaxScopeLength_def)
qed

definition wild_ok :: "string \<Rightarrow> bool" where
  "wild_ok s \<longleftrightarrow> s = [] \<or> name_ok id_tag s"

lemma wild_ok_text [simp]: "wild_ok s \<Longrightarrow> text_ok kMaxNameLength s"
  by (auto simp: wild_ok_def)
    (simp add: text_ok_def bytes_of_string_def kMaxNameLength_def)

interpretation wild: canonical_codec w_blob decode_optional_name wild_ok
proof
  fix x rest assume "wild_ok x"
  then show "decode_optional_name (w_blob x @ rest) = Inr (x, rest)"
    by (simp add: decode_optional_name_def blob.dec_step)
      (auto simp: lift_result_def name_ok_def wild_ok_def)
next
  fix bs x rest assume "decode_optional_name bs = Inr (x, rest)"
  then show "wild_ok x \<and> bs = w_blob x @ rest"
    by (auto simp: decode_optional_name_def and_then_eq_Inr_iff lift_result_eq_Inr name_ok_def
        wild_ok_def kMaxNameLength_def dest!: r_blob_sound dest: name_parse_InrD split: if_splits)
qed

definition note_ok :: "string \<Rightarrow> bool" where
  "note_ok s \<longleftrightarrow> text_ok kMaxText s"

interpretation free_text: canonical_codec w_blob decode_text note_ok
  by unfold_locales
    (simp_all add: decode_text_def note_ok_def blob.dec_enc r_blob_sound kMaxText_def kMaxStringField_def)

interpretation counter: canonical_codec w_u64 "decode_counter k" "\<lambda>v. v \<le> k" for k
  by unfold_locales
    (auto simp: decode_counter_def u64.dec_step and_then_eq_Inr_iff require_eq_Inr_iff not_less
      dest!: r_u64_sound)

text \<open>An enumeration whose value list is complete and whose bound is its last value.\<close>

definition enum_ok :: "'e list \<Rightarrow> nat \<Rightarrow> 'e \<Rightarrow> bool" where
  "enum_ok vs m x \<longleftrightarrow> x \<in> set vs \<and> distinct vs \<and> length vs = Suc m \<and> m < 256"

lemma list_index_nth_distinct: "distinct vs \<Longrightarrow> i < length vs \<Longrightarrow> list_index vs (vs ! i) = i"
  by (induction vs arbitrary: i) (auto simp: nth_Cons' split: nat.splits)

lemma enum_index:
  assumes "enum_ok vs m x"
  shows "list_index vs x \<le> m" "vs ! list_index vs x = x" "list_index vs x < 256"
  using list_index_nth [of x vs] assms by (auto simp: enum_ok_def)

lemma enum8_dec_step: "enum_ok vs m x \<Longrightarrow> decode_enum8 vs m (encode_enum8 vs x @ rest) = Inr (x, rest)"
  using enum_index [of vs m x]
  by (simp add: decode_enum8_def encode_enum8_def u8.dec_step unat_of_nat take_bit_nat_eq_self)

lemma enum16_dec_step: "enum_ok vs m x \<Longrightarrow> decode_enum16 vs m (encode_enum16 vs x @ rest) = Inr (x, rest)"
  using enum_index [of vs m x]
  by (simp add: decode_enum16_def encode_enum16_def u16.dec_step unat_of_nat take_bit_nat_eq_self)

interpretation enum8: codec "encode_enum8 vs" "decode_enum8 vs m" "enum_ok vs m" for vs m
  by unfold_locales (rule enum8_dec_step)

interpretation enum16: codec "encode_enum16 vs" "decode_enum16 vs m" "enum_ok vs m" for vs m
  by unfold_locales (rule enum16_dec_step)

lemma decode_enum8_sound:
  assumes "decode_enum8 vs m bs = Inr (x, rest)" "distinct vs" "length vs = Suc m"
  shows "bs = encode_enum8 vs x @ rest"
  using assms list_index_nth_distinct [of vs]
  by (auto simp: decode_enum8_def and_then_eq_Inr_iff require_eq_Inr_iff encode_enum8_def
      dest!: r_u8_sound)

lemma decode_enum16_sound:
  assumes "decode_enum16 vs m bs = Inr (x, rest)" "distinct vs" "length vs = Suc m"
  shows "bs = encode_enum16 vs x @ rest"
  using assms list_index_nth_distinct [of vs]
  by (auto simp: decode_enum16_def and_then_eq_Inr_iff require_eq_Inr_iff encode_enum16_def
      dest!: r_u16_sound)

lemmas enum_lists =
  cluster_state_values_def endpoint_state_values_def link_kind_values_def link_state_values_def
  path_state_values_def contract_state_values_def grant_state_values_def consent_decision_values_def
  evidence_source_values_def verification_state_values_def transport_authenticity_values_def

lemma enum_values_distinct [simp]:
  "distinct cluster_state_values" "distinct endpoint_state_values" "distinct link_kind_values"
  "distinct link_state_values" "distinct path_state_values" "distinct contract_state_values"
  "distinct grant_state_values" "distinct consent_decision_values" "distinct evidence_source_values"
  "distinct verification_state_values" "distinct transport_authenticity_values"
  by (simp_all add: enum_lists)

lemma enum_ok_all [simp]:
  "enum_ok cluster_state_values 4 a" "enum_ok endpoint_state_values 4 b" "enum_ok link_kind_values 3 c"
  "enum_ok link_state_values 4 d" "enum_ok path_state_values 3 e" "enum_ok contract_state_values 7 f"
  "enum_ok grant_state_values 8 g" "enum_ok consent_decision_values (Suc 0) h"
  "enum_ok evidence_source_values 5 i" "enum_ok verification_state_values 4 j"
  "enum_ok transport_authenticity_values (Suc 0) k"
  by (simp_all add: enum_ok_def)

text \<open>Each enumeration's reader accepts exactly the values of its enumerators.\<close>

lemma enum_sound:
  "decode_enum8 cluster_state_values 4 bs = Inr (a, r) \<Longrightarrow> bs = encode_enum8 cluster_state_values a @ r"
  "decode_enum8 endpoint_state_values 4 bs = Inr (b, r) \<Longrightarrow> bs = encode_enum8 endpoint_state_values b @ r"
  "decode_enum16 link_kind_values 3 bs = Inr (c, r) \<Longrightarrow> bs = encode_enum16 link_kind_values c @ r"
  "decode_enum8 link_state_values 4 bs = Inr (d, r) \<Longrightarrow> bs = encode_enum8 link_state_values d @ r"
  "decode_enum8 path_state_values 3 bs = Inr (e, r) \<Longrightarrow> bs = encode_enum8 path_state_values e @ r"
  "decode_enum8 contract_state_values 7 bs = Inr (f, r) \<Longrightarrow> bs = encode_enum8 contract_state_values f @ r"
  "decode_enum8 grant_state_values 8 bs = Inr (g, r) \<Longrightarrow> bs = encode_enum8 grant_state_values g @ r"
  "decode_enum8 consent_decision_values (Suc 0) bs = Inr (h, r) \<Longrightarrow> bs = encode_enum8 consent_decision_values h @ r"
  "decode_enum8 evidence_source_values 5 bs = Inr (i, r) \<Longrightarrow> bs = encode_enum8 evidence_source_values i @ r"
  "decode_enum8 verification_state_values 4 bs = Inr (j, r) \<Longrightarrow> bs = encode_enum8 verification_state_values j @ r"
  "decode_enum8 transport_authenticity_values (Suc 0) bs = Inr (k, r) \<Longrightarrow> bs = encode_enum8 transport_authenticity_values k @ r"
  by (auto intro: decode_enum8_sound decode_enum16_sound)

lemmas shared_steps [codec_simps] =
  ident.dec_step scope.dec_step wild.dec_step free_text.dec_step counter.dec_step enum8.dec_step enum16.dec_step

lemmas shared_sound = field_sound enum_sound
  ident.dec_sound scope.dec_sound wild.dec_sound free_text.dec_sound counter.dec_sound

lemmas reader_iffs = and_then_eq_Inr_iff require_eq_Inr_iff

section \<open>Provenance, endpoints and consents\<close>

definition provenance_wire :: "provenance \<Rightarrow> bool" where
  "provenance_wire p \<longleftrightarrow>
    i64_ok (pv_observed_at p) \<and> pv_revision p \<le> kMaxGeneration \<and> uuid_ok (pv_session p)
    \<and> digest_ok (pv_evidence_digest p)"

interpretation provenance: canonical_codec encode_provenance decode_provenance provenance_wire
proof
  fix x rest assume "provenance_wire x"
  then show "decode_provenance (encode_provenance x @ rest) = Inr (x, rest)"
    by (simp add: decode_provenance_def encode_provenance_def provenance_wire_def codec_simps)
next
  fix bs x rest assume "decode_provenance bs = Inr (x, rest)"
  then show "provenance_wire x \<and> bs = encode_provenance x @ rest"
    by (auto simp: decode_provenance_def encode_provenance_def provenance_wire_def reader_iffs
        dest!: shared_sound)
qed

definition endpoint_wire :: "endpoint_record \<Rightarrow> bool" where
  "endpoint_wire e \<longleftrightarrow>
    name_ok id_tag (ep_id e) \<and> name_ok id_tag (ep_cluster e) \<and> name_ok scope_tag (ep_scope e)
    \<and> ep_capacity e \<le> kMaxCapacity \<and> ep_reserved e \<le> kMaxCapacity
    \<and> ep_policy_generation e \<le> kMaxGeneration \<and> provenance_wire (ep_provenance e)"

interpretation endpoint: canonical_codec encode_endpoint decode_endpoint endpoint_wire
proof
  fix x rest assume "endpoint_wire x"
  then show "decode_endpoint (encode_endpoint x @ rest) = Inr (x, rest)"
    by (simp add: decode_endpoint_def encode_endpoint_def endpoint_wire_def codec_simps provenance.dec_step)
next
  fix bs x rest assume "decode_endpoint bs = Inr (x, rest)"
  then show "endpoint_wire x \<and> bs = encode_endpoint x @ rest"
    by (auto simp: decode_endpoint_def encode_endpoint_def endpoint_wire_def reader_iffs
        dest!: shared_sound provenance.dec_sound)
qed

definition consent_wire :: "consent_record \<Rightarrow> bool" where
  "consent_wire c \<longleftrightarrow>
    name_ok id_tag (cs_cluster c) \<and> name_ok id_tag (cs_endpoint c) \<and> uuid_ok (cs_incarnation c)
    \<and> cs_generation c \<le> kMaxGeneration \<and> cs_policy_generation c \<le> kMaxGeneration
    \<and> cs_agent_term c \<le> kMaxGeneration \<and> digest_ok (cs_terms_digest c) \<and> i64_ok (cs_decided_at c)
    \<and> uuid_ok (cs_session c) \<and> note_ok (cs_reason c)"

interpretation consent: canonical_codec encode_consent decode_consent consent_wire
proof
  fix x rest assume "consent_wire x"
  then show "decode_consent (encode_consent x @ rest) = Inr (x, rest)"
    by (simp add: decode_consent_def encode_consent_def consent_wire_def codec_simps)
next
  fix bs x rest assume "decode_consent bs = Inr (x, rest)"
  then show "consent_wire x \<and> bs = encode_consent x @ rest"
    by (auto simp: decode_consent_def encode_consent_def consent_wire_def reader_iffs
        dest!: shared_sound)
qed

section \<open>Clusters\<close>

text \<open>
  The cluster's decoder sorts the endpoints it read and ignores the conflicting generation when the
  flag before it is clear, so it accepts encodings that no encoder writes. It is a codec and not a
  canonical one.
\<close>

definition cluster_wire :: "cluster_record \<Rightarrow> bool" where
  "cluster_wire c \<longleftrightarrow>
    name_ok id_tag (cl_id c) \<and> name_ok id_tag (cl_domain c) \<and> uuid_ok (cl_incarnation c)
    \<and> cl_generation c \<le> kMaxGeneration \<and> cl_policy_generation c \<le> kMaxGeneration
    \<and> i64_ok (cl_last_seen c) \<and> length (cl_endpoints c) \<le> kMaxEndpointsPerCluster
    \<and> list_all endpoint_wire (cl_endpoints c) \<and> sorted_wrt (<) (map ep_id (cl_endpoints c))
    \<and> digest_ok (cl_content_digest c)
    \<and> (case cl_conflicting_generation c of None \<Rightarrow> True | Some g \<Rightarrow> g \<le> kMaxGeneration)
    \<and> cl_revision c \<le> kMaxGeneration \<and> provenance_wire (cl_provenance c)
    \<and> cl_incarnation_changes c \<le> kMaxGeneration"

lemma endpoints_step:
  "list_all endpoint_wire es \<Longrightarrow>
    and_then (read_times (length es) decode_endpoint) f (concat (map encode_endpoint es) @ rest) = f es rest"
  by (simp add: and_then_Inr endpoint.read_times_enc)

lemma conflict_step:
  assumes "case g of None \<Rightarrow> True | Some v \<Rightarrow> v \<le> kMaxGeneration"
  shows "and_then (decode_counter kMaxGeneration) f (w_u64 (case g of Some v \<Rightarrow> v | None \<Rightarrow> 0) @ rest)
    = f (case g of Some v \<Rightarrow> v | None \<Rightarrow> 0) rest"
  using assms by (auto intro!: counter.dec_step split: option.splits)

lemma sorted_endpoints:
  assumes "sorted_wrt (<) (map ep_id es)"
  shows "sort_key ep_id es = es" "\<not> adjacent_duplicate es"
proof -
  have s: "sorted (map ep_id es)" using assms by (rule strict_sorted_imp_sorted)
  then show "sort_key ep_id es = es" by (rule sort_key_id_if_sorted)
  show "\<not> adjacent_duplicate es" using sorted_adjacent_strict [OF s] assms by simp
qed

interpretation cluster: codec encode_cluster decode_cluster cluster_wire
proof
  fix x rest assume ok: "cluster_wire x"
  then have s: "sorted_wrt (<) (map ep_id (cl_endpoints x))" by (simp add: cluster_wire_def)
  have g: "(if cl_conflicting_generation x \<noteq> None
      then Some (case cl_conflicting_generation x of Some v \<Rightarrow> v | None \<Rightarrow> 0) else None)
    = cl_conflicting_generation x" by (auto split: option.splits)
  show "decode_cluster (encode_cluster x @ rest) = Inr (x, rest)"
    using ok
    by (simp add: decode_cluster_def encode_cluster_def cluster_wire_def codec_simps kMaxEndpointsPerCluster_def
        endpoints_step conflict_step provenance.dec_step sorted_endpoints [OF s] g del: not_None_eq)
qed

section \<open>Links, paths and policies\<close>

definition link_wire :: "link_record \<Rightarrow> bool" where
  "link_wire l \<longleftrightarrow>
    name_ok id_tag (ln_id l) \<and> name_ok id_tag (ln_a l) \<and> name_ok id_tag (ln_b l)
    \<and> ln_capacity l \<le> kMaxCapacity \<and> ln_reserved l \<le> kMaxCapacity
    \<and> ln_revision l \<le> kMaxGeneration \<and> provenance_wire (ln_provenance l)"

interpretation link: canonical_codec encode_link decode_link link_wire
proof
  fix x rest assume "link_wire x"
  then show "decode_link (encode_link x @ rest) = Inr (x, rest)"
    by (simp add: decode_link_def encode_link_def link_wire_def codec_simps provenance.dec_step)
next
  fix bs x rest assume "decode_link bs = Inr (x, rest)"
  then show "link_wire x \<and> bs = encode_link x @ rest"
    by (auto simp: decode_link_def encode_link_def link_wire_def reader_iffs
        dest!: shared_sound provenance.dec_sound)
qed

definition path_wire :: "path_record \<Rightarrow> bool" where
  "path_wire p \<longleftrightarrow>
    name_ok id_tag (pa_id p) \<and> name_ok id_tag (pa_a p) \<and> name_ok id_tag (pa_b p)
    \<and> length (pa_hops p) \<le> kMaxPathHops \<and> list_all (name_ok id_tag) (pa_hops p)
    \<and> pa_bottleneck p \<le> kMaxCapacity \<and> pa_revision p \<le> kMaxGeneration
    \<and> provenance_wire (pa_provenance p)"

lemma hops_step:
  "list_all (name_ok id_tag) hs \<Longrightarrow>
    and_then (read_times (length hs) (decode_name id_tag kMaxNameLength)) f (concat (map w_blob hs) @ rest)
    = f hs rest"
  by (simp add: and_then_Inr ident.read_times_enc)

lemma hop_count_sound: "r_count kMaxPathHops bs = Inr (n, rest) \<Longrightarrow>
    n \<le> kMaxPathHops \<and> bs = snd (w_count n) @ rest"
  by (rule r_count_sound) (simp_all add: kMaxPathHops_def)

lemma hop_count_step: "n \<le> kMaxPathHops \<Longrightarrow>
    and_then (r_count kMaxPathHops) f (snd (w_count n) @ rest) = f n rest"
  by (rule count.dec_step) (simp add: kMaxPathHops_def)

interpretation path: canonical_codec encode_path decode_path path_wire
proof
  fix x rest assume "path_wire x"
  then show "decode_path (encode_path x @ rest) = Inr (x, rest)"
    by (simp add: decode_path_def encode_path_def path_wire_def codec_simps provenance.dec_step hops_step hop_count_step)
next
  fix bs x rest assume "decode_path bs = Inr (x, rest)"
  then show "path_wire x \<and> bs = encode_path x @ rest"
    by (auto simp: decode_path_def encode_path_def path_wire_def reader_iffs
        dest!: shared_sound provenance.dec_sound hop_count_sound ident.read_times_sound)
qed

definition policy_wire :: "policy_rule \<Rightarrow> bool" where
  "policy_wire p \<longleftrightarrow>
    pr_id p \<noteq> [] \<and> length (pr_id p) \<le> kMaxNameLength \<and> note_ok (pr_id p)
    \<and> name_ok id_tag (pr_owner p)
    \<and> wild_ok (pr_cluster_a p) \<and> wild_ok (pr_cluster_b p)
    \<and> wild_ok (pr_endpoint_a p) \<and> wild_ok (pr_endpoint_b p)
    \<and> pr_generation p \<le> kMaxGeneration \<and> pr_max_capacity p \<le> kMaxCapacity
    \<and> pr_revision p \<le> kMaxGeneration \<and> provenance_wire (pr_provenance p)"

interpretation policy: canonical_codec encode_policy decode_policy policy_wire
proof
  fix x rest assume "policy_wire x"
  then show "decode_policy (encode_policy x @ rest) = Inr (x, rest)"
    by (simp add: decode_policy_def encode_policy_def policy_wire_def codec_simps provenance.dec_step)
next
  fix bs x rest assume "decode_policy bs = Inr (x, rest)"
  then show "policy_wire x \<and> bs = encode_policy x @ rest"
    by (auto simp: decode_policy_def encode_policy_def policy_wire_def reader_iffs
        dest!: shared_sound provenance.dec_sound)
qed

section \<open>Contracts\<close>

definition party_wire :: "party_ref \<Rightarrow> bool" where
  "party_wire p \<longleftrightarrow>
    name_ok id_tag (pt_cluster p) \<and> name_ok id_tag (pt_endpoint p) \<and> name_ok id_tag (pt_domain p)"

interpretation party: canonical_codec encode_party decode_party party_wire
proof
  fix x rest assume "party_wire x"
  then show "decode_party (encode_party x @ rest) = Inr (x, rest)"
    by (simp add: decode_party_def encode_party_def party_wire_def codec_simps)
next
  fix bs x rest assume "decode_party bs = Inr (x, rest)"
  then show "party_wire x \<and> bs = encode_party x @ rest"
    by (auto simp: decode_party_def encode_party_def party_wire_def reader_iffs
        dest!: shared_sound)
qed

definition slot_wire :: "consent_record option \<Rightarrow> bool" where
  "slot_wire c \<longleftrightarrow> (case c of None \<Rightarrow> True | Some consent \<Rightarrow> consent_wire consent)"

interpretation slot: canonical_codec encode_consent_slot decode_consent_slot slot_wire
proof
  fix x rest assume "slot_wire x"
  then show "decode_consent_slot (encode_consent_slot x @ rest) = Inr (x, rest)"
    by (cases x) (simp_all add: decode_consent_slot_def encode_consent_slot_def slot_wire_def codec_simps
        consent.dec_step)
next
  fix bs x rest assume "decode_consent_slot bs = Inr (x, rest)"
  then show "slot_wire x \<and> bs = encode_consent_slot x @ rest"
    by (auto simp: decode_consent_slot_def encode_consent_slot_def slot_wire_def reader_iffs
        split: if_splits dest!: shared_sound consent.dec_sound)
qed

definition contract_wire :: "contract_record \<Rightarrow> bool" where
  "contract_wire c \<longleftrightarrow>
    uuid_ok (co_id c) \<and> party_wire (fst (co_parties c)) \<and> party_wire (snd (co_parties c))
    \<and> pt_cluster (fst (co_parties c)) \<noteq> pt_cluster (snd (co_parties c))
    \<and> co_capacity c \<le> kMaxCapacity \<and> i64_ok (co_lease_duration c)
    \<and> 0 \<le> co_lease_duration c \<and> word_of_int (co_lease_duration c) \<le> kMaxDurationNanos
    \<and> digest_ok (co_terms_digest c) \<and> slot_wire (fst (co_consents c)) \<and> slot_wire (snd (co_consents c))
    \<and> i64_ok (co_created_at c) \<and> i64_ok (co_updated_at c) \<and> co_revision c \<le> kMaxGeneration
    \<and> provenance_wire (co_provenance c)"

interpretation contract: canonical_codec encode_contract decode_contract contract_wire
proof
  fix x rest assume "contract_wire x"
  then show "decode_contract (encode_contract x @ rest) = Inr (x, rest)"
    by (simp add: decode_contract_def encode_contract_def contract_wire_def codec_simps party.dec_step slot.dec_step provenance.dec_step not_less)
next
  fix bs x rest assume "decode_contract bs = Inr (x, rest)"
  then show "contract_wire x \<and> bs = encode_contract x @ rest"
    by (auto simp: decode_contract_def encode_contract_def contract_wire_def reader_iffs not_less
        dest!: shared_sound party.dec_sound slot.dec_sound provenance.dec_sound)
qed

section \<open>Grants and reservations\<close>

definition binding_wire :: "incarnation_id \<times> u64 \<times> u64 \<Rightarrow> bool" where
  "binding_wire b \<longleftrightarrow>
    uuid_ok (fst b) \<and> fst (snd b) \<le> kMaxGeneration \<and> snd (snd b) \<le> kMaxGeneration"

interpretation binding: canonical_codec encode_binding decode_binding binding_wire
proof
  fix x rest assume "binding_wire x"
  then show "decode_binding (encode_binding x @ rest) = Inr (x, rest)"
    by (simp add: decode_binding_def encode_binding_def binding_wire_def codec_simps)
next
  fix bs x rest assume "decode_binding bs = Inr (x, rest)"
  then show "binding_wire x \<and> bs = encode_binding x @ rest"
    by (auto simp: decode_binding_def encode_binding_def binding_wire_def reader_iffs
        dest!: shared_sound)
qed

definition grant_wire :: "grant_record \<Rightarrow> bool" where
  "grant_wire g \<longleftrightarrow>
    uuid_ok (gr_id g) \<and> uuid_ok (gr_contract g) \<and> digest_ok (gr_terms_digest g)
    \<and> gr_coordinator_term g \<le> kMaxGeneration \<and> uuid_ok (gr_coordinator g) \<and> uuid_ok (gr_attempt g)
    \<and> binding_wire (fst (gr_incarnations g), fst (gr_generations g), fst (gr_policies g))
    \<and> binding_wire (snd (gr_incarnations g), snd (gr_generations g), snd (gr_policies g))
    \<and> gr_capacity g \<le> kMaxCapacity \<and> i64_ok (gr_issued_at g) \<and> i64_ok (gr_valid_until g)
    \<and> digest_ok (fst (gr_enforcement_digest g)) \<and> digest_ok (snd (gr_enforcement_digest g))
    \<and> gr_revalidate_attempts g \<le> kMaxRevalidateAttempts * 4096 \<and> note_ok (gr_note g)
    \<and> gr_revision g \<le> kMaxGeneration \<and> provenance_wire (gr_provenance g)"

interpretation grant: canonical_codec encode_grant decode_grant grant_wire
proof
  fix x rest assume "grant_wire x"
  then show "decode_grant (encode_grant x @ rest) = Inr (x, rest)"
    by (simp add: decode_grant_def encode_grant_def grant_wire_def codec_simps binding.dec_step provenance.dec_step)
next
  fix bs x rest assume "decode_grant bs = Inr (x, rest)"
  then show "grant_wire x \<and> bs = encode_grant x @ rest"
    by (auto simp: decode_grant_def encode_grant_def grant_wire_def reader_iffs
        dest!: shared_sound binding.dec_sound provenance.dec_sound)
qed

definition reservation_wire :: "reservation_record \<Rightarrow> bool" where
  "reservation_wire rs \<longleftrightarrow>
    uuid_ok (rs_id rs) \<and> uuid_ok (rs_grant rs) \<and> name_ok id_tag (rs_endpoint rs)
    \<and> name_ok id_tag (rs_cluster rs) \<and> rs_amount rs \<le> kMaxCapacity \<and> i64_ok (rs_created_at rs)
    \<and> i64_ok (rs_released_at rs) \<and> rs_revision rs \<le> kMaxGeneration
    \<and> provenance_wire (rs_provenance rs)"

interpretation reservation: canonical_codec encode_reservation decode_reservation reservation_wire
proof
  fix x rest assume "reservation_wire x"
  then show "decode_reservation (encode_reservation x @ rest) = Inr (x, rest)"
    by (simp add: decode_reservation_def encode_reservation_def reservation_wire_def codec_simps provenance.dec_step)
next
  fix bs x rest assume "decode_reservation bs = Inr (x, rest)"
  then show "reservation_wire x \<and> bs = encode_reservation x @ rest"
    by (auto simp: decode_reservation_def encode_reservation_def reservation_wire_def reader_iffs
        dest!: shared_sound provenance.dec_sound)
qed

section \<open>Audit records\<close>

definition audit_wire :: "audit_record \<Rightarrow> bool" where
  "audit_wire a \<longleftrightarrow>
    i64_ok (au_at a) \<and> note_ok (au_actor a) \<and> note_ok (au_action a) \<and> note_ok (au_subject a)
    \<and> note_ok (au_detail a)"

lemma outcome_code_internal: "outcome_code Outcome_Internal = 25"
  by (simp add: outcome_code_def outcome_values_def kOutcomeNames_def)

lemma unat_outcome_code [simp]: "unat (word_of_nat (outcome_code x) :: u16) = outcome_code x"
  using outcome_code_bound [of x] by (simp add: unat_of_nat take_bit_nat_eq_self)

lemma outcome_values_nth [simp]: "outcome_values ! outcome_code x = x"
  using list_index_nth [OF outcome_values_complete, of x] by (simp add: outcome_code_def)

lemma outcome_code_nth: "n \<le> 25 \<Longrightarrow> outcome_code (outcome_values ! n) = n"
  using list_index_nth_distinct [of outcome_values n]
  by (simp add: outcome_code_def) (simp add: outcome_values_def kOutcomeNames_def)


interpretation audit: canonical_codec encode_audit decode_audit audit_wire
proof
  fix x rest assume "audit_wire x"
  then show "decode_audit (encode_audit x @ rest) = Inr (x, rest)"
    by (simp add: decode_audit_def encode_audit_def audit_wire_def codec_simps outcome_code_internal outcome_code_bound outcome_code_nth not_less)
next
  fix bs x rest assume "decode_audit bs = Inr (x, rest)"
  then show "audit_wire x \<and> bs = encode_audit x @ rest"
    by (auto simp: decode_audit_def encode_audit_def audit_wire_def reader_iffs outcome_code_internal outcome_code_bound outcome_code_nth not_less
        dest!: shared_sound)
qed

end
