(* ===== verification/Canonical_Registry.thy ===== *)
theory Canonical_Registry
  imports Canonical_Laws
begin

text \<open>
  The encoding of the whole registry: decoding what was encoded rebuilds the registry, a decoded
  registry satisfies the registry's invariant whatever the bytes were, and the encoding that feeds
  the authorization digest is determined by, and determines, the tables.
\<close>

section \<open>Tables\<close>

text \<open>
  What the decoding loop needs of one table: putting the next record, in key order, appends it to
  the table. \<open>upd\<close> replaces the table, \<open>P\<close> is the table's part of the registry invariant.
\<close>

locale loadable_table = codec enc dec ok
  for enc :: "'v \<Rightarrow> bytes" and dec :: "'v reader" and ok :: "'v \<Rightarrow> bool" +
  fixes put :: "'v \<Rightarrow> registry \<Rightarrow> status \<times> registry"
    and upd :: "('k::linorder, 'v) omap \<Rightarrow> registry \<Rightarrow> registry"
    and bound :: nat
    and P :: "'k \<Rightarrow> 'v \<Rightarrow> bool"
  assumes put_next: "P k v \<Longrightarrow> \<forall>k' \<in> fst ` set xs. k' < k \<Longrightarrow> length xs < bound \<Longrightarrow>
      put v (upd xs r) = (status_ok, upd (xs @ [(k, v)]) r)"
    and bound_u32: "bound < 2 ^ 32"
begin

lemma decode_into_enc:
  "om_ok (xs @ ys) \<Longrightarrow> length (xs @ ys) \<le> bound \<Longrightarrow> \<forall>(k, v) \<in> set ys. P k v \<and> ok v \<Longrightarrow>
    decode_into (length ys) dec put (upd xs r) (concat (map (\<lambda>e. enc (snd e)) ys) @ rest)
      = Inr (upd (xs @ ys) r, rest)"
proof (induction ys arbitrary: xs)
  case (Cons y ys)
  obtain k v where y: "y = (k, v)" by fastforce
  have less: "\<forall>k' \<in> fst ` set xs. k' < k"
    using Cons.prems(1) y by (auto simp: om_ok_def sorted_wrt_append)
  have put: "put v (upd xs r) = (status_ok, upd (xs @ [(k, v)]) r)"
    using Cons.prems y less by (intro put_next) auto
  show ?case
    using Cons.IH [of "xs @ [(k, v)]"] Cons.prems y by (simp add: dec_step put)
qed simp

lemma decode_table_enc:
  assumes "table_ok m bound P" "\<forall>(k, v) \<in> set m. ok v" "upd [] r = r"
  shows "decode_table bound dec put r (encode_table enc m @ rest) = Inr (upd m r, rest)"
proof -
  have n: "length m \<le> bound \<and> bound < 2 ^ 32" using assms(1) bound_u32 by (simp add: table_ok_def)
  have "decode_into (length m) dec put (upd [] r) (concat (map (\<lambda>e. enc (snd e)) m) @ rest)
      = Inr (upd m r, rest)"
    using decode_into_enc [of "[]" m r rest] assms by (auto simp: table_ok_def)
  then show ?thesis
    using assms(3) by (simp add: decode_table_def encode_table_def count.dec_step [OF n])
qed

lemma decode_table_step:
  assumes "table_ok m bound P" "\<forall>(k, v) \<in> set m. ok v" "upd [] r = r"
  shows "and_then (decode_table bound dec put r) f (encode_table enc m @ rest) = f (upd m r) rest"
  using decode_table_enc [OF assms] by (rule and_then_Inr)

end

lemma insert_bounded_next:
  "\<forall>k' \<in> fst ` set xs. k' < k \<Longrightarrow> length xs < bound \<Longrightarrow>
    insert_bounded xs k v bound what = (status_ok, xs @ [(k, v)])"
  by (simp add: insert_bounded_def om_put_snoc)

lemma put_cluster_next:
  assumes "cluster_ok k v" "\<forall>k' \<in> fst ` set xs. k' < k" "length xs < kMaxClusters"
  shows "put_cluster v (r\<lparr>rg_clusters := xs\<rparr>) = (status_ok, r\<lparr>rg_clusters := xs @ [(k, v)]\<rparr>)"
proof -
  have eps: "endpoints_ok (cl_id v) (cl_endpoints v)" using assms(1) by (auto simp: cluster_ok_def)
  then have s: "sorted_wrt (<) (map ep_id (cl_endpoints v))" by (simp add: endpoints_ok_def)
  have "is_ok (first_failure (put_cluster_endpoint_check (cl_id v)) (cl_endpoints v))"
    using eps by (auto simp: first_failure_ok_iff put_cluster_endpoint_check_ok endpoints_ok_def)
  then show ?thesis
    using assms eps
    by (auto simp: put_cluster_def Let_def sorted_endpoints [OF s] insert_bounded_next cluster_ok_def
        endpoints_ok_def not_less)
qed

interpretation clusters: loadable_table encode_cluster decode_cluster cluster_wire put_cluster
  "\<lambda>m r. r\<lparr>rg_clusters := m\<rparr>" kMaxClusters cluster_ok
  by unfold_locales (simp_all add: put_cluster_next kMaxClusters_def)

interpretation links: loadable_table encode_link decode_link link_wire put_link
  "\<lambda>m r. r\<lparr>rg_links := m\<rparr>" kMaxEdges link_ok
  by unfold_locales
    (auto simp: put_link_def insert_bounded_next link_ok_def not_less, simp add: kMaxEdges_def)

interpretation paths: loadable_table encode_path decode_path path_wire put_path
  "\<lambda>m r. r\<lparr>rg_paths := m\<rparr>" kMaxPaths path_ok
  by unfold_locales
    (auto simp: put_path_def insert_bounded_next path_ok_def not_less, simp add: kMaxPaths_def)

interpretation policies: loadable_table encode_policy decode_policy policy_wire put_policy
  "\<lambda>m r. r\<lparr>rg_policies := m\<rparr>" kMaxPolicyRules policy_ok
  by unfold_locales
    (auto simp: put_policy_def insert_bounded_next policy_ok_def not_less, simp add: kMaxPolicyRules_def)

interpretation contracts: loadable_table encode_contract decode_contract contract_wire put_contract
  "\<lambda>m r. r\<lparr>rg_contracts := m\<rparr>" kMaxContracts contract_ok
  by unfold_locales
    (auto simp: put_contract_def insert_bounded_next contract_ok_def not_less, simp add: kMaxContracts_def)

interpretation grants: loadable_table encode_grant decode_grant grant_wire put_grant
  "\<lambda>m r. r\<lparr>rg_grants := m\<rparr>" kMaxGrants grant_ok
  by unfold_locales
    (auto simp: put_grant_def insert_bounded_next grant_ok_def not_less, simp add: kMaxGrants_def)

interpretation reservations: loadable_table encode_reservation decode_reservation reservation_wire
  put_reservation "\<lambda>m r. r\<lparr>rg_reservations := m\<rparr>" kMaxReservations reservation_ok
  by unfold_locales
    (auto simp: put_reservation_def insert_bounded_next reservation_ok_def not_less,
      simp add: kMaxReservations_def)

section \<open>The audit trail\<close>

lemma contiguous_snoc_iff:
  "contiguous (xs @ y # ys) \<longleftrightarrow>
    contiguous (xs @ [y]) \<and> contiguous (y # ys)"
  by (induction xs rule: contiguous.induct) auto

lemma contiguous_last: "contiguous (xs @ [y]) \<Longrightarrow> xs \<noteq> [] \<Longrightarrow> counter_next (last xs) = Inr y"
  by (induction xs rule: contiguous.induct) auto

lemma append_audit_next:
  assumes "length xs < kMaxAuditRecords" "contiguous (map au_sequence (xs @ [a]))"
  shows "registry_append_audit a (r\<lparr>rg_audit := xs\<rparr>) = Some (status_ok, r\<lparr>rg_audit := xs @ [a]\<rparr>)"
  using assms contiguous_last [of "map au_sequence xs" "au_sequence a"]
  by (auto simp: registry_append_audit_def last_map)

lemma decode_audit_into_enc:
  "contiguous (map au_sequence (xs @ ys)) \<Longrightarrow> length (xs @ ys) \<le> kMaxAuditRecords \<Longrightarrow>
    list_all audit_wire ys \<Longrightarrow>
    decode_audit_into (length ys) (r\<lparr>rg_audit := xs\<rparr>) (concat (map encode_audit ys) @ rest)
      = Some (Inr (r\<lparr>rg_audit := xs @ ys\<rparr>, rest))"
proof (induction ys arbitrary: xs)
  case (Cons y ys)
  have "contiguous (map au_sequence (xs @ [y]))"
    using Cons.prems(1) contiguous_snoc_iff [of "map au_sequence xs" "au_sequence y" "map au_sequence ys"]
    by simp
  then have "registry_append_audit y (r\<lparr>rg_audit := xs\<rparr>) = Some (status_ok, r\<lparr>rg_audit := xs @ [y]\<rparr>)"
    using Cons.prems(2) by (intro append_audit_next) auto
  then show ?case
    using Cons.IH [of "xs @ [y]"] Cons.prems by (simp add: audit.dec_enc)
qed simp

section \<open>The round trip\<close>

definition registry_wire :: "registry \<Rightarrow> bool" where
  "registry_wire r \<longleftrightarrow>
    list_all (\<lambda>e. cluster_wire (snd e)) (rg_clusters r)
    \<and> list_all (\<lambda>e. link_wire (snd e)) (rg_links r)
    \<and> list_all (\<lambda>e. path_wire (snd e)) (rg_paths r)
    \<and> list_all (\<lambda>e. policy_wire (snd e)) (rg_policies r)
    \<and> list_all (\<lambda>e. contract_wire (snd e)) (rg_contracts r)
    \<and> list_all (\<lambda>e. grant_wire (snd e)) (rg_grants r)
    \<and> list_all (\<lambda>e. reservation_wire (snd e)) (rg_reservations r)
    \<and> list_all audit_wire (rg_audit r)"

lemmas table_steps = clusters.decode_table_step links.decode_table_step paths.decode_table_step
  policies.decode_table_step contracts.decode_table_step grants.decode_table_step
  reservations.decode_table_step

lemma decode_tables_enc:
  assumes "registry_ok r" "registry_wire r"
  shows "decode_tables (encode_registry r include_audit)
    = Inr ((include_audit, r\<lparr>rg_audit := []\<rparr>),
        if include_audit
        then snd (w_count (length (rg_audit r))) @ concat (map encode_audit (rg_audit r)) else [])"
  using assms
  by (simp add: decode_tables_def encode_registry_def u16.dec_step boolean.dec_step table_steps
      registry_ok_tables registry_wire_def list_all_iff empty_registry_def case_prod_beta)

lemma decode_encode_registry:
  assumes "registry_ok r" "registry_wire r"
  shows "decode_registry (encode_registry r True) = Some (Inr r)"
    and "decode_registry (encode_registry r False) = Some (Inr (r\<lparr>rg_audit := []\<rparr>))"
proof -
  have au: "length (rg_audit r) \<le> kMaxAuditRecords" "contiguous (map au_sequence (rg_audit r))"
    "list_all audit_wire (rg_audit r)"
    using assms registry_ok_tables(8) [OF assms(1)] by (simp_all add: audit_ok_def registry_wire_def)
  have "decode_audit_into (length (rg_audit r)) (r\<lparr>rg_audit := []\<rparr>) (concat (map encode_audit (rg_audit r)))
      = Some (Inr (r, []))"
    using decode_audit_into_enc [of "[]" "rg_audit r" r "[]"] au by simp
  moreover have "r_count kMaxAuditRecords (snd (w_count (length (rg_audit r))) @ rest)
      = Inr (length (rg_audit r), rest)" for rest
    using au(1) by (intro count.dec_enc) (simp add: kMaxAuditRecords_def)
  ultimately show "decode_registry (encode_registry r True) = Some (Inr r)"
    by (simp add: decode_registry_def decode_tables_enc [OF assms] decode_audit_trail_def expect_end_def)
  show "decode_registry (encode_registry r False) = Some (Inr (r\<lparr>rg_audit := []\<rparr>))"
    by (simp add: decode_registry_def decode_tables_enc [OF assms] decode_audit_trail_def expect_end_def)
qed

section \<open>Decoding untrusted bytes\<close>

lemma decode_into_keeps:
  assumes "\<And>x r. registry_ok r \<Longrightarrow> registry_ok (snd (put x r))"
  shows "decode_into n dec put r bs = Inr (r', rest) \<Longrightarrow> registry_ok r \<Longrightarrow> registry_ok r'"
proof (induction n arbitrary: r bs)
  case (Suc n)
  then obtain x rest1 where "is_ok (fst (put x r))"
    and "decode_into n dec put (snd (put x r)) rest1 = Inr (r', rest)"
    by (auto simp: and_then_eq_Inr_iff split_beta Let_def split: if_splits)
  then show ?case using Suc.IH assms Suc.prems(2) by blast
qed simp

lemma decode_table_keeps:
  assumes "\<And>x r. registry_ok r \<Longrightarrow> registry_ok (snd (put x r))"
    and "decode_table b dec put r bs = Inr (r', rest)" "registry_ok r"
  shows "registry_ok r'"
  using assms decode_into_keeps [of put, OF assms(1)]
  by (auto simp: decode_table_def and_then_eq_Inr_iff)

lemmas put_keeps = put_cluster.run_keeps put_link.run_keeps put_path.run_keeps put_policy.run_keeps
  put_contract.run_keeps put_grant.run_keeps put_reservation.run_keeps

lemma decode_tables_keeps: "decode_tables bs = Inr ((b, r), rest) \<Longrightarrow> registry_ok r"
  unfolding decode_tables_def reader_iffs
  by (auto intro: registry_ok_empty dest!: decode_table_keeps [rotated] intro: put_keeps)

lemma decode_audit_into_keeps:
  "decode_audit_into n r bs = Some (Inr (r', rest)) \<Longrightarrow> registry_ok r \<Longrightarrow> registry_ok r'"
proof (induction n arbitrary: r bs)
  case (Suc n)
  then obtain a rest1 s r1 where "registry_append_audit a r = Some (s, r1)"
    and "decode_audit_into n r1 rest1 = Some (Inr (r', rest))"
    by (auto split: sum.splits option.splits if_splits)
  then show ?case using Suc.IH Suc.prems(2) append_audit_keeps by blast
qed simp

lemma decode_registry_keeps:
  assumes "decode_registry bs = Some (Inr r)"
  shows "registry_ok r"
proof -
  obtain b r1 rest rest' where t: "decode_tables bs = Inr ((b, r1), rest)"
    and a: "decode_audit_trail b r1 rest = Some (Inr (r, rest'))"
    using assms
    by (auto simp: decode_registry_def split: sum.splits option.splits prod.splits if_splits)
  show ?thesis
    using a decode_tables_keeps [OF t] decode_audit_into_keeps
    by (auto simp: decode_audit_trail_def split: if_splits sum.splits)
qed

section \<open>The digest\<close>

text \<open>The bytes under the digest determine every table, and they are determined by the lookups.\<close>

lemma encode_registry_inj:
  assumes "registry_ok r" "registry_wire r" "registry_ok r'" "registry_wire r'"
    and "encode_registry r False = encode_registry r' False"
  shows "r\<lparr>rg_audit := []\<rparr> = r'\<lparr>rg_audit := []\<rparr>"
  using decode_encode_registry(2) [OF assms(1,2)] decode_encode_registry(2) [OF assms(3,4)]
  unfolding assms(5) by simp

lemma encode_registry_audit_free: "encode_registry (r\<lparr>rg_audit := a\<rparr>) False = encode_registry r False"
  by (simp add: encode_registry_def)

lemma encode_registry_extensional:
  assumes "registry_ok r" "registry_ok r'"
    and "om_find (rg_clusters r) = om_find (rg_clusters r')" "om_find (rg_links r) = om_find (rg_links r')"
    and "om_find (rg_paths r) = om_find (rg_paths r')" "om_find (rg_policies r) = om_find (rg_policies r')"
    and "om_find (rg_contracts r) = om_find (rg_contracts r')" "om_find (rg_grants r) = om_find (rg_grants r')"
    and "om_find (rg_reservations r) = om_find (rg_reservations r')"
  shows "encode_registry r False = encode_registry r' False"
proof -
  note ok = registry_ok_tables(1-7) [OF assms(1), THEN table_ok_om]
    registry_ok_tables(1-7) [OF assms(2), THEN table_ok_om]
  have "rg_clusters r = rg_clusters r'" "rg_links r = rg_links r'" "rg_paths r = rg_paths r'"
    "rg_policies r = rg_policies r'" "rg_contracts r = rg_contracts r'" "rg_grants r = rg_grants r'"
    "rg_reservations r = rg_reservations r'"
    using assms(3-) ok by (auto intro!: om.entries_extensional)
  then show ?thesis by (simp add: encode_registry_def)
qed

end
