(* ===== verification/Terms.thy ===== *)
theory Terms
  imports Canonical_Registry
begin

text \<open>
  \<open>model/terms.cpp\<close>: the terms both parties consent to. The digest of their canonical encoding is
  what a consent binds, so the theory shows that the encoding is canonical: equal bytes mean equal
  terms, and a decoder accepts nothing but encodings.
\<close>

record contract_terms =
  tm_parties :: "party_ref \<times> party_ref"
  tm_capacity :: u64
  tm_lease_duration :: duration
  tm_incarnations :: "incarnation_id \<times> incarnation_id"
  tm_generations :: "u64 \<times> u64"
  tm_policies :: "u64 \<times> u64"
  tm_proposed_at :: timestamp

definition encode_terms :: "contract_terms \<Rightarrow> bytes" where
  "encode_terms t =
    encode_party (fst (tm_parties t))
    @ encode_party (snd (tm_parties t))
    @ w_u64 (tm_capacity t)
    @ w_i64 (tm_lease_duration t)
    @ w_uuid (fst (tm_incarnations t))
    @ w_uuid (snd (tm_incarnations t))
    @ w_u64 (fst (tm_generations t))
    @ w_u64 (snd (tm_generations t))
    @ w_u64 (fst (tm_policies t))
    @ w_u64 (snd (tm_policies t))
    @ w_i64 (tm_proposed_at t)"

text \<open>A bounded counter of the terms; each use has its own message.\<close>

definition terms_counter :: "u64 \<Rightarrow> string \<Rightarrow> u64 reader" where
  "terms_counter bound msg =
    and_then r_u64 (\<lambda>v. require (\<not> v > bound) (status_make Outcome_Overflow msg) (give v))"

definition decode_terms :: "contract_terms reader" where
  "decode_terms =
    and_then decode_party (\<lambda>party0.
    and_then decode_party (\<lambda>party1.
    and_then (terms_counter kMaxCapacity ''contract capacity exceeds the maximum supported value'') (\<lambda>capacity.
    and_then r_i64 (\<lambda>lease.
    require (\<not> (lease < 0 \<or> word_of_int lease > kMaxDurationNanos))
      (invalid ''contract lease duration is out of range'')
    (and_then r_uuid (\<lambda>incarnation0.
    and_then r_uuid (\<lambda>incarnation1.
    and_then (terms_counter kMaxGeneration ''generation exceeds the maximum supported value'') (\<lambda>generation0.
    and_then (terms_counter kMaxGeneration ''generation exceeds the maximum supported value'') (\<lambda>generation1.
    and_then (terms_counter kMaxGeneration ''policy generation exceeds the maximum supported value'') (\<lambda>policy0.
    and_then (terms_counter kMaxGeneration ''policy generation exceeds the maximum supported value'') (\<lambda>policy1.
    and_then r_i64 (\<lambda>proposed.
    give \<lparr>tm_parties = (party0, party1), tm_capacity = capacity, tm_lease_duration = lease,
      tm_incarnations = (incarnation0, incarnation1), tm_generations = (generation0, generation1),
      tm_policies = (policy0, policy1), tm_proposed_at = proposed\<rparr>))))))))))))"

definition terms_digest :: "contract_terms \<Rightarrow> digest" where
  "terms_digest t = sha256_hash (encode_terms t)"

definition terms_side_of :: "contract_terms \<Rightarrow> cluster_id \<Rightarrow> nat option" where
  "terms_side_of t cluster = parties_side_of (tm_parties t) cluster"

definition terms_validate :: "contract_terms \<Rightarrow> status" where
  "terms_validate t =
    (let (p0, p1) = tm_parties t in
     if pt_cluster p0 = [] \<or> pt_cluster p1 = []
     then invalid ''contract terms require two cluster identities''
     else if pt_cluster p0 = pt_cluster p1
     then invalid ''contract terms must join two distinct clusters''
     else if pt_endpoint p0 = [] \<or> pt_endpoint p1 = []
     then invalid ''contract terms require two endpoint scopes''
     else if pt_domain p0 = [] \<or> pt_domain p1 = []
     then invalid ''contract terms require two authority domains''
     else if tm_capacity t > kMaxCapacity
     then status_make Outcome_Overflow ''contract capacity exceeds the maximum supported value''
     else if tm_lease_duration t < 0 \<or> word_of_int (tm_lease_duration t) > kMaxDurationNanos
     then invalid ''contract lease duration is out of range''
     else if pt_domain p0 = pt_domain p1
     then status_make Outcome_Unsupported
       ''both endpoints are governed by one authority domain: two-sided consent is not available''
     else status_ok)"

section \<open>Laws\<close>

definition terms_wire :: "contract_terms \<Rightarrow> bool" where
  "terms_wire t \<longleftrightarrow>
    party_wire (fst (tm_parties t)) \<and> party_wire (snd (tm_parties t))
    \<and> tm_capacity t \<le> kMaxCapacity \<and> i64_ok (tm_lease_duration t) \<and> 0 \<le> tm_lease_duration t
    \<and> word_of_int (tm_lease_duration t) \<le> kMaxDurationNanos
    \<and> uuid_ok (fst (tm_incarnations t)) \<and> uuid_ok (snd (tm_incarnations t))
    \<and> fst (tm_generations t) \<le> kMaxGeneration \<and> snd (tm_generations t) \<le> kMaxGeneration
    \<and> fst (tm_policies t) \<le> kMaxGeneration \<and> snd (tm_policies t) \<le> kMaxGeneration
    \<and> i64_ok (tm_proposed_at t)"

interpretation terms_counter: canonical_codec w_u64 "terms_counter k msg" "\<lambda>v. v \<le> k" for k msg
  by unfold_locales
    (auto simp: terms_counter_def u64.dec_step and_then_eq_Inr_iff require_eq_Inr_iff not_less
      dest!: r_u64_sound)

interpretation terms: canonical_codec encode_terms decode_terms terms_wire
proof
  fix x rest assume "terms_wire x"
  then show "decode_terms (encode_terms x @ rest) = Inr (x, rest)"
    by (simp add: decode_terms_def encode_terms_def terms_wire_def codec_simps party.dec_step
        terms_counter.dec_step not_less)
next
  fix bs x rest assume "decode_terms bs = Inr (x, rest)"
  then show "terms_wire x \<and> bs = encode_terms x @ rest"
    by (auto simp: decode_terms_def encode_terms_def terms_wire_def reader_iffs not_less
        dest!: shared_sound party.dec_sound terms_counter.dec_sound)
qed

lemma terms_validate_ok:
  "is_ok (terms_validate t) \<Longrightarrow>
    pt_cluster (fst (tm_parties t)) \<noteq> pt_cluster (snd (tm_parties t))
    \<and> pt_domain (fst (tm_parties t)) \<noteq> pt_domain (snd (tm_parties t))
    \<and> tm_capacity t \<le> kMaxCapacity \<and> 0 \<le> tm_lease_duration t"
  by (auto simp: terms_validate_def Let_def split: prod.splits if_splits)

end
