(* ===== verification/Decision.thy ===== *)
theory Decision
  imports Terms
begin

text \<open>
  \<open>model/decision.hpp\<close> and \<open>model/decision.cpp\<close>: what the engine answers (decisions and fence
  plans), the accounting entries and status reports the coordinator returns, their printed names
  and their encodings. The codecs are canonical in the sense of \<open>Bytes\<close>.
\<close>

section \<open>Types\<close>

datatype reason_code =
    ReasonCode_None
  | ReasonCode_EndpointsAreIdentical
  | ReasonCode_SourceEndpointNotRegistered
  | ReasonCode_TargetEndpointNotRegistered
  | ReasonCode_SourceEndpointSuspended
  | ReasonCode_TargetEndpointSuspended
  | ReasonCode_SourceEndpointRefused
  | ReasonCode_TargetEndpointRefused
  | ReasonCode_ResourceUnknown
  | ReasonCode_ResourceUnsupported
  | ReasonCode_ResourceUnreachable
  | ReasonCode_ResourcePartitioned
  | ReasonCode_PolicyAllowed
  | ReasonCode_PolicyRefused
  | ReasonCode_PolicyMissingAllow
  | ReasonCode_PolicyStaleGeneration
  | ReasonCode_ClusterUnknown
  | ReasonCode_ClusterSuspended
  | ReasonCode_ClusterDraining
  | ReasonCode_ClusterRetired
  | ReasonCode_ClusterGenerationConflict
  | ReasonCode_ClusterConsentWithdrawn
  | ReasonCode_IncarnationMismatch
  | ReasonCode_GenerationStale
  | ReasonCode_PolicyGenerationStale
  | ReasonCode_NoContract
  | ReasonCode_ContractNotConsented
  | ReasonCode_ContractRefused
  | ReasonCode_ContractWithdrawn
  | ReasonCode_ContractExpired
  | ReasonCode_ContractFenced
  | ReasonCode_ConsentMismatch
  | ReasonCode_ConsentUnauthenticated
  | ReasonCode_NoGrant
  | ReasonCode_GrantNotCommitted
  | ReasonCode_GrantNotAcknowledged
  | ReasonCode_GrantIndeterminate
  | ReasonCode_GrantFenced
  | ReasonCode_GrantExpired
  | ReasonCode_GrantTermMismatch
  | ReasonCode_GrantNeedsRevalidation
  | ReasonCode_GrantCapacityExceeded
  | ReasonCode_PathAbsent
  | ReasonCode_PathUnsupported
  | ReasonCode_PathDown
  | ReasonCode_PathDegraded
  | ReasonCode_PathNotPermittedDegraded
  | ReasonCode_LinkUnsupported
  | ReasonCode_LinkDown
  | ReasonCode_LinkDegraded
  | ReasonCode_LinkUnknown
  | ReasonCode_CapacityExhausted
  | ReasonCode_EvidenceUnverified
  | ReasonCode_EvidenceRecoveredFromStore
  | ReasonCode_EvidenceIncomplete
  | ReasonCode_AuthorityRequired
  | ReasonCode_AuthoritySatisfied

datatype fence_trigger =
    FenceTrigger_Manual
  | FenceTrigger_ClusterReincarnation
  | FenceTrigger_ClusterWithdrawal
  | FenceTrigger_PolicyGenerationChange
  | FenceTrigger_CoordinatorReincarnation
  | FenceTrigger_GrantRevocation
  | FenceTrigger_LinkFailure
  | FenceTrigger_GrantExpiry

datatype fence_target =
    FenceTarget_Grant
  | FenceTarget_Contract
  | FenceTarget_Reservation

definition reason_code_values :: "reason_code list" where
  "reason_code_values =
    [ReasonCode_None, ReasonCode_EndpointsAreIdentical, ReasonCode_SourceEndpointNotRegistered,
     ReasonCode_TargetEndpointNotRegistered, ReasonCode_SourceEndpointSuspended,
     ReasonCode_TargetEndpointSuspended, ReasonCode_SourceEndpointRefused,
     ReasonCode_TargetEndpointRefused, ReasonCode_ResourceUnknown, ReasonCode_ResourceUnsupported,
     ReasonCode_ResourceUnreachable, ReasonCode_ResourcePartitioned, ReasonCode_PolicyAllowed,
     ReasonCode_PolicyRefused, ReasonCode_PolicyMissingAllow, ReasonCode_PolicyStaleGeneration,
     ReasonCode_ClusterUnknown, ReasonCode_ClusterSuspended, ReasonCode_ClusterDraining,
     ReasonCode_ClusterRetired, ReasonCode_ClusterGenerationConflict,
     ReasonCode_ClusterConsentWithdrawn, ReasonCode_IncarnationMismatch, ReasonCode_GenerationStale,
     ReasonCode_PolicyGenerationStale, ReasonCode_NoContract, ReasonCode_ContractNotConsented,
     ReasonCode_ContractRefused, ReasonCode_ContractWithdrawn, ReasonCode_ContractExpired,
     ReasonCode_ContractFenced, ReasonCode_ConsentMismatch, ReasonCode_ConsentUnauthenticated,
     ReasonCode_NoGrant, ReasonCode_GrantNotCommitted, ReasonCode_GrantNotAcknowledged,
     ReasonCode_GrantIndeterminate, ReasonCode_GrantFenced, ReasonCode_GrantExpired,
     ReasonCode_GrantTermMismatch, ReasonCode_GrantNeedsRevalidation,
     ReasonCode_GrantCapacityExceeded, ReasonCode_PathAbsent, ReasonCode_PathUnsupported,
     ReasonCode_PathDown, ReasonCode_PathDegraded, ReasonCode_PathNotPermittedDegraded,
     ReasonCode_LinkUnsupported, ReasonCode_LinkDown, ReasonCode_LinkDegraded,
     ReasonCode_LinkUnknown, ReasonCode_CapacityExhausted, ReasonCode_EvidenceUnverified,
     ReasonCode_EvidenceRecoveredFromStore, ReasonCode_EvidenceIncomplete,
     ReasonCode_AuthorityRequired, ReasonCode_AuthoritySatisfied]"

definition fence_trigger_values :: "fence_trigger list" where
  "fence_trigger_values =
    [FenceTrigger_Manual, FenceTrigger_ClusterReincarnation, FenceTrigger_ClusterWithdrawal,
     FenceTrigger_PolicyGenerationChange, FenceTrigger_CoordinatorReincarnation,
     FenceTrigger_GrantRevocation, FenceTrigger_LinkFailure, FenceTrigger_GrantExpiry]"

definition fence_target_values :: "fence_target list" where
  "fence_target_values =
    [FenceTarget_Grant, FenceTarget_Contract, FenceTarget_Reservation]"

fun reason_code_to_string :: "reason_code \<Rightarrow> string" where
  "reason_code_to_string ReasonCode_None = ''NONE''"
| "reason_code_to_string ReasonCode_EndpointsAreIdentical = ''ENDPOINTS_ARE_IDENTICAL''"
| "reason_code_to_string ReasonCode_SourceEndpointNotRegistered = ''SOURCE_ENDPOINT_NOT_REGISTERED''"
| "reason_code_to_string ReasonCode_TargetEndpointNotRegistered = ''TARGET_ENDPOINT_NOT_REGISTERED''"
| "reason_code_to_string ReasonCode_SourceEndpointSuspended = ''SOURCE_ENDPOINT_SUSPENDED''"
| "reason_code_to_string ReasonCode_TargetEndpointSuspended = ''TARGET_ENDPOINT_SUSPENDED''"
| "reason_code_to_string ReasonCode_SourceEndpointRefused = ''SOURCE_ENDPOINT_REFUSED''"
| "reason_code_to_string ReasonCode_TargetEndpointRefused = ''TARGET_ENDPOINT_REFUSED''"
| "reason_code_to_string ReasonCode_ResourceUnknown = ''RESOURCE_UNKNOWN''"
| "reason_code_to_string ReasonCode_ResourceUnsupported = ''RESOURCE_UNSUPPORTED''"
| "reason_code_to_string ReasonCode_ResourceUnreachable = ''RESOURCE_UNREACHABLE''"
| "reason_code_to_string ReasonCode_ResourcePartitioned = ''RESOURCE_PARTITIONED''"
| "reason_code_to_string ReasonCode_PolicyAllowed = ''POLICY_ALLOWED''"
| "reason_code_to_string ReasonCode_PolicyRefused = ''POLICY_REFUSED''"
| "reason_code_to_string ReasonCode_PolicyMissingAllow = ''POLICY_MISSING_ALLOW''"
| "reason_code_to_string ReasonCode_PolicyStaleGeneration = ''POLICY_STALE_GENERATION''"
| "reason_code_to_string ReasonCode_ClusterUnknown = ''CLUSTER_UNKNOWN''"
| "reason_code_to_string ReasonCode_ClusterSuspended = ''CLUSTER_SUSPENDED''"
| "reason_code_to_string ReasonCode_ClusterDraining = ''CLUSTER_DRAINING''"
| "reason_code_to_string ReasonCode_ClusterRetired = ''CLUSTER_RETIRED''"
| "reason_code_to_string ReasonCode_ClusterGenerationConflict = ''CLUSTER_GENERATION_CONFLICT''"
| "reason_code_to_string ReasonCode_ClusterConsentWithdrawn = ''CLUSTER_CONSENT_WITHDRAWN''"
| "reason_code_to_string ReasonCode_IncarnationMismatch = ''INCARNATION_MISMATCH''"
| "reason_code_to_string ReasonCode_GenerationStale = ''GENERATION_STALE''"
| "reason_code_to_string ReasonCode_PolicyGenerationStale = ''POLICY_GENERATION_STALE''"
| "reason_code_to_string ReasonCode_NoContract = ''NO_CONTRACT''"
| "reason_code_to_string ReasonCode_ContractNotConsented = ''CONTRACT_NOT_CONSENTED''"
| "reason_code_to_string ReasonCode_ContractRefused = ''CONTRACT_REFUSED''"
| "reason_code_to_string ReasonCode_ContractWithdrawn = ''CONTRACT_WITHDRAWN''"
| "reason_code_to_string ReasonCode_ContractExpired = ''CONTRACT_EXPIRED''"
| "reason_code_to_string ReasonCode_ContractFenced = ''CONTRACT_FENCED''"
| "reason_code_to_string ReasonCode_ConsentMismatch = ''CONSENT_MISMATCH''"
| "reason_code_to_string ReasonCode_ConsentUnauthenticated = ''CONSENT_UNAUTHENTICATED''"
| "reason_code_to_string ReasonCode_NoGrant = ''NO_GRANT''"
| "reason_code_to_string ReasonCode_GrantNotCommitted = ''GRANT_NOT_COMMITTED''"
| "reason_code_to_string ReasonCode_GrantNotAcknowledged = ''GRANT_NOT_ACKNOWLEDGED''"
| "reason_code_to_string ReasonCode_GrantIndeterminate = ''GRANT_INDETERMINATE''"
| "reason_code_to_string ReasonCode_GrantFenced = ''GRANT_FENCED''"
| "reason_code_to_string ReasonCode_GrantExpired = ''GRANT_EXPIRED''"
| "reason_code_to_string ReasonCode_GrantTermMismatch = ''GRANT_TERM_MISMATCH''"
| "reason_code_to_string ReasonCode_GrantNeedsRevalidation = ''GRANT_NEEDS_REVALIDATION''"
| "reason_code_to_string ReasonCode_GrantCapacityExceeded = ''GRANT_CAPACITY_EXCEEDED''"
| "reason_code_to_string ReasonCode_PathAbsent = ''PATH_ABSENT''"
| "reason_code_to_string ReasonCode_PathUnsupported = ''PATH_UNSUPPORTED''"
| "reason_code_to_string ReasonCode_PathDown = ''PATH_DOWN''"
| "reason_code_to_string ReasonCode_PathDegraded = ''PATH_DEGRADED''"
| "reason_code_to_string ReasonCode_PathNotPermittedDegraded = ''PATH_NOT_PERMITTED_DEGRADED''"
| "reason_code_to_string ReasonCode_LinkUnsupported = ''LINK_UNSUPPORTED''"
| "reason_code_to_string ReasonCode_LinkDown = ''LINK_DOWN''"
| "reason_code_to_string ReasonCode_LinkDegraded = ''LINK_DEGRADED''"
| "reason_code_to_string ReasonCode_LinkUnknown = ''LINK_UNKNOWN''"
| "reason_code_to_string ReasonCode_CapacityExhausted = ''CAPACITY_EXHAUSTED''"
| "reason_code_to_string ReasonCode_EvidenceUnverified = ''EVIDENCE_UNVERIFIED''"
| "reason_code_to_string ReasonCode_EvidenceRecoveredFromStore = ''EVIDENCE_RECOVERED_FROM_STORE''"
| "reason_code_to_string ReasonCode_EvidenceIncomplete = ''EVIDENCE_INCOMPLETE''"
| "reason_code_to_string ReasonCode_AuthorityRequired = ''AUTHORITY_REQUIRED''"
| "reason_code_to_string ReasonCode_AuthoritySatisfied = ''AUTHORITY_SATISFIED''"

fun fence_trigger_to_string :: "fence_trigger \<Rightarrow> string" where
  "fence_trigger_to_string FenceTrigger_Manual = ''MANUAL''"
| "fence_trigger_to_string FenceTrigger_ClusterReincarnation = ''CLUSTER_REINCARNATION''"
| "fence_trigger_to_string FenceTrigger_ClusterWithdrawal = ''CLUSTER_WITHDRAWAL''"
| "fence_trigger_to_string FenceTrigger_PolicyGenerationChange = ''POLICY_GENERATION_CHANGE''"
| "fence_trigger_to_string FenceTrigger_CoordinatorReincarnation = ''COORDINATOR_REINCARNATION''"
| "fence_trigger_to_string FenceTrigger_GrantRevocation = ''GRANT_REVOCATION''"
| "fence_trigger_to_string FenceTrigger_LinkFailure = ''LINK_FAILURE''"
| "fence_trigger_to_string FenceTrigger_GrantExpiry = ''GRANT_EXPIRY''"

fun fence_target_to_string :: "fence_target \<Rightarrow> string" where
  "fence_target_to_string FenceTarget_Grant = ''GRANT''"
| "fence_target_to_string FenceTarget_Contract = ''CONTRACT''"
| "fence_target_to_string FenceTarget_Reservation = ''RESERVATION''"

record decision_query =
  qy_source :: endpoint_id
  qy_target :: endpoint_id
  qy_requested_capacity :: u64
  qy_at :: timestamp
  qy_allow_degraded :: bool
  qy_expect_source_generation :: bool
  qy_source_generation :: u64
  qy_expect_target_generation :: bool
  qy_target_generation :: u64

record decision =
  dc_outcome :: outcome
  dc_reasons :: "reason_code list"
  dc_contract :: contract_id
  dc_grant :: grant_id
  dc_authorities :: "domain_id \<times> domain_id"
  dc_term :: u64
  dc_coordinator :: incarnation_id
  dc_terms_digest :: digest
  dc_view_digest :: digest
  dc_capacity :: u64
  dc_paths :: "path_id list"
  dc_edges :: "edge_id list"
  dc_degraded :: bool
  dc_decided_at :: timestamp
  dc_detail :: string

definition default_decision :: decision where
  "default_decision =
    \<lparr>dc_outcome = Outcome_Indeterminate, dc_reasons = [], dc_contract = nil_uuid, dc_grant = nil_uuid,
     dc_authorities = ([], []), dc_term = 0, dc_coordinator = nil_uuid, dc_terms_digest = zero_digest,
     dc_view_digest = zero_digest, dc_capacity = 0, dc_paths = [], dc_edges = [], dc_degraded = False,
     dc_decided_at = 0, dc_detail = []\<rparr>"

definition authorized :: "decision \<Rightarrow> bool" where
  "authorized d \<longleftrightarrow> is_authorized (dc_outcome d)"

record fence_action =
  fa_target :: fence_target
  fa_grant :: grant_id
  fa_contract :: contract_id
  fa_reservation :: reservation_id
  fa_reason :: reason_code

record fence_plan =
  fp_trigger :: fence_trigger
  fp_cluster :: cluster_id
  fp_incarnation :: incarnation_id
  fp_previous_incarnation :: incarnation_id
  fp_generation :: u64
  fp_term :: u64
  fp_view_digest :: digest
  fp_actions :: "fence_action list"
  fp_detail :: string

record accounting_entry =
  ac_grant :: grant_id
  ac_contract :: contract_id
  ac_endpoint :: endpoint_id
  ac_cluster :: cluster_id
  ac_reserved :: u64
  ac_released :: u64
  ac_closed :: bool

section \<open>Encodings\<close>

definition encode_list :: "('a \<Rightarrow> bytes) \<Rightarrow> 'a list \<Rightarrow> bytes" where
  "encode_list enc xs = snd (w_count (length xs)) @ concat (map enc xs)"

text \<open>The count and the loop that follows it.\<close>

definition decode_list :: "nat \<Rightarrow> 'a reader \<Rightarrow> 'a list reader" where
  "decode_list bound dec = and_then (r_count bound) (\<lambda>n. read_times n dec)"

text \<open>An enumeration with its own range message.\<close>

definition ranged8 :: "'e list \<Rightarrow> string \<Rightarrow> 'e reader" where
  "ranged8 vs msg =
    and_then r_u8 (\<lambda>raw. require (\<not> unat raw > length vs - 1) (invalid msg) (give (vs ! unat raw)))"

definition ranged16 :: "'e list \<Rightarrow> string \<Rightarrow> 'e reader" where
  "ranged16 vs msg =
    and_then r_u16 (\<lambda>raw. require (\<not> unat raw > length vs - 1) (invalid msg) (give (vs ! unat raw)))"

definition encode_decision :: "decision \<Rightarrow> bytes" where
  "encode_decision d =
    encode_enum16 outcome_values (dc_outcome d)
    @ encode_list (encode_enum16 reason_code_values) (dc_reasons d)
    @ w_uuid (dc_contract d)
    @ w_uuid (dc_grant d)
    @ w_blob (fst (dc_authorities d))
    @ w_blob (snd (dc_authorities d))
    @ w_u64 (dc_term d)
    @ w_uuid (dc_coordinator d)
    @ w_digest (dc_terms_digest d)
    @ w_digest (dc_view_digest d)
    @ w_u64 (dc_capacity d)
    @ encode_list w_blob (dc_paths d)
    @ encode_list w_blob (dc_edges d)
    @ w_boolean (dc_degraded d)
    @ w_i64 (dc_decided_at d)
    @ w_blob (dc_detail d)"

definition decode_decision :: "decision reader" where
  "decode_decision =
    and_then (ranged16 outcome_values ''decision outcome is out of range'') (\<lambda>out.
    and_then (decode_list kMaxDecisionReasons
      (ranged16 reason_code_values ''decision reason code is out of range'')) (\<lambda>reasons.
    and_then r_uuid (\<lambda>contract.
    and_then r_uuid (\<lambda>grant.
    and_then decode_optional_name (\<lambda>authority0.
    and_then decode_optional_name (\<lambda>authority1.
    and_then (decode_counter kMaxGeneration) (\<lambda>term.
    and_then r_uuid (\<lambda>coordinator.
    and_then r_digest (\<lambda>terms.
    and_then r_digest (\<lambda>view.
    and_then (decode_counter kMaxCapacity) (\<lambda>capacity.
    and_then (decode_list kMaxDecisionPaths (decode_name id_tag kMaxNameLength)) (\<lambda>paths.
    and_then (decode_list kMaxEdges (decode_name id_tag kMaxNameLength)) (\<lambda>edges.
    and_then r_boolean (\<lambda>degraded.
    and_then r_i64 (\<lambda>decided_at.
    and_then decode_text (\<lambda>detail.
    give \<lparr>dc_outcome = out, dc_reasons = reasons, dc_contract = contract, dc_grant = grant,
      dc_authorities = (authority0, authority1), dc_term = term, dc_coordinator = coordinator,
      dc_terms_digest = terms, dc_view_digest = view, dc_capacity = capacity, dc_paths = paths,
      dc_edges = edges, dc_degraded = degraded, dc_decided_at = decided_at,
      dc_detail = detail\<rparr>))))))))))))))))"

definition encode_fence_action :: "fence_action \<Rightarrow> bytes" where
  "encode_fence_action a =
    encode_enum8 fence_target_values (fa_target a)
    @ w_uuid (fa_grant a)
    @ w_uuid (fa_contract a)
    @ w_uuid (fa_reservation a)
    @ encode_enum16 reason_code_values (fa_reason a)"

definition decode_fence_action :: "fence_action reader" where
  "decode_fence_action =
    and_then (ranged8 fence_target_values ''fence target is out of range'') (\<lambda>tgt.
    and_then r_uuid (\<lambda>grant.
    and_then r_uuid (\<lambda>contract.
    and_then r_uuid (\<lambda>reservation.
    and_then (ranged16 reason_code_values ''fence reason code is out of range'') (\<lambda>reason.
    give \<lparr>fa_target = tgt, fa_grant = grant, fa_contract = contract,
      fa_reservation = reservation, fa_reason = reason\<rparr>)))))"

definition encode_fence_plan :: "fence_plan \<Rightarrow> bytes" where
  "encode_fence_plan p =
    encode_enum8 fence_trigger_values (fp_trigger p)
    @ w_blob (fp_cluster p)
    @ w_uuid (fp_incarnation p)
    @ w_uuid (fp_previous_incarnation p)
    @ w_u64 (fp_generation p)
    @ w_u64 (fp_term p)
    @ w_digest (fp_view_digest p)
    @ encode_list encode_fence_action (fp_actions p)
    @ w_blob (fp_detail p)"

definition decode_fence_plan :: "fence_plan reader" where
  "decode_fence_plan =
    and_then (ranged8 fence_trigger_values ''fence trigger is out of range'') (\<lambda>trigger.
    and_then decode_optional_name (\<lambda>cluster.
    and_then r_uuid (\<lambda>incarnation.
    and_then r_uuid (\<lambda>previous.
    and_then (decode_counter kMaxGeneration) (\<lambda>generation.
    and_then (decode_counter kMaxGeneration) (\<lambda>term.
    and_then r_digest (\<lambda>view.
    and_then (decode_list kMaxFencePlanEntries decode_fence_action) (\<lambda>actions.
    and_then decode_text (\<lambda>detail.
    give \<lparr>fp_trigger = trigger, fp_cluster = cluster, fp_incarnation = incarnation,
      fp_previous_incarnation = previous, fp_generation = generation, fp_term = term,
      fp_view_digest = view, fp_actions = actions, fp_detail = detail\<rparr>)))))))))"

definition encode_accounting :: "accounting_entry \<Rightarrow> bytes" where
  "encode_accounting a =
    w_uuid (ac_grant a)
    @ w_uuid (ac_contract a)
    @ w_blob (ac_endpoint a)
    @ w_blob (ac_cluster a)
    @ w_u64 (ac_reserved a)
    @ w_u64 (ac_released a)
    @ w_boolean (ac_closed a)"

text \<open>The entry's two names are parsed after the last field was read.\<close>

definition optional_name :: "string \<Rightarrow> string result" where
  "optional_name text = (if text = [] then Inr [] else name_parse id_tag text)"

definition decode_accounting :: "accounting_entry reader" where
  "decode_accounting =
    and_then r_uuid (\<lambda>grant.
    and_then r_uuid (\<lambda>contract.
    and_then (r_blob kMaxNameLength) (\<lambda>endpoint_text.
    and_then (r_blob kMaxNameLength) (\<lambda>cluster_text.
    and_then (decode_counter kMaxCapacity) (\<lambda>reserved.
    and_then (decode_counter kMaxCapacity) (\<lambda>released.
    and_then r_boolean (\<lambda>closed.
    and_then (lift_result (optional_name endpoint_text)) (\<lambda>endpoint.
    and_then (lift_result (optional_name cluster_text)) (\<lambda>cluster.
    give \<lparr>ac_grant = grant, ac_contract = contract, ac_endpoint = endpoint, ac_cluster = cluster,
      ac_reserved = reserved, ac_released = released, ac_closed = closed\<rparr>)))))))))"

section \<open>Laws\<close>

text \<open>A list of values that share a canonical codec.\<close>

context canonical_codec
begin

lemma decode_list_enc:
  assumes "list_all ok xs" "length xs \<le> b" "b < 2 ^ 32"
  shows "decode_list b dec (encode_list enc xs @ rest) = Inr (xs, rest)"
  using assms by (simp add: decode_list_def encode_list_def count.dec_step read_times_enc)

lemma decode_list_step:
  assumes "list_all ok xs" "length xs \<le> b" "b < 2 ^ 32"
  shows "and_then (decode_list b dec) f (encode_list enc xs @ rest) = f xs rest"
  using decode_list_enc [OF assms] by (rule and_then_Inr)

lemma decode_list_sound:
  assumes "decode_list b dec bs = Inr (xs, rest)" "b < 2 ^ 32"
  shows "list_all ok xs \<and> length xs \<le> b \<and> bs = encode_list enc xs @ rest"
  using assms
  by (auto simp: decode_list_def encode_list_def and_then_eq_Inr_iff dest!: r_count_sound read_times_sound)

end

lemma ranged8_eq: "ranged8 vs msg bs = Inr (x, rest) \<longleftrightarrow> decode_enum8 vs (length vs - 1) bs = Inr (x, rest)"
  by (auto simp: ranged8_def decode_enum8_def and_then_eq_Inr_iff require_eq_Inr_iff)

lemma ranged16_eq: "ranged16 vs msg bs = Inr (x, rest) \<longleftrightarrow> decode_enum16 vs (length vs - 1) bs = Inr (x, rest)"
  by (auto simp: ranged16_def decode_enum16_def and_then_eq_Inr_iff require_eq_Inr_iff)

lemma ranged16_canonical:
  assumes "distinct vs" "vs \<noteq> []" "length vs \<le> 256" "\<And>x. x \<in> set vs"
  shows "canonical_codec (encode_enum16 vs) (ranged16 vs msg) (\<lambda>_. True)"
proof
  fix x rest
  show "ranged16 vs msg (encode_enum16 vs x @ rest) = Inr (x, rest)"
    unfolding ranged16_eq using assms by (intro enum16_dec_step) (simp add: enum_ok_def Suc_le_eq)
next
  fix bs x rest assume "ranged16 vs msg bs = Inr (x, rest)"
  then show "True \<and> bs = encode_enum16 vs x @ rest"
    unfolding ranged16_eq using assms decode_enum16_sound [of vs "length vs - 1"] by simp
qed

lemma ranged8_canonical:
  assumes "distinct vs" "vs \<noteq> []" "length vs \<le> 256" "\<And>x. x \<in> set vs"
  shows "canonical_codec (encode_enum8 vs) (ranged8 vs msg) (\<lambda>_. True)"
proof
  fix x rest
  show "ranged8 vs msg (encode_enum8 vs x @ rest) = Inr (x, rest)"
    unfolding ranged8_eq using assms by (intro enum8_dec_step) (simp add: enum_ok_def Suc_le_eq)
next
  fix bs x rest assume "ranged8 vs msg bs = Inr (x, rest)"
  then show "True \<and> bs = encode_enum8 vs x @ rest"
    unfolding ranged8_eq using assms decode_enum8_sound [of vs "length vs - 1"] by simp
qed

lemma reason_code_values_complete [simp]: "x \<in> set reason_code_values"
  by (cases x) (simp_all add: reason_code_values_def)

lemma fence_trigger_values_complete [simp]: "x \<in> set fence_trigger_values"
  by (cases x) (simp_all add: fence_trigger_values_def)

lemma fence_target_values_complete [simp]: "x \<in> set fence_target_values"
  by (cases x) (simp_all add: fence_target_values_def)

interpretation reason: canonical_codec "encode_enum16 reason_code_values" "ranged16 reason_code_values msg"
  "\<lambda>_. True" for msg
  by (rule ranged16_canonical) (simp_all, simp_all add: reason_code_values_def)

interpretation outcome: canonical_codec "encode_enum16 outcome_values" "ranged16 outcome_values msg"
  "\<lambda>_. True" for msg
  by (rule ranged16_canonical)
    (simp_all add: outcome_values_complete, simp_all add: outcome_values_def kOutcomeNames_def)

interpretation trigger: canonical_codec "encode_enum8 fence_trigger_values" "ranged8 fence_trigger_values msg"
  "\<lambda>_. True" for msg
  by (rule ranged8_canonical) (simp_all, simp_all add: fence_trigger_values_def)

interpretation target: canonical_codec "encode_enum8 fence_target_values" "ranged8 fence_target_values msg"
  "\<lambda>_. True" for msg
  by (rule ranged8_canonical) (simp_all, simp_all add: fence_target_values_def)

definition decision_wire :: "decision \<Rightarrow> bool" where
  "decision_wire d \<longleftrightarrow>
    length (dc_reasons d) \<le> kMaxDecisionReasons \<and> uuid_ok (dc_contract d) \<and> uuid_ok (dc_grant d)
    \<and> wild_ok (fst (dc_authorities d)) \<and> wild_ok (snd (dc_authorities d))
    \<and> dc_term d \<le> kMaxGeneration \<and> uuid_ok (dc_coordinator d) \<and> digest_ok (dc_terms_digest d)
    \<and> digest_ok (dc_view_digest d) \<and> dc_capacity d \<le> kMaxCapacity
    \<and> list_all (name_ok id_tag) (dc_paths d) \<and> length (dc_paths d) \<le> kMaxDecisionPaths
    \<and> list_all (name_ok id_tag) (dc_edges d) \<and> length (dc_edges d) \<le> kMaxEdges
    \<and> i64_ok (dc_decided_at d) \<and> note_ok (dc_detail d)"

lemma reasons_step:
  "length xs \<le> kMaxDecisionReasons \<Longrightarrow>
    and_then (decode_list kMaxDecisionReasons (ranged16 reason_code_values msg)) f
      (encode_list (encode_enum16 reason_code_values) xs @ rest) = f xs rest"
  by (rule reason.decode_list_step) (simp_all add: kMaxDecisionReasons_def list_all_iff)

lemma names_step:
  "list_all (name_ok id_tag) xs \<Longrightarrow> length xs \<le> b \<Longrightarrow> b < 2 ^ 32 \<Longrightarrow>
    and_then (decode_list b (decode_name id_tag kMaxNameLength)) f (encode_list w_blob xs @ rest) = f xs rest"
  by (rule ident.decode_list_step)

lemma list_bounds [simp]:
  "kMaxDecisionReasons < 2 ^ 32" "kMaxDecisionPaths < 2 ^ 32" "kMaxEdges < 2 ^ 32"
  "kMaxFencePlanEntries < 2 ^ 32"
  by (simp_all add: count_limits)

lemmas list_sound =
  reason.decode_list_sound [OF _ list_bounds(1)]
  ident.decode_list_sound [OF _ list_bounds(2)] ident.decode_list_sound [OF _ list_bounds(3)]

interpretation decision: canonical_codec encode_decision decode_decision decision_wire
proof
  fix x rest assume "decision_wire x"
  then show "decode_decision (encode_decision x @ rest) = Inr (x, rest)"
    using list_bounds
    by (simp add: decode_decision_def encode_decision_def decision_wire_def codec_simps outcome.dec_step
        reasons_step names_step del: list_bounds)
next
  fix bs x rest assume "decode_decision bs = Inr (x, rest)"
  then show "decision_wire x \<and> bs = encode_decision x @ rest"
    by (auto simp: decode_decision_def encode_decision_def decision_wire_def reader_iffs
        dest!: shared_sound outcome.dec_sound list_sound)
qed

definition fence_action_wire :: "fence_action \<Rightarrow> bool" where
  "fence_action_wire a \<longleftrightarrow> uuid_ok (fa_grant a) \<and> uuid_ok (fa_contract a) \<and> uuid_ok (fa_reservation a)"

interpretation fence_action: canonical_codec encode_fence_action decode_fence_action fence_action_wire
proof
  fix x rest assume "fence_action_wire x"
  then show "decode_fence_action (encode_fence_action x @ rest) = Inr (x, rest)"
    by (simp add: decode_fence_action_def encode_fence_action_def fence_action_wire_def codec_simps
        target.dec_step reason.dec_step)
next
  fix bs x rest assume "decode_fence_action bs = Inr (x, rest)"
  then show "fence_action_wire x \<and> bs = encode_fence_action x @ rest"
    by (auto simp: decode_fence_action_def encode_fence_action_def fence_action_wire_def reader_iffs
        dest!: shared_sound target.dec_sound reason.dec_sound)
qed

definition fence_plan_wire :: "fence_plan \<Rightarrow> bool" where
  "fence_plan_wire p \<longleftrightarrow>
    wild_ok (fp_cluster p) \<and> uuid_ok (fp_incarnation p) \<and> uuid_ok (fp_previous_incarnation p)
    \<and> fp_generation p \<le> kMaxGeneration \<and> fp_term p \<le> kMaxGeneration \<and> digest_ok (fp_view_digest p)
    \<and> list_all fence_action_wire (fp_actions p) \<and> length (fp_actions p) \<le> kMaxFencePlanEntries
    \<and> note_ok (fp_detail p)"

interpretation fence_plan: canonical_codec encode_fence_plan decode_fence_plan fence_plan_wire
proof
  fix x rest assume "fence_plan_wire x"
  then show "decode_fence_plan (encode_fence_plan x @ rest) = Inr (x, rest)"
    using list_bounds
    by (simp add: decode_fence_plan_def encode_fence_plan_def fence_plan_wire_def codec_simps
        trigger.dec_step fence_action.decode_list_step del: list_bounds)
next
  fix bs x rest assume "decode_fence_plan bs = Inr (x, rest)"
  then show "fence_plan_wire x \<and> bs = encode_fence_plan x @ rest"
    by (auto simp: decode_fence_plan_def encode_fence_plan_def fence_plan_wire_def reader_iffs
        dest!: shared_sound trigger.dec_sound fence_action.decode_list_sound [OF _ list_bounds(4)])
qed

definition accounting_wire :: "accounting_entry \<Rightarrow> bool" where
  "accounting_wire a \<longleftrightarrow>
    uuid_ok (ac_grant a) \<and> uuid_ok (ac_contract a) \<and> wild_ok (ac_endpoint a) \<and> wild_ok (ac_cluster a)
    \<and> ac_reserved a \<le> kMaxCapacity \<and> ac_released a \<le> kMaxCapacity"

lemma optional_name_ok: "optional_name s = Inr t \<longleftrightarrow> t = s \<and> wild_ok s"
  by (auto simp: optional_name_def wild_ok_def name_ok_def dest: name_parse_InrD split: if_splits)

lemma optional_name_step: "wild_ok s \<Longrightarrow> and_then (lift_result (optional_name s)) f bs = f s bs"
  using optional_name_ok [of s s] by (simp add: and_then_def lift_result_def)

lemma name_blob_sound: "r_blob kMaxNameLength bs = Inr (s, rest) \<Longrightarrow> bs = w_blob s @ rest"
  by (drule r_blob_sound) (simp_all add: kMaxNameLength_def)

interpretation accounting: canonical_codec encode_accounting decode_accounting accounting_wire
proof
  fix x rest assume "accounting_wire x"
  then show "decode_accounting (encode_accounting x @ rest) = Inr (x, rest)"
    by (simp add: decode_accounting_def encode_accounting_def accounting_wire_def codec_simps
        optional_name_step)
next
  fix bs x rest assume "decode_accounting bs = Inr (x, rest)"
  then show "accounting_wire x \<and> bs = encode_accounting x @ rest"
    by (auto simp: decode_accounting_def encode_accounting_def accounting_wire_def reader_iffs
        lift_result_eq_Inr optional_name_ok dest!: shared_sound name_blob_sound)
qed

end
