(* ===== verification/Policy.thy ===== *)
theory Policy
  imports Registry_Invariant
begin

text \<open>
  \<open>model/policy.cpp\<close>: the two-domain policy evaluation. The rules are absorbed one by one into a map
  from authority domain to what was seen of it, and the map is then summarised. \<open>policy_spec\<close> is the
  contract of the code: which decision the set of matching rules calls for, without the map. A rule of a
  superseded generation counts only where its domain does not allow the pair.
\<close>

section \<open>The evaluation\<close>

datatype policy_decision =
    PolicyDecision_Allowed
  | PolicyDecision_RefusedExplicitly
  | PolicyDecision_MissingAllowRule
  | PolicyDecision_StaleGeneration
  | PolicyDecision_Unsupported

record policy_evaluation =
  pe_decision :: policy_decision
  pe_rule_ids :: "string list"
  pe_missing_domains :: "domain_id list"
  pe_refusing_domains :: "domain_id list"
  pe_allow_degraded :: bool
  pe_max_capacity :: u64
  pe_detail :: string

record domain_rules =
  dr_has_allow :: bool
  dr_has_refuse :: bool
  dr_allow_degraded :: bool
  dr_max_capacity :: u64
  dr_has_capacity_limit :: bool
  dr_stale :: bool
  dr_allow_ids :: "string list"
  dr_refuse_ids :: "string list"

definition default_domain_rules :: domain_rules where
  "default_domain_rules =
    \<lparr>dr_has_allow = False, dr_has_refuse = False, dr_allow_degraded = True, dr_max_capacity = 0,
     dr_has_capacity_limit = False, dr_stale = False, dr_allow_ids = [], dr_refuse_ids = []\<rparr>"

text \<open>\<open>absorb\<close>, whose last statement is the capacity limit of an allow rule.\<close>

definition absorb_capacity :: "policy_rule \<Rightarrow> domain_rules \<Rightarrow> domain_rules" where
  "absorb_capacity rule t =
    (if pr_max_capacity rule \<noteq> 0
        \<and> (\<not> dr_has_capacity_limit t \<or> pr_max_capacity rule < dr_max_capacity t)
     then t\<lparr>dr_max_capacity := pr_max_capacity rule, dr_has_capacity_limit := True\<rparr>
     else t)"

definition absorb :: "policy_rule \<Rightarrow> bool \<Rightarrow> domain_rules \<Rightarrow> domain_rules" where
  "absorb rule generation_current t =
    (if \<not> generation_current then t\<lparr>dr_stale := True\<rparr>
     else if \<not> pr_allow rule
     then t\<lparr>dr_has_refuse := True, dr_refuse_ids := dr_refuse_ids t @ [pr_id rule]\<rparr>
     else
       let t' = t\<lparr>dr_has_allow := True, dr_allow_ids := dr_allow_ids t @ [pr_id rule]\<rparr>;
           t'' = (if \<not> pr_allow_degraded rule then t'\<lparr>dr_allow_degraded := False\<rparr> else t')
       in absorb_capacity rule t'')"

text \<open>\<open>operator[]\<close> of the map: the value stored under the key, a default one if there is none.\<close>

definition domain_at :: "(domain_id, domain_rules) omap \<Rightarrow> domain_id \<Rightarrow> domain_rules" where
  "domain_at m d = (case om_find m d of Some t \<Rightarrow> t | None \<Rightarrow> default_domain_rules)"

definition rule_current :: "cluster_record \<Rightarrow> cluster_record \<Rightarrow> policy_rule \<Rightarrow> bool" where
  "rule_current source target rule \<longleftrightarrow>
    \<not> (pr_owner rule = cl_domain source \<and> pr_cluster_a rule \<noteq> [] \<and> pr_cluster_a rule = cl_id source
       \<and> pr_generation rule \<noteq> cl_policy_generation source)
    \<and> \<not> (pr_owner rule = cl_domain target \<and> pr_cluster_b rule \<noteq> [] \<and> pr_cluster_b rule = cl_id target
       \<and> pr_generation rule \<noteq> cl_policy_generation target)"

definition policy_step ::
  "cluster_record \<Rightarrow> cluster_record \<Rightarrow> endpoint_id \<Rightarrow> endpoint_id \<Rightarrow> policy_rule \<Rightarrow>
    (domain_id, domain_rules) omap \<Rightarrow> (domain_id, domain_rules) omap" where
  "policy_step source target ea eb rule m =
    (if \<not> (pr_owner rule = cl_domain source \<or> pr_owner rule = cl_domain target) then m
     else if \<not> policy_matches rule (cl_id source) (cl_id target) ea eb then m
     else om_put (pr_owner rule)
            (absorb rule (rule_current source target rule) (domain_at m (pr_owner rule))) m)"

definition policy_domains ::
  "registry \<Rightarrow> cluster_record \<Rightarrow> cluster_record \<Rightarrow> endpoint_id \<Rightarrow> endpoint_id \<Rightarrow>
    (domain_id, domain_rules) omap" where
  "policy_domains r source target ea eb =
    fold (\<lambda>entry. policy_step source target ea eb (snd entry)) (rg_policies r)
      (om_put (cl_domain target) (domain_at (om_put (cl_domain source) default_domain_rules []) (cl_domain target))
        (om_put (cl_domain source) default_domain_rules []))"

text \<open>The summary: the evaluation so far with \<open>any_refuse\<close> and \<open>any_stale\<close>.\<close>

definition policy_collect ::
  "domain_id \<times> domain_rules \<Rightarrow> policy_evaluation \<times> bool \<times> bool \<Rightarrow> policy_evaluation \<times> bool \<times> bool" where
  "policy_collect = (\<lambda>(d, rules) (ev, any_refuse, any_stale).
    let ev1 = (if dr_has_refuse rules
               then ev\<lparr>pe_refusing_domains := pe_refusing_domains ev @ [d],
                       pe_rule_ids := pe_rule_ids ev @ dr_refuse_ids rules\<rparr>
               else ev);
        any_refuse' = (any_refuse \<or> dr_has_refuse rules)
    in if \<not> dr_has_allow rules
       then (ev1\<lparr>pe_missing_domains := pe_missing_domains ev1 @ [d]\<rparr>, any_refuse',
             any_stale \<or> dr_stale rules)
       else
         let ev2 = (if \<not> dr_allow_degraded rules then ev1\<lparr>pe_allow_degraded := False\<rparr> else ev1);
             ev3 = (if dr_has_capacity_limit rules
                       \<and> (pe_max_capacity ev2 = 0 \<or> dr_max_capacity rules < pe_max_capacity ev2)
                    then ev2\<lparr>pe_max_capacity := dr_max_capacity rules\<rparr> else ev2)
         in (ev3\<lparr>pe_rule_ids := pe_rule_ids ev3 @ dr_allow_ids rules\<rparr>, any_refuse', any_stale))"

definition initial_evaluation :: policy_evaluation where
  "initial_evaluation =
    \<lparr>pe_decision = PolicyDecision_MissingAllowRule, pe_rule_ids = [], pe_missing_domains = [],
     pe_refusing_domains = [], pe_allow_degraded = True, pe_max_capacity = 0, pe_detail = []\<rparr>"

definition evaluate_policy ::
  "registry \<Rightarrow> cluster_record \<Rightarrow> cluster_record \<Rightarrow> endpoint_id \<Rightarrow> endpoint_id \<Rightarrow> policy_evaluation" where
  "evaluate_policy r source target ea eb =
    (let (ev, any_refuse, any_stale) =
           fold policy_collect (policy_domains r source target ea eb) (initial_evaluation, False, False);
         ev' =
           (if any_refuse
            then ev\<lparr>pe_decision := PolicyDecision_RefusedExplicitly,
                    pe_detail := ''an explicit refuse rule from at least one authority domain covers this pair''\<rparr>
            else if pe_missing_domains ev \<noteq> []
            then ev\<lparr>pe_decision := (if any_stale then PolicyDecision_StaleGeneration
                                    else PolicyDecision_MissingAllowRule),
                    pe_detail := (if any_stale
                                  then ''only rules bound to a superseded policy generation match this pair''
                                  else ''no allow rule covers this pair from every authority domain'')\<rparr>
            else ev\<lparr>pe_decision := PolicyDecision_Allowed,
                    pe_detail := ''both authority domains explicitly allow this pair''\<rparr>)
     in ev'\<lparr>pe_rule_ids := remdups_adj (sort (pe_rule_ids ev'))\<rparr>)"

section \<open>The contract\<close>

text \<open>The rules of one domain that speak about the pair.\<close>

definition domain_speaks ::
  "registry \<Rightarrow> cluster_record \<Rightarrow> cluster_record \<Rightarrow> endpoint_id \<Rightarrow> endpoint_id \<Rightarrow> domain_id \<Rightarrow> policy_rule list" where
  "domain_speaks r source target ea eb d =
    filter (\<lambda>rule. pr_owner rule = d \<and> policy_matches rule (cl_id source) (cl_id target) ea eb)
      (map snd (rg_policies r))"

definition domain_allows where
  "domain_allows r source target ea eb d \<longleftrightarrow>
    list_ex (\<lambda>rule. rule_current source target rule \<and> pr_allow rule) (domain_speaks r source target ea eb d)"

definition domain_refuses where
  "domain_refuses r source target ea eb d \<longleftrightarrow>
    list_ex (\<lambda>rule. rule_current source target rule \<and> \<not> pr_allow rule) (domain_speaks r source target ea eb d)"

definition domain_outdated where
  "domain_outdated r source target ea eb d \<longleftrightarrow>
    list_ex (\<lambda>rule. \<not> rule_current source target rule) (domain_speaks r source target ea eb d)"

definition policy_spec ::
  "registry \<Rightarrow> cluster_record \<Rightarrow> cluster_record \<Rightarrow> endpoint_id \<Rightarrow> endpoint_id \<Rightarrow> policy_decision" where
  "policy_spec r source target ea eb =
    (let both = [cl_domain source, cl_domain target] in
     if list_ex (domain_refuses r source target ea eb) both then PolicyDecision_RefusedExplicitly
     else if list_all (domain_allows r source target ea eb) both then PolicyDecision_Allowed
     else if list_ex (\<lambda>d. \<not> domain_allows r source target ea eb d \<and> domain_outdated r source target ea eb d) both
     then PolicyDecision_StaleGeneration
     else PolicyDecision_MissingAllowRule)"

section \<open>The map of domains\<close>

text \<open>What absorbing a list of rules of one domain leaves.\<close>

lemma absorb_fields [simp]:
  "dr_has_allow (absorb rule cur t) \<longleftrightarrow> dr_has_allow t \<or> cur \<and> pr_allow rule"
  "dr_has_refuse (absorb rule cur t) \<longleftrightarrow> dr_has_refuse t \<or> cur \<and> \<not> pr_allow rule"
  "dr_stale (absorb rule cur t) \<longleftrightarrow> dr_stale t \<or> \<not> cur"
  "dr_allow_degraded (absorb rule cur t) \<longleftrightarrow>
    dr_allow_degraded t \<and> (cur \<and> pr_allow rule \<longrightarrow> pr_allow_degraded rule)"
  by (auto simp: absorb_def absorb_capacity_def Let_def)

lemma om_ok_policy_step: "om_ok m \<Longrightarrow> om_ok (policy_step source target ea eb rule m)"
  by (simp add: policy_step_def)

lemma fold_policy_step:
  fixes source target :: cluster_record and ea eb :: endpoint_id
  defines "step \<equiv> \<lambda>entry. policy_step source target ea eb (snd entry)"
  assumes "om_ok m" "om_find m d = Some t" "d = cl_domain source \<or> d = cl_domain target"
  shows "om_find (fold step rules m) d
    = Some (fold (\<lambda>rule. absorb rule (rule_current source target rule))
        (filter (\<lambda>rule. pr_owner rule = d \<and> policy_matches rule (cl_id source) (cl_id target) ea eb)
          (map snd rules)) t)"
  using assms(2-)
proof (induction rules arbitrary: m t)
  case (Cons e rules)
  let ?mine = "pr_owner (snd e) = d \<and> policy_matches (snd e) (cl_id source) (cl_id target) ea eb"
  have "om_find (step e m) d
      = Some (if ?mine then absorb (snd e) (rule_current source target (snd e)) t else t)"
    using Cons.prems by (auto simp: step_def policy_step_def om_find_put domain_at_def)
  then show ?case
    using Cons.IH [of "step e m"] Cons.prems by (auto simp: step_def om_ok_policy_step)
qed simp

lemma fold_policy_step_keys:
  assumes "fst ` set m = {cl_domain source, cl_domain target}"
  shows "fst ` set (fold (\<lambda>entry. policy_step source target ea eb (snd entry)) rules m)
    = {cl_domain source, cl_domain target}"
  using assms
proof (induction rules arbitrary: m)
  case (Cons e rules)
  have "fst ` set (policy_step source target ea eb (snd e) m) = {cl_domain source, cl_domain target}"
    using Cons.prems by (auto simp: policy_step_def keys_om_put)
  then show ?case using Cons.IH by simp
qed simp

lemma om_ok_fold_policy_step:
  "om_ok m \<Longrightarrow> om_ok (fold (\<lambda>entry. policy_step source target ea eb (snd entry)) rules m)"
  by (induction rules arbitrary: m) (simp_all add: om_ok_policy_step)

lemma policy_domains_keys:
  "fst ` set (policy_domains r source target ea eb) = {cl_domain source, cl_domain target}"
  unfolding policy_domains_def by (rule fold_policy_step_keys) (auto simp: keys_om_put)

lemma om_ok_policy_domains: "om_ok (policy_domains r source target ea eb)"
  unfolding policy_domains_def by (intro om_ok_fold_policy_step om_ok_put om_ok_Nil)

lemma policy_domains_find:
  assumes "d = cl_domain source \<or> d = cl_domain target"
  shows "om_find (policy_domains r source target ea eb) d
    = Some (fold (\<lambda>rule. absorb rule (rule_current source target rule))
        (domain_speaks r source target ea eb d) default_domain_rules)"
  unfolding policy_domains_def domain_speaks_def
proof (rule fold_policy_step)
  let ?first = "om_put (cl_domain source) default_domain_rules []"
  show "om_ok (om_put (cl_domain target) (domain_at ?first (cl_domain target)) ?first)"
    by (intro om_ok_put om_ok_Nil)
  show "om_find (om_put (cl_domain target) (domain_at ?first (cl_domain target)) ?first) d
      = Some default_domain_rules"
    using assms by (auto simp: om_find_put domain_at_def)
qed (use assms in auto)

lemma fold_absorb_fields:
  "dr_has_allow (fold (\<lambda>rule. absorb rule (cur rule)) rules t)
    \<longleftrightarrow> dr_has_allow t \<or> (\<exists>rule \<in> set rules. cur rule \<and> pr_allow rule)"
  "dr_has_refuse (fold (\<lambda>rule. absorb rule (cur rule)) rules t)
    \<longleftrightarrow> dr_has_refuse t \<or> (\<exists>rule \<in> set rules. cur rule \<and> \<not> pr_allow rule)"
  "dr_stale (fold (\<lambda>rule. absorb rule (cur rule)) rules t)
    \<longleftrightarrow> dr_stale t \<or> (\<exists>rule \<in> set rules. \<not> cur rule)"
  "dr_allow_degraded (fold (\<lambda>rule. absorb rule (cur rule)) rules t)
    \<longleftrightarrow> dr_allow_degraded t \<and> (\<forall>rule \<in> set rules. cur rule \<and> pr_allow rule \<longrightarrow> pr_allow_degraded rule)"
  by (induction rules arbitrary: t) auto

lemma policy_domains_entry:
  assumes "(d, t) \<in> set (policy_domains r source target ea eb)"
  shows "d = cl_domain source \<or> d = cl_domain target"
    and "dr_has_allow t \<longleftrightarrow> domain_allows r source target ea eb d"
    and "dr_has_refuse t \<longleftrightarrow> domain_refuses r source target ea eb d"
    and "dr_stale t \<longleftrightarrow> domain_outdated r source target ea eb d"
    and "dr_allow_degraded t \<longleftrightarrow>
      (\<forall>rule \<in> set (domain_speaks r source target ea eb d).
        rule_current source target rule \<and> pr_allow rule \<longrightarrow> pr_allow_degraded rule)"
proof -
  show d: "d = cl_domain source \<or> d = cl_domain target"
    using assms policy_domains_keys [of r source target ea eb] by force
  have t: "t = fold (\<lambda>rule. absorb rule (rule_current source target rule))
      (domain_speaks r source target ea eb d) default_domain_rules"
    using assms policy_domains_find [OF d, of r ea eb] in_om_find [OF om_ok_policy_domains] by simp
  show "dr_has_allow t \<longleftrightarrow> domain_allows r source target ea eb d"
    "dr_has_refuse t \<longleftrightarrow> domain_refuses r source target ea eb d"
    "dr_stale t \<longleftrightarrow> domain_outdated r source target ea eb d"
    "dr_allow_degraded t \<longleftrightarrow> (\<forall>rule \<in> set (domain_speaks r source target ea eb d).
        rule_current source target rule \<and> pr_allow rule \<longrightarrow> pr_allow_degraded rule)"
    unfolding t fold_absorb_fields
    by (simp_all add: default_domain_rules_def domain_allows_def domain_refuses_def domain_outdated_def
        list_ex_iff)
qed

section \<open>The summary\<close>

lemma policy_collect_fields:
  assumes "policy_collect (d, t) (ev, ref, st) = (ev', ref', st')"
  shows "ref' \<longleftrightarrow> ref \<or> dr_has_refuse t" "st' \<longleftrightarrow> st \<or> \<not> dr_has_allow t \<and> dr_stale t"
    "pe_missing_domains ev' = pe_missing_domains ev @ (if dr_has_allow t then [] else [d])"
    "pe_allow_degraded ev' \<longleftrightarrow> pe_allow_degraded ev \<and> (dr_has_allow t \<longrightarrow> dr_allow_degraded t)"
  using assms by (auto simp: policy_collect_def Let_def split: if_splits)

lemma fold_policy_collect:
  "fold policy_collect m (ev, ref, st) = (ev', ref', st') \<Longrightarrow>
    (ref' \<longleftrightarrow> ref \<or> (\<exists>e \<in> set m. dr_has_refuse (snd e)))
    \<and> (st' \<longleftrightarrow> st \<or> (\<exists>e \<in> set m. \<not> dr_has_allow (snd e) \<and> dr_stale (snd e)))
    \<and> pe_missing_domains ev' = pe_missing_domains ev @ map fst (filter (\<lambda>e. \<not> dr_has_allow (snd e)) m)
    \<and> (pe_allow_degraded ev' \<longleftrightarrow> pe_allow_degraded ev
      \<and> (\<forall>e \<in> set m. dr_has_allow (snd e) \<longrightarrow> dr_allow_degraded (snd e)))"
proof (induction m arbitrary: ev ref st)
  case (Cons e m)
  obtain d t where e: "e = (d, t)" by fastforce
  obtain ev1 ref1 st1 where step: "policy_collect e (ev, ref, st) = (ev1, ref1, st1)"
    by (metis prod_cases3)
  have "fold policy_collect m (ev1, ref1, st1) = (ev', ref', st')"
    using Cons.prems step by simp
  note IH = Cons.IH [OF this]
  show ?case using IH policy_collect_fields [OF step [unfolded e]] e by auto
qed simp

lemma ex_policy_domains:
  assumes "\<And>d t. (d, t) \<in> set (policy_domains r source target ea eb) \<Longrightarrow> P t \<longleftrightarrow> Q d"
  shows "(\<exists>e \<in> set (policy_domains r source target ea eb). P (snd e))
    \<longleftrightarrow> list_ex Q [cl_domain source, cl_domain target]"
proof -
  have "\<exists>t. (d, t) \<in> set (policy_domains r source target ea eb)"
    if "d = cl_domain source \<or> d = cl_domain target" for d
    using that policy_domains_find om_find_in by fastforce
  moreover have "fst e = cl_domain source \<or> fst e = cl_domain target"
    if "e \<in> set (policy_domains r source target ea eb)" for e
    using that policy_domains_entry(1) [of "fst e" "snd e"] by simp
  ultimately show ?thesis using assms by (auto simp: list_ex_iff) (metis snd_conv)+
qed

text \<open>The evaluation implements its contract.\<close>

lemma evaluate_policy_decision:
  "pe_decision (evaluate_policy r source target ea eb) = policy_spec r source target ea eb"
proof -
  let ?m = "policy_domains r source target ea eb"
  obtain ev ref st where f: "fold policy_collect ?m (initial_evaluation, False, False) = (ev, ref, st)"
    by (metis prod_cases3)
  note c = fold_policy_collect [OF f, THEN conjunct1]
    fold_policy_collect [OF f, THEN conjunct2, THEN conjunct1]
    fold_policy_collect [OF f, THEN conjunct2, THEN conjunct2, THEN conjunct1]
  have "ref \<longleftrightarrow> list_ex (domain_refuses r source target ea eb) [cl_domain source, cl_domain target]"
    using c(1) ex_policy_domains [of r source target ea eb dr_has_refuse, OF policy_domains_entry(3)] by simp
  moreover have "st \<longleftrightarrow> list_ex (\<lambda>d. \<not> domain_allows r source target ea eb d
      \<and> domain_outdated r source target ea eb d) [cl_domain source, cl_domain target]"
    using c(2) ex_policy_domains [of r source target ea eb "\<lambda>t. \<not> dr_has_allow t \<and> dr_stale t"]
      policy_domains_entry(2,4) by simp
  moreover have "pe_missing_domains ev \<noteq> [] \<longleftrightarrow>
      \<not> list_all (domain_allows r source target ea eb) [cl_domain source, cl_domain target]"
    using c(3) ex_policy_domains [of r source target ea eb "\<lambda>t. \<not> dr_has_allow t"]
      policy_domains_entry(2)
    by (simp add: initial_evaluation_def filter_empty_conv)
  ultimately show ?thesis
    by (auto simp: evaluate_policy_def f policy_spec_def Let_def)
qed

lemma evaluate_policy_degraded:
  "pe_allow_degraded (evaluate_policy r source target ea eb) \<longleftrightarrow>
    (\<forall>d \<in> {cl_domain source, cl_domain target}. \<forall>rule \<in> set (domain_speaks r source target ea eb d).
      rule_current source target rule \<and> pr_allow rule \<longrightarrow> pr_allow_degraded rule)"
proof -
  let ?m = "policy_domains r source target ea eb"
  obtain ev ref st where f: "fold policy_collect ?m (initial_evaluation, False, False) = (ev, ref, st)"
    by (metis prod_cases3)
  have "pe_allow_degraded ev \<longleftrightarrow>
      \<not> (\<exists>e \<in> set ?m. dr_has_allow (snd e) \<and> \<not> dr_allow_degraded (snd e))"
    using fold_policy_collect [OF f] by (auto simp: initial_evaluation_def)
  moreover have "(\<exists>e \<in> set ?m. dr_has_allow (snd e) \<and> \<not> dr_allow_degraded (snd e)) \<longleftrightarrow>
    list_ex (\<lambda>d. domain_allows r source target ea eb d
      \<and> \<not> (\<forall>rule \<in> set (domain_speaks r source target ea eb d).
        rule_current source target rule \<and> pr_allow rule \<longrightarrow> pr_allow_degraded rule))
      [cl_domain source, cl_domain target]"
    using policy_domains_entry(2,5) by (intro ex_policy_domains) simp
  moreover have "domain_allows r source target ea eb d
      \<and> \<not> (\<forall>rule \<in> set (domain_speaks r source target ea eb d).
        rule_current source target rule \<and> pr_allow rule \<longrightarrow> pr_allow_degraded rule)
    \<longleftrightarrow> \<not> (\<forall>rule \<in> set (domain_speaks r source target ea eb d).
        rule_current source target rule \<and> pr_allow rule \<longrightarrow> pr_allow_degraded rule)" for d
    by (auto simp: domain_allows_def list_ex_iff)
  ultimately show ?thesis
    by (simp add: evaluate_policy_def f Let_def) blast
qed

end
