(* ===== verification/Engine.thy ===== *)
theory Engine
  imports Decision Policy "HOL-Library.Product_Lexorder"
begin

text \<open>
  \<open>runtime/engine.cpp\<close>: the authorization decision for a directed endpoint pair, and the plans for
  what has to be withdrawn. A check that returns a status and adds reasons to the decision is a
  function to the pair of both; \<open>decide\<close> is the sequence of its stages, each of which either
  returns the finished decision (\<open>Inl\<close>) or lets the next stage continue (\<open>Inr\<close>).
\<close>

record engine_view =
  vw_term :: u64
  vw_incarnation :: incarnation_id
  vw_now :: timestamp

section \<open>Checks\<close>

definition add_reason :: "reason_code \<Rightarrow> decision \<Rightarrow> decision" where
  "add_reason code d =
    (if length (dc_reasons d) \<ge> kMaxDecisionReasons then d
     else if code \<notin> set (dc_reasons d) then d\<lparr>dc_reasons := dc_reasons d @ [code]\<rparr>
     else d)"

definition finish :: "outcome \<Rightarrow> string \<Rightarrow> decision \<Rightarrow> decision" where
  "finish out detail d = d\<lparr>dc_outcome := out, dc_detail := detail\<rparr>"

text \<open>A failing check: the status with the decision that carries the reason.\<close>

definition fail_with :: "reason_code \<Rightarrow> outcome \<Rightarrow> string \<Rightarrow> decision \<Rightarrow> status \<times> decision" where
  "fail_with code out msg d = (status_make out msg, add_reason code d)"

fun resolve_in :: "(cluster_id \<times> cluster_record) list \<Rightarrow> endpoint_id \<Rightarrow> (endpoint_record \<times> cluster_record) option" where
  "resolve_in [] key = None"
| "resolve_in ((k, cluster) # rest) key =
    (case cluster_endpoint (cl_endpoints cluster) key of
       Some e \<Rightarrow> Some (e, cluster)
     | None \<Rightarrow> resolve_in rest key)"

definition resolve :: "registry \<Rightarrow> endpoint_id \<Rightarrow> (endpoint_record \<times> cluster_record) option" where
  "resolve r key = resolve_in (rg_clusters r) key"

definition check_cluster :: "cluster_record \<Rightarrow> decision \<Rightarrow> status \<times> decision" where
  "check_cluster cluster d =
    (case cl_state cluster of
       ClusterState_Unknown \<Rightarrow>
         fail_with ReasonCode_ClusterUnknown Outcome_Unknown ''cluster state has not been established''
           (add_reason ReasonCode_ResourceUnknown d)
     | ClusterState_Suspended \<Rightarrow>
         fail_with ReasonCode_ClusterSuspended Outcome_Refused ''cluster is administratively suspended'' d
     | ClusterState_Draining \<Rightarrow>
         fail_with ReasonCode_ClusterDraining Outcome_Refused
           ''cluster is draining and accepts no new connectivity'' d
     | ClusterState_Retired \<Rightarrow>
         fail_with ReasonCode_ClusterRetired Outcome_Fenced ''cluster identity is retired'' d
     | ClusterState_Active \<Rightarrow>
         if cl_generation_conflict cluster
         then fail_with ReasonCode_ClusterGenerationConflict Outcome_Conflicting
           ''two updates claimed the same generation with different contents; the conflict is unresolved'' d
         else if cl_consent_withdrawn cluster
         then fail_with ReasonCode_ClusterConsentWithdrawn Outcome_Refused
           ''cluster has withdrawn consent for cross-cluster connectivity'' d
         else (status_ok, d))"

definition check_endpoint :: "endpoint_record \<Rightarrow> bool \<Rightarrow> decision \<Rightarrow> status \<times> decision" where
  "check_endpoint e is_source d =
    (let suspended = (if is_source then ReasonCode_SourceEndpointSuspended
                      else ReasonCode_TargetEndpointSuspended)
     in case ep_state e of
       EndpointState_Unknown \<Rightarrow>
         fail_with ReasonCode_ResourceUnknown Outcome_Unknown ''endpoint state has not been established'' d
     | EndpointState_Suspended \<Rightarrow>
         fail_with suspended Outcome_Refused ''endpoint scope is administratively suspended'' d
     | EndpointState_Draining \<Rightarrow> fail_with suspended Outcome_Refused ''endpoint scope is draining'' d
     | EndpointState_Retired \<Rightarrow>
         fail_with ReasonCode_ResourceUnknown Outcome_Fenced ''endpoint scope is retired'' d
     | EndpointState_Active \<Rightarrow>
         if \<not> ep_inter_cluster_allowed e
         then fail_with (if is_source then ReasonCode_SourceEndpointRefused
                         else ReasonCode_TargetEndpointRefused)
           Outcome_Refused ''endpoint scope does not accept inter-cluster connectivity'' d
         else (status_ok, d))"

definition joins :: "endpoint_id \<Rightarrow> endpoint_id \<Rightarrow> endpoint_id \<Rightarrow> endpoint_id \<Rightarrow> bool" where
  "joins a b source target \<longleftrightarrow> a = source \<and> b = target \<or> a = target \<and> b = source"

definition contract_joins :: "contract_record \<Rightarrow> endpoint_id \<Rightarrow> endpoint_id \<Rightarrow> bool" where
  "contract_joins c source target =
    joins (pt_endpoint (fst (co_parties c))) (pt_endpoint (snd (co_parties c))) source target"

definition find_contract_for :: "registry \<Rightarrow> endpoint_id \<Rightarrow> endpoint_id \<Rightarrow> contract_record option" where
  "find_contract_for r source target =
    find (\<lambda>c. contract_joins c source target) (map snd (rg_contracts r))"

text \<open>
  One round of the loop over the consents. The source dereferences the consent, which is present:
  the loop runs only after \<open>both_consented\<close>.
\<close>

definition check_consent ::
  "registry \<Rightarrow> contract_record \<Rightarrow> consent_record option \<Rightarrow> party_ref \<Rightarrow> decision \<Rightarrow> status \<times> decision" where
  "check_consent r contract slot party d =
    (case slot of
       None \<Rightarrow> (status_ok, d)
     | Some consent \<Rightarrow>
         if cs_decision consent \<noteq> ConsentDecision_Accepted
         then fail_with ReasonCode_ContractNotConsented Outcome_Refused ''a party refused the contract'' d
         else if cs_terms_digest consent \<noteq> co_terms_digest contract
         then fail_with ReasonCode_ConsentMismatch Outcome_Conflicting
           ''the recorded consents do not cover identical terms; one side consented to something else'' d
         else
           (case find_cluster r (pt_cluster party) of
              None \<Rightarrow> fail_with ReasonCode_ClusterUnknown Outcome_Unknown
                ''a contracting cluster is no longer registered'' d
            | Some cluster \<Rightarrow>
                if cs_cluster consent \<noteq> pt_cluster party \<or> cs_endpoint consent \<noteq> pt_endpoint party
                then fail_with ReasonCode_ConsentMismatch Outcome_Conflicting
                  ''a consent record names a different party than the contract'' d
                else if cs_incarnation consent \<noteq> cl_incarnation cluster
                then fail_with ReasonCode_IncarnationMismatch Outcome_Stale
                  ''a consent was issued by a superseded cluster incarnation'' d
                else if cs_generation consent \<noteq> cl_generation cluster
                then fail_with ReasonCode_GenerationStale Outcome_Stale
                  ''a consent was issued at a superseded cluster generation'' d
                else if cs_policy_generation consent \<noteq> cl_policy_generation cluster
                then fail_with ReasonCode_PolicyGenerationStale Outcome_Stale
                  ''a consent was issued under a superseded policy generation'' d
                else (status_ok, d)))"

text \<open>Run a second check only after the first one succeeded.\<close>

definition then_check :: "status \<times> decision \<Rightarrow> (decision \<Rightarrow> status \<times> decision) \<Rightarrow> status \<times> decision" where
  "then_check m f = (if is_ok (fst m) then f (snd m) else m)"

definition check_consents :: "registry \<Rightarrow> contract_record \<Rightarrow> decision \<Rightarrow> status \<times> decision" where
  "check_consents r contract d =
    (if co_state contract = ContractState_Refused
     then fail_with ReasonCode_ContractRefused Outcome_Refused ''one authority domain refused the contract'' d
     else if co_state contract = ContractState_Withdrawn
     then fail_with ReasonCode_ContractWithdrawn Outcome_Fenced ''a party withdrew consent for the contract'' d
     else if co_state contract = ContractState_Fenced
     then fail_with ReasonCode_ContractFenced Outcome_Fenced ''the contract was fenced by a superseding change'' d
     else if co_state contract = ContractState_Expired
     then fail_with ReasonCode_ContractExpired Outcome_Expired ''the contract validity window elapsed'' d
     else if \<not> both_consented contract
     then fail_with ReasonCode_ContractNotConsented Outcome_Incomplete
       ''both authority domains have not consented to identical terms'' d
     else then_check (check_consent r contract (fst (co_consents contract)) (fst (co_parties contract)) d)
            (check_consent r contract (snd (co_consents contract)) (snd (co_parties contract))))"

definition later_grant :: "contract_id \<Rightarrow> grant_record \<Rightarrow> grant_record option \<Rightarrow> grant_record option" where
  "later_grant key g selected =
    (if gr_contract g \<noteq> key then selected
     else case selected of
       None \<Rightarrow> Some g
     | Some s \<Rightarrow>
         if gr_issued_at s < gr_issued_at g \<or> gr_issued_at s = gr_issued_at g \<and> gr_id s < gr_id g
         then Some g else selected)"

definition select_grant :: "registry \<Rightarrow> contract_id \<Rightarrow> grant_record option" where
  "select_grant r key = fold (\<lambda>entry. later_grant key (snd entry)) (rg_grants r) None"

definition check_grant_state :: "grant_record \<Rightarrow> decision \<Rightarrow> status \<times> decision" where
  "check_grant_state g d =
    (case gr_state g of
       GrantState_Preparing \<Rightarrow> fail_with ReasonCode_GrantNotCommitted Outcome_Incomplete
         ''the grant has not been committed by both parties'' d
     | GrantState_Prepared \<Rightarrow> fail_with ReasonCode_GrantNotCommitted Outcome_Incomplete
         ''the grant has not been committed by both parties'' d
     | GrantState_Indeterminate \<Rightarrow> fail_with ReasonCode_GrantIndeterminate Outcome_Indeterminate
         ''the grant commit acknowledgement is unresolved; the grant is not usable'' d
     | GrantState_Aborted \<Rightarrow> fail_with ReasonCode_GrantFenced Outcome_Fenced
         ''the grant was fenced or aborted'' d
     | GrantState_Fenced \<Rightarrow> fail_with ReasonCode_GrantFenced Outcome_Fenced
         ''the grant was fenced or aborted'' d
     | GrantState_Withdrawn \<Rightarrow> fail_with ReasonCode_GrantFenced Outcome_Fenced
         ''the grant was fenced or aborted'' d
     | GrantState_Expired \<Rightarrow> fail_with ReasonCode_GrantExpired Outcome_Expired
         ''the grant validity window elapsed'' d
     | GrantState_Committed \<Rightarrow> (status_ok, d)
     | GrantState_Active \<Rightarrow> (status_ok, d))"

definition check_binding ::
  "registry \<Rightarrow> contract_record \<Rightarrow> grant_record \<Rightarrow> nat \<Rightarrow> decision \<Rightarrow> status \<times> decision" where
  "check_binding r contract g index d =
    (case find_cluster r (pt_cluster (party_at (co_parties contract) index)) of
       None \<Rightarrow> fail_with ReasonCode_ClusterUnknown Outcome_Unknown
         ''a bound cluster is no longer registered'' d
     | Some cluster \<Rightarrow>
         if party_at (gr_incarnations g) index \<noteq> cl_incarnation cluster
         then fail_with ReasonCode_IncarnationMismatch Outcome_Fenced
           ''the grant is bound to a superseded cluster incarnation'' d
         else if party_at (gr_generations g) index \<noteq> cl_generation cluster
         then fail_with ReasonCode_GenerationStale Outcome_Stale
           ''the grant is bound to a superseded cluster generation'' d
         else if party_at (gr_policies g) index \<noteq> cl_policy_generation cluster
         then fail_with ReasonCode_PolicyGenerationStale Outcome_Stale
           ''the grant is bound to a superseded policy generation'' d
         else (status_ok, d))"

definition check_grant ::
  "registry \<Rightarrow> contract_record \<Rightarrow> decision_query \<Rightarrow> engine_view \<Rightarrow> decision \<Rightarrow> status \<times> decision" where
  "check_grant r contract q v d =
    (case select_grant r (co_id contract) of
       None \<Rightarrow> fail_with ReasonCode_NoGrant Outcome_Incomplete
         ''no grant has been issued for this contract'' d
     | Some g \<Rightarrow>
         let d = d\<lparr>dc_grant := gr_id g, dc_capacity := gr_capacity g, dc_terms_digest := gr_terms_digest g\<rparr>
         in then_check (check_grant_state g d) (\<lambda>d.
           if \<not> both_acknowledged g
           then fail_with ReasonCode_GrantNotAcknowledged Outcome_Incomplete
             ''a party has not acknowledged the committed grant'' d
           else if gr_coordinator_term g \<noteq> vw_term v \<or> gr_coordinator g \<noteq> vw_incarnation v
           then fail_with ReasonCode_GrantTermMismatch Outcome_Fenced
             ''the grant was issued under a superseded coordinator term'' d
           else if gr_terms_digest g \<noteq> co_terms_digest contract
           then fail_with ReasonCode_ConsentMismatch Outcome_Conflicting
             ''the grant does not cover the contract terms it names'' d
           else
             then_check (check_binding r contract g 0 d) (\<lambda>d.
             then_check (check_binding r contract g 1 d) (\<lambda>d.
               if vw_now v > gr_valid_until g
               then fail_with ReasonCode_GrantExpired Outcome_Expired
                 ''the grant validity window elapsed'' d
               else if qy_requested_capacity q > gr_capacity g
               then fail_with ReasonCode_GrantCapacityExceeded Outcome_CapacityExceeded
                 ''the requested capacity exceeds the granted capacity'' d
               else (status_ok, d)))))"

section \<open>Paths\<close>

record path_scan =
  ps_up :: bool
  ps_degraded :: bool
  ps_unknown :: bool
  ps_unsupported :: bool
  ps_paths :: "path_id list"
  ps_edges :: "edge_id list"

definition add_edge :: "edge_id \<Rightarrow> edge_id list \<Rightarrow> edge_id list" where
  "add_edge hop edges = (if hop \<notin> set edges then edges @ [hop] else edges)"

definition scan_path :: "endpoint_id \<Rightarrow> endpoint_id \<Rightarrow> path_record \<Rightarrow> path_scan \<Rightarrow> path_scan" where
  "scan_path source target path s =
    (if \<not> joins (pa_a path) (pa_b path) source target then s
     else if pa_contains_unsupported_edge path then s\<lparr>ps_unsupported := True\<rparr>
     else case pa_state path of
       PathState_Up \<Rightarrow>
         (let s = s\<lparr>ps_up := True\<rparr> in
          if length (ps_paths s) < kMaxDecisionPaths
          then s\<lparr>ps_paths := ps_paths s @ [pa_id path],
                 ps_edges := fold add_edge (pa_hops path) (ps_edges s)\<rparr>
          else s)
     | PathState_Degraded \<Rightarrow> s\<lparr>ps_degraded := True\<rparr>
     | PathState_Unknown \<Rightarrow> s\<lparr>ps_unknown := True\<rparr>
     | PathState_Down \<Rightarrow> s)"

record path_evaluation =
  px_status :: status
  px_degraded :: bool
  px_paths :: "path_id list"
  px_edges :: "edge_id list"

definition scan_paths :: "registry \<Rightarrow> endpoint_id \<Rightarrow> endpoint_id \<Rightarrow> path_scan" where
  "scan_paths r source target =
    fold (\<lambda>entry. scan_path source target (snd entry)) (rg_paths r)
      \<lparr>ps_up = False, ps_degraded = False, ps_unknown = False, ps_unsupported = False,
       ps_paths = [], ps_edges = []\<rparr>"

definition evaluate_paths :: "registry \<Rightarrow> endpoint_id \<Rightarrow> endpoint_id \<Rightarrow> path_evaluation" where
  "evaluate_paths r source target =
    (let s = scan_paths r source target;
         ev = \<lparr>px_status = status_ok, px_degraded = False, px_paths = ps_paths s, px_edges = ps_edges s\<rparr>
     in if ps_up s then ev
        else if ps_degraded s then ev\<lparr>px_degraded := True\<rparr>
        else if ps_unknown s
        then ev\<lparr>px_status := status_make Outcome_Unknown ''path state has not been established''\<rparr>
        else if ps_unsupported s
        then ev\<lparr>px_status := status_make Outcome_Unsupported
          ''every registered path uses a link kind this runtime does not drive''\<rparr>
        else ev\<lparr>px_status := status_make Outcome_Partitioned ''every registered path is down''\<rparr>)"

section \<open>The decision\<close>

type_synonym stage = "decision + decision"

definition go_on :: "stage \<Rightarrow> (decision \<Rightarrow> stage) \<Rightarrow> stage" where
  "go_on m f = (case m of Inl d \<Rightarrow> Inl d | Inr d \<Rightarrow> f d)"

text \<open>\<open>if (!status) { finish(decision, status.outcome(), status.message()); return decision; }\<close>\<close>

definition or_return :: "status \<times> decision \<Rightarrow> stage" where
  "or_return m =
    (if is_ok (fst m) then Inr (snd m)
     else Inl (finish (st_outcome (fst m)) (st_message (fst m)) (snd m)))"

definition decide_expectations :: "decision_query \<Rightarrow> cluster_record \<Rightarrow> cluster_record \<Rightarrow> decision \<Rightarrow> stage" where
  "decide_expectations q sc tc d =
    (if qy_expect_source_generation q \<and> qy_source_generation q \<noteq> cl_generation sc
     then Inl (finish Outcome_Stale ''the source cluster generation does not match the caller's expectation''
       (add_reason ReasonCode_GenerationStale d))
     else if qy_expect_target_generation q \<and> qy_target_generation q \<noteq> cl_generation tc
     then Inl (finish Outcome_Stale ''the target cluster generation does not match the caller's expectation''
       (add_reason ReasonCode_GenerationStale d))
     else Inr d)"

definition decide_admission ::
  "decision_query \<Rightarrow> endpoint_record \<Rightarrow> cluster_record \<Rightarrow> endpoint_record \<Rightarrow> cluster_record \<Rightarrow> decision \<Rightarrow> stage" where
  "decide_admission q se sc te tc d =
    go_on (or_return (check_cluster sc d)) (\<lambda>d.
    go_on (or_return (check_cluster tc d)) (\<lambda>d.
    go_on (or_return (check_endpoint se True d)) (\<lambda>d.
    go_on (or_return (check_endpoint te False d)) (\<lambda>d.
    decide_expectations q sc tc d))))"

definition decide_policy :: "policy_evaluation \<Rightarrow> decision \<Rightarrow> stage" where
  "decide_policy policy d =
    (case pe_decision policy of
       PolicyDecision_RefusedExplicitly \<Rightarrow>
         Inl (finish Outcome_Refused (''an authority domain explicitly refuses this pair: '' @ pe_detail policy)
           (add_reason ReasonCode_PolicyRefused d))
     | PolicyDecision_MissingAllowRule \<Rightarrow>
         Inl (finish Outcome_Unauthorized
           (''no allow rule covers this pair from every authority domain: '' @ pe_detail policy)
           (add_reason ReasonCode_PolicyMissingAllow d))
     | PolicyDecision_StaleGeneration \<Rightarrow>
         Inl (finish Outcome_Stale ''matching policy rules belong to a superseded policy generation''
           (add_reason ReasonCode_PolicyStaleGeneration d))
     | PolicyDecision_Unsupported \<Rightarrow>
         Inl (finish Outcome_Unsupported (pe_detail policy) (add_reason ReasonCode_ResourceUnsupported d))
     | PolicyDecision_Allowed \<Rightarrow> Inr (add_reason ReasonCode_PolicyAllowed d))"

definition decide_paths :: "path_evaluation \<Rightarrow> decision \<Rightarrow> stage" where
  "decide_paths paths d =
    (let s = px_status paths in
     if \<not> is_ok s
     then Inl (finish (st_outcome s) (st_message s)
       (add_reason
         (case st_outcome s of
            Outcome_Partitioned \<Rightarrow> ReasonCode_PathAbsent
          | Outcome_Unknown \<Rightarrow> ReasonCode_LinkUnknown
          | Outcome_Unsupported \<Rightarrow> ReasonCode_PathUnsupported
          | _ \<Rightarrow> ReasonCode_PathDown) d))
     else Inr d)"

text \<open>The contracts that cover the pair, most recently updated first, then by identity.\<close>

definition candidates :: "registry \<Rightarrow> decision_query \<Rightarrow> contract_record list" where
  "candidates r q =
    sort_key (\<lambda>c. (- co_updated_at c, co_id c))
      (filter (\<lambda>c. contract_joins c (qy_source q) (qy_target q)) (map snd (rg_contracts r)))"

text \<open>The loop over the candidates: the accepted trial, if one is accepted, and \<open>best_failure\<close>.\<close>

definition keep_failure :: "decision option \<Rightarrow> status \<times> decision \<Rightarrow> decision option" where
  "keep_failure best m =
    (case best of
       None \<Rightarrow> Some (finish (st_outcome (fst m)) (st_message (fst m)) (snd m))
     | Some b \<Rightarrow> Some b)"

definition trial_consents :: "registry \<Rightarrow> decision \<Rightarrow> contract_record \<Rightarrow> status \<times> decision" where
  "trial_consents r d c =
    check_consents r c (d\<lparr>dc_contract := co_id c, dc_terms_digest := co_terms_digest c\<rparr>)"

fun try_candidates ::
  "registry \<Rightarrow> decision_query \<Rightarrow> engine_view \<Rightarrow> decision \<Rightarrow> contract_record list \<Rightarrow> decision option \<Rightarrow>
    decision option \<times> decision option" where
  "try_candidates r q v d [] best = (None, best)"
| "try_candidates r q v d (c # cs) best =
    (let m = trial_consents r d c in
     if \<not> is_ok (fst m) then try_candidates r q v d cs (keep_failure best m)
     else
       let m' = check_grant r c q v (add_reason ReasonCode_AuthoritySatisfied (snd m)) in
       if \<not> is_ok (fst m') then try_candidates r q v d cs (keep_failure best m')
       else (Some (snd m'), best))"

definition decide_contract :: "registry \<Rightarrow> decision_query \<Rightarrow> engine_view \<Rightarrow> decision \<Rightarrow> stage" where
  "decide_contract r q v d =
    (if candidates r q = []
     then Inl (finish Outcome_Unauthorized ''no connectivity contract covers this endpoint pair''
       (add_reason ReasonCode_NoContract d))
     else case try_candidates r q v d (candidates r q) None of
       (Some trial, _) \<Rightarrow> Inr trial
     | (None, Some failure) \<Rightarrow> Inl failure
     | (None, None) \<Rightarrow>
         Inl (finish Outcome_Indeterminate ''no contract could be evaluated for this endpoint pair''
           (add_reason ReasonCode_EvidenceIncomplete d)))"

definition degraded_permitted :: "decision_query \<Rightarrow> policy_evaluation \<Rightarrow> endpoint_record \<Rightarrow> endpoint_record \<Rightarrow> bool" where
  "degraded_permitted q policy se te \<longleftrightarrow>
    qy_allow_degraded q \<and> pe_allow_degraded policy \<and> ep_permits_degraded se \<and> ep_permits_degraded te"

definition decide_degraded ::
  "decision_query \<Rightarrow> policy_evaluation \<Rightarrow> path_evaluation \<Rightarrow> endpoint_record \<Rightarrow> endpoint_record \<Rightarrow> decision \<Rightarrow> decision" where
  "decide_degraded q policy paths se te d =
    (let d = d\<lparr>dc_paths := px_paths paths, dc_edges := px_edges paths, dc_degraded := px_degraded paths\<rparr> in
     if px_degraded paths then
       (if \<not> degraded_permitted q policy se te
        then finish Outcome_Unauthorized
          ''only a degraded path exists and degraded connectivity is not permitted for this pair''
          (add_reason ReasonCode_PathNotPermittedDegraded d)
        else finish Outcome_DegradedAuthorized
          ''authorized, but only over a degraded path; the authorization is not a healthy-path grant''
          (add_reason ReasonCode_PathDegraded d))
     else finish Outcome_Ok ''connectivity is authorized by both authority domains'' d)"

definition decide_resolved ::
  "registry \<Rightarrow> decision_query \<Rightarrow> engine_view \<Rightarrow> endpoint_record \<Rightarrow> cluster_record \<Rightarrow>
    endpoint_record \<Rightarrow> cluster_record \<Rightarrow> decision \<Rightarrow> decision" where
  "decide_resolved r q v se sc te tc d =
    (let policy = evaluate_policy r sc tc (qy_source q) (qy_target q);
         paths = evaluate_paths r (qy_source q) (qy_target q);
         d = d\<lparr>dc_authorities := (cl_domain sc, cl_domain tc)\<rparr>
     in case
         go_on (decide_admission q se sc te tc d) (\<lambda>d.
         go_on (decide_policy policy d) (\<lambda>d.
         go_on (decide_paths paths d) (\<lambda>d.
         decide_contract r q v d)))
       of Inl d \<Rightarrow> d | Inr d \<Rightarrow> decide_degraded q policy paths se te d)"

definition decide :: "registry \<Rightarrow> decision_query \<Rightarrow> engine_view \<Rightarrow> decision" where
  "decide r q v =
    (let d = default_decision\<lparr>dc_decided_at := vw_now v, dc_term := vw_term v,
               dc_coordinator := vw_incarnation v, dc_view_digest := registry_digest r\<rparr>
     in case resolve r (qy_source q) of
       None \<Rightarrow> finish Outcome_NotFound ''source endpoint is not registered''
         (add_reason ReasonCode_SourceEndpointNotRegistered d)
     | Some (se, sc) \<Rightarrow>
         (case resolve r (qy_target q) of
            None \<Rightarrow> finish Outcome_NotFound ''target endpoint is not registered''
              (add_reason ReasonCode_TargetEndpointNotRegistered d)
          | Some (te, tc) \<Rightarrow>
              if qy_source q = qy_target q
              then finish Outcome_Invalid ''source and target endpoint are the same scope''
                (add_reason ReasonCode_EndpointsAreIdentical d)
              else decide_resolved r q v se sc te tc d))"

section \<open>Fence plans\<close>

fun fence_reason :: "fence_trigger \<Rightarrow> reason_code" where
  "fence_reason FenceTrigger_ClusterReincarnation = ReasonCode_IncarnationMismatch"
| "fence_reason FenceTrigger_ClusterWithdrawal = ReasonCode_ClusterConsentWithdrawn"
| "fence_reason FenceTrigger_PolicyGenerationChange = ReasonCode_PolicyGenerationStale"
| "fence_reason FenceTrigger_CoordinatorReincarnation = ReasonCode_GrantTermMismatch"
| "fence_reason FenceTrigger_GrantRevocation = ReasonCode_GrantFenced"
| "fence_reason FenceTrigger_LinkFailure = ReasonCode_PathDown"
| "fence_reason FenceTrigger_GrantExpiry = ReasonCode_GrantExpired"
| "fence_reason FenceTrigger_Manual = ReasonCode_GrantFenced"

definition fenceable :: "grant_record \<Rightarrow> bool" where
  "fenceable g \<longleftrightarrow>
    usable_state g \<or> gr_state g = GrantState_Prepared \<or> gr_state g = GrantState_Preparing
    \<or> gr_state g = GrantState_Indeterminate"

definition grant_action :: "reason_code \<Rightarrow> grant_id \<Rightarrow> contract_id \<Rightarrow> fence_action" where
  "grant_action reason g c =
    \<lparr>fa_target = FenceTarget_Grant, fa_grant = g, fa_contract = c, fa_reservation = nil_uuid,
     fa_reason = reason\<rparr>"

definition reservation_action :: "reason_code \<Rightarrow> grant_id \<Rightarrow> contract_id \<Rightarrow> reservation_id \<Rightarrow> fence_action" where
  "reservation_action reason g c rs =
    \<lparr>fa_target = FenceTarget_Reservation, fa_grant = g, fa_contract = c, fa_reservation = rs,
     fa_reason = reason\<rparr>"

definition contract_action :: "reason_code \<Rightarrow> contract_id \<Rightarrow> fence_action" where
  "contract_action reason c =
    \<lparr>fa_target = FenceTarget_Contract, fa_grant = nil_uuid, fa_contract = c, fa_reservation = nil_uuid,
     fa_reason = reason\<rparr>"

text \<open>The loop over the reservations of one grant.\<close>

definition open_reservations :: "registry \<Rightarrow> grant_id \<Rightarrow> reservation_record list" where
  "open_reservations r g =
    filter (\<lambda>rs. \<not> (rs_grant rs \<noteq> g \<or> rs_released rs)) (map snd (rg_reservations r))"

text \<open>The loop over the grants of one contract.\<close>

definition contract_grants :: "registry \<Rightarrow> contract_id \<Rightarrow> grant_record list" where
  "contract_grants r c = filter (\<lambda>g. gr_contract g = c) (map snd (rg_grants r))"

definition fence_contract :: "registry \<Rightarrow> reason_code \<Rightarrow> contract_record \<Rightarrow> fence_action list" where
  "fence_contract r reason c =
    concat (map (\<lambda>g. (if fenceable g then [grant_action reason (gr_id g) (co_id c)] else [])
        @ map (\<lambda>rs. reservation_action reason (gr_id g) (co_id c) (rs_id rs)) (open_reservations r (gr_id g)))
      (contract_grants r (co_id c)))
    @ (if list_ex fenceable (contract_grants r (co_id c)) \<and> co_state c \<noteq> ContractState_Withdrawn
       then [contract_action reason (co_id c)] else [])"

text \<open>The loop over the contracts, which stops once the plan is over its bound.\<close>

fun fence_contracts ::
  "registry \<Rightarrow> reason_code \<Rightarrow> cluster_id \<Rightarrow> contract_record list \<Rightarrow> fence_action list \<Rightarrow> fence_action list" where
  "fence_contracts r reason cluster [] actions = actions"
| "fence_contracts r reason cluster (c # cs) actions =
    (if contract_side_of c cluster = None then fence_contracts r reason cluster cs actions
     else
       let actions' = actions @ fence_contract r reason c in
       if length actions' > kMaxFencePlanEntries then actions'
       else fence_contracts r reason cluster cs actions')"

definition plan_fence ::
  "registry \<Rightarrow> fence_trigger \<Rightarrow> cluster_id \<Rightarrow> incarnation_id \<Rightarrow> incarnation_id \<Rightarrow> u64 \<Rightarrow> u64 \<Rightarrow> fence_plan" where
  "plan_fence r trigger cluster new_incarnation previous_incarnation new_generation term =
    \<lparr>fp_trigger = trigger, fp_cluster = cluster, fp_incarnation = new_incarnation,
     fp_previous_incarnation = previous_incarnation, fp_generation = new_generation, fp_term = term,
     fp_view_digest = registry_digest r,
     fp_actions = fence_contracts r (fence_reason trigger) cluster (map snd (rg_contracts r)) [],
     fp_detail = ''fence plan for '' @ fence_trigger_to_string trigger @ '' affecting cluster '' @ cluster\<rparr>"

definition grant_closed :: "grant_record \<Rightarrow> bool" where
  "grant_closed g \<longleftrightarrow>
    gr_state g = GrantState_Fenced \<or> gr_state g = GrantState_Aborted \<or> gr_state g = GrantState_Expired
    \<or> gr_state g = GrantState_Withdrawn"

definition plan_coordinator_fence :: "registry \<Rightarrow> incarnation_id \<Rightarrow> u64 \<Rightarrow> fence_plan" where
  "plan_coordinator_fence r previous_incarnation term =
    \<lparr>fp_trigger = FenceTrigger_CoordinatorReincarnation, fp_cluster = [], fp_incarnation = nil_uuid,
     fp_previous_incarnation = previous_incarnation, fp_generation = 0, fp_term = term,
     fp_view_digest = registry_digest r,
     fp_actions =
       concat (map (\<lambda>g. grant_action ReasonCode_GrantTermMismatch (gr_id g) (gr_contract g)
           # map (\<lambda>rs. reservation_action ReasonCode_GrantTermMismatch (gr_id g) (gr_contract g) (rs_id rs))
               (open_reservations r (gr_id g)))
         (filter (\<lambda>g. \<not> grant_closed g
             \<and> \<not> (\<not> is_nil previous_incarnation \<and> gr_coordinator g \<noteq> previous_incarnation))
           (map snd (rg_grants r)))),
     fp_detail = ''every grant issued by the previous coordinator incarnation is fenced''\<rparr>"

end
