(* ===== verification/Engine_Laws.thy ===== *)
theory Engine_Laws
  imports Engine
begin

text \<open>
  What makes a decision authorize connectivity. \<open>authorization_spec\<close> is the contract of \<open>decide\<close>: the
  conjunction of the conditions on the registry, the query and the coordinator's view. The
  theory shows that \<open>decide\<close> authorizes exactly when the contract holds, and what an authorizing
  decision names.
\<close>

section \<open>The contract\<close>

definition cluster_usable :: "cluster_record \<Rightarrow> bool" where
  "cluster_usable c \<longleftrightarrow>
    cl_state c = ClusterState_Active \<and> \<not> cl_generation_conflict c \<and> \<not> cl_consent_withdrawn c"

definition endpoint_usable :: "endpoint_record \<Rightarrow> bool" where
  "endpoint_usable e \<longleftrightarrow> ep_state e = EndpointState_Active \<and> ep_inter_cluster_allowed e"

definition expectations_met :: "decision_query \<Rightarrow> cluster_record \<Rightarrow> cluster_record \<Rightarrow> bool" where
  "expectations_met q sc tc \<longleftrightarrow>
    (qy_expect_source_generation q \<longrightarrow> qy_source_generation q = cl_generation sc)
    \<and> (qy_expect_target_generation q \<longrightarrow> qy_target_generation q = cl_generation tc)"

text \<open>A consent accepts the contract's terms for its party, as the party's cluster is now.\<close>

definition consent_current :: "registry \<Rightarrow> contract_record \<Rightarrow> party_ref \<Rightarrow> consent_record \<Rightarrow> bool" where
  "consent_current r c party consent \<longleftrightarrow>
    cs_decision consent = ConsentDecision_Accepted \<and> cs_terms_digest consent = co_terms_digest c
    \<and> cs_cluster consent = pt_cluster party \<and> cs_endpoint consent = pt_endpoint party
    \<and> (case find_cluster r (pt_cluster party) of
         None \<Rightarrow> False
       | Some cluster \<Rightarrow> cs_incarnation consent = cl_incarnation cluster
           \<and> cs_generation consent = cl_generation cluster
           \<and> cs_policy_generation consent = cl_policy_generation cluster)"

definition party_consents :: "registry \<Rightarrow> contract_record \<Rightarrow> party_ref \<Rightarrow> consent_record option \<Rightarrow> bool" where
  "party_consents r c party slot \<longleftrightarrow>
    (case slot of None \<Rightarrow> False | Some consent \<Rightarrow> consent_current r c party consent)"

definition contract_live :: "contract_record \<Rightarrow> bool" where
  "contract_live c \<longleftrightarrow>
    co_state c \<notin> {ContractState_Refused, ContractState_Withdrawn, ContractState_Fenced, ContractState_Expired}"

definition contract_consented :: "registry \<Rightarrow> contract_record \<Rightarrow> bool" where
  "contract_consented r c \<longleftrightarrow>
    contract_live c
    \<and> party_consents r c (fst (co_parties c)) (fst (co_consents c))
    \<and> party_consents r c (snd (co_parties c)) (snd (co_consents c))"

definition grant_bound :: "registry \<Rightarrow> contract_record \<Rightarrow> grant_record \<Rightarrow> nat \<Rightarrow> bool" where
  "grant_bound r c g i \<longleftrightarrow>
    (case find_cluster r (pt_cluster (party_at (co_parties c) i)) of
       None \<Rightarrow> False
     | Some cluster \<Rightarrow> party_at (gr_incarnations g) i = cl_incarnation cluster
         \<and> party_at (gr_generations g) i = cl_generation cluster
         \<and> party_at (gr_policies g) i = cl_policy_generation cluster)"

definition grant_current ::
  "registry \<Rightarrow> decision_query \<Rightarrow> engine_view \<Rightarrow> contract_record \<Rightarrow> grant_record \<Rightarrow> bool" where
  "grant_current r q v c g \<longleftrightarrow>
    usable_state g \<and> both_acknowledged g
    \<and> gr_coordinator_term g = vw_term v \<and> gr_coordinator g = vw_incarnation v
    \<and> gr_terms_digest g = co_terms_digest c
    \<and> grant_bound r c g 0 \<and> grant_bound r c g 1
    \<and> vw_now v \<le> gr_valid_until g \<and> qy_requested_capacity q \<le> gr_capacity g"

definition contract_authorizes :: "registry \<Rightarrow> decision_query \<Rightarrow> engine_view \<Rightarrow> contract_record \<Rightarrow> bool" where
  "contract_authorizes r q v c \<longleftrightarrow>
    contract_joins c (qy_source q) (qy_target q) \<and> contract_consented r c
    \<and> (case select_grant r (co_id c) of None \<Rightarrow> False | Some g \<Rightarrow> grant_current r q v c g)"

definition path_usable :: "path_state \<Rightarrow> endpoint_id \<Rightarrow> endpoint_id \<Rightarrow> path_record \<Rightarrow> bool" where
  "path_usable st source target p \<longleftrightarrow>
    joins (pa_a p) (pa_b p) source target \<and> \<not> pa_contains_unsupported_edge p \<and> pa_state p = st"

definition has_path :: "path_state \<Rightarrow> registry \<Rightarrow> decision_query \<Rightarrow> bool" where
  "has_path st r q \<longleftrightarrow> list_ex (path_usable st (qy_source q) (qy_target q)) (map snd (rg_paths r))"

definition resolved_spec ::
  "registry \<Rightarrow> decision_query \<Rightarrow> engine_view \<Rightarrow> endpoint_record \<Rightarrow> cluster_record \<Rightarrow>
    endpoint_record \<Rightarrow> cluster_record \<Rightarrow> bool" where
  "resolved_spec r q v se sc te tc \<longleftrightarrow>
    cluster_usable sc \<and> cluster_usable tc \<and> endpoint_usable se \<and> endpoint_usable te
    \<and> expectations_met q sc tc
    \<and> policy_spec r sc tc (qy_source q) (qy_target q) = PolicyDecision_Allowed
    \<and> list_ex (contract_authorizes r q v) (map snd (rg_contracts r))
    \<and> (has_path PathState_Up r q
       \<or> has_path PathState_Degraded r q
         \<and> degraded_permitted q (evaluate_policy r sc tc (qy_source q) (qy_target q)) se te)"

definition authorization_spec :: "registry \<Rightarrow> decision_query \<Rightarrow> engine_view \<Rightarrow> bool" where
  "authorization_spec r q v \<longleftrightarrow>
    qy_source q \<noteq> qy_target q
    \<and> (case (resolve r (qy_source q), resolve r (qy_target q)) of
         (Some (se, sc), Some (te, tc)) \<Rightarrow> resolved_spec r q v se sc te tc
       | _ \<Rightarrow> False)"

section \<open>Checks\<close>

text \<open>A check either succeeds or its outcome is one that does not authorize.\<close>

definition denies :: "status \<times> decision \<Rightarrow> bool" where
  "denies m \<longleftrightarrow> is_ok (fst m) \<or> \<not> is_authorized (st_outcome (fst m))"

lemma fst_fail_with [simp]: "fst (fail_with code out msg d) = status_make out msg"
  by (simp add: fail_with_def)

lemma denies_simps [simp]:
  "denies (status_ok, d)"
  "denies (fail_with code out msg d) \<longleftrightarrow> out \<noteq> Outcome_DegradedAuthorized"
  by (auto simp: denies_def is_authorized_def)

lemma denies_then_check [simp]: "denies m \<Longrightarrow> (\<And>d. denies (f d)) \<Longrightarrow> denies (then_check m f)"
  by (simp add: then_check_def)

lemma is_ok_then_check: "is_ok (fst (then_check m f)) \<longleftrightarrow> is_ok (fst m) \<and> is_ok (fst (f (snd m)))"
  by (simp add: then_check_def)

lemma check_cluster_denies: "denies (check_cluster c d)"
  by (simp add: check_cluster_def split: cluster_state.splits)

lemma check_cluster_ok: "is_ok (fst (check_cluster c d)) \<longleftrightarrow> cluster_usable c"
  by (auto simp: check_cluster_def cluster_usable_def split: cluster_state.splits)

lemma check_endpoint_denies: "denies (check_endpoint e b d)"
  by (simp add: check_endpoint_def Let_def split: endpoint_state.splits)

lemma check_endpoint_ok: "is_ok (fst (check_endpoint e b d)) \<longleftrightarrow> endpoint_usable e"
  by (auto simp: check_endpoint_def endpoint_usable_def Let_def split: endpoint_state.splits)

lemma check_consent_denies: "denies (check_consent r c slot party d)"
  by (simp add: check_consent_def split: option.splits)

lemma check_consent_ok:
  "slot \<noteq> None \<Longrightarrow> is_ok (fst (check_consent r c slot party d)) \<longleftrightarrow> party_consents r c party slot"
  by (auto simp: check_consent_def party_consents_def consent_current_def split: option.splits)

lemma check_consents_denies: "denies (check_consents r c d)"
  by (simp add: check_consents_def check_consent_denies)

lemma party_consents_accepted: "party_consents r c party slot \<Longrightarrow> slot \<noteq> None \<and> consent_accepted slot"
  by (auto simp: party_consents_def consent_current_def consent_accepted_def split: option.splits)

lemma consent_accepted_Some: "consent_accepted slot \<Longrightarrow> slot \<noteq> None"
  by (auto simp: consent_accepted_def split: option.splits)

lemma check_consents_ok: "is_ok (fst (check_consents r c d)) \<longleftrightarrow> contract_consented r c"
  by (auto simp: check_consents_def contract_consented_def contract_live_def both_consented_def
      is_ok_then_check check_consent_ok consent_accepted_Some dest: party_consents_accepted)

lemma check_grant_state_denies: "denies (check_grant_state g d)"
  by (simp add: check_grant_state_def split: grant_state.splits)

lemma check_grant_state_ok: "is_ok (fst (check_grant_state g d)) \<longleftrightarrow> usable_state g"
  by (simp add: check_grant_state_def usable_state_def split: grant_state.splits)

lemma check_binding_denies: "denies (check_binding r c g i d)"
  by (simp add: check_binding_def split: option.splits)

lemma check_binding_ok: "is_ok (fst (check_binding r c g i d)) \<longleftrightarrow> grant_bound r c g i"
  by (auto simp: check_binding_def grant_bound_def split: option.splits)

lemma check_grant_denies: "denies (check_grant r c q v d)"
  by (auto simp: check_grant_def Let_def check_grant_state_denies check_binding_denies
      intro!: denies_then_check split: option.splits)

lemma check_grant_ok:
  "is_ok (fst (check_grant r c q v d)) \<longleftrightarrow>
    (case select_grant r (co_id c) of None \<Rightarrow> False | Some g \<Rightarrow> grant_current r q v c g)"
  by (auto simp: check_grant_def grant_current_def Let_def is_ok_then_check check_grant_state_ok
      check_binding_ok not_less split: option.splits)

text \<open>A check that succeeds leaves the decision as it was, but for the grant it names.\<close>

lemma check_ok_same:
  "is_ok (fst (check_cluster c d)) \<Longrightarrow> snd (check_cluster c d) = d"
  "is_ok (fst (check_endpoint e b d)) \<Longrightarrow> snd (check_endpoint e b d) = d"
  "is_ok (fst (check_consent r k slot party d)) \<Longrightarrow> snd (check_consent r k slot party d) = d"
  "is_ok (fst (check_grant_state g d)) \<Longrightarrow> snd (check_grant_state g d) = d"
  "is_ok (fst (check_binding r k g i d)) \<Longrightarrow> snd (check_binding r k g i d) = d"
  by (auto simp: check_cluster_def check_endpoint_def check_consent_def check_grant_state_def
      check_binding_def Let_def
      split: cluster_state.splits endpoint_state.splits option.splits grant_state.splits if_splits)

lemma check_consents_same:
  "is_ok (fst (check_consents r c d)) \<Longrightarrow> snd (check_consents r c d) = d"
  by (auto simp: check_consents_def then_check_def check_ok_same split: if_splits)

lemma check_grant_names:
  assumes "is_ok (fst (check_grant r c q v d))" "select_grant r (co_id c) = Some g"
  shows "snd (check_grant r c q v d)
    = d\<lparr>dc_grant := gr_id g, dc_capacity := gr_capacity g, dc_terms_digest := gr_terms_digest g\<rparr>"
  using assms
  by (auto simp: check_grant_def Let_def then_check_def check_ok_same split: if_splits)

section \<open>Gates\<close>

text \<open>
  A stage of the decision is a gate for a condition that does not depend on the decision so far: it
  continues where the condition holds and returns a decision that does not authorize elsewhere.
\<close>

definition gate :: "(decision \<Rightarrow> stage) \<Rightarrow> bool \<Rightarrow> bool" where
  "gate F P \<longleftrightarrow>
    (\<forall>d. (P \<longrightarrow> (\<exists>d'. F d = Inr d')) \<and> (\<not> P \<longrightarrow> (\<exists>d'. F d = Inl d' \<and> \<not> authorized d')))"

lemma authorized_finish [simp]: "authorized (finish out msg d) \<longleftrightarrow> is_authorized out"
  by (simp add: authorized_def finish_def)

lemma gate_go_on:
  assumes "gate F P" "gate G Q"
  shows "gate (\<lambda>d. go_on (F d) G) (P \<and> Q)"
  unfolding gate_def
proof (intro allI)
  fix d
  show "(P \<and> Q \<longrightarrow> (\<exists>d'. go_on (F d) G = Inr d'))
    \<and> (\<not> (P \<and> Q) \<longrightarrow> (\<exists>d'. go_on (F d) G = Inl d' \<and> \<not> authorized d'))"
  proof (cases P)
    case True
    then obtain d' where "F d = Inr d'" using assms(1) by (auto simp: gate_def)
    then show ?thesis using assms(2) True by (auto simp: gate_def go_on_def)
  next
    case False
    then obtain d' where "F d = Inl d'" "\<not> authorized d'" using assms(1) unfolding gate_def by blast
    then show ?thesis using False by (auto simp: go_on_def)
  qed
qed

lemma gate_or_return:
  assumes "\<And>d. denies (F d)" "\<And>d. is_ok (fst (F d)) \<longleftrightarrow> P"
  shows "gate (\<lambda>d. or_return (F d)) P"
  using assms by (auto simp: gate_def or_return_def denies_def)

lemma gate_expectations: "gate (decide_expectations q sc tc) (expectations_met q sc tc)"
  by (auto simp: gate_def decide_expectations_def expectations_met_def is_authorized_def)

lemma gate_admission:
  "gate (decide_admission q se sc te tc)
    (cluster_usable sc \<and> cluster_usable tc \<and> endpoint_usable se \<and> endpoint_usable te \<and> expectations_met q sc tc)"
  unfolding decide_admission_def
  by (intro gate_go_on gate_or_return gate_expectations
      check_cluster_denies check_endpoint_denies check_cluster_ok check_endpoint_ok)

lemma gate_policy: "gate (decide_policy p) (pe_decision p = PolicyDecision_Allowed)"
  by (auto simp: gate_def decide_policy_def is_authorized_def split: policy_decision.splits)

subsection \<open>Paths\<close>

lemma scan_path_flags:
  "ps_up (scan_path s t p ps) \<longleftrightarrow> ps_up ps \<or> path_usable PathState_Up s t p"
  "ps_degraded (scan_path s t p ps) \<longleftrightarrow> ps_degraded ps \<or> path_usable PathState_Degraded s t p"
  by (auto simp: scan_path_def path_usable_def Let_def split: path_state.splits)

lemma fold_scan_path_flags:
  "ps_up (fold (\<lambda>e. scan_path s t (snd e)) m ps) \<longleftrightarrow> ps_up ps \<or> list_ex (path_usable PathState_Up s t) (map snd m)"
  "ps_degraded (fold (\<lambda>e. scan_path s t (snd e)) m ps)
    \<longleftrightarrow> ps_degraded ps \<or> list_ex (path_usable PathState_Degraded s t) (map snd m)"
  by (induction m arbitrary: ps) (auto simp: scan_path_flags)

lemma evaluate_paths_ok:
  "is_ok (px_status (evaluate_paths r (qy_source q) (qy_target q)))
    \<longleftrightarrow> has_path PathState_Up r q \<or> has_path PathState_Degraded r q"
  by (auto simp: evaluate_paths_def Let_def scan_paths_def fold_scan_path_flags has_path_def)

lemma evaluate_paths_degraded:
  "px_degraded (evaluate_paths r (qy_source q) (qy_target q))
    \<longleftrightarrow> \<not> has_path PathState_Up r q \<and> has_path PathState_Degraded r q"
  by (auto simp: evaluate_paths_def Let_def scan_paths_def fold_scan_path_flags has_path_def)

lemma evaluate_paths_denies: "denies (px_status (evaluate_paths r s t), d)"
  by (simp add: evaluate_paths_def Let_def denies_def is_authorized_def)

lemma gate_paths:
  "gate (decide_paths (evaluate_paths r (qy_source q) (qy_target q)))
    (has_path PathState_Up r q \<or> has_path PathState_Degraded r q)"
  using evaluate_paths_denies [of r "qy_source q" "qy_target q"]
  unfolding evaluate_paths_ok [symmetric]
  by (auto simp: gate_def decide_paths_def Let_def denies_def)

subsection \<open>Contracts\<close>

lemma set_candidates:
  "set (candidates r q)
    = {c \<in> snd ` set (rg_contracts r). contract_joins c (qy_source q) (qy_target q)}"
  by (auto simp: candidates_def)

lemma try_candidates_fst:
  assumes "\<forall>c \<in> set cs. contract_joins c (qy_source q) (qy_target q)"
  shows "(\<exists>trial. fst (try_candidates r q v d cs best) = Some trial) \<longleftrightarrow> list_ex (contract_authorizes r q v) cs"
  using assms
  by (induction cs arbitrary: best)
    (auto simp: Let_def trial_consents_def check_consents_ok check_grant_ok contract_authorizes_def)

lemma keep_failure_denied:
  "denies m \<Longrightarrow> \<not> is_ok (fst m) \<Longrightarrow> (\<And>b. best = Some b \<Longrightarrow> \<not> authorized b) \<Longrightarrow>
    keep_failure best m = Some b \<Longrightarrow> \<not> authorized b"
  by (auto simp: keep_failure_def denies_def split: option.splits)

lemma try_candidates_snd:
  "(\<And>b. best = Some b \<Longrightarrow> \<not> authorized b) \<Longrightarrow>
    snd (try_candidates r q v d cs best) = Some b \<Longrightarrow> \<not> authorized b"
proof (induction cs arbitrary: best)
  case (Cons c cs)
  have den: "denies (trial_consents r d c)" "\<And>d. denies (check_grant r c q v d)"
    by (simp_all add: trial_consents_def check_consents_denies check_grant_denies)
  show ?case
    using Cons.prems(2) Cons.IH [OF keep_failure_denied [OF den(1) _ Cons.prems(1)]]
      Cons.IH [OF keep_failure_denied [OF den(2) _ Cons.prems(1)]] Cons.prems(1)
    by (auto simp: Let_def split: if_splits)
qed simp

lemma gate_contract:
  "gate (decide_contract r q v) (list_ex (contract_authorizes r q v) (map snd (rg_contracts r)))"
proof -
  let ?P = "list_ex (contract_authorizes r q v) (map snd (rg_contracts r))"
  have P: "?P \<longleftrightarrow> list_ex (contract_authorizes r q v) (candidates r q)"
    by (auto simp: list_ex_iff set_candidates contract_authorizes_def)
  have fst: "(\<exists>trial. fst (try_candidates r q v d (candidates r q) None) = Some trial) \<longleftrightarrow> ?P" for d
    unfolding P by (rule try_candidates_fst) (simp add: set_candidates)
  have "candidates r q = [] \<Longrightarrow> \<not> ?P" unfolding P by simp
  then show ?thesis
    using fst try_candidates_snd [of None]
    by (auto simp: gate_def decide_contract_def is_authorized_def split: prod.splits option.splits)
      (metis fst_conv option.distinct(1) snd_conv)+
qed

section \<open>The decision implements the contract\<close>

lemma decide_degraded_authorized:
  "authorized (decide_degraded q p paths se te d) \<longleftrightarrow> (px_degraded paths \<longrightarrow> degraded_permitted q p se te)"
  by (simp add: decide_degraded_def Let_def is_authorized_def)

lemma gate_case:
  assumes "gate F P"
  shows "authorized (case F d of Inl d \<Rightarrow> d | Inr d \<Rightarrow> G d) \<longleftrightarrow> P \<and> (\<exists>d'. F d = Inr d' \<and> authorized (G d'))"
proof (cases P)
  case True
  then obtain d' where "F d = Inr d'" using assms by (auto simp: gate_def)
  then show ?thesis using True by simp
next
  case False
  then obtain d' where "F d = Inl d'" "\<not> authorized d'" using assms unfolding gate_def by blast
  then show ?thesis using False by simp
qed

lemma decide_resolved_authorized:
  "authorized (decide_resolved r q v se sc te tc d) \<longleftrightarrow> resolved_spec r q v se sc te tc"
proof -
  let ?policy = "evaluate_policy r sc tc (qy_source q) (qy_target q)"
  let ?paths = "evaluate_paths r (qy_source q) (qy_target q)"
  let ?F = "\<lambda>d. go_on (decide_admission q se sc te tc d) (\<lambda>d. go_on (decide_policy ?policy d) (\<lambda>d.
      go_on (decide_paths ?paths d) (\<lambda>d. decide_contract r q v d)))"
  let ?P = "(cluster_usable sc \<and> cluster_usable tc \<and> endpoint_usable se \<and> endpoint_usable te
      \<and> expectations_met q sc tc) \<and> pe_decision ?policy = PolicyDecision_Allowed
      \<and> (has_path PathState_Up r q \<or> has_path PathState_Degraded r q)
      \<and> list_ex (contract_authorizes r q v) (map snd (rg_contracts r))"
  have g: "gate ?F ?P"
    by (intro gate_go_on gate_admission gate_policy gate_paths gate_contract)
  then have "?P \<Longrightarrow> \<exists>d'. ?F d0 = Inr d'" for d0 by (auto simp: gate_def)
  then show ?thesis
    unfolding decide_resolved_def Let_def gate_case [OF g]
    by (auto simp: decide_degraded_authorized evaluate_paths_degraded evaluate_policy_decision resolved_spec_def)
qed

lemma decide_authorized: "authorized (decide r q v) \<longleftrightarrow> authorization_spec r q v"
  by (auto simp: decide_def authorization_spec_def Let_def decide_resolved_authorized is_authorized_def
      split: option.splits prod.splits)

section \<open>What an authorizing decision names\<close>

lemma add_reason_frame [frame_simps]:
  "dc_outcome (add_reason code d) = dc_outcome d" "dc_contract (add_reason code d) = dc_contract d"
  "dc_grant (add_reason code d) = dc_grant d" "dc_authorities (add_reason code d) = dc_authorities d"
  "dc_term (add_reason code d) = dc_term d" "dc_coordinator (add_reason code d) = dc_coordinator d"
  "dc_terms_digest (add_reason code d) = dc_terms_digest d"
  "dc_view_digest (add_reason code d) = dc_view_digest d" "dc_capacity (add_reason code d) = dc_capacity d"
  "dc_decided_at (add_reason code d) = dc_decided_at d"
  "dc_paths (add_reason code d) = dc_paths d" "dc_edges (add_reason code d) = dc_edges d"
  "dc_degraded (add_reason code d) = dc_degraded d" "dc_detail (add_reason code d) = dc_detail d"
  by (simp_all add: add_reason_def)

text \<open>The fields set before the first check; no stage up to the contract changes them.\<close>

definition same_frame :: "decision \<Rightarrow> decision \<Rightarrow> bool" where
  "same_frame d d' \<longleftrightarrow>
    dc_authorities d' = dc_authorities d \<and> dc_term d' = dc_term d \<and> dc_coordinator d' = dc_coordinator d
    \<and> dc_view_digest d' = dc_view_digest d \<and> dc_decided_at d' = dc_decided_at d"

lemma same_frame_refl [simp]: "same_frame d d"
  by (simp add: same_frame_def)

lemma same_frame_trans [trans]: "same_frame d d' \<Longrightarrow> same_frame d' d'' \<Longrightarrow> same_frame d d''"
  by (simp add: same_frame_def)

lemma go_on_eq_Inr: "go_on m f = Inr d \<longleftrightarrow> (\<exists>d'. m = Inr d' \<and> f d' = Inr d)"
  by (auto simp: go_on_def split: sum.splits)

lemma or_return_eq_Inr: "or_return m = Inr d \<longleftrightarrow> is_ok (fst m) \<and> d = snd m"
  by (auto simp: or_return_def)

lemma decide_admission_frame: "decide_admission q se sc te tc d = Inr d' \<Longrightarrow> d' = d"
  by (auto simp: decide_admission_def go_on_eq_Inr or_return_eq_Inr check_ok_same decide_expectations_def
      split: if_splits)

lemma decide_policy_frame: "decide_policy p d = Inr d' \<Longrightarrow> same_frame d d'"
  by (auto simp: decide_policy_def same_frame_def frame_simps split: policy_decision.splits)

lemma decide_paths_frame: "decide_paths p d = Inr d' \<Longrightarrow> d' = d"
  by (auto simp: decide_paths_def Let_def split: if_splits)

text \<open>The contract and the grant an accepted trial carries.\<close>

definition names_grant :: "registry \<Rightarrow> decision_query \<Rightarrow> engine_view \<Rightarrow> contract_record \<Rightarrow> grant_record \<Rightarrow> decision \<Rightarrow> bool" where
  "names_grant r q v c g d \<longleftrightarrow>
    c \<in> snd ` set (rg_contracts r) \<and> contract_authorizes r q v c \<and> select_grant r (co_id c) = Some g
    \<and> dc_contract d = co_id c \<and> dc_grant d = gr_id g \<and> dc_capacity d = gr_capacity g
    \<and> dc_terms_digest d = co_terms_digest c"

lemma try_candidates_trial:
  assumes "fst (try_candidates r q v d cs best) = Some trial" "set cs \<subseteq> set (candidates r q)"
  shows "\<exists>c g. names_grant r q v c g trial \<and> same_frame d trial"
  using assms
proof (induction cs arbitrary: best)
  case (Cons c cs)
  let ?m = "trial_consents r d c"
  let ?m' = "check_grant r c q v (add_reason ReasonCode_AuthoritySatisfied (snd ?m))"
  have c: "c \<in> snd ` set (rg_contracts r)" "contract_joins c (qy_source q) (qy_target q)"
    using Cons.prems(2) by (auto simp: set_candidates)
  show ?case
  proof (cases "is_ok (fst ?m) \<and> is_ok (fst ?m')")
    case True
    then have trial: "trial = snd ?m'" using Cons.prems(1) by (simp add: Let_def)
    have m: "snd ?m = d\<lparr>dc_contract := co_id c, dc_terms_digest := co_terms_digest c\<rparr>"
      using True by (simp add: trial_consents_def check_consents_same)
    obtain g where g: "select_grant r (co_id c) = Some g" "grant_current r q v c g"
      using True by (auto simp: check_grant_ok split: option.splits)
    have "contract_authorizes r q v c"
      using True c g by (simp add: contract_authorizes_def trial_consents_def check_consents_ok)
    then have "names_grant r q v c g trial"
      using c g check_grant_names [of r c q v "add_reason ReasonCode_AuthoritySatisfied (snd ?m)" g] True
      by (simp add: names_grant_def trial m frame_simps grant_current_def)
    moreover have "same_frame d trial"
      using g(1) check_grant_names [of r c q v "add_reason ReasonCode_AuthoritySatisfied (snd ?m)" g] True
      by (simp add: same_frame_def trial m frame_simps)
    ultimately show ?thesis by blast
  next
    case False
    then show ?thesis using Cons by (auto simp: Let_def split: if_splits)
  qed
qed simp

lemma decide_contract_trial:
  assumes "decide_contract r q v d = Inr trial"
  shows "\<exists>c g. names_grant r q v c g trial \<and> same_frame d trial"
proof -
  have "fst (try_candidates r q v d (candidates r q) None) = Some trial"
    using assms by (auto simp: decide_contract_def split: if_splits prod.splits option.splits)
  then show ?thesis by (rule try_candidates_trial) simp
qed

lemma decide_degraded_names:
  "names_grant r q v c g (decide_degraded q' p paths se te d) \<longleftrightarrow> names_grant r q v c g d"
  "same_frame d0 (decide_degraded q' p paths se te d) \<longleftrightarrow> same_frame d0 d"
  by (auto simp: names_grant_def same_frame_def decide_degraded_def Let_def finish_def frame_simps)

lemma decide_resolved_names:
  assumes "authorized (decide_resolved r q v se sc te tc d)"
  shows "\<exists>c g. names_grant r q v c g (decide_resolved r q v se sc te tc d)
    \<and> same_frame (d\<lparr>dc_authorities := (cl_domain sc, cl_domain tc)\<rparr>) (decide_resolved r q v se sc te tc d)"
proof -
  let ?policy = "evaluate_policy r sc tc (qy_source q) (qy_target q)"
  let ?paths = "evaluate_paths r (qy_source q) (qy_target q)"
  let ?d = "d\<lparr>dc_authorities := (cl_domain sc, cl_domain tc)\<rparr>"
  let ?F = "\<lambda>d. go_on (decide_admission q se sc te tc d) (\<lambda>d. go_on (decide_policy ?policy d) (\<lambda>d.
      go_on (decide_paths ?paths d) (\<lambda>d. decide_contract r q v d)))"
  have g: "gate ?F ((cluster_usable sc \<and> cluster_usable tc \<and> endpoint_usable se \<and> endpoint_usable te
      \<and> expectations_met q sc tc) \<and> pe_decision ?policy = PolicyDecision_Allowed
      \<and> (has_path PathState_Up r q \<or> has_path PathState_Degraded r q)
      \<and> list_ex (contract_authorizes r q v) (map snd (rg_contracts r)))"
    by (intro gate_go_on gate_admission gate_policy gate_paths gate_contract)
  then obtain d1 where d1: "?F ?d = Inr d1"
    using assms unfolding decide_resolved_def Let_def gate_case [OF g] by blast
  then obtain d2 d3 where "same_frame ?d d2" "decide_contract r q v d2 = Inr d1"
    by (auto simp: go_on_eq_Inr dest!: decide_admission_frame decide_policy_frame decide_paths_frame)
  then obtain c g where "names_grant r q v c g d1" "same_frame ?d d1"
    using decide_contract_trial same_frame_trans by metis
  then show ?thesis
    using d1 by (auto simp: decide_resolved_def Let_def decide_degraded_names)
qed

lemma decide_names:
  assumes "authorized (decide r q v)"
  obtains c g se sc te tc where "names_grant r q v c g (decide r q v)"
    and "resolve r (qy_source q) = Some (se, sc)" "resolve r (qy_target q) = Some (te, tc)"
    and "dc_authorities (decide r q v) = (cl_domain sc, cl_domain tc)"
    and "dc_term (decide r q v) = vw_term v" "dc_coordinator (decide r q v) = vw_incarnation v"
    and "dc_decided_at (decide r q v) = vw_now v" "dc_view_digest (decide r q v) = registry_digest r"
proof -
  have spec: "authorization_spec r q v" using assms decide_authorized by blast
  then obtain se sc te tc where res: "qy_source q \<noteq> qy_target q"
    "resolve r (qy_source q) = Some (se, sc)" "resolve r (qy_target q) = Some (te, tc)"
    by (auto simp: authorization_spec_def split: option.splits)
  let ?d = "default_decision\<lparr>dc_decided_at := vw_now v, dc_term := vw_term v,
               dc_coordinator := vw_incarnation v, dc_view_digest := registry_digest r\<rparr>"
  have eq: "decide r q v = decide_resolved r q v se sc te tc ?d"
    using res by (simp add: decide_def)
  obtain c g where "names_grant r q v c g (decide r q v)"
    "same_frame (?d\<lparr>dc_authorities := (cl_domain sc, cl_domain tc)\<rparr>) (decide r q v)"
    using decide_resolved_names [of r q v se sc te tc ?d] assms eq by auto
  then show thesis using that res by (auto simp: same_frame_def)
qed

section \<open>The grant of a contract\<close>

lemma fold_later_grant:
  assumes "fold (\<lambda>e. later_grant key (snd e)) m s = Some g" "\<And>x. s = Some x \<Longrightarrow> gr_contract x = key"
  shows "gr_contract g = key \<and> (g \<in> snd ` set m \<or> s = Some g)
    \<and> (\<forall>x \<in> snd ` set m \<union> set_option s. gr_contract x = key \<longrightarrow>
        (gr_issued_at x, gr_id x) \<le> (gr_issued_at g, gr_id g))"
  using assms
proof (induction m arbitrary: s)
  case (Cons e m)
  let ?s = "later_grant key (snd e) s"
  have key: "?s = Some x \<Longrightarrow> gr_contract x = key" for x
    using Cons.prems(2) by (auto simp: later_grant_def split: if_splits option.splits)
  note IH = Cons.IH [OF _ key]
  have step: "\<And>x. x \<in> insert (snd e) (set_option s) \<Longrightarrow> gr_contract x = key \<Longrightarrow>
      \<exists>y. ?s = Some y \<and> (gr_issued_at x, gr_id x) \<le> (gr_issued_at y, gr_id y)"
    using Cons.prems(2)
    by (auto simp: later_grant_def less_eq_prod_simp not_less less_le_not_le split: option.splits)
  have origin: "?s = Some y \<Longrightarrow> y = snd e \<or> s = Some y" for y
    by (auto simp: later_grant_def split: if_splits option.splits)
  have I: "gr_contract g = key" "g \<in> snd ` set m \<or> ?s = Some g"
    "\<And>x. x \<in> snd ` set m \<union> set_option ?s \<Longrightarrow> gr_contract x = key \<Longrightarrow>
      (gr_issued_at x, gr_id x) \<le> (gr_issued_at g, gr_id g)"
    using IH Cons.prems(1) by auto
  have "(gr_issued_at x, gr_id x) \<le> (gr_issued_at g, gr_id g)"
    if x: "x \<in> snd ` set (e # m) \<union> set_option s" "gr_contract x = key" for x
  proof (cases "x \<in> snd ` set m")
    case False
    then obtain y where "?s = Some y" "(gr_issued_at x, gr_id x) \<le> (gr_issued_at y, gr_id y)"
      using step [of x] x by auto
    then have "(gr_issued_at y, gr_id y) \<le> (gr_issued_at g, gr_id g)"
      using I(3) [of y] key by simp
    then show ?thesis
      using \<open>(gr_issued_at x, gr_id x) \<le> (gr_issued_at y, gr_id y)\<close> by (rule order_trans [rotated])
  qed (use I x in auto)
  then show ?case using I origin by auto
qed auto

lemma select_grant_latest:
  assumes "select_grant r key = Some g"
  shows "g \<in> snd ` set (rg_grants r)" "gr_contract g = key"
    and "x \<in> snd ` set (rg_grants r) \<Longrightarrow> gr_contract x = key \<Longrightarrow>
      (gr_issued_at x, gr_id x) \<le> (gr_issued_at g, gr_id g)"
  using fold_later_grant [of key "rg_grants r" None g] assms by (auto simp: select_grant_def)

lemma fold_later_grant_Some: "\<exists>g. fold (\<lambda>e. later_grant key (snd e)) m (Some s) = Some g"
  by (induction m arbitrary: s) (auto simp: later_grant_def)

lemma select_grant_None:
  "select_grant r key = None \<longleftrightarrow> (\<forall>g \<in> snd ` set (rg_grants r). gr_contract g \<noteq> key)"
proof -
  have "fold (\<lambda>e. later_grant key (snd e)) m None = None \<longleftrightarrow> (\<forall>g \<in> snd ` set m. gr_contract g \<noteq> key)" for m
    using fold_later_grant_Some [of key] by (induction m) (auto simp: later_grant_def)
  then show ?thesis by (simp add: select_grant_def)
qed

end
