(* ===== verification/Fencing.thy ===== *)
theory Fencing
  imports Engine_Laws
begin

text \<open>
  \<open>runtime/audit.cpp\<close> and \<open>runtime/fencing.cpp\<close>: appending to the audit trail and applying a fence
  plan. \<open>None\<close> is the exception the sources raise when the last audit sequence number has no
  successor. A fence plan that fails part way leaves the actions before the failure applied, so a
  call returns the registry beside its result.
\<close>

section \<open>The audit helper\<close>

definition bounded :: "string \<Rightarrow> nat \<Rightarrow> string" where
  "bounded s limit = (if length s > limit then take limit s else s)"

definition append_audit ::
  "timestamp \<Rightarrow> string \<Rightarrow> string \<Rightarrow> string \<Rightarrow> outcome \<Rightarrow> string \<Rightarrow> registry \<Rightarrow> (status \<times> registry) option" where
  "append_audit at actor action subject out detail r =
    (let record = (\<lambda>sequence.
       \<lparr>au_sequence = sequence, au_at = at, au_actor = bounded actor 64, au_action = bounded action 64,
        au_subject = bounded subject 128, au_outcome = out, au_detail = bounded detail kMaxStringField\<rparr>)
     in if rg_audit r = [] then registry_append_audit (record 1) r
        else case counter_next (au_sequence (last (rg_audit r))) of
          Inl _ \<Rightarrow> None
        | Inr sequence \<Rightarrow> registry_append_audit (record sequence) r)"

section \<open>Applying a plan\<close>

record fence_outcome =
  fo_grants_fenced :: u64
  fo_contracts_fenced :: u64
  fo_reservations_released :: u64
  fo_capacity_released :: u64
  fo_already_fenced :: u64

definition no_fence :: fence_outcome where
  "no_fence = \<lparr>fo_grants_fenced = 0, fo_contracts_fenced = 0, fo_reservations_released = 0,
     fo_capacity_released = 0, fo_already_fenced = 0\<rparr>"

definition already :: "fence_outcome \<Rightarrow> fence_outcome" where
  "already fo = fo\<lparr>fo_already_fenced := fo_already_fenced fo + 1\<rparr>"

definition derived_provenance :: "timestamp \<Rightarrow> provenance" where
  "derived_provenance at = default_provenance\<lparr>pv_source := EvidenceSource_DerivedFromTopology,
     pv_verification := VerificationState_Verified, pv_observed_at := at\<rparr>"

definition return_capacity :: "u64 \<Rightarrow> timestamp \<Rightarrow> endpoint_record \<Rightarrow> endpoint_record" where
  "return_capacity amount at e =
    e\<lparr>ep_reserved := (if amount \<le> ep_reserved e
                      then (if ep_reserved e \<ge> amount then ep_reserved e - amount else 0)
                      else 0),
      ep_provenance := (ep_provenance e)\<lparr>pv_observed_at := at\<rparr>\<rparr>"

text \<open>The first endpoint of a cluster with the identity; the loop breaks after it.\<close>

fun return_in :: "endpoint_id \<Rightarrow> u64 \<Rightarrow> timestamp \<Rightarrow> endpoint_record list \<Rightarrow> endpoint_record list" where
  "return_in key amount at [] = []"
| "return_in key amount at (e # es) =
    (if ep_id e \<noteq> key then e # return_in key amount at es else return_capacity amount at e # es)"

definition return_to_clusters :: "endpoint_id \<Rightarrow> u64 \<Rightarrow> timestamp \<Rightarrow> registry \<Rightarrow> registry" where
  "return_to_clusters key amount at r =
    r\<lparr>rg_clusters := om_map (\<lambda>_ c. c\<lparr>cl_endpoints := return_in key amount at (cl_endpoints c)\<rparr>) (rg_clusters r)\<rparr>"

definition released_record :: "timestamp \<Rightarrow> reservation_record \<Rightarrow> reservation_record" where
  "released_record at rs =
    rs\<lparr>rs_released := True, rs_released_at := at, rs_provenance := derived_provenance at\<rparr>"

definition release_reservation ::
  "reservation_record \<Rightarrow> timestamp \<Rightarrow> fence_outcome \<Rightarrow> registry \<Rightarrow> fence_outcome \<times> registry" where
  "release_reservation rs at fo r =
    (if rs_released rs then (already fo, r)
     else
       let rs' = released_record at rs;
           fo' = fo\<lparr>fo_reservations_released := fo_reservations_released fo + 1,
                    fo_capacity_released := fo_capacity_released fo + rs_amount rs\<rparr>;
           r' = (case om_find (rg_reservations r) (rs_id rs) of
                   None \<Rightarrow> r
                 | Some _ \<Rightarrow> r\<lparr>rg_reservations := om_put (rs_id rs) rs' (rg_reservations r)\<rparr>)
       in (fo', return_to_clusters (rs_endpoint rs) (rs_amount rs) at r'))"

definition fenced_grant :: "fence_trigger \<Rightarrow> timestamp \<Rightarrow> grant_record \<Rightarrow> grant_record" where
  "fenced_grant trigger at g =
    g\<lparr>gr_state := GrantState_Fenced,
      gr_note := ''fenced by '' @ fence_trigger_to_string trigger,
      gr_provenance := derived_provenance at,
      gr_revision := snd (counter_increment (gr_revision g))\<rparr>"

definition fenced_contract :: "fence_trigger \<Rightarrow> timestamp \<Rightarrow> contract_record \<Rightarrow> contract_record" where
  "fenced_contract trigger at c =
    c\<lparr>co_state := (if trigger = FenceTrigger_ClusterWithdrawal then ContractState_Withdrawn
                   else ContractState_Fenced),
      co_updated_at := at,
      co_revision := snd (counter_increment (co_revision c))\<rparr>"

definition withdrawn_grant :: "grant_record \<Rightarrow> bool" where
  "withdrawn_grant g \<longleftrightarrow>
    gr_state g = GrantState_Fenced \<or> gr_state g = GrantState_Aborted \<or> gr_state g = GrantState_Withdrawn"

definition withdrawn_contract :: "contract_record \<Rightarrow> bool" where
  "withdrawn_contract c \<longleftrightarrow> co_state c = ContractState_Withdrawn \<or> co_state c = ContractState_Fenced"

type_synonym fence_state = "fence_outcome \<times> registry"

definition fence_grant ::
  "fence_trigger \<Rightarrow> timestamp \<Rightarrow> string \<Rightarrow> grant_id \<Rightarrow> fence_state \<Rightarrow> (status \<times> fence_state) option" where
  "fence_grant trigger at actor key = (\<lambda>(fo, r).
    case find_grant r key of
      None \<Rightarrow> Some (status_ok, already fo, r)
    | Some g \<Rightarrow>
        if withdrawn_grant g then Some (status_ok, already fo, r)
        else
          let r' = r\<lparr>rg_grants := om_put key (fenced_grant trigger at g) (rg_grants r)\<rparr>;
              fo' = fo\<lparr>fo_grants_fenced := fo_grants_fenced fo + 1\<rparr>
          in map_option (\<lambda>(s, r''). (s, fo', r''))
               (append_audit at actor ''fence-grant'' (''grant='' @ uuid_to_string (gr_id g)) Outcome_Fenced
                 (fence_trigger_to_string trigger) r'))"

definition fence_one_contract ::
  "fence_trigger \<Rightarrow> timestamp \<Rightarrow> string \<Rightarrow> contract_id \<Rightarrow> fence_state \<Rightarrow> (status \<times> fence_state) option" where
  "fence_one_contract trigger at actor key = (\<lambda>(fo, r).
    case find_contract r key of
      None \<Rightarrow> Some (status_ok, fo, r)
    | Some c \<Rightarrow>
        if withdrawn_contract c then Some (status_ok, already fo, r)
        else
          let r' = r\<lparr>rg_contracts := om_put key (fenced_contract trigger at c) (rg_contracts r)\<rparr>;
              fo' = fo\<lparr>fo_contracts_fenced := fo_contracts_fenced fo + 1\<rparr>
          in map_option (\<lambda>(s, r''). (s, fo', r''))
               (append_audit at actor ''fence-contract'' (''contract='' @ uuid_to_string (co_id c)) Outcome_Fenced
                 (fence_trigger_to_string trigger) r'))"

definition fence_reservation ::
  "timestamp \<Rightarrow> reservation_id \<Rightarrow> fence_state \<Rightarrow> (status \<times> fence_state) option" where
  "fence_reservation at key = (\<lambda>(fo, r).
    case find_reservation r key of
      None \<Rightarrow> Some (status_ok, already fo, r)
    | Some rs \<Rightarrow> Some (status_ok, release_reservation rs at fo r))"

definition apply_action ::
  "fence_trigger \<Rightarrow> timestamp \<Rightarrow> string \<Rightarrow> fence_action \<Rightarrow> fence_state \<Rightarrow> (status \<times> fence_state) option" where
  "apply_action trigger at actor a st =
    (case fa_target a of
       FenceTarget_Grant \<Rightarrow> fence_grant trigger at actor (fa_grant a) st
     | FenceTarget_Contract \<Rightarrow> fence_one_contract trigger at actor (fa_contract a) st
     | FenceTarget_Reservation \<Rightarrow> fence_reservation at (fa_reservation a) st)"

fun apply_actions ::
  "fence_trigger \<Rightarrow> timestamp \<Rightarrow> string \<Rightarrow> fence_action list \<Rightarrow> fence_state \<Rightarrow>
    (fence_outcome result \<times> registry) option" where
  "apply_actions trigger at actor [] st = Some (Inr (fst st), snd st)"
| "apply_actions trigger at actor (a # as) st =
    (case apply_action trigger at actor a st of
       None \<Rightarrow> None
     | Some (s, st') \<Rightarrow>
         if is_ok s then apply_actions trigger at actor as st' else Some (Inl s, snd st'))"

definition apply_fence_plan ::
  "fence_plan \<Rightarrow> timestamp \<Rightarrow> string \<Rightarrow> registry \<Rightarrow> (fence_outcome result \<times> registry) option" where
  "apply_fence_plan plan at actor r =
    apply_actions (fp_trigger plan) at actor (fp_actions plan) (no_fence, r)"

definition recovered_plan :: "registry \<Rightarrow> incarnation_id \<Rightarrow> u64 \<Rightarrow> fence_plan" where
  "recovered_plan r previous_incarnation term =
    \<lparr>fp_trigger = FenceTrigger_CoordinatorReincarnation, fp_cluster = [], fp_incarnation = nil_uuid,
     fp_previous_incarnation = previous_incarnation, fp_generation = 0, fp_term = term,
     fp_view_digest = registry_digest r,
     fp_actions =
       map (\<lambda>g. grant_action ReasonCode_EvidenceRecoveredFromStore (gr_id g) (gr_contract g))
         (filter (\<lambda>g. \<not> grant_closed g) (map snd (rg_grants r)))
       @ map (\<lambda>rs. reservation_action ReasonCode_EvidenceRecoveredFromStore (rs_grant rs) nil_uuid (rs_id rs))
         (filter (\<lambda>rs. \<not> rs_released rs) (map snd (rg_reservations r))),
     fp_detail = ''dynamic evidence recovered from the store is historical and is fenced until revalidated''\<rparr>"

definition fence_recovered_state ::
  "timestamp \<Rightarrow> string \<Rightarrow> incarnation_id \<Rightarrow> u64 \<Rightarrow> registry \<Rightarrow> (fence_outcome result \<times> registry) option" where
  "fence_recovered_state at actor previous_incarnation term r =
    apply_fence_plan (recovered_plan r previous_incarnation term) at actor r"

end
