(* ===== verification/Fencing_Laws.thy ===== *)
theory Fencing_Laws
  imports Fencing
begin

text \<open>
  What applying a fence plan guarantees: it keeps the registry's invariant, only ever withdraws
  (no grant or reservation is reopened), leaves every record the plan names withdrawn, is
  idempotent, closes the capacity accounting, and with room in the audit trail it never fails.
  Together with the engine: what was fenced authorizes nothing any more.
\<close>

section \<open>Replacing a record\<close>

lemma om_put_replace:
  assumes "om_ok m" "om_find m k = Some v"
  obtains xs ys where "m = xs @ (k, v) # ys" "om_put k w m = xs @ (k, w) # ys"
  using assms
proof (induction m arbitrary: thesis)
  case (Cons e m)
  obtain k' v' where e: "e = (k', v')" by fastforce
  show ?case
  proof (cases "k = k'")
    case True
    then show ?thesis using Cons.prems(1) [of "[]" m] Cons.prems(3) e by simp
  next
    case False
    then have find: "om_find m k = Some v" using Cons.prems(3) e by simp
    then have "k' < k" using Cons.prems(2) e om_find_in by (fastforce simp: om_ok_Cons)
    then have "om_put k w (e # m) = e # om_put k w m" using False e by auto
    moreover obtain xs ys where "m = xs @ (k, v) # ys" "om_put k w m = xs @ (k, w) # ys"
      using Cons.IH Cons.prems(2) e find by (auto simp: om_ok_Cons)
    ultimately show ?thesis using Cons.prems(1) [of "e # xs" ys] by simp
  qed
qed simp

lemma table_ok_replace:
  assumes "table_ok m bound P" "om_find m k = Some v" "P k w"
  shows "table_ok (om_put k w m) bound P"
  using assms set_om_put_subset [of k w m] by (auto simp: table_ok_def om_put_length)

section \<open>Evolution of the registry\<close>

definition table_evolves :: "('v \<Rightarrow> 'v \<Rightarrow> bool) \<Rightarrow> ('k, 'v) omap \<Rightarrow> ('k, 'v) omap \<Rightarrow> bool" where
  "table_evolves R m m' \<longleftrightarrow> (\<forall>k. rel_option R (om_find m k) (om_find m' k))"

lemma table_evolves_refl: "(\<And>v. R v v) \<Longrightarrow> table_evolves R m m"
  by (simp add: table_evolves_def option.rel_refl)

lemma table_evolves_trans:
  assumes "transp R" "table_evolves R m m'" "table_evolves R m' m''"
  shows "table_evolves R m m''"
  unfolding table_evolves_def
proof
  fix k
  show "rel_option R (om_find m k) (om_find m'' k)"
    using assms(2,3) [unfolded table_evolves_def, rule_format, of k] transpD [OF assms(1)]
    by (cases "om_find m k"; cases "om_find m' k"; cases "om_find m'' k") auto
qed

lemma table_evolves_put:
  "(\<And>v. R v v) \<Longrightarrow> om_find m k = Some v \<Longrightarrow> R v w \<Longrightarrow> table_evolves R m (om_put k w m)"
  by (auto simp: table_evolves_def om_find_put option.rel_refl)

lemma table_evolves_back:
  "table_evolves R m m' \<Longrightarrow> om_find m' k = Some w \<Longrightarrow> \<exists>v. om_find m k = Some v \<and> R v w"
  unfolding table_evolves_def by (metis option_rel_Some2)

definition grant_evolves :: "grant_record \<Rightarrow> grant_record \<Rightarrow> bool" where
  "grant_evolves g g' \<longleftrightarrow>
    g' = g \<or> withdrawn_grant g' \<and> gr_id g' = gr_id g \<and> gr_contract g' = gr_contract g"

definition contract_evolves :: "contract_record \<Rightarrow> contract_record \<Rightarrow> bool" where
  "contract_evolves c c' \<longleftrightarrow>
    c' = c \<or> withdrawn_contract c' \<and> co_id c' = co_id c \<and> co_parties c' = co_parties c"

definition reservation_evolves :: "reservation_record \<Rightarrow> reservation_record \<Rightarrow> bool" where
  "reservation_evolves rs rs' \<longleftrightarrow>
    rs' = rs \<or> rs_released rs' \<and> rs_id rs' = rs_id rs \<and> rs_grant rs' = rs_grant rs \<and> rs_amount rs' = rs_amount rs"

lemma evolves_refl [simp]: "grant_evolves g g" "contract_evolves c c" "reservation_evolves rs rs"
  by (simp_all add: grant_evolves_def contract_evolves_def reservation_evolves_def)

lemma transp_evolves: "transp grant_evolves" "transp contract_evolves" "transp reservation_evolves"
  by (auto intro!: transpI simp: grant_evolves_def contract_evolves_def reservation_evolves_def)

definition evolves :: "registry \<Rightarrow> registry \<Rightarrow> bool" where
  "evolves r r' \<longleftrightarrow>
    table_evolves grant_evolves (rg_grants r) (rg_grants r')
    \<and> table_evolves contract_evolves (rg_contracts r) (rg_contracts r')
    \<and> table_evolves reservation_evolves (rg_reservations r) (rg_reservations r')
    \<and> rg_policies r' = rg_policies r \<and> rg_links r' = rg_links r \<and> rg_paths r' = rg_paths r
    \<and> (\<exists>added. rg_audit r' = rg_audit r @ added)"

lemma evolves_same [simp]: "evolves r r"
  by (simp add: evolves_def table_evolves_refl)

lemma evolves_trans: "evolves r r' \<Longrightarrow> evolves r' r'' \<Longrightarrow> evolves r r''"
  unfolding evolves_def using table_evolves_trans [OF transp_evolves(1)]
    table_evolves_trans [OF transp_evolves(2)] table_evolves_trans [OF transp_evolves(3)]
  by (metis append.assoc)

section \<open>Auditing\<close>

lemma registry_append_audit_frame:
  "registry_append_audit a r = Some (s, r') \<Longrightarrow> \<exists>added. r' = r\<lparr>rg_audit := rg_audit r @ added\<rparr>"
  by (auto simp: registry_append_audit_def split: if_splits sum.splits
      intro: exI [of _ "[]"] exI [of _ "[a]"])

lemma append_audit_frame:
  "append_audit at actor action subject out detail r = Some (s, r') \<Longrightarrow>
    \<exists>added. r' = r\<lparr>rg_audit := rg_audit r @ added\<rparr>"
  by (auto simp: append_audit_def Let_def split: if_splits sum.splits dest: registry_append_audit_frame)

lemma append_audit_ok_keeps:
  "append_audit at actor action subject out detail r = Some (s, r') \<Longrightarrow> registry_ok r \<Longrightarrow> registry_ok r'"
  by (auto simp: append_audit_def Let_def split: if_splits sum.splits dest: append_audit_keeps)

text \<open>Room for \<open>n\<close> more records, in the trail and in the sequence numbers.\<close>

definition audit_room :: "registry \<Rightarrow> nat \<Rightarrow> bool" where
  "audit_room r n \<longleftrightarrow>
    length (rg_audit r) + n \<le> kMaxAuditRecords
    \<and> (rg_audit r = [] \<or> unat (au_sequence (last (rg_audit r))) + n < 2 ^ 64)"

lemma unat_minus_one_u64: "unat (- 1 :: u64) = 2 ^ 64 - 1"
  by (simp add: unsigned_minus_1_eq_mask mask_eq_exp_minus_1)

lemma append_audit_room:
  assumes "audit_room r (Suc n)"
  shows "\<exists>r'. append_audit at actor action subject out detail r = Some (status_ok, r') \<and> audit_room r' n"
proof (cases "rg_audit r = []")
  case True
  then show ?thesis
    using assms by (auto simp: append_audit_def registry_append_audit_def audit_room_def kMaxAuditRecords_def)
next
  case False
  then have "unat (au_sequence (last (rg_audit r))) + Suc n < 2 ^ 64"
    using assms by (simp add: audit_room_def)
  then have max: "au_sequence (last (rg_audit r)) \<noteq> - 1" using unat_minus_one_u64 by auto
  then have "counter_next (au_sequence (last (rg_audit r))) = Inr (au_sequence (last (rg_audit r)) + 1)"
    by (simp add: counter_next_Inr)
  then show ?thesis
    using False assms unat_suc_word [OF max]
    by (auto simp: append_audit_def registry_append_audit_def audit_room_def Let_def)
qed

section \<open>Returning capacity\<close>

lemma return_in_ids [simp]: "map ep_id (return_in key amount at es) = map ep_id es"
  by (induction es) (auto simp: return_capacity_def)

lemma return_in_length [simp]: "length (return_in key amount at es) = length es"
  using return_in_ids [of key amount at es] by (metis length_map)

lemma return_capacity_le: "ep_reserved (return_capacity amount at e) \<le> ep_reserved e"
  by (auto simp: return_capacity_def word_sub_le)

lemma return_in_set:
  "e \<in> set (return_in key amount at es) \<Longrightarrow> e \<in> set es \<or> (\<exists>e0 \<in> set es. e = return_capacity amount at e0)"
  by (induction es) (auto split: if_splits)

lemma endpoints_ok_return_in: "endpoints_ok cid es \<Longrightarrow> endpoints_ok cid (return_in key amount at es)"
proof -
  assume ok: "endpoints_ok cid es"
  have ret: "ep_cluster (return_capacity amount at e) = ep_cluster e"
    "ep_capacity (return_capacity amount at e) = ep_capacity e" for e
    by (simp_all add: return_capacity_def)
  have old: "ep_cluster e = cid \<and> ep_reserved e \<le> ep_capacity e" if "e \<in> set es" for e
    using ok that by (simp add: endpoints_ok_def)
  have "ep_cluster e = cid \<and> ep_reserved e \<le> ep_capacity e" if "e \<in> set (return_in key amount at es)" for e
    using return_in_set [OF that]
  proof (elim disjE bexE)
    fix e0 assume "e0 \<in> set es" "e = return_capacity amount at e0"
    then show ?thesis using old [of e0] return_capacity_le [of amount at e0] ret by (simp add: order_trans)
  qed (rule old)
  then show ?thesis using ok by (simp add: endpoints_ok_def)
qed

lemma return_to_clusters_keeps: "registry_ok r \<Longrightarrow> registry_ok (return_to_clusters key amount at r)"
  unfolding return_to_clusters_def
  by (intro registry_ok_update table_ok_map)
    (auto simp: registry_ok_tables cluster_ok_def endpoints_ok_return_in)

lemma return_to_clusters_frame [simp]:
  "rg_grants (return_to_clusters key amount at r) = rg_grants r"
  "rg_contracts (return_to_clusters key amount at r) = rg_contracts r"
  "rg_reservations (return_to_clusters key amount at r) = rg_reservations r"
  "rg_policies (return_to_clusters key amount at r) = rg_policies r"
  "rg_links (return_to_clusters key amount at r) = rg_links r"
  "rg_paths (return_to_clusters key amount at r) = rg_paths r"
  "rg_audit (return_to_clusters key amount at r) = rg_audit r"
  by (simp_all add: return_to_clusters_def)

section \<open>The contract of a fencing step\<close>

text \<open>The capacity of the reservations that are still open, as the source would add it up.\<close>

definition outstanding :: "registry \<Rightarrow> u64" where
  "outstanding r = sum_list (map (\<lambda>e. if rs_released (snd e) then 0 else rs_amount (snd e)) (rg_reservations r))"

text \<open>
  \<open>finished\<close> is what the step establishes; a step keeps the invariant, only withdraws, establishes
  \<open>finished\<close>, changes nothing once it holds, keeps the capacity accounting closed, and
  succeeds when the audit trail has room.
\<close>

locale fence_step =
  fixes step :: "fence_state \<Rightarrow> (status \<times> fence_state) option"
    and finished :: "registry \<Rightarrow> bool"
  assumes step_keeps: "registry_ok r \<Longrightarrow> step (fo, r) = Some (s, fo', r') \<Longrightarrow> registry_ok r'"
    and step_evolves: "registry_ok r \<Longrightarrow> step (fo, r) = Some (s, fo', r') \<Longrightarrow> evolves r r'"
    and step_finished: "registry_ok r \<Longrightarrow> step (fo, r) = Some (s, fo', r') \<Longrightarrow> finished r'"
    and step_again: "finished r \<Longrightarrow> step (fo, r) = Some (status_ok, fo', r') \<Longrightarrow>
      r' = r \<and> fo_grants_fenced fo' = fo_grants_fenced fo
        \<and> fo_contracts_fenced fo' = fo_contracts_fenced fo
        \<and> fo_reservations_released fo' = fo_reservations_released fo
        \<and> fo_capacity_released fo' = fo_capacity_released fo"
    and step_accounts: "registry_ok r \<Longrightarrow> step (fo, r) = Some (s, fo', r') \<Longrightarrow>
      fo_capacity_released fo' + outstanding r' = fo_capacity_released fo + outstanding r"
    and step_succeeds: "audit_room r (Suc n) \<Longrightarrow> \<exists>fo' r'. step (fo, r) = Some (status_ok, fo', r') \<and> audit_room r' n"
    and finished_stays: "finished r \<Longrightarrow> evolves r r' \<Longrightarrow> finished r'"

definition grant_finished :: "grant_id \<Rightarrow> registry \<Rightarrow> bool" where
  "grant_finished key r \<longleftrightarrow> (case find_grant r key of None \<Rightarrow> True | Some g \<Rightarrow> withdrawn_grant g)"

definition contract_finished :: "contract_id \<Rightarrow> registry \<Rightarrow> bool" where
  "contract_finished key r \<longleftrightarrow> (case find_contract r key of None \<Rightarrow> True | Some c \<Rightarrow> withdrawn_contract c)"

definition reservation_finished :: "reservation_id \<Rightarrow> registry \<Rightarrow> bool" where
  "reservation_finished key r \<longleftrightarrow> (case find_reservation r key of None \<Rightarrow> True | Some rs \<Rightarrow> rs_released rs)"

lemma finished_evolves:
  "grant_finished g r \<Longrightarrow> evolves r r' \<Longrightarrow> grant_finished g r'"
  "contract_finished c r \<Longrightarrow> evolves r r' \<Longrightarrow> contract_finished c r'"
  "reservation_finished rs r \<Longrightarrow> evolves r r' \<Longrightarrow> reservation_finished rs r'"
  by (auto simp: grant_finished_def contract_finished_def reservation_finished_def find_grant_def
      find_contract_def find_reservation_def evolves_def grant_evolves_def contract_evolves_def
      reservation_evolves_def split: option.splits dest!: table_evolves_back)

lemma audit_only:
  "evolves r (r\<lparr>rg_audit := rg_audit r @ added\<rparr>)"
  "outstanding (r\<lparr>rg_audit := a\<rparr>) = outstanding r"
  by (simp_all add: evolves_def table_evolves_refl outstanding_def)

lemma fenced_grant_fields [simp]:
  "withdrawn_grant (fenced_grant trigger at g)" "gr_id (fenced_grant trigger at g) = gr_id g"
  "gr_contract (fenced_grant trigger at g) = gr_contract g" "gr_capacity (fenced_grant trigger at g) = gr_capacity g"
  by (simp_all add: fenced_grant_def withdrawn_grant_def)

lemma fenced_contract_fields [simp]:
  "withdrawn_contract (fenced_contract trigger at c)" "co_id (fenced_contract trigger at c) = co_id c"
  "co_parties (fenced_contract trigger at c) = co_parties c"
  "co_capacity (fenced_contract trigger at c) = co_capacity c"
  by (simp_all add: fenced_contract_def withdrawn_contract_def)

lemma released_record_fields [simp]:
  "rs_released (released_record at rs)" "rs_id (released_record at rs) = rs_id rs"
  "rs_grant (released_record at rs) = rs_grant rs" "rs_amount (released_record at rs) = rs_amount rs"
  by (simp_all add: released_record_def)

subsection \<open>Grants\<close>

lemma fence_grant_cases:
  assumes "fence_grant trigger at actor key (fo, r) = Some (s, fo', r')"
  obtains (settled) "grant_finished key r" "s = status_ok" "fo' = already fo" "r' = r"
  | (fenced) g added where "find_grant r key = Some g"
      "append_audit at actor ''fence-grant'' (''grant='' @ uuid_to_string (gr_id g)) Outcome_Fenced
        (fence_trigger_to_string trigger)
        (r\<lparr>rg_grants := om_put key (fenced_grant trigger at g) (rg_grants r)\<rparr>) = Some (s, r')"
      "fo' = fo\<lparr>fo_grants_fenced := fo_grants_fenced fo + 1\<rparr>"
      "r' = r\<lparr>rg_grants := om_put key (fenced_grant trigger at g) (rg_grants r),
             rg_audit := rg_audit r @ added\<rparr>"
  using assms
  by (fastforce simp: fence_grant_def grant_finished_def Let_def split: option.splits if_splits
      dest!: append_audit_frame)

interpretation fence_grant: fence_step "fence_grant trigger at actor key" "grant_finished key"
  for trigger at actor key
proof
  fix r fo s fo' r'
  assume ok: "registry_ok r" and step: "fence_grant trigger at actor key (fo, r) = Some (s, fo', r')"
  note gok = registry_ok_tables(6) [OF ok]
  show "registry_ok r'"
    using step
  proof (cases rule: fence_grant_cases)
    case (fenced g added)
    then have "grant_ok key (fenced_grant trigger at g)"
      using table_ok_find [OF gok, of key g] by (auto simp: find_grant_def grant_ok_def)
    then have "registry_ok (r\<lparr>rg_grants := om_put key (fenced_grant trigger at g) (rg_grants r)\<rparr>)"
      using fenced(1) ok gok by (auto simp: find_grant_def intro!: registry_ok_update table_ok_replace)
    then show ?thesis using fenced(2) append_audit_ok_keeps by blast
  qed (use ok in simp)
  show "evolves r r'"
    using step
  proof (cases rule: fence_grant_cases)
    case (fenced g added)
    then have "table_evolves grant_evolves (rg_grants r) (rg_grants r')"
      by (simp add: find_grant_def table_evolves_put grant_evolves_def)
    then show ?thesis using fenced(4) by (simp add: evolves_def table_evolves_refl)
  qed simp
  show "grant_finished key r'"
    using step
    by (cases rule: fence_grant_cases) (simp_all add: grant_finished_def find_grant_def om_find_put)
  show "fo_capacity_released fo' + outstanding r' = fo_capacity_released fo + outstanding r"
    using step by (cases rule: fence_grant_cases) (simp_all add: already_def outstanding_def)
next
  fix r fo fo' r'
  assume "grant_finished key r" "fence_grant trigger at actor key (fo, r) = Some (status_ok, fo', r')"
  then show "r' = r \<and> fo_grants_fenced fo' = fo_grants_fenced fo \<and> fo_contracts_fenced fo' = fo_contracts_fenced fo
      \<and> fo_reservations_released fo' = fo_reservations_released fo
      \<and> fo_capacity_released fo' = fo_capacity_released fo"
    by (auto simp: fence_grant_def grant_finished_def already_def split: option.splits)
next
  fix r n fo assume room: "audit_room r (Suc n)"
  then have "audit_room r n" by (auto simp: audit_room_def)
  moreover have "audit_room (r\<lparr>rg_grants := m\<rparr>) (Suc n)" for m using room by (simp add: audit_room_def)
  ultimately show "\<exists>fo' r'. fence_grant trigger at actor key (fo, r) = Some (status_ok, fo', r') \<and> audit_room r' n"
    by (fastforce simp: fence_grant_def Let_def split: option.splits dest!: append_audit_room)
qed (rule finished_evolves)

subsection \<open>Contracts\<close>

lemma fence_one_contract_cases:
  assumes "fence_one_contract trigger at actor key (fo, r) = Some (s, fo', r')"
  obtains (settled) "contract_finished key r" "s = status_ok" "fo' = fo \<or> fo' = already fo" "r' = r"
  | (fenced) c added where "find_contract r key = Some c"
      "append_audit at actor ''fence-contract'' (''contract='' @ uuid_to_string (co_id c)) Outcome_Fenced
        (fence_trigger_to_string trigger)
        (r\<lparr>rg_contracts := om_put key (fenced_contract trigger at c) (rg_contracts r)\<rparr>) = Some (s, r')"
      "fo' = fo\<lparr>fo_contracts_fenced := fo_contracts_fenced fo + 1\<rparr>"
      "r' = r\<lparr>rg_contracts := om_put key (fenced_contract trigger at c) (rg_contracts r),
             rg_audit := rg_audit r @ added\<rparr>"
  using assms
  by (fastforce simp: fence_one_contract_def contract_finished_def Let_def split: option.splits if_splits
      dest!: append_audit_frame)

interpretation fence_one_contract: fence_step "fence_one_contract trigger at actor key" "contract_finished key"
  for trigger at actor key
proof
  fix r fo s fo' r'
  assume ok: "registry_ok r" and step: "fence_one_contract trigger at actor key (fo, r) = Some (s, fo', r')"
  note cok = registry_ok_tables(5) [OF ok]
  show "registry_ok r'"
    using step
  proof (cases rule: fence_one_contract_cases)
    case (fenced c added)
    then have "contract_ok key (fenced_contract trigger at c)"
      using table_ok_find [OF cok, of key c] by (auto simp: find_contract_def contract_ok_def)
    then have "registry_ok (r\<lparr>rg_contracts := om_put key (fenced_contract trigger at c) (rg_contracts r)\<rparr>)"
      using fenced(1) ok cok by (auto simp: find_contract_def intro!: registry_ok_update table_ok_replace)
    then show ?thesis using fenced(2) append_audit_ok_keeps by blast
  qed (use ok in simp)
  show "evolves r r'"
    using step
  proof (cases rule: fence_one_contract_cases)
    case (fenced c added)
    then have "table_evolves contract_evolves (rg_contracts r) (rg_contracts r')"
      by (simp add: find_contract_def table_evolves_put contract_evolves_def)
    then show ?thesis using fenced(4) by (simp add: evolves_def table_evolves_refl)
  qed simp
  show "contract_finished key r'"
    using step
    by (cases rule: fence_one_contract_cases) (simp_all add: contract_finished_def find_contract_def om_find_put)
  show "fo_capacity_released fo' + outstanding r' = fo_capacity_released fo + outstanding r"
    using step by (cases rule: fence_one_contract_cases) (auto simp: already_def outstanding_def)
next
  fix r fo fo' r'
  assume "contract_finished key r" "fence_one_contract trigger at actor key (fo, r) = Some (status_ok, fo', r')"
  then show "r' = r \<and> fo_grants_fenced fo' = fo_grants_fenced fo \<and> fo_contracts_fenced fo' = fo_contracts_fenced fo
      \<and> fo_reservations_released fo' = fo_reservations_released fo
      \<and> fo_capacity_released fo' = fo_capacity_released fo"
    by (auto simp: fence_one_contract_def contract_finished_def already_def split: option.splits)
next
  fix r n fo assume room: "audit_room r (Suc n)"
  then have "audit_room r n" by (auto simp: audit_room_def)
  moreover have "audit_room (r\<lparr>rg_contracts := m\<rparr>) (Suc n)" for m using room by (simp add: audit_room_def)
  ultimately show "\<exists>fo' r'. fence_one_contract trigger at actor key (fo, r) = Some (status_ok, fo', r') \<and> audit_room r' n"
    by (fastforce simp: fence_one_contract_def Let_def split: option.splits dest!: append_audit_room)
qed (rule finished_evolves)

subsection \<open>Reservations\<close>

lemma fence_reservation_cases:
  assumes "registry_ok r" "fence_reservation at key (fo, r) = Some (s, fo', r')"
  obtains (settled) "reservation_finished key r" "s = status_ok" "fo' = already fo" "r' = r"
  | (released) rs where "om_find (rg_reservations r) key = Some rs" "rs_id rs = key" "\<not> rs_released rs"
      "fo_capacity_released fo' = fo_capacity_released fo + rs_amount rs"
      "r' = return_to_clusters (rs_endpoint rs) (rs_amount rs) at
        (r\<lparr>rg_reservations := om_put key (released_record at rs) (rg_reservations r)\<rparr>)"
proof (cases "om_find (rg_reservations r) key")
  case None
  then show thesis using assms(2)
    by (intro settled) (simp_all add: fence_reservation_def find_reservation_def reservation_finished_def)
next
  case (Some rs)
  have "rs_id rs = key"
    using table_ok_find [OF registry_ok_tables(7) [OF assms(1)] Some] by (simp add: reservation_ok_def)
  show thesis
  proof (cases "rs_released rs")
    case True
    then show ?thesis using assms(2) Some
      by (intro settled)
        (simp_all add: fence_reservation_def find_reservation_def reservation_finished_def release_reservation_def)
  next
    case False
    show ?thesis
      using assms(2) Some False
      by (intro released [OF Some \<open>rs_id rs = key\<close> False])
        (auto simp: fence_reservation_def find_reservation_def release_reservation_def \<open>rs_id rs = key\<close>)
  qed
qed

lemma outstanding_release:
  assumes "om_ok (rg_reservations r)" "om_find (rg_reservations r) key = Some rs" "\<not> rs_released rs"
  shows "rs_amount rs + outstanding (return_to_clusters e a at
      (r\<lparr>rg_reservations := om_put key (released_record at rs) (rg_reservations r)\<rparr>)) = outstanding r"
proof -
  obtain xs ys where "rg_reservations r = xs @ (key, rs) # ys"
    "om_put key (released_record at rs) (rg_reservations r) = xs @ (key, released_record at rs) # ys"
    using om_put_replace [OF assms(1,2)] by blast
  then show ?thesis using assms(3) by (simp add: outstanding_def)
qed

interpretation fence_reservation: fence_step "fence_reservation at key" "reservation_finished key" for at key
proof
  fix r fo s fo' r'
  assume ok: "registry_ok r" and step: "fence_reservation at key (fo, r) = Some (s, fo', r')"
  note rok = registry_ok_tables(7) [OF ok]
  show "registry_ok r'"
    using ok step
  proof (cases rule: fence_reservation_cases)
    case (released rs)
    then have "reservation_ok key (released_record at rs)"
      using table_ok_find [OF rok released(1)] by (simp add: reservation_ok_def)
    then have "registry_ok (r\<lparr>rg_reservations := om_put key (released_record at rs) (rg_reservations r)\<rparr>)"
      using ok rok released(1) by (auto intro!: registry_ok_update table_ok_replace)
    then show ?thesis using released(5) return_to_clusters_keeps by simp
  qed (use ok in simp)
  show "evolves r r'"
    using ok step
    by (cases rule: fence_reservation_cases)
      (simp_all add: evolves_def table_evolves_refl table_evolves_put reservation_evolves_def)
  show "reservation_finished key r'"
    using ok step
    by (cases rule: fence_reservation_cases)
      (simp_all add: reservation_finished_def find_reservation_def om_find_put)
  show "fo_capacity_released fo' + outstanding r' = fo_capacity_released fo + outstanding r"
    using ok step
  proof (cases rule: fence_reservation_cases)
    case (released rs)
    then show ?thesis using outstanding_release [OF table_ok_om [OF rok] released(1,3)] by (simp add: add.assoc)
  qed (simp add: already_def)
next
  fix r fo fo' r'
  assume "reservation_finished key r" "fence_reservation at key (fo, r) = Some (status_ok, fo', r')"
  then show "r' = r \<and> fo_grants_fenced fo' = fo_grants_fenced fo \<and> fo_contracts_fenced fo' = fo_contracts_fenced fo
      \<and> fo_reservations_released fo' = fo_reservations_released fo
      \<and> fo_capacity_released fo' = fo_capacity_released fo"
    by (auto simp: fence_reservation_def reservation_finished_def release_reservation_def already_def
        split: option.splits)
next
  fix r n fo assume "audit_room r (Suc n)"
  then show "\<exists>fo' r'. fence_reservation at key (fo, r) = Some (status_ok, fo', r') \<and> audit_room r' n"
    by (auto simp: fence_reservation_def release_reservation_def audit_room_def Let_def split: option.splits)
qed (rule finished_evolves)

section \<open>Whole plans\<close>

definition action_finished :: "fence_action \<Rightarrow> registry \<Rightarrow> bool" where
  "action_finished a r =
    (case fa_target a of
       FenceTarget_Grant \<Rightarrow> grant_finished (fa_grant a) r
     | FenceTarget_Contract \<Rightarrow> contract_finished (fa_contract a) r
     | FenceTarget_Reservation \<Rightarrow> reservation_finished (fa_reservation a) r)"

lemma apply_action_step: "fence_step (apply_action trigger at actor a) (action_finished a)"
  using fence_grant.fence_step_axioms [of trigger at actor "fa_grant a"]
    fence_one_contract.fence_step_axioms [of trigger at actor "fa_contract a"]
    fence_reservation.fence_step_axioms [of at "fa_reservation a"]
  unfolding apply_action_def [abs_def] action_finished_def [abs_def]
  by (cases "fa_target a") simp_all

interpretation apply_action: fence_step "apply_action trigger at actor a" "action_finished a"
  for trigger at actor a
  by (rule apply_action_step)

lemma apply_actions_keeps:
  "registry_ok r \<Longrightarrow> apply_actions trigger at actor as (fo, r) = Some (res, r') \<Longrightarrow> registry_ok r'"
  by (induction as arbitrary: r fo)
    (auto split: option.splits if_splits dest: apply_action.step_keeps)

lemma apply_actions_evolves:
  "registry_ok r \<Longrightarrow> apply_actions trigger at actor as (fo, r) = Some (res, r') \<Longrightarrow> evolves r r'"
proof (induction as arbitrary: r fo)
  case (Cons a as)
  obtain s fo1 r1 where a: "apply_action trigger at actor a (fo, r) = Some (s, fo1, r1)"
    using Cons.prems(2) by (auto split: option.splits)
  note ok1 = apply_action.step_keeps [OF Cons.prems(1) a] and ev = apply_action.step_evolves [OF Cons.prems(1) a]
  show ?case
    using Cons.prems(2) a Cons.IH [OF ok1, of fo1] ev by (auto split: if_splits intro: evolves_trans)
qed simp

lemma apply_actions_Cons:
  assumes "apply_actions trigger at actor (a # as) (fo, r) = Some (Inr fo', r')"
  obtains s fo1 r1 where "apply_action trigger at actor a (fo, r) = Some (s, fo1, r1)"
    "apply_actions trigger at actor as (fo1, r1) = Some (Inr fo', r')"
  using assms by (auto split: option.splits if_splits)

lemma apply_actions_finished:
  assumes "registry_ok r" "apply_actions trigger at actor as (fo, r) = Some (Inr fo', r')" "a \<in> set as"
  shows "action_finished a r'"
  using assms
proof (induction as arbitrary: r fo)
  case (Cons b as)
  obtain s fo1 r1 where b: "apply_action trigger at actor b (fo, r) = Some (s, fo1, r1)"
    and rest: "apply_actions trigger at actor as (fo1, r1) = Some (Inr fo', r')"
    using apply_actions_Cons [OF Cons.prems(2)] .
  have ok1: "registry_ok r1" using apply_action.step_keeps [OF Cons.prems(1) b] .
  have "action_finished b r'"
    using apply_action.finished_stays [OF apply_action.step_finished [OF Cons.prems(1) b]]
      apply_actions_evolves [OF ok1 rest] by blast
  then show ?case using Cons.IH [OF ok1 rest] Cons.prems(3) by auto
qed simp

lemma apply_actions_accounts:
  assumes "registry_ok r" "apply_actions trigger at actor as (fo, r) = Some (Inr fo', r')"
  shows "fo_capacity_released fo' + outstanding r' = fo_capacity_released fo + outstanding r"
  using assms
proof (induction as arbitrary: r fo)
  case (Cons b as)
  obtain s fo1 r1 where b: "apply_action trigger at actor b (fo, r) = Some (s, fo1, r1)"
    and rest: "apply_actions trigger at actor as (fo1, r1) = Some (Inr fo', r')"
    using apply_actions_Cons [OF Cons.prems(2)] .
  show ?case
    using Cons.IH [OF apply_action.step_keeps [OF Cons.prems(1) b] rest]
      apply_action.step_accounts [OF Cons.prems(1) b] by simp
qed auto

lemma apply_actions_room:
  "audit_room r (length as + n) \<Longrightarrow>
    \<exists>fo' r'. apply_actions trigger at actor as (fo, r) = Some (Inr fo', r') \<and> audit_room r' n"
proof (induction as arbitrary: r fo)
  case (Cons a as)
  obtain fo1 r1 where "apply_action trigger at actor a (fo, r) = Some (status_ok, fo1, r1)"
    "audit_room r1 (length as + n)"
    using apply_action.step_succeeds Cons.prems by fastforce
  then show ?case using Cons.IH by simp
qed simp

lemma apply_actions_succeeds:
  "audit_room r (length as) \<Longrightarrow> \<exists>fo' r'. apply_actions trigger at actor as (fo, r) = Some (Inr fo', r')"
  using apply_actions_room [of r as 0] by fastforce

text \<open>Once every action is finished, applying them changes nothing and counts nothing as new.\<close>

lemma apply_actions_again:
  assumes "\<forall>a \<in> set as. action_finished a r" "audit_room r (length as)"
  shows "\<exists>fo'. apply_actions trigger at actor as (fo, r) = Some (Inr fo', r)
    \<and> fo_grants_fenced fo' = fo_grants_fenced fo \<and> fo_contracts_fenced fo' = fo_contracts_fenced fo
    \<and> fo_reservations_released fo' = fo_reservations_released fo
    \<and> fo_capacity_released fo' = fo_capacity_released fo"
  using assms
proof (induction as arbitrary: fo)
  case (Cons a as)
  obtain fo1 r1 where a: "apply_action trigger at actor a (fo, r) = Some (status_ok, fo1, r1)"
    using apply_action.step_succeeds [of r "length as"] Cons.prems(2) by fastforce
  have "audit_room r (length as)" using Cons.prems(2) by (auto simp: audit_room_def)
  then show ?case
    using Cons.IH [of fo1] Cons.prems(1) apply_action.step_again [OF _ a] a by fastforce
qed simp

section \<open>Plans of the engine\<close>

lemma fence_contracts_complete:
  "length (fence_contracts r reason cluster cs acc) \<le> kMaxFencePlanEntries \<Longrightarrow>
    fence_contracts r reason cluster cs acc
      = acc @ concat (map (fence_contract r reason) (filter (\<lambda>c. contract_side_of c cluster \<noteq> None) cs))"
proof (induction cs arbitrary: acc)
  case (Cons c cs)
  show ?case
    using Cons.prems Cons.IH [of acc] Cons.IH [of "acc @ fence_contract r reason c"]
    by (auto simp: Let_def split: if_splits)
qed simp

lemma plan_fence_actions:
  assumes "length (fp_actions (plan_fence r trigger cluster i p gen term)) \<le> kMaxFencePlanEntries"
  shows "set (fp_actions (plan_fence r trigger cluster i p gen term))
    = (\<Union>c \<in> {c \<in> snd ` set (rg_contracts r). contract_side_of c cluster \<noteq> None}.
        set (fence_contract r (fence_reason trigger) c))"
proof -
  have "fp_actions (plan_fence r trigger cluster i p gen term)
      = concat (map (fence_contract r (fence_reason trigger))
          (filter (\<lambda>c. contract_side_of c cluster \<noteq> None) (map snd (rg_contracts r))))"
    using fence_contracts_complete [of r "fence_reason trigger" cluster "map snd (rg_contracts r)" "[]"] assms
    by (simp add: plan_fence_def)
  then show ?thesis by (simp del: not_None_eq)
qed

lemma plan_fence_grant_action:
  assumes "length (fp_actions (plan_fence r trigger cluster i p gen term)) \<le> kMaxFencePlanEntries"
    and "c \<in> snd ` set (rg_contracts r)" "contract_side_of c cluster \<noteq> None"
    and "g \<in> snd ` set (rg_grants r)" "gr_contract g = co_id c" "fenceable g"
  shows "grant_action (fence_reason trigger) (gr_id g) (co_id c)
    \<in> set (fp_actions (plan_fence r trigger cluster i p gen term))"
proof -
  have "g \<in> set (contract_grants r (co_id c))" using assms(4,5) by (auto simp: contract_grants_def)
  then have "grant_action (fence_reason trigger) (gr_id g) (co_id c)
      \<in> set (fence_contract r (fence_reason trigger) c)"
    using assms(6) by (fastforce simp: fence_contract_def)
  then show ?thesis
    using assms(2,3) unfolding plan_fence_actions [OF assms(1)] by blast
qed

lemma plan_fence_reservation_action:
  assumes "length (fp_actions (plan_fence r trigger cluster i p gen term)) \<le> kMaxFencePlanEntries"
    and "c \<in> snd ` set (rg_contracts r)" "contract_side_of c cluster \<noteq> None"
    and "g \<in> snd ` set (rg_grants r)" "gr_contract g = co_id c"
    and "rs \<in> snd ` set (rg_reservations r)" "rs_grant rs = gr_id g" "\<not> rs_released rs"
  shows "reservation_action (fence_reason trigger) (gr_id g) (co_id c) (rs_id rs)
    \<in> set (fp_actions (plan_fence r trigger cluster i p gen term))"
proof -
  have "g \<in> set (contract_grants r (co_id c))" using assms(4,5) by (auto simp: contract_grants_def)
  moreover have "rs \<in> set (open_reservations r (gr_id g))" using assms(6-8) by (auto simp: open_reservations_def)
  ultimately have "reservation_action (fence_reason trigger) (gr_id g) (co_id c) (rs_id rs)
      \<in> set (fence_contract r (fence_reason trigger) c)"
    by (fastforce simp: fence_contract_def)
  then show ?thesis
    using assms(2,3) unfolding plan_fence_actions [OF assms(1)] by blast
qed

text \<open>Every grant of a registry is found under its identity.\<close>

lemma table_in_iff:
  assumes "table_ok m bound P" "\<And>k v. P k v \<Longrightarrow> key v = k"
  shows "v \<in> snd ` set m \<longleftrightarrow> om_find m (key v) = Some v"
proof
  assume "v \<in> snd ` set m"
  then obtain k where k: "(k, v) \<in> set m" by auto
  then have "om_find m k = Some v" using in_om_find [OF table_ok_om [OF assms(1)]] by blast
  moreover have "key v = k" using assms(2) table_ok_find [OF assms(1) calculation] by blast
  ultimately show "om_find m (key v) = Some v" by simp
next
  assume "om_find m (key v) = Some v"
  then show "v \<in> snd ` set m" by (intro image_eqI [of v snd "(key v, v)"] om_find_in) simp_all
qed

lemma grant_in_iff: "registry_ok r \<Longrightarrow> g \<in> snd ` set (rg_grants r) \<longleftrightarrow> om_find (rg_grants r) (gr_id g) = Some g"
  by (rule table_in_iff [OF registry_ok_tables(6)]) (simp_all add: grant_ok_def)

lemma contract_in_iff:
  "registry_ok r \<Longrightarrow> c \<in> snd ` set (rg_contracts r) \<longleftrightarrow> om_find (rg_contracts r) (co_id c) = Some c"
  by (rule table_in_iff [OF registry_ok_tables(5)]) (simp_all add: contract_ok_def)

lemma reservation_in_iff:
  "registry_ok r \<Longrightarrow> rs \<in> snd ` set (rg_reservations r) \<longleftrightarrow> om_find (rg_reservations r) (rs_id rs) = Some rs"
  by (rule table_in_iff [OF registry_ok_tables(7)]) (simp_all add: reservation_ok_def)

text \<open>A grant of the later registry was one of the earlier, with the same contract.\<close>

lemma evolves_grant_back:
  assumes "registry_ok r" "registry_ok r'" "evolves r r'" "g' \<in> snd ` set (rg_grants r')"
  obtains g where "g \<in> snd ` set (rg_grants r)" "grant_evolves g g'" "gr_id g = gr_id g'"
proof -
  have "om_find (rg_grants r') (gr_id g') = Some g'" using assms grant_in_iff by blast
  then obtain g where g: "om_find (rg_grants r) (gr_id g') = Some g" "grant_evolves g g'"
    using assms(3) table_evolves_back [of grant_evolves "rg_grants r" "rg_grants r'" "gr_id g'" g']
    by (auto simp: evolves_def)
  moreover have "gr_id g = gr_id g'" using g(2) by (auto simp: grant_evolves_def)
  ultimately show thesis using that [of g] grant_in_iff [OF assms(1), of g] by simp
qed

lemma evolves_contract_back:
  assumes "registry_ok r" "registry_ok r'" "evolves r r'" "c' \<in> snd ` set (rg_contracts r')"
  obtains c where "c \<in> snd ` set (rg_contracts r)" "co_id c = co_id c'" "co_parties c = co_parties c'"
proof -
  have "om_find (rg_contracts r') (co_id c') = Some c'" using assms contract_in_iff by blast
  then obtain c where c: "om_find (rg_contracts r) (co_id c') = Some c" "contract_evolves c c'"
    using assms(3) table_evolves_back [of contract_evolves "rg_contracts r" "rg_contracts r'" "co_id c'" c']
    by (auto simp: evolves_def)
  moreover have "co_id c = co_id c'" "co_parties c = co_parties c'" using c(2) by (auto simp: contract_evolves_def)
  ultimately show thesis using that [of c] contract_in_iff [OF assms(1), of c] by simp
qed

lemma withdrawn_not_fenceable: "withdrawn_grant g \<Longrightarrow> \<not> fenceable g"
  by (auto simp: withdrawn_grant_def fenceable_def usable_state_def)

lemma usable_fenceable: "usable_state g \<Longrightarrow> fenceable g"
  by (simp add: fenceable_def)

lemma grant_finished_withdrawn:
  "grant_finished (gr_id g) r \<Longrightarrow> registry_ok r \<Longrightarrow> g \<in> snd ` set (rg_grants r) \<Longrightarrow> withdrawn_grant g"
  by (auto simp: grant_finished_def find_grant_def grant_in_iff)

lemma fenced_cluster_grants:
  assumes "registry_ok r"
    and bound: "length (fp_actions (plan_fence r trigger cluster i p gen term)) \<le> kMaxFencePlanEntries"
    and app: "apply_fence_plan (plan_fence r trigger cluster i p gen term) at actor r = Some (Inr fo, r')"
    and c': "c' \<in> snd ` set (rg_contracts r')" "contract_side_of c' cluster \<noteq> None"
    and g': "g' \<in> snd ` set (rg_grants r')" "gr_contract g' = co_id c'"
  shows "\<not> fenceable g'"
proof
  assume f: "fenceable g'"
  note app' = app [unfolded apply_fence_plan_def]
  have ok': "registry_ok r'" and ev: "evolves r r'"
    using apply_actions_keeps [OF assms(1) app'] apply_actions_evolves [OF assms(1) app'] .
  obtain g where g: "g \<in> snd ` set (rg_grants r)" "grant_evolves g g'" "gr_id g = gr_id g'"
    using evolves_grant_back [OF assms(1) ok' ev g'(1)] .
  obtain c where c: "c \<in> snd ` set (rg_contracts r)" "co_id c = co_id c'" "co_parties c = co_parties c'"
    using evolves_contract_back [OF assms(1) ok' ev c'(1)] .
  have same: "g' = g" using g(2) f withdrawn_not_fenceable by (auto simp: grant_evolves_def)
  have "grant_action (fence_reason trigger) (gr_id g) (co_id c)
      \<in> set (fp_actions (plan_fence r trigger cluster i p gen term))"
  proof (rule plan_fence_grant_action [OF bound c(1) _ g(1)])
    show "contract_side_of c cluster \<noteq> None" using c'(2) c(3) by (simp add: contract_side_of_def)
    show "gr_contract g = co_id c" "fenceable g" using g'(2) c(2) f same by simp_all
  qed
  from apply_actions_finished [OF assms(1) app' this] have "grant_finished (gr_id g') r'"
    by (simp add: action_finished_def grant_action_def g(3))
  then show False using grant_finished_withdrawn ok' g'(1) withdrawn_not_fenceable f by blast
qed

lemma unusable_contract:
  assumes "\<And>g. g \<in> snd ` set (rg_grants r) \<Longrightarrow> gr_contract g = co_id c \<Longrightarrow> \<not> fenceable g"
  shows "\<not> contract_authorizes r q v c"
proof (cases "select_grant r (co_id c)")
  case (Some g)
  then show ?thesis
    using assms [OF select_grant_latest(1,2) [OF Some]] usable_fenceable
    by (auto simp: contract_authorizes_def grant_current_def)
qed (simp add: contract_authorizes_def)

lemma recovered_state_grants:
  assumes "registry_ok r" "fence_recovered_state at actor prev term r = Some (Inr fo, r')"
    and g': "g' \<in> snd ` set (rg_grants r')"
  shows "\<not> fenceable g'"
proof
  assume f: "fenceable g'"
  note app' = assms(2) [unfolded fence_recovered_state_def apply_fence_plan_def]
  have ok': "registry_ok r'" and ev: "evolves r r'"
    using apply_actions_keeps [OF assms(1) app'] apply_actions_evolves [OF assms(1) app'] .
  obtain g where g: "g \<in> snd ` set (rg_grants r)" "grant_evolves g g'" "gr_id g = gr_id g'"
    using evolves_grant_back [OF assms(1) ok' ev g'] .
  have same: "g' = g" using g(2) f withdrawn_not_fenceable by (auto simp: grant_evolves_def)
  have "grant_action ReasonCode_EvidenceRecoveredFromStore (gr_id g) (gr_contract g)
      \<in> set (fp_actions (recovered_plan r prev term))"
    using g(1) f same by (auto simp: recovered_plan_def fenceable_def grant_closed_def usable_state_def)
  from apply_actions_finished [OF assms(1) app' this] have "grant_finished (gr_id g') r'"
    by (simp add: action_finished_def grant_action_def g(3))
  then show False using grant_finished_withdrawn ok' g' withdrawn_not_fenceable f by blast
qed

lemma recovered_state_reservations:
  assumes "registry_ok r" "fence_recovered_state at actor prev term r = Some (Inr fo, r')"
    and rs': "rs' \<in> snd ` set (rg_reservations r')"
  shows "rs_released rs'"
proof (rule ccontr)
  assume f: "\<not> rs_released rs'"
  note app' = assms(2) [unfolded fence_recovered_state_def apply_fence_plan_def]
  have ok': "registry_ok r'" and ev: "evolves r r'"
    using apply_actions_keeps [OF assms(1) app'] apply_actions_evolves [OF assms(1) app'] .
  have find': "om_find (rg_reservations r') (rs_id rs') = Some rs'" using rs' ok' reservation_in_iff by blast
  then have "om_find (rg_reservations r) (rs_id rs') = Some rs'"
    using ev table_evolves_back [of reservation_evolves "rg_reservations r" "rg_reservations r'" "rs_id rs'" rs'] f
    by (auto simp: evolves_def reservation_evolves_def)
  then have "rs' \<in> snd ` set (rg_reservations r)" using assms(1) reservation_in_iff by blast
  then have "reservation_action ReasonCode_EvidenceRecoveredFromStore (rs_grant rs') nil_uuid (rs_id rs')
      \<in> set (fp_actions (recovered_plan r prev term))"
    using f by (auto simp: recovered_plan_def)
  from apply_actions_finished [OF assms(1) app' this] find' f show False
    by (simp add: action_finished_def reservation_action_def reservation_finished_def find_reservation_def)
qed

lemma recovered_state_outstanding:
  assumes "registry_ok r" "fence_recovered_state at actor prev term r = Some (Inr fo, r')"
  shows "fo_capacity_released fo = outstanding r" "outstanding r' = 0"
proof -
  have "map (\<lambda>e. if rs_released (snd e) then 0 else rs_amount (snd e)) (rg_reservations r')
      = map (\<lambda>_. 0) (rg_reservations r')"
    using recovered_state_reservations [OF assms] by (intro map_cong refl) simp
  then show "outstanding r' = 0" unfolding outstanding_def by (simp only: sum_list_0)
  then show "fo_capacity_released fo = outstanding r"
    using apply_actions_accounts [OF assms(1) assms(2) [unfolded fence_recovered_state_def apply_fence_plan_def]]
    by (simp add: no_fence_def)
qed

end
