(* ===== verification/Mutation.thy ===== *)
theory Mutation
  imports Canonical_Registry
begin

text \<open>
  \<open>store/mutation.hpp\<close> and \<open>store/mutation.cpp\<close>: the persisted changes of the registry, their encoding
  and their application, which the live path and the recovery share. The source's \<open>Mutation\<close> is a
  struct with a kind and one record per kind, of which only the kind's own is read or written; the
  model is the tagged union. \<open>None\<close> as the result of an application is the exception of the audit
  trail.
\<close>

datatype mutation =
    Mutation_Invalid
  | Mutation_ClusterPut cluster_record
  | Mutation_ClusterErase cluster_record
  | Mutation_LinkPut link_record
  | Mutation_LinkErase link_record
  | Mutation_PathPut path_record
  | Mutation_PathErase path_record
  | Mutation_PolicyPut policy_rule
  | Mutation_PolicyErase policy_rule
  | Mutation_ContractPut contract_record
  | Mutation_ContractErase contract_record
  | Mutation_GrantPut grant_record
  | Mutation_GrantErase grant_record
  | Mutation_ReservationPut reservation_record
  | Mutation_AuditAppend audit_record
  | Mutation_MetaSet u64 incarnation_id

fun mutation_kind :: "mutation \<Rightarrow> u16" where
  "mutation_kind Mutation_Invalid = 0"
| "mutation_kind (Mutation_ClusterPut _) = 1"
| "mutation_kind (Mutation_ClusterErase _) = 2"
| "mutation_kind (Mutation_LinkPut _) = 3"
| "mutation_kind (Mutation_LinkErase _) = 4"
| "mutation_kind (Mutation_PathPut _) = 5"
| "mutation_kind (Mutation_PathErase _) = 6"
| "mutation_kind (Mutation_PolicyPut _) = 7"
| "mutation_kind (Mutation_PolicyErase _) = 8"
| "mutation_kind (Mutation_ContractPut _) = 9"
| "mutation_kind (Mutation_ContractErase _) = 10"
| "mutation_kind (Mutation_GrantPut _) = 11"
| "mutation_kind (Mutation_GrantErase _) = 12"
| "mutation_kind (Mutation_ReservationPut _) = 13"
| "mutation_kind (Mutation_AuditAppend _) = 14"
| "mutation_kind (Mutation_MetaSet _ _) = 15"

fun mutation_kind_to_string :: "mutation \<Rightarrow> string" where
  "mutation_kind_to_string Mutation_Invalid = ''INVALID''"
| "mutation_kind_to_string (Mutation_ClusterPut _) = ''CLUSTER_PUT''"
| "mutation_kind_to_string (Mutation_ClusterErase _) = ''CLUSTER_ERASE''"
| "mutation_kind_to_string (Mutation_LinkPut _) = ''LINK_PUT''"
| "mutation_kind_to_string (Mutation_LinkErase _) = ''LINK_ERASE''"
| "mutation_kind_to_string (Mutation_PathPut _) = ''PATH_PUT''"
| "mutation_kind_to_string (Mutation_PathErase _) = ''PATH_ERASE''"
| "mutation_kind_to_string (Mutation_PolicyPut _) = ''POLICY_PUT''"
| "mutation_kind_to_string (Mutation_PolicyErase _) = ''POLICY_ERASE''"
| "mutation_kind_to_string (Mutation_ContractPut _) = ''CONTRACT_PUT''"
| "mutation_kind_to_string (Mutation_ContractErase _) = ''CONTRACT_ERASE''"
| "mutation_kind_to_string (Mutation_GrantPut _) = ''GRANT_PUT''"
| "mutation_kind_to_string (Mutation_GrantErase _) = ''GRANT_ERASE''"
| "mutation_kind_to_string (Mutation_ReservationPut _) = ''RESERVATION_PUT''"
| "mutation_kind_to_string (Mutation_AuditAppend _) = ''AUDIT_APPEND''"
| "mutation_kind_to_string (Mutation_MetaSet _ _) = ''META_SET''"

definition mutation_kind_known :: "u16 \<Rightarrow> bool" where
  "mutation_kind_known kind \<longleftrightarrow> kind \<noteq> 0 \<and> kind \<le> 15"

fun encode_body :: "mutation \<Rightarrow> bytes" where
  "encode_body Mutation_Invalid = []"
| "encode_body (Mutation_ClusterPut x) = encode_cluster x"
| "encode_body (Mutation_ClusterErase x) = encode_cluster x"
| "encode_body (Mutation_LinkPut x) = encode_link x"
| "encode_body (Mutation_LinkErase x) = encode_link x"
| "encode_body (Mutation_PathPut x) = encode_path x"
| "encode_body (Mutation_PathErase x) = encode_path x"
| "encode_body (Mutation_PolicyPut x) = encode_policy x"
| "encode_body (Mutation_PolicyErase x) = encode_policy x"
| "encode_body (Mutation_ContractPut x) = encode_contract x"
| "encode_body (Mutation_ContractErase x) = encode_contract x"
| "encode_body (Mutation_GrantPut x) = encode_grant x"
| "encode_body (Mutation_GrantErase x) = encode_grant x"
| "encode_body (Mutation_ReservationPut x) = encode_reservation x"
| "encode_body (Mutation_AuditAppend x) = encode_audit x"
| "encode_body (Mutation_MetaSet term incarnation) = w_u64 term @ w_uuid incarnation"

definition encode_mutation :: "mutation \<Rightarrow> bytes" where
  "encode_mutation m = w_u16 (mutation_kind m) @ encode_body m"

definition decode_meta :: "mutation reader" where
  "decode_meta =
    and_then r_u64 (\<lambda>term.
    require (\<not> term > kMaxGeneration)
      (status_make Outcome_Overflow ''term exceeds the maximum supported value'')
    (and_then r_uuid (\<lambda>incarnation. give (Mutation_MetaSet term incarnation))))"

definition decode_body :: "u16 \<Rightarrow> mutation reader" where
  "decode_body kind =
    (if kind = 1 then and_then decode_cluster (\<lambda>x. give (Mutation_ClusterPut x))
     else if kind = 2 then and_then decode_cluster (\<lambda>x. give (Mutation_ClusterErase x))
     else if kind = 3 then and_then decode_link (\<lambda>x. give (Mutation_LinkPut x))
     else if kind = 4 then and_then decode_link (\<lambda>x. give (Mutation_LinkErase x))
     else if kind = 5 then and_then decode_path (\<lambda>x. give (Mutation_PathPut x))
     else if kind = 6 then and_then decode_path (\<lambda>x. give (Mutation_PathErase x))
     else if kind = 7 then and_then decode_policy (\<lambda>x. give (Mutation_PolicyPut x))
     else if kind = 8 then and_then decode_policy (\<lambda>x. give (Mutation_PolicyErase x))
     else if kind = 9 then and_then decode_contract (\<lambda>x. give (Mutation_ContractPut x))
     else if kind = 10 then and_then decode_contract (\<lambda>x. give (Mutation_ContractErase x))
     else if kind = 11 then and_then decode_grant (\<lambda>x. give (Mutation_GrantPut x))
     else if kind = 12 then and_then decode_grant (\<lambda>x. give (Mutation_GrantErase x))
     else if kind = 13 then and_then decode_reservation (\<lambda>x. give (Mutation_ReservationPut x))
     else if kind = 14 then and_then decode_audit (\<lambda>x. give (Mutation_AuditAppend x))
     else if kind = 15 then decode_meta
     else refuse (invalid ''mutation kind is not recognised''))"

definition decode_mutation :: "mutation reader" where
  "decode_mutation =
    and_then r_u16 (\<lambda>kind.
    require (mutation_kind_known kind) (invalid ''mutation kind is not recognised'')
    (decode_body kind))"

definition need :: "bool \<Rightarrow> string \<Rightarrow> status" where
  "need ok msg = (if \<not> ok then invalid msg else status_ok)"

fun validate_mutation :: "registry \<Rightarrow> mutation \<Rightarrow> status" where
  "validate_mutation r (Mutation_ClusterPut c) =
    (if cl_id c = [] then invalid ''cluster mutation requires an identity''
     else if find_cluster r (cl_id c) = None \<and> length (rg_clusters r) \<ge> kMaxClusters
     then status_make Outcome_CapacityExceeded ''cluster registry is full''
     else if length (cl_endpoints c) > kMaxEndpointsPerCluster
     then status_make Outcome_CapacityExceeded ''cluster declares too many endpoints''
     else status_ok)"
| "validate_mutation r (Mutation_ClusterErase c) = need (cl_id c \<noteq> []) ''cluster erase requires an identity''"
| "validate_mutation r (Mutation_LinkPut l) =
    (if ln_id l = [] \<or> ln_a l = [] \<or> ln_b l = []
     then invalid ''link mutation requires an identity and two endpoints''
     else if ln_reserved l > ln_capacity l
     then status_make Outcome_CapacityExceeded ''link reservations exceed declared capacity''
     else status_ok)"
| "validate_mutation r (Mutation_LinkErase l) = need (ln_id l \<noteq> []) ''link erase requires an identity''"
| "validate_mutation r (Mutation_PathPut p) =
    (if pa_id p = [] \<or> pa_hops p = []
     then invalid ''path mutation requires an identity and at least one hop''
     else if length (pa_hops p) > kMaxPathHops
     then status_make Outcome_CapacityExceeded ''path declares too many hops''
     else status_ok)"
| "validate_mutation r (Mutation_PathErase p) = need (pa_id p \<noteq> []) ''path erase requires an identity''"
| "validate_mutation r (Mutation_PolicyPut p) = need (pr_id p \<noteq> []) ''policy mutation requires an identity''"
| "validate_mutation r (Mutation_PolicyErase p) = need (pr_id p \<noteq> []) ''policy erase requires an identity''"
| "validate_mutation r (Mutation_ContractPut c) =
    need (\<not> is_nil (co_id c)) ''contract mutation requires an identity''"
| "validate_mutation r (Mutation_ContractErase c) =
    need (\<not> is_nil (co_id c)) ''contract erase requires an identity''"
| "validate_mutation r (Mutation_GrantPut g) =
    (if is_nil (gr_id g) then invalid ''grant mutation requires an identity''
     else need (find_contract r (gr_contract g) \<noteq> None) ''grant mutation references an unknown contract'')"
| "validate_mutation r (Mutation_GrantErase g) = need (\<not> is_nil (gr_id g)) ''grant erase requires an identity''"
| "validate_mutation r (Mutation_ReservationPut rs) =
    (if is_nil (rs_id rs) then invalid ''reservation mutation requires an identity''
     else need (find_grant r (rs_grant rs) \<noteq> None) ''reservation mutation references an unknown grant'')"
| "validate_mutation r (Mutation_AuditAppend a) = status_ok"
| "validate_mutation r (Mutation_MetaSet term incarnation) = status_ok"
| "validate_mutation r Mutation_Invalid = invalid ''mutation kind is not recognised''"

fun run_mutation :: "mutation \<Rightarrow> registry \<Rightarrow> (status \<times> registry) option" where
  "run_mutation (Mutation_ClusterPut c) r = Some (put_cluster c r)"
| "run_mutation (Mutation_ClusterErase c) r = Some (erase_cluster (cl_id c) r)"
| "run_mutation (Mutation_LinkPut l) r = Some (put_link l r)"
| "run_mutation (Mutation_LinkErase l) r = Some (erase_link (ln_id l) r)"
| "run_mutation (Mutation_PathPut p) r = Some (put_path p r)"
| "run_mutation (Mutation_PathErase p) r = Some (erase_path (pa_id p) r)"
| "run_mutation (Mutation_PolicyPut p) r = Some (put_policy p r)"
| "run_mutation (Mutation_PolicyErase p) r = Some (erase_policy (pr_id p) r)"
| "run_mutation (Mutation_ContractPut c) r = Some (put_contract c r)"
| "run_mutation (Mutation_ContractErase c) r = Some (erase_contract (co_id c) r)"
| "run_mutation (Mutation_GrantPut g) r = Some (put_grant g r)"
| "run_mutation (Mutation_GrantErase g) r = Some (erase_grant (gr_id g) r)"
| "run_mutation (Mutation_ReservationPut rs) r = Some (put_reservation rs r)"
| "run_mutation (Mutation_AuditAppend a) r = registry_append_audit a r"
| "run_mutation (Mutation_MetaSet term incarnation) r = Some (status_ok, r)"
| "run_mutation Mutation_Invalid r = Some (invalid ''mutation kind is not recognised'', r)"

definition apply_mutation :: "mutation \<Rightarrow> registry \<Rightarrow> (status \<times> registry) option" where
  "apply_mutation m r =
    (if is_ok (validate_mutation r m) then run_mutation m r else Some (validate_mutation r m, r))"

section \<open>Laws\<close>

lemmas run_keeps = put_keeps erase_cluster.run_keeps erase_link.run_keeps erase_path.run_keeps
  erase_policy.run_keeps erase_contract.run_keeps erase_grant.run_keeps

lemmas run_failed = put_cluster.run_failed put_link.run_failed put_path.run_failed put_policy.run_failed
  put_contract.run_failed put_grant.run_failed put_reservation.run_failed erase_cluster.run_failed
  erase_link.run_failed erase_path.run_failed erase_policy.run_failed erase_contract.run_failed
  erase_grant.run_failed

lemma run_mutation_keeps:
  assumes "registry_ok r" "run_mutation m r = Some (s, r')"
  shows "registry_ok r'"
  using assms run_keeps [of r]
  by (cases m) (auto dest: append_audit_keeps; metis snd_conv)+

lemma run_mutation_failed:
  assumes "run_mutation m r = Some (s, r')" "\<not> is_ok s"
  shows "r' = r"
  using assms run_failed [of _ r]
  by (cases m) (auto dest: append_audit_failed; metis fst_conv snd_conv)+

lemma apply_mutation_keeps: "registry_ok r \<Longrightarrow> apply_mutation m r = Some (s, r') \<Longrightarrow> registry_ok r'"
  by (auto simp: apply_mutation_def split: if_splits dest: run_mutation_keeps)

lemma apply_mutation_failed: "apply_mutation m r = Some (s, r') \<Longrightarrow> \<not> is_ok s \<Longrightarrow> r' = r"
  by (auto simp: apply_mutation_def split: if_splits dest: run_mutation_failed)

text \<open>Only the audit trail's last sequence number makes an application raise.\<close>

lemma apply_mutation_raises:
  assumes "apply_mutation m r = None"
  obtains a where "m = Mutation_AuditAppend a" "rg_audit r \<noteq> []" "au_sequence (last (rg_audit r)) = - 1"
  using assms
  by (cases m)
    (auto simp: apply_mutation_def registry_append_audit_def counter_next_def counter_increment_def
      split: if_splits sum.splits)

subsection \<open>The codec\<close>

fun mutation_wire :: "mutation \<Rightarrow> bool" where
  "mutation_wire Mutation_Invalid = False"
| "mutation_wire (Mutation_ClusterPut x) = cluster_wire x"
| "mutation_wire (Mutation_ClusterErase x) = cluster_wire x"
| "mutation_wire (Mutation_LinkPut x) = link_wire x"
| "mutation_wire (Mutation_LinkErase x) = link_wire x"
| "mutation_wire (Mutation_PathPut x) = path_wire x"
| "mutation_wire (Mutation_PathErase x) = path_wire x"
| "mutation_wire (Mutation_PolicyPut x) = policy_wire x"
| "mutation_wire (Mutation_PolicyErase x) = policy_wire x"
| "mutation_wire (Mutation_ContractPut x) = contract_wire x"
| "mutation_wire (Mutation_ContractErase x) = contract_wire x"
| "mutation_wire (Mutation_GrantPut x) = grant_wire x"
| "mutation_wire (Mutation_GrantErase x) = grant_wire x"
| "mutation_wire (Mutation_ReservationPut x) = reservation_wire x"
| "mutation_wire (Mutation_AuditAppend x) = audit_wire x"
| "mutation_wire (Mutation_MetaSet term incarnation) \<longleftrightarrow> term \<le> kMaxGeneration \<and> uuid_ok incarnation"

lemma decode_body_enc: "mutation_wire m \<Longrightarrow> decode_body (mutation_kind m) (encode_body m @ rest) = Inr (m, rest)"
  by (cases m)
    (simp_all add: decode_body_def decode_meta_def codec_simps cluster.dec_step link.dec_step path.dec_step
      policy.dec_step contract.dec_step grant.dec_step reservation.dec_step audit.dec_step not_less)

lemma mutation_wire_known: "mutation_wire m \<Longrightarrow> mutation_kind_known (mutation_kind m)"
  by (cases m) (simp_all add: mutation_kind_known_def)

interpretation mutation: codec encode_mutation decode_mutation mutation_wire
  by unfold_locales
    (simp add: decode_mutation_def encode_mutation_def u16.dec_step mutation_wire_known decode_body_enc)

end
