(* ===== verification/Sample.thy ===== *)
theory Sample
  imports Fencing_Laws Mutation
begin

text \<open>
  A small deployment on which the general theorems are instantiated: two clusters in two authority
  domains, one link and one path between their endpoints, an allow rule of each domain, a contract
  both sides consented to, and a committed grant with its two reservations.
\<close>

definition uid :: "nat \<Rightarrow> uuid" where
  "uid n = replicate 15 0 @ [word_of_nat n]"

definition sample_endpoint :: "endpoint_id \<Rightarrow> cluster_id \<Rightarrow> endpoint_record" where
  "sample_endpoint e c =
    \<lparr>ep_id = e, ep_cluster = c, ep_scope = ''/x'', ep_capacity = 100, ep_reserved = 10,
     ep_policy_generation = 1, ep_state = EndpointState_Active, ep_inter_cluster_allowed = True,
     ep_permits_degraded = False, ep_provenance = default_provenance\<rparr>"

definition sample_cluster :: "cluster_id \<Rightarrow> domain_id \<Rightarrow> nat \<Rightarrow> endpoint_id \<Rightarrow> cluster_record" where
  "sample_cluster c d n e =
    \<lparr>cl_id = c, cl_domain = d, cl_incarnation = uid n, cl_generation = 1, cl_policy_generation = 1,
     cl_state = ClusterState_Active, cl_consent_withdrawn = False, cl_last_seen = 0,
     cl_endpoints = [sample_endpoint e c], cl_content_digest = zero_digest,
     cl_generation_conflict = False, cl_conflicting_generation = None, cl_revision = 0,
     cl_provenance = default_provenance, cl_incarnation_changes = 0\<rparr>"

definition sample_link :: link_record where
  "sample_link =
    \<lparr>ln_id = ''l'', ln_a = ''ea'', ln_b = ''eb'', ln_kind = LinkKind_LoopbackTcp, ln_state = LinkState_Up,
     ln_capacity = 100, ln_reserved = 0, ln_latency_micros = 5, ln_revision = 0,
     ln_provenance = default_provenance\<rparr>"

definition sample_path :: path_record where
  "sample_path =
    \<lparr>pa_id = ''p'', pa_a = ''ea'', pa_b = ''eb'', pa_hops = [''l''], pa_bottleneck = 100,
     pa_state = PathState_Up, pa_revision = 0, pa_provenance = default_provenance,
     pa_contains_unsupported_edge = False\<rparr>"

definition sample_rule :: "string \<Rightarrow> domain_id \<Rightarrow> policy_rule" where
  "sample_rule i d =
    \<lparr>pr_id = i, pr_owner = d, pr_cluster_a = [], pr_cluster_b = [], pr_endpoint_a = [], pr_endpoint_b = [],
     pr_generation = 1, pr_allow = True, pr_allow_degraded = True, pr_max_capacity = 0, pr_revision = 0,
     pr_provenance = default_provenance\<rparr>"

definition sample_consent :: "cluster_id \<Rightarrow> endpoint_id \<Rightarrow> nat \<Rightarrow> consent_record" where
  "sample_consent c e n =
    \<lparr>cs_cluster = c, cs_endpoint = e, cs_incarnation = uid n, cs_generation = 1, cs_policy_generation = 1,
     cs_agent_term = 1, cs_terms_digest = zero_digest, cs_decision = ConsentDecision_Accepted,
     cs_decided_at = 0, cs_session = uid 9, cs_authenticity = TransportAuthenticity_None, cs_reason = []\<rparr>"

definition sample_contract :: contract_record where
  "sample_contract =
    \<lparr>co_id = uid 20,
     co_parties = (\<lparr>pt_cluster = ''a'', pt_endpoint = ''ea'', pt_domain = ''n''\<rparr>,
                   \<lparr>pt_cluster = ''b'', pt_endpoint = ''eb'', pt_domain = ''s''\<rparr>),
     co_capacity = 10, co_lease_duration = 1000, co_terms_digest = zero_digest,
     co_state = ContractState_Active,
     co_consents = (Some (sample_consent ''a'' ''ea'' 1), Some (sample_consent ''b'' ''eb'' 2)),
     co_created_at = 0, co_updated_at = 0, co_revision = 0, co_provenance = default_provenance\<rparr>"

definition sample_grant :: grant_record where
  "sample_grant =
    \<lparr>gr_id = uid 30, gr_contract = uid 20, gr_terms_digest = zero_digest, gr_coordinator_term = 7,
     gr_coordinator = uid 3, gr_attempt = uid 4, gr_incarnations = (uid 1, uid 2), gr_generations = (1, 1),
     gr_policies = (1, 1), gr_capacity = 10, gr_issued_at = 0, gr_valid_until = 1000,
     gr_state = GrantState_Committed, gr_acknowledged = (True, True),
     gr_enforcement_digest = (zero_digest, zero_digest), gr_revalidate_attempts = 0, gr_note = [],
     gr_revision = 0, gr_provenance = default_provenance\<rparr>"

definition sample_reservation :: "nat \<Rightarrow> endpoint_id \<Rightarrow> cluster_id \<Rightarrow> reservation_record" where
  "sample_reservation n e c =
    \<lparr>rs_id = uid n, rs_grant = uid 30, rs_endpoint = e, rs_cluster = c, rs_amount = 10, rs_released = False,
     rs_created_at = 0, rs_released_at = 0, rs_revision = 0, rs_provenance = default_provenance\<rparr>"

definition sample_registry :: registry where
  "sample_registry =
    \<lparr>rg_clusters = [(''a'', sample_cluster ''a'' ''n'' 1 ''ea''), (''b'', sample_cluster ''b'' ''s'' 2 ''eb'')],
     rg_links = [(''l'', sample_link)],
     rg_paths = [(''p'', sample_path)],
     rg_policies = [(''r1'', sample_rule ''r1'' ''n''), (''r2'', sample_rule ''r2'' ''s'')],
     rg_contracts = [(uid 20, sample_contract)],
     rg_grants = [(uid 30, sample_grant)],
     rg_reservations = [(uid 40, sample_reservation 40 ''ea'' ''a''), (uid 41, sample_reservation 41 ''eb'' ''b'')],
     rg_audit = []\<rparr>"

definition sample_query :: decision_query where
  "sample_query =
    \<lparr>qy_source = ''ea'', qy_target = ''eb'', qy_requested_capacity = 10, qy_at = 0, qy_allow_degraded = False,
     qy_expect_source_generation = False, qy_source_generation = 0, qy_expect_target_generation = False,
     qy_target_generation = 0\<rparr>"

definition sample_view :: engine_view where
  "sample_view = \<lparr>vw_term = 7, vw_incarnation = uid 3, vw_now = 500\<rparr>"

lemmas sample_defs = uid_def sample_endpoint_def sample_cluster_def sample_link_def sample_path_def
  sample_rule_def sample_consent_def sample_contract_def sample_grant_def sample_reservation_def
  sample_registry_def sample_query_def sample_view_def

lemma uid_ok [simp]: "uuid_ok (uid n)"
  by (simp add: uuid_ok_def uid_def)

lemma is_nil_uid [simp]: "is_nil (uid n) \<longleftrightarrow> (word_of_nat n :: byte) = 0"
  by (auto simp: is_nil_def uid_def list_all_iff)

lemma uid_less: "uid m < uid n \<longleftrightarrow> (word_of_nat m :: byte) < word_of_nat n"
  by (simp add: uid_def numeral_eq_Suc)

lemma sample_endpoints_ok: "endpoints_ok c [sample_endpoint e c]"
  by (simp add: endpoints_ok_def kMaxEndpointsPerCluster_def sample_endpoint_def)

lemma sample_registry_ok: "registry_ok sample_registry"
  by (simp add: registry_ok_def table_ok_def om_ok_def audit_ok_def sample_registry_def count_limits
      cluster_ok_def sample_cluster_def sample_endpoints_ok link_ok_def sample_link_def
      path_ok_def sample_path_def policy_ok_def sample_rule_def contract_ok_def sample_contract_def
      grant_ok_def sample_grant_def reservation_ok_def sample_reservation_def kMaxCapacity_def uid_less)

lemma sample_names [simp]:
  "name_ok id_tag ''a''" "name_ok id_tag ''b''" "name_ok id_tag ''n''" "name_ok id_tag ''s''"
  "name_ok id_tag ''ea''" "name_ok id_tag ''eb''" "name_ok id_tag ''l''" "name_ok id_tag ''p''"
  "name_ok scope_tag ''/x''"
  by (simp_all add: name_ok_def name_parse_def id_tag_def scope_tag_def is_alnum_def is_extra_def
      kMaxNameLength_def kMaxScopeLength_def)

lemma sample_notes [simp]: "note_ok []" "note_ok ''r1''" "note_ok ''r2''" "wild_ok []"
  by (simp_all add: note_ok_def text_ok_def kMaxText_def kMaxStringField_def wild_ok_def
      ascii_string_valid_utf8 bytes_of_string_def)
    (simp_all add: ascii_valid_utf8 byte_of_char_def)

lemma default_provenance_wire [simp]: "provenance_wire default_provenance"
  by (simp add: provenance_wire_def default_provenance_def i64_ok_def)

lemma sample_registry_wire: "registry_wire sample_registry"
  by (simp add: registry_wire_def sample_registry_def count_limits cluster_wire_def sample_cluster_def
      endpoint_wire_def sample_endpoint_def link_wire_def sample_link_def path_wire_def sample_path_def
      policy_wire_def sample_rule_def contract_wire_def sample_contract_def party_wire_def slot_wire_def
      consent_wire_def sample_consent_def grant_wire_def sample_grant_def binding_wire_def
      reservation_wire_def sample_reservation_def kMaxCapacity_def kMaxGeneration_def kMaxDurationNanos_def
      kMaxRevalidateAttempts_def i64_ok_def)

lemma sample_authorized: "authorization_spec sample_registry sample_query sample_view"
  by code_simp

end
