(* ===== verification/Registry_Paths.thy ===== *)
theory Registry_Paths
  imports Registry_Invariant
begin

text \<open>
  The path states \<open>recompute_path_states\<close> derives from the links: a path is up exactly when each of
  its hops is a registered, supported link that is up, it is usable exactly when no hop is worse
  than degraded, and the bottleneck of a usable path is the least capacity along it.
\<close>

definition hop_is :: "link_state set \<Rightarrow> (edge_id, link_record) omap \<Rightarrow> edge_id \<Rightarrow> bool" where
  "hop_is S links hop \<longleftrightarrow>
    (case om_find links hop of
       None \<Rightarrow> False
     | Some link \<Rightarrow> link_kind_supported (ln_kind link) \<and> ln_state link \<in> S)"

definition hop_capacity :: "(edge_id, link_record) omap \<Rightarrow> edge_id \<Rightarrow> u64" where
  "hop_capacity links hop = (case om_find links hop of None \<Rightarrow> 0 | Some link \<Rightarrow> ln_capacity link)"

text \<open>A scan that has met a hop it cannot vouch for never calls the path usable again.\<close>

lemma scan_hops_not_usable:
  "st \<in> {PathState_Unknown, PathState_Down} \<Longrightarrow> fst (scan_hops links hops (st, b, f, u)) \<in> {PathState_Unknown, PathState_Down}"
proof (induction hops arbitrary: st b f u)
  case (Cons hop hops)
  show ?case
  proof (cases "om_find links hop")
    case (Some link)
    have "fst (hop_state (ln_state link) st u) \<in> {PathState_Unknown, PathState_Down}"
      using Cons.prems by (cases "ln_state link") auto
    then show ?thesis using Some Cons.IH by (auto simp: split_beta Let_def)
  qed simp
qed simp

text \<open>One hop over a supported link that does not end the scan.\<close>

lemma scan_hops_step:
  assumes "om_find links hop = Some link" "link_kind_supported (ln_kind link)"
    and "hop_state (ln_state link) st u = (st', u')" "st' \<noteq> PathState_Down"
  shows "scan_hops links (hop # hops) (st, b, f, u)
    = scan_hops links hops (st', if f \<or> ln_capacity link < b then ln_capacity link else b, False, u')"
  using assms by simp

text \<open>The state a hop contributes to a path that was usable so far.\<close>

definition worse :: "(edge_id, link_record) omap \<Rightarrow> edge_id \<Rightarrow> path_state \<Rightarrow> path_state" where
  "worse links hop st = (if hop_is {LinkState_Up} links hop then st else PathState_Degraded)"

lemma scan_hops_good_step:
  assumes "hop_is {LinkState_Up, LinkState_Degraded} links hop" "st \<in> {PathState_Up, PathState_Degraded}"
  shows "scan_hops links (hop # hops) (st, b, f, u)
    = scan_hops links hops
        (worse links hop st, if f \<or> hop_capacity links hop < b then hop_capacity links hop else b, False, u)"
proof -
  obtain link where link: "om_find links hop = Some link" "link_kind_supported (ln_kind link)"
    "ln_state link \<in> {LinkState_Up, LinkState_Degraded}"
    using assms(1) by (auto simp: hop_is_def split: option.splits)
  have "hop_state (ln_state link) st u = (worse links hop st, u)" "worse links hop st \<noteq> PathState_Down"
    using link assms(2) by (auto simp: worse_def hop_is_def)
  then show ?thesis using scan_hops_step [OF link(1,2)] link(1) by (simp add: hop_capacity_def)
qed

lemma scan_hops_bad_step:
  assumes "\<not> hop_is {LinkState_Up, LinkState_Degraded} links hop"
  shows "fst (scan_hops links (hop # hops) (st, b, f, u)) \<in> {PathState_Unknown, PathState_Down}"
proof (cases "om_find links hop")
  case (Some link)
  show ?thesis
  proof (cases "link_kind_supported (ln_kind link)")
    case True
    then have "fst (hop_state (ln_state link) st u) \<in> {PathState_Unknown, PathState_Down}"
      using assms Some by (cases "ln_state link") (auto simp: hop_is_def)
    then show ?thesis
      using Some True scan_hops_not_usable [of "fst (hop_state (ln_state link) st u)" links hops]
      by (simp add: split_beta Let_def)
  qed (simp add: Some)
qed simp

lemma scan_hops_bad:
  assumes "\<not> (\<forall>hop \<in> set hops. hop_is {LinkState_Up, LinkState_Degraded} links hop)"
    and "st \<in> {PathState_Up, PathState_Degraded}"
  shows "fst (scan_hops links hops (st, b, f, u)) \<in> {PathState_Unknown, PathState_Down}"
  using assms
proof (induction hops arbitrary: st b f u)
  case (Cons hop hops)
  show ?case
  proof (cases "hop_is {LinkState_Up, LinkState_Degraded} links hop")
    case True
    have "worse links hop st \<in> {PathState_Up, PathState_Degraded}"
      using Cons.prems(2) by (simp add: worse_def)
    then show ?thesis
      using Cons.IH [of "worse links hop st"] Cons.prems(1) True
      unfolding scan_hops_good_step [OF True Cons.prems(2)] by simp
  qed (rule scan_hops_bad_step)
qed simp

lemma scan_hops_good:
  assumes "\<forall>hop \<in> set hops. hop_is {LinkState_Up, LinkState_Degraded} links hop"
    and "st \<in> {PathState_Up, PathState_Degraded}"
  shows "scan_hops links hops (st, b, False, u)
    = (if \<forall>hop \<in> set hops. hop_is {LinkState_Up} links hop then st else PathState_Degraded,
       fold min (map (hop_capacity links) hops) b, False, u)"
  using assms
proof (induction hops arbitrary: st b)
  case (Cons hop hops)
  have hop: "hop_is {LinkState_Up, LinkState_Degraded} links hop" using Cons.prems(1) by simp
  have w: "worse links hop st \<in> {PathState_Up, PathState_Degraded}" using Cons.prems(2) by (simp add: worse_def)
  have m: "(if hop_capacity links hop < b then hop_capacity links hop else b) = min (hop_capacity links hop) b"
    by (auto simp: min_def dest: less_imp_le)
  show ?case
    using Cons.IH [OF _ w] Cons.prems(1)
    unfolding scan_hops_good_step [OF hop Cons.prems(2)] by (simp add: m worse_def)
qed simp

text \<open>The scan of a whole path, whose first hop sets the bottleneck.\<close>

lemma scan_path_good:
  assumes "hops \<noteq> []" "\<forall>hop \<in> set hops. hop_is {LinkState_Up, LinkState_Degraded} links hop"
  shows "scan_hops links hops (PathState_Up, 0, True, False)
    = (if \<forall>hop \<in> set hops. hop_is {LinkState_Up} links hop then PathState_Up else PathState_Degraded,
       Min (hop_capacity links ` set hops), False, False)"
proof -
  obtain hop rest where hops: "hops = hop # rest" using assms(1) by (cases hops) auto
  have hop: "hop_is {LinkState_Up, LinkState_Degraded} links hop" using assms(2) hops by simp
  have w: "worse links hop PathState_Up \<in> {PathState_Up, PathState_Degraded}" by (simp add: worse_def)
  have "fold min (map (hop_capacity links) rest) (hop_capacity links hop)
      = Min (set (hop_capacity links hop # map (hop_capacity links) rest))"
    by (rule Min.set_eq_fold [symmetric])
  then show ?thesis
    using scan_hops_good [OF _ w] assms(2) scan_hops_good_step [OF hop, of PathState_Up rest 0 True False]
    by (simp add: hops worse_def)
qed

lemma recompute_path_bottleneck:
  assumes "pa_hops p \<noteq> []"
    and "\<forall>hop \<in> set (pa_hops p). hop_is {LinkState_Up, LinkState_Degraded} links hop"
  shows "pa_bottleneck (recompute_path links p) = Min (hop_capacity links ` set (pa_hops p))"
  by (simp add: recompute_path_def scan_path_good [OF assms])

lemma hop_is_mono: "hop_is S links hop \<Longrightarrow> S \<subseteq> T \<Longrightarrow> hop_is T links hop"
  by (auto simp: hop_is_def split: option.splits)

lemma recompute_path_state_good:
  assumes "\<forall>hop \<in> set (pa_hops p). hop_is {LinkState_Up, LinkState_Degraded} links hop"
  shows "pa_state (recompute_path links p)
    = (if \<forall>hop \<in> set (pa_hops p). hop_is {LinkState_Up} links hop then PathState_Up else PathState_Degraded)"
  by (cases "pa_hops p = []") (simp_all add: recompute_path_def scan_path_good [OF _ assms])

lemma recompute_path_state_bad:
  assumes "\<not> (\<forall>hop \<in> set (pa_hops p). hop_is {LinkState_Up, LinkState_Degraded} links hop)"
  shows "pa_state (recompute_path links p) \<in> {PathState_Unknown, PathState_Down}"
  using scan_hops_bad [OF assms, of PathState_Up 0 True False]
  by (simp add: recompute_path_def split_beta Let_def)

lemma recompute_path_state:
  "pa_state (recompute_path links p) = PathState_Up \<longleftrightarrow>
    (\<forall>hop \<in> set (pa_hops p). hop_is {LinkState_Up} links hop)"
  "pa_state (recompute_path links p) \<in> {PathState_Up, PathState_Degraded} \<longleftrightarrow>
    (\<forall>hop \<in> set (pa_hops p). hop_is {LinkState_Up, LinkState_Degraded} links hop)"
proof -
  have mono: "\<forall>hop \<in> set (pa_hops p). hop_is {LinkState_Up} links hop \<Longrightarrow>
      \<forall>hop \<in> set (pa_hops p). hop_is {LinkState_Up, LinkState_Degraded} links hop"
    by (auto intro: hop_is_mono)
  let ?good = "\<forall>hop \<in> set (pa_hops p). hop_is {LinkState_Up, LinkState_Degraded} links hop"
  show "pa_state (recompute_path links p) \<in> {PathState_Up, PathState_Degraded} \<longleftrightarrow> ?good"
  proof (cases ?good)
    case True
    then show ?thesis using recompute_path_state_good by simp
  next
    case False
    then show ?thesis using recompute_path_state_bad [OF False] by auto
  qed
  show "pa_state (recompute_path links p) = PathState_Up \<longleftrightarrow>
      (\<forall>hop \<in> set (pa_hops p). hop_is {LinkState_Up} links hop)"
  proof (cases ?good)
    case True
    then show ?thesis using recompute_path_state_good by simp
  next
    case False
    then show ?thesis using recompute_path_state_bad [OF False] mono by auto
  qed
qed

lemma recompute_path_states_find:
  "om_find (rg_paths (recompute_path_states r)) k = map_option (recompute_path (rg_links r)) (om_find (rg_paths r) k)"
  by (simp add: recompute_path_states_def om_find_map)

end
