(* ===== verification/Model_Properties.thy ===== *)
theory Model_Properties
  imports Sample Registry_Paths
begin

text \<open>
  The properties of the model: the registry and its mutations, path states, policy evaluation, and
  the canonical encodings, each with an instance on the sample deployment.
\<close>

section \<open>Policy\<close>

text \<open>One more rule, and what its owner's domain then says of the pair.\<close>

lemma put_policy_new:
  assumes "put_policy rule r = (s, r')" "is_ok s" "om_find (rg_policies r) (pr_id rule) = None"
  shows "set (domain_speaks r' source target ea eb d) = set (domain_speaks r source target ea eb d)
    \<union> (if pr_owner rule = d \<and> policy_matches rule (cl_id source) (cl_id target) ea eb then {rule} else {})"
proof -
  have r': "r' = r\<lparr>rg_policies := om_put (pr_id rule) rule (rg_policies r)\<rparr>"
    using assms(1,2) by (auto simp: put_policy_def insert_bounded_def Let_def split: if_splits)
  have "set (om_put (pr_id rule) rule m) = insert (pr_id rule, rule) (set m)" if "om_find m (pr_id rule) = None" for m
    using that by (induction m) (auto split: if_splits)
  then show ?thesis using assms(3) by (auto simp: domain_speaks_def r')
qed

text \<open>
  C38. A refusal counts only while its policy generation is current. When a new refusing rule of either
  authority domain that matches an allowed pair is put into the registry, the pair is refused
  explicitly if the generation of the rule is current: a refusal wins over every allow. If it is stale
  the rule is ignored and the pair stays allowed, although the header of the policy evaluation says
  that a matching rule of a stale generation produces STALE.
\<close>

theorem stale_refusal_is_ignored:
  assumes "pe_decision (evaluate_policy r source target ea eb) = PolicyDecision_Allowed"
    and "put_policy rule r = (s, r')" "is_ok s" "om_find (rg_policies r) (pr_id rule) = None"
    and "\<not> pr_allow rule" "pr_owner rule \<in> {cl_domain source, cl_domain target}"
    and "policy_matches rule (cl_id source) (cl_id target) ea eb"
  shows "pe_decision (evaluate_policy r' source target ea eb) =
    (if rule_current source target rule then PolicyDecision_RefusedExplicitly else PolicyDecision_Allowed)"
proof -
  note speaks = put_policy_new [OF assms(2-4), where source = source and target = target and ea = ea and eb = eb]
  have "domain_allows r' source target ea eb d = domain_allows r source target ea eb d"
    "domain_refuses r' source target ea eb d \<longleftrightarrow> domain_refuses r source target ea eb d
      \<or> pr_owner rule = d \<and> rule_current source target rule" for d
    using assms(5,7) by (auto simp: domain_allows_def domain_refuses_def list_ex_iff speaks split: if_splits)
  then show ?thesis
    using assms(1,6) unfolding evaluate_policy_decision by (auto simp: policy_spec_def Let_def split: if_splits)
qed

text \<open>A refusal of domain \<open>n\<close> for its cluster \<open>a\<close>, whose policy generation is 1.\<close>

definition sample_refusal :: "u64 \<Rightarrow> policy_rule" where
  "sample_refusal generation = (sample_rule ''r9'' ''n'')\<lparr>pr_cluster_a := ''a'', pr_generation := generation, pr_allow := False\<rparr>"

theorem stale_refusal_is_ignored_witness:
  "pe_decision (evaluate_policy (snd (put_policy (sample_refusal 0) sample_registry))
      (sample_cluster ''a'' ''n'' 1 ''ea'') (sample_cluster ''b'' ''s'' 2 ''eb'') ''ea'' ''eb'') = PolicyDecision_Allowed
   \<and> pe_decision (evaluate_policy (snd (put_policy (sample_refusal 1) sample_registry))
      (sample_cluster ''a'' ''n'' 1 ''ea'') (sample_cluster ''b'' ''s'' 2 ''eb'') ''ea'' ''eb'') = PolicyDecision_RefusedExplicitly"
proof -
  let ?a = "sample_cluster ''a'' ''n'' 1 ''ea''" and ?b = "sample_cluster ''b'' ''s'' 2 ''eb''"
  have "pe_decision (evaluate_policy (snd (put_policy (sample_refusal generation) sample_registry)) ?a ?b ''ea'' ''eb'') =
      (if rule_current ?a ?b (sample_refusal generation) then PolicyDecision_RefusedExplicitly else PolicyDecision_Allowed)" for generation
  proof (rule stale_refusal_is_ignored)
    show "pe_decision (evaluate_policy sample_registry ?a ?b ''ea'' ''eb'') = PolicyDecision_Allowed" by code_simp
    show "put_policy (sample_refusal generation) sample_registry = (status_ok, snd (put_policy (sample_refusal generation) sample_registry))"
      by (simp add: put_policy_def sample_refusal_def sample_rule_def kMaxNameLength_def insert_bounded_def kMaxPolicyRules_def
          sample_registry_def)
  qed (simp_all add: sample_refusal_def sample_rule_def sample_registry_def sample_cluster_def policy_matches_def)
  from this [of 0] this [of 1] show ?thesis
    by (simp add: rule_current_def sample_refusal_def sample_rule_def sample_cluster_def)
qed

section \<open>Mutations\<close>

text \<open>
  C14. Applying any mutation to a well-formed registry gives a well-formed registry, and a mutation
  that is refused, whatever the reason, leaves the registry exactly as it was.
\<close>

theorem apply_mutation_safe:
  assumes "registry_ok r" "apply_mutation m r = Some (s, r')"
  shows "registry_ok r' \<and> (\<not> is_ok s \<longrightarrow> r' = r)"
  using apply_mutation_keeps [OF assms] apply_mutation_failed [OF assms(2)] by blast

theorem apply_mutation_safe_witness:
  "registry_ok (snd (the (apply_mutation (Mutation_GrantErase sample_grant) sample_registry)))"
proof -
  have "apply_mutation (Mutation_GrantErase sample_grant) sample_registry
      = Some (erase_grant (gr_id sample_grant) sample_registry)"
    by (simp add: apply_mutation_def need_def) (simp add: sample_grant_def)
  then show ?thesis
    using apply_mutation_safe [OF sample_registry_ok, of "Mutation_GrantErase sample_grant"
        "fst (erase_grant (gr_id sample_grant) sample_registry)"
        "snd (erase_grant (gr_id sample_grant) sample_registry)"] by simp
qed

text \<open>
  A mutation is a total operation but for one case: appending to a trail that still has room and
  whose last record carries the greatest sequence number raises, since no sequence can follow.
\<close>

lemma apply_mutation_raises_iff:
  "apply_mutation m r = None \<longleftrightarrow>
    (\<exists>a. m = Mutation_AuditAppend a) \<and> length (rg_audit r) < kMaxAuditRecords
    \<and> rg_audit r \<noteq> [] \<and> au_sequence (last (rg_audit r)) = - 1"
  by (cases m)
    (auto simp: apply_mutation_def registry_append_audit_def counter_next_def counter_increment_def
      split: if_splits sum.splits)

text \<open>
  A cluster that was accepted is found under its identity, with its endpoints sorted, every other
  cluster is found as before, and no other table changes; an accepted grant likewise.
\<close>

lemma put_then_find:
  "(is_ok (fst (put_cluster c r)) \<longrightarrow>
      snd (put_cluster c r) = r\<lparr>rg_clusters := rg_clusters (snd (put_cluster c r))\<rparr>
      \<and> find_cluster (snd (put_cluster c r)) k
        = (if k = cl_id c then Some (c\<lparr>cl_endpoints := sort_key ep_id (cl_endpoints c)\<rparr>) else find_cluster r k))
   \<and> (is_ok (fst (put_grant g r)) \<longrightarrow>
      snd (put_grant g r) = r\<lparr>rg_grants := rg_grants (snd (put_grant g r))\<rparr>
      \<and> find_grant (snd (put_grant g r)) k'
        = (if k' = gr_id g then Some g else find_grant r k'))"
  by (auto simp: put_cluster_def put_grant_def split_beta Let_def find_cluster_def find_grant_def
      insert_bounded_ok om_find_put split: if_splits)

section \<open>Path states\<close>

text \<open>
  Recomputing the path states derives each from the links: the paths stay the same but for their
  derived fields; a path is up exactly when every hop is a registered link of a supported kind that is
  up, usable exactly when every hop is up or degraded, and the bottleneck of a usable path is the
  least capacity along it.
\<close>

lemma recompute_path_states_correct:
  "om_find (rg_paths (recompute_path_states r)) k
      = map_option (recompute_path (rg_links r)) (om_find (rg_paths r) k)
   \<and> (pa_state (recompute_path links p) = PathState_Up \<longleftrightarrow> (\<forall>hop \<in> set (pa_hops p). hop_is {LinkState_Up} links hop))
   \<and> (pa_state (recompute_path links p) \<in> {PathState_Up, PathState_Degraded} \<longleftrightarrow>
      (\<forall>hop \<in> set (pa_hops p). hop_is {LinkState_Up, LinkState_Degraded} links hop))
   \<and> (pa_hops p \<noteq> [] \<and> pa_state (recompute_path links p) \<in> {PathState_Up, PathState_Degraded} \<longrightarrow>
      pa_bottleneck (recompute_path links p) = Min (hop_capacity links ` set (pa_hops p)))"
  using recompute_path_states_find recompute_path_state recompute_path_bottleneck by blast

section \<open>Canonical encodings\<close>

text \<open>
  A registry that satisfies the bounds of the format decodes from its own encoding to itself,
  audit trail included.
\<close>

lemma registry_round_trip:
  assumes "registry_ok r" "registry_wire r"
  shows "decode_registry (encode_registry r True) = Some (Inr r)"
  using decode_encode_registry(1) [OF assms] .

text \<open>
  Whatever bytes are decoded, a registry that comes out of the decoder is well formed: sorted,
  bounded, with every record valid under its key and a contiguous audit trail.
\<close>

lemma decoded_registry_is_well_formed:
  assumes "decode_registry bs = Some (Inr r)"
  shows "registry_ok r"
  using assms by (rule decode_registry_keeps)

text \<open>
  The bytes under the view digest identify the view: two well-formed registries have the same
  bytes exactly when every lookup in every table agrees, whatever the order of the operations that
  built them, and whatever their audit trails.
\<close>

lemma view_bytes_identify_view:
  assumes "registry_ok r" "registry_wire r" "registry_ok r'" "registry_wire r'"
  shows "encode_registry r False = encode_registry r' False \<longleftrightarrow>
    om_find (rg_clusters r) = om_find (rg_clusters r') \<and> om_find (rg_links r) = om_find (rg_links r')
    \<and> om_find (rg_paths r) = om_find (rg_paths r') \<and> om_find (rg_policies r) = om_find (rg_policies r')
    \<and> om_find (rg_contracts r) = om_find (rg_contracts r') \<and> om_find (rg_grants r) = om_find (rg_grants r')
    \<and> om_find (rg_reservations r) = om_find (rg_reservations r')" (is "?bytes \<longleftrightarrow> ?finds")
proof
  assume ?bytes
  from encode_registry_inj [OF assms this] have "r\<lparr>rg_audit := []\<rparr> = r'\<lparr>rg_audit := []\<rparr>" .
  then show ?finds by (metis registry.surjective registry.update_convs(8) registry.ext_inject)
next
  assume ?finds
  then show ?bytes using encode_registry_extensional [OF assms(1,3)] by metis
qed

text \<open>
  C39. The decoders of links, paths, policy rules, contracts, grants, reservations and audit records accept
  exactly the canonical encodings: what they read is a prefix that is the encoding of the record they
  return, and the record satisfies the bounds of the format. The decoder of clusters is not among them:
  it accepts endpoints in any order, so several encodings of one cluster.
\<close>

theorem record_decoders_are_canonical:
  "(decode_link bs = Inr (l, rest) \<longleftrightarrow> link_wire l \<and> bs = encode_link l @ rest)
   \<and> (decode_path bs = Inr (p, rest) \<longleftrightarrow> path_wire p \<and> bs = encode_path p @ rest)
   \<and> (decode_policy bs = Inr (po, rest) \<longleftrightarrow> policy_wire po \<and> bs = encode_policy po @ rest)
   \<and> (decode_contract bs = Inr (c, rest) \<longleftrightarrow> contract_wire c \<and> bs = encode_contract c @ rest)
   \<and> (decode_grant bs = Inr (g, rest) \<longleftrightarrow> grant_wire g \<and> bs = encode_grant g @ rest)
   \<and> (decode_reservation bs = Inr (rs, rest) \<longleftrightarrow> reservation_wire rs \<and> bs = encode_reservation rs @ rest)
   \<and> (decode_audit bs = Inr (a, rest) \<longleftrightarrow> audit_wire a \<and> bs = encode_audit a @ rest)"
  by (intro conjI link.dec_iff path.dec_iff policy.dec_iff contract.dec_iff grant.dec_iff
      reservation.dec_iff audit.dec_iff)

text \<open>
  The encoding of contract terms, the bytes both parties sign by digest, is injective on terms
  within bounds, and the decoder accepts nothing but such an encoding: two parties that agree on the
  bytes agree on every field.
\<close>

lemma terms_encoding_is_canonical:
  "(terms_wire t \<and> terms_wire t' \<and> encode_terms t = encode_terms t' \<longrightarrow> t = t')
   \<and> (decode_terms bs = Inr (t, rest) \<longleftrightarrow> terms_wire t \<and> bs = encode_terms t @ rest)"
proof (intro conjI impI)
  assume a: "terms_wire t \<and> terms_wire t' \<and> encode_terms t = encode_terms t'"
  then have "decode_terms (encode_terms t @ []) = Inr (t, [])" "decode_terms (encode_terms t @ []) = Inr (t', [])"
    using terms.dec_enc [of t "[]"] terms.dec_enc [of t' "[]"] by simp_all
  then show "t = t'" by simp
qed (rule terms.dec_iff)

definition sample_terms :: contract_terms where
  "sample_terms =
    \<lparr>tm_parties = co_parties sample_contract, tm_capacity = 10, tm_lease_duration = 1000,
     tm_incarnations = (uid 1, uid 2), tm_generations = (1, 1), tm_policies = (1, 1), tm_proposed_at = 0\<rparr>"

text \<open>
  A mutation within the bounds of the format is read back from its log encoding, with whatever
  follows it left unread.
\<close>

lemma mutation_round_trip:
  assumes "mutation_wire m"
  shows "decode_mutation (encode_mutation m @ rest) = Inr (m, rest)"
  using assms by (rule mutation.dec_enc)

text \<open>
  Decisions, fence plans and accounting entries are exchanged in canonical form: their decoders
  accept exactly the encodings of values within the bounds of the format.
\<close>

lemma decision_decoders_are_canonical:
  "(decode_decision bs = Inr (d, rest) \<longleftrightarrow> decision_wire d \<and> bs = encode_decision d @ rest)
   \<and> (decode_fence_plan bs = Inr (p, rest) \<longleftrightarrow> fence_plan_wire p \<and> bs = encode_fence_plan p @ rest)
   \<and> (decode_accounting bs = Inr (e, rest) \<longleftrightarrow> accounting_wire e \<and> bs = encode_accounting e @ rest)"
  by (intro conjI decision.dec_iff fence_plan.dec_iff accounting.dec_iff)

end
