(* ===== verification/Runtime_Properties.thy ===== *)
theory Runtime_Properties
  imports Sample
begin

text \<open>
  The properties of the decision engine and of fencing, each with an instance on the sample
  deployment. The proofs rest on \<open>Engine_Laws\<close> and \<open>Fencing_Laws\<close>.
\<close>

section \<open>Decisions\<close>

text \<open>
  C1. The staged \<open>decide\<close> implements its contract: it authorizes a directed endpoint pair exactly when
  both ends are usable, policy allows the pair, a contract both parties currently consent to
  carries a current grant, and an admissible path exists.
\<close>

theorem decide_refines_authorization:
  "authorized (decide r q v) \<longleftrightarrow> authorization_spec r q v"
  by (rule decide_authorized)

text \<open>
  An authorizing decision names a contract of the registry that joins the two endpoints and is
  live and consented to by both parties, and the newest grant of that contract, which is usable,
  acknowledged by both sides, of the coordinator's own term and incarnation, unexpired, and
  covers the requested capacity; it also carries the view it was made in.
\<close>

lemma decide_names_current_grant:
  assumes "authorized (decide r q v)"
  shows "\<exists>c g. c \<in> snd ` set (rg_contracts r) \<and> contract_joins c (qy_source q) (qy_target q)
    \<and> contract_consented r c \<and> select_grant r (co_id c) = Some g \<and> grant_current r q v c g
    \<and> dc_contract (decide r q v) = co_id c \<and> dc_grant (decide r q v) = gr_id g
    \<and> dc_capacity (decide r q v) = gr_capacity g \<and> qy_requested_capacity q \<le> dc_capacity (decide r q v)
    \<and> dc_term (decide r q v) = vw_term v \<and> dc_coordinator (decide r q v) = vw_incarnation v
    \<and> dc_decided_at (decide r q v) = vw_now v \<and> dc_view_digest (decide r q v) = registry_digest r"
proof -
  obtain c g se sc te tc where "names_grant r q v c g (decide r q v)"
    "dc_term (decide r q v) = vw_term v" "dc_coordinator (decide r q v) = vw_incarnation v"
    "dc_decided_at (decide r q v) = vw_now v" "dc_view_digest (decide r q v) = registry_digest r"
    using decide_names [OF assms] .
  moreover from calculation(1) have "grant_current r q v c g" "qy_requested_capacity q \<le> gr_capacity g"
    by (auto simp: names_grant_def contract_authorizes_def grant_current_def)
  ultimately show ?thesis
    by (intro exI [of _ c] exI [of _ g]) (simp add: names_grant_def contract_authorizes_def)
qed

text \<open>
  The grant a decision considers is the newest of its contract: among the grants of the contract
  no other was issued later, or at the same instant with a greater identity; there is one exactly
  when the contract has a grant.
\<close>

lemma select_grant_is_newest:
  "case select_grant r key of
     None \<Rightarrow> \<forall>g. g \<in> snd ` set (rg_grants r) \<longrightarrow> gr_contract g \<noteq> key
   | Some g \<Rightarrow> g \<in> snd ` set (rg_grants r) \<and> gr_contract g = key
       \<and> (\<forall>x. x \<in> snd ` set (rg_grants r) \<longrightarrow> gr_contract x = key \<longrightarrow>
            gr_issued_at x < gr_issued_at g \<or> gr_issued_at x = gr_issued_at g \<and> gr_id x \<le> gr_id g)"
proof (cases "select_grant r key")
  case None
  then show ?thesis using select_grant_None [of r key] by auto
next
  case (Some g)
  have "gr_issued_at x < gr_issued_at g \<or> gr_issued_at x = gr_issued_at g \<and> gr_id x \<le> gr_id g"
    if "x \<in> snd ` set (rg_grants r)" "gr_contract x = key" for x
    using select_grant_latest(3) [OF Some that] by (simp add: less_eq_prod_simp) linarith
  then show ?thesis
    using select_grant_latest(1,2) [OF Some] Some by simp
qed

section \<open>Fencing\<close>

lemma sample_plan_actions:
  "fp_actions (plan_fence sample_registry trigger ''a'' i p gen term)
    = [grant_action (fence_reason trigger) (uid 30) (uid 20),
       reservation_action (fence_reason trigger) (uid 30) (uid 20) (uid 40),
       reservation_action (fence_reason trigger) (uid 30) (uid 20) (uid 41),
       contract_action (fence_reason trigger) (uid 20)]"
  by (simp add: plan_fence_def fence_contract_def contract_grants_def open_reservations_def
      contract_side_of_def parties_side_of_def sample_registry_def sample_contract_def sample_grant_def
      sample_reservation_def fenceable_def usable_state_def kMaxFencePlanEntries_def Let_def)

text \<open>
  C3. Once the plan for a cluster has been applied, connectivity of that cluster is withdrawn: no
  contract with the cluster as a party authorizes anything, and whatever the engine still
  authorizes, it authorizes through a contract the cluster is not a party of. This holds of plans of at
  most \<open>kMaxFencePlanEntries\<close> actions, 65536: once a plan is longer the planner stops, and the contracts
  it has not reached are not fenced.
\<close>

theorem fenced_cluster_loses_authority:
  assumes "registry_ok r"
    and "length (fp_actions (plan_fence r trigger cluster i p gen term)) \<le> kMaxFencePlanEntries"
    and "apply_fence_plan (plan_fence r trigger cluster i p gen term) at actor r = Some (Inr fo, r')"
  shows "(\<forall>c \<in> snd ` set (rg_contracts r'). contract_side_of c cluster \<noteq> None \<longrightarrow> \<not> contract_authorizes r' q v c)
    \<and> (authorized (decide r' q v) \<longrightarrow>
        (\<exists>c \<in> snd ` set (rg_contracts r').
          co_id c = dc_contract (decide r' q v) \<and> contract_side_of c cluster = None))"
proof (intro conjI impI)
  show none: "\<forall>c \<in> snd ` set (rg_contracts r').
      contract_side_of c cluster \<noteq> None \<longrightarrow> \<not> contract_authorizes r' q v c"
    using unusable_contract fenced_cluster_grants [OF assms] by blast
  assume "authorized (decide r' q v)"
  then obtain c g where "names_grant r' q v c g (decide r' q v)" by (blast elim: decide_names)
  then show "\<exists>c \<in> snd ` set (rg_contracts r').
      co_id c = dc_contract (decide r' q v) \<and> contract_side_of c cluster = None"
    using none unfolding names_grant_def by metis
qed

lemma sample_plan_runs:
  obtains fo r' where
    "apply_fence_plan (plan_fence sample_registry FenceTrigger_ClusterWithdrawal ''a'' (uid 1) nil_uuid 1 7)
      600 ''op'' sample_registry = Some (Inr fo, r')"
proof -
  let ?plan = "plan_fence sample_registry FenceTrigger_ClusterWithdrawal ''a'' (uid 1) nil_uuid 1 7"
  have "length (fp_actions ?plan) = 4" by (simp add: sample_plan_actions)
  then have "audit_room sample_registry (length (fp_actions ?plan))"
    by (simp only: audit_room_def) (simp add: sample_registry_def kMaxAuditRecords_def)
  then show thesis
    using apply_actions_succeeds [of sample_registry "fp_actions ?plan"] that
    unfolding apply_fence_plan_def by blast
qed

theorem fenced_cluster_loses_authority_witness:
  "\<exists>fo r'. apply_fence_plan (plan_fence sample_registry FenceTrigger_ClusterWithdrawal ''a'' (uid 1) nil_uuid 1 7)
      600 ''op'' sample_registry = Some (Inr fo, r')
    \<and> contract_authorizes sample_registry sample_query sample_view sample_contract
    \<and> \<not> list_ex (\<lambda>c. contract_side_of c ''a'' \<noteq> None \<and> contract_authorizes r' sample_query sample_view c)
        (map snd (rg_contracts r'))"
proof -
  let ?plan = "plan_fence sample_registry FenceTrigger_ClusterWithdrawal ''a'' (uid 1) nil_uuid 1 7"
  obtain fo r' where app: "apply_fence_plan ?plan 600 ''op'' sample_registry = Some (Inr fo, r')"
    by (rule sample_plan_runs)
  have "length (fp_actions ?plan) \<le> kMaxFencePlanEntries"
    by (simp add: sample_plan_actions kMaxFencePlanEntries_def)
  from fenced_cluster_loses_authority [OF sample_registry_ok this app, THEN conjunct1]
  have "\<not> list_ex (\<lambda>c. contract_side_of c ''a'' \<noteq> None \<and> contract_authorizes r' sample_query sample_view c)
        (map snd (rg_contracts r'))" by (auto simp: list_ex_iff)
  moreover have "contract_authorizes sample_registry sample_query sample_view sample_contract"
    by code_simp
  ultimately show ?thesis using app by blast
qed

text \<open>
  C4. Nothing recovered from the store is live: after the fence of the recovered state no query is
  authorized in any view, every reservation is released, and the capacity reported as released
  is the whole capacity that was outstanding.
\<close>

theorem recovered_state_is_fenced:
  assumes "registry_ok r"
    and "fence_recovered_state at actor previous term r = Some (Inr fo, r')"
  shows "\<not> authorized (decide r' q v)
    \<and> (\<forall>rs \<in> snd ` set (rg_reservations r'). rs_released rs)
    \<and> fo_capacity_released fo = outstanding r \<and> outstanding r' = 0"
proof (intro conjI)
  have "\<not> contract_authorizes r' q v c" for c
    using unusable_contract recovered_state_grants [OF assms] by blast
  then show "\<not> authorized (decide r' q v)"
    unfolding decide_authorized
    by (auto simp: authorization_spec_def resolved_spec_def list_ex_iff split: option.splits)
  show "\<forall>rs \<in> snd ` set (rg_reservations r'). rs_released rs"
    using recovered_state_reservations [OF assms] by blast
  show "fo_capacity_released fo = outstanding r" "outstanding r' = 0"
    using recovered_state_outstanding [OF assms] .
qed

lemma sample_recovery_runs:
  obtains fo r' where "fence_recovered_state 600 ''op'' (uid 3) 8 sample_registry = Some (Inr fo, r')"
proof -
  have "audit_room sample_registry (length (fp_actions (recovered_plan sample_registry (uid 3) 8)))"
    by (simp add: recovered_plan_def audit_room_def sample_registry_def kMaxAuditRecords_def
        grant_closed_def sample_grant_def sample_reservation_def)
  then show thesis
    using apply_actions_succeeds [of sample_registry "fp_actions (recovered_plan sample_registry (uid 3) 8)"] that
    unfolding fence_recovered_state_def apply_fence_plan_def by blast
qed

theorem recovered_state_is_fenced_witness:
  "\<exists>fo r'. fence_recovered_state 600 ''op'' (uid 3) 8 sample_registry = Some (Inr fo, r')
    \<and> \<not> authorized (decide r' sample_query sample_view) \<and> fo_capacity_released fo = 20"
proof -
  obtain fo r' where run: "fence_recovered_state 600 ''op'' (uid 3) 8 sample_registry = Some (Inr fo, r')"
    by (rule sample_recovery_runs)
  have "outstanding sample_registry = 20"
    by (simp add: outstanding_def sample_registry_def sample_reservation_def)
  then show ?thesis using recovered_state_is_fenced [OF sample_registry_ok run] run by auto
qed

text \<open>
  C15. Applying any plan to a well-formed registry leaves it well formed, also when it stops half
  way with an error, and it only ever withdraws: grants, contracts and reservations keep their
  identities and are unchanged or withdrawn, policy and topology are untouched, and the audit
  trail only grows.
\<close>

theorem apply_fence_plan_only_withdraws:
  assumes "registry_ok r" "apply_fence_plan plan at actor r = Some (res, r')"
  shows "registry_ok r' \<and> evolves r r'"
  using apply_actions_keeps [OF assms(1)] apply_actions_evolves [OF assms(1)] assms(2)
  unfolding apply_fence_plan_def by blast

theorem apply_fence_plan_only_withdraws_witness:
  "\<exists>res r'. apply_fence_plan
      (plan_fence sample_registry FenceTrigger_ClusterWithdrawal ''a'' (uid 1) nil_uuid 1 7)
      600 ''op'' sample_registry = Some (res, r') \<and> registry_ok r' \<and> evolves sample_registry r'"
proof -
  obtain fo r' where run: "apply_fence_plan
      (plan_fence sample_registry FenceTrigger_ClusterWithdrawal ''a'' (uid 1) nil_uuid 1 7)
      600 ''op'' sample_registry = Some (Inr fo, r')" by (rule sample_plan_runs)
  from apply_fence_plan_only_withdraws [OF sample_registry_ok run] run show ?thesis by blast
qed

text \<open>
  A plan that was applied accounts for the capacity: what it reports as released and what is
  still outstanding add up to what was outstanding before, in the arithmetic of the counters.
\<close>

lemma apply_fence_plan_accounts:
  assumes "registry_ok r" "apply_fence_plan plan at actor r = Some (Inr fo, r')"
  shows "fo_capacity_released fo + outstanding r' = outstanding r"
  using apply_actions_accounts [OF assms(1) assms(2) [unfolded apply_fence_plan_def]]
  by (simp add: no_fence_def)

text \<open>
  With room in the audit trail a plan is always carried through, and carrying it out a second
  time, at whatever instant and by whatever actor, succeeds, fences and releases nothing more
  and leaves the registry as it is.
\<close>

lemma apply_fence_plan_idempotent:
  assumes "registry_ok r" "audit_room r (2 * length (fp_actions plan))"
  shows "\<exists>fo r'. apply_fence_plan plan at actor r = Some (Inr fo, r')
    \<and> (\<exists>fo'. apply_fence_plan plan at' actor' r' = Some (Inr fo', r')
        \<and> fo_grants_fenced fo' = 0 \<and> fo_contracts_fenced fo' = 0
        \<and> fo_reservations_released fo' = 0 \<and> fo_capacity_released fo' = 0)"
proof -
  let ?n = "length (fp_actions plan)"
  obtain fo r' where run: "apply_actions (fp_trigger plan) at actor (fp_actions plan) (no_fence, r) = Some (Inr fo, r')"
    and room: "audit_room r' ?n"
    using apply_actions_room [of r "fp_actions plan" ?n] assms(2) unfolding mult_2 by blast
  have "\<forall>a \<in> set (fp_actions plan). action_finished a r'"
    using apply_actions_finished [OF assms(1) run] by blast
  from apply_actions_again [OF this room, of "fp_trigger plan" at' actor' no_fence] run
  show ?thesis unfolding apply_fence_plan_def by (auto simp: no_fence_def)
qed

text \<open>
  C40. A full audit trail stops a plan: the first grant it has to fence is fenced, the append fails,
  and the rest of the plan is not applied, although a fence plan is documented never to fail.
\<close>

theorem full_audit_stops_fencing:
  assumes "length (rg_audit r) = kMaxAuditRecords" "au_sequence (last (rg_audit r)) \<noteq> - 1"
    and "fp_actions plan = grant_action reason (gr_id g) c # rest"
    and "find_grant r (gr_id g) = Some g" "\<not> withdrawn_grant g"
  shows "\<exists>s. \<not> is_ok s \<and> apply_fence_plan plan at actor r
    = Some (Inl s, r\<lparr>rg_grants := om_put (gr_id g) (fenced_grant (fp_trigger plan) at g) (rg_grants r)\<rparr>)"
proof -
  have "rg_audit r \<noteq> []" using assms(1) by (auto simp: kMaxAuditRecords_def)
  moreover have "counter_next (au_sequence (last (rg_audit r))) = Inr (au_sequence (last (rg_audit r)) + 1)"
    using assms(2) by (simp add: counter_next_Inr)
  ultimately show ?thesis
    using assms
    by (auto simp: apply_fence_plan_def apply_action_def grant_action_def fence_grant_def append_audit_def
        registry_append_audit_def Let_def)
qed

definition full_trail :: registry where
  "full_trail = sample_registry\<lparr>rg_audit := replicate kMaxAuditRecords
     \<lparr>au_sequence = 1, au_at = 0, au_actor = [], au_action = [], au_subject = [],
      au_outcome = Outcome_Ok, au_detail = []\<rparr>\<rparr>"

theorem full_audit_stops_fencing_witness:
  "\<exists>s r'. apply_fence_plan (recovered_plan full_trail (uid 3) 8) 600 ''op'' full_trail = Some (Inl s, r')
    \<and> \<not> is_ok s \<and> rg_reservations r' = rg_reservations full_trail"
proof -
  have "length (rg_audit full_trail) = kMaxAuditRecords" "au_sequence (last (rg_audit full_trail)) \<noteq> - 1"
    by (simp_all add: full_trail_def kMaxAuditRecords_def)
  moreover have "fp_actions (recovered_plan full_trail (uid 3) 8)
      = grant_action ReasonCode_EvidenceRecoveredFromStore (gr_id sample_grant) (uid 20)
        # [reservation_action ReasonCode_EvidenceRecoveredFromStore (uid 30) nil_uuid (uid 40),
           reservation_action ReasonCode_EvidenceRecoveredFromStore (uid 30) nil_uuid (uid 41)]"
    by (simp add: recovered_plan_def full_trail_def sample_registry_def grant_closed_def sample_grant_def
        sample_reservation_def)
  moreover have "find_grant full_trail (gr_id sample_grant) = Some sample_grant" "\<not> withdrawn_grant sample_grant"
    by (simp_all add: full_trail_def find_grant_def sample_registry_def sample_grant_def withdrawn_grant_def)
  ultimately show ?thesis
    using full_audit_stops_fencing [of full_trail "recovered_plan full_trail (uid 3) 8" _ sample_grant]
    by fastforce
qed

end
