(* ===== verification/Files.thy ===== *)
theory Files
  imports Bytes
begin

text \<open>
  \<open>store/file_util.cpp\<close> (the POSIX branch): the file primitives of the store. The disk maps a path to
  the bytes of the regular file there. What the operating system answers to the calls of one
  primitive is a parameter, \<open>os_answers\<close>: whether a file could be opened, how many bytes a write took,
  whether flush, sync, rename, unlink and truncate succeeded, and how many bytes of a write that was
  reported as failed have reached the file all the same. Reading returns what the file holds.
\<close>

type_synonym disk = "string \<Rightarrow> bytes option"

record os_answers =
  os_open :: bool
  os_written :: nat
  os_reached :: nat
  os_flush :: bool
  os_sync :: bool
  os_rename :: bool
  os_unlink :: bool
  os_truncate :: bool

text \<open>Every call of a primitive that handles \<open>n\<close> bytes succeeds.\<close>

definition os_well :: "os_answers \<Rightarrow> nat \<Rightarrow> bool" where
  "os_well os n \<longleftrightarrow>
    os_open os \<and> n \<le> os_written os \<and> os_flush os \<and> os_sync os \<and> os_rename os \<and> os_truncate os"

fun decimal :: "nat \<Rightarrow> string" where
  "decimal n = (if n < 10 then [char_of (48 + n)] else decimal (n div 10) @ [char_of (48 + n mod 10)])"

declare decimal.simps [simp del]

definition to_status :: "string \<Rightarrow> string \<Rightarrow> status" where
  "to_status what path = status_make Outcome_Internal (what @ '': '' @ path)"

definition join_path :: "string \<Rightarrow> string \<Rightarrow> string" where
  "join_path directory name =
    (if directory = [] then name
     else if last directory = CHR ''/'' \<or> last directory = CHR 0x5C then directory @ name
     else directory @ ''/'' @ name)"

definition file_exists :: "disk \<Rightarrow> string \<Rightarrow> bool" where
  "file_exists disk path \<longleftrightarrow> disk path \<noteq> None"

definition file_size :: "disk \<Rightarrow> string \<Rightarrow> u64 result" where
  "file_size disk path =
    (case disk path of
       None \<Rightarrow> Inl (status_make Outcome_NotFound (''cannot stat file: '' @ path))
     | Some contents \<Rightarrow> Inr (word_of_nat (length contents)))"

definition remove_file :: "os_answers \<Rightarrow> string \<Rightarrow> disk \<Rightarrow> status \<times> disk" where
  "remove_file os path disk =
    (if \<not> file_exists disk path then (status_ok, disk)
     else if \<not> os_unlink os then (to_status ''cannot remove file'' path, disk)
     else (status_ok, disk(path := None)))"

definition read_file_bounded :: "os_answers \<Rightarrow> disk \<Rightarrow> string \<Rightarrow> u64 \<Rightarrow> bytes result" where
  "read_file_bounded os disk path max_bytes =
    (case file_size disk path of
       Inl e \<Rightarrow> Inl e
     | Inr found \<Rightarrow>
         if found > max_bytes
         then Inl (status_make Outcome_CapacityExceeded (''file exceeds the configured maximum size: '' @ path))
         else (case to_size found of
             None \<Rightarrow> Inl (status_make Outcome_Overflow ''file size does not fit in the platform size type'')
           | Some len \<Rightarrow>
               (case disk path of
                  Some contents \<Rightarrow>
                    if \<not> os_open os then Inl (status_make Outcome_NotFound (''cannot open file: '' @ path))
                    else if length contents < unat len
                    then Inl (status_make Outcome_Internal (''short read while loading: '' @ path))
                    else Inr (take (unat len) contents)
                | None \<Rightarrow> Inl (status_make Outcome_NotFound (''cannot open file: '' @ path)))))"

text \<open>The bytes of a write that end up in the file.\<close>

definition arrived :: "os_answers \<Rightarrow> bytes \<Rightarrow> bytes" where
  "arrived os contents =
    (if os_written os < length contents \<or> \<not> os_flush os then take (os_reached os) contents else contents)"

definition write_file_atomic :: "os_answers \<Rightarrow> string \<Rightarrow> bytes \<Rightarrow> disk \<Rightarrow> status \<times> disk" where
  "write_file_atomic os path contents disk =
    (let temporary = path @ ''.tmp''; disk' = disk(temporary \<mapsto> arrived os contents) in
     if \<not> os_open os then (to_status ''cannot create file'' temporary, disk)
     else if contents \<noteq> [] \<and> os_written os < length contents
     then (to_status ''short write while saving'' temporary, snd (remove_file os temporary disk'))
     else if \<not> os_flush os
     then (to_status ''flush failed while saving'' temporary, snd (remove_file os temporary disk'))
     else if \<not> os_sync os
     then (to_status ''fsync failed while saving'' temporary, snd (remove_file os temporary disk'))
     else if \<not> os_rename os
     then (to_status ''atomic rename failed'' path, snd (remove_file os temporary disk'))
     else (status_ok, disk'(path := disk' temporary, temporary := None)))"

definition append_file :: "os_answers \<Rightarrow> string \<Rightarrow> bytes \<Rightarrow> bool \<Rightarrow> disk \<Rightarrow> status \<times> disk" where
  "append_file os path contents flush disk =
    (if contents = [] then (status_ok, disk)
     else if \<not> os_open os then (to_status ''cannot open file for append'' path, disk)
     else
       let before = (case disk path of None \<Rightarrow> [] | Some c \<Rightarrow> c);
           disk' = disk(path \<mapsto> before @ arrived os contents);
           short_write = os_written os < length contents;
           flush_failed = (\<not> os_flush os);
           commit_failed = (flush \<and> \<not> short_write \<and> \<not> flush_failed \<and> \<not> os_sync os)
       in if short_write then (to_status ''short append'' path, disk')
          else if flush_failed \<or> commit_failed then (to_status ''durable append failed'' path, disk')
          else (status_ok, disk'))"

definition truncate_file :: "os_answers \<Rightarrow> string \<Rightarrow> u64 \<Rightarrow> disk \<Rightarrow> status \<times> disk" where
  "truncate_file os path len disk =
    (case disk path of
       None \<Rightarrow> (to_status ''cannot truncate file'' path, disk)
     | Some contents \<Rightarrow>
         if \<not> os_truncate os then (to_status ''cannot truncate file'' path, disk)
         else (status_ok,
           disk(path \<mapsto> take (unat len) contents @ replicate (unat len - length contents) 0)))"

section \<open>Laws\<close>

lemma is_ok_to_status [simp]: "\<not> is_ok (to_status what path)"
  by (simp add: to_status_def)

text \<open>
  An atomic write never leaves anything but the old or the new contents at the path, whatever the
  operating system answers, and it touches no other file but the temporary one.
\<close>

lemma write_file_atomic_path:
  assumes "write_file_atomic os path contents disk = (s, disk')"
  shows "disk' path = (if is_ok s then Some contents else disk path)"
    and "p \<noteq> path \<Longrightarrow> p \<noteq> path @ ''.tmp'' \<Longrightarrow> disk' p = disk p"
  using assms
  by (auto simp: write_file_atomic_def remove_file_def arrived_def Let_def split: if_splits)

lemma write_file_atomic_well:
  "os_well os (length contents) \<Longrightarrow> is_ok (fst (write_file_atomic os path contents disk))"
  by (auto simp: write_file_atomic_def os_well_def Let_def)

lemma append_file_ok:
  assumes "append_file os path contents flush disk = (s, disk')" "is_ok s"
  shows "disk' = (if contents = [] then disk
    else disk(path \<mapsto> (case disk path of None \<Rightarrow> [] | Some c \<Rightarrow> c) @ contents))"
  using assms by (auto simp: append_file_def arrived_def Let_def split: if_splits)

text \<open>A failed append leaves some prefix of the bytes behind the old contents.\<close>

lemma append_file_prefix:
  assumes "append_file os path contents flush disk = (s, disk')" "disk path = Some c"
  shows "\<exists>k. disk' = disk(path \<mapsto> c @ take k contents)"
proof -
  have none: "\<exists>k. disk = disk(path \<mapsto> c @ take k contents)"
    using assms(2) by (intro exI [of _ 0]) auto
  obtain k where "arrived os contents = take k contents"
    by (metis arrived_def take_all_iff order_refl)
  then show ?thesis
    using assms none by (auto simp: append_file_def Let_def split: if_splits)
qed

lemma append_file_well:
  "os_well os (length contents) \<Longrightarrow> is_ok (fst (append_file os path contents flush disk))"
  by (auto simp: append_file_def os_well_def Let_def)

lemma truncate_file_ok:
  assumes "truncate_file os path (word_of_nat n) disk = (s, disk')" "is_ok s" "disk path = Some contents"
    and "n \<le> length contents" "n < 2 ^ 64"
  shows "disk' = disk(path \<mapsto> take n contents)"
proof -
  have "unat (word_of_nat n :: u64) = n" using assms(5) by (simp add: unat_of_nat take_bit_nat_eq_self)
  then show ?thesis using assms by (auto simp: truncate_file_def split: if_splits)
qed

end
