(* ===== verification/Wal.thy ===== *)
theory Wal
  imports Files Ids
begin

text \<open>
  \<open>store/wal.cpp\<close>: the append-only log. Opening scans the records in order and hands each to a
  visitor; the first bytes that do not verify end the trusted prefix and are cut off. The visitor
  threads a state of its own; \<open>None\<close> is an exception it raises. Offsets and record counts of a scan are
  natural numbers: a file is shorter than \<open>2 ^ 64\<close> bytes. The identity of a new stream, which the
  source draws from the random generator, is a parameter.
\<close>

section \<open>Records\<close>

datatype record_kind =
    RecordKind_Invalid | RecordKind_Mutation | RecordKind_Meta | RecordKind_SnapshotMarker | RecordKind_Incident

definition record_kind_values :: "record_kind list" where
  "record_kind_values =
    [RecordKind_Invalid, RecordKind_Mutation, RecordKind_Meta, RecordKind_SnapshotMarker, RecordKind_Incident]"

definition record_kind_code :: "record_kind \<Rightarrow> u16" where
  "record_kind_code k = word_of_nat (list_index record_kind_values k)"

text \<open>The cast of a raw code; a code without a name behaves as \<open>Invalid\<close> for the code below.\<close>

definition record_kind_of :: "u16 \<Rightarrow> record_kind" where
  "record_kind_of raw =
    (if unat raw < length record_kind_values then record_kind_values ! unat raw else RecordKind_Invalid)"

fun record_kind_to_string :: "record_kind \<Rightarrow> string" where
  "record_kind_to_string RecordKind_Invalid = ''INVALID''"
| "record_kind_to_string RecordKind_Mutation = ''MUTATION''"
| "record_kind_to_string RecordKind_Meta = ''META''"
| "record_kind_to_string RecordKind_SnapshotMarker = ''SNAPSHOT_MARKER''"
| "record_kind_to_string RecordKind_Incident = ''INCIDENT''"

definition record_kind_known :: "record_kind \<Rightarrow> bool" where
  "record_kind_known kind \<longleftrightarrow>
    kind = RecordKind_Mutation \<or> kind = RecordKind_Meta \<or> kind = RecordKind_SnapshotMarker
    \<or> kind = RecordKind_Incident"

definition kWalHeaderSize :: nat where "kWalHeaderSize = 64"
definition kRecordHeaderSize :: nat where "kRecordHeaderSize = 32"
definition kRecordTrailerSize :: nat where "kRecordTrailerSize = 4"
definition kWalFormatVersion :: u16 where "kWalFormatVersion = 1"
definition kMaxStoreBytes :: u64 where "kMaxStoreBytes = push_bit 20 512"
definition kMaxStoreRecords :: u64 where "kMaxStoreRecords = push_bit 22 1"

record record_header =
  rh_length :: u32
  rh_kind :: record_kind
  rh_flags :: u16
  rh_sequence :: u64
  rh_at :: timestamp
  rh_payload_crc :: u32
  rh_header_crc :: u32

text \<open>The fixed-width readers at the front of a byte string; \<open>put_u16\<close> and its kin are \<open>w_u16\<close> and its kin.\<close>

definition get_u16 :: "bytes \<Rightarrow> u16" where "get_u16 bs = ucast (be_value (take 2 bs))"
definition get_u32 :: "bytes \<Rightarrow> u32" where "get_u32 bs = ucast (be_value (take 4 bs))"
definition get_u64 :: "bytes \<Rightarrow> u64" where "get_u64 bs = be_value (take 8 bs)"

definition kWalMagic :: bytes where "kWalMagic = bytes_of_string ''ICFWAL1'' @ [0]"

definition make_header :: "incarnation_id \<Rightarrow> timestamp \<Rightarrow> bytes" where
  "make_header stream created_at =
    (let h = kWalMagic @ w_u16 kWalFormatVersion @ w_u16 0 @ w_u32 (word_of_nat kWalHeaderSize)
           @ w_uuid stream @ w_i64 created_at @ w_u64 0 @ w_u64 0
     in h @ w_u32 (crc32c h) @ w_u32 0)"

definition validate_header :: "bytes \<Rightarrow> status" where
  "validate_header header =
    (if length header < kWalHeaderSize
     then status_make Outcome_Incomplete ''log header is shorter than the fixed header size''
     else if take 8 header \<noteq> kWalMagic
     then status_make Outcome_Corrupt ''log header magic does not match ICFWAL1''
     else if get_u16 (drop 8 header) \<noteq> kWalFormatVersion
     then status_make Outcome_Incompatible ''log format version is not supported''
     else if get_u16 (drop 10 header) \<noteq> 0 then invalid ''log header flags must be zero''
     else if get_u32 (drop 12 header) \<noteq> word_of_nat kWalHeaderSize
     then invalid ''log header length field is inconsistent''
     else if get_u32 (drop 56 header) \<noteq> crc32c (take 56 header)
     then status_make Outcome_Corrupt ''log header CRC32C mismatch''
     else status_ok)"

text \<open>The bytes \<open>append\<close> writes: the header with its own checksum, the payload, and the trailer.\<close>

definition encode_record_header :: "record_kind \<Rightarrow> u64 \<Rightarrow> timestamp \<Rightarrow> bytes \<Rightarrow> bytes" where
  "encode_record_header kind sequence at payload =
    (let h = w_u32 (word_of_nat (length payload)) @ w_u16 (record_kind_code kind) @ w_u16 0
           @ w_u64 sequence @ w_i64 at @ w_u32 (crc32c payload)
     in h @ w_u32 (crc32c h))"

definition encode_record :: "record_kind \<Rightarrow> u64 \<Rightarrow> timestamp \<Rightarrow> bytes \<Rightarrow> bytes" where
  "encode_record kind sequence at payload =
    (let whole = encode_record_header kind sequence at payload @ payload
     in whole @ w_u32 (crc32c whole))"

section \<open>Scanning\<close>

text \<open>What one round of the scan finds at the front of the bytes that are left.\<close>

datatype record_read =
    Log_End
  | Log_Damaged string
  | Log_Regressed
  | Log_Record record_header bytes bytes

definition read_record :: "u64 option \<Rightarrow> bytes \<Rightarrow> record_read" where
  "read_record previous bs =
    (let rh = take kRecordHeaderSize bs in
     if bs = [] then Log_End
     else if length rh \<noteq> kRecordHeaderSize then Log_Damaged ''log ends inside a record header''
     else if get_u32 (drop 28 rh) \<noteq> crc32c (take 28 rh) then Log_Damaged ''record header CRC32C mismatch''
     else if \<not> record_kind_known (record_kind_of (get_u16 (drop 4 rh)))
     then Log_Damaged ''record kind is not recognised''
     else if get_u16 (drop 6 rh) \<noteq> 0 then Log_Damaged ''record flags must be zero''
     else if unat (get_u32 rh) > kMaxStoreRecordPayload
     then Log_Damaged ''record payload length exceeds the maximum''
     else if (case previous of None \<Rightarrow> False | Some p \<Rightarrow> \<not> p < get_u64 (drop 8 rh)) then Log_Regressed
     else
       let len = unat (get_u32 rh);
           payload = take len (drop kRecordHeaderSize bs);
           trailer = take kRecordTrailerSize (drop (kRecordHeaderSize + len) bs)
       in if length payload \<noteq> len then Log_Damaged ''log ends inside a record payload''
          else if length trailer \<noteq> kRecordTrailerSize then Log_Damaged ''log ends inside a record trailer''
          else if get_u32 trailer \<noteq> crc32c (rh @ payload) then Log_Damaged ''record CRC32C mismatch''
          else if get_u32 (drop 24 rh) \<noteq> crc32c payload then Log_Damaged ''record payload CRC32C mismatch''
          else Log_Record
            \<lparr>rh_length = get_u32 rh, rh_kind = record_kind_of (get_u16 (drop 4 rh)), rh_flags = 0,
             rh_sequence = get_u64 (drop 8 rh), rh_at = sint (get_u64 (drop 16 rh)),
             rh_payload_crc = get_u32 (drop 24 rh), rh_header_crc = get_u32 (drop 28 rh)\<rparr>
            payload (drop (kRecordHeaderSize + len + kRecordTrailerSize) bs))"

type_synonym 's visitor = "record_header \<Rightarrow> bytes \<Rightarrow> 's \<Rightarrow> (status \<times> 's) option"

record log_scan =
  sc_offset :: nat
  sc_records :: nat
  sc_previous :: "u64 option"

definition scan_start :: log_scan where
  "scan_start = \<lparr>sc_offset = kWalHeaderSize, sc_records = 0, sc_previous = None\<rparr>"

definition scanned :: "record_header \<Rightarrow> bytes \<Rightarrow> log_scan \<Rightarrow> log_scan" where
  "scanned h payload sc =
    \<lparr>sc_offset = sc_offset sc + kRecordHeaderSize + length payload + kRecordTrailerSize,
     sc_records = sc_records sc + 1, sc_previous = Some (rh_sequence h)\<rparr>"

lemma read_record_shorter: "read_record previous bs = Log_Record h payload rest \<Longrightarrow> length rest < length bs"
  by (auto simp: read_record_def Let_def kRecordHeaderSize_def kRecordTrailerSize_def split: if_splits)

text \<open>The loop of \<open>open\<close>: the incident that ended it, if any, where it stood, and the visitor's state.\<close>

function scan_log ::
  "'s visitor \<Rightarrow> nat \<Rightarrow> log_scan \<Rightarrow> 's \<Rightarrow> bytes \<Rightarrow> (string option \<times> log_scan \<times> 's) result option" where
  "scan_log visitor max_records sc s bs =
    (case read_record (sc_previous sc) bs of
       Log_End \<Rightarrow> Some (Inr (None, sc, s))
     | Log_Damaged incident \<Rightarrow> Some (Inr (Some incident, sc, s))
     | Log_Regressed \<Rightarrow>
         Some (Inl (status_make Outcome_Replayed ''log sequence numbers are not strictly increasing''))
     | Log_Record h payload rest \<Rightarrow>
         (case visitor h payload s of
            None \<Rightarrow> None
          | Some (visit, s') \<Rightarrow>
              if \<not> is_ok visit then Some (Inl visit)
              else if sc_records (scanned h payload sc) > max_records
              then Some (Inl (status_make Outcome_CapacityExceeded
                     ''log holds more records than the configured bound''))
              else scan_log visitor max_records (scanned h payload sc) s' rest))"
  by pat_completeness auto
termination
  by (relation "measure (\<lambda>(_, _, _, _, bs). length bs)") (auto dest: read_record_shorter)

declare scan_log.simps [simp del]

section \<open>The log\<close>

record wal_options =
  wo_path :: string
  wo_max_bytes :: u64
  wo_max_records :: u64
  wo_durable :: bool

record wal_recovery =
  wr_created :: bool
  wr_truncated_tail :: bool
  wr_records :: u64
  wr_bytes :: u64
  wr_discarded_bytes :: u64
  wr_last_sequence :: u64
  wr_incidents :: "string list"

definition no_recovery :: wal_recovery where
  "no_recovery =
    \<lparr>wr_created = False, wr_truncated_tail = False, wr_records = 0, wr_bytes = 0, wr_discarded_bytes = 0,
     wr_last_sequence = 0, wr_incidents = []\<rparr>"

record wal =
  wa_options :: wal_options
  wa_bytes :: u64
  wa_records :: u64
  wa_last_sequence :: u64
  wa_open :: bool

definition effective_options :: "wal_options \<Rightarrow> wal_options" where
  "effective_options options =
    options\<lparr>wo_max_bytes := (if wo_max_bytes options = 0 then kMaxStoreBytes else wo_max_bytes options),
            wo_max_records := (if wo_max_records options = 0 then kMaxStoreRecords else wo_max_records options)\<rparr>"

definition opened_wal :: "wal_options \<Rightarrow> u64 \<Rightarrow> u64 \<Rightarrow> u64 \<Rightarrow> wal" where
  "opened_wal options bytes records last_sequence =
    \<lparr>wa_options = effective_options options, wa_bytes = bytes, wa_records = records,
     wa_last_sequence = last_sequence, wa_open = True\<rparr>"

text \<open>After the scan: a damaged tail is cut off and reported, then the log is open.\<close>

definition finish_open ::
  "os_answers \<Rightarrow> wal_options \<Rightarrow> string option \<Rightarrow> log_scan \<Rightarrow> disk \<Rightarrow> (wal \<times> wal_recovery) result \<times> disk" where
  "finish_open os options incident sc disk =
    (let offset = word_of_nat (sc_offset sc);
         records = word_of_nat (sc_records sc);
         last_sequence = (case sc_previous sc of None \<Rightarrow> 0 | Some p \<Rightarrow> p);
         file_bytes = (case file_size disk (wo_path options) of Inl _ \<Rightarrow> offset | Inr found \<Rightarrow> found)
     in case incident of
       None \<Rightarrow>
         (Inr (opened_wal options file_bytes records last_sequence,
            no_recovery\<lparr>wr_records := records, wr_bytes := file_bytes, wr_last_sequence := last_sequence\<rparr>), disk)
     | Some why \<Rightarrow>
         (case truncate_file os (wo_path options) offset disk of
            (truncated, disk') \<Rightarrow>
              if \<not> is_ok truncated then (Inl truncated, disk')
              else
                let discarded = (if file_bytes > offset then file_bytes - offset else 0);
                    message = why @ '' at offset '' @ decimal (unat offset) @ ''; discarded ''
                      @ decimal (unat discarded) @ '' bytes''
                in (Inr (opened_wal options offset records last_sequence,
                     no_recovery\<lparr>wr_truncated_tail := True, wr_records := records, wr_bytes := offset,
                       wr_discarded_bytes := discarded, wr_last_sequence := last_sequence,
                       wr_incidents := [message]\<rparr>), disk')))"

definition wal_open ::
  "os_answers \<Rightarrow> incarnation_id \<Rightarrow> wal_options \<Rightarrow> 's visitor \<Rightarrow> 's \<Rightarrow> disk \<Rightarrow>
    (((wal \<times> wal_recovery) \<times> 's) result \<times> disk) option" where
  "wal_open os stream options visitor s disk =
    (if wo_path options = [] then Some (Inl (invalid ''log path must not be empty''), disk)
     else case disk (wo_path options) of
       None \<Rightarrow>
         let (written, disk') = write_file_atomic os (wo_path options) (make_header stream 0) disk
         in if \<not> is_ok written then Some (Inl written, disk')
            else Some (Inr ((opened_wal options (word_of_nat kWalHeaderSize) 0 0,
                   no_recovery\<lparr>wr_created := True\<rparr>), s), disk')
     | Some contents \<Rightarrow>
         if \<not> os_open os
         then Some (Inl (status_make Outcome_NotFound (''cannot open log file: '' @ wo_path options)), disk)
         else if length contents < kWalHeaderSize
         then Some (Inl (status_make Outcome_Corrupt ''log file is shorter than the fixed header''), disk)
         else if \<not> is_ok (validate_header (take kWalHeaderSize contents))
         then Some (Inl (validate_header (take kWalHeaderSize contents)), disk)
         else
           (case scan_log visitor (unat (wo_max_records (effective_options options))) scan_start s
                   (drop kWalHeaderSize contents) of
              None \<Rightarrow> None
            | Some (Inl e) \<Rightarrow> Some (Inl e, disk)
            | Some (Inr (incident, sc, s')) \<Rightarrow>
                (case finish_open os options incident sc disk of
                   (Inl e, disk') \<Rightarrow> Some (Inl e, disk')
                 | (Inr w, disk') \<Rightarrow> Some (Inr (w, s'), disk'))))"

definition wal_append ::
  "os_answers \<Rightarrow> record_kind \<Rightarrow> u64 \<Rightarrow> timestamp \<Rightarrow> bytes \<Rightarrow> wal \<Rightarrow> disk \<Rightarrow> status \<times> wal \<times> disk" where
  "wal_append os kind sequence at payload w disk =
    (if \<not> wa_open w then (status_make Outcome_Internal ''log is not open'', w, disk)
     else if \<not> record_kind_known kind then (invalid ''record kind is not recognised'', w, disk)
     else if length payload > kMaxStoreRecordPayload
     then (status_make Outcome_CapacityExceeded ''record payload exceeds the maximum size'', w, disk)
     else if wa_records w \<ge> wo_max_records (wa_options w)
     then (status_make Outcome_CapacityExceeded ''log reached the configured record bound'', w, disk)
     else case add_size (word_of_nat (kRecordHeaderSize + kRecordTrailerSize)) (word_of_nat (length payload)) of
       None \<Rightarrow> (status_make Outcome_Overflow ''record size computation overflow'', w, disk)
     | Some added \<Rightarrow>
         (case add_size added (wa_bytes w) of
            None \<Rightarrow> (status_make Outcome_Overflow ''record size computation overflow'', w, disk)
          | Some added \<Rightarrow>
              if added > wo_max_bytes (wa_options w)
              then (status_make Outcome_CapacityExceeded ''log reached the configured size bound'', w, disk)
              else
                let bs = encode_record kind sequence at payload;
                    (appended, disk') = append_file os (wo_path (wa_options w)) bs (wo_durable (wa_options w)) disk
                in if \<not> is_ok appended then (appended, w, disk')
                   else (status_ok,
                     w\<lparr>wa_bytes := wa_bytes w + word_of_nat (length bs), wa_records := wa_records w + 1,
                       wa_last_sequence := sequence\<rparr>, disk')))"

definition wal_reset :: "os_answers \<Rightarrow> incarnation_id \<Rightarrow> wal \<Rightarrow> disk \<Rightarrow> status \<times> wal \<times> disk" where
  "wal_reset os stream w disk =
    (if \<not> wa_open w then (status_make Outcome_Internal ''log is not open'', w, disk)
     else
       let header = make_header stream 0;
           (written, disk') = write_file_atomic os (wo_path (wa_options w)) header disk
       in if \<not> is_ok written then (written, w, disk')
          else (status_ok, w\<lparr>wa_bytes := word_of_nat (length header), wa_records := 0\<rparr>, disk'))"

definition wal_needs_compaction :: "wal \<Rightarrow> u64 \<Rightarrow> u64 \<Rightarrow> bool" where
  "wal_needs_compaction w byte_threshold record_threshold \<longleftrightarrow>
    wa_bytes w \<ge> byte_threshold \<or> wa_records w \<ge> record_threshold"

end
