(* ===== verification/Wal_Laws.thy ===== *)
theory Wal_Laws
  imports Wal
begin

text \<open>
  What the log guarantees. An intact log is scanned record by record; a log that was cut anywhere
  inside its last record is scanned up to that record; and whatever bytes are opened, the records
  handed to the visitor are authentic, in increasing sequence, and the bytes kept on disk are
  exactly theirs.
\<close>

section \<open>Fixed-width fields\<close>

lemma get_put [simp]:
  "get_u16 (w_u16 v @ rest) = v" "get_u16 (w_u16 v) = v"
  "get_u32 (w_u32 u @ rest) = u" "get_u32 (w_u32 u) = u"
  "get_u64 (w_u64 w @ rest) = w" "get_u64 (w_u64 w) = w"
  by (simp_all add: get_u16_def w_u16_def get_u32_def w_u32_def get_u64_def w_u64_def be_value_append_be
      u16_through_u64 u32_through_u64 take_bit_64)

lemma put_get_u16: "2 \<le> length bs \<Longrightarrow> w_u16 (get_u16 bs) = take 2 bs"
proof -
  assume "2 \<le> length bs"
  then have l: "length (take 2 bs) = 2" by simp
  have "append_be (take_bit 16 (be_value (take 2 bs))) 2 = append_be (be_value (take 2 bs)) 2"
    using read_be_append_be [of 2 "be_value (take 2 bs)" "[]"] l append_be_be_value [of "take 2 bs"]
    by (simp add: read_be_def)
  then show ?thesis
    using append_be_be_value [of "take 2 bs"] l by (simp add: w_u16_def get_u16_def u16_back)
qed

lemma put_get_u32: "4 \<le> length bs \<Longrightarrow> w_u32 (get_u32 bs) = take 4 bs"
proof -
  assume "4 \<le> length bs"
  then have l: "length (take 4 bs) = 4" by simp
  have "append_be (take_bit 32 (be_value (take 4 bs))) 4 = append_be (be_value (take 4 bs)) 4"
    using read_be_append_be [of 4 "be_value (take 4 bs)" "[]"] l append_be_be_value [of "take 4 bs"]
    by (simp add: read_be_def)
  then show ?thesis
    using append_be_be_value [of "take 4 bs"] l by (simp add: w_u32_def get_u32_def u32_back)
qed

lemma put_get_u64: "8 \<le> length bs \<Longrightarrow> w_u64 (get_u64 bs) = take 8 bs"
  using append_be_be_value [of "take 8 bs"] by (simp add: w_u64_def get_u64_def)

lemma w_i64_sint: "w_i64 (sint (v :: u64)) = w_u64 v"
  by (simp add: w_i64_def w_u64_def)

lemma get_u64_i64: "i64_ok v \<Longrightarrow> sint (get_u64 (w_i64 v @ rest)) = v"
  using get_put(5) [of "word_of_int v" rest] by (simp add: w_i64_def w_u64_def i64_roundtrip)

lemma i64_ok_sint [simp]: "i64_ok (sint (v :: u64))"
  using sint_range_size [of v] by (simp add: i64_ok_def word_size)

section \<open>Entries\<close>

record log_entry =
  le_kind :: record_kind
  le_sequence :: u64
  le_at :: timestamp
  le_payload :: bytes

definition encode_entry :: "log_entry \<Rightarrow> bytes" where
  "encode_entry e = encode_record (le_kind e) (le_sequence e) (le_at e) (le_payload e)"

definition entry_ok :: "log_entry \<Rightarrow> bool" where
  "entry_ok e \<longleftrightarrow>
    record_kind_known (le_kind e) \<and> length (le_payload e) \<le> kMaxStoreRecordPayload \<and> i64_ok (le_at e)"

definition entry_fields :: "log_entry \<Rightarrow> bytes" where
  "entry_fields e = w_u32 (word_of_nat (length (le_payload e))) @ w_u16 (record_kind_code (le_kind e)) @ w_u16 0
     @ w_u64 (le_sequence e) @ w_i64 (le_at e) @ w_u32 (crc32c (le_payload e))"

definition entry_head :: "log_entry \<Rightarrow> bytes" where
  "entry_head e = entry_fields e @ w_u32 (crc32c (entry_fields e))"

definition entry_header :: "log_entry \<Rightarrow> record_header" where
  "entry_header e =
    \<lparr>rh_length = word_of_nat (length (le_payload e)), rh_kind = le_kind e, rh_flags = 0,
     rh_sequence = le_sequence e, rh_at = le_at e, rh_payload_crc = crc32c (le_payload e),
     rh_header_crc = crc32c (entry_fields e)\<rparr>"

lemma encode_entry_eq:
  "encode_entry e = entry_head e @ le_payload e @ w_u32 (crc32c (entry_head e @ le_payload e))"
  by (simp add: encode_entry_def encode_record_def encode_record_header_def entry_head_def entry_fields_def Let_def)

lemma length_entry_fields [simp]: "length (entry_fields e) = 28"
  by (simp add: entry_fields_def)

lemma length_entry_head [simp]: "length (entry_head e) = 32"
  by (simp add: entry_head_def)

lemma length_encode_entry [simp]: "length (encode_entry e) = 36 + length (le_payload e)"
  by (simp add: encode_entry_eq)

lemma record_kind_of_code [simp]: "record_kind_of (record_kind_code k) = k"
  by (cases k) (simp_all add: record_kind_of_def record_kind_code_def record_kind_values_def)

lemma record_kind_code_of: "record_kind_known (record_kind_of raw) \<Longrightarrow> record_kind_code (record_kind_of raw) = raw"
proof -
  assume "record_kind_known (record_kind_of raw)"
  then have "unat raw < 5"
    by (auto simp: record_kind_of_def record_kind_known_def record_kind_values_def split: if_splits)
  then have "unat raw \<in> {0, 1, 2, 3, 4}" by auto
  then have "raw \<in> {0, 1, 2, 3, 4}" by (auto simp: word_eq_iff_unsigned [where ?'a = nat])
  then show ?thesis
    by (auto simp: record_kind_of_def record_kind_code_def record_kind_values_def)
qed

lemma entry_head_fields:
  assumes "entry_ok e"
  shows "unat (get_u32 (entry_head e)) = length (le_payload e)"
    and "get_u32 (entry_head e) = word_of_nat (length (le_payload e))"
    and "get_u16 (drop 4 (entry_head e)) = record_kind_code (le_kind e)"
    and "get_u16 (drop 6 (entry_head e)) = 0"
    and "get_u64 (drop 8 (entry_head e)) = le_sequence e"
    and "sint (get_u64 (drop 16 (entry_head e))) = le_at e"
    and "get_u32 (drop 24 (entry_head e)) = crc32c (le_payload e)"
    and "get_u32 (drop 28 (entry_head e)) = crc32c (entry_fields e)"
    and "take 28 (entry_head e) = entry_fields e"
  using assms
  by (simp_all add: entry_head_def entry_fields_def entry_ok_def get_u64_i64 unat_word_of_nat_u32
      kMaxStoreRecordPayload_def)

definition after_previous :: "u64 option \<Rightarrow> u64 \<Rightarrow> bool" where
  "after_previous previous sequence \<longleftrightarrow> (case previous of None \<Rightarrow> True | Some p \<Rightarrow> p < sequence)"

lemma not_after: "(case previous of None \<Rightarrow> False | Some p \<Rightarrow> \<not> p < sequence) \<longleftrightarrow> \<not> after_previous previous sequence"
  by (simp add: after_previous_def split: option.splits)

lemmas record_sizes = kRecordHeaderSize_def kRecordTrailerSize_def

text \<open>Once its header is complete, a record is judged by what follows the header.\<close>

lemma read_record_head:
  assumes "entry_ok e" "after_previous previous (le_sequence e)"
  shows "read_record previous (entry_head e @ rest) =
    (let len = length (le_payload e); payload = take len rest; trailer = take 4 (drop len rest) in
     if length payload \<noteq> len then Log_Damaged ''log ends inside a record payload''
     else if length trailer \<noteq> 4 then Log_Damaged ''log ends inside a record trailer''
     else if get_u32 trailer \<noteq> crc32c (entry_head e @ payload) then Log_Damaged ''record CRC32C mismatch''
     else if crc32c (le_payload e) \<noteq> crc32c payload then Log_Damaged ''record payload CRC32C mismatch''
     else Log_Record (entry_header e) payload (drop (len + 4) rest))"
proof -
  have ne: "entry_head e @ rest \<noteq> []" using length_entry_head [of e] by force
  have known: "record_kind_known (le_kind e)" "\<not> kMaxStoreRecordPayload < length (le_payload e)"
    using assms(1) by (auto simp: entry_ok_def)
  have cut: "take 32 (entry_head e @ rest) = entry_head e" "drop 32 (entry_head e @ rest) = rest"
    "drop (32 + n) (entry_head e @ rest) = drop n rest" for n
    by simp_all
  note f = entry_head_fields [OF assms(1)]
  show ?thesis
    unfolding read_record_def not_after record_sizes Let_def add.assoc cut f(1)
    unfolding f(2-) entry_header_def
    by (simp only: ne known assms(2) length_entry_head record_kind_of_code not_True_eq_False simp_thms if_False
        if_True append_assoc)
qed

lemma read_record_entry:
  assumes "entry_ok e" "after_previous previous (le_sequence e)"
  shows "read_record previous (encode_entry e @ rest) = Log_Record (entry_header e) (le_payload e) rest"
  using read_record_head [OF assms, of "le_payload e @ w_u32 (crc32c (entry_head e @ le_payload e)) @ rest"]
  by (simp add: encode_entry_eq)

text \<open>A record that is cut short, whatever is missing, ends the trusted prefix.\<close>

lemma read_record_short:
  assumes "0 < length bs" "length bs < 32"
  shows "read_record previous bs = Log_Damaged ''log ends inside a record header''"
  using assms by (auto simp: read_record_def record_sizes)

lemma read_record_missing:
  assumes "entry_ok e" "after_previous previous (le_sequence e)" "length rest < length (le_payload e) + 4"
  shows "\<exists>why. read_record previous (entry_head e @ rest) = Log_Damaged why"
  using assms(3) by (auto simp: read_record_head [OF assms(1,2)] Let_def)

lemma read_record_torn:
  assumes "entry_ok e" "after_previous previous (le_sequence e)" "0 < k" "k < length (encode_entry e)"
  shows "\<exists>why. read_record previous (take k (encode_entry e)) = Log_Damaged why"
proof (cases "k < 32")
  case True
  then show ?thesis using assms(3,4) read_record_short [of "take k (encode_entry e)"] by auto
next
  case False
  then have "take k (encode_entry e)
      = entry_head e @ take (k - 32) (le_payload e @ w_u32 (crc32c (entry_head e @ le_payload e)))"
    by (simp add: encode_entry_eq)
  then show ?thesis using read_record_missing [OF assms(1,2)] assms(4) by simp
qed

text \<open>Whatever the bytes, a record that was read is an authentic one.\<close>

lemma take_take_drop: "take n xs @ take m (drop n xs) = take (n + m) xs"
  by (simp add: take_add)

lemma read_record_sound:
  assumes "read_record previous bs = Log_Record h payload rest"
  obtains e where "entry_ok e" "after_previous previous (le_sequence e)" "h = entry_header e"
    "payload = le_payload e" "bs = encode_entry e @ rest"
proof -
  let ?rh = "take 32 bs" and ?len = "unat (get_u32 (take 32 bs))"
  have len32: "length ?rh = 32" "32 \<le> length bs"
    using assms by (auto simp: read_record_def record_sizes Let_def split: if_splits)
  have c: "get_u32 (drop 28 ?rh) = crc32c (take 28 ?rh)"
    "record_kind_known (record_kind_of (get_u16 (drop 4 ?rh)))" "get_u16 (drop 6 ?rh) = 0"
    "?len \<le> kMaxStoreRecordPayload" "after_previous previous (get_u64 (drop 8 ?rh))"
    "payload = take ?len (drop 32 bs)" "length payload = ?len"
    "get_u32 (take 4 (drop (32 + ?len) bs)) = crc32c (?rh @ payload)" "36 + ?len \<le> length bs"
    "get_u32 (drop 24 ?rh) = crc32c payload" "rest = drop (36 + ?len) bs"
    and h: "h = \<lparr>rh_length = get_u32 ?rh, rh_kind = record_kind_of (get_u16 (drop 4 ?rh)), rh_flags = 0,
      rh_sequence = get_u64 (drop 8 ?rh), rh_at = sint (get_u64 (drop 16 ?rh)),
      rh_payload_crc = get_u32 (drop 24 ?rh), rh_header_crc = get_u32 (drop 28 ?rh)\<rparr>"
    using assms unfolding read_record_def not_after record_sizes
    by (auto simp: Let_def split: if_splits)
  define e where "e = \<lparr>le_kind = record_kind_of (get_u16 (drop 4 ?rh)), le_sequence = get_u64 (drop 8 ?rh),
    le_at = sint (get_u64 (drop 16 ?rh)), le_payload = payload\<rparr>"
  have words: "word_of_nat (length payload) = get_u32 ?rh" using c(7) by simp
  have "entry_fields e = take 4 ?rh @ take 2 (drop 4 ?rh) @ take 2 (drop 6 ?rh) @ take 8 (drop 8 ?rh)
      @ take 8 (drop 16 ?rh) @ take 4 (drop 24 ?rh)"
    using len32 words c(3) c(10) [symmetric]
      put_get_u16 [of "drop 6 ?rh"] put_get_u16 [of "drop 4 ?rh"] put_get_u32 [of ?rh] put_get_u32 [of "drop 24 ?rh"]
      put_get_u64 [of "drop 8 ?rh"] put_get_u64 [of "drop 16 ?rh"]
    by (simp add: entry_fields_def e_def record_kind_code_of [OF c(2)] w_i64_sint del: take_take)
  also have "\<dots> = take 28 ?rh"
    using take_take_drop [of 24 ?rh 4] take_take_drop [of 16 ?rh 8] take_take_drop [of 8 ?rh 8]
      take_take_drop [of 6 ?rh 2] take_take_drop [of 4 ?rh 2]
    by (simp del: take_take append_assoc add: append_assoc [symmetric])
  finally have fields: "entry_fields e = take 28 ?rh" .
  have "entry_head e = take 28 ?rh @ take 4 (drop 28 ?rh)"
    using len32 c(1) put_get_u32 [of "drop 28 ?rh"] fields by (simp add: entry_head_def del: take_take)
  then have head: "entry_head e = ?rh" using take_take_drop [of 28 ?rh 4] by simp
  have trailer: "w_u32 (crc32c (?rh @ payload)) = take 4 (drop (32 + ?len) bs)"
    using c(8,9) put_get_u32 [of "take 4 (drop (32 + ?len) bs)"] by simp
  have "encode_entry e = ?rh @ take ?len (drop 32 bs) @ take 4 (drop (32 + ?len) bs)"
    using head trailer c(6) by (simp add: encode_entry_eq e_def)
  also have "\<dots> = take (36 + ?len) bs"
    using take_take_drop [of 32 bs ?len] take_take_drop [of "32 + ?len" bs 4]
    by (simp add: add.commute add.left_commute del: take_take append_assoc add: append_assoc [symmetric])
  finally have "bs = encode_entry e @ rest" using c(11) by simp
  moreover have "h = entry_header e"
    using h words c(1,10) fields by (simp add: entry_header_def e_def)
  moreover have "entry_ok e" "after_previous previous (le_sequence e)" "payload = le_payload e"
    using c by (simp_all add: entry_ok_def e_def)
  ultimately show thesis using that by blast
qed

section \<open>Scans\<close>

fun follows :: "u64 option \<Rightarrow> log_entry list \<Rightarrow> bool" where
  "follows previous [] = True"
| "follows previous (e # es) \<longleftrightarrow>
    entry_ok e \<and> after_previous previous (le_sequence e) \<and> follows (Some (le_sequence e)) es"

definition last_sequence :: "u64 option \<Rightarrow> log_entry list \<Rightarrow> u64 option" where
  "last_sequence previous es = (if es = [] then previous else Some (le_sequence (last es)))"

fun visit_all :: "'s visitor \<Rightarrow> log_entry list \<Rightarrow> 's \<Rightarrow> 's result option" where
  "visit_all visitor [] s = Some (Inr s)"
| "visit_all visitor (e # es) s =
    (case visitor (entry_header e) (le_payload e) s of
       None \<Rightarrow> None
     | Some (visit, s') \<Rightarrow> if \<not> is_ok visit then Some (Inl visit) else visit_all visitor es s')"

definition encode_log :: "log_entry list \<Rightarrow> bytes" where
  "encode_log es = concat (map encode_entry es)"

definition advance :: "log_entry list \<Rightarrow> log_scan \<Rightarrow> log_scan" where
  "advance es sc =
    \<lparr>sc_offset = sc_offset sc + length (encode_log es), sc_records = sc_records sc + length es,
     sc_previous = last_sequence (sc_previous sc) es\<rparr>"

lemma encode_log_simps [simp]:
  "encode_log [] = []" "encode_log (e # es) = encode_entry e @ encode_log es"
  "encode_log (es @ fs) = encode_log es @ encode_log fs"
  by (simp_all add: encode_log_def)

lemma advance_simps [simp]:
  "advance [] sc = sc"
  "advance es (scanned (entry_header e) (le_payload e) sc) = advance (e # es) sc"
  by (simp_all add: advance_def scanned_def last_sequence_def entry_header_def record_sizes)

lemma advance_fields [simp]:
  "sc_records (advance es sc) = sc_records sc + length es"
  "sc_offset (advance es sc) = sc_offset sc + length (encode_log es)"
  "sc_previous (advance es sc) = last_sequence (sc_previous sc) es"
  by (simp_all add: advance_def)

lemma scanned_fields [simp]:
  "sc_previous (scanned (entry_header e) p sc) = Some (le_sequence e)"
  "sc_records (scanned h p sc) = Suc (sc_records sc)"
  by (simp_all add: scanned_def entry_header_def)

lemma follows_append:
  "follows previous (es @ fs) \<longleftrightarrow> follows previous es \<and> follows (last_sequence previous es) fs"
  by (induction es arbitrary: previous) (auto simp: last_sequence_def)

lemma visit_all_append:
  "visit_all v (es @ fs) s = (case visit_all v es s of
     None \<Rightarrow> None | Some (Inl e) \<Rightarrow> Some (Inl e) | Some (Inr s') \<Rightarrow> visit_all v fs s')"
  by (induction es arbitrary: s) (auto split: option.splits)

lemma scan_log_entries:
  "follows (sc_previous sc) es \<Longrightarrow> sc_records sc + length es \<le> n \<Longrightarrow>
    scan_log v n sc s (encode_log es @ rest) =
      (case visit_all v es s of
         None \<Rightarrow> None
       | Some (Inl e) \<Rightarrow> Some (Inl e)
       | Some (Inr s') \<Rightarrow> scan_log v n (advance es sc) s' rest)"
proof (induction es arbitrary: sc s)
  case (Cons e es)
  have read: "read_record (sc_previous sc) (encode_entry e @ encode_log es @ rest)
      = Log_Record (entry_header e) (le_payload e) (encode_log es @ rest)"
    using Cons.prems(1) by (intro read_record_entry) simp_all
  have IH: "scan_log v n (scanned (entry_header e) (le_payload e) sc) s' (encode_log es @ rest) =
      (case visit_all v es s' of None \<Rightarrow> None | Some (Inl e) \<Rightarrow> Some (Inl e)
       | Some (Inr s') \<Rightarrow> scan_log v n (advance (e # es) sc) s' rest)" for s'
    using Cons.IH [of "scanned (entry_header e) (le_payload e) sc" s'] Cons.prems
    unfolding advance_simps by simp
  show ?case
    using Cons.prems(2)
    by (subst scan_log.simps) (auto simp: read IH split: option.splits)
qed simp

lemma read_record_Nil [simp]: "read_record previous [] = Log_End"
  by (simp add: read_record_def)

lemma read_record_ends:
  "read_record previous bs = Log_End \<Longrightarrow> bs = []"
  "read_record previous bs = Log_Damaged why \<Longrightarrow> bs \<noteq> []"
  by (auto simp: read_record_def Let_def split: if_splits)

lemma scan_log_sound:
  "scan_log v n sc s bs = Some (Inr (incident, sc', s')) \<Longrightarrow>
    \<exists>es rest. bs = encode_log es @ rest \<and> follows (sc_previous sc) es \<and> visit_all v es s = Some (Inr s')
      \<and> sc' = advance es sc \<and> (incident = None \<longleftrightarrow> rest = [])"
proof (induction bs arbitrary: sc s rule: length_induct)
  case (1 bs)
  show ?case
  proof (cases "read_record (sc_previous sc) bs")
    case Log_End
    then show ?thesis
      using 1(2) read_record_ends(1) by (subst (asm) scan_log.simps) (auto intro!: exI [of _ "[]"])
  next
    case (Log_Damaged why)
    then show ?thesis
      using 1(2) read_record_ends(2) [OF Log_Damaged]
      by (subst (asm) scan_log.simps) (auto intro!: exI [of _ "[]"] exI [of _ bs])
  next
    case Log_Regressed
    then show ?thesis using 1(2) by (subst (asm) scan_log.simps) simp
  next
    case (Log_Record h payload rest)
    then obtain e where e: "entry_ok e" "after_previous (sc_previous sc) (le_sequence e)" "h = entry_header e"
      "payload = le_payload e" "bs = encode_entry e @ rest" by (rule read_record_sound)
    obtain visit s1 where v: "v h payload s = Some (visit, s1)" "is_ok visit"
      and run: "scan_log v n (scanned h payload sc) s1 rest = Some (Inr (incident, sc', s'))"
      using 1(2) Log_Record by (subst (asm) scan_log.simps) (auto split: option.splits if_splits)
    obtain es rest' where es: "rest = encode_log es @ rest'" "follows (Some (le_sequence e)) es"
      "visit_all v es s1 = Some (Inr s')" "sc' = advance (e # es) sc" "incident = None \<longleftrightarrow> rest' = []"
      using 1(1) [rule_format, OF _ run] read_record_shorter [OF Log_Record] e by auto
    then show ?thesis
      using e v by (intro exI [of _ "e # es"] exI [of _ rest']) auto
  qed
qed

section \<open>Opening and appending\<close>

definition header_ok :: "bytes \<Rightarrow> bool" where
  "header_ok hdr \<longleftrightarrow> length hdr = kWalHeaderSize \<and> is_ok (validate_header hdr)"

lemma make_header_ok: "uuid_ok stream \<Longrightarrow> header_ok (make_header stream t)"
proof -
  assume u: "uuid_ok stream"
  define h where "h = kWalMagic @ w_u16 kWalFormatVersion @ w_u16 0 @ w_u32 (word_of_nat kWalHeaderSize)
    @ w_uuid stream @ w_i64 t @ w_u64 0 @ w_u64 0"
  have magic: "length kWalMagic = 8" by (simp add: kWalMagic_def bytes_of_string_def)
  have l: "length h = 56"
    using u magic by (simp add: h_def uuid_ok_def w_uuid_def w_raw_def)
  have mk: "make_header stream t = h @ w_u32 (crc32c h) @ w_u32 0" by (simp add: make_header_def h_def Let_def)
  have "take 8 h = kWalMagic" "get_u16 (drop 8 h @ r) = kWalFormatVersion" "get_u16 (drop 10 h @ r) = 0"
    "get_u32 (drop 12 h @ r) = word_of_nat kWalHeaderSize" for r
    using magic by (simp_all add: h_def)
  then show ?thesis using l by (simp add: header_ok_def validate_header_def mk kWalHeaderSize_def)
qed

text \<open>The state of a log that was opened on these entries.\<close>

definition wal_holds :: "wal_options \<Rightarrow> log_entry list \<Rightarrow> wal \<Rightarrow> bool" where
  "wal_holds options es w \<longleftrightarrow>
    wa_options w = effective_options options \<and> wa_open w
    \<and> wa_bytes w = word_of_nat (kWalHeaderSize + length (encode_log es))
    \<and> wa_records w = word_of_nat (length es)"

lemma finish_open_holds:
  assumes here: "disk (wo_path options) = Some (hdr @ encode_log es @ rest)" "length hdr = kWalHeaderSize"
    and short: "length (hdr @ encode_log es @ rest) < 2 ^ 64" and inc: "incident = None \<longleftrightarrow> rest = []"
    and run: "finish_open os options incident (advance es scan_start) disk = (Inr (w, rec), disk')"
  shows "disk' = disk(wo_path options \<mapsto> hdr @ encode_log es)" "wal_holds options es w"
    "wr_truncated_tail rec \<longleftrightarrow> rest \<noteq> []" "wr_records rec = word_of_nat (length es)"
    "wr_last_sequence rec = (case last_sequence None es of None \<Rightarrow> 0 | Some p \<Rightarrow> p)"
    "wa_last_sequence w = wr_last_sequence rec"
proof -
  have off: "sc_offset scan_start = length hdr" by (simp add: scan_start_def here(2))
  have "disk' = disk(wo_path options \<mapsto> hdr @ encode_log es) \<and> wal_holds options es w
      \<and> (wr_truncated_tail rec \<longleftrightarrow> rest \<noteq> []) \<and> wr_records rec = word_of_nat (length es)
      \<and> wr_last_sequence rec = (case last_sequence None es of None \<Rightarrow> 0 | Some p \<Rightarrow> p)
      \<and> wa_last_sequence w = wr_last_sequence rec"
  proof (cases incident)
    case None
    then have "rest = []" using inc by simp
    moreover from this have "disk = disk(wo_path options \<mapsto> hdr @ encode_log es)" using here(1) by auto
    ultimately show ?thesis
      using run None here
      by (auto simp: finish_open_def Let_def file_size_def wal_holds_def opened_wal_def no_recovery_def
          scan_start_def kWalHeaderSize_def)
  next
    case (Some why)
    let ?offset = "word_of_nat (length (hdr @ encode_log es)) :: u64"
    obtain s where t: "truncate_file os (wo_path options) ?offset disk = (s, disk')" "is_ok s"
      using run Some by (auto simp: finish_open_def Let_def off split: prod.splits if_splits)
    from truncate_file_ok [OF t here(1)] short have d: "disk' = disk(wo_path options \<mapsto> hdr @ encode_log es)"
      by simp
    show ?thesis
      using run Some inc t d here(2)
      by (auto simp: finish_open_def Let_def off wal_holds_def opened_wal_def no_recovery_def
          scan_start_def kWalHeaderSize_def)
  qed
  then show "disk' = disk(wo_path options \<mapsto> hdr @ encode_log es)" "wal_holds options es w"
    "wr_truncated_tail rec \<longleftrightarrow> rest \<noteq> []" "wr_records rec = word_of_nat (length es)"
    "wr_last_sequence rec = (case last_sequence None es of None \<Rightarrow> 0 | Some p \<Rightarrow> p)"
    "wa_last_sequence w = wr_last_sequence rec"
    by blast+
qed

lemma wal_open_sound:
  assumes here: "disk (wo_path options) = Some contents" and short: "length contents < 2 ^ 64"
    and run: "wal_open os stream options v s disk = Some (Inr ((w, rec), s'), disk')"
  obtains hdr es rest where "contents = hdr @ encode_log es @ rest" "header_ok hdr" "follows None es"
    "visit_all v es s = Some (Inr s')" "disk' = disk(wo_path options \<mapsto> hdr @ encode_log es)"
    "wal_holds options es w" "wr_truncated_tail rec \<longleftrightarrow> rest \<noteq> []" "wr_records rec = word_of_nat (length es)"
    "wr_last_sequence rec = (case last_sequence None es of None \<Rightarrow> 0 | Some p \<Rightarrow> p)"
    "wa_last_sequence w = wr_last_sequence rec"
proof -
  let ?hdr = "take kWalHeaderSize contents"
  have hdr: "header_ok ?hdr"
    using run here by (auto simp: wal_open_def header_ok_def split: if_splits)
  obtain incident sc where sc: "scan_log v (unat (wo_max_records (effective_options options))) scan_start s
        (drop kWalHeaderSize contents) = Some (Inr (incident, sc, s'))"
    and fin: "finish_open os options incident sc disk = (Inr (w, rec), disk')"
    using run here by (auto simp: wal_open_def split: if_splits option.splits sum.splits prod.splits)
  from scan_log_sound [OF sc] obtain es rest where es: "drop kWalHeaderSize contents = encode_log es @ rest"
    "follows None es" "visit_all v es s = Some (Inr s')" "sc = advance es scan_start"
    "incident = None \<longleftrightarrow> rest = []"
    by (auto simp: scan_start_def)
  have whole: "contents = ?hdr @ encode_log es @ rest"
    using append_take_drop_id [of kWalHeaderSize contents] es(1) by simp
  have lhdr: "length ?hdr = kWalHeaderSize" using hdr by (simp add: header_ok_def)
  note fin' = finish_open_holds [where hdr = ?hdr, OF _ lhdr _ es(5) fin [unfolded es(4)]]
  from fin'(1) fin'(2) fin'(3) fin'(4) fin'(5) fin'(6) show thesis
    using that [OF whole hdr es(2,3)] here short whole by simp
qed

lemma wal_open_recovers:
  assumes "wo_path options \<noteq> []" and here: "disk (wo_path options) = Some (hdr @ encode_log es @ torn)"
    and hdr: "header_ok hdr" and es: "follows None es" "visit_all v es s = Some (Inr s')"
    and bound: "length es \<le> unat (wo_max_records (effective_options options))"
    and os: "os_open os" "os_truncate os" and short: "length (hdr @ encode_log es @ torn) < 2 ^ 64"
    and torn: "torn = [] \<or> (\<exists>why. read_record (last_sequence None es) torn = Log_Damaged why)"
  shows "\<exists>w rec. wal_open os stream options v s disk
      = Some (Inr ((w, rec), s'), disk(wo_path options \<mapsto> hdr @ encode_log es))
    \<and> wal_holds options es w \<and> (wr_truncated_tail rec \<longleftrightarrow> torn \<noteq> []) \<and> wr_records rec = word_of_nat (length es)
    \<and> wr_last_sequence rec = (case last_sequence None es of None \<Rightarrow> 0 | Some p \<Rightarrow> p)
    \<and> wa_last_sequence w = wr_last_sequence rec"
proof -
  have lhdr: "length hdr = kWalHeaderSize" using hdr by (simp add: header_ok_def)
  have "\<exists>incident. (incident = None \<longleftrightarrow> torn = [])
      \<and> (\<forall>n. scan_log v n (advance es scan_start) s' torn = Some (Inr (incident, advance es scan_start, s')))"
    using torn
  proof
    assume "torn = []"
    then show ?thesis by (intro exI [of _ None] conjI allI) (simp, subst scan_log.simps, simp)
  next
    assume "\<exists>why. read_record (last_sequence None es) torn = Log_Damaged why"
    then obtain why where "read_record (last_sequence None es) torn = Log_Damaged why" by blast
    then show ?thesis
      using read_record_ends(2) by (intro exI [of _ "Some why"] conjI allI) (simp, subst scan_log.simps, simp add: scan_start_def)
  qed
  then obtain incident where inc: "incident = None \<longleftrightarrow> torn = []"
    and end_scan: "\<And>n. scan_log v n (advance es scan_start) s' torn
      = Some (Inr (incident, advance es scan_start, s'))" by blast
  have scan: "scan_log v (unat (wo_max_records (effective_options options))) scan_start s (encode_log es @ torn)
      = Some (Inr (incident, advance es scan_start, s'))"
    using scan_log_entries [of scan_start es "unat (wo_max_records (effective_options options))" v s torn]
      es bound end_scan by (simp add: scan_start_def)
  obtain w rec disk' where fin: "finish_open os options incident (advance es scan_start) disk = (Inr (w, rec), disk')"
    using os(2) here by (cases incident) (auto simp: finish_open_def truncate_file_def Let_def)
  note fin' = finish_open_holds [OF here lhdr short inc fin]
  have "wal_open os stream options v s disk = Some (Inr ((w, rec), s'), disk')"
    using assms(1) here hdr os(1) scan fin lhdr by (simp add: wal_open_def header_ok_def)
  then show ?thesis using fin' by blast
qed

lemma wal_append_cases:
  assumes "wal_append os kind sequence at payload w disk = (s, w', disk')"
  obtains (refused) "\<not> is_ok s" "w' = w" "disk' = disk"
  | (written) st where "append_file os (wo_path (wa_options w)) (encode_record kind sequence at payload)
        (wo_durable (wa_options w)) disk = (st, disk')"
      "record_kind_known kind" "length payload \<le> kMaxStoreRecordPayload" "wa_records w < wo_max_records (wa_options w)"
      "(s, w') = (if is_ok st then (status_ok,
         w\<lparr>wa_bytes := wa_bytes w + word_of_nat (length (encode_record kind sequence at payload)),
           wa_records := wa_records w + 1, wa_last_sequence := sequence\<rparr>) else (st, w))"
proof -
  let ?go = "case append_file os (wo_path (wa_options w)) (encode_record kind sequence at payload)
      (wo_durable (wa_options w)) disk of (st, d) \<Rightarrow> if \<not> is_ok st then (st, w, d) else (status_ok,
        w\<lparr>wa_bytes := wa_bytes w + word_of_nat (length (encode_record kind sequence at payload)),
          wa_records := wa_records w + 1, wa_last_sequence := sequence\<rparr>, d)"
  have "(\<not> is_ok s \<and> w' = w \<and> disk' = disk)
      \<or> (record_kind_known kind \<and> length payload \<le> kMaxStoreRecordPayload
         \<and> wa_records w < wo_max_records (wa_options w) \<and> ?go = (s, w', disk'))"
    using assms unfolding wal_append_def Let_def
    by (simp split: if_splits option.splits) (auto simp: not_le not_less)
  then show thesis
    using that by (cases "append_file os (wo_path (wa_options w)) (encode_record kind sequence at payload)
        (wo_durable (wa_options w)) disk") (auto split: if_splits)
qed

lemma wal_append_holds:
  assumes holds: "wal_holds options es w" and here: "disk (wo_path options) = Some (hdr @ encode_log es)"
    and run: "wal_append os kind sequence at payload w disk = (s, w', disk')"
    and e: "e = \<lparr>le_kind = kind, le_sequence = sequence, le_at = at, le_payload = payload\<rparr>"
  shows "is_ok s \<Longrightarrow> disk' = disk(wo_path options \<mapsto> hdr @ encode_log (es @ [e])) \<and> wal_holds options (es @ [e]) w'
      \<and> wa_last_sequence w' = sequence \<and> record_kind_known kind \<and> length payload \<le> kMaxStoreRecordPayload
      \<and> wa_records w < wo_max_records (effective_options options)"
    and "\<not> is_ok s \<Longrightarrow> w' = w \<and> (\<exists>k. disk' = disk(wo_path options \<mapsto> (hdr @ encode_log es) @ take k (encode_entry e)))"
proof -
  have path: "wo_path (wa_options w) = wo_path options"
    and opts: "wa_options w = effective_options options"
    using holds by (simp_all add: wal_holds_def effective_options_def)
  have enc: "encode_record kind sequence at payload = encode_entry e" by (simp add: encode_entry_def e)
  have ne: "encode_entry e \<noteq> []" using length_encode_entry [of e] by fastforce
  show "disk' = disk(wo_path options \<mapsto> hdr @ encode_log (es @ [e])) \<and> wal_holds options (es @ [e]) w'
      \<and> wa_last_sequence w' = sequence \<and> record_kind_known kind \<and> length payload \<le> kMaxStoreRecordPayload
      \<and> wa_records w < wo_max_records (effective_options options)" if "is_ok s"
    using run
  proof (cases rule: wal_append_cases)
    case (written st)
    then have "is_ok st" using that by (auto split: if_splits)
    then show ?thesis
      using append_file_ok [OF written(1) [unfolded path enc]] written here ne holds opts enc
      by (simp add: wal_holds_def)
  qed (use that in simp)
  show "w' = w \<and> (\<exists>k. disk' = disk(wo_path options \<mapsto> (hdr @ encode_log es) @ take k (encode_entry e)))"
    if "\<not> is_ok s"
    using run
  proof (cases rule: wal_append_cases)
    case refused
    then have "disk' = disk(wo_path options \<mapsto> (hdr @ encode_log es) @ take 0 (encode_entry e))" using here by auto
    then show ?thesis using refused by blast
  next
    case (written st)
    then show ?thesis
      using append_file_prefix [OF written(1) [unfolded path enc] here] that by (auto split: if_splits)
  qed
qed

end
