(* ===== verification/Snapshot.thy ===== *)
theory Snapshot
  imports Wal_Laws Mutation
begin

text \<open>
  \<open>store/snapshot.cpp\<close>: the bulk state of a store. A snapshot carries the canonical encoding of the
  registry under three checksums and the digest the registry is expected to have. \<open>None\<close> is the
  exception of the registry decoder.
\<close>

record store_meta =
  sm_term :: u64
  sm_incarnation :: incarnation_id
  sm_revision :: u64
  sm_sequence :: u64
  sm_written_at :: timestamp
  sm_truncations :: u64
  sm_state_digest :: digest

definition default_meta :: store_meta where
  "default_meta =
    \<lparr>sm_term = 0, sm_incarnation = nil_uuid, sm_revision = 0, sm_sequence = 0, sm_written_at = 0,
     sm_truncations = 0, sm_state_digest = zero_digest\<rparr>"

record snapshot =
  sn_meta :: store_meta
  sn_registry :: registry

definition kSnapshotHeaderSize :: nat where "kSnapshotHeaderSize = 112"
definition kSnapshotFormatVersion :: u16 where "kSnapshotFormatVersion = 1"
definition kSnapshotMagic :: bytes where "kSnapshotMagic = bytes_of_string ''ICFSNP1'' @ [0]"

definition snapshot_head :: "store_meta \<Rightarrow> bytes \<Rightarrow> digest \<Rightarrow> bytes" where
  "snapshot_head meta payload digest =
    (let h = kSnapshotMagic @ w_u16 kSnapshotFormatVersion @ w_u16 0 @ w_u32 (word_of_nat (length payload))
           @ w_u32 (crc32c payload)
     in h @ w_u32 (crc32c h) @ w_uuid (sm_incarnation meta) @ w_u64 (sm_term meta) @ w_u64 (sm_revision meta)
          @ w_u64 (sm_sequence meta) @ w_i64 (sm_written_at meta) @ w_u64 (sm_truncations meta) @ w_digest digest)"

definition encode_snapshot :: "store_meta \<Rightarrow> registry \<Rightarrow> bytes result" where
  "encode_snapshot meta r =
    (let payload = encode_registry r True in
     if length payload > kMaxStoreRecordPayload
     then Inl (status_make Outcome_CapacityExceeded ''snapshot payload exceeds the maximum record size'')
     else
       let whole = snapshot_head meta payload (registry_digest r) @ payload
       in Inr (whole @ w_u32 (crc32c whole)))"

text \<open>The checks on the bytes, before the payload is decoded; the result is the payload.\<close>

definition snapshot_payload :: "bytes \<Rightarrow> bytes result" where
  "snapshot_payload bs =
    (if length bs < kSnapshotHeaderSize + 4
     then Inl (status_make Outcome_Incomplete ''snapshot is shorter than the fixed header'')
     else if take 8 bs \<noteq> kSnapshotMagic
     then Inl (status_make Outcome_Corrupt ''snapshot magic does not match ICFSNP1'')
     else if get_u16 (drop 8 bs) \<noteq> kSnapshotFormatVersion
     then Inl (status_make Outcome_Incompatible ''snapshot format version is not supported'')
     else if get_u16 (drop 10 bs) \<noteq> 0 then Inl (invalid ''snapshot flags must be zero'')
     else if get_u32 (drop 20 bs) \<noteq> crc32c (take 20 bs)
     then Inl (status_make Outcome_Corrupt ''snapshot header CRC32C mismatch'')
     else if unat (get_u32 (drop 12 bs)) > kMaxStoreRecordPayload
     then Inl (status_make Outcome_CapacityExceeded ''snapshot payload exceeds the maximum record size'')
     else
       let len = unat (get_u32 (drop 12 bs)) in
       case add_size (word_of_nat kSnapshotHeaderSize) (word_of_nat len) of
         None \<Rightarrow> Inl (status_make Outcome_Overflow ''snapshot length computation overflow'')
       | Some grown \<Rightarrow>
           (case add_size grown 4 of
              None \<Rightarrow> Inl (status_make Outcome_Overflow ''snapshot length computation overflow'')
            | Some grown \<Rightarrow>
                let payload = take len (drop kSnapshotHeaderSize bs) in
                if length bs \<noteq> unat grown
                then Inl (status_make Outcome_Incomplete ''snapshot length does not match the declared payload length'')
                else if get_u32 (drop (kSnapshotHeaderSize + len) bs) \<noteq> crc32c (take (kSnapshotHeaderSize + len) bs)
                then Inl (status_make Outcome_Corrupt ''snapshot record CRC32C mismatch'')
                else if get_u32 (drop 16 bs) \<noteq> crc32c payload
                then Inl (status_make Outcome_Corrupt ''snapshot payload CRC32C mismatch'')
                else Inr payload))"

definition snapshot_meta :: "bytes \<Rightarrow> digest \<Rightarrow> store_meta" where
  "snapshot_meta bs digest =
    \<lparr>sm_term = get_u64 (drop 40 bs), sm_incarnation = uuid_from_bytes (take 16 (drop 24 bs)),
     sm_revision = get_u64 (drop 48 bs), sm_sequence = get_u64 (drop 56 bs),
     sm_written_at = sint (get_u64 (drop 64 bs)), sm_truncations = get_u64 (drop 72 bs),
     sm_state_digest = digest\<rparr>"

definition decode_snapshot :: "bytes \<Rightarrow> snapshot result option" where
  "decode_snapshot bs =
    (case snapshot_payload bs of
       Inl e \<Rightarrow> Some (Inl e)
     | Inr payload \<Rightarrow>
         (case decode_registry payload of
            None \<Rightarrow> None
          | Some (Inl e) \<Rightarrow> Some (Inl e)
          | Some (Inr r) \<Rightarrow>
              if digest_from_bytes (take 32 (drop 80 bs)) \<noteq> registry_digest r
              then Some (Inl (status_make Outcome_Corrupt
                     ''snapshot contents do not match the digest recorded in the header''))
              else Some (Inr \<lparr>sn_meta = snapshot_meta bs (registry_digest r), sn_registry = r\<rparr>)))"

definition save_snapshot :: "os_answers \<Rightarrow> string \<Rightarrow> store_meta \<Rightarrow> registry \<Rightarrow> disk \<Rightarrow> status \<times> disk" where
  "save_snapshot os path meta r disk =
    (case encode_snapshot meta r of
       Inl e \<Rightarrow> (e, disk)
     | Inr bs \<Rightarrow> write_file_atomic os path bs disk)"

definition load_snapshot :: "os_answers \<Rightarrow> disk \<Rightarrow> string \<Rightarrow> snapshot result option" where
  "load_snapshot os disk path =
    (case read_file_bounded os disk path (word_of_nat (kMaxStoreRecordPayload + kSnapshotHeaderSize + 4)) of
       Inl e \<Rightarrow> Some (Inl e)
     | Inr bs \<Rightarrow> decode_snapshot bs)"

section \<open>Laws\<close>

definition meta_wire :: "store_meta \<Rightarrow> bool" where
  "meta_wire meta \<longleftrightarrow> uuid_ok (sm_incarnation meta) \<and> i64_ok (sm_written_at meta)"

lemma length_snapshot_magic [simp]: "length kSnapshotMagic = 8"
  by (simp add: kSnapshotMagic_def bytes_of_string_def)

lemma snapshot_head_layout:
  assumes "uuid_ok (sm_incarnation meta)" "digest_ok digest"
  obtains h where "length h = 20" "snapshot_head meta payload digest = h @ w_u32 (crc32c h)
      @ w_uuid (sm_incarnation meta) @ w_u64 (sm_term meta) @ w_u64 (sm_revision meta)
      @ w_u64 (sm_sequence meta) @ w_i64 (sm_written_at meta) @ w_u64 (sm_truncations meta) @ w_digest digest"
    "take 8 h = kSnapshotMagic" "\<And>r. get_u16 (drop 8 h @ r) = kSnapshotFormatVersion"
    "\<And>r. get_u16 (drop 10 h @ r) = 0" "\<And>r. get_u32 (drop 12 h @ r) = word_of_nat (length payload)"
    "\<And>r. get_u32 (drop 16 h @ r) = crc32c payload" "length (snapshot_head meta payload digest) = 112"
proof -
  define h where "h = kSnapshotMagic @ w_u16 kSnapshotFormatVersion @ w_u16 0 @ w_u32 (word_of_nat (length payload))
    @ w_u32 (crc32c payload)"
  have "length h = 20" by (simp add: h_def)
  moreover have "snapshot_head meta payload digest = h @ w_u32 (crc32c h)
      @ w_uuid (sm_incarnation meta) @ w_u64 (sm_term meta) @ w_u64 (sm_revision meta)
      @ w_u64 (sm_sequence meta) @ w_i64 (sm_written_at meta) @ w_u64 (sm_truncations meta) @ w_digest digest"
    by (simp add: snapshot_head_def h_def Let_def)
  moreover have "take 8 h = kSnapshotMagic" "\<And>r. get_u16 (drop 8 h @ r) = kSnapshotFormatVersion"
    "\<And>r. get_u16 (drop 10 h @ r) = 0" "\<And>r. get_u32 (drop 12 h @ r) = word_of_nat (length payload)"
    "\<And>r. get_u32 (drop 16 h @ r) = crc32c payload"
    by (simp_all add: h_def)
  ultimately show thesis
    using assms that [of h] by (simp add: uuid_ok_def digest_ok_def w_uuid_def w_digest_def w_raw_def)
qed

lemma snapshot_sum:
  assumes "len \<le> kMaxStoreRecordPayload"
  shows "add_size (word_of_nat kSnapshotHeaderSize) (word_of_nat len) = Some (word_of_nat (kSnapshotHeaderSize + len))"
    and "add_size (word_of_nat (kSnapshotHeaderSize + len)) 4 = Some (word_of_nat (kSnapshotHeaderSize + len + 4))"
    and "unat (word_of_nat (kSnapshotHeaderSize + len + 4) :: u64) = kSnapshotHeaderSize + len + 4"
  using assms
  by (simp_all add: add_size_eq add_u64_spec kSnapshotHeaderSize_def kMaxStoreRecordPayload_def
      unat_of_nat take_bit_nat_eq_self unat_word_ariths)

lemma decode_encode_snapshot:
  assumes "registry_ok r" "registry_wire r" "meta_wire meta" "encode_snapshot meta r = Inr bs"
  shows "decode_snapshot bs
    = Some (Inr \<lparr>sn_meta = meta\<lparr>sm_state_digest := registry_digest r\<rparr>, sn_registry = r\<rparr>)"
proof -
  let ?payload = "encode_registry r True" and ?digest = "registry_digest r"
  have len: "length ?payload \<le> kMaxStoreRecordPayload"
    using assms(4) by (auto simp: encode_snapshot_def Let_def split: if_splits)
  have dig: "digest_ok ?digest" by (simp add: registry_digest_def)
  have uu: "uuid_ok (sm_incarnation meta)" using assms(3) by (simp add: meta_wire_def)
  obtain h where h: "length h = 20" "snapshot_head meta ?payload ?digest = h @ w_u32 (crc32c h)
      @ w_uuid (sm_incarnation meta) @ w_u64 (sm_term meta) @ w_u64 (sm_revision meta)
      @ w_u64 (sm_sequence meta) @ w_i64 (sm_written_at meta) @ w_u64 (sm_truncations meta) @ w_digest ?digest"
    "take 8 h = kSnapshotMagic" "\<And>r. get_u16 (drop 8 h @ r) = kSnapshotFormatVersion"
    "\<And>r. get_u16 (drop 10 h @ r) = 0" "\<And>r'. get_u32 (drop 12 h @ r') = word_of_nat (length ?payload)"
    "\<And>r'. get_u32 (drop 16 h @ r') = crc32c ?payload" "length (snapshot_head meta ?payload ?digest) = 112"
    using snapshot_head_layout [OF uu dig, of ?payload] by metis
  let ?head = "snapshot_head meta ?payload ?digest"
  have bs: "bs = ?head @ ?payload @ w_u32 (crc32c (?head @ ?payload))"
    using assms(4) len by (simp add: encode_snapshot_def Let_def)
  have u32: "unat (word_of_nat (length ?payload) :: u32) = length ?payload"
    using len by (intro unat_word_of_nat_u32) (simp add: kMaxStoreRecordPayload_def)
  have ids: "length (sm_incarnation meta) = 16" "length ?digest = 32"
    using uu dig by (simp_all add: uuid_ok_def digest_ok_def)
  have front: "take 8 bs = kSnapshotMagic" "get_u16 (drop 8 bs) = kSnapshotFormatVersion" "get_u16 (drop 10 bs) = 0"
    "get_u32 (drop 12 bs) = word_of_nat (length ?payload)" "get_u32 (drop 16 bs) = crc32c ?payload"
    "get_u32 (drop 20 bs) = crc32c (take 20 bs)"
    using h(1,3-7) by (simp_all add: bs h(2))
  have rear: "take (length ?payload) (drop 112 bs) = ?payload" "length bs = 112 + length ?payload + 4"
    "get_u32 (drop (112 + length ?payload) bs) = crc32c (take (112 + length ?payload) bs)"
    using h(8) by (simp_all add: bs)
  have payload: "snapshot_payload bs = Inr ?payload"
    using front rear len u32 snapshot_sum [OF len]
    by (simp add: snapshot_payload_def kSnapshotHeaderSize_def Let_def)
  have meta: "snapshot_meta bs ?digest = meta\<lparr>sm_state_digest := ?digest\<rparr>"
    "digest_from_bytes (take 32 (drop 80 bs)) = ?digest"
    using h(1) ids assms(3) dig
    by (simp_all add: snapshot_meta_def bs h(2) w_uuid_def w_digest_def w_raw_def get_u64_i64 meta_wire_def
        uuid_from_bytes_def)
  show ?thesis
    using payload meta decode_encode_registry(1) [OF assms(1,2)] by (simp add: decode_snapshot_def)
qed

lemma decode_snapshot_sound:
  assumes "decode_snapshot bs = Some (Inr sn)"
  shows "registry_ok (sn_registry sn)" "sm_state_digest (sn_meta sn) = registry_digest (sn_registry sn)"
    and "digest_from_bytes (take 32 (drop 80 bs)) = registry_digest (sn_registry sn)"
  using assms decode_registry_keeps
  by (auto simp: decode_snapshot_def snapshot_meta_def split: sum.splits option.splits if_splits)

end
