(* ===== verification/Durable_Store.thy ===== *)
theory Durable_Store
  imports Snapshot
begin

text \<open>
  \<open>store/durable_store.cpp\<close>: a snapshot and the log of everything since. Opening loads the snapshot and
  replays the log over it. What the operating system answers when the directory is created is a
  parameter, as are the answers to the file operations.
\<close>

record store_options =
  so_directory :: string
  so_snapshot_name :: string
  so_wal_name :: string
  so_compact_bytes :: u64
  so_compact_records :: u64
  so_durable :: bool

record store_recovery =
  re_registry :: registry
  re_meta :: store_meta
  re_wal :: wal_recovery
  re_snapshot_loaded :: bool
  re_recovered_from_store :: bool
  re_created_fresh :: bool
  re_mutations_applied :: u64
  re_incidents :: "string list"

definition fresh_recovery :: store_recovery where
  "fresh_recovery =
    \<lparr>re_registry = empty_registry, re_meta = default_meta, re_wal = no_recovery, re_snapshot_loaded = False,
     re_recovered_from_store = False, re_created_fresh = False, re_mutations_applied = 0, re_incidents = []\<rparr>"

record durable_store =
  ds_options :: store_options
  ds_wal :: wal
  ds_next_sequence :: u64
  ds_open :: bool

definition snapshot_path :: "store_options \<Rightarrow> string" where
  "snapshot_path options = join_path (so_directory options) (so_snapshot_name options)"

definition wal_path :: "store_options \<Rightarrow> string" where
  "wal_path options = join_path (so_directory options) (so_wal_name options)"

definition note_incident :: "string \<Rightarrow> store_recovery \<Rightarrow> store_recovery" where
  "note_incident text rec =
    (if length (re_incidents rec) < 64 then rec\<lparr>re_incidents := re_incidents rec @ [text]\<rparr> else rec)"

section \<open>Replaying the log\<close>

definition set_meta :: "u64 \<Rightarrow> incarnation_id \<Rightarrow> store_recovery \<Rightarrow> store_recovery" where
  "set_meta term incarnation rec =
    rec\<lparr>re_meta := (re_meta rec)\<lparr>sm_term := term, sm_incarnation := incarnation\<rparr>\<rparr>"

fun replay_decoded :: "mutation \<Rightarrow> store_recovery \<Rightarrow> (status \<times> store_recovery) option" where
  "replay_decoded (Mutation_MetaSet term incarnation) rec = Some (status_ok, set_meta term incarnation rec)"
| "replay_decoded m rec =
    (case apply_mutation m (re_registry rec) of
       None \<Rightarrow> None
     | Some (applied, r') \<Rightarrow>
         if \<not> is_ok applied then Some (applied, rec\<lparr>re_registry := r'\<rparr>)
         else Some (status_ok,
           rec\<lparr>re_registry := r', re_mutations_applied := re_mutations_applied rec + 1\<rparr>))"

definition replay_mutation :: "bytes \<Rightarrow> store_recovery \<Rightarrow> (status \<times> store_recovery) option" where
  "replay_mutation payload rec =
    (case decode_mutation payload of
       Inl e \<Rightarrow> Some (e, rec)
     | Inr (m, rest) \<Rightarrow>
         if \<not> is_ok (expect_end rest) then Some (expect_end rest, rec) else replay_decoded m rec)"

definition replay_meta :: "bytes \<Rightarrow> store_recovery \<Rightarrow> status \<times> store_recovery" where
  "replay_meta payload rec =
    (case r_u64 payload of
       Inl e \<Rightarrow> (e, rec)
     | Inr (term, rest) \<Rightarrow>
         if term > kMaxGeneration
         then (status_make Outcome_Overflow ''term exceeds the maximum supported value'', rec)
         else (case r_uuid rest of
             Inl e \<Rightarrow> (e, rec)
           | Inr (incarnation, _) \<Rightarrow> (status_ok, set_meta term incarnation rec)))"

definition replay :: "store_recovery visitor" where
  "replay h payload rec =
    (case rh_kind h of
       RecordKind_Mutation \<Rightarrow> replay_mutation payload rec
     | RecordKind_Meta \<Rightarrow> Some (replay_meta payload rec)
     | RecordKind_SnapshotMarker \<Rightarrow> Some (status_ok, rec)
     | RecordKind_Incident \<Rightarrow> Some (status_ok, note_incident (string_of_bytes payload) rec)
     | RecordKind_Invalid \<Rightarrow> Some (invalid ''log record kind is not recognised'', rec))"

section \<open>Opening\<close>

text \<open>The first half of \<open>open\<close>: what the snapshot, or its absence, starts the recovery with.\<close>

definition load_base :: "os_answers \<Rightarrow> store_options \<Rightarrow> disk \<Rightarrow> store_recovery result option" where
  "load_base os options disk =
    (let had_state = (file_exists disk (snapshot_path options) \<or> file_exists disk (wal_path options)) in
     if file_exists disk (snapshot_path options)
     then (case load_snapshot os disk (snapshot_path options) of
             None \<Rightarrow> None
           | Some (Inl e) \<Rightarrow> Some (Inl e)
           | Some (Inr sn) \<Rightarrow>
               Some (Inr (fresh_recovery\<lparr>re_registry := sn_registry sn, re_meta := sn_meta sn,
                            re_snapshot_loaded := True\<rparr>)))
     else if \<not> had_state then Some (Inr (fresh_recovery\<lparr>re_created_fresh := True\<rparr>))
     else Some (Inr fresh_recovery))"

definition log_options :: "store_options \<Rightarrow> wal_options" where
  "log_options options =
    \<lparr>wo_path = wal_path options, wo_max_bytes = 0, wo_max_records = 0, wo_durable = so_durable options\<rparr>"

definition after_sequence :: "u64 \<Rightarrow> u64" where
  "after_sequence s = (case counter_next s of Inr n \<Rightarrow> n | Inl _ \<Rightarrow> - 1)"

text \<open>The second half: what is recorded once the log was opened.\<close>

definition conclude :: "wal_recovery \<Rightarrow> store_recovery \<Rightarrow> store_recovery" where
  "conclude wr rec =
    (let rec1 = rec\<lparr>re_wal := wr, re_meta := (re_meta rec)\<lparr>sm_sequence := wr_last_sequence wr\<rparr>,
           re_recovered_from_store := (re_snapshot_loaded rec \<or> wr_records wr > 0)\<rparr>;
         rec2 = (if wr_truncated_tail wr
                 then fold note_incident (wr_incidents wr)
                   (rec1\<lparr>re_meta := (re_meta rec1)\<lparr>sm_truncations := sm_truncations (re_meta rec1) + 1\<rparr>\<rparr>)
                 else rec1)
     in rec2\<lparr>re_meta := (re_meta rec2)\<lparr>sm_written_at := 0\<rparr>\<rparr>)"

definition store_open ::
  "os_answers \<Rightarrow> status \<Rightarrow> incarnation_id \<Rightarrow> store_options \<Rightarrow> disk \<Rightarrow>
    ((durable_store \<times> store_recovery) result \<times> disk) option" where
  "store_open os directory stream options disk =
    (if so_directory options = [] then Some (Inl (invalid ''store directory must not be empty''), disk)
     else if \<not> is_ok directory then Some (Inl directory, disk)
     else case load_base os options disk of
       None \<Rightarrow> None
     | Some (Inl e) \<Rightarrow> Some (Inl e, disk)
     | Some (Inr base) \<Rightarrow>
         (case wal_open os stream (log_options options) replay base disk of
            None \<Rightarrow> None
          | Some (Inl e, disk') \<Rightarrow> Some (Inl e, disk')
          | Some (Inr ((w, wr), rec), disk') \<Rightarrow>
              let lst = wr_last_sequence wr;
                  next_sequence = (if lst = 0 then 1 else after_sequence lst)
              in Some (Inr (\<lparr>ds_options = options, ds_wal = w, ds_next_sequence = next_sequence, ds_open = True\<rparr>,
                         conclude wr rec), disk')))"

section \<open>Appending and compacting\<close>

definition append_payload ::
  "os_answers \<Rightarrow> record_kind \<Rightarrow> bytes \<Rightarrow> timestamp \<Rightarrow> durable_store \<Rightarrow> disk \<Rightarrow> u64 result \<times> durable_store \<times> disk" where
  "append_payload os kind payload at ds disk =
    (let sequence = ds_next_sequence ds in
     case wal_append os kind sequence at payload (ds_wal ds) disk of
       (appended, w', disk') \<Rightarrow>
         if \<not> is_ok appended then (Inl appended, ds\<lparr>ds_wal := w'\<rparr>, disk')
         else (Inr sequence, ds\<lparr>ds_wal := w', ds_next_sequence := after_sequence sequence\<rparr>, disk'))"

definition store_append ::
  "os_answers \<Rightarrow> mutation \<Rightarrow> timestamp \<Rightarrow> durable_store \<Rightarrow> disk \<Rightarrow> u64 result \<times> durable_store \<times> disk" where
  "store_append os m at ds disk =
    (if \<not> ds_open ds then (Inl (status_make Outcome_Internal ''store is not open''), ds, disk)
     else append_payload os RecordKind_Mutation (encode_mutation m) at ds disk)"

definition append_meta ::
  "os_answers \<Rightarrow> store_meta \<Rightarrow> timestamp \<Rightarrow> durable_store \<Rightarrow> disk \<Rightarrow> u64 result \<times> durable_store \<times> disk" where
  "append_meta os meta at ds disk =
    store_append os (Mutation_MetaSet (sm_term meta) (sm_incarnation meta)) at ds disk"

definition append_incident ::
  "os_answers \<Rightarrow> string \<Rightarrow> timestamp \<Rightarrow> durable_store \<Rightarrow> disk \<Rightarrow> u64 result \<times> durable_store \<times> disk" where
  "append_incident os text at ds disk =
    (if \<not> ds_open ds then (Inl (status_make Outcome_Internal ''store is not open''), ds, disk)
     else if length text > kMaxStoreRecordPayload
     then (Inl (status_make Outcome_CapacityExceeded ''incident text exceeds the maximum record size''), ds, disk)
     else append_payload os RecordKind_Incident (bytes_of_string text) at ds disk)"

definition compacted_meta :: "registry \<Rightarrow> store_meta \<Rightarrow> timestamp \<Rightarrow> durable_store \<Rightarrow> store_meta" where
  "compacted_meta r meta at ds =
    meta\<lparr>sm_sequence := wa_last_sequence (ds_wal ds), sm_written_at := at, sm_state_digest := registry_digest r\<rparr>"

definition compact ::
  "os_answers \<Rightarrow> os_answers \<Rightarrow> incarnation_id \<Rightarrow> registry \<Rightarrow> store_meta \<Rightarrow> timestamp \<Rightarrow> durable_store \<Rightarrow> disk \<Rightarrow>
    status \<times> durable_store \<times> disk" where
  "compact os1 os2 stream r meta at ds disk =
    (if \<not> ds_open ds then (status_make Outcome_Internal ''store is not open'', ds, disk)
     else
       let (saved, disk') = save_snapshot os1 (snapshot_path (ds_options ds)) (compacted_meta r meta at ds) r disk in
       if \<not> is_ok saved then (saved, ds, disk')
       else
         let (s, w', disk'') = wal_reset os2 stream (ds_wal ds) disk'
         in (s, ds\<lparr>ds_wal := w'\<rparr>, disk''))"

definition store_needs_compaction :: "durable_store \<Rightarrow> bool" where
  "store_needs_compaction ds =
    wal_needs_compaction (ds_wal ds) (so_compact_bytes (ds_options ds)) (so_compact_records (ds_options ds))"

end
