(* ===== verification/Durable_Laws.thy ===== *)
theory Durable_Laws
  imports Durable_Store
begin

text \<open>
  What the durable store guarantees: an append is atomic with respect to a later opening, a
  compaction keeps the registry, and where it does not.
\<close>

definition store_paths_ok :: "store_options \<Rightarrow> bool" where
  "store_paths_ok options \<longleftrightarrow>
    so_directory options \<noteq> [] \<and> snapshot_path options \<noteq> wal_path options
    \<and> snapshot_path options \<noteq> wal_path options @ ''.tmp'' \<and> wal_path options \<noteq> snapshot_path options @ ''.tmp''"

lemma wal_path_not_Nil: "so_directory options \<noteq> [] \<Longrightarrow> wal_path options \<noteq> []"
  by (simp add: wal_path_def join_path_def)

lemma log_options_path [simp]: "wo_path (log_options options) = wal_path options"
  by (simp add: log_options_def)

lemma log_options_bound: "unat (wo_max_records (effective_options (log_options options))) = 4194304"
  by (simp add: log_options_def effective_options_def kMaxStoreRecords_def)

lemma note_incident_registry [simp]: "re_registry (note_incident t rec) = re_registry rec"
  by (simp add: note_incident_def)

lemma fold_note_incident [simp]: "re_registry (fold note_incident ts rec) = re_registry rec"
  by (induction ts arbitrary: rec) simp_all

lemma conclude_registry [simp]: "re_registry (conclude wr rec) = re_registry rec"
  by (simp add: conclude_def Let_def)

section \<open>Opening a store with a log\<close>

text \<open>The log of an open store, as it is on disk.\<close>

definition store_holds :: "store_options \<Rightarrow> bytes \<Rightarrow> log_entry list \<Rightarrow> durable_store \<Rightarrow> disk \<Rightarrow> bool" where
  "store_holds options hdr es ds disk \<longleftrightarrow>
    ds_options ds = options \<and> ds_open ds \<and> wal_holds (log_options options) es (ds_wal ds)
    \<and> disk (wal_path options) = Some (hdr @ encode_log es) \<and> header_ok hdr \<and> follows None es
    \<and> after_previous (last_sequence None es) (ds_next_sequence ds)"

lemma read_file_local: "disk' path = disk path \<Longrightarrow> read_file_bounded os disk' path n = read_file_bounded os disk path n"
  unfolding read_file_bounded_def file_size_def by (erule ssubst) (rule refl)

lemma load_base_local:
  assumes "disk' (snapshot_path options) = disk (snapshot_path options)"
    and "disk' (wal_path options) = None \<longleftrightarrow> disk (wal_path options) = None"
  shows "load_base os options disk' = load_base os options disk"
  unfolding load_base_def load_snapshot_def file_exists_def assms
    read_file_local [where disk' = disk' and disk = disk, OF assms(1)] ..

lemma store_open_recovers:
  assumes "store_paths_ok options" "is_ok directory" "load_base os options disk = Some (Inr base)"
    and here: "disk (wal_path options) = Some (hdr @ encode_log es @ torn)" and hdr: "header_ok hdr"
    and es: "follows None es" "visit_all replay es base = Some (Inr rec)" "length es \<le> 4194304"
    and os: "os_open os" "os_truncate os" and short: "length (hdr @ encode_log es @ torn) < 2 ^ 64"
    and torn: "torn = [] \<or> (\<exists>why. read_record (last_sequence None es) torn = Log_Damaged why)"
  shows "\<exists>ds rec'. store_open os directory stream options disk
      = Some (Inr (ds, rec'), disk(wal_path options \<mapsto> hdr @ encode_log es))
    \<and> re_registry rec' = re_registry rec \<and> ds_options ds = options \<and> ds_open ds
    \<and> wal_holds (log_options options) es (ds_wal ds)
    \<and> ds_next_sequence ds = (case last_sequence None es of
        None \<Rightarrow> 1 | Some p \<Rightarrow> if p = 0 then 1 else after_sequence p)"
proof -
  have path: "wo_path (log_options options) \<noteq> []" "so_directory options \<noteq> []"
    using assms(1) wal_path_not_Nil by (simp_all add: store_paths_ok_def)
  have b: "length es \<le> unat (wo_max_records (effective_options (log_options options)))"
    using es(3) by (simp add: log_options_bound)
  obtain w wr where "wal_open os stream (log_options options) replay base disk
      = Some (Inr ((w, wr), rec), disk(wal_path options \<mapsto> hdr @ encode_log es))"
    "wal_holds (log_options options) es w"
    "wr_last_sequence wr = (case last_sequence None es of None \<Rightarrow> 0 | Some p \<Rightarrow> p)"
    using wal_open_recovers [OF path(1) _ hdr es(1,2) b os short torn, of disk stream] here by auto
  then show ?thesis
    using assms(2,3) path(2) by (auto simp: store_open_def Let_def split: option.splits)
qed

lemma wal_open_refused:
  assumes "wo_path options \<noteq> []" "disk (wo_path options) = Some (hdr @ encode_log es @ rest)" "header_ok hdr"
    and "follows None es" "visit_all v es s = Some (Inl e)" "os_open os"
    and "length es \<le> unat (wo_max_records (effective_options options))"
  shows "wal_open os stream options v s disk = Some (Inl e, disk)"
  using assms scan_log_entries [of scan_start es "unat (wo_max_records (effective_options options))" v s rest]
  by (simp add: wal_open_def header_ok_def scan_start_def)

lemma store_open_refused:
  assumes "store_paths_ok options" "is_ok directory" "load_base os options disk = Some (Inr base)"
    and "disk (wal_path options) = Some (hdr @ encode_log es @ rest)" "header_ok hdr"
    and "follows None es" "visit_all replay es base = Some (Inl e)" "os_open os" "length es \<le> 4194304"
  shows "store_open os directory stream options disk = Some (Inl e, disk)"
  using assms wal_open_refused [of "log_options options" disk hdr es rest replay base e os stream]
  by (simp add: store_open_def store_paths_ok_def wal_path_not_Nil log_options_bound)

text \<open>An opening that succeeds tells what the log replays to.\<close>

lemma store_open_replays:
  assumes "store_paths_ok options" "store_open os directory stream options disk = Some (Inr (ds0, rec0), disk0)"
    and "disk (wal_path options) = Some (hdr @ encode_log es)" "header_ok hdr" "follows None es"
    and "length es \<le> 4194304"
  obtains base rec where "is_ok directory" "load_base os options disk = Some (Inr base)"
    "visit_all replay es base = Some (Inr rec)" "re_registry rec0 = re_registry rec" "os_open os"
proof -
  obtain base where base: "load_base os options disk = Some (Inr base)" "is_ok directory"
    using assms(2) by (auto simp: store_open_def split: if_splits option.splits sum.splits)
  have opened: "os_open os"
    using assms(2,3) base by (auto simp: store_open_def wal_open_def split: if_splits)
  obtain w wr rec where run: "wal_open os stream (log_options options) replay base disk = Some (Inr ((w, wr), rec), disk0)"
    and rec0: "rec0 = conclude wr rec"
    using assms(2) base by (auto simp: store_open_def Let_def split: if_splits option.splits sum.splits prod.splits)
  obtain x where x: "visit_all replay es base = Some x"
    using run assms(3-6) scan_log_entries [of scan_start es 4194304 replay base "[]"]
    by (auto simp: wal_open_def header_ok_def scan_start_def log_options_bound split: if_splits option.splits)
  have "visit_all replay es base = Some (Inr rec)"
  proof (cases x)
    case (Inl e)
    then show ?thesis
      using wal_open_refused [of "log_options options" disk hdr es "[]" replay base e os stream] assms x opened run
      by (simp add: store_paths_ok_def wal_path_not_Nil log_options_bound)
  next
    case (Inr s)
    then show ?thesis
      using run assms(3-6) x scan_log_entries [of scan_start es 4194304 replay base "[]"]
      by (auto simp: wal_open_def header_ok_def scan_start_def log_options_bound scan_log.simps [of _ _ _ _ "[]"]
          split: if_splits prod.splits sum.splits)
  qed
  then show thesis using that base opened rec0 by simp
qed

section \<open>Appending\<close>

lemma replay_entry:
  assumes "mutation_wire m" "replay_decoded m rec = Some (status_ok, rec')"
    and "visit_all replay es base = Some (Inr rec)"
    and "e = \<lparr>le_kind = RecordKind_Mutation, le_sequence = s, le_at = at, le_payload = encode_mutation m\<rparr>"
  shows "visit_all replay (es @ [e]) base = Some (Inr rec')"
  using assms mutation.dec_enc_end [OF assms(1)]
  by (simp add: visit_all_append replay_def replay_mutation_def entry_header_def expect_end_def)

lemma append_recovers:
  assumes holds: "store_holds options hdr es ds disk" and paths: "store_paths_ok options"
    and rec: "visit_all replay es base = Some (Inr rec)" "load_base os' options disk = Some (Inr base)"
    and m: "mutation_wire m" "replay_decoded m rec = Some (status_ok, rec')"
    and at: "i64_ok at" and small: "length es < 4194304" "length (hdr @ encode_log es) + 2 ^ 21 < 2 ^ 64"
    and os': "os_open os'" "os_truncate os'" "is_ok directory"
    and run: "store_append os m at ds disk = (res, ds', disk')"
  shows "\<exists>ds2 rec2 disk2. store_open os' directory stream options disk' = Some (Inr (ds2, rec2), disk2)
    \<and> re_registry rec2 \<in> {re_registry rec, re_registry rec'}
    \<and> (\<forall>q. res = Inr q \<longrightarrow> re_registry rec2 = re_registry rec')"
proof -
  let ?p = "encode_mutation m"
  define e where "e = \<lparr>le_kind = RecordKind_Mutation, le_sequence = ds_next_sequence ds, le_at = at, le_payload = ?p\<rparr>"
  note h = holds [unfolded store_holds_def]
  have hok: "header_ok hdr" and fol: "follows None es" using h by simp_all
  obtain s w' where app: "wal_append os RecordKind_Mutation (ds_next_sequence ds) at ?p (ds_wal ds) disk = (s, w', disk')"
    and res: "(\<exists>q. res = Inr q) \<longleftrightarrow> is_ok s"
    using run h by (auto simp: store_append_def append_payload_def Let_def split: prod.splits if_splits)
  have held: "wal_holds (log_options options) es (ds_wal ds)"
    "disk (wo_path (log_options options)) = Some (hdr @ encode_log es)" using h by simp_all
  have opens: "\<exists>ds2 rec2 disk2. store_open os' directory stream options (disk(wal_path options \<mapsto> hdr @ encode_log fs @ torn))
        = Some (Inr (ds2, rec2), disk2) \<and> re_registry rec2 = re_registry r"
    if "follows None fs" "visit_all replay fs base = Some (Inr r)" "length fs \<le> 4194304"
      "length (hdr @ encode_log fs @ torn) < 2 ^ 64"
      "torn = [] \<or> (\<exists>why. read_record (last_sequence None fs) torn = Log_Damaged why)" for fs r torn
  proof -
    let ?d = "disk(wal_path options \<mapsto> hdr @ encode_log fs @ torn)"
    have "load_base os' options ?d = Some (Inr base)"
      using load_base_local [of ?d options disk os'] rec(2) h paths by (simp add: store_paths_ok_def)
    from store_open_recovers [OF paths os'(3) this _ hok that(1,2,3) os'(1,2) that(4,5)] show ?thesis by fastforce
  qed
  have fits: "entry_ok e \<longleftrightarrow> length ?p \<le> kMaxStoreRecordPayload"
    using at by (simp add: entry_ok_def e_def record_kind_known_def)
  have seq: "after_previous (last_sequence None es) (le_sequence e)" using h by (simp add: e_def)
  have after: "\<exists>ds2 rec2 disk2. store_open os' directory stream options (disk(wal_path options \<mapsto> hdr @ encode_log (es @ [e]) @ []))
        = Some (Inr (ds2, rec2), disk2) \<and> re_registry rec2 = re_registry rec'" if "entry_ok e"
    by (rule opens)
      (use replay_entry [OF m rec(1) e_def] small fol that fits seq in
        \<open>auto simp: follows_append e_def kMaxStoreRecordPayload_def\<close>)
  show ?thesis
  proof (cases "is_ok s")
    case True
    note w = wal_append_holds(1) [OF held app e_def True]
    then have "entry_ok e" using fits by simp
    from after [OF this] show ?thesis using w by auto
  next
    case False
    have "disk' = disk \<or> entry_ok e" using wal_append_cases [OF app] fits by metis
    moreover have "disk = disk(wal_path options \<mapsto> hdr @ encode_log es @ take 0 (encode_entry e))"
      using held(2) by auto
    ultimately obtain k where k: "disk' = disk(wal_path options \<mapsto> hdr @ encode_log es @ take k (encode_entry e))"
      "k = 0 \<or> entry_ok e"
      using wal_append_holds(2) [OF held app e_def False] by (metis append_assoc log_options_path)
    have short: "length (hdr @ encode_log es @ take k (encode_entry e)) < 2 ^ 64"
      using small(2) k(2) by (auto simp: entry_ok_def kMaxStoreRecordPayload_def)
    consider "k = 0" | "0 < k" "k < length (encode_entry e)" "entry_ok e"
      | "encode_entry e = take k (encode_entry e)" "entry_ok e"
      using k(2) by fastforce
    then have "\<exists>ds2 rec2 disk2. store_open os' directory stream options disk' = Some (Inr (ds2, rec2), disk2)
        \<and> re_registry rec2 \<in> {re_registry rec, re_registry rec'}"
    proof cases
      case 1
      then show ?thesis using opens [OF fol rec(1), of "[]"] small short k(1) by auto
    next
      case 2
      then show ?thesis
        using opens [OF fol rec(1) _ short] read_record_torn [OF 2(3) seq 2(1,2)] small k(1) by auto
    next
      case 3
      then show ?thesis using after k(1) by auto
    qed
    then show ?thesis using False res by auto
  qed
qed

section \<open>Compacting\<close>

lemma length_encode_snapshot:
  assumes "encode_snapshot meta r = Inr bs" "uuid_ok (sm_incarnation meta)"
  shows "length bs \<le> kMaxStoreRecordPayload + kSnapshotHeaderSize + 4"
proof -
  have "digest_ok (registry_digest r)" by (simp add: registry_digest_def)
  from snapshot_head_layout [OF assms(2) this] have "length (snapshot_head meta (encode_registry r True) (registry_digest r)) = 112"
    by blast
  then show ?thesis
    using assms(1) by (auto simp: encode_snapshot_def Let_def kSnapshotHeaderSize_def split: if_splits)
qed

lemma read_file_bounded_ok:
  assumes "disk path = Some contents" "os_open os" "length contents \<le> n" "n < 2 ^ 64"
  shows "read_file_bounded os disk path (word_of_nat n) = Inr contents"
proof -
  have u: "unat (word_of_nat k :: u64) = k" if "k < 2 ^ 64" for k
    using that by (simp add: unat_of_nat take_bit_nat_eq_self)
  have "\<not> word_of_nat n < (word_of_nat (length contents) :: u64)"
    using assms(3,4) u by (simp add: word_less_nat_alt)
  then show ?thesis
    using assms u [of "length contents"]
    by (simp add: read_file_bounded_def file_size_def to_size_def not_less)
qed

lemma load_base_snapshot:
  assumes "disk (snapshot_path options) = Some bs" "encode_snapshot meta r = Inr bs" "os_open os"
    and "registry_ok r" "registry_wire r" "meta_wire meta"
  shows "load_base os options disk = Some (Inr (fresh_recovery\<lparr>re_registry := r,
    re_meta := meta\<lparr>sm_state_digest := registry_digest r\<rparr>, re_snapshot_loaded := True\<rparr>))"
proof -
  have "length bs \<le> kMaxStoreRecordPayload + kSnapshotHeaderSize + 4"
    using length_encode_snapshot [OF assms(2)] assms(6) by (simp add: meta_wire_def)
  from read_file_bounded_ok [where disk = disk, OF assms(1,3) this]
  have "load_snapshot os disk (snapshot_path options)
      = Some (Inr \<lparr>sn_meta = meta\<lparr>sm_state_digest := registry_digest r\<rparr>, sn_registry = r\<rparr>)"
    using decode_encode_snapshot [OF assms(4,5,6,2)]
    by (simp add: load_snapshot_def kMaxStoreRecordPayload_def kSnapshotHeaderSize_def)
  then show ?thesis using assms(1) by (simp add: load_base_def file_exists_def)
qed

text \<open>After the snapshot was saved the log is either still there or a fresh one.\<close>

lemma save_snapshot_ok:
  assumes "store_paths_ok options" "save_snapshot os (snapshot_path options) meta r disk = (s, disk')" "is_ok s"
  obtains bs where "encode_snapshot meta r = Inr bs" "disk' (snapshot_path options) = Some bs"
    "disk' (wal_path options) = disk (wal_path options)"
proof -
  obtain bs where bs: "encode_snapshot meta r = Inr bs"
    and w: "write_file_atomic os (snapshot_path options) bs disk = (s, disk')"
  proof (cases "encode_snapshot meta r")
    case (Inl e)
    then have "\<not> is_ok e"
      by (auto simp: encode_snapshot_def Let_def split: if_splits)
    then show ?thesis using assms(2,3) Inl by (simp add: save_snapshot_def)
  qed (use assms(2) in \<open>simp add: save_snapshot_def\<close>)
  have "wal_path options \<noteq> snapshot_path options" "wal_path options \<noteq> snapshot_path options @ ''.tmp''"
    using assms(1) by (auto simp: store_paths_ok_def)
  then show thesis
    using that [OF bs] write_file_atomic_path(1) [OF w] write_file_atomic_path(2) [OF w] assms(3) by simp
qed

lemma compact_reopens:
  assumes paths: "store_paths_ok options" and ds: "ds_options ds = options" "wa_options (ds_wal ds) = effective_options (log_options options)"
    and r: "registry_ok r" "registry_wire r" and at: "uuid_ok (sm_incarnation meta)" "i64_ok at" "uuid_ok stream"
    and run: "compact os1 os2 stream r meta at ds disk = (s, ds', disk')" "is_ok s"
    and os: "os_open os" "os_truncate os" "is_ok directory"
  shows "\<exists>ds2 rec2 disk2. store_open os directory stream' options disk' = Some (Inr (ds2, rec2), disk2)
    \<and> re_registry rec2 = r \<and> ds_next_sequence ds2 = 1"
proof -
  let ?meta = "compacted_meta r meta at ds"
  obtain s1 disk1 w' where save: "save_snapshot os1 (snapshot_path options) ?meta r disk = (s1, disk1)" "is_ok s1"
    and reset: "wal_reset os2 stream (ds_wal ds) disk1 = (s, w', disk')"
    using run ds(1) by (auto simp: compact_def Let_def split: if_splits prod.splits)
  from save_snapshot_ok [OF paths save] obtain bs where bs: "encode_snapshot ?meta r = Inr bs"
    "disk1 (snapshot_path options) = Some bs" by blast
  have path: "wo_path (wa_options (ds_wal ds)) = wal_path options"
    using ds(2) by (simp add: effective_options_def)
  obtain s2 where w: "write_file_atomic os2 (wal_path options) (make_header stream 0) disk1 = (s2, disk')" "is_ok s2"
    using reset run(2) path by (auto simp: wal_reset_def Let_def split: if_splits prod.splits)
  have log: "disk' (wal_path options) = Some (make_header stream 0 @ encode_log [] @ [])"
    using write_file_atomic_path(1) [OF w(1)] w(2) by simp
  have "snapshot_path options \<noteq> wal_path options" "snapshot_path options \<noteq> wal_path options @ ''.tmp''"
    using paths by (auto simp: store_paths_ok_def)
  from write_file_atomic_path(2) [OF w(1) this] have snap: "disk' (snapshot_path options) = Some bs" using bs(2) by simp
  have "meta_wire ?meta" using at by (simp add: meta_wire_def compacted_meta_def)
  from load_base_snapshot [where disk = disk', OF snap bs(1) os(1) r this]
  have base: "load_base os options disk' = Some (Inr (fresh_recovery\<lparr>re_registry := r,
      re_meta := ?meta\<lparr>sm_state_digest := registry_digest r\<rparr>, re_snapshot_loaded := True\<rparr>))" .
  have hok: "header_ok (make_header stream 0)" using make_header_ok at(3) .
  then have "length (make_header stream 0 @ encode_log [] @ []) < 2 ^ 64"
    by (simp add: header_ok_def kWalHeaderSize_def)
  from store_open_recovers [OF paths os(3) base log hok _ _ _ os(1,2) this]
  show ?thesis by (fastforce simp: last_sequence_def)
qed

text \<open>
  A store whose compaction stopped between the snapshot and the log: the log is replayed over the
  snapshot that already contains it.
\<close>

lemma replay_audit_refused:
  assumes "le_kind e = RecordKind_Mutation" "le_payload e = encode_mutation (Mutation_AuditAppend a)" "audit_wire a"
    and "rg_audit (re_registry rec) \<noteq> []" "au_sequence (last (rg_audit (re_registry rec))) \<noteq> - 1"
    and "au_sequence a \<noteq> au_sequence (last (rg_audit (re_registry rec))) + 1"
  shows "\<exists>s. visit_all replay (e # es) rec = Some (Inl s)"
proof -
  have n: "counter_next (au_sequence (last (rg_audit (re_registry rec))))
      = Inr (au_sequence (last (rg_audit (re_registry rec))) + 1)"
    using assms(5) by (simp add: counter_next_Inr)
  have "decode_mutation (encode_mutation (Mutation_AuditAppend a)) = Inr (Mutation_AuditAppend a, [])"
    using assms(3) by (intro mutation.dec_enc_end) simp
  then show ?thesis
    using assms n
    by (auto simp: replay_def entry_header_def replay_mutation_def expect_end_def apply_mutation_def
        registry_append_audit_def)
qed

lemma interrupted_compaction_refused:
  assumes holds: "store_holds options hdr (e # es) ds disk" and paths: "store_paths_ok options"
    and few: "length (e # es) \<le> 4194304"
    and e: "le_kind e = RecordKind_Mutation" "le_payload e = encode_mutation (Mutation_AuditAppend a)" "audit_wire a"
    and r: "registry_ok r" "registry_wire r" "rg_audit r \<noteq> []" "au_sequence (last (rg_audit r)) \<noteq> - 1"
      "au_sequence a \<noteq> au_sequence (last (rg_audit r)) + 1"
    and at: "uuid_ok (sm_incarnation meta)" "i64_ok at"
    and run: "is_ok (fst (save_snapshot os1 (snapshot_path options) (compacted_meta r meta at ds) r disk))"
      "compact os1 os2 stream r meta at ds disk = (s, ds', disk')" "\<not> os_open os2"
    and os: "os_open os" "is_ok directory"
  shows "\<exists>err. store_open os directory stream' options disk' = Some (Inl err, disk')"
proof -
  let ?meta = "compacted_meta r meta at ds"
  note h = holds [unfolded store_holds_def]
  obtain s1 disk1 where save: "save_snapshot os1 (snapshot_path options) ?meta r disk = (s1, disk1)" "is_ok s1"
    using run(1) by (cases "save_snapshot os1 (snapshot_path options) ?meta r disk") simp
  from save_snapshot_ok [OF paths save] obtain bs where bs: "encode_snapshot ?meta r = Inr bs"
    "disk1 (snapshot_path options) = Some bs" "disk1 (wal_path options) = disk (wal_path options)" by blast
  have same: "disk' = disk1"
    using run(2,3) save h by (auto simp: compact_def wal_reset_def wal_holds_def write_file_atomic_def Let_def)
  have "meta_wire ?meta" using at by (simp add: meta_wire_def compacted_meta_def)
  from load_base_snapshot [where disk = disk1, OF bs(2,1) os(1) r(1,2) this]
  have base: "load_base os options disk' = Some (Inr (fresh_recovery\<lparr>re_registry := r,
      re_meta := ?meta\<lparr>sm_state_digest := registry_digest r\<rparr>, re_snapshot_loaded := True\<rparr>))"
    unfolding same .
  let ?base = "fresh_recovery\<lparr>re_registry := r,
      re_meta := ?meta\<lparr>sm_state_digest := registry_digest r\<rparr>, re_snapshot_loaded := True\<rparr>"
  obtain err where "visit_all replay (e # es) ?base = Some (Inl err)"
    using replay_audit_refused [OF e, of ?base es] r(3-5) by (simp del: visit_all.simps) blast
  moreover have "disk' (wal_path options) = Some (hdr @ encode_log (e # es) @ [])" using same bs(3) h by simp
  ultimately show ?thesis
    using store_open_refused [OF paths os(2) base _ _ _ _ os(1) few] h by metis
qed

section \<open>A failed append\<close>

text \<open>
  An append that failed after the header of its record had reached the file leaves that header
  behind. Records that are appended, and acknowledged, after it are taken for its payload, and the
  next opening cuts them off.
\<close>

lemma failed_append_hides_later:
  assumes path: "wo_path options \<noteq> []" and holds: "wal_holds options es w"
    and here: "disk (wo_path options) = Some (hdr @ encode_log es)" and hdr: "header_ok hdr" and es: "follows None es"
    and e: "entry_ok e" "after_previous (last_sequence None es) (le_sequence e)"
    and fail: "wal_append os1 (le_kind e) (le_sequence e) (le_at e) (le_payload e) w disk = (s1, w1, disk1)"
      "\<not> is_ok s1" "disk1 (wo_path options) = Some (hdr @ encode_log es @ take k (encode_entry e))"
    and later: "wal_append os2 kind sequence at payload w1 disk1 = (s2, w2, disk2)" "is_ok s2"
    and short: "32 \<le> k" "k + length payload < length (le_payload e)"
      "length (hdr @ encode_log es) + 2 ^ 21 < 2 ^ 64" "length es \<le> unat (wo_max_records (effective_options options))"
    and v: "visit_all v es s = Some (Inr s')" and os: "os_open os" "os_truncate os"
  shows "\<exists>w3 rec disk3. wal_open os stream options v s disk2 = Some (Inr ((w3, rec), s'), disk3)
    \<and> wr_truncated_tail rec \<and> wr_records rec = word_of_nat (length es) \<and> disk3 (wo_path options) = Some (hdr @ encode_log es)"
proof -
  have w1: "w1 = w" using fail(1,2) by (auto elim: wal_append_cases split: if_splits)
  have opath: "wo_path (wa_options w) = wo_path options" using holds by (simp add: wal_holds_def effective_options_def)
  let ?f = "encode_record kind sequence at payload"
  have ne: "?f \<noteq> []" "length ?f = 36 + length payload"
    using length_encode_entry [of "\<lparr>le_kind = kind, le_sequence = sequence, le_at = at, le_payload = payload\<rparr>"]
    by (auto simp: encode_entry_def)
  have "disk2 (wo_path options) = Some ((hdr @ encode_log es @ take k (encode_entry e)) @ ?f)"
    using later(1)
  proof (cases rule: wal_append_cases)
    case (written st)
    then have "is_ok st" using later(2) by (auto split: if_splits)
    from append_file_ok [OF written(1) this] show ?thesis using fail(3) ne opath w1 by simp
  qed (use later(2) in simp)
  moreover define part where "part = take (k - 32) (le_payload e @ w_u32 (crc32c (entry_head e @ le_payload e)))"
  moreover have "take k (encode_entry e) = entry_head e @ part" using short(1) by (simp add: encode_entry_eq part_def)
  ultimately have d2: "disk2 (wo_path options) = Some (hdr @ encode_log es @ entry_head e @ part @ ?f)" by simp
  have part: "length part + 36 + length payload < length (le_payload e) + 4"
    using short(1,2) by (simp add: part_def)
  then have torn: "\<exists>why. read_record (last_sequence None es) (entry_head e @ part @ ?f) = Log_Damaged why"
    using read_record_missing [OF e, of "part @ ?f"] ne(2) by simp
  have "length (hdr @ encode_log es @ entry_head e @ part @ ?f) < 2 ^ 64"
    using part short(3) ne(2) e(1) by (simp add: entry_ok_def kMaxStoreRecordPayload_def)
  from wal_open_recovers [where stream = stream and disk = disk2, OF path d2 hdr es v short(4) os this disjI2 [OF torn]]
  obtain w3 rec where "wal_open os stream options v s disk2
      = Some (Inr ((w3, rec), s'), disk2(wo_path options \<mapsto> hdr @ encode_log es))"
    "wr_truncated_tail rec" "wr_records rec = word_of_nat (length es)"
    using length_entry_head [of e] by fastforce
  then show ?thesis by (intro exI [of _ w3] exI [of _ rec] exI [of _ "disk2(wo_path options \<mapsto> hdr @ encode_log es)"]) simp
qed

end
