(* ===== verification/Store_Properties.thy ===== *)
theory Store_Properties
  imports Durable_Laws Sample
begin

text \<open>The properties of the log, the snapshot and the durable store, each with an instance on a small store.\<close>

section \<open>A small store\<close>

definition sample_os :: os_answers where
  "sample_os = \<lparr>os_open = True, os_written = 1073741824, os_reached = 0, os_flush = True, os_sync = True,
     os_rename = True, os_unlink = True, os_truncate = True\<rparr>"

definition sample_options :: store_options where
  "sample_options = \<lparr>so_directory = ''d'', so_snapshot_name = ''s'', so_wal_name = ''w'', so_compact_bytes = 4096,
     so_compact_records = 16, so_durable = True\<rparr>"

definition sample_audit :: audit_record where
  "sample_audit = \<lparr>au_sequence = 1, au_at = 0, au_actor = [], au_action = [], au_subject = [],
     au_outcome = Outcome_Ok, au_detail = []\<rparr>"

definition sample_entry :: log_entry where
  "sample_entry = \<lparr>le_kind = RecordKind_Mutation, le_sequence = 1, le_at = 0,
     le_payload = encode_mutation (Mutation_AuditAppend sample_audit)\<rparr>"

definition sample_file :: "log_entry list \<Rightarrow> bytes" where
  "sample_file es = make_header (uid 11) 0 @ encode_log es"

definition sample_disk :: "log_entry list \<Rightarrow> disk" where
  "sample_disk es = (\<lambda>p. if p = wal_path sample_options then Some (sample_file es) else None)"

definition sample_wal :: "log_entry list \<Rightarrow> wal" where
  "sample_wal es = \<lparr>wa_options = effective_options (log_options sample_options),
     wa_bytes = word_of_nat (kWalHeaderSize + length (encode_log es)), wa_records = word_of_nat (length es),
     wa_last_sequence = word_of_nat (length es), wa_open = True\<rparr>"

definition sample_store :: "log_entry list \<Rightarrow> durable_store" where
  "sample_store es = \<lparr>ds_options = sample_options, ds_wal = sample_wal es,
     ds_next_sequence = word_of_nat (length es) + 1, ds_open = True\<rparr>"

lemma sample_paths_ok: "store_paths_ok sample_options"
  by (simp add: store_paths_ok_def sample_options_def snapshot_path_def wal_path_def join_path_def)

lemma sample_audit_wire: "audit_wire sample_audit"
  by (simp add: audit_wire_def sample_audit_def i64_ok_def)

lemma length_sample_audit: "length (encode_mutation (Mutation_AuditAppend sample_audit)) = 36"
  by (simp add: encode_mutation_def encode_audit_def sample_audit_def)

lemma sample_entry_ok: "entry_ok sample_entry"
  by (simp add: entry_ok_def sample_entry_def record_kind_known_def length_sample_audit kMaxStoreRecordPayload_def
      i64_ok_def)

lemma sample_header_ok: "header_ok (make_header (uid 11) 0)"
  by (rule make_header_ok) simp

lemma sample_holds: "store_holds sample_options (make_header (uid 11) 0) [] (sample_store []) (sample_disk [])"
  "store_holds sample_options (make_header (uid 11) 0) [sample_entry] (sample_store [sample_entry]) (sample_disk [sample_entry])"
  by (simp_all add: store_holds_def sample_store_def wal_holds_def sample_wal_def sample_disk_def sample_file_def
      sample_header_ok sample_entry_ok last_sequence_def after_previous_def)
    (simp add: sample_entry_def)

lemma length_sample_header: "length (make_header (uid 11) 0) = 64"
  using sample_header_ok by (simp add: header_ok_def kWalHeaderSize_def)

lemma sample_os_well [simp]: "os_open sample_os" "os_truncate sample_os"
  by (simp_all add: sample_os_def)

lemma sample_opens:
  "\<exists>ds0 rec0 disk0. store_open sample_os status_ok (uid 2) sample_options (sample_disk []) = Some (Inr (ds0, rec0), disk0)
    \<and> re_registry rec0 = empty_registry"
proof -
  have base: "load_base sample_os sample_options (sample_disk []) = Some (Inr fresh_recovery)"
    using sample_paths_ok by (simp add: load_base_def file_exists_def sample_disk_def store_paths_ok_def)
  show ?thesis
    using store_open_recovers [OF sample_paths_ok _ base, of status_ok "make_header (uid 11) 0" "[]" "[]"
        fresh_recovery "uid 2"] sample_header_ok length_sample_header
    by (auto simp: sample_disk_def sample_file_def fresh_recovery_def)
qed

section \<open>The log\<close>

text \<open>
  C10. A log that lost any part of its last record is recovered up to that record: opening replays
  exactly the records before it, reports the cut when something was left of it, and leaves on disk
  exactly the bytes of the records it replayed.
\<close>

theorem torn_log_recovers:
  assumes "wo_path options \<noteq> []" "header_ok hdr" "follows None (es @ [e])"
    and "disk (wo_path options) = Some (hdr @ encode_log es @ take k (encode_entry e))" "k < length (encode_entry e)"
    and "length hdr + length (encode_log (es @ [e])) < 2 ^ 64"
    and "length es \<le> unat (wo_max_records (effective_options options))"
    and "visit_all v es s = Some (Inr s')" "os_open os" "os_truncate os"
  shows "\<exists>w rec. wal_open os stream options v s disk
      = Some (Inr ((w, rec), s'), disk(wo_path options \<mapsto> hdr @ encode_log es))
    \<and> wal_holds options es w \<and> (wr_truncated_tail rec \<longleftrightarrow> 0 < k) \<and> wr_records rec = word_of_nat (length es)"
proof -
  have e: "entry_ok e" "after_previous (last_sequence None es) (le_sequence e)" "follows None es"
    using assms(3) by (simp_all add: follows_append)
  have torn: "take k (encode_entry e) = []
      \<or> (\<exists>why. read_record (last_sequence None es) (take k (encode_entry e)) = Log_Damaged why)"
    using read_record_torn [OF e(1,2) _ assms(5)] by (cases "k = 0") auto
  have "length (hdr @ encode_log es @ take k (encode_entry e)) < 2 ^ 64" using assms(6) by simp
  from wal_open_recovers [where disk = disk, OF assms(1,4,2) e(3) assms(8,7,9,10) this torn, of stream]
  show ?thesis using length_encode_entry [of e] by (auto simp del: length_encode_entry)
qed

theorem torn_log_recovers_witness:
  "\<exists>w rec. wal_open sample_os (uid 2) (log_options sample_options) replay fresh_recovery
      (\<lambda>p. if p = wal_path sample_options then Some (make_header (uid 11) 0 @ encode_log [] @ take 50 (encode_entry sample_entry)) else None)
      = Some (Inr ((w, rec), fresh_recovery),
          (\<lambda>p. if p = wal_path sample_options then Some (make_header (uid 11) 0 @ encode_log [] @ take 50 (encode_entry sample_entry)) else None)
            (wal_path sample_options \<mapsto> make_header (uid 11) 0 @ encode_log []))
    \<and> wr_truncated_tail rec"
proof -
  have "follows None ([] @ [sample_entry])" by (simp add: sample_entry_ok after_previous_def)
  moreover have "wo_path (log_options sample_options) \<noteq> []"
    by (simp add: sample_options_def wal_path_def join_path_def)
  moreover have "50 < length (encode_entry sample_entry)" by (simp add: sample_entry_def length_sample_audit)
  moreover have "length (make_header (uid 11) 0) + length (encode_log ([] @ [sample_entry])) < 2 ^ 64"
    by (simp add: length_sample_header sample_entry_def length_sample_audit)
  ultimately show ?thesis
    using torn_log_recovers [of "log_options sample_options" "make_header (uid 11) 0" "[]" sample_entry
        "\<lambda>p. if p = wal_path sample_options then Some (make_header (uid 11) 0 @ encode_log [] @ take 50 (encode_entry sample_entry)) else None"
        50 replay fresh_recovery fresh_recovery sample_os "uid 2"] sample_header_ok
    by auto
qed

text \<open>
  C16. Whatever bytes are on disk, a log that opens was opened on authentic records only: the file
  starts with a valid header and complete, checksummed records of strictly increasing sequence, the
  visitor saw exactly those, in order, everything after them is gone from the disk, and the cut was
  reported exactly when there was something to cut.
\<close>

theorem opened_log_is_authentic:
  assumes "disk (wo_path options) = Some contents" "length contents < 2 ^ 64"
    and "wal_open os stream options v s disk = Some (Inr ((w, rec), s'), disk')"
  shows "\<exists>hdr es rest. contents = hdr @ encode_log es @ rest \<and> header_ok hdr \<and> follows None es
    \<and> visit_all v es s = Some (Inr s') \<and> disk' = disk(wo_path options \<mapsto> hdr @ encode_log es)
    \<and> (wr_truncated_tail rec \<longleftrightarrow> rest \<noteq> []) \<and> wr_records rec = word_of_nat (length es)"
  using wal_open_sound [OF assms] by metis

text \<open>A log of one complete record and ten bytes of a second one, opened by a visitor that counts.\<close>

definition cut_file :: bytes where
  "cut_file = sample_file [sample_entry] @ take 10 (encode_entry (sample_entry\<lparr>le_sequence := 2\<rparr>))"

theorem opened_log_is_authentic_witness:
  "\<exists>w rec hdr es rest. wal_open sample_os (uid 2) (log_options sample_options) (\<lambda>h p s. Some (status_ok, Suc s)) 0
      ((sample_disk [])(wal_path sample_options \<mapsto> cut_file))
      = Some (Inr ((w, rec), 1), (sample_disk [])(wal_path sample_options \<mapsto> hdr @ encode_log es))
    \<and> cut_file = hdr @ encode_log es @ rest \<and> follows None es \<and> length es = 1 \<and> rest \<noteq> [] \<and> wr_truncated_tail rec"
proof -
  let ?v = "\<lambda>h p s. Some (status_ok, Suc s)" and ?disk = "(sample_disk [])(wal_path sample_options \<mapsto> cut_file)"
  let ?e = "sample_entry\<lparr>le_sequence := 2\<rparr>"
  have here: "?disk (wo_path (log_options sample_options)) = Some cut_file" by simp
  have parts: "cut_file = make_header (uid 11) 0 @ encode_log [sample_entry] @ take 10 (encode_entry ?e)"
    by (simp add: cut_file_def sample_file_def)
  have short: "length cut_file < 2 ^ 64"
    by (simp add: cut_file_def sample_file_def length_sample_header sample_entry_def length_sample_audit)
  have path: "wo_path (log_options sample_options) \<noteq> []"
    by (simp add: sample_options_def wal_path_def join_path_def)
  have e: "entry_ok ?e" "after_previous (last_sequence None [sample_entry]) (le_sequence ?e)"
    using sample_entry_ok by (simp_all add: entry_ok_def last_sequence_def after_previous_def) (simp add: sample_entry_def)
  have torn: "\<exists>why. read_record (last_sequence None [sample_entry]) (take 10 (encode_entry ?e)) = Log_Damaged why"
    by (rule read_record_torn [OF e]) simp_all
  have es: "follows None [sample_entry]" "visit_all ?v [sample_entry] 0 = Some (Inr 1)"
    "length [sample_entry] \<le> unat (wo_max_records (effective_options (log_options sample_options)))"
    by (simp_all add: sample_entry_ok after_previous_def log_options_bound)
  have "take 10 (encode_entry ?e) \<noteq> []" using length_encode_entry [of ?e] by (metis length_0_conv add_is_0 take_eq_Nil numeral_neq_zero)
  then have "\<exists>w rec disk'. wal_open sample_os (uid 2) (log_options sample_options) ?v 0 ?disk = Some (Inr ((w, rec), 1), disk')
      \<and> wr_truncated_tail rec"
    using wal_open_recovers [where disk = ?disk and stream = "uid 2" and os = sample_os,
        OF path trans [OF here arg_cong [of _ _ Some, OF parts]] sample_header_ok es _ _ short [unfolded parts] disjI2 [OF torn]]
      sample_os_well by blast
  then obtain w rec disk' where run: "wal_open sample_os (uid 2) (log_options sample_options) ?v 0 ?disk = Some (Inr ((w, rec), 1), disk')"
    and rec: "wr_truncated_tail rec" by blast
  from opened_log_is_authentic [OF here short run] obtain hdr es rest where
    log: "cut_file = hdr @ encode_log es @ rest" "follows None es" "visit_all ?v es 0 = Some (Inr 1)"
    "disk' = ?disk(wo_path (log_options sample_options) \<mapsto> hdr @ encode_log es)" "wr_truncated_tail rec \<longleftrightarrow> rest \<noteq> []"
    by blast
  have "visit_all ?v es n = Some (Inr (n + length es))" for n by (induction es arbitrary: n) simp_all
  then have "length es = 1" using log(3) by simp
  then show ?thesis using run rec log by auto
qed

section \<open>The store\<close>

lemma replay_decoded_apply:
  assumes "apply_mutation m (re_registry rec) = Some (status_ok, r')"
  shows "\<exists>rec'. replay_decoded m rec = Some (status_ok, rec') \<and> re_registry rec' = r'"
  using assms
  by (cases m) (auto simp: set_meta_def apply_mutation_def)



text \<open>
  C28. A compaction that succeeds loses nothing: a store opened afterwards holds exactly the registry
  that was compacted.
\<close>

theorem compaction_keeps_registry:
  assumes "store_holds options hdr es ds disk" "store_paths_ok options" "registry_ok r" "registry_wire r"
    and "uuid_ok (sm_incarnation meta)" "i64_ok at" "uuid_ok stream"
    and "compact os1 os2 stream r meta at ds disk = (s, ds', disk')" "is_ok s"
    and "os_open os" "os_truncate os" "is_ok directory"
  shows "\<exists>ds2 rec2 disk2. store_open os directory stream' options disk' = Some (Inr (ds2, rec2), disk2)
    \<and> re_registry rec2 = r"
proof -
  have "ds_options ds = options" "wa_options (ds_wal ds) = effective_options (log_options options)"
    using assms(1) by (simp_all add: store_holds_def wal_holds_def)
  from compact_reopens [OF assms(2) this assms(3-9) assms(10-12)] show ?thesis by blast
qed

lemma sample_compact_ok: "is_ok (fst (compact sample_os sample_os (uid 2) empty_registry default_meta 5 (sample_store []) (sample_disk [])))"
proof -
  have "length (encode_registry empty_registry True) = 35"
    by (simp add: encode_registry_def encode_table_def empty_registry_def w_count_def to_u32_def)
  then obtain bs where bs: "encode_snapshot (compacted_meta empty_registry default_meta 5 (sample_store [])) empty_registry = Inr bs"
    by (simp add: encode_snapshot_def Let_def kMaxStoreRecordPayload_def)
  have "length bs \<le> kMaxStoreRecordPayload + kSnapshotHeaderSize + 4"
    using bs by (rule length_encode_snapshot) (simp add: compacted_meta_def default_meta_def)
  then have w: "os_well sample_os (length bs)" "os_well sample_os (length (make_header (uid 2) 0))"
    using make_header_ok [of "uid 2" 0]
    by (simp_all add: os_well_def sample_os_def kMaxStoreRecordPayload_def kSnapshotHeaderSize_def header_ok_def
        kWalHeaderSize_def)
  show ?thesis
    using bs write_file_atomic_well [OF w(1)] write_file_atomic_well [OF w(2)]
    by (simp add: compact_def save_snapshot_def wal_reset_def Let_def split_beta sample_store_def sample_wal_def)
qed

theorem compaction_keeps_registry_witness:
  "\<exists>ds2 rec2 disk2. store_open sample_os status_ok (uid 3) sample_options
      (snd (snd (compact sample_os sample_os (uid 2) empty_registry default_meta 5 (sample_store []) (sample_disk []))))
      = Some (Inr (ds2, rec2), disk2) \<and> re_registry rec2 = empty_registry"
proof -
  obtain s ds' disk' where run: "compact sample_os sample_os (uid 2) empty_registry default_meta 5 (sample_store []) (sample_disk [])
      = (s, ds', disk')" by (metis prod_cases3)
  have "registry_wire empty_registry" by (simp add: registry_wire_def empty_registry_def)
  from compaction_keeps_registry [OF sample_holds(1) sample_paths_ok registry_ok_empty this _ _ _ run, of sample_os status_ok "uid 3"]
  show ?thesis using sample_compact_ok run by (simp add: default_meta_def i64_ok_def)
qed

text \<open>
  C35. A compaction that stops after the snapshot was saved and before the log was replaced can leave
  a store that no longer opens. The records of the log are replayed over the snapshot that already
  contains their effect: when the first record of the log is an audit record that does not continue the
  trail of the compacted registry, as is the case when that trail already holds it, it is refused as
  out of sequence and the store does not open. A log of records that may be applied twice reopens.
\<close>

theorem interrupted_compaction_bricks_store:
  assumes "store_holds options hdr (e # es) ds disk" "store_paths_ok options" "length (e # es) \<le> 4194304"
    and "le_kind e = RecordKind_Mutation" "le_payload e = encode_mutation (Mutation_AuditAppend a)" "audit_wire a"
    and "registry_ok r" "registry_wire r" "rg_audit r \<noteq> []" "au_sequence (last (rg_audit r)) \<noteq> - 1"
    and "au_sequence a \<noteq> au_sequence (last (rg_audit r)) + 1"
    and "uuid_ok (sm_incarnation meta)" "i64_ok at"
    and "is_ok (fst (save_snapshot os1 (snapshot_path options) (compacted_meta r meta at ds) r disk))"
    and "compact os1 os2 stream r meta at ds disk = (s, ds', disk')" "\<not> os_open os2"
    and "os_open os" "is_ok directory"
  shows "\<exists>err. store_open os directory stream' options disk' = Some (Inl err, disk')"
  using interrupted_compaction_refused [OF assms] .

definition audited_registry :: registry where
  "audited_registry = empty_registry\<lparr>rg_audit := [sample_audit]\<rparr>"

lemma audited_registry_ok: "registry_ok audited_registry" "registry_wire audited_registry"
  using registry_ok_empty sample_audit_wire
  by (simp_all add: audited_registry_def registry_ok_def audit_ok_def kMaxAuditRecords_def registry_wire_def
      empty_registry_def)

theorem interrupted_compaction_bricks_store_witness:
  "\<exists>err. store_open sample_os status_ok (uid 3) sample_options
      (snd (snd (compact sample_os (sample_os\<lparr>os_open := False\<rparr>) (uid 2) audited_registry default_meta 5
        (sample_store [sample_entry]) (sample_disk [sample_entry])))) = Some (Inl err,
      snd (snd (compact sample_os (sample_os\<lparr>os_open := False\<rparr>) (uid 2) audited_registry default_meta 5
        (sample_store [sample_entry]) (sample_disk [sample_entry]))))"
proof -
  let ?meta = "compacted_meta audited_registry default_meta 5 (sample_store [sample_entry])"
  have "length (encode_registry audited_registry True) = 69"
    by (simp add: encode_registry_def encode_table_def empty_registry_def audited_registry_def w_count_def to_u32_def
        encode_audit_def sample_audit_def)
  then obtain bs where bs: "encode_snapshot ?meta audited_registry = Inr bs"
    by (simp add: encode_snapshot_def Let_def kMaxStoreRecordPayload_def)
  have "length bs \<le> kMaxStoreRecordPayload + kSnapshotHeaderSize + 4"
    using bs by (rule length_encode_snapshot) (simp add: compacted_meta_def default_meta_def)
  then have w: "os_well sample_os (length bs)"
    by (simp add: os_well_def sample_os_def kMaxStoreRecordPayload_def kSnapshotHeaderSize_def)
  have save: "is_ok (fst (save_snapshot sample_os (snapshot_path sample_options) ?meta audited_registry (sample_disk [sample_entry])))"
    using write_file_atomic_well [OF w] bs by (simp add: save_snapshot_def)
  have e: "le_kind sample_entry = RecordKind_Mutation"
    "le_payload sample_entry = encode_mutation (Mutation_AuditAppend sample_audit)" by (simp_all add: sample_entry_def)
  obtain s ds' disk' where run: "compact sample_os (sample_os\<lparr>os_open := False\<rparr>) (uid 2) audited_registry default_meta 5
      (sample_store [sample_entry]) (sample_disk [sample_entry]) = (s, ds', disk')" by (metis prod_cases3)
  have "\<exists>err. store_open sample_os status_ok (uid 3) sample_options disk' = Some (Inl err, disk')"
    by (rule interrupted_compaction_bricks_store [OF sample_holds(2) sample_paths_ok _ e sample_audit_wire audited_registry_ok
          _ _ _ _ _ save run])
      (simp_all add: audited_registry_def sample_audit_def default_meta_def i64_ok_def)
  then show ?thesis using run by simp
qed

text \<open>
  C36. An append that fails after the header of its record and possibly a part of its payload reached the
  file is not undone. A record appended afterwards, and acknowledged, that does not fill up what is
  missing of the payload is taken for a part of it: the next opening of the log replays only what came
  before the failure and cuts the acknowledged record off the disk.
\<close>

theorem failed_append_loses_later_record:
  assumes "wo_path options \<noteq> []" "wal_holds options es w" "disk (wo_path options) = Some (hdr @ encode_log es)"
    and "header_ok hdr" "follows None es" "entry_ok e" "after_previous (last_sequence None es) (le_sequence e)"
    and "wal_append os1 (le_kind e) (le_sequence e) (le_at e) (le_payload e) w disk = (s1, w1, disk1)" "\<not> is_ok s1"
    and "disk1 (wo_path options) = Some (hdr @ encode_log es @ take k (encode_entry e))" "32 \<le> k"
    and "wal_append os2 kind sequence at payload w1 disk1 = (s2, w2, disk2)" "is_ok s2"
    and "k + length payload < length (le_payload e)" "length (hdr @ encode_log es) + 2 ^ 21 < 2 ^ 64"
    and "length es \<le> unat (wo_max_records (effective_options options))"
    and "visit_all v es s = Some (Inr s')" "os_open os" "os_truncate os"
  shows "\<exists>w3 rec disk3. wal_open os stream options v s disk2 = Some (Inr ((w3, rec), s'), disk3)
    \<and> wr_truncated_tail rec \<and> wr_records rec = word_of_nat (length es)
    \<and> disk3 (wo_path options) = Some (hdr @ encode_log es)"
  using failed_append_hides_later [OF assms(1-10,12,13,11,14-)] .

definition long_entry :: log_entry where
  "long_entry = \<lparr>le_kind = RecordKind_Incident, le_sequence = 1, le_at = 0, le_payload = replicate 100 0\<rparr>"

definition short_os :: os_answers where
  "short_os = sample_os\<lparr>os_written := 32, os_reached := 32\<rparr>"

definition torn_disk :: disk where
  "torn_disk = (sample_disk [])(wal_path sample_options \<mapsto> sample_file [] @ take 32 (encode_entry long_entry))"

lemma sample_short_append:
  "wal_append short_os RecordKind_Incident 1 0 (replicate 100 0) (sample_wal []) (sample_disk [])
    = (to_status ''short append'' (wal_path sample_options), sample_wal [], torn_disk)"
proof -
  have "length (encode_record RecordKind_Incident 1 0 (replicate 100 0)) = 136"
    "encode_record RecordKind_Incident 1 0 (replicate 100 0) = encode_entry long_entry"
    using length_encode_entry [of long_entry] by (simp_all add: encode_entry_def long_entry_def)
  moreover have "encode_entry long_entry \<noteq> []" using length_encode_entry [of long_entry] by fastforce
  ultimately show ?thesis
    by (simp add: wal_append_def sample_wal_def record_kind_known_def kMaxStoreRecordPayload_def effective_options_def
        log_options_def kMaxStoreRecords_def kMaxStoreBytes_def add_size_def kRecordHeaderSize_def kRecordTrailerSize_def
        kWalHeaderSize_def append_file_def short_os_def sample_os_def arrived_def sample_disk_def torn_disk_def Let_def)
qed

lemma sample_later_append:
  "is_ok (fst (wal_append sample_os RecordKind_Incident 1 0 [] (sample_wal []) torn_disk))"
proof -
  have "length (encode_record RecordKind_Incident 1 0 []) = 36"
    using length_encode_entry [of "\<lparr>le_kind = RecordKind_Incident, le_sequence = 1, le_at = 0, le_payload = []\<rparr>"]
    by (simp add: encode_entry_def)
  then show ?thesis
    by (simp add: wal_append_def sample_wal_def record_kind_known_def kMaxStoreRecordPayload_def effective_options_def
        log_options_def kMaxStoreRecords_def kMaxStoreBytes_def add_size_def kRecordHeaderSize_def kRecordTrailerSize_def
        kWalHeaderSize_def append_file_def sample_os_def Let_def)
qed

theorem failed_append_loses_later_record_witness:
  "\<exists>w3 rec disk3. wal_open sample_os (uid 3) (log_options sample_options) replay fresh_recovery
      (snd (snd (wal_append sample_os RecordKind_Incident 1 0 [] (sample_wal []) torn_disk)))
      = Some (Inr ((w3, rec), fresh_recovery), disk3)
    \<and> is_ok (fst (wal_append sample_os RecordKind_Incident 1 0 [] (sample_wal []) torn_disk))
    \<and> wr_truncated_tail rec \<and> wr_records rec = 0"
proof -
  obtain s2 w2 disk2 where later: "wal_append sample_os RecordKind_Incident 1 0 [] (sample_wal []) torn_disk = (s2, w2, disk2)"
    by (metis prod_cases3)
  have e: "le_kind long_entry = RecordKind_Incident" "le_sequence long_entry = 1" "le_at long_entry = 0"
    "le_payload long_entry = replicate 100 0" by (simp_all add: long_entry_def)
  have "\<exists>w3 rec disk3. wal_open sample_os (uid 3) (log_options sample_options) replay fresh_recovery disk2
      = Some (Inr ((w3, rec), fresh_recovery), disk3) \<and> wr_truncated_tail rec \<and> wr_records rec = word_of_nat (length ([] :: log_entry list))
      \<and> disk3 (wo_path (log_options sample_options)) = Some (make_header (uid 11) 0 @ encode_log [])"
  proof (rule failed_append_loses_later_record [where e = long_entry and w = "sample_wal []" and disk = "sample_disk []",
        OF _ _ _ sample_header_ok _ _ _ sample_short_append [folded e] _ _ _ later, where k = 32])
    show "wo_path (log_options sample_options) \<noteq> []" by (simp add: sample_options_def wal_path_def join_path_def)
    show "wal_holds (log_options sample_options) [] (sample_wal [])" by (simp add: wal_holds_def sample_wal_def)
    show "sample_disk [] (wo_path (log_options sample_options)) = Some (make_header (uid 11) 0 @ encode_log [])"
      by (simp add: sample_disk_def sample_file_def)
    show "torn_disk (wo_path (log_options sample_options))
        = Some (make_header (uid 11) 0 @ encode_log [] @ take 32 (encode_entry long_entry))"
      by (simp add: torn_disk_def sample_file_def)
    show "is_ok s2" using sample_later_append later by simp
    show "entry_ok long_entry"
      by (simp add: entry_ok_def long_entry_def record_kind_known_def kMaxStoreRecordPayload_def i64_ok_def)
    show "length (make_header (uid 11) 0 @ encode_log []) + 2 ^ 21 < 2 ^ 64" by (simp add: length_sample_header)
  qed (simp_all add: last_sequence_def after_previous_def e)
  then show ?thesis using later sample_later_append by auto
qed

section \<open>The snapshot\<close>

text \<open>
  C37. A snapshot that was encoded decodes to the registry and the metadata it was made from; and
  whatever bytes are decoded, a snapshot that is accepted holds a well-formed registry whose digest
  is the one its header declares.
\<close>

theorem snapshot_round_trip_and_integrity:
  "(registry_ok r \<and> registry_wire r \<and> meta_wire meta \<and> encode_snapshot meta r = Inr bs \<longrightarrow>
      decode_snapshot bs = Some (Inr \<lparr>sn_meta = meta\<lparr>sm_state_digest := registry_digest r\<rparr>, sn_registry = r\<rparr>))
   \<and> (decode_snapshot bs' = Some (Inr sn) \<longrightarrow>
      registry_ok (sn_registry sn) \<and> digest_from_bytes (take 32 (drop 80 bs')) = registry_digest (sn_registry sn))"
  using decode_encode_snapshot decode_snapshot_sound by blast

theorem snapshot_round_trip_and_integrity_witness:
  "\<exists>bs sn. encode_snapshot default_meta audited_registry = Inr bs \<and> decode_snapshot bs = Some (Inr sn)
    \<and> sn_registry sn = audited_registry"
proof -
  have "length (encode_registry audited_registry True) = 69"
    by (simp add: encode_registry_def encode_table_def empty_registry_def audited_registry_def w_count_def to_u32_def
        encode_audit_def sample_audit_def)
  then obtain bs where bs: "encode_snapshot default_meta audited_registry = Inr bs"
    by (simp add: encode_snapshot_def Let_def kMaxStoreRecordPayload_def)
  have "meta_wire default_meta" by (simp add: meta_wire_def default_meta_def i64_ok_def)
  then show ?thesis
    using snapshot_round_trip_and_integrity [of audited_registry default_meta bs] audited_registry_ok bs by auto
qed

end
