(* ===== verification/Frame.thy ===== *)
theory Frame
  imports Wal_Laws
begin

text \<open>
  \<open>wire/frame.cpp\<close>: the framed transport. A frame is a header with its own checksum, a payload, the
  checksum of the payload, and a MAC where the channel has a key. The parser keeps the bytes received
  so far and yields whole frames. \<open>read_u16\<close> and \<open>read_u32\<close> of the source are \<open>get_u16\<close> and \<open>get_u32\<close>,
  \<open>write_u16\<close> and \<open>write_u32\<close> are \<open>w_u16\<close> and \<open>w_u32\<close>.
\<close>

datatype message_type =
    MessageType_Invalid | MessageType_Hello | MessageType_HelloAck | MessageType_Refuse
  | MessageType_Ping | MessageType_Pong | MessageType_ReportCluster | MessageType_ReportAck
  | MessageType_ProposeContract | MessageType_ContractConsent | MessageType_PrepareGrant
  | MessageType_GrantPrepared | MessageType_CommitGrant | MessageType_GrantCommitted
  | MessageType_AbortGrant | MessageType_GrantAborted | MessageType_Fence | MessageType_FenceAck
  | MessageType_Withdraw | MessageType_WithdrawAck | MessageType_StatusRequest
  | MessageType_StatusReport | MessageType_Query | MessageType_QueryResult | MessageType_Admin
  | MessageType_AdminResult | MessageType_Error

definition message_type_values :: "message_type list" where
  "message_type_values =
    [MessageType_Invalid, MessageType_Hello, MessageType_HelloAck, MessageType_Refuse,
     MessageType_Ping, MessageType_Pong, MessageType_ReportCluster, MessageType_ReportAck,
     MessageType_ProposeContract, MessageType_ContractConsent, MessageType_PrepareGrant,
     MessageType_GrantPrepared, MessageType_CommitGrant, MessageType_GrantCommitted,
     MessageType_AbortGrant, MessageType_GrantAborted, MessageType_Fence, MessageType_FenceAck,
     MessageType_Withdraw, MessageType_WithdrawAck, MessageType_StatusRequest,
     MessageType_StatusReport, MessageType_Query, MessageType_QueryResult, MessageType_Admin,
     MessageType_AdminResult, MessageType_Error]"

definition message_type_code :: "message_type \<Rightarrow> u16" where
  "message_type_code t = word_of_nat (list_index message_type_values t)"

text \<open>A number beyond \<open>MaxValue\<close> is no known type; it is read as the equally unknown \<open>Invalid\<close>.\<close>

definition message_type_of :: "u16 \<Rightarrow> message_type" where
  "message_type_of raw =
    (if unat raw < length message_type_values then message_type_values ! unat raw else MessageType_Invalid)"

fun message_type_to_string :: "message_type \<Rightarrow> string" where
  "message_type_to_string MessageType_Invalid = ''INVALID''"
| "message_type_to_string MessageType_Hello = ''HELLO''"
| "message_type_to_string MessageType_HelloAck = ''HELLO_ACK''"
| "message_type_to_string MessageType_Refuse = ''REFUSE''"
| "message_type_to_string MessageType_Ping = ''PING''"
| "message_type_to_string MessageType_Pong = ''PONG''"
| "message_type_to_string MessageType_ReportCluster = ''REPORT_CLUSTER''"
| "message_type_to_string MessageType_ReportAck = ''REPORT_ACK''"
| "message_type_to_string MessageType_ProposeContract = ''PROPOSE_CONTRACT''"
| "message_type_to_string MessageType_ContractConsent = ''CONTRACT_CONSENT''"
| "message_type_to_string MessageType_PrepareGrant = ''PREPARE_GRANT''"
| "message_type_to_string MessageType_GrantPrepared = ''GRANT_PREPARED''"
| "message_type_to_string MessageType_CommitGrant = ''COMMIT_GRANT''"
| "message_type_to_string MessageType_GrantCommitted = ''GRANT_COMMITTED''"
| "message_type_to_string MessageType_AbortGrant = ''ABORT_GRANT''"
| "message_type_to_string MessageType_GrantAborted = ''GRANT_ABORTED''"
| "message_type_to_string MessageType_Fence = ''FENCE''"
| "message_type_to_string MessageType_FenceAck = ''FENCE_ACK''"
| "message_type_to_string MessageType_Withdraw = ''WITHDRAW''"
| "message_type_to_string MessageType_WithdrawAck = ''WITHDRAW_ACK''"
| "message_type_to_string MessageType_StatusRequest = ''STATUS_REQUEST''"
| "message_type_to_string MessageType_StatusReport = ''STATUS_REPORT''"
| "message_type_to_string MessageType_Query = ''QUERY''"
| "message_type_to_string MessageType_QueryResult = ''QUERY_RESULT''"
| "message_type_to_string MessageType_Admin = ''ADMIN''"
| "message_type_to_string MessageType_AdminResult = ''ADMIN_RESULT''"
| "message_type_to_string MessageType_Error = ''ERROR''"

definition message_type_from_string :: "string \<Rightarrow> message_type option" where
  "message_type_from_string text = find (\<lambda>candidate. text = message_type_to_string candidate) message_type_values"

definition message_type_known :: "message_type \<Rightarrow> bool" where
  "message_type_known t \<longleftrightarrow> t \<noteq> MessageType_Invalid"

definition kProtocolVersionMin :: u16 where "kProtocolVersionMin = 1"
definition kProtocolVersionMax :: u16 where "kProtocolVersionMax = 1"
definition kFrameHeaderSize :: nat where "kFrameHeaderSize = 20"
definition kFrameTrailerSize :: nat where "kFrameTrailerSize = 4"
definition kMaxFramePayload :: nat where "kMaxFramePayload = 2 ^ 20"
definition kMacSize :: nat where "kMacSize = 32"
definition kFlagSigned :: u32 where "kFlagSigned = 1"
definition kKnownFlags :: u32 where "kKnownFlags = kFlagSigned"
definition kMagic :: bytes where "kMagic = bytes_of_string ''ICF1''"

record frame_header =
  fh_version :: u16
  fh_type :: message_type
  fh_flags :: u32
  fh_payload_length :: u32

record frame =
  fr_header :: frame_header
  fr_payload :: bytes
  fr_signed_frame :: bool

definition frame_wire_size :: "nat \<Rightarrow> bool \<Rightarrow> nat" where
  "frame_wire_size payload_length signed_frame =
    kFrameHeaderSize + kFrameTrailerSize + payload_length + (if signed_frame then kMacSize else 0)"

definition encode_frame_header :: "frame_header \<Rightarrow> bytes" where
  "encode_frame_header h =
    (let front = kMagic @ w_u16 (fh_version h) @ w_u16 (message_type_code (fh_type h)) @ w_u32 (fh_flags h)
           @ w_u32 (fh_payload_length h)
     in front @ w_u32 (crc32c front))"

definition decode_frame_header :: "bytes \<Rightarrow> frame_header result" where
  "decode_frame_header header =
    (if length header < kFrameHeaderSize
     then Inl (status_make Outcome_Incomplete ''frame header is shorter than 20 bytes'')
     else if take 4 header \<noteq> kMagic then Inl (invalid ''frame magic does not match ICF1'')
     else if get_u32 (drop 16 header) \<noteq> crc32c (take 16 header)
     then Inl (status_make Outcome_Corrupt ''frame header CRC32C mismatch'')
     else if get_u16 (drop 4 header) < kProtocolVersionMin \<or> get_u16 (drop 4 header) > kProtocolVersionMax
     then Inl (status_make Outcome_Incompatible ''frame protocol version is not supported'')
     else if \<not> message_type_known (message_type_of (get_u16 (drop 6 header)))
     then Inl (invalid ''frame message type is not recognised'')
     else if get_u32 (drop 8 header) AND NOT kKnownFlags \<noteq> 0
     then Inl (invalid ''frame carries unknown flags'')
     else if unat (get_u32 (drop 12 header)) > kMaxFramePayload
     then Inl (invalid ''frame payload length exceeds the maximum'')
     else Inr \<lparr>fh_version = get_u16 (drop 4 header), fh_type = message_type_of (get_u16 (drop 6 header)),
                fh_flags = get_u32 (drop 8 header), fh_payload_length = get_u32 (drop 12 header)\<rparr>)"

definition append_frame :: "frame_header \<Rightarrow> bytes \<Rightarrow> bytes \<Rightarrow> bytes \<Rightarrow> status \<times> bytes" where
  "append_frame header payload key out =
    (let signed_frame = (fh_flags header AND kFlagSigned \<noteq> 0) in
     if length payload > kMaxFramePayload then (invalid ''frame payload exceeds the maximum'', out)
     else if signed_frame \<and> key = [] then (invalid ''a signed frame requires a channel key'', out)
     else case checked_sum (word_of_nat (frame_wire_size (length payload) signed_frame)) (word_of_nat (length out)) of
       Inl e \<Rightarrow> (e, out)
     | Inr _ \<Rightarrow>
         let effective = header\<lparr>fh_payload_length := word_of_nat (length payload)\<rparr>;
             covered = encode_frame_header effective @ payload @ w_u32 (crc32c payload)
         in (status_ok, out @ covered @ (if signed_frame then hmac_sha256 key covered else [])))"

record frame_parser =
  fp_buffer :: bytes
  fp_max_payload :: nat

definition new_parser :: "nat \<Rightarrow> frame_parser" where
  "new_parser max_payload =
    \<lparr>fp_buffer = [], fp_max_payload = (if max_payload > kMaxFramePayload then kMaxFramePayload else max_payload)\<rparr>"

definition parser_push :: "bytes \<Rightarrow> frame_parser \<Rightarrow> status \<times> frame_parser" where
  "parser_push input p =
    (let bound = fp_max_payload p + kFrameHeaderSize + kFrameTrailerSize + kMacSize in
     case checked_sum (word_of_nat (length (fp_buffer p))) (word_of_nat (length input)) of
       Inl e \<Rightarrow> (e, p)
     | Inr bytes_in \<Rightarrow>
         if unat bytes_in > bound then (invalid ''framed input exceeds the maximum frame size'', p)
         else (status_ok, p\<lparr>fp_buffer := fp_buffer p @ input\<rparr>))"

definition parser_next :: "bytes \<Rightarrow> frame_parser \<Rightarrow> frame option result \<times> frame_parser" where
  "parser_next key p =
    (if length (fp_buffer p) < kFrameHeaderSize then (Inr None, p)
     else case decode_frame_header (take kFrameHeaderSize (fp_buffer p)) of
       Inl e \<Rightarrow> (Inl e, p)
     | Inr header \<Rightarrow>
         let signed_frame = (fh_flags header AND kFlagSigned \<noteq> 0);
             len = unat (fh_payload_length header);
             whole = frame_wire_size len signed_frame;
             base = fp_buffer p;
             payload = take len (drop kFrameHeaderSize base)
         in if signed_frame \<and> key = []
            then (Inl (invalid ''received a signed frame but no channel key is configured''), p)
            else if \<not> signed_frame \<and> key \<noteq> []
            then (Inl (invalid ''received an unsigned frame on a channel that requires signing''), p)
            else if length base < whole then (Inr None, p)
            else if get_u32 (drop (kFrameHeaderSize + len) base) \<noteq> crc32c payload
            then (Inl (status_make Outcome_Corrupt ''frame payload CRC32C mismatch''), p)
            else if signed_frame
                \<and> \<not> constant_time_equal (hmac_sha256 key (take (kFrameHeaderSize + len + kFrameTrailerSize) base))
                      (take kMacSize (drop (whole - kMacSize) base))
            then (Inl (status_make Outcome_Unauthorized ''frame MAC does not verify under the channel key''), p)
            else (Inr (Some \<lparr>fr_header = header, fr_payload = payload, fr_signed_frame = signed_frame\<rparr>),
                  p\<lparr>fp_buffer := drop whole base\<rparr>))"

definition parser_reset :: "frame_parser \<Rightarrow> frame_parser" where
  "parser_reset p = p\<lparr>fp_buffer := []\<rparr>"

end
