(* ===== verification/Frame_Laws.thy ===== *)
theory Frame_Laws
  imports Frame Canonical_Laws
begin

text \<open>
  What framing guarantees: the parser yields exactly the frames an honest sender writes under the
  same key, and the frames of a stream do not depend on how the stream was cut into reads.
\<close>

section \<open>Headers\<close>

lemma message_type_values_complete: "t \<in> set message_type_values"
  by (cases t) (simp_all add: message_type_values_def)

lemma length_message_types: "length message_type_values = 27"
  by (simp add: message_type_values_def)

lemma distinct_message_types: "distinct message_type_values"
  by (simp add: message_type_values_def)

lemma message_type_of_code [simp]: "message_type_of (message_type_code t) = t"
proof -
  have "list_index message_type_values t < 27" "message_type_values ! list_index message_type_values t = t"
    using list_index_nth [OF message_type_values_complete] by (auto simp: length_message_types)
  then show ?thesis
    by (simp add: message_type_of_def message_type_code_def length_message_types unat_of_nat take_bit_nat_eq_self)
qed

lemma message_type_code_of: "message_type_known (message_type_of raw) \<Longrightarrow> message_type_code (message_type_of raw) = raw"
  using list_index_nth_distinct [OF distinct_message_types, of "unat raw"]
  by (auto simp: message_type_of_def message_type_code_def message_type_known_def split: if_splits)

lemmas frame_sizes = kFrameHeaderSize_def kFrameTrailerSize_def kMacSize_def kMaxFramePayload_def

definition header_valid :: "frame_header \<Rightarrow> bool" where
  "header_valid h \<longleftrightarrow> fh_version h = 1 \<and> message_type_known (fh_type h) \<and> fh_flags h \<in> {0, 1}
    \<and> unat (fh_payload_length h) \<le> kMaxFramePayload"

lemma length_kMagic [simp]: "length kMagic = 4"
  by (simp add: kMagic_def)

lemma length_encode_frame_header [simp]: "length (encode_frame_header h) = 20"
  by (simp add: encode_frame_header_def Let_def)

lemma known_flags: "f AND NOT kKnownFlags = 0 \<longleftrightarrow> f \<in> {0, 1 :: u32}"
proof
  assume z: "f AND NOT kKnownFlags = 0"
  have "f = f AND 1"
  proof (rule bit_word_eqI)
    fix n assume "n < LENGTH(32)"
    have "bit (f AND NOT kKnownFlags) n = bit (0 :: u32) n" by (simp only: z)
    then show "bit f n = bit (f AND 1) n"
      using \<open>n < LENGTH(32)\<close> by (auto simp: bit_simps kKnownFlags_def kFlagSigned_def)
  qed
  also have "f AND 1 = f mod 2" by (simp add: and_one_eq)
  finally show "f \<in> {0, 1}" by (metis insert_iff one_mod_two_eq_one parity_cases zero_neq_one)
qed (auto simp: kKnownFlags_def kFlagSigned_def)

lemma decode_encode_frame_header:
  assumes "header_valid h"
  shows "decode_frame_header (encode_frame_header h) = Inr h"
  using assms known_flags [of "fh_flags h"]
  by (auto simp: decode_frame_header_def header_valid_def encode_frame_header_def Let_def frame_sizes
      kProtocolVersionMin_def kProtocolVersionMax_def)

lemma word_is_one: "v \<noteq> 0 \<Longrightarrow> \<not> 1 < v \<Longrightarrow> v = (1 :: u16)"
proof -
  assume "v \<noteq> 0" "\<not> 1 < v"
  then have "unat v = 1" by (auto simp: word_less_nat_alt unat_eq_0 [symmetric] simp del: unat_eq_0)
  then show "v = 1" by (metis unat_1 word_unat_eq_iff)
qed

lemma decode_frame_header_sound:
  assumes "decode_frame_header hd20 = Inr h" "length hd20 = 20"
  shows "header_valid h \<and> hd20 = encode_frame_header h"
proof -
  have c: "take 4 hd20 = kMagic" "get_u32 (drop 16 hd20) = crc32c (take 16 hd20)" "get_u16 (drop 4 hd20) = 1"
    "message_type_known (message_type_of (get_u16 (drop 6 hd20)))" "get_u32 (drop 8 hd20) AND NOT kKnownFlags = 0"
    "unat (get_u32 (drop 12 hd20)) \<le> kMaxFramePayload"
    and h: "h = \<lparr>fh_version = get_u16 (drop 4 hd20), fh_type = message_type_of (get_u16 (drop 6 hd20)),
      fh_flags = get_u32 (drop 8 hd20), fh_payload_length = get_u32 (drop 12 hd20)\<rparr>"
    using assms by (auto simp: decode_frame_header_def kProtocolVersionMin_def kProtocolVersionMax_def
        intro: word_is_one split: if_splits)
  have "kMagic @ w_u16 (fh_version h) @ w_u16 (message_type_code (fh_type h)) @ w_u32 (fh_flags h)
      @ w_u32 (fh_payload_length h)
      = take 4 hd20 @ take 2 (drop 4 hd20) @ take 2 (drop 6 hd20) @ take 4 (drop 8 hd20) @ take 4 (drop 12 hd20)"
    using assms(2) put_get_u16 [of "drop 4 hd20"] put_get_u16 [of "drop 6 hd20"] put_get_u32 [of "drop 8 hd20"]
      put_get_u32 [of "drop 12 hd20"]
    by (simp add: h c(1) message_type_code_of [OF c(4)] del: take_take)
  also have "\<dots> = take 16 hd20"
    using take_take_drop [of 12 hd20 4] take_take_drop [of 8 hd20 4] take_take_drop [of 6 hd20 2]
      take_take_drop [of 4 hd20 2]
    by (simp del: take_take append_assoc add: append_assoc [symmetric])
  finally have front: "kMagic @ w_u16 (fh_version h) @ w_u16 (message_type_code (fh_type h)) @ w_u32 (fh_flags h)
      @ w_u32 (fh_payload_length h) = take 16 hd20" .
  have "encode_frame_header h = take 16 hd20 @ take 4 (drop 16 hd20)"
    using assms(2) put_get_u32 [of "drop 16 hd20"] c(2)
    by (simp add: encode_frame_header_def Let_def front del: take_take)
  also have "\<dots> = hd20" using assms(2) by simp
  finally show ?thesis using c(3-6) known_flags by (simp add: h header_valid_def)
qed

section \<open>Frames\<close>

text \<open>The bytes of a frame, and the frames that may travel on a channel with the given key.\<close>

definition covered_bytes :: "frame \<Rightarrow> bytes" where
  "covered_bytes f = encode_frame_header (fr_header f) @ fr_payload f @ w_u32 (crc32c (fr_payload f))"

definition frame_bytes :: "bytes \<Rightarrow> frame \<Rightarrow> bytes" where
  "frame_bytes key f = covered_bytes f @ (if fr_signed_frame f then hmac_sha256 key (covered_bytes f) else [])"

definition frame_ok :: "bytes \<Rightarrow> frame \<Rightarrow> bool" where
  "frame_ok key f \<longleftrightarrow> header_valid (fr_header f) \<and> fr_signed_frame f = (key \<noteq> [])
    \<and> fh_flags (fr_header f) = (if key = [] then 0 else 1)
    \<and> length (fr_payload f) = unat (fh_payload_length (fr_header f))"

lemma length_hmac [simp]: "length (hmac_sha256 key m) = 32"
  by (simp add: hmac_sha256_def Let_def)

lemma length_covered [simp]: "length (covered_bytes f) = 24 + length (fr_payload f)"
  by (simp add: covered_bytes_def)

lemma length_frame_bytes:
  "length (frame_bytes key f) = frame_wire_size (length (fr_payload f)) (fr_signed_frame f)"
  by (simp add: frame_bytes_def frame_wire_size_def frame_sizes)

lemma signed_flag [simp]: "1 AND kFlagSigned \<noteq> 0" "0 AND kFlagSigned = 0"
  by (simp_all add: kFlagSigned_def)

lemma append_frame_bytes:
  assumes "frame_ok key f" "length out < 2 ^ 63"
  shows "append_frame (fr_header f) (fr_payload f) key out = (status_ok, out @ frame_bytes key f)"
proof -
  have small: "length (fr_payload f) \<le> 2 ^ 20"
    using assms(1) by (auto simp: frame_ok_def header_valid_def frame_sizes)
  let ?n = "frame_wire_size (length (fr_payload f)) (fr_signed_frame f)"
  have "?n < 2 ^ 63" using small by (simp add: frame_wire_size_def frame_sizes)
  then have "unat (word_of_nat ?n :: u64) + unat (word_of_nat (length out) :: u64) < 2 ^ 64"
    using assms(2) by (simp add: unat_of_nat take_bit_nat_eq_self)
  then have "checked_sum (word_of_nat ?n) (word_of_nat (length out))
      = Inr (word_of_nat ?n + word_of_nat (length out))"
    using word_add_no_wrap_iff [of "word_of_nat ?n :: u64" "word_of_nat (length out)"]
    by (simp add: checked_sum_def add_size_def not_less)
  then show ?thesis
    using assms(1) small
    by (auto simp: append_frame_def Let_def frame_ok_def frame_bytes_def covered_bytes_def frame_sizes)
qed

lemma parser_next_frame:
  assumes "frame_ok key f" "fp_buffer p = frame_bytes key f @ rest"
  shows "parser_next key p = (Inr (Some f), p\<lparr>fp_buffer := rest\<rparr>)"
proof -
  let ?h = "fr_header f" and ?n = "length (fr_payload f)"
  have ok: "header_valid ?h" "unat (fh_payload_length ?h) = ?n" "fr_signed_frame f = (key \<noteq> [])"
    "fh_flags ?h = (if key = [] then 0 else 1)" using assms(1) by (simp_all add: frame_ok_def)
  have buf: "fp_buffer p = encode_frame_header ?h @ fr_payload f @ w_u32 (crc32c (fr_payload f))
      @ (if key = [] then [] else hmac_sha256 key (covered_bytes f)) @ rest"
    using assms(2) ok(3) by (simp add: frame_bytes_def covered_bytes_def)
  have cov: "take (20 + ?n + 4) (fp_buffer p) = covered_bytes f"
    by (simp add: buf covered_bytes_def)
  show ?thesis
    using ok cov decode_encode_frame_header [OF ok(1)]
    by (cases f) (auto simp: parser_next_def buf frame_wire_size_def frame_sizes constant_time_equal_iff Let_def)
qed

lemma parser_next_sound:
  assumes "parser_next key p = (Inr (Some f), p')"
  shows "frame_ok key f \<and> fp_buffer p = frame_bytes key f @ fp_buffer p' \<and> p' = p\<lparr>fp_buffer := fp_buffer p'\<rparr>"
proof -
  let ?b = "fp_buffer p"
  obtain h where dec: "decode_frame_header (take 20 ?b) = Inr h" and long: "20 \<le> length ?b"
    using assms by (auto simp: parser_next_def frame_sizes split: if_splits sum.splits)
  then have hv: "header_valid h" and head: "take 20 ?b = encode_frame_header h"
    using decode_frame_header_sound [OF dec] by auto
  let ?n = "unat (fh_payload_length h)" and ?sg = "fh_flags h = 1"
  have flags: "fh_flags h AND kFlagSigned \<noteq> 0 \<longleftrightarrow> ?sg"
    using hv by (auto simp: header_valid_def kFlagSigned_def)
  let ?payload = "take ?n (drop 20 ?b)" and ?w = "frame_wire_size ?n ?sg"
  have c: "?sg \<longleftrightarrow> key \<noteq> []" "?w \<le> length ?b" "get_u32 (drop (20 + ?n) ?b) = crc32c ?payload"
    "?sg \<Longrightarrow> hmac_sha256 key (take (20 + ?n + 4) ?b) = take 32 (drop (?w - 32) ?b)"
    "f = \<lparr>fr_header = h, fr_payload = ?payload, fr_signed_frame = ?sg\<rparr>" "p' = p\<lparr>fp_buffer := drop ?w ?b\<rparr>"
    using assms dec long unfolding parser_next_def kFrameHeaderSize_def kFrameTrailerSize_def kMacSize_def
    by (auto simp: Let_def flags constant_time_equal_iff split: if_splits)
  have w: "?w = 24 + ?n + (if ?sg then 32 else 0)" by (simp add: frame_wire_size_def frame_sizes)
  have "w_u32 (crc32c ?payload) = take 4 (drop (20 + ?n) ?b)"
    using c(2,3) w put_get_u32 [of "drop (20 + ?n) ?b"] by simp
  then have "covered_bytes f = take 20 ?b @ take ?n (drop 20 ?b) @ take 4 (drop (20 + ?n) ?b)"
    by (simp add: covered_bytes_def c(5) head)
  also have "\<dots> = take (20 + ?n + 4) ?b"
    by (simp only: append_assoc [symmetric] take_take_drop)
  finally have cov: "covered_bytes f = take (24 + ?n) ?b" by (simp add: add.commute)
  have mac: "frame_bytes key f = take ?w ?b"
  proof (cases ?sg)
    case True
    then have "hmac_sha256 key (covered_bytes f) = take 32 (drop (24 + ?n) ?b)"
      using c(4) w cov by (simp add: add.commute)
    then have "frame_bytes key f = take (24 + ?n) ?b @ take 32 (drop (24 + ?n) ?b)"
      using True cov by (simp add: frame_bytes_def c(5))
    then show ?thesis using True w by (simp only: take_take_drop if_True simp_thms)
  next
    case False
    then have "frame_bytes key f = covered_bytes f" by (simp add: frame_bytes_def c(5))
    then show ?thesis using False w cov by simp
  qed
  have "length ?payload = ?n" using c(2) w by (simp split: if_splits)
  then have "frame_ok key f"
    using hv c(1) by (auto simp: frame_ok_def c(5) header_valid_def)
  then show ?thesis using mac c(6) by simp
qed

lemma parser_next_iff:
  "parser_next key p = (Inr (Some f), p') \<longleftrightarrow>
    frame_ok key f \<and> fp_buffer p = frame_bytes key f @ fp_buffer p' \<and> p' = p\<lparr>fp_buffer := fp_buffer p'\<rparr>"
  using parser_next_sound [of key p f p'] parser_next_frame [of key f p "fp_buffer p'"] by metis

text \<open>A buffer that holds a proper part of a frame yields nothing and waits for more.\<close>

lemma parser_next_partial:
  assumes "frame_ok key f" "fp_buffer p = take k (frame_bytes key f)" "k < length (frame_bytes key f)"
  shows "parser_next key p = (Inr None, p)"
proof (cases "k < 20")
  case True
  then show ?thesis using assms(2,3) by (simp add: parser_next_def frame_sizes)
next
  case False
  let ?h = "fr_header f" and ?n = "length (fr_payload f)"
  have ok: "header_valid ?h" "unat (fh_payload_length ?h) = ?n" "fr_signed_frame f = (key \<noteq> [])"
    "fh_flags ?h = (if key = [] then 0 else 1)" using assms(1) by (simp_all add: frame_ok_def)
  have "take 20 (fp_buffer p) = encode_frame_header ?h"
    using False assms(2) by (simp add: frame_bytes_def covered_bytes_def min_def)
  moreover have "length (fp_buffer p) = k" "k < frame_wire_size ?n (key \<noteq> [])"
    using assms(2,3) ok(3) by (simp_all add: length_frame_bytes)
  ultimately show ?thesis
    using False ok decode_encode_frame_header [OF ok(1)]
    by (auto simp: parser_next_def kFrameHeaderSize_def Let_def)
qed

lemma parser_push_ok:
  assumes "length (fp_buffer p) + length input < 2 ^ 64" 
  shows "parser_push input p =
    (if length (fp_buffer p) + length input \<le> fp_max_payload p + 56
     then (status_ok, p\<lparr>fp_buffer := fp_buffer p @ input\<rparr>)
     else (invalid ''framed input exceeds the maximum frame size'', p))"
proof -
  let ?a = "word_of_nat (length (fp_buffer p)) :: u64" and ?b = "word_of_nat (length input) :: u64"
  have u: "unat ?a = length (fp_buffer p)" "unat ?b = length input"
    using assms by (simp_all add: unat_of_nat take_bit_nat_eq_self)
  then have "checked_sum ?a ?b = Inr (?a + ?b)" "unat (?a + ?b) = length (fp_buffer p) + length input"
    using assms word_add_no_wrap_iff [of ?a ?b] unat_add_small [of ?a ?b]
    by (simp_all add: checked_sum_def add_size_def not_less)
  then show ?thesis by (auto simp: parser_push_def Let_def frame_sizes)
qed

end
