(* ===== verification/Connection.thy ===== *)
theory Connection
  imports Frame_Laws
begin

text \<open>
  \<open>net/reactor.cpp\<close>, the connection: its outbound queue, its reads and the dispatch of whole frames to
  a handler. What the socket answers is a parameter: a list of the results of the calls to come, and
  a socket that has no more to say would block. Sizes of buffers are natural numbers.
\<close>

definition kMaxFramesPerIteration :: nat where "kMaxFramesPerIteration = 64"
definition kReadChunk :: nat where "kReadChunk = 16 * 1024"

record connection_config =
  cc_max_payload :: nat
  cc_max_queued_bytes :: nat
  cc_max_pending_frames :: nat
  cc_idle_deadline :: duration
  cc_verify_key :: bytes
  cc_sign_outbound :: bool

record connection =
  cn_config :: connection_config
  cn_parser :: frame_parser
  cn_queue :: "bytes list"
  cn_queue_offset :: nat
  cn_queued_bytes :: nat
  cn_last_activity :: timestamp
  cn_close_reason :: status
  cn_closed :: bool
  cn_close_reported :: bool

definition new_connection :: "connection_config \<Rightarrow> connection" where
  "new_connection config =
    \<lparr>cn_config = config, cn_parser = new_parser (cc_max_payload config), cn_queue = [], cn_queue_offset = 0,
     cn_queued_bytes = 0, cn_last_activity = 0, cn_close_reason = status_ok, cn_closed = False,
     cn_close_reported = False\<rparr>"

definition has_output :: "connection \<Rightarrow> bool" where
  "has_output c \<longleftrightarrow> cn_queued_bytes c > 0"

definition enable_signing :: "bytes \<Rightarrow> connection \<Rightarrow> connection" where
  "enable_signing key c =
    c\<lparr>cn_config := (cn_config c)\<lparr>cc_verify_key := key, cc_sign_outbound := (key \<noteq> [])\<rparr>\<rparr>"

definition enable_outbound_signing :: "connection \<Rightarrow> connection" where
  "enable_outbound_signing c =
    c\<lparr>cn_config := (cn_config c)\<lparr>cc_sign_outbound := (cc_verify_key (cn_config c) \<noteq> [])\<rparr>\<rparr>"

section \<open>Output\<close>

definition queue_frame :: "message_type \<Rightarrow> bytes \<Rightarrow> bool \<Rightarrow> connection \<Rightarrow> status \<times> connection" where
  "queue_frame type payload sign c =
    (if cn_closed c then (status_make Outcome_Cancelled ''connection is closed'', c)
     else if length payload > cc_max_payload (cn_config c)
     then (status_make Outcome_CapacityExceeded ''outbound frame exceeds the negotiated payload limit'', c)
     else if length (cn_queue c) \<ge> cc_max_pending_frames (cn_config c)
     then (status_make Outcome_Busy ''outbound frame queue is full'', c)
     else if sign \<and> cc_verify_key (cn_config c) = []
     then (status_make Outcome_Unauthorized ''cannot sign a frame without a channel key'', c)
     else
       let header = \<lparr>fh_version = kProtocolVersionMax, fh_type = type,
             fh_flags = (if sign then kFlagSigned else 0), fh_payload_length = 0\<rparr>;
           key = (if sign then cc_verify_key (cn_config c) else []);
           (appended, encoded) = append_frame header payload key []
       in if \<not> is_ok appended then (appended, c)
          else if cn_queued_bytes c + length encoded > cc_max_queued_bytes (cn_config c)
          then (status_make Outcome_Busy ''outbound byte queue is full'', c)
          else (status_ok,
            c\<lparr>cn_queued_bytes := cn_queued_bytes c + length encoded, cn_queue := cn_queue c @ [encoded]\<rparr>))"

definition queue_message :: "message_type \<Rightarrow> bytes \<Rightarrow> connection \<Rightarrow> status \<times> connection" where
  "queue_message type payload c = queue_frame type payload (cc_sign_outbound (cn_config c)) c"

definition close_connection :: "status \<Rightarrow> connection \<Rightarrow> connection" where
  "close_connection reason c =
    (if cn_closed c then c
     else c\<lparr>cn_closed := True, cn_close_reason := reason, cn_queue := [], cn_queue_offset := 0,
            cn_queued_bytes := 0\<rparr>)"

text \<open>What is sent is returned beside the status. A socket never takes more than it is offered.\<close>

definition advance_queue :: "nat \<Rightarrow> connection \<Rightarrow> connection" where
  "advance_queue written c =
    (let c' = c\<lparr>cn_queue_offset := cn_queue_offset c + written, cn_queued_bytes := cn_queued_bytes c - written\<rparr>
     in case cn_queue c of
       [] \<Rightarrow> c'
     | front # waiting \<Rightarrow>
         if cn_queue_offset c' = length front then c'\<lparr>cn_queue := waiting, cn_queue_offset := 0\<rparr> else c')"

fun flush :: "nat result list \<Rightarrow> connection \<Rightarrow> status \<times> connection \<times> bytes" where
  "flush answers c =
    (case cn_queue c of
       [] \<Rightarrow> (status_ok, c, [])
     | front # _ \<Rightarrow>
         (case answers of
            [] \<Rightarrow> (status_ok, c, [])
          | Inl e # _ \<Rightarrow> (if st_outcome e = Outcome_Busy then status_ok else e, c, [])
          | Inr taken # later \<Rightarrow>
              let remaining = drop (cn_queue_offset c) front;
                  written = min taken (length remaining)
              in if written = 0 then (status_ok, c, [])
                 else case flush later (advance_queue written c) of
                   (s, c', sent) \<Rightarrow> (s, c', take written remaining @ sent)))"

declare flush.simps [simp del]

section \<open>Input\<close>

fun fill :: "bytes result list \<Rightarrow> connection \<Rightarrow> status \<times> connection \<times> bytes result list" where
  "fill [] c = (status_ok, c, [])"
| "fill (Inl e # later) c = (if st_outcome e = Outcome_Busy then status_ok else e, c, later)"
| "fill (Inr chunk # later) c =
    (if chunk = [] then (status_make Outcome_Unreachable ''peer closed the connection'', c, later)
     else case parser_push chunk (cn_parser c) of
       (pushed, p') \<Rightarrow>
         if \<not> is_ok pushed then (pushed, c, later)
         else if length chunk < kReadChunk then (status_ok, c\<lparr>cn_parser := p'\<rparr>, later)
         else fill later (c\<lparr>cn_parser := p'\<rparr>))"

text \<open>A handler gets the connection and a frame, and a state of its own.\<close>

type_synonym 's handler = "frame \<Rightarrow> connection \<Rightarrow> 's \<Rightarrow> status \<times> connection \<times> 's"

fun dispatch_frames :: "nat \<Rightarrow> 's handler option \<Rightarrow> connection \<Rightarrow> 's \<Rightarrow> status \<times> connection \<times> 's" where
  "dispatch_frames 0 handler c s = (status_ok, c, s)"
| "dispatch_frames (Suc n) handler c s =
    (case parser_next (cc_verify_key (cn_config c)) (cn_parser c) of
       (Inl e, p') \<Rightarrow> (e, c\<lparr>cn_parser := p'\<rparr>, s)
     | (Inr None, p') \<Rightarrow> (status_ok, c\<lparr>cn_parser := p'\<rparr>, s)
     | (Inr (Some f), p') \<Rightarrow>
         (case handler of
            None \<Rightarrow> (status_make Outcome_Internal ''connection has no frame handler'', c\<lparr>cn_parser := p'\<rparr>, s)
          | Some on_frame \<Rightarrow>
              (case on_frame f (c\<lparr>cn_parser := p'\<rparr>) s of
                 (handled, c', s') \<Rightarrow>
                   if \<not> is_ok handled then (handled, c', s')
                   else if cn_closed c' then (status_ok, c', s')
                   else dispatch_frames n handler c' s')))"

definition dispatch :: "'s handler option \<Rightarrow> connection \<Rightarrow> 's \<Rightarrow> status \<times> connection \<times> 's" where
  "dispatch = dispatch_frames kMaxFramesPerIteration"

text \<open>
  The part of \<open>EventLoop::pump\<close> that serves one connection after the poll: what is readable is read and
  dispatched before an error is honoured, then output is flushed. The result has the bytes sent.
\<close>

definition serve_readable ::
  "timestamp \<Rightarrow> bytes result list \<Rightarrow> 's handler option \<Rightarrow> connection \<Rightarrow> 's \<Rightarrow> bool \<times> connection \<times> 's" where
  "serve_readable now answers handler c s =
    (case fill answers c of
       (filled, c1, _) \<Rightarrow>
         (case dispatch handler (c1\<lparr>cn_last_activity := now\<rparr>) s of
            (dispatched, c2, s') \<Rightarrow>
              if \<not> is_ok dispatched then (False, close_connection dispatched c2, s')
              else if \<not> is_ok filled then (False, close_connection filled c2, s')
              else (True, c2, s')))"

definition flush_or_close :: "nat result list \<Rightarrow> connection \<Rightarrow> bool \<times> connection \<times> bytes" where
  "flush_or_close answers c =
    (case flush answers c of
       (flushed, c', sent) \<Rightarrow>
         (is_ok flushed, if \<not> is_ok flushed then close_connection flushed c' else c', sent))"

record poll_item =
  pi_readable :: bool
  pi_writable :: bool
  pi_failed :: bool

definition serve_connection ::
  "timestamp \<Rightarrow> poll_item \<Rightarrow> bytes result list \<Rightarrow> nat result list \<Rightarrow> nat result list \<Rightarrow> 's handler option \<Rightarrow>
    connection \<Rightarrow> 's \<Rightarrow> connection \<times> 's \<times> bytes" where
  "serve_connection now item reads writes writes_again handler c s =
    (case (if pi_readable item then serve_readable now reads handler c s else (True, c, s)) of
       (go_on, c1, s') \<Rightarrow>
         if \<not> go_on then (c1, s', [])
         else if pi_failed item
         then (close_connection (status_make Outcome_Unreachable ''socket reported an error condition'') c1, s', [])
         else
           (case (if has_output c1 \<and> (pi_writable item \<or> pi_readable item)
                  then flush_or_close writes c1 else (True, c1, [])) of
              (go_on, c2, sent) \<Rightarrow>
                if \<not> go_on then (c2, s', sent)
                else if has_output c2 \<and> \<not> pi_writable item
                then (case flush_or_close writes_again c2 of (_, c3, sent') \<Rightarrow> (c3, s', sent @ sent'))
                else (c2, s', sent)))"

section \<open>Laws\<close>

text \<open>
  The bytes still to be sent, and when the bookkeeping of the queue agrees with them. What is queued
  goes behind everything before it, and what is sent is taken from the front: the peer receives the
  queued frames in order, without a gap.
\<close>

definition pending_output :: "connection \<Rightarrow> bytes" where
  "pending_output c = drop (cn_queue_offset c) (concat (cn_queue c))"

definition queue_ok :: "connection \<Rightarrow> bool" where
  "queue_ok c \<longleftrightarrow> cn_queued_bytes c = length (pending_output c)
    \<and> (case cn_queue c of [] \<Rightarrow> cn_queue_offset c = 0 | front # _ \<Rightarrow> cn_queue_offset c < length front)
    \<and> [] \<notin> set (cn_queue c)"

lemma advance_queue_front:
  assumes "queue_ok c" "cn_queue c = front # waiting" "n \<le> length front - cn_queue_offset c"
  shows "pending_output c = take n (drop (cn_queue_offset c) front) @ pending_output (advance_queue n c)"
    and "queue_ok (advance_queue n c)"
proof -
  have off: "cn_queue_offset c < length front" and ne: "[] \<notin> set (front # waiting)"
    and count: "cn_queued_bytes c = length (drop (cn_queue_offset c) front @ concat waiting)"
    using assms(1,2) by (auto simp: queue_ok_def pending_output_def)
  have rest: "pending_output (advance_queue n c) = drop (cn_queue_offset c + n) front @ concat waiting"
    using assms(2,3) off by (auto simp: advance_queue_def pending_output_def Let_def)
  then show "pending_output c = take n (drop (cn_queue_offset c) front) @ pending_output (advance_queue n c)"
    using assms(2) off append_take_drop_id [of n "drop (cn_queue_offset c) front"]
    by (simp add: pending_output_def add.commute)
  have "cn_queued_bytes (advance_queue n c) = length (drop (cn_queue_offset c + n) front @ concat waiting)"
    using assms(2,3) count by (auto simp: advance_queue_def Let_def)
  moreover have "case cn_queue (advance_queue n c) of [] \<Rightarrow> cn_queue_offset (advance_queue n c) = 0
      | front' # _ \<Rightarrow> cn_queue_offset (advance_queue n c) < length front'"
    using assms(2,3) off ne by (auto simp: advance_queue_def Let_def split: list.splits)
  moreover have "[] \<notin> set (cn_queue (advance_queue n c))"
    using assms(2) ne by (auto simp: advance_queue_def Let_def)
  ultimately show "queue_ok (advance_queue n c)" by (simp add: queue_ok_def rest)
qed

lemma advance_queue_keeps [simp]:
  "cn_parser (advance_queue n c) = cn_parser c" "cn_config (advance_queue n c) = cn_config c"
  "cn_closed (advance_queue n c) = cn_closed c"
  by (simp_all add: advance_queue_def Let_def split: list.splits)

lemma flush_sends_front:
  assumes "flush answers c = (s, c', sent)" "queue_ok c"
  shows "pending_output c = sent @ pending_output c' \<and> queue_ok c'
    \<and> cn_parser c' = cn_parser c \<and> cn_config c' = cn_config c \<and> cn_closed c' = cn_closed c"
  using assms
proof (induction answers arbitrary: c s c' sent)
  case Nil
  then show ?case by (auto simp: flush.simps [of "[]"] split: list.splits)
next
  case (Cons a later)
  show ?case
  proof (cases "(\<exists>front waiting taken. cn_queue c = front # waiting \<and> a = Inr taken
      \<and> min taken (length front - cn_queue_offset c) \<noteq> 0)")
    case True
    then obtain front waiting taken where q: "cn_queue c = front # waiting" "a = Inr taken"
      and n: "min taken (length front - cn_queue_offset c) \<noteq> 0" by blast
    let ?n = "min taken (length front - cn_queue_offset c)"
    have "(case flush later (advance_queue ?n c) of (s, c', sent') \<Rightarrow>
        (s, c', take ?n (drop (cn_queue_offset c) front) @ sent')) = (s, c', sent)"
      using Cons.prems(1) n unfolding q(2) flush.simps [of "Inr taken # later"] q(1) Let_def by simp
    then obtain sent' where run: "flush later (advance_queue ?n c) = (s, c', sent')"
      and sent: "sent = take ?n (drop (cn_queue_offset c) front) @ sent'"
      by (cases "flush later (advance_queue ?n c)") auto
    have le: "?n \<le> length front - cn_queue_offset c" by simp
    note fr = advance_queue_front [OF Cons.prems(2) q(1) le]
    show ?thesis using Cons.IH [OF run fr(2)] fr(1) sent by simp
  next
    case False
    then have "c' = c \<and> sent = []"
      using Cons.prems(1) by (auto simp: flush.simps [of "a # later"] Let_def split: list.splits sum.splits if_splits)
    then show ?thesis using Cons.prems(2) by simp
  qed
qed

lemma checked_sum_refused: "checked_sum a b = Inl e \<Longrightarrow> \<not> is_ok e"
  by (auto simp: checked_sum_def split: option.splits)

lemma queue_frame_appends:
  assumes "queue_frame type payload sign c = (s, c')" "queue_ok c" "message_type_known type"
    "length payload < 2 ^ 32"
  shows "queue_ok c' \<and> (if is_ok s
    then \<exists>f. frame_ok (if sign then cc_verify_key (cn_config c) else []) f \<and> fh_type (fr_header f) = type
      \<and> fr_payload f = payload
      \<and> pending_output c' = pending_output c @ frame_bytes (if sign then cc_verify_key (cn_config c) else []) f
    else c' = c)"
proof (cases "is_ok s")
  case False
  then show ?thesis using assms(1,2) by (auto simp: queue_frame_def Let_def split: if_splits prod.splits)
next
  case True
  let ?key = "if sign then cc_verify_key (cn_config c) else []"
  let ?h = "\<lparr>fh_version = kProtocolVersionMax, fh_type = type, fh_flags = (if sign then kFlagSigned else 0),
    fh_payload_length = word_of_nat (length payload)\<rparr>"
  let ?f = "\<lparr>fr_header = ?h, fr_payload = payload, fr_signed_frame = sign\<rparr>"
  let ?raw = "\<lparr>fh_version = kProtocolVersionMax, fh_type = type, fh_flags = (if sign then kFlagSigned else 0),
    fh_payload_length = 0\<rparr>"
  obtain st encoded where run: "append_frame ?raw payload ?key [] = (st, encoded)" by fastforce
  have st: "is_ok st" and key: "sign \<longrightarrow> cc_verify_key (cn_config c) \<noteq> []"
    and c': "c' = c\<lparr>cn_queued_bytes := cn_queued_bytes c + length encoded, cn_queue := cn_queue c @ [encoded]\<rparr>"
    using True assms(1) unfolding queue_frame_def Let_def run prod.case
    by (auto split: if_split_asm)
  have app: "append_frame ?raw payload ?key [] = (status_ok, encoded)"
    using run st unfolding append_frame_def Let_def
    by (auto dest: checked_sum_refused split: if_split_asm sum.splits)
  have small: "length payload \<le> kMaxFramePayload"
    using run st by (auto simp: append_frame_def Let_def split: if_split_asm)
  have ok: "frame_ok ?key ?f"
    using key assms(3) small
    by (auto simp: frame_ok_def header_valid_def kProtocolVersionMax_def kFlagSigned_def frame_sizes
        unat_word_of_nat_u32)
  have same: "append_frame ?raw payload ?key [] = append_frame ?h payload ?key []"
    unfolding append_frame_def Let_def frame_header.simps frame_header.select_convs ..
  have none: "length ([] :: bytes) < 2 ^ 63" by simp
  have "append_frame ?h payload ?key [] = (status_ok, frame_bytes ?key ?f)"
    using append_frame_bytes [OF ok none] by (simp only: frame.select_convs append_Nil)
  then have enc: "encoded = frame_bytes ?key ?f" using app same by (metis prod.inject)
  then have ne: "encoded \<noteq> []" using length_frame_bytes [of ?key ?f] by (auto simp: frame_wire_size_def frame_sizes)
  have out: "pending_output c' = pending_output c @ encoded"
    using assms(2) by (auto simp: c' pending_output_def queue_ok_def split: list.splits)
  then have "queue_ok c'"
    using assms(2) ne by (auto simp: queue_ok_def c' split: list.splits)
  then show ?thesis using True ok out enc by (auto intro!: exI [of _ ?f])
qed

text \<open>
  Dispatching hands the whole frames at the front of the buffer to the handler, in order, at most
  as many as one iteration allows, and leaves the rest.
\<close>

definition buffered :: "bytes \<Rightarrow> connection \<Rightarrow> connection" where
  "buffered bs c = c\<lparr>cn_parser := (cn_parser c)\<lparr>fp_buffer := bs\<rparr>\<rparr>"

lemma buffered_simps [simp]:
  "cn_parser (buffered bs c) = (cn_parser c)\<lparr>fp_buffer := bs\<rparr>" "cn_config (buffered bs c) = cn_config c"
  "cn_closed (buffered bs c) = cn_closed c" "buffered bs (buffered bs' c) = buffered bs c"
  by (simp_all add: buffered_def)

lemma buffered_same: "fp_buffer (cn_parser c) = bs \<Longrightarrow> buffered bs c = c"
  by (auto simp: buffered_def)

lemma dispatch_frames_delivers:
  assumes "cc_verify_key (cn_config c) = key" "list_all (frame_ok key) fs" "frame_ok key g"
    and "k < length (frame_bytes key g)" "\<not> cn_closed c"
    and "fp_buffer (cn_parser c) = concat (map (frame_bytes key) fs) @ take k (frame_bytes key g)"
    and hand: "\<And>f c s. on_frame f c s = (status_ok, c, upd f s)"
  shows "dispatch_frames n (Some on_frame) c s =
    (status_ok, buffered (concat (map (frame_bytes key) (drop n fs)) @ take k (frame_bytes key g)) c,
     fold upd (take n fs) s)"
  using assms(1-6)
proof (induction n arbitrary: c fs s)
  case 0
  then show ?case by (simp add: buffered_same)
next
  case (Suc n)
  show ?case
  proof (cases fs)
    case Nil
    then show ?thesis
      using Suc.prems parser_next_partial [of key g "cn_parser c" k] by (simp add: buffered_same)
  next
    case (Cons f rest)
    let ?later = "concat (map (frame_bytes key) rest) @ take k (frame_bytes key g)"
    have "parser_next key (cn_parser c) = (Inr (Some f), (cn_parser c)\<lparr>fp_buffer := ?later\<rparr>)"
      using Suc.prems Cons by (intro parser_next_frame) simp_all
    then have "dispatch_frames (Suc n) (Some on_frame) c s = dispatch_frames n (Some on_frame) (buffered ?later c) (upd f s)"
      using Suc.prems by (simp add: hand buffered_def)
    also have "\<dots> = (status_ok, buffered (concat (map (frame_bytes key) (drop n rest)) @ take k (frame_bytes key g))
        (buffered ?later c), fold upd (take n rest) (upd f s))"
      using Suc.prems Cons by (intro Suc.IH) simp_all
    finally show ?thesis using Cons by simp
  qed
qed

text \<open>Whatever the bytes in the buffer, only authentic frames reach the handler, and no byte is skipped.\<close>

lemma dispatch_frames_authentic:
  assumes "dispatch_frames n (Some on_frame) c s = (st, c', s')" "cc_verify_key (cn_config c) = key"
    and hand: "\<And>f c s. on_frame f c s = (status_ok, c, upd f s)"
  shows "\<exists>fs. length fs \<le> n \<and> list_all (frame_ok key) fs \<and> s' = fold upd fs s
    \<and> fp_buffer (cn_parser c) = concat (map (frame_bytes key) fs) @ fp_buffer (cn_parser c')"
  using assms(1,2)
proof (induction n arbitrary: c s)
  case 0
  then show ?case by (intro exI [of _ "[]"]) simp
next
  case (Suc n)
  obtain r p' where nx: "parser_next key (cn_parser c) = (r, p')" by fastforce
  have same: "on_frame = (\<lambda>f c s. (status_ok, c, upd f s))" by (intro ext) (rule hand)
  show ?case
  proof (cases "\<exists>f. r = Inr (Some f)")
    case False
    then have "s' = s \<and> fp_buffer (cn_parser c') = fp_buffer (cn_parser c)"
      using Suc.prems nx by (auto simp: parser_next_def Let_def split: sum.splits option.splits if_splits prod.splits)
    then show ?thesis by (intro exI [of _ "[]"]) simp
  next
    case True
    then obtain f where f: "r = Inr (Some f)" by blast
    note snd1 = parser_next_sound [OF nx [unfolded f]]
    show ?thesis
    proof (cases "cn_closed c")
      case True
      then have "s' = upd f s \<and> cn_parser c' = p'" using Suc.prems nx f by (auto simp: hand)
      then show ?thesis using snd1 by (intro exI [of _ "[f]"]) auto
    next
      case False
      then have "dispatch_frames n (Some on_frame) (c\<lparr>cn_parser := p'\<rparr>) (upd f s) = (st, c', s')"
        using Suc.prems nx f same by simp
      from Suc.IH [OF this] Suc.prems(2) obtain fs where fs: "length fs \<le> n" "list_all (frame_ok key) fs"
        "s' = fold upd fs (upd f s)" "fp_buffer p' = concat (map (frame_bytes key) fs) @ fp_buffer (cn_parser c')"
        by auto
      then show ?thesis using snd1 by (intro exI [of _ "f # fs"]) auto
    qed
  qed
qed

end
