(* ===== verification/Coordinator_Report.thy ===== *)
theory Coordinator_Report
  imports Decision
begin

text \<open>
  \<open>model/decision.cpp\<close>, the coordinator's status report: the ten sizes and six counters are written and
  read in two loops. A size is a 64-bit value here, so narrowing it always succeeds.
\<close>

record coordinator_status =
  cst_domain :: domain_id
  cst_incarnation :: incarnation_id
  cst_term :: u64
  cst_started_at :: timestamp
  cst_uptime_nanos :: u64
  cst_view_digest :: digest
  cst_revision :: u64
  cst_recovered_from_store :: bool
  cst_recovered_records :: u64
  cst_truncations_recovered :: u64
  cst_clusters :: u64
  cst_endpoints :: u64
  cst_links :: u64
  cst_paths :: u64
  cst_contracts :: u64
  cst_grants :: u64
  cst_reservations :: u64
  cst_policies :: u64
  cst_audit :: u64
  cst_connected_agents :: u64
  cst_commits :: u64
  cst_fences :: u64
  cst_refusals :: u64
  cst_revalidations :: u64
  cst_rejected_replays :: u64
  cst_rejected_frames :: u64
  cst_store_path :: string

definition status_sizes :: "coordinator_status \<Rightarrow> u64 list" where
  "status_sizes s =
    [cst_clusters s, cst_endpoints s, cst_links s, cst_paths s, cst_contracts s,
     cst_grants s, cst_reservations s, cst_policies s, cst_audit s, cst_connected_agents s]"

definition status_counters :: "coordinator_status \<Rightarrow> u64 list" where
  "status_counters s =
    [cst_commits s, cst_fences s, cst_refusals s,
     cst_revalidations s, cst_rejected_replays s, cst_rejected_frames s]"

definition encode_status :: "coordinator_status \<Rightarrow> bytes" where
  "encode_status s =
    w_blob (cst_domain s)
    @ w_uuid (cst_incarnation s)
    @ w_u64 (cst_term s)
    @ w_i64 (cst_started_at s)
    @ w_u64 (cst_uptime_nanos s)
    @ w_digest (cst_view_digest s)
    @ w_u64 (cst_revision s)
    @ w_boolean (cst_recovered_from_store s)
    @ w_u64 (cst_recovered_records s)
    @ w_u64 (cst_truncations_recovered s)
    @ concat (map w_u64 (status_sizes s))
    @ concat (map w_u64 (status_counters s))
    @ w_blob (cst_store_path s)"

definition read_size :: "u64 reader" where
  "read_size =
    and_then r_u64 (\<lambda>v.
    require (to_size v \<noteq> None)
      (status_make Outcome_Overflow ''status counter does not fit in the platform size type'')
    (give v))"

definition decode_status :: "coordinator_status reader" where
  "decode_status =
    and_then decode_optional_name (\<lambda>domain.
    and_then r_uuid (\<lambda>incarnation.
    and_then (decode_counter kMaxGeneration) (\<lambda>term.
    and_then r_i64 (\<lambda>started_at.
    and_then r_u64 (\<lambda>uptime.
    and_then r_digest (\<lambda>view.
    and_then (decode_counter kMaxGeneration) (\<lambda>revision.
    and_then r_boolean (\<lambda>recovered.
    and_then r_u64 (\<lambda>records.
    and_then r_u64 (\<lambda>truncations.
    and_then (read_times 10 read_size) (\<lambda>sizes.
    and_then (read_times 6 r_u64) (\<lambda>counters.
    and_then (r_blob kMaxStringField) (\<lambda>store.
    give \<lparr>cst_domain = domain, cst_incarnation = incarnation, cst_term = term, cst_started_at = started_at,
      cst_uptime_nanos = uptime, cst_view_digest = view, cst_revision = revision,
      cst_recovered_from_store = recovered, cst_recovered_records = records,
      cst_truncations_recovered = truncations,
      cst_clusters = sizes ! 0, cst_endpoints = sizes ! 1, cst_links = sizes ! 2,
      cst_paths = sizes ! 3, cst_contracts = sizes ! 4, cst_grants = sizes ! 5,
      cst_reservations = sizes ! 6, cst_policies = sizes ! 7, cst_audit = sizes ! 8,
      cst_connected_agents = sizes ! 9,
      cst_commits = counters ! 0, cst_fences = counters ! 1, cst_refusals = counters ! 2,
      cst_revalidations = counters ! 3, cst_rejected_replays = counters ! 4, cst_rejected_frames = counters ! 5,
      cst_store_path = store\<rparr>)))))))))))))"

section \<open>Laws\<close>

definition status_wire :: "coordinator_status \<Rightarrow> bool" where
  "status_wire s \<longleftrightarrow>
    wild_ok (cst_domain s) \<and> uuid_ok (cst_incarnation s) \<and> cst_term s \<le> kMaxGeneration
    \<and> i64_ok (cst_started_at s) \<and> digest_ok (cst_view_digest s) \<and> cst_revision s \<le> kMaxGeneration
    \<and> text_ok kMaxStringField (cst_store_path s)"

interpretation size_field: canonical_codec w_u64 read_size "\<lambda>_. True"
  by unfold_locales
    (simp_all add: read_size_def to_size_def u64.dec_step and_then_eq_Inr_iff, auto dest!: r_u64_sound)

lemma length_status_lists [simp]: "length (status_sizes s) = 10" "length (status_counters s) = 6"
  by (simp_all add: status_sizes_def status_counters_def)

lemma sizes_step:
  "length xs = n \<Longrightarrow> and_then (read_times n read_size) f (concat (map w_u64 xs) @ rest) = f xs rest"
  using size_field.read_times_enc [of xs rest] by (auto simp: list_all_iff intro: and_then_Inr)

lemma counters_step:
  "length xs = n \<Longrightarrow> and_then (read_times n r_u64) f (concat (map w_u64 xs) @ rest) = f xs rest"
  using u64.read_times_enc [of xs rest] by (auto simp: list_all_iff intro: and_then_Inr)

lemma store_path_step: "text_ok kMaxStringField s \<Longrightarrow> and_then (r_blob kMaxStringField) f (w_blob s @ rest) = f s rest"
  by (simp add: blob.dec_step)

lemma store_path_sound: "r_blob kMaxStringField bs = Inr (s, rest) \<Longrightarrow> text_ok kMaxStringField s \<and> bs = w_blob s @ rest"
  by (rule r_blob_sound) (simp_all add: kMaxStringField_def)

lemma list_of_ten:
  "length xs = 10 \<Longrightarrow> [xs ! 0, xs ! Suc 0, xs ! 2, xs ! 3, xs ! 4, xs ! 5, xs ! 6, xs ! 7, xs ! 8, xs ! 9] = xs"
  by (auto simp: list_eq_iff_nth_eq less_Suc_eq numeral_eq_Suc)

lemma list_of_six: "length xs = 6 \<Longrightarrow> [xs ! 0, xs ! Suc 0, xs ! 2, xs ! 3, xs ! 4, xs ! 5] = xs"
  by (auto simp: list_eq_iff_nth_eq less_Suc_eq numeral_eq_Suc)

lemma concat_ten:
  "length xs = 10 \<Longrightarrow> concat (map g xs) = g (xs ! 0) @ g (xs ! Suc 0) @ g (xs ! 2) @ g (xs ! 3) @ g (xs ! 4)
    @ g (xs ! 5) @ g (xs ! 6) @ g (xs ! 7) @ g (xs ! 8) @ g (xs ! 9)"
  by (subst list_of_ten [symmetric]) simp_all

lemma concat_six:
  "length xs = 6 \<Longrightarrow>
    concat (map g xs) = g (xs ! 0) @ g (xs ! Suc 0) @ g (xs ! 2) @ g (xs ! 3) @ g (xs ! 4) @ g (xs ! 5)"
  by (subst list_of_six [symmetric]) simp_all

interpretation report: canonical_codec encode_status decode_status status_wire
proof
  fix x rest assume "status_wire x"
  then show "decode_status (encode_status x @ rest) = Inr (x, rest)"
    by (simp add: decode_status_def encode_status_def status_wire_def codec_simps sizes_step counters_step
        store_path_step)
      (simp add: status_sizes_def status_counters_def)
next
  fix bs x rest assume "decode_status bs = Inr (x, rest)"
  then show "status_wire x \<and> bs = encode_status x @ rest"
    by (auto simp: decode_status_def encode_status_def status_wire_def reader_iffs status_sizes_def
        status_counters_def concat_ten concat_six simp del: read_times.simps
        dest!: shared_sound store_path_sound size_field.read_times_sound u64.read_times_sound)
qed

end
