(* ===== verification/Messages.thy ===== *)
theory Messages
  imports Coordinator_Report Terms Frame
begin

text \<open>
  \<open>wire/messages.cpp\<close>: the schema of every protocol message. An encoder gives the payload of a frame, a
  decoder reads a whole payload and refuses what is left over. The value 0 of the three enumerations
  below has no name in the source, and the decoders let it through; it is the constructor \<open>Unnamed\<close>.
\<close>

section \<open>Enumerations\<close>

datatype peer_role =
    PeerRole_Unnamed | PeerRole_Agent | PeerRole_Observer

definition peer_role_values :: "peer_role list" where
  "peer_role_values =
    [PeerRole_Unnamed, PeerRole_Agent, PeerRole_Observer]"

datatype query_kind =
    QueryKind_Unnamed | QueryKind_Status | QueryKind_ListClusters | QueryKind_ShowCluster |
    QueryKind_ListLinks | QueryKind_ListPaths | QueryKind_ListPolicies | QueryKind_ListContracts |
    QueryKind_ShowContract | QueryKind_ListGrants | QueryKind_ShowGrant |
    QueryKind_ListReservations | QueryKind_ListAudit | QueryKind_Decide | QueryKind_FencePlan |
    QueryKind_Accounting

definition query_kind_values :: "query_kind list" where
  "query_kind_values =
    [QueryKind_Unnamed, QueryKind_Status, QueryKind_ListClusters, QueryKind_ShowCluster,
    QueryKind_ListLinks, QueryKind_ListPaths, QueryKind_ListPolicies, QueryKind_ListContracts,
    QueryKind_ShowContract, QueryKind_ListGrants, QueryKind_ShowGrant, QueryKind_ListReservations,
    QueryKind_ListAudit, QueryKind_Decide, QueryKind_FencePlan, QueryKind_Accounting]"

datatype admin_action =
    AdminAction_Unnamed | AdminAction_UpsertCluster | AdminAction_DeleteCluster |
    AdminAction_SetClusterState | AdminAction_UpsertLink | AdminAction_SetLinkState |
    AdminAction_DeleteLink | AdminAction_UpsertPath | AdminAction_DeletePath |
    AdminAction_UpsertPolicy | AdminAction_DeletePolicy | AdminAction_WithdrawConsent |
    AdminAction_RestoreConsent | AdminAction_ResolveConflict | AdminAction_AuthorizeContract |
    AdminAction_IssueGrant | AdminAction_RevalidateGrant | AdminAction_FenceGrant |
    AdminAction_ReloadStore

definition admin_action_values :: "admin_action list" where
  "admin_action_values =
    [AdminAction_Unnamed, AdminAction_UpsertCluster, AdminAction_DeleteCluster,
    AdminAction_SetClusterState, AdminAction_UpsertLink, AdminAction_SetLinkState,
    AdminAction_DeleteLink, AdminAction_UpsertPath, AdminAction_DeletePath,
    AdminAction_UpsertPolicy, AdminAction_DeletePolicy, AdminAction_WithdrawConsent,
    AdminAction_RestoreConsent, AdminAction_ResolveConflict, AdminAction_AuthorizeContract,
    AdminAction_IssueGrant, AdminAction_RevalidateGrant, AdminAction_FenceGrant,
    AdminAction_ReloadStore]"

fun query_kind_to_string :: "query_kind \<Rightarrow> string" where
  "query_kind_to_string QueryKind_Unnamed = ''status''"
| "query_kind_to_string QueryKind_Status = ''status''"
| "query_kind_to_string QueryKind_ListClusters = ''clusters''"
| "query_kind_to_string QueryKind_ShowCluster = ''cluster''"
| "query_kind_to_string QueryKind_ListLinks = ''links''"
| "query_kind_to_string QueryKind_ListPaths = ''paths''"
| "query_kind_to_string QueryKind_ListPolicies = ''policies''"
| "query_kind_to_string QueryKind_ListContracts = ''contracts''"
| "query_kind_to_string QueryKind_ShowContract = ''contract''"
| "query_kind_to_string QueryKind_ListGrants = ''grants''"
| "query_kind_to_string QueryKind_ShowGrant = ''grant''"
| "query_kind_to_string QueryKind_ListReservations = ''reservations''"
| "query_kind_to_string QueryKind_ListAudit = ''audit''"
| "query_kind_to_string QueryKind_Decide = ''decide''"
| "query_kind_to_string QueryKind_FencePlan = ''fence-plan''"
| "query_kind_to_string QueryKind_Accounting = ''accounting''"

definition query_kind_from_string :: "string \<Rightarrow> query_kind option" where
  "query_kind_from_string text = find (\<lambda>candidate. text = query_kind_to_string candidate) (tl query_kind_values)"

fun admin_action_to_string :: "admin_action \<Rightarrow> string" where
  "admin_action_to_string AdminAction_Unnamed = ''upsert-cluster''"
| "admin_action_to_string AdminAction_UpsertCluster = ''upsert-cluster''"
| "admin_action_to_string AdminAction_DeleteCluster = ''delete-cluster''"
| "admin_action_to_string AdminAction_SetClusterState = ''set-cluster-state''"
| "admin_action_to_string AdminAction_UpsertLink = ''upsert-link''"
| "admin_action_to_string AdminAction_SetLinkState = ''set-link-state''"
| "admin_action_to_string AdminAction_DeleteLink = ''delete-link''"
| "admin_action_to_string AdminAction_UpsertPath = ''upsert-path''"
| "admin_action_to_string AdminAction_DeletePath = ''delete-path''"
| "admin_action_to_string AdminAction_UpsertPolicy = ''upsert-policy''"
| "admin_action_to_string AdminAction_DeletePolicy = ''delete-policy''"
| "admin_action_to_string AdminAction_WithdrawConsent = ''withdraw-consent''"
| "admin_action_to_string AdminAction_RestoreConsent = ''restore-consent''"
| "admin_action_to_string AdminAction_ResolveConflict = ''resolve-conflict''"
| "admin_action_to_string AdminAction_AuthorizeContract = ''authorize-contract''"
| "admin_action_to_string AdminAction_IssueGrant = ''issue-grant''"
| "admin_action_to_string AdminAction_RevalidateGrant = ''revalidate-grant''"
| "admin_action_to_string AdminAction_FenceGrant = ''fence-grant''"
| "admin_action_to_string AdminAction_ReloadStore = ''reload-store''"

definition admin_action_from_string :: "string \<Rightarrow> admin_action option" where
  "admin_action_from_string text = find (\<lambda>candidate. text = admin_action_to_string candidate) (tl admin_action_values)"

definition kCapabilityFencing :: u32 where "kCapabilityFencing = 1"
definition kCapabilityRevalidation :: u32 where "kCapabilityRevalidation = 2"
definition kCapabilityStatusReport :: u32 where "kCapabilityStatusReport = 4"
definition kCapabilityTwoSidedConsent :: u32 where "kCapabilityTwoSidedConsent = 8"
definition kCapabilityAll :: u32 where
  "kCapabilityAll =
    kCapabilityFencing OR kCapabilityRevalidation OR kCapabilityStatusReport OR kCapabilityTwoSidedConsent"

definition kMaxQueryResults :: nat where "kMaxQueryResults = 4096"

section \<open>Fields\<close>

text \<open>
  \<open>write_text\<close> refuses a text that is too long and writes nothing; its callers ignore the status, so the
  field is simply missing from the payload. \<open>read_text\<close> is \<open>decode_text\<close>, \<open>read_counter\<close> is \<open>decode_counter\<close>,
  and the readers of names and enumerations are those of the canonical encoding.
\<close>

definition write_text :: "string \<Rightarrow> bytes" where
  "write_text text = (if length text > kMaxStringField then [] else w_blob text)"

definition read_outcome :: "outcome reader" where
  "read_outcome = ranged16 outcome_values ''outcome value is out of range''"

definition encode_optional :: "('a \<Rightarrow> bytes) \<Rightarrow> 'a option \<Rightarrow> bytes" where
  "encode_optional enc v = w_boolean (v \<noteq> None) @ (case v of None \<Rightarrow> [] | Some x \<Rightarrow> enc x)"

definition decode_optional :: "'a reader \<Rightarrow> 'a option reader" where
  "decode_optional dec =
    and_then r_boolean (\<lambda>present. if present then and_then dec (\<lambda>x. give (Some x)) else give None)"

text \<open>A message is its body with nothing behind it.\<close>

definition whole_message :: "'a reader \<Rightarrow> bytes \<Rightarrow> 'a result" where
  "whole_message body payload =
    (case body payload of
       Inl e \<Rightarrow> Inl e
     | Inr (m, rest) \<Rightarrow> if \<not> is_ok (expect_end rest) then Inl (expect_end rest) else Inr m)"

section \<open>Messages\<close>

record hello_message =
  hel_role :: peer_role
  hel_cluster :: cluster_id
  hel_domain :: domain_id
  hel_incarnation :: incarnation_id
  hel_generation :: u64
  hel_policy_generation :: u64
  hel_agent_term :: u64
  hel_protocol_min :: u16
  hel_protocol_max :: u16
  hel_capabilities :: u32
  hel_content_digest :: digest
  hel_started_at :: timestamp

definition encode_hello :: "hello_message \<Rightarrow> bytes" where
  "encode_hello m =
    encode_enum8 peer_role_values (hel_role m)
    @ w_blob (hel_cluster m)
    @ w_blob (hel_domain m)
    @ w_uuid (hel_incarnation m)
    @ w_u64 (hel_generation m)
    @ w_u64 (hel_policy_generation m)
    @ w_u64 (hel_agent_term m)
    @ w_u16 (hel_protocol_min m)
    @ w_u16 (hel_protocol_max m)
    @ w_u32 (hel_capabilities m)
    @ w_digest (hel_content_digest m)
    @ w_i64 (hel_started_at m)"

definition hello_body :: "hello_message reader" where
  "hello_body =
    and_then (decode_enum8 peer_role_values 2) (\<lambda>role.
    and_then decode_optional_name (\<lambda>cluster.
    and_then decode_optional_name (\<lambda>domain.
    and_then r_uuid (\<lambda>incarnation.
    and_then (decode_counter kMaxGeneration) (\<lambda>generation.
    and_then (decode_counter kMaxGeneration) (\<lambda>policy_generation.
    and_then (decode_counter kMaxGeneration) (\<lambda>agent_term.
    and_then r_u16 (\<lambda>protocol_min.
    and_then r_u16 (\<lambda>protocol_max.
    require (\<not> protocol_max < protocol_min) (invalid ''peer declared an inverted protocol version range'')
    (and_then r_u32 (\<lambda>capabilities.
    and_then r_digest (\<lambda>content_digest.
    and_then r_i64 (\<lambda>started_at.
    give \<lparr>hel_role = role, hel_cluster = cluster, hel_domain = domain, hel_incarnation = incarnation,
      hel_generation = generation, hel_policy_generation = policy_generation,
      hel_agent_term = agent_term, hel_protocol_min = protocol_min, hel_protocol_max = protocol_max,
      hel_capabilities = capabilities, hel_content_digest = content_digest,
      hel_started_at = started_at\<rparr>)))))))))))))"

definition decode_hello :: "bytes \<Rightarrow> hello_message result" where
  "decode_hello = whole_message hello_body"

record hello_ack_message =
  hak_session :: session_token
  hak_coordinator :: incarnation_id
  hak_coordinator_term :: u64
  hak_outcome :: outcome
  hak_negotiated_version :: u16
  hak_view_digest :: digest
  hak_revalidate :: "uuid list"
  hak_detail :: string

definition encode_hello_ack :: "hello_ack_message \<Rightarrow> bytes" where
  "encode_hello_ack m =
    w_uuid (hak_session m)
    @ w_uuid (hak_coordinator m)
    @ w_u64 (hak_coordinator_term m)
    @ encode_enum16 outcome_values (hak_outcome m)
    @ w_u16 (hak_negotiated_version m)
    @ w_digest (hak_view_digest m)
    @ encode_list w_uuid (hak_revalidate m)
    @ write_text (hak_detail m)"

definition hello_ack_body :: "hello_ack_message reader" where
  "hello_ack_body =
    and_then r_uuid (\<lambda>session.
    and_then r_uuid (\<lambda>coordinator.
    and_then (decode_counter kMaxGeneration) (\<lambda>coordinator_term.
    and_then read_outcome (\<lambda>outcome.
    and_then r_u16 (\<lambda>negotiated_version.
    and_then r_digest (\<lambda>view_digest.
    and_then (decode_list kMaxGrants r_uuid) (\<lambda>revalidate.
    and_then decode_text (\<lambda>detail.
    give \<lparr>hak_session = session, hak_coordinator = coordinator, hak_coordinator_term = coordinator_term,
      hak_outcome = outcome, hak_negotiated_version = negotiated_version,
      hak_view_digest = view_digest, hak_revalidate = revalidate, hak_detail = detail\<rparr>))))))))"

definition decode_hello_ack :: "bytes \<Rightarrow> hello_ack_message result" where
  "decode_hello_ack = whole_message hello_ack_body"

record refuse_message =
  ref_outcome :: outcome
  ref_detail :: string

definition encode_refuse :: "refuse_message \<Rightarrow> bytes" where
  "encode_refuse m =
    encode_enum16 outcome_values (ref_outcome m)
    @ write_text (ref_detail m)"

definition refuse_body :: "refuse_message reader" where
  "refuse_body =
    and_then read_outcome (\<lambda>outcome.
    and_then decode_text (\<lambda>detail.
    give \<lparr>ref_outcome = outcome, ref_detail = detail\<rparr>))"

definition decode_refuse :: "bytes \<Rightarrow> refuse_message result" where
  "decode_refuse = whole_message refuse_body"

record ping_message =
  pin_sequence :: u64
  pin_sent_at :: timestamp

definition encode_ping :: "ping_message \<Rightarrow> bytes" where
  "encode_ping m =
    w_u64 (pin_sequence m)
    @ w_i64 (pin_sent_at m)"

definition ping_body :: "ping_message reader" where
  "ping_body =
    and_then (decode_counter kMaxGeneration) (\<lambda>sequence.
    and_then r_i64 (\<lambda>sent_at.
    give \<lparr>pin_sequence = sequence, pin_sent_at = sent_at\<rparr>))"

definition decode_ping :: "bytes \<Rightarrow> ping_message result" where
  "decode_ping = whole_message ping_body"

record pong_message =
  pon_sequence :: u64

definition encode_pong :: "pong_message \<Rightarrow> bytes" where
  "encode_pong m =
    w_u64 (pon_sequence m)"

definition pong_body :: "pong_message reader" where
  "pong_body =
    and_then (decode_counter kMaxGeneration) (\<lambda>sequence.
    give \<lparr>pon_sequence = sequence\<rparr>)"

definition decode_pong :: "bytes \<Rightarrow> pong_message result" where
  "decode_pong = whole_message pong_body"

record report_cluster_message =
  rpc_session :: session_token
  rpc_cluster :: cluster_record

definition encode_report_cluster :: "report_cluster_message \<Rightarrow> bytes" where
  "encode_report_cluster m =
    w_uuid (rpc_session m)
    @ encode_cluster (rpc_cluster m)"

definition report_cluster_body :: "report_cluster_message reader" where
  "report_cluster_body =
    and_then r_uuid (\<lambda>session.
    and_then decode_cluster (\<lambda>cluster.
    give \<lparr>rpc_session = session, rpc_cluster = cluster\<rparr>))"

definition decode_report_cluster :: "bytes \<Rightarrow> report_cluster_message result" where
  "decode_report_cluster = whole_message report_cluster_body"

record report_ack_message =
  rpa_session :: session_token
  rpa_outcome :: outcome
  rpa_revision :: u64
  rpa_view_digest :: digest
  rpa_detail :: string

definition encode_report_ack :: "report_ack_message \<Rightarrow> bytes" where
  "encode_report_ack m =
    w_uuid (rpa_session m)
    @ encode_enum16 outcome_values (rpa_outcome m)
    @ w_u64 (rpa_revision m)
    @ w_digest (rpa_view_digest m)
    @ write_text (rpa_detail m)"

definition report_ack_body :: "report_ack_message reader" where
  "report_ack_body =
    and_then r_uuid (\<lambda>session.
    and_then read_outcome (\<lambda>outcome.
    and_then (decode_counter kMaxGeneration) (\<lambda>revision.
    and_then r_digest (\<lambda>view_digest.
    and_then decode_text (\<lambda>detail.
    give \<lparr>rpa_session = session, rpa_outcome = outcome, rpa_revision = revision,
      rpa_view_digest = view_digest, rpa_detail = detail\<rparr>)))))"

definition decode_report_ack :: "bytes \<Rightarrow> report_ack_message result" where
  "decode_report_ack = whole_message report_ack_body"

record propose_contract_message =
  prc_session :: session_token
  prc_contract :: contract_id
  prc_terms :: contract_terms
  prc_attempt :: attempt_id

definition encode_propose_contract :: "propose_contract_message \<Rightarrow> bytes" where
  "encode_propose_contract m =
    w_uuid (prc_session m)
    @ w_uuid (prc_contract m)
    @ encode_terms (prc_terms m)
    @ w_uuid (prc_attempt m)"

definition propose_contract_body :: "propose_contract_message reader" where
  "propose_contract_body =
    and_then r_uuid (\<lambda>session.
    and_then r_uuid (\<lambda>contract.
    and_then decode_terms (\<lambda>terms.
    and_then r_uuid (\<lambda>attempt.
    give \<lparr>prc_session = session, prc_contract = contract, prc_terms = terms, prc_attempt = attempt\<rparr>))))"

definition decode_propose_contract :: "bytes \<Rightarrow> propose_contract_message result" where
  "decode_propose_contract = whole_message propose_contract_body"

record contract_consent_message =
  con_session :: session_token
  con_contract :: contract_id
  con_terms_digest :: digest
  con_decision :: consent_decision
  con_endpoint :: endpoint_id
  con_incarnation :: incarnation_id
  con_generation :: u64
  con_policy_generation :: u64
  con_agent_term :: u64
  con_reason :: string

definition encode_contract_consent :: "contract_consent_message \<Rightarrow> bytes" where
  "encode_contract_consent m =
    w_uuid (con_session m)
    @ w_uuid (con_contract m)
    @ w_digest (con_terms_digest m)
    @ encode_enum8 consent_decision_values (con_decision m)
    @ w_blob (con_endpoint m)
    @ w_uuid (con_incarnation m)
    @ w_u64 (con_generation m)
    @ w_u64 (con_policy_generation m)
    @ w_u64 (con_agent_term m)
    @ write_text (con_reason m)"

definition contract_consent_body :: "contract_consent_message reader" where
  "contract_consent_body =
    and_then r_uuid (\<lambda>session.
    and_then r_uuid (\<lambda>contract.
    and_then r_digest (\<lambda>terms_digest.
    and_then (decode_enum8 consent_decision_values 1) (\<lambda>decision.
    and_then (decode_name id_tag kMaxNameLength) (\<lambda>endpoint.
    and_then r_uuid (\<lambda>incarnation.
    and_then (decode_counter kMaxGeneration) (\<lambda>generation.
    and_then (decode_counter kMaxGeneration) (\<lambda>policy_generation.
    and_then (decode_counter kMaxGeneration) (\<lambda>agent_term.
    and_then decode_text (\<lambda>reason.
    give \<lparr>con_session = session, con_contract = contract, con_terms_digest = terms_digest,
      con_decision = decision, con_endpoint = endpoint, con_incarnation = incarnation,
      con_generation = generation, con_policy_generation = policy_generation,
      con_agent_term = agent_term, con_reason = reason\<rparr>))))))))))"

definition decode_contract_consent :: "bytes \<Rightarrow> contract_consent_message result" where
  "decode_contract_consent = whole_message contract_consent_body"

record prepare_grant_message =
  prg_session :: session_token
  prg_grant :: grant_record

definition encode_prepare_grant :: "prepare_grant_message \<Rightarrow> bytes" where
  "encode_prepare_grant m =
    w_uuid (prg_session m)
    @ encode_grant (prg_grant m)"

definition prepare_grant_body :: "prepare_grant_message reader" where
  "prepare_grant_body =
    and_then r_uuid (\<lambda>session.
    and_then decode_grant (\<lambda>grant.
    give \<lparr>prg_session = session, prg_grant = grant\<rparr>))"

definition decode_prepare_grant :: "bytes \<Rightarrow> prepare_grant_message result" where
  "decode_prepare_grant = whole_message prepare_grant_body"

record grant_prepared_message =
  gpr_session :: session_token
  gpr_grant :: grant_id
  gpr_attempt :: attempt_id
  gpr_accepted :: bool
  gpr_agent_term :: u64
  gpr_enforcement_digest :: digest
  gpr_detail :: string

definition encode_grant_prepared :: "grant_prepared_message \<Rightarrow> bytes" where
  "encode_grant_prepared m =
    w_uuid (gpr_session m)
    @ w_uuid (gpr_grant m)
    @ w_uuid (gpr_attempt m)
    @ w_boolean (gpr_accepted m)
    @ w_u64 (gpr_agent_term m)
    @ w_digest (gpr_enforcement_digest m)
    @ write_text (gpr_detail m)"

definition grant_prepared_body :: "grant_prepared_message reader" where
  "grant_prepared_body =
    and_then r_uuid (\<lambda>session.
    and_then r_uuid (\<lambda>grant.
    and_then r_uuid (\<lambda>attempt.
    and_then r_boolean (\<lambda>accepted.
    and_then (decode_counter kMaxGeneration) (\<lambda>agent_term.
    and_then r_digest (\<lambda>enforcement_digest.
    and_then decode_text (\<lambda>detail.
    give \<lparr>gpr_session = session, gpr_grant = grant, gpr_attempt = attempt, gpr_accepted = accepted,
      gpr_agent_term = agent_term, gpr_enforcement_digest = enforcement_digest, gpr_detail = detail\<rparr>)))))))"

definition decode_grant_prepared :: "bytes \<Rightarrow> grant_prepared_message result" where
  "decode_grant_prepared = whole_message grant_prepared_body"

record commit_grant_message =
  cmg_session :: session_token
  cmg_grant :: grant_id
  cmg_attempt :: attempt_id

definition encode_commit_grant :: "commit_grant_message \<Rightarrow> bytes" where
  "encode_commit_grant m =
    w_uuid (cmg_session m)
    @ w_uuid (cmg_grant m)
    @ w_uuid (cmg_attempt m)"

definition commit_grant_body :: "commit_grant_message reader" where
  "commit_grant_body =
    and_then r_uuid (\<lambda>session.
    and_then r_uuid (\<lambda>grant.
    and_then r_uuid (\<lambda>attempt.
    give \<lparr>cmg_session = session, cmg_grant = grant, cmg_attempt = attempt\<rparr>)))"

definition decode_commit_grant :: "bytes \<Rightarrow> commit_grant_message result" where
  "decode_commit_grant = whole_message commit_grant_body"

record grant_committed_message =
  gcm_session :: session_token
  gcm_grant :: grant_id
  gcm_attempt :: attempt_id
  gcm_installed :: bool
  gcm_agent_term :: u64
  gcm_enforcement_digest :: digest
  gcm_detail :: string

definition encode_grant_committed :: "grant_committed_message \<Rightarrow> bytes" where
  "encode_grant_committed m =
    w_uuid (gcm_session m)
    @ w_uuid (gcm_grant m)
    @ w_uuid (gcm_attempt m)
    @ w_boolean (gcm_installed m)
    @ w_u64 (gcm_agent_term m)
    @ w_digest (gcm_enforcement_digest m)
    @ write_text (gcm_detail m)"

definition grant_committed_body :: "grant_committed_message reader" where
  "grant_committed_body =
    and_then r_uuid (\<lambda>session.
    and_then r_uuid (\<lambda>grant.
    and_then r_uuid (\<lambda>attempt.
    and_then r_boolean (\<lambda>installed.
    and_then (decode_counter kMaxGeneration) (\<lambda>agent_term.
    and_then r_digest (\<lambda>enforcement_digest.
    and_then decode_text (\<lambda>detail.
    give \<lparr>gcm_session = session, gcm_grant = grant, gcm_attempt = attempt, gcm_installed = installed,
      gcm_agent_term = agent_term, gcm_enforcement_digest = enforcement_digest, gcm_detail = detail\<rparr>)))))))"

definition decode_grant_committed :: "bytes \<Rightarrow> grant_committed_message result" where
  "decode_grant_committed = whole_message grant_committed_body"

record abort_grant_message =
  abg_session :: session_token
  abg_grant :: grant_id
  abg_attempt :: attempt_id
  abg_reason :: string

definition encode_abort_grant :: "abort_grant_message \<Rightarrow> bytes" where
  "encode_abort_grant m =
    w_uuid (abg_session m)
    @ w_uuid (abg_grant m)
    @ w_uuid (abg_attempt m)
    @ write_text (abg_reason m)"

definition abort_grant_body :: "abort_grant_message reader" where
  "abort_grant_body =
    and_then r_uuid (\<lambda>session.
    and_then r_uuid (\<lambda>grant.
    and_then r_uuid (\<lambda>attempt.
    and_then decode_text (\<lambda>reason.
    give \<lparr>abg_session = session, abg_grant = grant, abg_attempt = attempt, abg_reason = reason\<rparr>))))"

definition decode_abort_grant :: "bytes \<Rightarrow> abort_grant_message result" where
  "decode_abort_grant = whole_message abort_grant_body"

record grant_aborted_message =
  gab_session :: session_token
  gab_grant :: grant_id
  gab_attempt :: attempt_id
  gab_reason :: string

definition encode_grant_aborted :: "grant_aborted_message \<Rightarrow> bytes" where
  "encode_grant_aborted m =
    w_uuid (gab_session m)
    @ w_uuid (gab_grant m)
    @ w_uuid (gab_attempt m)
    @ write_text (gab_reason m)"

definition grant_aborted_body :: "grant_aborted_message reader" where
  "grant_aborted_body =
    and_then r_uuid (\<lambda>session.
    and_then r_uuid (\<lambda>grant.
    and_then r_uuid (\<lambda>attempt.
    and_then decode_text (\<lambda>reason.
    give \<lparr>gab_session = session, gab_grant = grant, gab_attempt = attempt, gab_reason = reason\<rparr>))))"

definition decode_grant_aborted :: "bytes \<Rightarrow> grant_aborted_message result" where
  "decode_grant_aborted = whole_message grant_aborted_body"

record fence_message =
  fen_session :: session_token
  fen_coordinator_term :: u64
  fen_grants :: "uuid list"
  fen_reason :: string

definition encode_fence :: "fence_message \<Rightarrow> bytes" where
  "encode_fence m =
    w_uuid (fen_session m)
    @ w_u64 (fen_coordinator_term m)
    @ encode_list w_uuid (fen_grants m)
    @ write_text (fen_reason m)"

definition fence_body :: "fence_message reader" where
  "fence_body =
    and_then r_uuid (\<lambda>session.
    and_then (decode_counter kMaxGeneration) (\<lambda>coordinator_term.
    and_then (decode_list kMaxGrants r_uuid) (\<lambda>grants.
    and_then decode_text (\<lambda>reason.
    give \<lparr>fen_session = session, fen_coordinator_term = coordinator_term, fen_grants = grants,
      fen_reason = reason\<rparr>))))"

definition decode_fence :: "bytes \<Rightarrow> fence_message result" where
  "decode_fence = whole_message fence_body"

record fence_result =
  fre_grant :: grant_id
  fre_outcome :: outcome

definition encode_fence_result :: "fence_result \<Rightarrow> bytes" where
  "encode_fence_result m =
    w_uuid (fre_grant m)
    @ encode_enum16 outcome_values (fre_outcome m)"

definition decode_fence_result :: "fence_result reader" where
  "decode_fence_result =
    and_then r_uuid (\<lambda>grant.
    and_then read_outcome (\<lambda>outcome.
    give \<lparr>fre_grant = grant, fre_outcome = outcome\<rparr>))"

record fence_ack_message =
  fak_session :: session_token
  fak_results :: "fence_result list"

definition encode_fence_ack :: "fence_ack_message \<Rightarrow> bytes" where
  "encode_fence_ack m =
    w_uuid (fak_session m)
    @ encode_list encode_fence_result (fak_results m)"

definition fence_ack_body :: "fence_ack_message reader" where
  "fence_ack_body =
    and_then r_uuid (\<lambda>session.
    and_then (decode_list kMaxGrants decode_fence_result) (\<lambda>results.
    give \<lparr>fak_session = session, fak_results = results\<rparr>))"

definition decode_fence_ack :: "bytes \<Rightarrow> fence_ack_message result" where
  "decode_fence_ack = whole_message fence_ack_body"

record withdraw_message =
  wdr_session :: session_token
  wdr_cluster :: cluster_id
  wdr_incarnation :: incarnation_id
  wdr_generation :: u64
  wdr_reason :: string

definition encode_withdraw :: "withdraw_message \<Rightarrow> bytes" where
  "encode_withdraw m =
    w_uuid (wdr_session m)
    @ w_blob (wdr_cluster m)
    @ w_uuid (wdr_incarnation m)
    @ w_u64 (wdr_generation m)
    @ write_text (wdr_reason m)"

definition withdraw_body :: "withdraw_message reader" where
  "withdraw_body =
    and_then r_uuid (\<lambda>session.
    and_then (decode_name id_tag kMaxNameLength) (\<lambda>cluster.
    and_then r_uuid (\<lambda>incarnation.
    and_then (decode_counter kMaxGeneration) (\<lambda>generation.
    and_then decode_text (\<lambda>reason.
    give \<lparr>wdr_session = session, wdr_cluster = cluster, wdr_incarnation = incarnation,
      wdr_generation = generation, wdr_reason = reason\<rparr>)))))"

definition decode_withdraw :: "bytes \<Rightarrow> withdraw_message result" where
  "decode_withdraw = whole_message withdraw_body"

record withdraw_ack_message =
  wak_session :: session_token
  wak_outcome :: outcome
  wak_fenced_grants :: u64
  wak_detail :: string

definition encode_withdraw_ack :: "withdraw_ack_message \<Rightarrow> bytes" where
  "encode_withdraw_ack m =
    w_uuid (wak_session m)
    @ encode_enum16 outcome_values (wak_outcome m)
    @ w_u64 (wak_fenced_grants m)
    @ write_text (wak_detail m)"

definition withdraw_ack_body :: "withdraw_ack_message reader" where
  "withdraw_ack_body =
    and_then r_uuid (\<lambda>session.
    and_then read_outcome (\<lambda>outcome.
    and_then r_u64 (\<lambda>fenced_grants.
    and_then decode_text (\<lambda>detail.
    give \<lparr>wak_session = session, wak_outcome = outcome, wak_fenced_grants = fenced_grants,
      wak_detail = detail\<rparr>))))"

definition decode_withdraw_ack :: "bytes \<Rightarrow> withdraw_ack_message result" where
  "decode_withdraw_ack = whole_message withdraw_ack_body"

record status_request_message =
  srq_session :: session_token
  srq_request :: uuid

definition encode_status_request :: "status_request_message \<Rightarrow> bytes" where
  "encode_status_request m =
    w_uuid (srq_session m)
    @ w_uuid (srq_request m)"

definition status_request_body :: "status_request_message reader" where
  "status_request_body =
    and_then r_uuid (\<lambda>session.
    and_then r_uuid (\<lambda>request.
    give \<lparr>srq_session = session, srq_request = request\<rparr>))"

definition decode_status_request :: "bytes \<Rightarrow> status_request_message result" where
  "decode_status_request = whole_message status_request_body"

record grant_status_entry =
  gse_grant :: grant_id
  gse_attempt :: attempt_id
  gse_state :: grant_state
  gse_agent_term :: u64
  gse_enforcement_digest :: digest

definition encode_grant_status :: "grant_status_entry \<Rightarrow> bytes" where
  "encode_grant_status m =
    w_uuid (gse_grant m)
    @ w_uuid (gse_attempt m)
    @ encode_enum8 grant_state_values (gse_state m)
    @ w_u64 (gse_agent_term m)
    @ w_digest (gse_enforcement_digest m)"

definition decode_grant_status :: "grant_status_entry reader" where
  "decode_grant_status =
    and_then r_uuid (\<lambda>grant.
    and_then r_uuid (\<lambda>attempt.
    and_then (decode_enum8 grant_state_values 8) (\<lambda>state.
    and_then (decode_counter kMaxGeneration) (\<lambda>agent_term.
    and_then r_digest (\<lambda>enforcement_digest.
    give \<lparr>gse_grant = grant, gse_attempt = attempt, gse_state = state, gse_agent_term = agent_term,
      gse_enforcement_digest = enforcement_digest\<rparr>)))))"

record status_report_message =
  srp_session :: session_token
  srp_request :: uuid
  srp_cluster :: cluster_id
  srp_incarnation :: incarnation_id
  srp_generation :: u64
  srp_policy_generation :: u64
  srp_agent_term :: u64
  srp_grants :: "grant_status_entry list"

definition encode_status_report :: "status_report_message \<Rightarrow> bytes" where
  "encode_status_report m =
    w_uuid (srp_session m)
    @ w_uuid (srp_request m)
    @ w_blob (srp_cluster m)
    @ w_uuid (srp_incarnation m)
    @ w_u64 (srp_generation m)
    @ w_u64 (srp_policy_generation m)
    @ w_u64 (srp_agent_term m)
    @ encode_list encode_grant_status (srp_grants m)"

definition status_report_body :: "status_report_message reader" where
  "status_report_body =
    and_then r_uuid (\<lambda>session.
    and_then r_uuid (\<lambda>request.
    and_then (decode_name id_tag kMaxNameLength) (\<lambda>cluster.
    and_then r_uuid (\<lambda>incarnation.
    and_then (decode_counter kMaxGeneration) (\<lambda>generation.
    and_then (decode_counter kMaxGeneration) (\<lambda>policy_generation.
    and_then (decode_counter kMaxGeneration) (\<lambda>agent_term.
    and_then (decode_list kMaxGrants decode_grant_status) (\<lambda>grants.
    give \<lparr>srp_session = session, srp_request = request, srp_cluster = cluster,
      srp_incarnation = incarnation, srp_generation = generation,
      srp_policy_generation = policy_generation, srp_agent_term = agent_term, srp_grants = grants\<rparr>))))))))"

definition decode_status_report :: "bytes \<Rightarrow> status_report_message result" where
  "decode_status_report = whole_message status_report_body"

record query_message =
  qry_request :: uuid
  qry_kind :: query_kind
  qry_cluster :: cluster_id
  qry_cluster_b :: cluster_id
  qry_endpoint :: endpoint_id
  qry_endpoint_b :: endpoint_id
  qry_contract :: contract_id
  qry_grant :: grant_id
  qry_edge :: edge_id
  qry_policy_id :: string
  qry_capacity :: u64
  qry_allow_degraded :: bool
  qry_limit :: u32
  qry_expect_source_generation :: bool
  qry_source_generation :: u64
  qry_expect_target_generation :: bool
  qry_target_generation :: u64
  qry_at :: timestamp

definition encode_query :: "query_message \<Rightarrow> bytes" where
  "encode_query m =
    w_uuid (qry_request m)
    @ encode_enum8 query_kind_values (qry_kind m)
    @ w_blob (qry_cluster m)
    @ w_blob (qry_cluster_b m)
    @ w_blob (qry_endpoint m)
    @ w_blob (qry_endpoint_b m)
    @ w_uuid (qry_contract m)
    @ w_uuid (qry_grant m)
    @ w_blob (qry_edge m)
    @ write_text (qry_policy_id m)
    @ w_u64 (qry_capacity m)
    @ w_boolean (qry_allow_degraded m)
    @ w_u32 (qry_limit m)
    @ w_boolean (qry_expect_source_generation m)
    @ w_u64 (qry_source_generation m)
    @ w_boolean (qry_expect_target_generation m)
    @ w_u64 (qry_target_generation m)
    @ w_i64 (qry_at m)"

definition query_body :: "query_message reader" where
  "query_body =
    and_then r_uuid (\<lambda>request.
    and_then (decode_enum8 query_kind_values 15) (\<lambda>kind.
    and_then decode_optional_name (\<lambda>cluster.
    and_then decode_optional_name (\<lambda>cluster_b.
    and_then decode_optional_name (\<lambda>endpoint.
    and_then decode_optional_name (\<lambda>endpoint_b.
    and_then r_uuid (\<lambda>contract.
    and_then r_uuid (\<lambda>grant.
    and_then decode_optional_name (\<lambda>edge.
    and_then decode_text (\<lambda>policy_id.
    and_then (decode_counter kMaxCapacity) (\<lambda>capacity.
    and_then r_boolean (\<lambda>allow_degraded.
    and_then r_u32 (\<lambda>limit.
    require (\<not> unat limit > kMaxQueryResults) (invalid ''query result limit exceeds the maximum'')
    (and_then r_boolean (\<lambda>expect_source_generation.
    and_then (decode_counter kMaxGeneration) (\<lambda>source_generation.
    and_then r_boolean (\<lambda>expect_target_generation.
    and_then (decode_counter kMaxGeneration) (\<lambda>target_generation.
    and_then r_i64 (\<lambda>at_time.
    give \<lparr>qry_request = request, qry_kind = kind, qry_cluster = cluster, qry_cluster_b = cluster_b,
      qry_endpoint = endpoint, qry_endpoint_b = endpoint_b, qry_contract = contract,
      qry_grant = grant, qry_edge = edge, qry_policy_id = policy_id, qry_capacity = capacity,
      qry_allow_degraded = allow_degraded, qry_limit = limit,
      qry_expect_source_generation = expect_source_generation,
      qry_source_generation = source_generation,
      qry_expect_target_generation = expect_target_generation,
      qry_target_generation = target_generation, qry_at = at_time\<rparr>)))))))))))))))))))"

definition decode_query :: "bytes \<Rightarrow> query_message result" where
  "decode_query = whole_message query_body"

record admin_message =
  adm_request :: uuid
  adm_action :: admin_action
  adm_cluster :: "cluster_record option"
  adm_link :: "link_record option"
  adm_path :: "path_record option"
  adm_policy :: "policy_rule option"
  adm_cluster_id :: cluster_id
  adm_cluster_b :: cluster_id
  adm_endpoint :: endpoint_id
  adm_endpoint_b :: endpoint_id
  adm_contract :: contract_id
  adm_grant :: grant_id
  adm_edge :: edge_id
  adm_policy_id :: string
  adm_generation :: u64
  adm_cluster_state :: cluster_state
  adm_link_state :: link_state
  adm_capacity :: u64
  adm_lease_duration :: duration
  adm_reason :: string

definition encode_admin :: "admin_message \<Rightarrow> bytes" where
  "encode_admin m =
    w_uuid (adm_request m)
    @ encode_enum8 admin_action_values (adm_action m)
    @ encode_optional encode_cluster (adm_cluster m)
    @ encode_optional encode_link (adm_link m)
    @ encode_optional encode_path (adm_path m)
    @ encode_optional encode_policy (adm_policy m)
    @ w_blob (adm_cluster_id m)
    @ w_blob (adm_cluster_b m)
    @ w_blob (adm_endpoint m)
    @ w_blob (adm_endpoint_b m)
    @ w_uuid (adm_contract m)
    @ w_uuid (adm_grant m)
    @ w_blob (adm_edge m)
    @ write_text (adm_policy_id m)
    @ w_u64 (adm_generation m)
    @ encode_enum8 cluster_state_values (adm_cluster_state m)
    @ encode_enum8 link_state_values (adm_link_state m)
    @ w_u64 (adm_capacity m)
    @ w_i64 (adm_lease_duration m)
    @ write_text (adm_reason m)"

definition admin_body :: "admin_message reader" where
  "admin_body =
    and_then r_uuid (\<lambda>request.
    and_then (decode_enum8 admin_action_values 18) (\<lambda>action.
    and_then (decode_optional decode_cluster) (\<lambda>cluster.
    and_then (decode_optional decode_link) (\<lambda>link.
    and_then (decode_optional decode_path) (\<lambda>path.
    and_then (decode_optional decode_policy) (\<lambda>policy.
    and_then decode_optional_name (\<lambda>cluster_id.
    and_then decode_optional_name (\<lambda>cluster_b.
    and_then decode_optional_name (\<lambda>endpoint.
    and_then decode_optional_name (\<lambda>endpoint_b.
    and_then r_uuid (\<lambda>contract.
    and_then r_uuid (\<lambda>grant.
    and_then decode_optional_name (\<lambda>edge.
    and_then decode_text (\<lambda>policy_id.
    and_then (decode_counter kMaxGeneration) (\<lambda>generation.
    and_then (decode_enum8 cluster_state_values 4) (\<lambda>cluster_state.
    and_then (decode_enum8 link_state_values 4) (\<lambda>link_state.
    and_then (decode_counter kMaxCapacity) (\<lambda>capacity.
    and_then r_i64 (\<lambda>lease_duration.
    require (\<not> (lease_duration < 0 \<or> word_of_int lease_duration > kMaxDurationNanos)) (invalid ''lease duration is out of range'')
    (and_then decode_text (\<lambda>reason.
    give \<lparr>adm_request = request, adm_action = action, adm_cluster = cluster, adm_link = link,
      adm_path = path, adm_policy = policy, adm_cluster_id = cluster_id, adm_cluster_b = cluster_b,
      adm_endpoint = endpoint, adm_endpoint_b = endpoint_b, adm_contract = contract,
      adm_grant = grant, adm_edge = edge, adm_policy_id = policy_id, adm_generation = generation,
      adm_cluster_state = cluster_state, adm_link_state = link_state, adm_capacity = capacity,
      adm_lease_duration = lease_duration, adm_reason = reason\<rparr>)))))))))))))))))))))"

definition decode_admin :: "bytes \<Rightarrow> admin_message result" where
  "decode_admin = whole_message admin_body"

record admin_result_message =
  ads_request :: uuid
  ads_outcome :: outcome
  ads_detail :: string
  ads_view_digest :: digest
  ads_revision :: u64
  ads_contract :: contract_id
  ads_grant :: grant_id

definition encode_admin_result :: "admin_result_message \<Rightarrow> bytes" where
  "encode_admin_result m =
    w_uuid (ads_request m)
    @ encode_enum16 outcome_values (ads_outcome m)
    @ write_text (ads_detail m)
    @ w_digest (ads_view_digest m)
    @ w_u64 (ads_revision m)
    @ w_uuid (ads_contract m)
    @ w_uuid (ads_grant m)"

definition admin_result_body :: "admin_result_message reader" where
  "admin_result_body =
    and_then r_uuid (\<lambda>request.
    and_then read_outcome (\<lambda>outcome.
    and_then decode_text (\<lambda>detail.
    and_then r_digest (\<lambda>view_digest.
    and_then (decode_counter kMaxGeneration) (\<lambda>revision.
    and_then r_uuid (\<lambda>contract.
    and_then r_uuid (\<lambda>grant.
    give \<lparr>ads_request = request, ads_outcome = outcome, ads_detail = detail,
      ads_view_digest = view_digest, ads_revision = revision, ads_contract = contract,
      ads_grant = grant\<rparr>)))))))"

definition decode_admin_result :: "bytes \<Rightarrow> admin_result_message result" where
  "decode_admin_result = whole_message admin_result_body"

record error_message =
  err_request :: uuid
  err_outcome :: outcome
  err_detail :: string

definition encode_error :: "error_message \<Rightarrow> bytes" where
  "encode_error m =
    w_uuid (err_request m)
    @ encode_enum16 outcome_values (err_outcome m)
    @ write_text (err_detail m)"

definition error_body :: "error_message reader" where
  "error_body =
    and_then r_uuid (\<lambda>request.
    and_then read_outcome (\<lambda>outcome.
    and_then decode_text (\<lambda>detail.
    give \<lparr>err_request = request, err_outcome = outcome, err_detail = detail\<rparr>)))"

definition decode_error :: "bytes \<Rightarrow> error_message result" where
  "decode_error = whole_message error_body"

record query_result_message =
  qrs_request :: uuid
  qrs_kind :: query_kind
  qrs_outcome :: outcome
  qrs_detail :: string
  qrs_clusters :: "cluster_record list"
  qrs_links :: "link_record list"
  qrs_paths :: "path_record list"
  qrs_policies :: "policy_rule list"
  qrs_contracts :: "contract_record list"
  qrs_grants :: "grant_record list"
  qrs_reservations :: "reservation_record list"
  qrs_audit :: "audit_record list"
  qrs_accounting :: "accounting_entry list"
  qrs_decision :: "decision option"
  qrs_fence_plan :: "fence_plan option"
  qrs_status :: "coordinator_status option"

definition blank_result :: "uuid \<Rightarrow> query_kind \<Rightarrow> outcome \<Rightarrow> string \<Rightarrow> query_result_message" where
  "blank_result request kind outcome detail =
    \<lparr>qrs_request = request, qrs_kind = kind, qrs_outcome = outcome, qrs_detail = detail,
     qrs_clusters = [], qrs_links = [], qrs_paths = [], qrs_policies = [],
     qrs_contracts = [], qrs_grants = [], qrs_reservations = [], qrs_audit = [],
     qrs_accounting = [],
     qrs_decision = None, qrs_fence_plan = None, qrs_status = None\<rparr>"

text \<open>Only the part that answers the kind of the query travels.\<close>

definition encode_answer :: "query_result_message \<Rightarrow> bytes" where
  "encode_answer m =
    (case qrs_kind m of
       QueryKind_Unnamed \<Rightarrow> []
     | QueryKind_Status \<Rightarrow> encode_optional encode_status (qrs_status m)
     | QueryKind_ListClusters \<Rightarrow> encode_list encode_cluster (qrs_clusters m)
     | QueryKind_ShowCluster \<Rightarrow> encode_list encode_cluster (qrs_clusters m)
     | QueryKind_ListLinks \<Rightarrow> encode_list encode_link (qrs_links m)
     | QueryKind_ListPaths \<Rightarrow> encode_list encode_path (qrs_paths m)
     | QueryKind_ListPolicies \<Rightarrow> encode_list encode_policy (qrs_policies m)
     | QueryKind_ListContracts \<Rightarrow> encode_list encode_contract (qrs_contracts m)
     | QueryKind_ShowContract \<Rightarrow> encode_list encode_contract (qrs_contracts m)
     | QueryKind_ListGrants \<Rightarrow> encode_list encode_grant (qrs_grants m)
     | QueryKind_ShowGrant \<Rightarrow> encode_list encode_grant (qrs_grants m)
     | QueryKind_ListReservations \<Rightarrow> encode_list encode_reservation (qrs_reservations m)
     | QueryKind_ListAudit \<Rightarrow> encode_list encode_audit (qrs_audit m)
     | QueryKind_Decide \<Rightarrow> encode_optional encode_decision (qrs_decision m)
     | QueryKind_FencePlan \<Rightarrow> encode_optional encode_fence_plan (qrs_fence_plan m)
     | QueryKind_Accounting \<Rightarrow> encode_list encode_accounting (qrs_accounting m))"

definition answer_body :: "query_result_message \<Rightarrow> query_result_message reader" where
  "answer_body m =
    (case qrs_kind m of
       QueryKind_Unnamed \<Rightarrow> give m
     | QueryKind_Status \<Rightarrow> and_then (decode_optional decode_status) (\<lambda>v. give (m\<lparr>qrs_status := v\<rparr>))
     | QueryKind_ListClusters \<Rightarrow> and_then (decode_list kMaxClusters decode_cluster) (\<lambda>v. give (m\<lparr>qrs_clusters := v\<rparr>))
     | QueryKind_ShowCluster \<Rightarrow> and_then (decode_list kMaxClusters decode_cluster) (\<lambda>v. give (m\<lparr>qrs_clusters := v\<rparr>))
     | QueryKind_ListLinks \<Rightarrow> and_then (decode_list kMaxEdges decode_link) (\<lambda>v. give (m\<lparr>qrs_links := v\<rparr>))
     | QueryKind_ListPaths \<Rightarrow> and_then (decode_list kMaxPaths decode_path) (\<lambda>v. give (m\<lparr>qrs_paths := v\<rparr>))
     | QueryKind_ListPolicies \<Rightarrow> and_then (decode_list kMaxPolicyRules decode_policy) (\<lambda>v. give (m\<lparr>qrs_policies := v\<rparr>))
     | QueryKind_ListContracts \<Rightarrow> and_then (decode_list kMaxContracts decode_contract) (\<lambda>v. give (m\<lparr>qrs_contracts := v\<rparr>))
     | QueryKind_ShowContract \<Rightarrow> and_then (decode_list kMaxContracts decode_contract) (\<lambda>v. give (m\<lparr>qrs_contracts := v\<rparr>))
     | QueryKind_ListGrants \<Rightarrow> and_then (decode_list kMaxGrants decode_grant) (\<lambda>v. give (m\<lparr>qrs_grants := v\<rparr>))
     | QueryKind_ShowGrant \<Rightarrow> and_then (decode_list kMaxGrants decode_grant) (\<lambda>v. give (m\<lparr>qrs_grants := v\<rparr>))
     | QueryKind_ListReservations \<Rightarrow> and_then (decode_list kMaxReservations decode_reservation) (\<lambda>v. give (m\<lparr>qrs_reservations := v\<rparr>))
     | QueryKind_ListAudit \<Rightarrow> and_then (decode_list kMaxAuditRecords decode_audit) (\<lambda>v. give (m\<lparr>qrs_audit := v\<rparr>))
     | QueryKind_Decide \<Rightarrow> and_then (decode_optional decode_decision) (\<lambda>v. give (m\<lparr>qrs_decision := v\<rparr>))
     | QueryKind_FencePlan \<Rightarrow> and_then (decode_optional decode_fence_plan) (\<lambda>v. give (m\<lparr>qrs_fence_plan := v\<rparr>))
     | QueryKind_Accounting \<Rightarrow> and_then (decode_list kMaxReservations decode_accounting) (\<lambda>v. give (m\<lparr>qrs_accounting := v\<rparr>)))"

definition encode_query_result :: "query_result_message \<Rightarrow> bytes" where
  "encode_query_result m =
    w_uuid (qrs_request m)
    @ encode_enum8 query_kind_values (qrs_kind m)
    @ encode_enum16 outcome_values (qrs_outcome m)
    @ write_text (qrs_detail m)
    @ encode_answer m"

definition query_result_body :: "query_result_message reader" where
  "query_result_body =
    and_then r_uuid (\<lambda>request.
    and_then (decode_enum8 query_kind_values 15) (\<lambda>kind.
    and_then read_outcome (\<lambda>outcome.
    and_then decode_text (\<lambda>detail.
    answer_body (blank_result request kind outcome detail)))))"

definition decode_query_result :: "bytes \<Rightarrow> query_result_message result" where
  "decode_query_result = whole_message query_result_body"

end
