(* ===== verification/Message_Laws.thy ===== *)
theory Message_Laws
  imports Messages Canonical_Laws
begin

text \<open>
  Every message reads back, and all but those that carry a cluster record accept exactly their
  encodings. The locale \<open>message_codec\<close> is what the peers rely on: a payload decodes to a message if and
  only if it is the encoding of that message.
\<close>

named_theorems message_defs \<open>encoders, bodies and bounds of the messages\<close>
named_theorems message_steps \<open>reading one field\<close>

section \<open>Fields\<close>

interpretation written_text: canonical_codec write_text decode_text note_ok
proof
  fix x rest assume ok: "note_ok x"
  then have "write_text x = w_blob x" by (simp add: write_text_def note_ok_def text_ok_def kMaxText_def)
  then show "decode_text (write_text x @ rest) = Inr (x, rest)" using free_text.dec_enc [OF ok] by simp
next
  fix bs x rest assume "decode_text bs = Inr (x, rest)"
  from free_text.dec_sound [OF this]
  show "note_ok x \<and> bs = write_text x @ rest"
    by (auto simp: write_text_def note_ok_def text_ok_def kMaxText_def)
qed

interpretation read_outcome: canonical_codec "encode_enum16 outcome_values" read_outcome "\<lambda>_. True"
  unfolding read_outcome_def by (rule outcome.canonical_codec_axioms)

context codec
begin

lemma decode_optional_step:
  "pred_option ok v \<Longrightarrow> and_then (decode_optional dec) f (encode_optional enc v @ rest) = f v rest"
  by (cases v) (simp_all add: decode_optional_def encode_optional_def boolean.dec_step and_then_def dec_enc
      boolean.dec_enc)

lemma decode_list_read:
  assumes "list_all ok xs" "length xs \<le> b" "b < 2 ^ 32"
  shows "and_then (decode_list b dec) f (encode_list enc xs @ rest) = f xs rest"
  using assms by (simp add: decode_list_def encode_list_def count.dec_step read_times_enc and_then_Inr)

end

lemma peer_role_ok [simp]: "enum_ok peer_role_values 2 a"
  by (cases a) (simp_all add: enum_ok_def peer_role_values_def)

lemma query_kind_ok [simp]: "enum_ok query_kind_values 15 b"
  by (cases b) (simp_all add: enum_ok_def query_kind_values_def)

lemma admin_action_ok [simp]: "enum_ok admin_action_values 18 c"
  by (cases c) (simp_all add: enum_ok_def admin_action_values_def)

lemma wire_enumerations_sound:
  "decode_enum8 peer_role_values 2 bs = Inr (a, r) \<Longrightarrow> bs = encode_enum8 peer_role_values a @ r"
  "decode_enum8 query_kind_values 15 bs = Inr (b, r) \<Longrightarrow> bs = encode_enum8 query_kind_values b @ r"
  "decode_enum8 admin_action_values 18 bs = Inr (c, r) \<Longrightarrow> bs = encode_enum8 admin_action_values c @ r"
  by (auto intro!: decode_enum8_sound simp: peer_role_values_def query_kind_values_def admin_action_values_def)

lemma kMaxGrants_small: "kMaxGrants < 4294967296"
  by (simp add: kMaxGrants_def)

lemma grant_list_sound:
  "decode_list kMaxGrants r_uuid bs = Inr (xs, rest) \<Longrightarrow>
    list_all uuid_ok xs \<and> length xs \<le> kMaxGrants \<and> bs = encode_list w_uuid xs @ rest"
  by (rule uuid.decode_list_sound) (simp_all add: kMaxGrants_def)

lemmas [message_steps] =
  codec_simps written_text.dec_step read_outcome.dec_step cluster.dec_step terms.dec_step grant.dec_step
  uuid.decode_list_step kMaxGrants_small
  cluster.decode_optional_step link.decode_optional_step path.decode_optional_step policy.decode_optional_step

lemmas message_sound = shared_sound written_text.dec_sound read_outcome.dec_sound wire_enumerations_sound
  terms.dec_sound grant.dec_sound grant_list_sound

definition lease_ok :: "duration \<Rightarrow> bool" where
  [message_defs]: "lease_ok d \<longleftrightarrow> i64_ok d \<and> \<not> (d < 0 \<or> word_of_int d > kMaxDurationNanos)"

section \<open>Messages\<close>

definition hello_wire :: "hello_message \<Rightarrow> bool" where
  [message_defs]: "hello_wire m \<longleftrightarrow>
    wild_ok (hel_cluster m) \<and> wild_ok (hel_domain m) \<and> uuid_ok (hel_incarnation m) \<and>
    hel_generation m \<le> kMaxGeneration \<and> hel_policy_generation m \<le> kMaxGeneration \<and>
    hel_agent_term m \<le> kMaxGeneration \<and>
    \<not> hel_protocol_max m < hel_protocol_min m \<and> digest_ok (hel_content_digest m) \<and>
    i64_ok (hel_started_at m)"

declare encode_hello_def [message_defs] hello_body_def [message_defs]

interpretation hello: canonical_codec encode_hello hello_body hello_wire
  by unfold_locales (simp add: message_defs message_steps, auto simp: message_defs reader_iffs dest!: message_sound)

definition hello_ack_wire :: "hello_ack_message \<Rightarrow> bool" where
  [message_defs]: "hello_ack_wire m \<longleftrightarrow>
    uuid_ok (hak_session m) \<and> uuid_ok (hak_coordinator m) \<and>
    hak_coordinator_term m \<le> kMaxGeneration \<and> digest_ok (hak_view_digest m) \<and>
    length (hak_revalidate m) \<le> kMaxGrants \<and> list_all uuid_ok (hak_revalidate m) \<and>
    note_ok (hak_detail m)"

declare encode_hello_ack_def [message_defs] hello_ack_body_def [message_defs]

interpretation hello_ack: canonical_codec encode_hello_ack hello_ack_body hello_ack_wire
  by unfold_locales (simp add: message_defs message_steps, auto simp: message_defs reader_iffs dest!: message_sound)

definition refuse_wire :: "refuse_message \<Rightarrow> bool" where
  [message_defs]: "refuse_wire m \<longleftrightarrow>
    note_ok (ref_detail m)"

declare encode_refuse_def [message_defs] refuse_body_def [message_defs]

interpretation refuse: canonical_codec encode_refuse refuse_body refuse_wire
  by unfold_locales (simp add: message_defs message_steps, auto simp: message_defs reader_iffs dest!: message_sound)

definition ping_wire :: "ping_message \<Rightarrow> bool" where
  [message_defs]: "ping_wire m \<longleftrightarrow>
    pin_sequence m \<le> kMaxGeneration \<and> i64_ok (pin_sent_at m)"

declare encode_ping_def [message_defs] ping_body_def [message_defs]

interpretation ping: canonical_codec encode_ping ping_body ping_wire
  by unfold_locales (simp add: message_defs message_steps, auto simp: message_defs reader_iffs dest!: message_sound)

definition pong_wire :: "pong_message \<Rightarrow> bool" where
  [message_defs]: "pong_wire m \<longleftrightarrow>
    pon_sequence m \<le> kMaxGeneration"

declare encode_pong_def [message_defs] pong_body_def [message_defs]

interpretation pong: canonical_codec encode_pong pong_body pong_wire
  by unfold_locales (simp add: message_defs message_steps, auto simp: message_defs reader_iffs dest!: message_sound)

definition report_cluster_wire :: "report_cluster_message \<Rightarrow> bool" where
  [message_defs]: "report_cluster_wire m \<longleftrightarrow>
    uuid_ok (rpc_session m) \<and> cluster_wire (rpc_cluster m)"

declare encode_report_cluster_def [message_defs] report_cluster_body_def [message_defs]

interpretation report_cluster: codec encode_report_cluster report_cluster_body report_cluster_wire
  by unfold_locales (simp add: message_defs message_steps)

definition report_ack_wire :: "report_ack_message \<Rightarrow> bool" where
  [message_defs]: "report_ack_wire m \<longleftrightarrow>
    uuid_ok (rpa_session m) \<and> rpa_revision m \<le> kMaxGeneration \<and>
    digest_ok (rpa_view_digest m) \<and> note_ok (rpa_detail m)"

declare encode_report_ack_def [message_defs] report_ack_body_def [message_defs]

interpretation report_ack: canonical_codec encode_report_ack report_ack_body report_ack_wire
  by unfold_locales (simp add: message_defs message_steps, auto simp: message_defs reader_iffs dest!: message_sound)

definition propose_contract_wire :: "propose_contract_message \<Rightarrow> bool" where
  [message_defs]: "propose_contract_wire m \<longleftrightarrow>
    uuid_ok (prc_session m) \<and> uuid_ok (prc_contract m) \<and> terms_wire (prc_terms m) \<and>
    uuid_ok (prc_attempt m)"

declare encode_propose_contract_def [message_defs] propose_contract_body_def [message_defs]

interpretation propose_contract: canonical_codec encode_propose_contract propose_contract_body propose_contract_wire
  by unfold_locales (simp add: message_defs message_steps, auto simp: message_defs reader_iffs dest!: message_sound)

definition contract_consent_wire :: "contract_consent_message \<Rightarrow> bool" where
  [message_defs]: "contract_consent_wire m \<longleftrightarrow>
    uuid_ok (con_session m) \<and> uuid_ok (con_contract m) \<and>
    digest_ok (con_terms_digest m) \<and> name_ok id_tag (con_endpoint m) \<and>
    uuid_ok (con_incarnation m) \<and> con_generation m \<le> kMaxGeneration \<and>
    con_policy_generation m \<le> kMaxGeneration \<and> con_agent_term m \<le> kMaxGeneration \<and>
    note_ok (con_reason m)"

declare encode_contract_consent_def [message_defs] contract_consent_body_def [message_defs]

interpretation contract_consent: canonical_codec encode_contract_consent contract_consent_body contract_consent_wire
  by unfold_locales (simp add: message_defs message_steps, auto simp: message_defs reader_iffs dest!: message_sound)

definition prepare_grant_wire :: "prepare_grant_message \<Rightarrow> bool" where
  [message_defs]: "prepare_grant_wire m \<longleftrightarrow>
    uuid_ok (prg_session m) \<and> grant_wire (prg_grant m)"

declare encode_prepare_grant_def [message_defs] prepare_grant_body_def [message_defs]

interpretation prepare_grant: canonical_codec encode_prepare_grant prepare_grant_body prepare_grant_wire
  by unfold_locales (simp add: message_defs message_steps, auto simp: message_defs reader_iffs dest!: message_sound)

definition grant_prepared_wire :: "grant_prepared_message \<Rightarrow> bool" where
  [message_defs]: "grant_prepared_wire m \<longleftrightarrow>
    uuid_ok (gpr_session m) \<and> uuid_ok (gpr_grant m) \<and> uuid_ok (gpr_attempt m) \<and>
    gpr_agent_term m \<le> kMaxGeneration \<and> digest_ok (gpr_enforcement_digest m) \<and>
    note_ok (gpr_detail m)"

declare encode_grant_prepared_def [message_defs] grant_prepared_body_def [message_defs]

interpretation grant_prepared: canonical_codec encode_grant_prepared grant_prepared_body grant_prepared_wire
  by unfold_locales (simp add: message_defs message_steps, auto simp: message_defs reader_iffs dest!: message_sound)

definition commit_grant_wire :: "commit_grant_message \<Rightarrow> bool" where
  [message_defs]: "commit_grant_wire m \<longleftrightarrow>
    uuid_ok (cmg_session m) \<and> uuid_ok (cmg_grant m) \<and> uuid_ok (cmg_attempt m)"

declare encode_commit_grant_def [message_defs] commit_grant_body_def [message_defs]

interpretation commit_grant: canonical_codec encode_commit_grant commit_grant_body commit_grant_wire
  by unfold_locales (simp add: message_defs message_steps, auto simp: message_defs reader_iffs dest!: message_sound)

definition grant_committed_wire :: "grant_committed_message \<Rightarrow> bool" where
  [message_defs]: "grant_committed_wire m \<longleftrightarrow>
    uuid_ok (gcm_session m) \<and> uuid_ok (gcm_grant m) \<and> uuid_ok (gcm_attempt m) \<and>
    gcm_agent_term m \<le> kMaxGeneration \<and> digest_ok (gcm_enforcement_digest m) \<and>
    note_ok (gcm_detail m)"

declare encode_grant_committed_def [message_defs] grant_committed_body_def [message_defs]

interpretation grant_committed: canonical_codec encode_grant_committed grant_committed_body grant_committed_wire
  by unfold_locales (simp add: message_defs message_steps, auto simp: message_defs reader_iffs dest!: message_sound)

definition abort_grant_wire :: "abort_grant_message \<Rightarrow> bool" where
  [message_defs]: "abort_grant_wire m \<longleftrightarrow>
    uuid_ok (abg_session m) \<and> uuid_ok (abg_grant m) \<and> uuid_ok (abg_attempt m) \<and>
    note_ok (abg_reason m)"

declare encode_abort_grant_def [message_defs] abort_grant_body_def [message_defs]

interpretation abort_grant: canonical_codec encode_abort_grant abort_grant_body abort_grant_wire
  by unfold_locales (simp add: message_defs message_steps, auto simp: message_defs reader_iffs dest!: message_sound)

definition grant_aborted_wire :: "grant_aborted_message \<Rightarrow> bool" where
  [message_defs]: "grant_aborted_wire m \<longleftrightarrow>
    uuid_ok (gab_session m) \<and> uuid_ok (gab_grant m) \<and> uuid_ok (gab_attempt m) \<and>
    note_ok (gab_reason m)"

declare encode_grant_aborted_def [message_defs] grant_aborted_body_def [message_defs]

interpretation grant_aborted: canonical_codec encode_grant_aborted grant_aborted_body grant_aborted_wire
  by unfold_locales (simp add: message_defs message_steps, auto simp: message_defs reader_iffs dest!: message_sound)

definition fence_wire :: "fence_message \<Rightarrow> bool" where
  [message_defs]: "fence_wire m \<longleftrightarrow>
    uuid_ok (fen_session m) \<and> fen_coordinator_term m \<le> kMaxGeneration \<and>
    length (fen_grants m) \<le> kMaxGrants \<and> list_all uuid_ok (fen_grants m) \<and>
    note_ok (fen_reason m)"

declare encode_fence_def [message_defs] fence_body_def [message_defs]

interpretation fence: canonical_codec encode_fence fence_body fence_wire
  by unfold_locales (simp add: message_defs message_steps, auto simp: message_defs reader_iffs dest!: message_sound)

definition fence_result_wire :: "fence_result \<Rightarrow> bool" where
  "fence_result_wire m \<longleftrightarrow>
    uuid_ok (fre_grant m)"

interpretation fence_result: canonical_codec encode_fence_result decode_fence_result fence_result_wire
  by unfold_locales (simp add: encode_fence_result_def decode_fence_result_def fence_result_wire_def message_steps, auto simp: encode_fence_result_def decode_fence_result_def fence_result_wire_def reader_iffs dest!: message_sound)

lemma fence_result_list_sound:
  "decode_list kMaxGrants decode_fence_result bs = Inr (xs, rest) \<Longrightarrow>
    list_all fence_result_wire xs \<and> length xs \<le> kMaxGrants \<and> bs = encode_list encode_fence_result xs @ rest"
  by (rule fence_result.decode_list_sound) (simp_all add: kMaxGrants_def)

lemmas [message_steps] = fence_result.decode_list_step

definition fence_ack_wire :: "fence_ack_message \<Rightarrow> bool" where
  [message_defs]: "fence_ack_wire m \<longleftrightarrow>
    uuid_ok (fak_session m) \<and>
    length (fak_results m) \<le> kMaxGrants \<and> list_all fence_result_wire (fak_results m)"

declare encode_fence_ack_def [message_defs] fence_ack_body_def [message_defs]

interpretation fence_ack: canonical_codec encode_fence_ack fence_ack_body fence_ack_wire
  by unfold_locales (simp add: message_defs message_steps, auto simp: message_defs reader_iffs dest!: message_sound fence_result_list_sound)

definition withdraw_wire :: "withdraw_message \<Rightarrow> bool" where
  [message_defs]: "withdraw_wire m \<longleftrightarrow>
    uuid_ok (wdr_session m) \<and> name_ok id_tag (wdr_cluster m) \<and>
    uuid_ok (wdr_incarnation m) \<and> wdr_generation m \<le> kMaxGeneration \<and>
    note_ok (wdr_reason m)"

declare encode_withdraw_def [message_defs] withdraw_body_def [message_defs]

interpretation withdraw: canonical_codec encode_withdraw withdraw_body withdraw_wire
  by unfold_locales (simp add: message_defs message_steps, auto simp: message_defs reader_iffs dest!: message_sound)

definition withdraw_ack_wire :: "withdraw_ack_message \<Rightarrow> bool" where
  [message_defs]: "withdraw_ack_wire m \<longleftrightarrow>
    uuid_ok (wak_session m) \<and> note_ok (wak_detail m)"

declare encode_withdraw_ack_def [message_defs] withdraw_ack_body_def [message_defs]

interpretation withdraw_ack: canonical_codec encode_withdraw_ack withdraw_ack_body withdraw_ack_wire
  by unfold_locales (simp add: message_defs message_steps, auto simp: message_defs reader_iffs dest!: message_sound)

definition status_request_wire :: "status_request_message \<Rightarrow> bool" where
  [message_defs]: "status_request_wire m \<longleftrightarrow>
    uuid_ok (srq_session m) \<and> uuid_ok (srq_request m)"

declare encode_status_request_def [message_defs] status_request_body_def [message_defs]

interpretation status_request: canonical_codec encode_status_request status_request_body status_request_wire
  by unfold_locales (simp add: message_defs message_steps, auto simp: message_defs reader_iffs dest!: message_sound)

definition grant_status_wire :: "grant_status_entry \<Rightarrow> bool" where
  "grant_status_wire m \<longleftrightarrow>
    uuid_ok (gse_grant m) \<and> uuid_ok (gse_attempt m) \<and>
    gse_agent_term m \<le> kMaxGeneration \<and> digest_ok (gse_enforcement_digest m)"

interpretation grant_status: canonical_codec encode_grant_status decode_grant_status grant_status_wire
  by unfold_locales (simp add: encode_grant_status_def decode_grant_status_def grant_status_wire_def message_steps, auto simp: encode_grant_status_def decode_grant_status_def grant_status_wire_def reader_iffs dest!: message_sound)

lemma grant_status_list_sound:
  "decode_list kMaxGrants decode_grant_status bs = Inr (xs, rest) \<Longrightarrow>
    list_all grant_status_wire xs \<and> length xs \<le> kMaxGrants \<and> bs = encode_list encode_grant_status xs @ rest"
  by (rule grant_status.decode_list_sound) (simp_all add: kMaxGrants_def)

lemmas [message_steps] = grant_status.decode_list_step

definition status_report_wire :: "status_report_message \<Rightarrow> bool" where
  [message_defs]: "status_report_wire m \<longleftrightarrow>
    uuid_ok (srp_session m) \<and> uuid_ok (srp_request m) \<and>
    name_ok id_tag (srp_cluster m) \<and> uuid_ok (srp_incarnation m) \<and>
    srp_generation m \<le> kMaxGeneration \<and> srp_policy_generation m \<le> kMaxGeneration \<and>
    srp_agent_term m \<le> kMaxGeneration \<and>
    length (srp_grants m) \<le> kMaxGrants \<and> list_all grant_status_wire (srp_grants m)"

declare encode_status_report_def [message_defs] status_report_body_def [message_defs]

interpretation status_report: canonical_codec encode_status_report status_report_body status_report_wire
  by unfold_locales (simp add: message_defs message_steps, auto simp: message_defs reader_iffs dest!: message_sound grant_status_list_sound)

definition query_wire :: "query_message \<Rightarrow> bool" where
  [message_defs]: "query_wire m \<longleftrightarrow>
    uuid_ok (qry_request m) \<and> wild_ok (qry_cluster m) \<and> wild_ok (qry_cluster_b m) \<and>
    wild_ok (qry_endpoint m) \<and> wild_ok (qry_endpoint_b m) \<and>
    uuid_ok (qry_contract m) \<and> uuid_ok (qry_grant m) \<and> wild_ok (qry_edge m) \<and>
    note_ok (qry_policy_id m) \<and> qry_capacity m \<le> kMaxCapacity \<and>
    unat (qry_limit m) \<le> kMaxQueryResults \<and>
    qry_source_generation m \<le> kMaxGeneration \<and>
    qry_target_generation m \<le> kMaxGeneration \<and> i64_ok (qry_at m)"

declare encode_query_def [message_defs] query_body_def [message_defs]

interpretation query: canonical_codec encode_query query_body query_wire
  by unfold_locales (simp add: message_defs message_steps, auto simp: message_defs reader_iffs dest!: message_sound)

definition admin_wire :: "admin_message \<Rightarrow> bool" where
  [message_defs]: "admin_wire m \<longleftrightarrow>
    uuid_ok (adm_request m) \<and> pred_option cluster_wire (adm_cluster m) \<and>
    pred_option link_wire (adm_link m) \<and> pred_option path_wire (adm_path m) \<and>
    pred_option policy_wire (adm_policy m) \<and> wild_ok (adm_cluster_id m) \<and>
    wild_ok (adm_cluster_b m) \<and> wild_ok (adm_endpoint m) \<and>
    wild_ok (adm_endpoint_b m) \<and> uuid_ok (adm_contract m) \<and> uuid_ok (adm_grant m) \<and>
    wild_ok (adm_edge m) \<and> note_ok (adm_policy_id m) \<and>
    adm_generation m \<le> kMaxGeneration \<and> adm_capacity m \<le> kMaxCapacity \<and>
    lease_ok (adm_lease_duration m) \<and> note_ok (adm_reason m)"

declare encode_admin_def [message_defs] admin_body_def [message_defs]

interpretation admin: codec encode_admin admin_body admin_wire
  by unfold_locales (simp add: message_defs message_steps)

definition admin_result_wire :: "admin_result_message \<Rightarrow> bool" where
  [message_defs]: "admin_result_wire m \<longleftrightarrow>
    uuid_ok (ads_request m) \<and> note_ok (ads_detail m) \<and>
    digest_ok (ads_view_digest m) \<and> ads_revision m \<le> kMaxGeneration \<and>
    uuid_ok (ads_contract m) \<and> uuid_ok (ads_grant m)"

declare encode_admin_result_def [message_defs] admin_result_body_def [message_defs]

interpretation admin_result: canonical_codec encode_admin_result admin_result_body admin_result_wire
  by unfold_locales (simp add: message_defs message_steps, auto simp: message_defs reader_iffs dest!: message_sound)

definition error_wire :: "error_message \<Rightarrow> bool" where
  [message_defs]: "error_wire m \<longleftrightarrow>
    uuid_ok (err_request m) \<and> note_ok (err_detail m)"

declare encode_error_def [message_defs] error_body_def [message_defs]

interpretation error: canonical_codec encode_error error_body error_wire
  by unfold_locales (simp add: message_defs message_steps, auto simp: message_defs reader_iffs dest!: message_sound)

section \<open>Query results\<close>

text \<open>A result that holds nothing but the answer to its kind of query.\<close>

definition result_head :: "query_result_message \<Rightarrow> query_result_message" where
  "result_head m = blank_result (qrs_request m) (qrs_kind m) (qrs_outcome m) (qrs_detail m)"

definition answer_wire :: "query_result_message \<Rightarrow> bool" where
  "answer_wire m \<longleftrightarrow>
    (case qrs_kind m of
       QueryKind_Unnamed \<Rightarrow> m = result_head m
     | QueryKind_Status \<Rightarrow> m = (result_head m)\<lparr>qrs_status := qrs_status m\<rparr> \<and> pred_option status_wire (qrs_status m)
     | QueryKind_ListClusters \<Rightarrow> m = (result_head m)\<lparr>qrs_clusters := qrs_clusters m\<rparr> \<and> length (qrs_clusters m) \<le> kMaxClusters \<and> list_all cluster_wire (qrs_clusters m)
     | QueryKind_ShowCluster \<Rightarrow> m = (result_head m)\<lparr>qrs_clusters := qrs_clusters m\<rparr> \<and> length (qrs_clusters m) \<le> kMaxClusters \<and> list_all cluster_wire (qrs_clusters m)
     | QueryKind_ListLinks \<Rightarrow> m = (result_head m)\<lparr>qrs_links := qrs_links m\<rparr> \<and> length (qrs_links m) \<le> kMaxEdges \<and> list_all link_wire (qrs_links m)
     | QueryKind_ListPaths \<Rightarrow> m = (result_head m)\<lparr>qrs_paths := qrs_paths m\<rparr> \<and> length (qrs_paths m) \<le> kMaxPaths \<and> list_all path_wire (qrs_paths m)
     | QueryKind_ListPolicies \<Rightarrow> m = (result_head m)\<lparr>qrs_policies := qrs_policies m\<rparr> \<and> length (qrs_policies m) \<le> kMaxPolicyRules \<and> list_all policy_wire (qrs_policies m)
     | QueryKind_ListContracts \<Rightarrow> m = (result_head m)\<lparr>qrs_contracts := qrs_contracts m\<rparr> \<and> length (qrs_contracts m) \<le> kMaxContracts \<and> list_all contract_wire (qrs_contracts m)
     | QueryKind_ShowContract \<Rightarrow> m = (result_head m)\<lparr>qrs_contracts := qrs_contracts m\<rparr> \<and> length (qrs_contracts m) \<le> kMaxContracts \<and> list_all contract_wire (qrs_contracts m)
     | QueryKind_ListGrants \<Rightarrow> m = (result_head m)\<lparr>qrs_grants := qrs_grants m\<rparr> \<and> length (qrs_grants m) \<le> kMaxGrants \<and> list_all grant_wire (qrs_grants m)
     | QueryKind_ShowGrant \<Rightarrow> m = (result_head m)\<lparr>qrs_grants := qrs_grants m\<rparr> \<and> length (qrs_grants m) \<le> kMaxGrants \<and> list_all grant_wire (qrs_grants m)
     | QueryKind_ListReservations \<Rightarrow> m = (result_head m)\<lparr>qrs_reservations := qrs_reservations m\<rparr> \<and> length (qrs_reservations m) \<le> kMaxReservations \<and> list_all reservation_wire (qrs_reservations m)
     | QueryKind_ListAudit \<Rightarrow> m = (result_head m)\<lparr>qrs_audit := qrs_audit m\<rparr> \<and> length (qrs_audit m) \<le> kMaxAuditRecords \<and> list_all audit_wire (qrs_audit m)
     | QueryKind_Decide \<Rightarrow> m = (result_head m)\<lparr>qrs_decision := qrs_decision m\<rparr> \<and> pred_option decision_wire (qrs_decision m)
     | QueryKind_FencePlan \<Rightarrow> m = (result_head m)\<lparr>qrs_fence_plan := qrs_fence_plan m\<rparr> \<and> pred_option fence_plan_wire (qrs_fence_plan m)
     | QueryKind_Accounting \<Rightarrow> m = (result_head m)\<lparr>qrs_accounting := qrs_accounting m\<rparr> \<and> length (qrs_accounting m) \<le> kMaxReservations \<and> list_all accounting_wire (qrs_accounting m))"

definition query_result_wire :: "query_result_message \<Rightarrow> bool" where
  "query_result_wire m \<longleftrightarrow> uuid_ok (qrs_request m) \<and> note_ok (qrs_detail m) \<and> answer_wire m"

lemma bounds_small:
  "kMaxClusters < 4294967296" "kMaxEdges < 4294967296" "kMaxPaths < 4294967296" "kMaxPolicyRules < 4294967296"
  "kMaxContracts < 4294967296" "kMaxReservations < 4294967296" "kMaxAuditRecords < 4294967296"
  by (simp_all add: kMaxClusters_def kMaxEdges_def kMaxPaths_def kMaxPolicyRules_def kMaxContracts_def
      kMaxReservations_def kMaxAuditRecords_def)

lemmas answer_steps =
  cluster.decode_list_read link.decode_list_read path.decode_list_read policy.decode_list_read
  contract.decode_list_read grant.decode_list_read reservation.decode_list_read audit.decode_list_read
  accounting.decode_list_read decision.decode_optional_step fence_plan.decode_optional_step
  report.decode_optional_step bounds_small kMaxGrants_small

lemma answer_body_enc:
  assumes "answer_wire m"
  shows "answer_body (result_head m) (encode_answer m @ rest) = Inr (m, rest)"
proof -
  have k: "qrs_kind (result_head m) = qrs_kind m" by (simp add: result_head_def blank_result_def)
  show ?thesis
    using assms
    by (cases "qrs_kind m") (simp_all add: answer_body_def encode_answer_def k answer_wire_def answer_steps)
qed

interpretation query_result: codec encode_query_result query_result_body query_result_wire
proof
  fix x rest assume "query_result_wire x"
  then show "query_result_body (encode_query_result x @ rest) = Inr (x, rest)"
    using answer_body_enc [of x rest]
    by (simp add: query_result_wire_def query_result_body_def encode_query_result_def message_steps
        flip: result_head_def)
qed

section \<open>Payloads\<close>

context codec
begin

lemma whole_message_enc: "ok m \<Longrightarrow> whole_message dec (enc m) = Inr m"
  by (simp add: whole_message_def dec_enc_end expect_end_def)

end

context canonical_codec
begin

lemma whole_message_iff: "whole_message dec payload = Inr m \<longleftrightarrow> ok m \<and> payload = enc m"
proof
  assume "whole_message dec payload = Inr m"
  then have "dec payload = Inr (m, [])"
    by (auto simp: whole_message_def expect_end_def split: sum.splits if_splits)
  then show "ok m \<and> payload = enc m" by (simp add: dec_iff)
qed (simp add: whole_message_enc)

end

end
