(* ===== verification/Wire_Properties.thy ===== *)
theory Wire_Properties
  imports Frame_Laws Connection Message_Laws Sample
begin

text \<open>The properties of frames, connections and message payloads.\<close>

section \<open>Frames\<close>

text \<open>
  C13. The frame parser accepts exactly the frames: it yields a frame if and only if the buffered
  bytes start with the one encoding of a frame that is valid under the channel key, signed exactly
  when there is a key, with the right checksum and the right MAC; and it consumes exactly those bytes.
\<close>

theorem parser_accepts_exactly_frames:
  "parser_next key p = (Inr (Some f), p') \<longleftrightarrow>
    frame_ok key f \<and> fp_buffer p = frame_bytes key f @ fp_buffer p' \<and> p' = p\<lparr>fp_buffer := fp_buffer p'\<rparr>"
  by (rule parser_next_iff)

section \<open>Connections\<close>

text \<open>
  C23. Dispatching delivers what was sent, in order and at most 64 frames at a time: from a buffer that
  holds frames and the beginning of another the first 64 are handed over and the rest stays buffered;
  and from any buffer only valid frames are handed over, exactly those it starts with.
\<close>

theorem dispatch_delivers_in_order:
  assumes "cc_verify_key (cn_config c) = key" "\<not> cn_closed c"
    and "list_all (frame_ok key) fs" "frame_ok key g" "k < length (frame_bytes key g)"
    and "fp_buffer (cn_parser c) = concat (map (frame_bytes key) fs) @ take k (frame_bytes key g)"
    and "cc_verify_key (cn_config any) = key"
    and "dispatch (Some (\<lambda>f c' s. (status_ok, c', s @ [f]))) any [] = (st, any', delivered)"
  shows "dispatch (Some (\<lambda>f c' s. (status_ok, c', s @ [f]))) c [] =
      (status_ok, buffered (concat (map (frame_bytes key) (drop 64 fs)) @ take k (frame_bytes key g)) c, take 64 fs)
    \<and> length delivered \<le> 64 \<and> list_all (frame_ok key) delivered
    \<and> fp_buffer (cn_parser any) = concat (map (frame_bytes key) delivered) @ fp_buffer (cn_parser any')"
proof -
  have collect: "fold (\<lambda>f s. s @ [f]) xs ys = ys @ xs" for xs ys :: "frame list"
    by (induction xs arbitrary: ys) simp_all
  show ?thesis
    using dispatch_frames_delivers [OF assms(1,3,4,5,2,6), of "\<lambda>f c' s. (status_ok, c', s @ [f])" "\<lambda>f s. s @ [f]" 64 "[]"]
      dispatch_frames_authentic [of 64 "\<lambda>f c' s. (status_ok, c', s @ [f])" any "[]" st any' delivered key "\<lambda>f s. s @ [f]"] assms(7,8)
    by (auto simp: dispatch_def kMaxFramesPerIteration_def collect)
qed

definition sample_ping :: frame where
  "sample_ping = \<lparr>fr_header = \<lparr>fh_version = 1, fh_type = MessageType_Ping, fh_flags = 0, fh_payload_length = 0\<rparr>,
     fr_payload = [], fr_signed_frame = False\<rparr>"

definition sample_connection :: connection where
  "sample_connection = new_connection \<lparr>cc_max_payload = 1024, cc_max_queued_bytes = 4096, cc_max_pending_frames = 8,
     cc_idle_deadline = 30, cc_verify_key = [], cc_sign_outbound = False\<rparr>"

lemma sample_ping_ok: "frame_ok [] sample_ping"
  by (simp add: frame_ok_def sample_ping_def header_valid_def message_type_known_def)

theorem dispatch_delivers_in_order_witness:
  "snd (snd (dispatch (Some (\<lambda>f c' s. (status_ok, c', s @ [f])))
     (buffered (frame_bytes [] sample_ping @ frame_bytes [] sample_ping) sample_connection) []))
   = [sample_ping, sample_ping]"
proof -
  let ?c = "buffered (frame_bytes [] sample_ping @ frame_bytes [] sample_ping) sample_connection"
  obtain st c' out where run: "dispatch (Some (\<lambda>f c' s. (status_ok, c', s @ [f]))) ?c [] = (st, c', out)"
    by (metis prod_cases3)
  have c: "cc_verify_key (cn_config ?c) = []" "\<not> cn_closed ?c"
    by (simp_all add: sample_connection_def new_connection_def)
  have pos: "0 < length (frame_bytes [] sample_ping)" by (simp add: frame_bytes_def covered_bytes_def)
  have ok: "list_all (frame_ok []) [sample_ping, sample_ping]" by (simp add: sample_ping_ok)
  have buffer: "fp_buffer (cn_parser ?c) = concat (map (frame_bytes []) [sample_ping, sample_ping]) @ take 0 (frame_bytes [] sample_ping)"
    by simp
  have "dispatch (Some (\<lambda>f c' s. (status_ok, c', s @ [f]))) ?c [] =
      (status_ok, buffered (concat (map (frame_bytes []) (drop 64 [sample_ping, sample_ping])) @ take 0 (frame_bytes [] sample_ping)) ?c,
       take 64 [sample_ping, sample_ping])"
    by (rule conjunct1 [OF dispatch_delivers_in_order [OF c ok sample_ping_ok pos buffer c(1) run]])
  then show ?thesis by (simp only: snd_conv) simp
qed

text \<open>
  C24. The output queue neither loses nor duplicates nor reorders a byte: flushing sends a prefix of
  what is pending and keeps the rest, whatever the socket accepts; queueing appends exactly one frame
  that the peer's parser accepts, or refuses and changes nothing.
\<close>

theorem output_queue_conserves:
  assumes "queue_ok c" "flush answers c = (s, c1, sent)"
    and "queue_frame type payload sign c1 = (q, c2)" "message_type_known type" "length payload < 2 ^ 32"
  shows "queue_ok c2 \<and> pending_output c = sent @ pending_output c1
    \<and> (if is_ok q
       then \<exists>f. frame_ok (if sign then cc_verify_key (cn_config c) else []) f \<and> fh_type (fr_header f) = type
         \<and> fr_payload f = payload
         \<and> sent @ pending_output c2 = pending_output c @ frame_bytes (if sign then cc_verify_key (cn_config c) else []) f
       else c2 = c1)"
proof -
  have flushed: "pending_output c = sent @ pending_output c1" "queue_ok c1" "cn_config c1 = cn_config c"
    using flush_sends_front [OF assms(2,1)] by simp_all
  show ?thesis
    using queue_frame_appends [OF assms(3) flushed(2) assms(4,5)] flushed by (auto simp: append_eq_append_conv2)
qed

theorem output_queue_conserves_witness:
  "\<exists>c2. queue_ok c2 \<and> snd (queue_frame MessageType_Ping [] False (fst (snd (flush [] sample_connection)))) = c2"
proof -
  obtain s c1 sent where fl: "flush [] sample_connection = (s, c1, sent)" by (metis prod_cases3)
  obtain q c2 where qu: "queue_frame MessageType_Ping [] False c1 = (q, c2)" by fastforce
  have "queue_ok sample_connection"
    by (simp add: queue_ok_def pending_output_def sample_connection_def new_connection_def)
  moreover have "message_type_known MessageType_Ping"
    by (simp add: message_type_known_def)
  ultimately have "queue_ok c2" using output_queue_conserves [OF _ fl qu] by simp
  then show ?thesis using fl qu by simp
qed

section \<open>Payloads\<close>

text \<open>
  C27. The payload of a message is canonical: a decoder accepts exactly the encodings of the messages
  whose fields are in range, nothing shorter, longer or spelled differently, for every kind of
  message except the three that carry cluster records.
\<close>

theorem payloads_are_canonical:
  "(decode_hello payload = Inr m1 \<longleftrightarrow> hello_wire m1 \<and> payload = encode_hello m1)
    \<and> (decode_hello_ack payload = Inr m2 \<longleftrightarrow> hello_ack_wire m2 \<and> payload = encode_hello_ack m2)
    \<and> (decode_refuse payload = Inr m3 \<longleftrightarrow> refuse_wire m3 \<and> payload = encode_refuse m3)
    \<and> (decode_ping payload = Inr m4 \<longleftrightarrow> ping_wire m4 \<and> payload = encode_ping m4)
    \<and> (decode_pong payload = Inr m5 \<longleftrightarrow> pong_wire m5 \<and> payload = encode_pong m5)
    \<and> (decode_report_ack payload = Inr m6 \<longleftrightarrow> report_ack_wire m6 \<and> payload = encode_report_ack m6)
    \<and> (decode_propose_contract payload = Inr m7 \<longleftrightarrow> propose_contract_wire m7 \<and> payload = encode_propose_contract m7)
    \<and> (decode_contract_consent payload = Inr m8 \<longleftrightarrow> contract_consent_wire m8 \<and> payload = encode_contract_consent m8)
    \<and> (decode_prepare_grant payload = Inr m9 \<longleftrightarrow> prepare_grant_wire m9 \<and> payload = encode_prepare_grant m9)
    \<and> (decode_grant_prepared payload = Inr m10 \<longleftrightarrow> grant_prepared_wire m10 \<and> payload = encode_grant_prepared m10)
    \<and> (decode_commit_grant payload = Inr m11 \<longleftrightarrow> commit_grant_wire m11 \<and> payload = encode_commit_grant m11)
    \<and> (decode_grant_committed payload = Inr m12 \<longleftrightarrow> grant_committed_wire m12 \<and> payload = encode_grant_committed m12)
    \<and> (decode_abort_grant payload = Inr m13 \<longleftrightarrow> abort_grant_wire m13 \<and> payload = encode_abort_grant m13)
    \<and> (decode_grant_aborted payload = Inr m14 \<longleftrightarrow> grant_aborted_wire m14 \<and> payload = encode_grant_aborted m14)
    \<and> (decode_fence payload = Inr m15 \<longleftrightarrow> fence_wire m15 \<and> payload = encode_fence m15)
    \<and> (decode_fence_ack payload = Inr m16 \<longleftrightarrow> fence_ack_wire m16 \<and> payload = encode_fence_ack m16)
    \<and> (decode_withdraw payload = Inr m17 \<longleftrightarrow> withdraw_wire m17 \<and> payload = encode_withdraw m17)
    \<and> (decode_withdraw_ack payload = Inr m18 \<longleftrightarrow> withdraw_ack_wire m18 \<and> payload = encode_withdraw_ack m18)
    \<and> (decode_status_request payload = Inr m19 \<longleftrightarrow> status_request_wire m19 \<and> payload = encode_status_request m19)
    \<and> (decode_status_report payload = Inr m20 \<longleftrightarrow> status_report_wire m20 \<and> payload = encode_status_report m20)
    \<and> (decode_query payload = Inr m21 \<longleftrightarrow> query_wire m21 \<and> payload = encode_query m21)
    \<and> (decode_admin_result payload = Inr m22 \<longleftrightarrow> admin_result_wire m22 \<and> payload = encode_admin_result m22)
    \<and> (decode_error payload = Inr m23 \<longleftrightarrow> error_wire m23 \<and> payload = encode_error m23)"
  unfolding decode_hello_def decode_hello_ack_def decode_refuse_def decode_ping_def decode_pong_def decode_report_ack_def decode_propose_contract_def decode_contract_consent_def decode_prepare_grant_def decode_grant_prepared_def decode_commit_grant_def decode_grant_committed_def decode_abort_grant_def decode_grant_aborted_def decode_fence_def decode_fence_ack_def decode_withdraw_def decode_withdraw_ack_def decode_status_request_def decode_status_report_def decode_query_def decode_admin_result_def decode_error_def
  by (intro conjI) (rule hello.whole_message_iff hello_ack.whole_message_iff refuse.whole_message_iff ping.whole_message_iff pong.whole_message_iff report_ack.whole_message_iff propose_contract.whole_message_iff contract_consent.whole_message_iff prepare_grant.whole_message_iff grant_prepared.whole_message_iff commit_grant.whole_message_iff grant_committed.whole_message_iff abort_grant.whole_message_iff grant_aborted.whole_message_iff fence.whole_message_iff fence_ack.whole_message_iff withdraw.whole_message_iff withdraw_ack.whole_message_iff status_request.whole_message_iff status_report.whole_message_iff query.whole_message_iff admin_result.whole_message_iff error.whole_message_iff)+

text \<open>
  A cluster report, an administration request and the answer to a query are read back as they
  were written.
\<close>

lemma record_payloads_round_trip:
  "(report_cluster_wire m1 \<longrightarrow> decode_report_cluster (encode_report_cluster m1) = Inr m1)
    \<and> (admin_wire m2 \<longrightarrow> decode_admin (encode_admin m2) = Inr m2)
    \<and> (query_result_wire m3 \<longrightarrow> decode_query_result (encode_query_result m3) = Inr m3)"
  by (simp add: decode_report_cluster_def decode_admin_def decode_query_result_def report_cluster.whole_message_enc
      admin.whole_message_enc query_result.whole_message_enc)

end
