(* ===== verification/Action.thy ===== *)
theory Action
  imports Status
begin

text \<open>
  A member function that returns a status and changes the state of its object: from a state to the
  status and the state after it, or \<open>None\<close> when it throws. The combinators are the shapes of control flow
  the coordinator and the agent share.
\<close>

definition set_party :: "nat \<Rightarrow> 'a \<Rightarrow> 'a \<times> 'a \<Rightarrow> 'a \<times> 'a" where
  "set_party i v p = (if i = 0 then (v, snd p) else (fst p, v))"

type_synonym 's step = "'s \<Rightarrow> (status \<times> 's) option"

definition return :: "status \<Rightarrow> 's step" where
  "return s c = Some (s, c)"

text \<open>\<open>const Status s = a(); if (!s) return s; b();\<close>\<close>

definition and_do :: "'s step \<Rightarrow> 's step \<Rightarrow> 's step" where
  "and_do a b c = (case a c of None \<Rightarrow> None | Some (s, c') \<Rightarrow> if is_ok s then b c' else Some (s, c'))"

definition change :: "('s \<Rightarrow> 's) \<Rightarrow> 's step" where
  "change f c = Some (status_ok, f c)"

lemma and_do_ok:
  assumes "and_do a b c = Some (s, c')" "is_ok s"
  obtains s1 c1 where "a c = Some (s1, c1)" "is_ok s1" "b c1 = Some (s, c')"
  using assms by (auto simp: and_do_def split: option.splits if_splits)

end
