(* ===== verification/Time.thy ===== *)
theory Time
  imports Ids
begin

text \<open>
  \<open>core/time.cpp\<close>: arithmetic on timestamps and the text form of durations. Both are integers in the
  range of a signed 64-bit value; adding saturates, subtracting is exact where the result fits.
\<close>

definition timestamp_plus :: "timestamp \<Rightarrow> duration \<Rightarrow> timestamp" where
  "timestamp_plus t delta =
    (if delta > 0 \<and> t > (2 ^ 63 - 1) - delta then 2 ^ 63 - 1
     else if delta < 0 \<and> t < - (2 ^ 63) - delta then - (2 ^ 63)
     else t + delta)"

definition timestamp_since :: "timestamp \<Rightarrow> timestamp \<Rightarrow> duration" where
  "timestamp_since t earlier = t - earlier"

text \<open>The decimal magnitude and the text after it; \<open>None\<close> where a step overflows.\<close>

fun read_magnitude :: "string \<Rightarrow> u64 \<Rightarrow> nat \<Rightarrow> (u64 \<times> nat \<times> string) option" where
  "read_magnitude [] magnitude digits = Some (magnitude, digits, [])"
| "read_magnitude (c # cs) magnitude digits =
    (if \<not> char_between CHR ''0'' CHR ''9'' c then Some (magnitude, digits, c # cs)
     else case mul_u64 magnitude 10 of
       None \<Rightarrow> None
     | Some tens \<Rightarrow>
         (case add_u64 tens (word_of_nat (of_char c - 48)) of
            None \<Rightarrow> None
          | Some next \<Rightarrow> read_magnitude cs next (digits + 1)))"

definition unit_multiplier :: "string \<Rightarrow> u64 option" where
  "unit_multiplier unit =
    (if unit = ''ns'' then Some 1
     else if unit = ''us'' then Some 1000
     else if unit = ''ms'' then Some 1000000
     else if unit = ''s'' then Some 1000000000
     else if unit = ''m'' then Some 60000000000
     else if unit = ''h'' then Some 3600000000000
     else None)"

definition duration_parse :: "string \<Rightarrow> duration result" where
  "duration_parse text =
    (if text = [] \<or> length text > 24
     then Inl (invalid ''duration must be a number followed by ns, us, ms, s, m, or h'')
     else case read_magnitude text 0 0 of
       None \<Rightarrow> Inl (status_make Outcome_Overflow ''duration magnitude overflows'')
     | Some (magnitude, digits, unit) \<Rightarrow>
         if digits = 0 then Inl (invalid ''duration must begin with a decimal magnitude'')
         else case unit_multiplier unit of
           None \<Rightarrow> Inl (invalid ''unrecognised duration unit'')
         | Some multiplier \<Rightarrow>
             (case mul_u64 magnitude multiplier of
                None \<Rightarrow> Inl (status_make Outcome_Overflow ''duration exceeds the maximum supported span'')
              | Some nanos \<Rightarrow>
                  if nanos > kMaxDurationNanos
                  then Inl (status_make Outcome_Overflow ''duration exceeds the maximum supported span'')
                  else Inr (uint nanos)))"

section \<open>Laws\<close>

lemma timestamp_plus_ok: "i64_ok t \<Longrightarrow> i64_ok d \<Longrightarrow> i64_ok (timestamp_plus t d)"
  by (auto simp: timestamp_plus_def i64_ok_def)

lemma timestamp_plus_exact: "i64_ok (t + d) \<Longrightarrow> timestamp_plus t d = t + d"
  by (auto simp: timestamp_plus_def i64_ok_def)

lemma duration_parse_bound:
  assumes "duration_parse text = Inr d"
  shows "0 \<le> d \<and> d \<le> uint kMaxDurationNanos"
  using assms by (auto simp: duration_parse_def word_less_alt not_less split: if_splits option.splits prod.splits)

end
