(* ===== verification/Coordinator.thy ===== *)
theory Coordinator
  imports Action Durable_Store Fencing_Laws Connection Messages Time
begin

text \<open>
  \<open>runtime/coordinator.cpp\<close>: the state of the coordinator and the operations its handlers share. The
  state holds the registry, the durable store with the disk under it, the connections and the
  sessions on them. What the environment decides is part of the state: the time the clock shows
  while a handler runs, the answers of the operating system to the file calls to come, and the
  identities the random source will draw. A member function that returns a status is an \<open>action\<close>: it
  changes the state and returns the status, and \<open>None\<close> is the exception of the audit trail.
\<close>

section \<open>State\<close>

record coordinator_config =
  cf_state_directory :: string
  cf_domain :: domain_id
  cf_durable :: bool
  cf_allow_agent_registration :: bool
  cf_domain_keys :: "(string, string) omap"
  cf_default_lease :: duration
  cf_ping_interval :: duration
  cf_grant_flow_deadline :: duration
  cf_compact_bytes :: u64
  cf_compact_records :: u64

record peer_session =
  se_role :: peer_role
  se_cluster :: cluster_id
  se_domain :: domain_id
  se_token :: session_token
  se_incarnation :: incarnation_id
  se_generation :: u64
  se_policy_generation :: u64
  se_agent_term :: u64
  se_signing :: bool
  se_hello_complete :: bool
  se_connected_at :: timestamp
  se_connection_id :: u64

record send_target =
  tg_connected :: bool
  tg_connection_id :: u64
  tg_token :: session_token

definition no_target :: send_target where
  "no_target = \<lparr>tg_connected = False, tg_connection_id = 0, tg_token = nil_uuid\<rparr>"

record pending_grant =
  pn_grant :: grant_id
  pn_contract :: contract_id
  pn_prepared :: "bool \<times> bool"
  pn_targets :: "send_target \<times> send_target"
  pn_deadline :: timestamp
  pn_attempts :: u32

record coordinator =
  cd_config :: coordinator_config
  cd_store :: durable_store
  cd_recovery :: store_recovery
  cd_registry :: registry
  cd_term :: u64
  cd_incarnation :: incarnation_id
  cd_previous_incarnation :: incarnation_id
  cd_started_at :: timestamp
  cd_connections :: "(u64, connection) omap"
  cd_sessions :: "(u64, peer_session) omap"
  cd_pending :: "(grant_id, pending_grant) omap"
  cd_commits :: u64
  cd_fences :: u64
  cd_refusals :: u64
  cd_revalidations :: u64
  cd_rejected_replays :: u64
  cd_rejected_frames :: u64
  cd_pongs_received :: u64
  cd_errors_received :: u64
  cd_started :: bool
  cd_disk :: disk
  cd_now :: timestamp
  cd_monotonic :: int
  cd_answers :: "nat \<Rightarrow> os_answers"
  cd_calls :: nat
  cd_identities :: "nat \<Rightarrow> uuid"
  cd_drawn :: nat

section \<open>Actions\<close>

type_synonym action = "coordinator step"

definition set_registry :: "registry \<Rightarrow> coordinator \<Rightarrow> coordinator" where
  "set_registry r c = c\<lparr>cd_registry := r\<rparr>"

definition set_cluster :: "cluster_id \<Rightarrow> cluster_record \<Rightarrow> coordinator \<Rightarrow> coordinator" where
  "set_cluster key rec c =
    set_registry ((cd_registry c)\<lparr>rg_clusters := om_put key rec (rg_clusters (cd_registry c))\<rparr>) c"

definition set_contract :: "contract_id \<Rightarrow> contract_record \<Rightarrow> coordinator \<Rightarrow> coordinator" where
  "set_contract key rec c =
    set_registry ((cd_registry c)\<lparr>rg_contracts := om_put key rec (rg_contracts (cd_registry c))\<rparr>) c"

definition set_grant :: "grant_id \<Rightarrow> grant_record \<Rightarrow> coordinator \<Rightarrow> coordinator" where
  "set_grant key rec c =
    set_registry ((cd_registry c)\<lparr>rg_grants := om_put key rec (rg_grants (cd_registry c))\<rparr>) c"

definition draw :: "coordinator \<Rightarrow> uuid \<times> coordinator" where
  "draw c = (cd_identities c (cd_drawn c), c\<lparr>cd_drawn := Suc (cd_drawn c)\<rparr>)"

definition reject_frame :: "coordinator \<Rightarrow> coordinator" where
  "reject_frame c = c\<lparr>cd_rejected_frames := cd_rejected_frames c + 1\<rparr>"

definition reject_replay :: "coordinator \<Rightarrow> coordinator" where
  "reject_replay c = c\<lparr>cd_rejected_replays := cd_rejected_replays c + 1\<rparr>"

definition count_refusal :: "coordinator \<Rightarrow> coordinator" where
  "count_refusal c = c\<lparr>cd_refusals := cd_refusals c + 1\<rparr>"

section \<open>The store\<close>

definition append_mutation :: "mutation \<Rightarrow> action" where
  "append_mutation m c =
    (case store_append (cd_answers c (cd_calls c)) m (cd_now c) (cd_store c) (cd_disk c) of
       (appended, ds, disk) \<Rightarrow>
         let c' = c\<lparr>cd_store := ds, cd_disk := disk, cd_calls := Suc (cd_calls c)\<rparr>
         in Some (case appended of Inl e \<Rightarrow> e | Inr _ \<Rightarrow> status_ok, c'))"

fun persist_all :: "mutation list \<Rightarrow> action" where
  "persist_all [] = return status_ok"
| "persist_all (m # ms) = and_do (append_mutation m) (persist_all ms)"

text \<open>The member function \<open>append_audit\<close>: a full trail is not an error.\<close>

definition audit :: "string \<Rightarrow> string \<Rightarrow> string \<Rightarrow> outcome \<Rightarrow> string \<Rightarrow> action" where
  "audit actor what subject out detail c =
    (if length (rg_audit (cd_registry c)) \<ge> kMaxAuditRecords then Some (status_ok, c)
     else case append_audit (cd_now c) actor what subject out detail (cd_registry c) of
       None \<Rightarrow> None
     | Some (recorded, r') \<Rightarrow>
         if \<not> is_ok recorded then Some (recorded, set_registry r' c)
         else append_mutation (Mutation_AuditAppend (last (rg_audit r'))) (set_registry r' c))"

definition compact_if_needed :: action where
  "compact_if_needed c =
    (if \<not> store_needs_compaction (cd_store c) then Some (status_ok, c)
     else
       let r = cd_registry c;
           meta = (re_meta (cd_recovery c))\<lparr>sm_term := cd_term c, sm_incarnation := cd_incarnation c,
             sm_revision := word_of_nat (rc_clusters (counts r) + rc_contracts (counts r) + rc_grants (counts r)),
             sm_state_digest := registry_digest r\<rparr>;
           (stream, c1) = draw c
       in case compact (cd_answers c (cd_calls c)) (cd_answers c (Suc (cd_calls c))) stream r meta (cd_now c)
                 (cd_store c) (cd_disk c) of
            (s, ds, disk) \<Rightarrow>
              Some (s, c1\<lparr>cd_store := ds, cd_disk := disk, cd_calls := cd_calls c + 2\<rparr>))"

section \<open>Sending\<close>

definition kVirtualConnection :: u64 where "kVirtualConnection = 0"

definition connection_for :: "coordinator \<Rightarrow> u64 \<Rightarrow> connection option" where
  "connection_for c key = (if key = kVirtualConnection then None else om_find (cd_connections c) key)"

definition send_to :: "u64 \<Rightarrow> message_type \<Rightarrow> bytes \<Rightarrow> action" where
  "send_to key type payload c =
    (case connection_for c key of
       None \<Rightarrow> Some (status_ok, c)
     | Some connection \<Rightarrow>
         (case queue_frame type payload (cc_sign_outbound (cn_config connection)) connection of
            (s, connection') \<Rightarrow>
              Some (s, c\<lparr>cd_connections := om_put key connection' (cd_connections c)\<rparr>)))"

text \<open>\<open>(void)send_to(...)\<close>\<close>

definition send_anyway :: "u64 \<Rightarrow> message_type \<Rightarrow> bytes \<Rightarrow> coordinator \<Rightarrow> coordinator" where
  "send_anyway key type payload c = (case send_to key type payload c of None \<Rightarrow> c | Some (_, c') \<Rightarrow> c')"

definition channel_key_for :: "coordinator \<Rightarrow> domain_id \<Rightarrow> bytes" where
  "channel_key_for c domain =
    (case om_find (cf_domain_keys (cd_config c)) domain of
       None \<Rightarrow> []
     | Some key \<Rightarrow> bytes_of_string key)"

definition send_refuse :: "u64 \<Rightarrow> outcome \<Rightarrow> string \<Rightarrow> action" where
  "send_refuse key out detail c =
    send_to key MessageType_Refuse (encode_refuse \<lparr>ref_outcome = out, ref_detail = detail\<rparr>) (count_refusal c)"

definition send_error :: "u64 \<Rightarrow> uuid \<Rightarrow> outcome \<Rightarrow> string \<Rightarrow> action" where
  "send_error key request out detail =
    send_to key MessageType_Error (encode_error \<lparr>err_request = request, err_outcome = out, err_detail = detail\<rparr>)"

text \<open>The answer to a payload that does not decode.\<close>

definition refuse_frame :: "u64 \<Rightarrow> status \<Rightarrow> action" where
  "refuse_frame key e c = send_error key nil_uuid (st_outcome e) (st_message e) (reject_frame c)"

section \<open>Sessions\<close>

definition session_for :: "coordinator \<Rightarrow> u64 \<Rightarrow> peer_session option" where
  "session_for c key = om_find (cd_sessions c) key"

definition require_session :: "u64 \<Rightarrow> session_token \<Rightarrow> coordinator \<Rightarrow> peer_session result \<times> coordinator" where
  "require_session key token c =
    (case session_for c key of
       None \<Rightarrow>
         (Inl (status_make Outcome_Unauthorized ''message received before a completed handshake''), reject_replay c)
     | Some session \<Rightarrow>
         if \<not> se_hello_complete session
         then (Inl (status_make Outcome_Unauthorized ''message received before a completed handshake''), reject_replay c)
         else if se_token session \<noteq> token
         then (Inl (status_make Outcome_Replayed ''session token does not match the established session''),
               reject_replay c)
         else (Inr session, c))"

text \<open>The front of every session-bound handler.\<close>

definition with_session :: "u64 \<Rightarrow> session_token \<Rightarrow> (peer_session \<Rightarrow> action) \<Rightarrow> action" where
  "with_session key token body c =
    (case require_session key token c of
       (Inl e, c') \<Rightarrow> send_error key nil_uuid (st_outcome e) (st_message e) c'
     | (Inr session, c') \<Rightarrow> body session c')"

definition better_session :: "peer_session \<Rightarrow> peer_session option \<Rightarrow> peer_session option" where
  "better_session session best =
    (case best of
       None \<Rightarrow> Some session
     | Some b \<Rightarrow>
         if se_connected_at b < se_connected_at session
           \<or> (se_connected_at b = se_connected_at session \<and> se_connection_id b < se_connection_id session)
         then Some session else best)"

definition live_agent :: "peer_session \<Rightarrow> bool" where
  "live_agent s \<longleftrightarrow> se_role s = PeerRole_Agent \<and> se_hello_complete s"

definition target_for :: "coordinator \<Rightarrow> cluster_id \<Rightarrow> send_target" where
  "target_for c cluster =
    (case fold better_session
            (filter (\<lambda>s. live_agent s \<and> se_cluster s = cluster) (map snd (cd_sessions c))) None of
       None \<Rightarrow> no_target
     | Some b \<Rightarrow> \<lparr>tg_connected = True, tg_connection_id = se_connection_id b, tg_token = se_token b\<rparr>)"

end
