(* ===== verification/Grant_Flow.thy ===== *)
theory Grant_Flow
  imports Coordinator
begin

text \<open>
  \<open>runtime/coordinator.cpp\<close>: fencing with its persistence and notices, and the flow of a grant from
  preparing over the commit by both agents to the reservation of capacity. Also the start of the
  coordinator: opening the store, a new term, and the fence of everything recovered.
\<close>

section \<open>Fencing\<close>

text \<open>What is written to the log for one action, from the registry after the plan was applied.\<close>

definition fence_mutations :: "registry \<Rightarrow> fence_action \<Rightarrow> mutation list" where
  "fence_mutations r a =
    (case fa_target a of
       FenceTarget_Grant \<Rightarrow> (case find_grant r (fa_grant a) of None \<Rightarrow> [] | Some g \<Rightarrow> [Mutation_GrantPut g])
     | FenceTarget_Contract \<Rightarrow>
         (case find_contract r (fa_contract a) of None \<Rightarrow> [] | Some k \<Rightarrow> [Mutation_ContractPut k])
     | FenceTarget_Reservation \<Rightarrow>
         (case find_reservation r (fa_reservation a) of None \<Rightarrow> [] | Some rs \<Rightarrow> [Mutation_ReservationPut rs]))"

definition fenced_ids :: "registry \<Rightarrow> fence_action \<Rightarrow> grant_id list" where
  "fenced_ids r a =
    (case fa_target a of
       FenceTarget_Grant \<Rightarrow>
         (case find_grant r (fa_grant a) of
            None \<Rightarrow> []
          | Some g \<Rightarrow> if gr_state g = GrantState_Fenced then [gr_id g] else [])
     | _ \<Rightarrow> [])"

definition notify_fence :: "fence_plan \<Rightarrow> grant_id list \<Rightarrow> coordinator \<Rightarrow> coordinator" where
  "notify_fence plan grants c =
    (if grants = [] then c
     else fold (\<lambda>(key, session) c'.
            if live_agent session
            then send_anyway key MessageType_Fence
                   (encode_fence \<lparr>fen_session = se_token session, fen_coordinator_term = cd_term c,
                      fen_grants = grants,
                      fen_reason = ''fenced by '' @ fence_trigger_to_string (fp_trigger plan)\<rparr>) c'
            else c') (cd_sessions c) c)"

definition fence_plan_apply :: "fence_plan \<Rightarrow> string \<Rightarrow> action" where
  "fence_plan_apply plan actor c =
    (if fp_actions plan = [] then Some (status_ok, c)
     else
       let audit_before = length (rg_audit (cd_registry c)) in
       case apply_fence_plan plan (cd_now c) actor (cd_registry c) of
         None \<Rightarrow> None
       | Some (Inl e, r') \<Rightarrow> Some (e, set_registry r' c)
       | Some (Inr fo, r') \<Rightarrow>
           and_do (persist_all (concat (map (fence_mutations r') (fp_actions plan))
                     @ map Mutation_ClusterPut (map snd (rg_clusters r'))
                     @ map Mutation_AuditAppend (drop audit_before (rg_audit r'))))
             (change (notify_fence plan (concat (map (fenced_ids r') (fp_actions plan)))))
             ((set_registry r' c)\<lparr>cd_fences := cd_fences c + fo_grants_fenced fo\<rparr>))"

definition fence_cluster ::
  "cluster_id \<Rightarrow> fence_trigger \<Rightarrow> incarnation_id \<Rightarrow> incarnation_id \<Rightarrow> u64 \<Rightarrow> action" where
  "fence_cluster cluster trigger new_incarnation previous_incarnation generation c =
    (let plan = plan_fence (cd_registry c) trigger cluster new_incarnation previous_incarnation generation (cd_term c)
     in and_do (fence_plan_apply plan ''coordinator'')
          (audit ''coordinator'' ''fence-cluster'' cluster Outcome_Fenced
            (''trigger='' @ fence_trigger_to_string trigger @ '' grants='' @ decimal (length (fp_actions plan)))) c)"

section \<open>Reserving, finishing and aborting\<close>

fun set_endpoint :: "endpoint_record \<Rightarrow> endpoint_record list \<Rightarrow> endpoint_record list" where
  "set_endpoint e [] = []"
| "set_endpoint e (x # xs) = (if ep_id x = ep_id e then e # xs else x # set_endpoint e xs)"

definition reserve_side :: "contract_record \<Rightarrow> grant_record \<Rightarrow> timestamp \<Rightarrow> nat \<Rightarrow> action" where
  "reserve_side contract grant at side c =
    (let party = party_at (co_parties contract) side in
     case find_cluster (cd_registry c) (pt_cluster party) of
       None \<Rightarrow> Some (not_found ''a bound cluster is not registered'', c)
     | Some cluster \<Rightarrow>
         (case find (\<lambda>e. ep_id e = pt_endpoint party) (cl_endpoints cluster) of
            None \<Rightarrow> Some (not_found ''a bound endpoint scope is not registered'', c)
          | Some endpoint \<Rightarrow>
              let requested = gr_capacity grant; already_reserved = ep_reserved endpoint in
              if requested > ep_capacity endpoint \<or> already_reserved > ep_capacity endpoint - requested
              then Some (status_make Outcome_CapacityExceeded
                     (''endpoint scope '' @ ep_id endpoint @ '' cannot reserve the requested capacity''), c)
              else
                let cluster' = cluster\<lparr>cl_endpoints :=
                      set_endpoint (endpoint\<lparr>ep_reserved := already_reserved + requested\<rparr>) (cl_endpoints cluster)\<rparr>;
                    (key, c1) = draw (set_cluster (pt_cluster party) cluster' c);
                    reservation = \<lparr>rs_id = key, rs_grant = gr_id grant, rs_endpoint = ep_id endpoint,
                      rs_cluster = cl_id cluster, rs_amount = requested, rs_released = False, rs_created_at = at,
                      rs_released_at = 0, rs_revision = 0, rs_provenance = derived_provenance at\<rparr>;
                    (stored, r') = put_reservation reservation (cd_registry c1)
                in if \<not> is_ok stored then Some (stored, set_registry r' c1)
                   else persist_all [Mutation_ReservationPut reservation, Mutation_ClusterPut cluster']
                          (set_registry r' c1)))"

definition reserve_capacity :: "grant_record \<Rightarrow> timestamp \<Rightarrow> action" where
  "reserve_capacity grant at c =
    (case find_contract (cd_registry c) (gr_contract grant) of
       None \<Rightarrow> Some (not_found ''the grant references an unknown contract'', c)
     | Some contract \<Rightarrow>
         and_do (reserve_side contract grant at 0) (reserve_side contract grant at 1) c)"

definition drop_pending :: "grant_id \<Rightarrow> coordinator \<Rightarrow> coordinator" where
  "drop_pending key c = c\<lparr>cd_pending := om_erase key (cd_pending c)\<rparr>"

definition abort_grant :: "grant_id \<Rightarrow> string \<Rightarrow> action" where
  "abort_grant key reason c =
    (case find_grant (cd_registry c) key of
       None \<Rightarrow> Some (status_ok, drop_pending key c)
     | Some g \<Rightarrow>
         if gr_state g = GrantState_Fenced \<or> gr_state g = GrantState_Withdrawn
         then Some (status_ok, drop_pending key c)
         else
           let g' = g\<lparr>gr_state := GrantState_Aborted, gr_note := reason\<rparr> in
           case append_mutation (Mutation_GrantPut g') (set_grant key g' c) of
             None \<Rightarrow> None
           | Some (persisted, c') \<Rightarrow>
               if \<not> is_ok persisted then Some (persisted, drop_pending key c')
               else audit ''coordinator'' ''abort-grant'' (uuid_to_string key) Outcome_Cancelled reason
                      (drop_pending key c'))"

definition finalise_grant :: "grant_id \<Rightarrow> timestamp \<Rightarrow> action" where
  "finalise_grant key at c =
    (case find_grant (cd_registry c) key of
       None \<Rightarrow> Some (not_found ''the grant is not registered'', c)
     | Some g \<Rightarrow>
         if gr_state g = GrantState_Committed \<or> gr_state g = GrantState_Active then Some (status_ok, c)
         else if \<not> both_acknowledged g
         then Some (status_make Outcome_Incomplete ''both parties have not acknowledged the grant'', c)
         else case reserve_capacity g at c of
           None \<Rightarrow> None
         | Some (reserved, c1) \<Rightarrow>
             if \<not> is_ok reserved then and_do (abort_grant key (st_message reserved)) (return reserved) c1
             else
               let g' = g\<lparr>gr_state := GrantState_Committed, gr_note := ''committed by both cluster agents'',
                     gr_provenance := (gr_provenance g)\<lparr>pv_source := EvidenceSource_DerivedFromTopology,
                       pv_verification := VerificationState_Verified, pv_observed_at := at\<rparr>\<rparr>
               in and_do (append_mutation (Mutation_GrantPut g'))
                    (\<lambda>c2. audit ''coordinator'' ''commit-grant'' (uuid_to_string key) Outcome_Ok
                       ''both cluster agents acknowledged the same attempt''
                       (drop_pending key (c2\<lparr>cd_commits := cd_commits c2 + 1\<rparr>)))
                    (set_grant key g' c1))"

section \<open>Preparing and committing\<close>

text \<open>
  \<open>prepare_grant\<close> takes the grant by reference: the record it was given comes back beside the status.
\<close>

definition prepare_targets :: "coordinator \<Rightarrow> contract_record \<Rightarrow> (send_target \<times> send_target) result" where
  "prepare_targets c contract =
    (let t0 = target_for c (pt_cluster (fst (co_parties contract)));
         t1 = target_for c (pt_cluster (snd (co_parties contract)));
         gone = (\<lambda>p. Inl (status_make Outcome_Unreachable
           (''cluster agent for '' @ pt_cluster p @ '' is not connected'')))
     in if \<not> tg_connected t0 then gone (fst (co_parties contract))
        else if \<not> tg_connected t1 then gone (snd (co_parties contract))
        else Inr (t0, t1))"

definition send_prepare :: "send_target \<Rightarrow> grant_record \<Rightarrow> action" where
  "send_prepare target g =
    send_to (tg_connection_id target) MessageType_PrepareGrant
      (encode_prepare_grant \<lparr>prg_session = tg_token target, prg_grant = g\<rparr>)"

definition prepare_grant :: "grant_record \<Rightarrow> coordinator \<Rightarrow> (status \<times> grant_record \<times> coordinator) option" where
  "prepare_grant grant c =
    (case find_contract (cd_registry c) (gr_contract grant) of
       None \<Rightarrow> Some (not_found ''the grant references an unknown contract'', grant, c)
     | Some contract \<Rightarrow>
         if co_state contract \<noteq> ContractState_Consented \<and> co_state contract \<noteq> ContractState_Active
         then Some (status_make Outcome_Incomplete
                ''both authority domains must consent before a grant can be prepared'', grant, c)
         else case prepare_targets c contract of
           Inl e \<Rightarrow> Some (e, grant, c)
         | Inr targets \<Rightarrow>
             let g = grant\<lparr>gr_state := GrantState_Preparing,
                   gr_provenance := (gr_provenance grant)\<lparr>pv_source := EvidenceSource_DerivedFromTopology,
                     pv_verification := VerificationState_Verified, pv_observed_at := cd_now c\<rparr>\<rparr>;
                 pending = \<lparr>pn_grant = gr_id grant, pn_contract = gr_contract grant, pn_prepared = (False, False),
                   pn_targets = targets, pn_deadline = timestamp_plus (cd_now c) (cf_grant_flow_deadline (cd_config c)),
                   pn_attempts = 0\<rparr>
             in map_option (\<lambda>(s, c'). (s, g, c'))
               (and_do (append_mutation (Mutation_GrantPut g))
                 (\<lambda>c1.
                   let c2 = (set_registry (snd (put_grant g (cd_registry c1))) c1)
                         \<lparr>cd_pending := om_put (gr_id g) pending (cd_pending c1)\<rparr>
                   in case find_grant (cd_registry c2) (gr_id g) of
                        None \<Rightarrow> Some (internal_error ''the grant disappeared after being stored'', c2)
                      | Some stored \<Rightarrow>
                          and_do (send_prepare (fst targets) stored) (send_prepare (snd targets) stored) c2) c))"

definition send_commit :: "send_target \<Rightarrow> grant_id \<Rightarrow> attempt_id \<Rightarrow> action" where
  "send_commit target key attempt =
    send_to (tg_connection_id target) MessageType_CommitGrant
      (encode_commit_grant \<lparr>cmg_session = tg_token target, cmg_grant = key, cmg_attempt = attempt\<rparr>)"

definition commit_grant :: "grant_id \<Rightarrow> action" where
  "commit_grant key c =
    (case find_grant (cd_registry c) key of
       None \<Rightarrow> Some (not_found ''the grant is not registered'', c)
     | Some g \<Rightarrow>
         (case om_find (cd_pending c) key of
            None \<Rightarrow> Some (status_make Outcome_Indeterminate ''the grant flow is no longer pending'', c)
          | Some pending \<Rightarrow>
              let (t0, t1) = pn_targets pending in
              if \<not> tg_connected t0 \<or> \<not> tg_connected t1
              then
                let g' = g\<lparr>gr_state := GrantState_Indeterminate,
                      gr_note := ''a cluster agent disconnected before the commit was issued''\<rparr>
                in append_mutation (Mutation_GrantPut g') (set_grant key g' c)
              else
                let g' = g\<lparr>gr_state := GrantState_Prepared,
                      gr_note := ''both cluster agents prepared the same attempt''\<rparr>
                in and_do (append_mutation (Mutation_GrantPut g'))
                     (and_do (send_commit t0 key (gr_attempt g')) (send_commit t1 key (gr_attempt g')))
                     (set_grant key g' c)))"

section \<open>Start\<close>

definition coordinator_options :: "coordinator_config \<Rightarrow> store_options" where
  "coordinator_options config =
    \<lparr>so_directory = cf_state_directory config, so_snapshot_name = ''coordinator.snapshot'',
     so_wal_name = ''coordinator.wal'', so_compact_bytes = cf_compact_bytes config,
     so_compact_records = cf_compact_records config, so_durable = cf_durable config\<rparr>"

text \<open>\<open>directory\<close> is the answer to the creation of the state directory.\<close>

definition load_state :: "status \<Rightarrow> action" where
  "load_state directory c =
    (let (stream, c1) = draw c in
     case store_open (cd_answers c (cd_calls c)) directory stream (coordinator_options (cd_config c)) (cd_disk c) of
       None \<Rightarrow> None
     | Some (Inl e, disk) \<Rightarrow> Some (e, c1\<lparr>cd_disk := disk, cd_calls := Suc (cd_calls c)\<rparr>)
     | Some (Inr (ds, rec), disk) \<Rightarrow>
         Some (status_ok,
           c1\<lparr>cd_disk := disk, cd_calls := Suc (cd_calls c), cd_store := ds,
              cd_registry := re_registry rec, cd_recovery := rec\<lparr>re_registry := empty_registry\<rparr>\<rparr>))"

definition append_term :: action where
  "append_term c =
    (let meta = \<lparr>sm_term = cd_term c, sm_incarnation = cd_incarnation c,
           sm_revision = sm_revision (re_meta (cd_recovery c)), sm_sequence = wa_last_sequence (ds_wal (cd_store c)),
           sm_written_at = cd_started_at c, sm_truncations = sm_truncations (re_meta (cd_recovery c)),
           sm_state_digest = registry_digest (cd_registry c)\<rparr>
     in case append_meta (cd_answers c (cd_calls c)) meta (cd_started_at c) (cd_store c) (cd_disk c) of
          (appended, ds, disk) \<Rightarrow>
            Some (case appended of Inl e \<Rightarrow> e | Inr _ \<Rightarrow> status_ok,
              c\<lparr>cd_store := ds, cd_disk := disk, cd_calls := Suc (cd_calls c)\<rparr>))"

definition record_incident :: "string \<Rightarrow> action" where
  "record_incident text c =
    (case append_incident (cd_answers c (cd_calls c)) text (cd_started_at c) (cd_store c) (cd_disk c) of
       (appended, ds, disk) \<Rightarrow>
         Some (case appended of Inl e \<Rightarrow> e | Inr _ \<Rightarrow> status_ok,
           c\<lparr>cd_store := ds, cd_disk := disk, cd_calls := Suc (cd_calls c)\<rparr>))"

definition fence_recovered :: action where
  "fence_recovered c =
    (case fence_recovered_state (cd_started_at c) ''coordinator-recovery'' (cd_previous_incarnation c) (cd_term c)
            (cd_registry c) of
       None \<Rightarrow> None
     | Some (Inl e, r') \<Rightarrow> Some (e, set_registry r' c)
     | Some (Inr fo, r') \<Rightarrow>
         and_do (record_incident (''recovered from store: '' @ decimal (unat (fo_grants_fenced fo))
                   @ '' grants fenced, '' @ decimal (unat (fo_reservations_released fo)) @ '' reservations released''))
           (persist_all (map Mutation_GrantPut (map snd (rg_grants r'))
              @ map Mutation_ReservationPut (map snd (rg_reservations r'))
              @ map Mutation_ClusterPut (map snd (rg_clusters r'))))
           (set_registry r' c))"

definition begin_incarnation :: action where
  "begin_incarnation c =
    (let (key, c1) = draw c;
         recovered = re_recovered_from_store (cd_recovery c);
         c2 = c1\<lparr>cd_previous_incarnation := sm_incarnation (re_meta (cd_recovery c)),
                 cd_term := after_sequence (sm_term (re_meta (cd_recovery c))),
                 cd_incarnation := key, cd_started_at := cd_now c\<rparr>
     in and_do append_term
          (and_do (if recovered then fence_recovered else return status_ok)
            (audit ''coordinator'' ''begin-incarnation'' (uuid_to_string key) Outcome_Ok
              (''term='' @ decimal (unat (cd_term c2))
               @ (if recovered then '' recovered=true'' else '' recovered=false'')))) c2)"

text \<open>\<open>listening\<close> is the answer to binding the listener.\<close>

definition start :: "status \<Rightarrow> status \<Rightarrow> action" where
  "start directory listening c =
    (if cd_started c then Some (status_make Outcome_AlreadyExists ''the coordinator is already started'', c)
     else and_do (load_state directory)
            (and_do begin_incarnation
              (and_do (return listening)
                (and_do (change (\<lambda>c. c\<lparr>cd_started := True\<rparr>)) compact_if_needed))) c)"

end
