(* ===== verification/Handshake.thy ===== *)
theory Handshake
  imports Grant_Flow
begin

text \<open>
  \<open>runtime/coordinator.cpp\<close>: the handshake and the cluster report, the two messages through which an
  agent changes what the coordinator holds about its cluster. A pointer into a table that the code
  writes through is the record put back under its key. The decoders refuse trailing bytes, so the
  second check for them in \<open>on_hello\<close> never fires.
\<close>

definition set_session :: "u64 \<Rightarrow> peer_session \<Rightarrow> coordinator \<Rightarrow> coordinator" where
  "set_session key session c = c\<lparr>cd_sessions := om_put key session (cd_sessions c)\<rparr>"

text \<open>The log record of a cluster as it is now.\<close>

definition persist_cluster :: "cluster_id \<Rightarrow> action" where
  "persist_cluster key c =
    (case find_cluster (cd_registry c) key of
       None \<Rightarrow> Some (status_ok, c)
     | Some rec \<Rightarrow> append_mutation (Mutation_ClusterPut rec) c)"

section \<open>Hello\<close>

definition send_hello_ack :: "u64 \<Rightarrow> hello_ack_message \<Rightarrow> action" where
  "send_hello_ack key ack = send_to key MessageType_HelloAck (encode_hello_ack ack)"

definition refuse_hello :: "u64 \<Rightarrow> hello_ack_message \<Rightarrow> outcome \<Rightarrow> string \<Rightarrow> action" where
  "refuse_hello key ack out detail c =
    send_hello_ack key (ack\<lparr>hak_outcome := out, hak_detail := detail\<rparr>) (count_refusal c)"

definition hello_observer :: "u64 \<Rightarrow> hello_message \<Rightarrow> bool \<Rightarrow> hello_ack_message \<Rightarrow> action" where
  "hello_observer key request signing ack c =
    (let (token, c1) = draw c;
         session = \<lparr>se_role = PeerRole_Observer, se_cluster = [], se_domain = hel_domain request, se_token = token,
           se_incarnation = nil_uuid, se_generation = 0, se_policy_generation = 0, se_agent_term = 0,
           se_signing = signing, se_hello_complete = True, se_connected_at = cd_now c, se_connection_id = key\<rparr>
     in send_hello_ack key
          (ack\<lparr>hak_session := token, hak_outcome := Outcome_Ok, hak_detail := ''observer session established''\<rparr>)
          (set_session key session c1))"

definition registered_cluster :: "hello_message \<Rightarrow> timestamp \<Rightarrow> cluster_record" where
  "registered_cluster request now =
    \<lparr>cl_id = hel_cluster request, cl_domain = hel_domain request, cl_incarnation = hel_incarnation request,
     cl_generation = hel_generation request, cl_policy_generation = hel_policy_generation request,
     cl_state = ClusterState_Unknown, cl_consent_withdrawn = False, cl_last_seen = now, cl_endpoints = [],
     cl_content_digest = hel_content_digest request, cl_generation_conflict = False,
     cl_conflicting_generation = None, cl_revision = 0,
     cl_provenance = default_provenance\<lparr>pv_source := EvidenceSource_AgentReported,
       pv_verification := VerificationState_Verified, pv_observed_at := now,
       pv_evidence_digest := hel_content_digest request\<rparr>,
     cl_incarnation_changes = 0\<rparr>"

text \<open>
  An agent's handshake either ends in a refusal or goes on with the grants it fenced and the detail
  of the answer.
\<close>

definition hello_register ::
  "u64 \<Rightarrow> hello_message \<Rightarrow> hello_ack_message \<Rightarrow> (grant_id list \<Rightarrow> string \<Rightarrow> action) \<Rightarrow> action" where
  "hello_register key request ack go c =
    (if \<not> cf_allow_agent_registration (cd_config c)
     then refuse_hello key ack Outcome_NotFound
            ''cluster identity is not registered and agent-driven registration is disabled'' c
     else case put_cluster (registered_cluster request (cd_now c)) (cd_registry c) of
       (stored, r') \<Rightarrow>
         if \<not> is_ok stored then refuse_hello key ack (st_outcome stored) (st_message stored) (set_registry r' c)
         else and_do (persist_cluster (hel_cluster request))
                (and_do (audit ''coordinator'' ''register-cluster'' (hel_cluster request) Outcome_Ok
                           ''cluster identity registered from an agent handshake'')
                  (go [] []))
                (set_registry r' c))"

definition reincarnated_cluster :: "hello_message \<Rightarrow> timestamp \<Rightarrow> cluster_record \<Rightarrow> cluster_record" where
  "reincarnated_cluster request now cluster =
    cluster\<lparr>cl_incarnation := hel_incarnation request, cl_generation := hel_generation request,
      cl_content_digest := hel_content_digest request, cl_generation_conflict := False,
      cl_conflicting_generation := None, cl_last_seen := now,
      cl_incarnation_changes := cl_incarnation_changes cluster + 1,
      cl_provenance := (cl_provenance cluster)\<lparr>pv_source := EvidenceSource_AgentReported,
        pv_verification := VerificationState_Verified, pv_observed_at := now\<rparr>\<rparr>"

definition fenced_grant_ids :: "registry \<Rightarrow> grant_id list" where
  "fenced_grant_ids r = map fst (filter (\<lambda>e. gr_state (snd e) = GrantState_Fenced) (rg_grants r))"

definition hello_existing ::
  "u64 \<Rightarrow> hello_message \<Rightarrow> cluster_record \<Rightarrow> hello_ack_message \<Rightarrow> (grant_id list \<Rightarrow> string \<Rightarrow> action) \<Rightarrow> action" where
  "hello_existing key request cluster ack go c =
    (let name = hel_cluster request;
         reincarnated = (hel_incarnation request \<noteq> cl_incarnation cluster)
     in if cl_domain cluster \<noteq> hel_domain request
        then refuse_hello key ack Outcome_Refused ''the cluster is governed by a different authority domain'' c
        else if hel_generation request < cl_generation cluster
        then and_do (audit ''coordinator'' ''reject-stale-handshake'' name Outcome_Stale ''older generation presented'')
               (send_hello_ack key (ack\<lparr>hak_outcome := Outcome_Stale,
                  hak_detail := ''the agent presents a generation older than the authoritative one''\<rparr>))
               (count_refusal c)
        else if reincarnated \<and> hel_generation request = cl_generation cluster
        then refuse_hello key ack Outcome_Stale
               ''a new incarnation must present a generation greater than the recorded one'' c
        else if reincarnated
        then and_do (fence_cluster name FenceTrigger_ClusterReincarnation (hel_incarnation request)
                      (cl_incarnation cluster) (hel_generation request))
               (\<lambda>c1. and_do (persist_cluster name)
                  (go (fenced_grant_ids (cd_registry c1))
                    ''cluster reincarnation recorded; dependent grants were fenced'') c1)
               (set_cluster name (reincarnated_cluster request (cd_now c) cluster) c)
        else if hel_policy_generation request \<noteq> cl_policy_generation cluster
        then
          (if hel_policy_generation request < cl_policy_generation cluster
           then refuse_hello key ack Outcome_Stale
                  ''the agent presents a policy generation older than the authoritative one'' c
           else and_do (fence_cluster name FenceTrigger_PolicyGenerationChange (cl_incarnation cluster)
                         (cl_incarnation cluster) (cl_generation cluster))
                  (and_do (persist_cluster name)
                    (go [] ''bind policy generation changed; dependent grants were fenced''))
                  (set_cluster name (cluster\<lparr>cl_policy_generation := hel_policy_generation request,
                     cl_last_seen := cd_now c\<rparr>) c))
        else go [] ''handshake accepted'' (set_cluster name (cluster\<lparr>cl_last_seen := cd_now c\<rparr>) c))"

definition finish_hello ::
  "u64 \<Rightarrow> hello_message \<Rightarrow> bool \<Rightarrow> hello_ack_message \<Rightarrow> grant_id list \<Rightarrow> string \<Rightarrow> action" where
  "finish_hello key request signing ack fenced detail c =
    (let (token, c1) = draw c;
         session = \<lparr>se_role = PeerRole_Agent, se_cluster = hel_cluster request, se_domain = hel_domain request,
           se_token = token, se_incarnation = hel_incarnation request, se_generation = hel_generation request,
           se_policy_generation = hel_policy_generation request, se_agent_term = hel_agent_term request,
           se_signing = signing, se_hello_complete = True, se_connected_at = cd_now c, se_connection_id = key\<rparr>;
         conflict = (case find_cluster (cd_registry c) (hel_cluster request) of
           None \<Rightarrow> False | Some current \<Rightarrow> cl_generation_conflict current);
         ack' = ack\<lparr>hak_outcome := (if conflict then Outcome_Conflicting else Outcome_Ok),
           hak_detail := (if conflict
             then ''the cluster has an unresolved generation conflict; resolve it before reconnecting'' else detail),
           hak_session := token, hak_view_digest := registry_digest (cd_registry c), hak_revalidate := fenced\<rparr>
     in and_do (send_hello_ack key ack')
          (and_do (if fenced = [] then return status_ok
                   else send_to key MessageType_Fence
                     (encode_fence \<lparr>fen_session = token, fen_coordinator_term = cd_term c, fen_grants = fenced,
                        fen_reason = ''cluster reincarnation or policy change fenced these grants''\<rparr>))
            (\<lambda>c2. let (request_id, c3) = draw c2 in
               send_to key MessageType_StatusRequest
                 (encode_status_request \<lparr>srq_session = token, srq_request = request_id\<rparr>) c3))
          (set_session key session c1))"

definition hello_agent :: "u64 \<Rightarrow> hello_message \<Rightarrow> bool \<Rightarrow> hello_ack_message \<Rightarrow> action" where
  "hello_agent key request signing ack c =
    (if hel_cluster request = []
     then refuse_hello key ack Outcome_Invalid ''an agent handshake must name a cluster identity'' c
     else if hel_domain request = []
     then refuse_hello key ack Outcome_Invalid ''an agent handshake must name an authority domain'' c
     else if hel_capabilities request AND kCapabilityTwoSidedConsent = 0
     then refuse_hello key ack Outcome_Unsupported ''the agent does not declare two-sided consent support'' c
     else case find_cluster (cd_registry c) (hel_cluster request) of
       None \<Rightarrow> hello_register key request ack (finish_hello key request signing ack) c
     | Some cluster \<Rightarrow> hello_existing key request cluster ack (finish_hello key request signing ack) c)"

definition install_key :: "u64 \<Rightarrow> bytes \<Rightarrow> coordinator \<Rightarrow> coordinator" where
  "install_key key channel c =
    (case connection_for c key of
       None \<Rightarrow> c
     | Some connection \<Rightarrow>
         if channel = [] then c
         else c\<lparr>cd_connections := om_put key (enable_signing channel connection) (cd_connections c)\<rparr>)"

definition on_hello :: "u64 \<Rightarrow> bytes \<Rightarrow> action" where
  "on_hello key payload c =
    (case decode_hello payload of
       Inl e \<Rightarrow> refuse_frame key e c
     | Inr request \<Rightarrow>
         let ack = \<lparr>hak_session = nil_uuid, hak_coordinator = cd_incarnation c, hak_coordinator_term = cd_term c,
               hak_outcome = Outcome_Internal, hak_negotiated_version = 0,
               hak_view_digest = registry_digest (cd_registry c), hak_revalidate = [], hak_detail = []\<rparr>;
             negotiated = min (hel_protocol_max request) kProtocolVersionMax;
             required = max (hel_protocol_min request) kProtocolVersionMin;
             channel = channel_key_for c (hel_domain request);
             ack' = ack\<lparr>hak_negotiated_version := negotiated\<rparr>
         in if negotiated < required
            then refuse_hello key ack Outcome_Unsupported ''no protocol version is supported by both peers'' c
            else if hel_role request = PeerRole_Observer
            then hello_observer key request (channel \<noteq> []) ack' (install_key key channel c)
            else hello_agent key request (channel \<noteq> []) ack' (install_key key channel c))"

section \<open>Cluster reports\<close>

definition send_report_ack :: "u64 \<Rightarrow> report_ack_message \<Rightarrow> action" where
  "send_report_ack key ack = send_to key MessageType_ReportAck (encode_report_ack ack)"

definition refuse_report :: "u64 \<Rightarrow> report_ack_message \<Rightarrow> string \<Rightarrow> action" where
  "refuse_report key ack detail c =
    send_report_ack key (ack\<lparr>rpa_outcome := Outcome_Stale, rpa_detail := detail\<rparr>) (count_refusal c)"

definition report_conflict :: "u64 \<Rightarrow> peer_session \<Rightarrow> cluster_record \<Rightarrow> cluster_record \<Rightarrow> report_ack_message \<Rightarrow> action" where
  "report_conflict key session incoming cluster ack c =
    (let name = se_cluster session;
         cluster' = cluster\<lparr>cl_generation_conflict := True, cl_conflicting_generation := Some (cl_generation incoming)\<rparr>
     in and_do (fence_cluster (cl_id cluster) FenceTrigger_Manual (cl_incarnation cluster) (cl_incarnation cluster)
                 (cl_generation cluster))
          (and_do (persist_cluster name)
            (and_do (audit ''coordinator'' ''generation-conflict'' (cl_id cluster) Outcome_Conflicting
                       ''two reports claim the same generation with different contents'')
              (\<lambda>c1. send_report_ack key (ack\<lparr>rpa_outcome := Outcome_Conflicting,
                 rpa_detail := ''a different content already claims this generation; an operator must resolve the conflict'',
                 rpa_view_digest := registry_digest (cd_registry c1)\<rparr>) c1)))
          (set_session key (session\<lparr>se_generation := cl_generation incoming\<rparr>) (set_cluster name cluster' c)))"

definition accepted_report :: "peer_session \<Rightarrow> timestamp \<Rightarrow> cluster_record \<Rightarrow> cluster_record \<Rightarrow> cluster_record" where
  "accepted_report session now cluster incoming =
    incoming\<lparr>cl_domain := cl_domain cluster,
      cl_revision := (case counter_next (cl_revision cluster) of Inr n \<Rightarrow> n | Inl _ \<Rightarrow> cl_revision cluster),
      cl_provenance := (cl_provenance incoming)\<lparr>pv_source := EvidenceSource_AgentReported,
        pv_verification := VerificationState_Verified, pv_observed_at := now,
        pv_evidence_digest := cl_content_digest incoming, pv_session := se_token session\<rparr>,
      cl_incarnation_changes := cl_incarnation_changes cluster, cl_generation_conflict := False\<rparr>"

text \<open>After the report was stored: persist, fence on a new policy generation, answer.\<close>

definition report_stored :: "u64 \<Rightarrow> cluster_record \<Rightarrow> bool \<Rightarrow> report_ack_message \<Rightarrow> action" where
  "report_stored key cluster policy_changed ack =
    and_do (append_mutation (Mutation_ClusterPut cluster))
      (and_do (if policy_changed
               then fence_cluster (cl_id cluster) FenceTrigger_PolicyGenerationChange (cl_incarnation cluster)
                      (cl_incarnation cluster) (cl_generation cluster)
               else return status_ok)
        (and_do (change (\<lambda>c. set_registry (recompute_path_states (cd_registry c)) c))
          (\<lambda>c1. and_do (audit ''agent'' ''report-cluster'' (cl_id cluster) Outcome_Ok
                     (''generation='' @ decimal (unat (cl_generation cluster))))
             (send_report_ack key (ack\<lparr>rpa_outcome := Outcome_Ok, rpa_detail := ''cluster state accepted'',
                rpa_revision := cl_revision cluster, rpa_view_digest := registry_digest (cd_registry c1)\<rparr>)) c1)))"

definition report_cluster :: "u64 \<Rightarrow> peer_session \<Rightarrow> cluster_record \<Rightarrow> cluster_record \<Rightarrow> report_ack_message \<Rightarrow> action" where
  "report_cluster key session incoming cluster ack c =
    (if cl_generation incoming < cl_generation cluster
     then refuse_report key ack ''the report carries a superseded generation'' c
     else if cl_incarnation incoming \<noteq> cl_incarnation cluster
     then refuse_report key ack ''the report was produced by an incarnation that is not the current one'' c
     else if \<not> cl_policy_generation incoming > cl_policy_generation cluster
       \<and> cl_generation incoming = cl_generation cluster \<and> \<not> digest_is_zero (cl_content_digest incoming)
       \<and> \<not> digest_is_zero (cl_content_digest cluster) \<and> cl_content_digest incoming \<noteq> cl_content_digest cluster
     then report_conflict key session incoming cluster ack c
     else if cl_policy_generation incoming < cl_policy_generation cluster
     then refuse_report key ack ''the report carries a superseded policy generation'' c
     else
       let record = accepted_report session (cd_now c) cluster incoming in
       case put_cluster record (cd_registry c) of
         (stored, r') \<Rightarrow>
           if \<not> is_ok stored then send_error key nil_uuid (st_outcome stored) (st_message stored) (set_registry r' c)
           else case find_cluster r' (se_cluster session) of
             None \<Rightarrow> None
           | Some cluster' \<Rightarrow>
               report_stored key cluster' (cl_policy_generation incoming \<noteq> cl_policy_generation cluster) ack
                 (set_session key (session\<lparr>se_generation := cl_generation incoming,
                    se_policy_generation := cl_policy_generation incoming\<rparr>) (set_registry r' c)))"

definition on_report_cluster :: "u64 \<Rightarrow> bytes \<Rightarrow> action" where
  "on_report_cluster key payload c =
    (case decode_report_cluster payload of
       Inl e \<Rightarrow> refuse_frame key e c
     | Inr report \<Rightarrow>
         with_session key (rpc_session report) (\<lambda>session c1.
           let incoming = rpc_cluster report in
           if se_role session \<noteq> PeerRole_Agent
           then send_error key nil_uuid Outcome_Unauthorized ''only an agent may report cluster state'' c1
           else if cl_id incoming \<noteq> se_cluster session
           then send_error key nil_uuid Outcome_Unauthorized ''the report names a cluster this session does not own'' c1
           else case find_cluster (cd_registry c1) (se_cluster session) of
             None \<Rightarrow> send_error key nil_uuid Outcome_NotFound ''the cluster is not registered'' c1
           | Some cluster \<Rightarrow>
               report_cluster key session incoming cluster
                 \<lparr>rpa_session = se_token session, rpa_outcome = Outcome_Internal, rpa_revision = cl_revision cluster,
                  rpa_view_digest = registry_digest (cd_registry c1), rpa_detail = []\<rparr> c1) c)"

end
