(* ===== verification/Agent_Messages.thy ===== *)
theory Agent_Messages
  imports Handshake
begin

text \<open>
  \<open>runtime/coordinator.cpp\<close>: the messages of an agent about contracts and grants, the status report, the
  loss of a connection, and the periodic housekeeping.
\<close>

section \<open>Consent\<close>

definition given_consent :: "peer_session \<Rightarrow> timestamp \<Rightarrow> contract_consent_message \<Rightarrow> consent_record" where
  "given_consent session now m =
    \<lparr>cs_cluster = se_cluster session, cs_endpoint = con_endpoint m, cs_incarnation = con_incarnation m,
     cs_generation = con_generation m, cs_policy_generation = con_policy_generation m,
     cs_agent_term = con_agent_term m, cs_terms_digest = con_terms_digest m, cs_decision = con_decision m,
     cs_decided_at = now, cs_session = se_token session,
     cs_authenticity = (if se_signing session then TransportAuthenticity_SharedKeyMac else TransportAuthenticity_None),
     cs_reason = con_reason m\<rparr>"

definition same_consent :: "consent_record option \<Rightarrow> consent_record \<Rightarrow> bool" where
  "same_consent existing record \<longleftrightarrow>
    (case existing of
       None \<Rightarrow> False
     | Some e \<Rightarrow> cs_decision e = cs_decision record \<and> cs_terms_digest e = cs_terms_digest record
         \<and> cs_generation e = cs_generation record)"

definition consented_contract :: "nat \<Rightarrow> timestamp \<Rightarrow> consent_record \<Rightarrow> contract_record \<Rightarrow> contract_record" where
  "consented_contract side now record contract =
    (let contract' = contract\<lparr>co_consents := set_party side (Some record) (co_consents contract),
           co_updated_at := now, co_revision := snd (counter_increment (co_revision contract))\<rparr>
     in contract'\<lparr>co_state :=
          (if cs_decision record = ConsentDecision_Refused then ContractState_Refused
           else if both_consented contract' then ContractState_Consented
           else ContractState_AwaitingConsent)\<rparr>)"

definition accept_consent :: "u64 \<Rightarrow> contract_consent_message \<Rightarrow> peer_session \<Rightarrow> contract_record \<Rightarrow> nat \<Rightarrow> action" where
  "accept_consent key m session contract side c =
    (if con_terms_digest m \<noteq> co_terms_digest contract
     then and_do (audit ''agent'' ''consent-mismatch'' (uuid_to_string (co_id contract)) Outcome_Conflicting
                   ''the consent covers different terms than the contract'')
            (send_error key nil_uuid Outcome_Conflicting
               ''the consent does not cover the terms held for this contract'') c
     else if con_endpoint m \<noteq> pt_endpoint (party_at (co_parties contract) side)
     then send_error key nil_uuid Outcome_Invalid ''the consent names an endpoint this party does not own'' c
     else if con_incarnation m \<noteq> se_incarnation session \<or> con_generation m \<noteq> se_generation session
     then send_error key nil_uuid Outcome_Stale
            ''the consent was produced by a superseded incarnation or generation'' (reject_replay c)
     else
       let record = given_consent session (cd_now c) m;
           contract' = consented_contract side (cd_now c) record contract
       in if same_consent (party_at (co_consents contract) side) record then Some (status_ok, c)
          else and_do (append_mutation (Mutation_ContractPut contract'))
                 (audit ''agent'' ''contract-consent'' (uuid_to_string (co_id contract)) Outcome_Ok
                   (''decision='' @ consent_decision_to_string (cs_decision record)))
                 (set_contract (con_contract m) contract' c))"

definition on_contract_consent :: "u64 \<Rightarrow> bytes \<Rightarrow> action" where
  "on_contract_consent key payload c =
    (case decode_contract_consent payload of
       Inl e \<Rightarrow> refuse_frame key e c
     | Inr m \<Rightarrow>
         with_session key (con_session m) (\<lambda>session c1.
           if se_role session \<noteq> PeerRole_Agent
           then send_error key nil_uuid Outcome_Unauthorized ''only an agent may consent to a contract'' c1
           else case find_contract (cd_registry c1) (con_contract m) of
             None \<Rightarrow> send_error key nil_uuid Outcome_NotFound ''the contract is not registered'' c1
           | Some contract \<Rightarrow>
               (case contract_side_of contract (se_cluster session) of
                  None \<Rightarrow> send_error key nil_uuid Outcome_Unauthorized ''the contract does not name this cluster'' c1
                | Some side \<Rightarrow> accept_consent key m session contract side c1)) c)"

definition on_ping :: "u64 \<Rightarrow> bytes \<Rightarrow> action" where
  "on_ping key payload c =
    (case decode_ping payload of
       Inl e \<Rightarrow> refuse_frame key e c
     | Inr m \<Rightarrow> send_to key MessageType_Pong (encode_pong \<lparr>pon_sequence = pin_sequence m\<rparr>) c)"

section \<open>Grant acknowledgements\<close>

text \<open>What both acknowledgements check before they look at the grant's state.\<close>

definition with_grant ::
  "u64 \<Rightarrow> peer_session \<Rightarrow> grant_id \<Rightarrow> attempt_id \<Rightarrow> (grant_record \<Rightarrow> nat \<Rightarrow> action) \<Rightarrow> action" where
  "with_grant key session grant attempt body c =
    (case find_grant (cd_registry c) grant of
       None \<Rightarrow> send_error key nil_uuid Outcome_NotFound ''the grant is not registered'' c
     | Some g \<Rightarrow>
         (case find_contract (cd_registry c) (gr_contract g) of
            None \<Rightarrow> send_error key nil_uuid Outcome_NotFound ''the grant references an unknown contract'' c
          | Some contract \<Rightarrow>
              (case contract_side_of contract (se_cluster session) of
                 None \<Rightarrow> send_error key nil_uuid Outcome_Unauthorized ''the grant does not involve this cluster'' c
               | Some side \<Rightarrow>
                   if attempt \<noteq> gr_attempt g
                   then send_error key nil_uuid Outcome_Replayed ''the acknowledgement names a different attempt''
                          (reject_replay c)
                   else if party_at (gr_incarnations g) side \<noteq> se_incarnation session
                     \<or> party_at (gr_generations g) side \<noteq> se_generation session
                   then send_error key nil_uuid Outcome_Stale
                          ''the acknowledgement comes from a superseded incarnation or generation'' (reject_replay c)
                   else body g side c)))"

definition accept_prepared :: "u64 \<Rightarrow> grant_prepared_message \<Rightarrow> grant_record \<Rightarrow> nat \<Rightarrow> action" where
  "accept_prepared key m g side c =
    (if gr_state g \<noteq> GrantState_Preparing \<and> gr_state g \<noteq> GrantState_Prepared
     then send_error key nil_uuid Outcome_Conflicting ''the grant is no longer accepting prepare acknowledgements'' c
     else if \<not> gpr_accepted m
     then and_do (abort_grant (gpr_grant m) (gpr_detail m))
            (audit ''agent'' ''refuse-grant'' (uuid_to_string (gpr_grant m)) Outcome_Refused (gpr_detail m)) c
     else case om_find (cd_pending c) (gpr_grant m) of
       None \<Rightarrow> send_error key nil_uuid Outcome_Indeterminate ''the grant flow is not tracked'' c
     | Some pending \<Rightarrow>
         let prepared = set_party side True (pn_prepared pending);
             g' = g\<lparr>gr_enforcement_digest := set_party side (gpr_enforcement_digest m) (gr_enforcement_digest g)\<rparr>;
             c' = (set_grant (gpr_grant m) g' c)
               \<lparr>cd_pending := om_put (gpr_grant m) (pending\<lparr>pn_prepared := prepared\<rparr>) (cd_pending c)\<rparr>
         in if fst prepared \<and> snd prepared then commit_grant (gpr_grant m) c' else Some (status_ok, c'))"

definition on_grant_prepared :: "u64 \<Rightarrow> bytes \<Rightarrow> action" where
  "on_grant_prepared key payload c =
    (case decode_grant_prepared payload of
       Inl e \<Rightarrow> refuse_frame key e c
     | Inr m \<Rightarrow>
         with_session key (gpr_session m) (\<lambda>session.
           with_grant key session (gpr_grant m) (gpr_attempt m) (accept_prepared key m)) c)"

definition accept_committed :: "grant_committed_message \<Rightarrow> grant_record \<Rightarrow> nat \<Rightarrow> action" where
  "accept_committed m g side c =
    (if \<not> gcm_installed m
     then and_do (abort_grant (gcm_grant m) (gcm_detail m))
            (audit ''agent'' ''refuse-commit'' (uuid_to_string (gcm_grant m)) Outcome_Refused (gcm_detail m)) c
     else
       let g' = g\<lparr>gr_acknowledged := set_party side True (gr_acknowledged g),
             gr_enforcement_digest := set_party side (gcm_enforcement_digest m) (gr_enforcement_digest g)\<rparr>
       in and_do (append_mutation (Mutation_GrantPut g'))
            (\<lambda>c1. if both_acknowledged g' then finalise_grant (gcm_grant m) (cd_now c1) c1 else Some (status_ok, c1))
            (set_grant (gcm_grant m) g' c))"

definition on_grant_committed :: "u64 \<Rightarrow> bytes \<Rightarrow> action" where
  "on_grant_committed key payload c =
    (case decode_grant_committed payload of
       Inl e \<Rightarrow> refuse_frame key e c
     | Inr m \<Rightarrow>
         with_session key (gcm_session m) (\<lambda>session.
           with_grant key session (gcm_grant m) (gcm_attempt m) (accept_committed m)) c)"

definition on_grant_aborted :: "u64 \<Rightarrow> bytes \<Rightarrow> action" where
  "on_grant_aborted key payload c =
    (case decode_grant_aborted payload of
       Inl e \<Rightarrow> refuse_frame key e c
     | Inr m \<Rightarrow> with_session key (gab_session m) (\<lambda>_. abort_grant (gab_grant m) (gab_reason m)) c)"

fun audit_fence_results :: "cluster_id \<Rightarrow> fence_result list \<Rightarrow> action" where
  "audit_fence_results cluster [] = return status_ok"
| "audit_fence_results cluster (x # xs) =
    and_do (audit ''agent'' ''fence-ack'' (''grant='' @ uuid_to_string (fre_grant x)) (fre_outcome x)
              (''cluster='' @ cluster))
      (audit_fence_results cluster xs)"

definition on_fence_ack :: "u64 \<Rightarrow> bytes \<Rightarrow> action" where
  "on_fence_ack key payload c =
    (case decode_fence_ack payload of
       Inl e \<Rightarrow> refuse_frame key e c
     | Inr m \<Rightarrow>
         with_session key (fak_session m) (\<lambda>session. audit_fence_results (se_cluster session) (fak_results m)) c)"

section \<open>Withdrawal\<close>

definition accept_withdrawal :: "u64 \<Rightarrow> withdraw_message \<Rightarrow> peer_session \<Rightarrow> cluster_record \<Rightarrow> action" where
  "accept_withdrawal key m session cluster c =
    (let name = se_cluster session in
     and_do (fence_cluster (cl_id cluster) FenceTrigger_ClusterWithdrawal (cl_incarnation cluster)
               (cl_incarnation cluster) (cl_generation cluster))
       (and_do (persist_cluster name)
         (\<lambda>c1. and_do (audit ''agent'' ''withdraw-consent'' name Outcome_Fenced
                    ''the cluster withdrew consent; dependent grants were fenced'')
            (send_to key MessageType_WithdrawAck
              (encode_withdraw_ack \<lparr>wak_session = se_token session, wak_outcome = Outcome_Ok,
                 wak_fenced_grants = word_of_nat (length (fenced_grant_ids (cd_registry c1))),
                 wak_detail = wdr_reason m\<rparr>)) c1))
       (set_cluster name (cluster\<lparr>cl_consent_withdrawn := True, cl_last_seen := cd_now c\<rparr>) c))"

definition on_withdraw :: "u64 \<Rightarrow> bytes \<Rightarrow> action" where
  "on_withdraw key payload c =
    (case decode_withdraw payload of
       Inl e \<Rightarrow> refuse_frame key e c
     | Inr m \<Rightarrow>
         with_session key (wdr_session m) (\<lambda>session c1.
           if se_role session \<noteq> PeerRole_Agent \<or> wdr_cluster m \<noteq> se_cluster session
           then send_error key nil_uuid Outcome_Unauthorized ''the withdrawal does not match this session'' c1
           else case find_cluster (cd_registry c1) (se_cluster session) of
             None \<Rightarrow> send_error key nil_uuid Outcome_NotFound ''the cluster is not registered'' c1
           | Some cluster \<Rightarrow>
               if wdr_incarnation m \<noteq> cl_incarnation cluster \<or> wdr_generation m < cl_generation cluster
               then send_error key nil_uuid Outcome_Stale ''the withdrawal comes from a superseded incarnation''
                      (reject_replay c1)
               else accept_withdrawal key m session cluster c1) c)"

section \<open>Status reports\<close>

text \<open>
  One round of the loop over the grants: what the agent enforces of the grant under \<open>key\<close>, and whether
  the grant has to be fenced.
\<close>

definition reconcile_grant ::
  "peer_session \<Rightarrow> grant_status_entry list \<Rightarrow> grant_id \<Rightarrow> coordinator \<Rightarrow> (status \<times> grant_id list \<times> coordinator) option" where
  "reconcile_grant session reported key c =
    (case find_grant (cd_registry c) key of
       None \<Rightarrow> Some (status_ok, [], c)
     | Some g \<Rightarrow>
         (case find_contract (cd_registry c) (gr_contract g) of
            None \<Rightarrow> Some (status_ok, [], c)
          | Some contract \<Rightarrow>
              (case contract_side_of contract (se_cluster session) of
                 None \<Rightarrow> Some (status_ok, [], c)
               | Some side \<Rightarrow>
                   let entry = find (\<lambda>e. gse_grant e = gr_id g) reported;
                       enforced = (case entry of None \<Rightarrow> False
                         | Some e \<Rightarrow> gse_state e = GrantState_Committed \<or> gse_state e = GrantState_Active);
                       same_attempt = (case entry of None \<Rightarrow> False | Some e \<Rightarrow> gse_attempt e = gr_attempt g);
                       persist = (\<lambda>g' fence c'. map_option (\<lambda>(s, c2). (s, if is_ok s then fence else [], c2))
                         (append_mutation (Mutation_GrantPut g') (set_grant key g' c')))
                   in if enforced \<and> \<not> same_attempt then Some (status_ok, [gr_id g], c)
                      else if enforced \<and> same_attempt
                      then
                        (if party_at (gr_incarnations g) side \<noteq> se_incarnation session
                           \<or> party_at (gr_generations g) side \<noteq> se_generation session
                         then Some (status_ok, [gr_id g], c)
                         else if \<not> party_at (gr_acknowledged g) side
                         then persist (g\<lparr>gr_acknowledged := set_party side True (gr_acknowledged g),
                                gr_enforcement_digest := set_party side
                                  (case entry of None \<Rightarrow> zero_digest | Some e \<Rightarrow> gse_enforcement_digest e)
                                  (gr_enforcement_digest g)\<rparr>) [] c
                         else Some (status_ok, [], c))
                      else if usable_state g
                      then persist (g\<lparr>gr_state := GrantState_Indeterminate,
                             gr_note := ''the cluster agent does not report an installed enforcement for this grant''\<rparr>)
                             [gr_id g] c
                      else Some (status_ok, [], c))))"

fun reconcile_grants ::
  "peer_session \<Rightarrow> grant_status_entry list \<Rightarrow> grant_id list \<Rightarrow> grant_id list \<Rightarrow> coordinator \<Rightarrow>
    (status \<times> grant_id list \<times> coordinator) option" where
  "reconcile_grants session reported [] to_fence c = Some (status_ok, to_fence, c)"
| "reconcile_grants session reported (key # keys) to_fence c =
    (case reconcile_grant session reported key c of
       None \<Rightarrow> None
     | Some (s, fence, c') \<Rightarrow>
         if \<not> is_ok s then Some (s, to_fence, c')
         else reconcile_grants session reported keys (to_fence @ fence) c')"

text \<open>A plan that fences the given grants and releases what they hold.\<close>

definition plan_grants :: "fence_trigger \<Rightarrow> reason_code \<Rightarrow> (grant_id \<Rightarrow> contract_id) \<Rightarrow> grant_id list \<Rightarrow> u64 \<Rightarrow> registry \<Rightarrow> fence_plan" where
  "plan_grants trigger reason contract_of grants term r =
    \<lparr>fp_trigger = trigger, fp_cluster = [], fp_incarnation = nil_uuid, fp_previous_incarnation = nil_uuid,
     fp_generation = 0, fp_term = term, fp_view_digest = registry_digest r,
     fp_actions = map (\<lambda>g. grant_action reason g (contract_of g)) grants
       @ map (\<lambda>(key, rs). reservation_action reason (rs_grant rs) nil_uuid key)
           (filter (\<lambda>(key, rs). \<not> rs_released rs \<and> rs_grant rs \<in> set grants) (rg_reservations r)),
     fp_detail = []\<rparr>"

definition contract_of_grant :: "registry \<Rightarrow> grant_id \<Rightarrow> contract_id" where
  "contract_of_grant r key = (case find_grant r key of None \<Rightarrow> nil_uuid | Some g \<Rightarrow> gr_contract g)"

fun finalise_ready :: "grant_id list \<Rightarrow> action" where
  "finalise_ready [] = return status_ok"
| "finalise_ready (key # keys) =
    and_do (\<lambda>c. case find_grant (cd_registry c) key of
              None \<Rightarrow> Some (status_ok, c)
            | Some g \<Rightarrow>
                if gr_state g \<noteq> GrantState_Indeterminate \<or> \<not> both_acknowledged g then Some (status_ok, c)
                else finalise_grant (gr_id g) (cd_now c) c)
      (finalise_ready keys)"

definition accept_status_report :: "status_report_message \<Rightarrow> peer_session \<Rightarrow> action" where
  "accept_status_report m session c =
    (let keys = map fst (rg_grants (cd_registry c)) in
     case reconcile_grants session (srp_grants m) keys [] (c\<lparr>cd_revalidations := cd_revalidations c + 1\<rparr>) of
       None \<Rightarrow> None
     | Some (s, to_fence, c1) \<Rightarrow>
         if \<not> is_ok s then Some (s, c1)
         else and_do (if to_fence = [] then return status_ok
                      else fence_plan_apply
                        (plan_grants FenceTrigger_GrantRevocation ReasonCode_GrantNeedsRevalidation
                          (contract_of_grant (cd_registry c1)) to_fence (cd_term c1) (cd_registry c1)) ''coordinator'')
                (finalise_ready keys) c1)"

definition on_status_report :: "u64 \<Rightarrow> bytes \<Rightarrow> action" where
  "on_status_report key payload c =
    (case decode_status_report payload of
       Inl e \<Rightarrow> refuse_frame key e c
     | Inr m \<Rightarrow> with_session key (srp_session m) (accept_status_report m) c)"

section \<open>Disconnect\<close>

definition drop_target :: "u64 \<Rightarrow> send_target \<Rightarrow> send_target" where
  "drop_target key t =
    (if tg_connection_id t = key then t\<lparr>tg_connected := False, tg_connection_id := 0\<rparr> else t)"

definition touches :: "contract_record \<Rightarrow> cluster_id \<Rightarrow> bool" where
  "touches contract cluster \<longleftrightarrow>
    pt_cluster (fst (co_parties contract)) = cluster \<or> pt_cluster (snd (co_parties contract)) = cluster"

definition suspend_grant :: "cluster_id \<Rightarrow> grant_id \<Rightarrow> coordinator \<Rightarrow> coordinator" where
  "suspend_grant cluster key c =
    (case find_grant (cd_registry c) key of
       None \<Rightarrow> c
     | Some g \<Rightarrow>
         if gr_state g \<noteq> GrantState_Preparing \<and> gr_state g \<noteq> GrantState_Prepared then c
         else case find_contract (cd_registry c) (gr_contract g) of
           None \<Rightarrow> c
         | Some contract \<Rightarrow>
             if \<not> touches contract cluster then c
             else
               let g' = g\<lparr>gr_state := GrantState_Indeterminate,
                     gr_note := ''the cluster agent disconnected before the commit acknowledgement''\<rparr>
               in case append_mutation (Mutation_GrantPut g') (set_grant key g' c) of
                    None \<Rightarrow> c
                  | Some (_, c') \<Rightarrow> c')"

definition handle_disconnect :: "u64 \<Rightarrow> status \<Rightarrow> coordinator \<Rightarrow> coordinator" where
  "handle_disconnect key reason c =
    (let c1 = (if st_outcome reason \<in> {Outcome_Invalid, Outcome_Corrupt, Outcome_Unauthorized,
                 Outcome_Incompatible, Outcome_Replayed} then reject_frame c else c)
     in case session_for c1 key of
          None \<Rightarrow> c1
        | Some session \<Rightarrow>
            let c2 = c1\<lparr>cd_sessions := om_erase key (cd_sessions c1)\<rparr> in
            if se_cluster session = [] then c2
            else
              let c3 = c2\<lparr>cd_pending := om_map (\<lambda>_ pending.
                    pending\<lparr>pn_targets := map_prod (drop_target key) (drop_target key) (pn_targets pending)\<rparr>)
                    (cd_pending c2)\<rparr>
              in fold (suspend_grant (se_cluster session)) (map fst (rg_grants (cd_registry c3))) c3)"

section \<open>Housekeeping\<close>

definition mark_expired :: "grant_id \<Rightarrow> coordinator \<Rightarrow> coordinator" where
  "mark_expired key c =
    (case find_grant (cd_registry c) key of
       None \<Rightarrow> c
     | Some g \<Rightarrow>
         let g' = g\<lparr>gr_state := GrantState_Expired\<rparr> in
         case append_mutation (Mutation_GrantPut g') (set_grant key g' c) of
           None \<Rightarrow> c
         | Some (_, c') \<Rightarrow> c')"

definition expire_grants :: "coordinator \<Rightarrow> coordinator option" where
  "expire_grants c =
    (let expired = map gr_id (filter (\<lambda>g. usable_state g \<and> cd_now c > gr_valid_until g)
           (map snd (rg_grants (cd_registry c))))
     in if expired = [] then Some c
        else case fence_plan_apply (plan_grants FenceTrigger_GrantExpiry ReasonCode_GrantExpired (\<lambda>_. nil_uuid)
                    expired (cd_term c) (cd_registry c)) ''coordinator'' c of
          None \<Rightarrow> None
        | Some (_, c1) \<Rightarrow> Some (fold mark_expired expired c1))"

definition retarget :: "coordinator \<Rightarrow> pending_grant \<Rightarrow> nat \<Rightarrow> send_target \<Rightarrow> send_target" where
  "retarget c pending side t =
    (if tg_connected t then t
     else case find_grant (cd_registry c) (pn_grant pending) of
       None \<Rightarrow> t
     | Some g \<Rightarrow>
         (case find_contract (cd_registry c) (gr_contract g) of
            None \<Rightarrow> t
          | Some contract \<Rightarrow>
              let target = target_for c (pt_cluster (party_at (co_parties contract) side))
              in if tg_connected target then target else t))"

definition timed_out :: "coordinator \<Rightarrow> pending_grant \<Rightarrow> bool" where
  "timed_out c pending \<longleftrightarrow>
    cd_now c > pn_deadline pending \<or> unat (pn_attempts pending) \<ge> unat kMaxRevalidateAttempts"

definition retried :: "coordinator \<Rightarrow> pending_grant \<Rightarrow> pending_grant" where
  "retried c pending =
    (let p = pending\<lparr>pn_targets := (retarget c pending 0 (fst (pn_targets pending)),
               retarget c pending 1 (snd (pn_targets pending)))\<rparr>
     in if timed_out c p then p else p\<lparr>pn_attempts := pn_attempts p + 1\<rparr>)"

definition abort_anyway :: "grant_id \<Rightarrow> coordinator \<Rightarrow> coordinator option" where
  "abort_anyway key c =
    map_option snd (abort_grant key ''the grant flow did not complete within its deadline'' c)"

fun abort_all :: "grant_id list \<Rightarrow> coordinator \<Rightarrow> coordinator option" where
  "abort_all [] c = Some c"
| "abort_all (key # keys) c = (case abort_anyway key c of None \<Rightarrow> None | Some c' \<Rightarrow> abort_all keys c')"

definition resend_prepare :: "pending_grant \<Rightarrow> coordinator \<Rightarrow> coordinator" where
  "resend_prepare pending c =
    (case find_grant (cd_registry c) (pn_grant pending) of
       None \<Rightarrow> c
     | Some g \<Rightarrow>
         if gr_state g \<noteq> GrantState_Preparing then c
         else fold (\<lambda>side c'.
                let t = party_at (pn_targets pending) side in
                if \<not> tg_connected t \<or> party_at (pn_prepared pending) side then c'
                else send_anyway (tg_connection_id t) MessageType_PrepareGrant
                       (encode_prepare_grant \<lparr>prg_session = tg_token t, prg_grant = g\<rparr>) c') [0, 1] c)"

definition retry_pending_flows :: "coordinator \<Rightarrow> coordinator option" where
  "retry_pending_flows c =
    (let retried_flows = om_map (\<lambda>_. retried c) (cd_pending c);
         late = map pn_grant (filter (timed_out c) (map snd (cd_pending c)))
     in case abort_all late (c\<lparr>cd_pending := retried_flows\<rparr>) of
          None \<Rightarrow> None
        | Some c1 \<Rightarrow> Some (fold resend_prepare (map snd (cd_pending c1)) c1))"

definition ping_agents :: "coordinator \<Rightarrow> coordinator" where
  "ping_agents c =
    (if cf_ping_interval (cd_config c) \<le> 0 then c
     else fold (\<lambda>(key, session) c'.
            if live_agent session
            then send_anyway key MessageType_Ping (encode_ping \<lparr>pin_sequence = key, pin_sent_at = cd_now c\<rparr>) c'
            else c') (cd_sessions c) c)"

definition tick :: "coordinator \<Rightarrow> coordinator option" where
  "tick c =
    (case expire_grants c of
       None \<Rightarrow> None
     | Some c1 \<Rightarrow>
         (case retry_pending_flows c1 of
            None \<Rightarrow> None
          | Some c2 \<Rightarrow>
              (case compact_if_needed c2 of
                 None \<Rightarrow> None
               | Some (_, c3) \<Rightarrow> Some (ping_agents c3))))"

end
