(* ===== verification/Coordinator_Admin.thy ===== *)
theory Coordinator_Admin
  imports Agent_Messages
begin

text \<open>
  \<open>runtime/coordinator.cpp\<close>: the status of the coordinator, the queries, the administration and the
  dispatch of a received frame. A step of the administration also fills the result message, which is
  threaded beside the state.
\<close>

section \<open>Queries\<close>

definition coordinator_report :: "coordinator \<Rightarrow> coordinator_status" where
  "coordinator_report c =
    (let r = cd_registry c; n = counts r in
     \<lparr>cst_domain = cf_domain (cd_config c), cst_incarnation = cd_incarnation c, cst_term = cd_term c,
      cst_started_at = cd_started_at c,
      cst_uptime_nanos = word_of_int (if cd_monotonic c < 0 then 0 else cd_monotonic c),
      cst_view_digest = registry_digest r, cst_revision = sm_revision (re_meta (cd_recovery c)),
      cst_recovered_from_store = re_recovered_from_store (cd_recovery c),
      cst_recovered_records = wr_records (re_wal (cd_recovery c)),
      cst_truncations_recovered = sm_truncations (re_meta (cd_recovery c)),
      cst_clusters = word_of_nat (rc_clusters n), cst_endpoints = word_of_nat (rc_endpoints n),
      cst_links = word_of_nat (rc_links n), cst_paths = word_of_nat (rc_paths n),
      cst_contracts = word_of_nat (rc_contracts n), cst_grants = word_of_nat (rc_grants n),
      cst_reservations = word_of_nat (rc_reservations n), cst_policies = word_of_nat (rc_policies n),
      cst_audit = word_of_nat (rc_audit n),
      cst_connected_agents = word_of_nat (length (filter live_agent (map snd (cd_sessions c)))),
      cst_commits = cd_commits c, cst_fences = cd_fences c, cst_refusals = cd_refusals c,
      cst_revalidations = cd_revalidations c, cst_rejected_replays = cd_rejected_replays c,
      cst_rejected_frames = cd_rejected_frames c,
      cst_store_path = snapshot_path (ds_options (cd_store c))\<rparr>)"

definition query_limit :: "query_message \<Rightarrow> nat" where
  "query_limit q = (if qry_limit q = 0 then 256 else unat (qry_limit q))"

definition first_values :: "nat \<Rightarrow> ('k, 'v) omap \<Rightarrow> 'v list" where
  "first_values limit m = take limit (map snd m)"

definition last_records :: "nat \<Rightarrow> 'a list \<Rightarrow> 'a list" where
  "last_records limit xs = drop (length xs - min (length xs) limit) xs"

definition fence_plan_trigger :: "u32 \<Rightarrow> fence_trigger" where
  "fence_plan_trigger limit =
    (if limit = 1 then FenceTrigger_ClusterReincarnation
     else if limit = 2 then FenceTrigger_ClusterWithdrawal
     else if limit = 3 then FenceTrigger_PolicyGenerationChange
     else if limit = 4 then FenceTrigger_CoordinatorReincarnation
     else FenceTrigger_Manual)"

definition account_for :: "registry \<Rightarrow> reservation_record \<Rightarrow> accounting_entry" where
  "account_for r rs =
    \<lparr>ac_grant = rs_grant rs,
     ac_contract = (case find_grant r (rs_grant rs) of None \<Rightarrow> nil_uuid | Some g \<Rightarrow> gr_contract g),
     ac_endpoint = rs_endpoint rs, ac_cluster = rs_cluster rs, ac_reserved = rs_amount rs,
     ac_released = (if rs_released rs then rs_amount rs else 0), ac_closed = rs_released rs\<rparr>"

definition answer_decision :: "query_message \<Rightarrow> coordinator \<Rightarrow> query_result_message \<Rightarrow> query_result_message" where
  "answer_decision q c result =
    (let d = decide (cd_registry c)
           \<lparr>qy_source = qry_endpoint q, qy_target = qry_endpoint_b q, qy_requested_capacity = qry_capacity q,
            qy_at = cd_now c, qy_allow_degraded = qry_allow_degraded q,
            qy_expect_source_generation = qry_expect_source_generation q,
            qy_source_generation = qry_source_generation q,
            qy_expect_target_generation = qry_expect_target_generation q,
            qy_target_generation = qry_target_generation q\<rparr>
           \<lparr>vw_term = cd_term c, vw_incarnation = cd_incarnation c, vw_now = cd_now c\<rparr>
     in result\<lparr>qrs_outcome := dc_outcome d, qrs_detail := dc_detail d, qrs_decision := Some d\<rparr>)"

definition handle_query :: "query_message \<Rightarrow> coordinator \<Rightarrow> status \<times> query_result_message" where
  "handle_query q c =
    (let r = cd_registry c; limit = query_limit q;
         result = blank_result (qry_request q) (qry_kind q) Outcome_Ok []
     in case qry_kind q of
          QueryKind_Unnamed \<Rightarrow> (status_ok, result)
        | QueryKind_Status \<Rightarrow> (status_ok, result\<lparr>qrs_status := Some (coordinator_report c)\<rparr>)
        | QueryKind_ListClusters \<Rightarrow>
            (status_ok, result\<lparr>qrs_clusters := take limit (map snd
               (filter (\<lambda>(key, _). \<not> (qry_cluster q \<noteq> [] \<and> key \<noteq> qry_cluster q)) (rg_clusters r)))\<rparr>)
        | QueryKind_ShowCluster \<Rightarrow>
            (case find_cluster r (qry_cluster q) of
               None \<Rightarrow> (not_found ''cluster is not registered'', result)
             | Some x \<Rightarrow> (status_ok, result\<lparr>qrs_clusters := [x]\<rparr>))
        | QueryKind_ListLinks \<Rightarrow> (status_ok, result\<lparr>qrs_links := first_values limit (rg_links r)\<rparr>)
        | QueryKind_ListPaths \<Rightarrow> (status_ok, result\<lparr>qrs_paths := first_values limit (rg_paths r)\<rparr>)
        | QueryKind_ListPolicies \<Rightarrow> (status_ok, result\<lparr>qrs_policies := first_values limit (rg_policies r)\<rparr>)
        | QueryKind_ListContracts \<Rightarrow> (status_ok, result\<lparr>qrs_contracts := first_values limit (rg_contracts r)\<rparr>)
        | QueryKind_ShowContract \<Rightarrow>
            (case find_contract r (qry_contract q) of
               None \<Rightarrow> (not_found ''contract is not registered'', result)
             | Some x \<Rightarrow> (status_ok, result\<lparr>qrs_contracts := [x]\<rparr>))
        | QueryKind_ListGrants \<Rightarrow> (status_ok, result\<lparr>qrs_grants := first_values limit (rg_grants r)\<rparr>)
        | QueryKind_ShowGrant \<Rightarrow>
            (case find_grant r (qry_grant q) of
               None \<Rightarrow> (not_found ''grant is not registered'', result)
             | Some x \<Rightarrow> (status_ok, result\<lparr>qrs_grants := [x]\<rparr>))
        | QueryKind_ListReservations \<Rightarrow>
            (status_ok, result\<lparr>qrs_reservations := first_values limit (rg_reservations r)\<rparr>)
        | QueryKind_ListAudit \<Rightarrow> (status_ok, result\<lparr>qrs_audit := last_records limit (rg_audit r)\<rparr>)
        | QueryKind_Decide \<Rightarrow> (status_ok, answer_decision q c result)
        | QueryKind_FencePlan \<Rightarrow>
            (case find_cluster r (qry_cluster q) of
               None \<Rightarrow> (not_found ''cluster is not registered'', result)
             | Some x \<Rightarrow> (status_ok, result\<lparr>qrs_fence_plan := Some (plan_fence r (fence_plan_trigger (qry_limit q))
                 (cl_id x) (cl_incarnation x) (cl_incarnation x) (cl_generation x) (cd_term c))\<rparr>))
        | QueryKind_Accounting \<Rightarrow>
            (status_ok, result\<lparr>qrs_accounting := map (account_for r) (first_values limit (rg_reservations r))\<rparr>))"

definition on_query :: "u64 \<Rightarrow> bytes \<Rightarrow> action" where
  "on_query key payload c =
    (case decode_query payload of
       Inl e \<Rightarrow> refuse_frame key e c
     | Inr q \<Rightarrow>
         (case handle_query q c of
            (handled, result) \<Rightarrow>
              send_to key MessageType_QueryResult
                (encode_query_result
                  (if is_ok handled then result
                   else result\<lparr>qrs_outcome := st_outcome handled, qrs_detail := st_message handled\<rparr>)) c))"

section \<open>Steps of the administration\<close>

type_synonym admin_step =
  "admin_result_message \<Rightarrow> coordinator \<Rightarrow> (status \<times> admin_result_message \<times> coordinator) option"

text \<open>\<open>result.outcome = s.outcome(); result.detail = s.message(); return s;\<close>\<close>

definition admin_fail :: "status \<Rightarrow> admin_step" where
  "admin_fail s result c = Some (s, result\<lparr>ads_outcome := st_outcome s, ads_detail := st_message s\<rparr>, c)"

definition admin_done :: "(admin_result_message \<Rightarrow> admin_result_message) \<Rightarrow> admin_step" where
  "admin_done complete result c = Some (status_ok, complete (result\<lparr>ads_outcome := Outcome_Ok\<rparr>), c)"

definition admin_do :: "action \<Rightarrow> admin_step \<Rightarrow> admin_step" where
  "admin_do a k result c =
    (case a c of
       None \<Rightarrow> None
     | Some (s, c') \<Rightarrow> if is_ok s then k result c' else admin_fail s result c')"

text \<open>A mutator of the registry as an action.\<close>

definition on_registry :: "(registry \<Rightarrow> status \<times> registry) \<Rightarrow> action" where
  "on_registry f c = (case f (cd_registry c) of (s, r') \<Rightarrow> Some (s, set_registry r' c))"

section \<open>Contracts\<close>

definition terms_of_contract ::
  "contract_record \<Rightarrow> cluster_record \<Rightarrow> cluster_record \<Rightarrow> contract_terms" where
  "terms_of_contract contract a b =
    \<lparr>tm_parties = co_parties contract, tm_capacity = co_capacity contract,
     tm_lease_duration = co_lease_duration contract, tm_incarnations = (cl_incarnation a, cl_incarnation b),
     tm_generations = (cl_generation a, cl_generation b),
     tm_policies = (cl_policy_generation a, cl_policy_generation b), tm_proposed_at = co_created_at contract\<rparr>"

definition propose_to_side :: "contract_record \<Rightarrow> nat \<Rightarrow> action" where
  "propose_to_side contract side c =
    (let target = target_for c (pt_cluster (party_at (co_parties contract) side)) in
     if \<not> tg_connected target then Some (status_ok, c)
     else case (find_cluster (cd_registry c) (pt_cluster (fst (co_parties contract))),
                find_cluster (cd_registry c) (pt_cluster (snd (co_parties contract)))) of
       (Some a, Some b) \<Rightarrow>
         (let (attempt, c1) = draw c in
          send_to (tg_connection_id target) MessageType_ProposeContract
            (encode_propose_contract \<lparr>prc_session = tg_token target, prc_contract = co_id contract,
               prc_terms = terms_of_contract contract a b, prc_attempt = attempt\<rparr>) c1)
     | _ \<Rightarrow> Some (not_found ''a contracting cluster is not registered'', c))"

definition propose_contract_to_agents :: "contract_record \<Rightarrow> action" where
  "propose_contract_to_agents contract c =
    and_do (propose_to_side contract 0)
      (and_do (propose_to_side contract 1)
        (return (if tg_connected (target_for c (pt_cluster (fst (co_parties contract))))
                   \<and> tg_connected (target_for c (pt_cluster (snd (co_parties contract))))
                 then status_ok
                 else status_make Outcome_Unreachable
                   ''a contracting cluster agent is not connected; the contract stays proposed''))) c"

definition admin_provenance :: "timestamp \<Rightarrow> provenance \<Rightarrow> provenance" where
  "admin_provenance at p = p\<lparr>pv_source := EvidenceSource_AdminConfigured,
     pv_verification := VerificationState_Verified, pv_observed_at := at\<rparr>"

definition proposed_contract ::
  "coordinator \<Rightarrow> admin_message \<Rightarrow> contract_id \<Rightarrow> cluster_record \<Rightarrow> cluster_record \<Rightarrow> contract_record" where
  "proposed_contract c request key source target =
    (let contract = \<lparr>co_id = key,
           co_parties =
             (\<lparr>pt_cluster = cl_id source, pt_endpoint = adm_endpoint request, pt_domain = cl_domain source\<rparr>,
              \<lparr>pt_cluster = cl_id target, pt_endpoint = adm_endpoint_b request, pt_domain = cl_domain target\<rparr>),
           co_capacity = (if adm_capacity request = 0 then 1 else adm_capacity request),
           co_lease_duration = (if adm_lease_duration request = 0 then cf_default_lease (cd_config c)
                                else adm_lease_duration request),
           co_terms_digest = zero_digest, co_state = ContractState_Proposed, co_consents = (None, None),
           co_created_at = cd_now c, co_updated_at = cd_now c, co_revision = 0,
           co_provenance = admin_provenance (cd_now c) default_provenance\<rparr>
     in contract\<lparr>co_terms_digest := terms_digest (terms_of_contract contract source target)\<rparr>)"

definition apply_contract_proposal :: "admin_message \<Rightarrow> admin_step" where
  "apply_contract_proposal request result c =
    (if adm_cluster_id request = [] \<or> adm_endpoint request = [] \<or> adm_cluster_b request = []
       \<or> adm_endpoint_b request = []
     then admin_fail (invalid ''a contract requires two clusters and two endpoint scopes'') result c
     else case (find_cluster (cd_registry c) (adm_cluster_id request),
                find_cluster (cd_registry c) (adm_cluster_b request)) of
       (Some source, Some target) \<Rightarrow>
         (let (key, c1) = draw c;
              contract = proposed_contract c request key source target;
              valid = terms_validate (terms_of_contract contract source target)
          in if \<not> is_ok valid then admin_fail valid result c1
             else admin_do (on_registry (put_contract contract))
               (admin_do (append_mutation (Mutation_ContractPut contract))
                 (admin_do (audit ''operator'' ''propose-contract'' (uuid_to_string key) Outcome_Ok
                             ''two-sided consent requested'')
                   (admin_do (propose_contract_to_agents contract)
                     (admin_done (\<lambda>res. res\<lparr>ads_contract := key,
                        ads_detail := ''contract '' @ uuid_to_string key @ '' proposed to both authority domains''\<rparr>)))))
               result c1)
     | _ \<Rightarrow> admin_fail (not_found ''both clusters must be registered before a contract can be proposed'') result c)"

section \<open>Grants\<close>

definition issued_grant ::
  "coordinator \<Rightarrow> contract_record \<Rightarrow> u64 \<Rightarrow> grant_id \<Rightarrow> attempt_id \<Rightarrow> cluster_record \<Rightarrow> cluster_record \<Rightarrow> grant_record" where
  "issued_grant c contract capacity key attempt a b =
    \<lparr>gr_id = key, gr_contract = co_id contract, gr_terms_digest = co_terms_digest contract,
     gr_coordinator_term = cd_term c, gr_coordinator = cd_incarnation c, gr_attempt = attempt,
     gr_incarnations = (cl_incarnation a, cl_incarnation b), gr_generations = (cl_generation a, cl_generation b),
     gr_policies = (cl_policy_generation a, cl_policy_generation b), gr_capacity = capacity,
     gr_issued_at = cd_now c, gr_valid_until = timestamp_plus (cd_now c) (co_lease_duration contract),
     gr_state = GrantState_Preparing, gr_acknowledged = (False, False),
     gr_enforcement_digest = (zero_digest, zero_digest), gr_revalidate_attempts = 0, gr_note = [],
     gr_revision = 0, gr_provenance = default_provenance\<rparr>"

text \<open>The call of \<open>prepare_grant\<close> on a record that lives in the caller.\<close>

definition prepare_local :: "grant_record \<Rightarrow> action" where
  "prepare_local grant c = map_option (\<lambda>(s, _, c'). (s, c')) (prepare_grant grant c)"

text \<open>The call of \<open>prepare_grant\<close> on the record in the registry, which the callee changes in place.\<close>

definition prepare_in_place :: "grant_id \<Rightarrow> grant_record \<Rightarrow> action" where
  "prepare_in_place key grant c =
    map_option (\<lambda>(s, g, c'). (s, set_grant key g c')) (prepare_grant grant (set_grant key grant c))"

definition apply_grant_issue :: "admin_message \<Rightarrow> admin_step" where
  "apply_grant_issue request result c =
    (case find_contract (cd_registry c) (adm_contract request) of
       None \<Rightarrow> admin_fail (not_found ''the contract is not registered'') result c
     | Some contract \<Rightarrow>
         if co_state contract \<noteq> ContractState_Consented \<and> co_state contract \<noteq> ContractState_Active
         then admin_fail (status_make Outcome_Incomplete
                ''both authority domains must consent before a grant can be issued'') result c
         else
           let (key, c1) = draw c; (attempt, c2) = draw c1;
               capacity = (if adm_capacity request = 0 then co_capacity contract else adm_capacity request)
           in if capacity > co_capacity contract
              then admin_fail (status_make Outcome_CapacityExceeded
                     ''the requested capacity exceeds the contract capacity'') result c2
              else case (find_cluster (cd_registry c) (pt_cluster (fst (co_parties contract))),
                         find_cluster (cd_registry c) (pt_cluster (snd (co_parties contract)))) of
                (Some a, Some b) \<Rightarrow>
                  (let grant = issued_grant c contract capacity key attempt a b in
                   admin_do (on_registry (put_grant grant))
                     (admin_do (prepare_local grant)
                       (admin_done (\<lambda>res. res\<lparr>ads_contract := gr_contract grant, ads_grant := key,
                          ads_detail := ''grant '' @ uuid_to_string key @ '' is being prepared on both sides''\<rparr>)))
                     result c2)
              | _ \<Rightarrow> admin_fail (not_found ''a contracting cluster is not registered'') result c2)"

definition apply_grant_revalidation :: "admin_message \<Rightarrow> admin_step" where
  "apply_grant_revalidation request result c =
    (case find_grant (cd_registry c) (adm_grant request) of
       None \<Rightarrow> admin_fail (not_found ''the grant is not registered'') result c
     | Some g \<Rightarrow>
         if gr_state g = GrantState_Fenced
         then admin_fail (status_make Outcome_Fenced
                ''a fenced grant is never revived; issue a new grant instead'') result c
         else
           let (attempt, c1) = draw c;
               g1 = g\<lparr>gr_attempt := attempt, gr_coordinator_term := cd_term c, gr_coordinator := cd_incarnation c,
                 gr_issued_at := cd_now c\<rparr>
           in case find_contract (cd_registry c) (gr_contract g) of
                None \<Rightarrow> admin_fail (not_found ''the grant references an unknown contract'') result
                         (set_grant (adm_grant request) g1 c1)
              | Some contract \<Rightarrow>
                  let g2 = g1\<lparr>gr_valid_until := timestamp_plus (cd_now c) (co_lease_duration contract),
                        gr_acknowledged := (False, False), gr_state := GrantState_Preparing,
                        gr_note := ''revalidation requested after a superseding change''\<rparr>
                  in admin_do (prepare_in_place (adm_grant request) g2)
                       (admin_done (\<lambda>res. res\<lparr>ads_contract := gr_contract g, ads_grant := gr_id g,
                          ads_detail := ''grant revalidation started with a fresh attempt identifier''\<rparr>))
                       result c1)"

section \<open>Consent and conflicts\<close>

definition fence_own :: "cluster_record \<Rightarrow> fence_trigger \<Rightarrow> action" where
  "fence_own cluster trigger =
    fence_cluster (cl_id cluster) trigger (cl_incarnation cluster) (cl_incarnation cluster) (cl_generation cluster)"

definition apply_consent_change :: "admin_message \<Rightarrow> bool \<Rightarrow> admin_step" where
  "apply_consent_change request withdraw result c =
    (case find_cluster (cd_registry c) (adm_cluster_id request) of
       None \<Rightarrow> admin_fail (not_found ''the cluster is not registered'') result c
     | Some cluster \<Rightarrow>
         let cluster' = cluster\<lparr>cl_consent_withdrawn := withdraw\<rparr> in
         admin_do (if withdraw then fence_own cluster' FenceTrigger_ClusterWithdrawal else return status_ok)
           (admin_do (persist_cluster (adm_cluster_id request))
             (admin_do (audit ''operator'' (if withdraw then ''withdraw-consent'' else ''restore-consent'')
                         (adm_cluster_id request) Outcome_Ok (adm_reason request))
               (admin_done (\<lambda>res. res\<lparr>ads_detail :=
                  (if withdraw then ''consent withdrawn and dependent grants fenced'' else ''consent restored'')\<rparr>))))
           result (set_cluster (adm_cluster_id request) cluster' c))"

definition apply_conflict_resolution :: "admin_message \<Rightarrow> admin_step" where
  "apply_conflict_resolution request result c =
    (case find_cluster (cd_registry c) (adm_cluster_id request) of
       None \<Rightarrow> admin_fail (not_found ''the cluster is not registered'') result c
     | Some cluster \<Rightarrow>
         if \<not> cl_generation_conflict cluster
         then admin_fail (invalid ''the cluster has no unresolved generation conflict'') result c
         else if adm_generation request \<le> cl_generation cluster
         then admin_fail (invalid ''the resolving generation must be greater than the conflicting generation'') result c
         else
           let cluster' = cluster\<lparr>cl_generation_conflict := False, cl_conflicting_generation := None,
                 cl_generation := adm_generation request\<rparr>
           in admin_do (fence_own cluster' FenceTrigger_Manual)
                (admin_do (persist_cluster (adm_cluster_id request))
                  (admin_do (audit ''operator'' ''resolve-conflict'' (adm_cluster_id request) Outcome_Ok
                              (adm_reason request))
                    (admin_done (\<lambda>res. res\<lparr>ads_detail :=
                       ''generation conflict resolved at generation '' @ decimal (unat (adm_generation request))\<rparr>))))
                result (set_cluster (adm_cluster_id request) cluster' c))"

section \<open>Records\<close>

text \<open>The records an erase mutation carries: default ones with the identity filled in.\<close>

definition erased_cluster :: "cluster_id \<Rightarrow> cluster_record" where
  "erased_cluster key =
    \<lparr>cl_id = key, cl_domain = [], cl_incarnation = nil_uuid, cl_generation = 0, cl_policy_generation = 0,
     cl_state = ClusterState_Unknown, cl_consent_withdrawn = False, cl_last_seen = 0, cl_endpoints = [],
     cl_content_digest = zero_digest, cl_generation_conflict = False, cl_conflicting_generation = None,
     cl_revision = 0, cl_provenance = default_provenance, cl_incarnation_changes = 0\<rparr>"

definition erased_link :: "edge_id \<Rightarrow> link_record" where
  "erased_link key =
    \<lparr>ln_id = key, ln_a = [], ln_b = [], ln_kind = LinkKind_Unknown, ln_state = LinkState_Unknown, ln_capacity = 0,
     ln_reserved = 0, ln_latency_micros = 0, ln_revision = 0, ln_provenance = default_provenance\<rparr>"

definition erased_path :: "path_id \<Rightarrow> path_record" where
  "erased_path key =
    \<lparr>pa_id = key, pa_a = [], pa_b = [], pa_hops = [], pa_bottleneck = 0, pa_state = PathState_Unknown,
     pa_revision = 0, pa_provenance = default_provenance, pa_contains_unsupported_edge = False\<rparr>"

definition erased_policy :: "string \<Rightarrow> policy_rule" where
  "erased_policy key =
    \<lparr>pr_id = key, pr_owner = [], pr_cluster_a = [], pr_cluster_b = [], pr_endpoint_a = [], pr_endpoint_b = [],
     pr_generation = 0, pr_allow = False, pr_allow_degraded = False, pr_max_capacity = 0, pr_revision = 0,
     pr_provenance = default_provenance\<rparr>"

definition upsert_cluster :: "cluster_record \<Rightarrow> action" where
  "upsert_cluster given c =
    (let n = counts (cd_registry c);
         record = given\<lparr>cl_domain := (if cl_domain given = [] then cf_domain (cd_config c) else cl_domain given),
           cl_revision := word_of_nat (rc_clusters n + rc_contracts n),
           cl_provenance := admin_provenance (cd_now c) (cl_provenance given)\<rparr>
     in and_do (on_registry (put_cluster record))
          (and_do (persist_cluster (cl_id record))
            (audit ''operator'' ''upsert-cluster'' (cl_id record) Outcome_Ok ''administrative record'')) c)"

definition delete_cluster :: "cluster_id \<Rightarrow> action" where
  "delete_cluster key =
    and_do (on_registry (erase_cluster key)) (append_mutation (Mutation_ClusterErase (erased_cluster key)))"

definition set_cluster_state :: "cluster_id \<Rightarrow> cluster_state \<Rightarrow> cluster_record \<Rightarrow> action" where
  "set_cluster_state key state cluster c =
    (let cluster' = cluster\<lparr>cl_state := state\<rparr> in
     and_do (if state = ClusterState_Retired then fence_own cluster' FenceTrigger_Manual else return status_ok)
       (persist_cluster key) (set_cluster key cluster' c))"

definition recompute_paths :: action where
  "recompute_paths = change (\<lambda>c. set_registry (recompute_path_states (cd_registry c)) c)"

definition persist_link :: "edge_id \<Rightarrow> action" where
  "persist_link key c =
    (case find_link (cd_registry c) key of
       None \<Rightarrow> Some (status_ok, c)
     | Some rec \<Rightarrow> append_mutation (Mutation_LinkPut rec) c)"

definition upsert_link :: "link_record \<Rightarrow> action" where
  "upsert_link given c =
    (let record = given\<lparr>ln_revision := word_of_nat (rc_links (counts (cd_registry c))),
           ln_provenance := admin_provenance (cd_now c) (ln_provenance given),
           ln_state := (if ln_state given = LinkState_Unknown \<and> ln_kind given = LinkKind_SyntheticModel
                        then LinkState_Up else ln_state given)\<rparr>
     in and_do (on_registry (put_link record))
          (and_do (persist_link (ln_id record))
            (and_do recompute_paths
              (audit ''operator'' ''upsert-link'' (ln_id record) Outcome_Ok (link_kind_support_note (ln_kind record))))) c)"

definition set_link_state :: "edge_id \<Rightarrow> link_state \<Rightarrow> link_record \<Rightarrow> action" where
  "set_link_state key state link c =
    (let link' = link\<lparr>ln_state := state, ln_provenance := (ln_provenance link)\<lparr>pv_observed_at := cd_now c\<rparr>\<rparr>;
         r = cd_registry c
     in and_do (append_mutation (Mutation_LinkPut link'))
          (and_do recompute_paths
            (\<lambda>c1. persist_all (map Mutation_PathPut (map snd (rg_paths (cd_registry c1)))) c1))
          (set_registry (r\<lparr>rg_links := om_put key link' (rg_links r)\<rparr>) c))"

definition delete_link :: "edge_id \<Rightarrow> action" where
  "delete_link key = and_do (on_registry (erase_link key)) (append_mutation (Mutation_LinkErase (erased_link key)))"

definition upsert_path :: "path_record \<Rightarrow> action" where
  "upsert_path given c =
    (let record = given\<lparr>pa_revision := word_of_nat (rc_paths (counts (cd_registry c))),
           pa_provenance := (pa_provenance given)\<lparr>pv_source := EvidenceSource_DerivedFromTopology,
             pv_verification := VerificationState_Verified, pv_observed_at := cd_now c\<rparr>\<rparr>
     in and_do (on_registry (put_path record))
          (and_do recompute_paths
            (\<lambda>c1. case find_path (cd_registry c1) (pa_id record) of
                    None \<Rightarrow> Some (status_ok, c1)
                  | Some stored \<Rightarrow> append_mutation (Mutation_PathPut stored) c1)) c)"

definition delete_path :: "path_id \<Rightarrow> action" where
  "delete_path key = and_do (on_registry (erase_path key)) (append_mutation (Mutation_PathErase (erased_path key)))"

definition fence_named :: "cluster_id \<Rightarrow> action" where
  "fence_named named =
    (if named = [] then return status_ok
     else fence_cluster named FenceTrigger_PolicyGenerationChange nil_uuid nil_uuid 0)"

definition upsert_policy :: "policy_rule \<Rightarrow> action" where
  "upsert_policy given c =
    (let rule = given\<lparr>pr_owner := (if pr_owner given = [] then cf_domain (cd_config c) else pr_owner given),
           pr_revision := word_of_nat (rc_policies (counts (cd_registry c))),
           pr_provenance := admin_provenance (cd_now c) (pr_provenance given)\<rparr>
     in and_do (on_registry (put_policy rule))
          (and_do (append_mutation (Mutation_PolicyPut rule))
            (and_do (fence_named (pr_cluster_a rule))
              (and_do (fence_named (pr_cluster_b rule))
                (audit ''operator'' ''upsert-policy'' (pr_id rule) Outcome_Ok
                  (if pr_allow rule then ''allow rule'' else ''refuse rule''))))) c)"

definition delete_policy :: "string \<Rightarrow> action" where
  "delete_policy key =
    and_do (on_registry (erase_policy key)) (append_mutation (Mutation_PolicyErase (erased_policy key)))"

definition revoke_grant :: "grant_record \<Rightarrow> action" where
  "revoke_grant g c =
    fence_plan_apply (plan_grants FenceTrigger_GrantRevocation ReasonCode_GrantFenced (\<lambda>_. gr_contract g)
      [gr_id g] (cd_term c) (cd_registry c)) ''operator'' c"

section \<open>Administration\<close>

text \<open>An action of the switch that ends with \<open>break\<close>: the view digest and the outcome are filled in.\<close>

definition admin_record :: "action \<Rightarrow> admin_step" where
  "admin_record a result c =
    (case a c of
       None \<Rightarrow> None
     | Some (s, c') \<Rightarrow>
         let result' = result\<lparr>ads_view_digest := registry_digest (cd_registry c')\<rparr> in
         if is_ok s then Some (status_ok, result'\<lparr>ads_outcome := Outcome_Ok\<rparr>, c')
         else Some (s, result'\<lparr>ads_outcome := st_outcome s,
                ads_detail := (if ads_detail result' = [] then st_message s else ads_detail result')\<rparr>, c'))"

text \<open>An early \<open>return\<close> of the switch that leaves the result as it is.\<close>

definition admin_refuse :: "status \<Rightarrow> admin_step" where
  "admin_refuse s result c = Some (s, result, c)"

definition handle_admin :: "admin_message \<Rightarrow> admin_step" where
  "handle_admin request given c =
    (let result = given\<lparr>ads_request := adm_request request, ads_outcome := Outcome_Ok\<rparr>; r = cd_registry c in
     case adm_action request of
       AdminAction_Unnamed \<Rightarrow> admin_record (return status_ok) result c
     | AdminAction_UpsertCluster \<Rightarrow>
         (case adm_cluster request of
            None \<Rightarrow> admin_refuse (invalid ''upsert-cluster requires a cluster record'') result c
          | Some x \<Rightarrow> admin_record (upsert_cluster x) result c)
     | AdminAction_DeleteCluster \<Rightarrow> admin_record (delete_cluster (adm_cluster_id request)) result c
     | AdminAction_SetClusterState \<Rightarrow>
         (case find_cluster r (adm_cluster_id request) of
            None \<Rightarrow> admin_refuse (not_found ''the cluster is not registered'') result c
          | Some x \<Rightarrow> admin_record (set_cluster_state (adm_cluster_id request) (adm_cluster_state request) x) result c)
     | AdminAction_UpsertLink \<Rightarrow>
         (case adm_link request of
            None \<Rightarrow> admin_refuse (invalid ''upsert-link requires a link record'') result c
          | Some x \<Rightarrow>
              if \<not> link_kind_supported (ln_kind x)
              then admin_fail (unsupported (''link kind is not supported by this runtime: ''
                     @ link_kind_support_note (ln_kind x))) result c
              else admin_record (upsert_link x) result c)
     | AdminAction_SetLinkState \<Rightarrow>
         (case find_link r (adm_edge request) of
            None \<Rightarrow> admin_refuse (not_found ''the link is not registered'') result c
          | Some x \<Rightarrow> admin_record (set_link_state (adm_edge request) (adm_link_state request) x) result c)
     | AdminAction_DeleteLink \<Rightarrow> admin_record (delete_link (adm_edge request)) result c
     | AdminAction_UpsertPath \<Rightarrow>
         (case adm_path request of
            None \<Rightarrow> admin_refuse (invalid ''upsert-path requires a path record'') result c
          | Some x \<Rightarrow> admin_record (upsert_path x) result c)
     | AdminAction_DeletePath \<Rightarrow> admin_record (delete_path (adm_edge request)) result c
     | AdminAction_UpsertPolicy \<Rightarrow>
         (case adm_policy request of
            None \<Rightarrow> admin_refuse (invalid ''upsert-policy requires a policy rule'') result c
          | Some x \<Rightarrow> admin_record (upsert_policy x) result c)
     | AdminAction_DeletePolicy \<Rightarrow> admin_record (delete_policy (adm_policy_id request)) result c
     | AdminAction_WithdrawConsent \<Rightarrow> apply_consent_change request True result c
     | AdminAction_RestoreConsent \<Rightarrow> apply_consent_change request False result c
     | AdminAction_ResolveConflict \<Rightarrow> apply_conflict_resolution request result c
     | AdminAction_AuthorizeContract \<Rightarrow> apply_contract_proposal request result c
     | AdminAction_IssueGrant \<Rightarrow> apply_grant_issue request result c
     | AdminAction_RevalidateGrant \<Rightarrow> apply_grant_revalidation request result c
     | AdminAction_FenceGrant \<Rightarrow>
         (case find_grant r (adm_grant request) of
            None \<Rightarrow> admin_refuse (not_found ''the grant is not registered'') result c
          | Some g \<Rightarrow> admin_record (revoke_grant g) result c)
     | AdminAction_ReloadStore \<Rightarrow>
         admin_fail (unsupported
           ''the store is opened once during startup; restart the coordinator to reload it'') result c)"

definition blank_admin_result :: admin_result_message where
  "blank_admin_result =
    \<lparr>ads_request = nil_uuid, ads_outcome = Outcome_Internal, ads_detail = [], ads_view_digest = zero_digest,
     ads_revision = 0, ads_contract = nil_uuid, ads_grant = nil_uuid\<rparr>"

definition answer_admin :: "u64 \<Rightarrow> status \<times> admin_result_message \<times> coordinator \<Rightarrow> (status \<times> coordinator) option" where
  "answer_admin key = (\<lambda>(handled, result, c).
    let result' = (if is_ok handled then result
          else result\<lparr>ads_outcome := st_outcome handled,
                 ads_detail := (if ads_detail result = [] then st_message handled else ads_detail result)\<rparr>)
    in send_to key MessageType_AdminResult
         (encode_admin_result (result'\<lparr>ads_view_digest := registry_digest (cd_registry c)\<rparr>)) c)"

definition agent_session :: "coordinator \<Rightarrow> u64 \<Rightarrow> bool" where
  "agent_session c key \<longleftrightarrow>
    (case session_for c key of None \<Rightarrow> False | Some session \<Rightarrow> se_role session = PeerRole_Agent)"

definition on_admin :: "u64 \<Rightarrow> bytes \<Rightarrow> action" where
  "on_admin key payload c =
    (case decode_admin payload of
       Inl e \<Rightarrow> refuse_frame key e c
     | Inr request \<Rightarrow>
         if agent_session c key
         then send_error key (adm_request request) Outcome_Unauthorized
                ''an agent session may not perform coordinator administration'' (reject_replay c)
         else Option.bind (handle_admin request blank_admin_result c) (answer_admin key))"

section \<open>Dispatch\<close>

definition handle_message :: "u64 \<Rightarrow> frame \<Rightarrow> action" where
  "handle_message key frame c =
    (let payload = fr_payload frame in
     case fh_type (fr_header frame) of
       MessageType_Hello \<Rightarrow> on_hello key payload c
     | MessageType_ReportCluster \<Rightarrow> on_report_cluster key payload c
     | MessageType_ContractConsent \<Rightarrow> on_contract_consent key payload c
     | MessageType_GrantPrepared \<Rightarrow> on_grant_prepared key payload c
     | MessageType_GrantCommitted \<Rightarrow> on_grant_committed key payload c
     | MessageType_GrantAborted \<Rightarrow> on_grant_aborted key payload c
     | MessageType_FenceAck \<Rightarrow> on_fence_ack key payload c
     | MessageType_Withdraw \<Rightarrow> on_withdraw key payload c
     | MessageType_StatusReport \<Rightarrow> on_status_report key payload c
     | MessageType_Query \<Rightarrow> on_query key payload c
     | MessageType_Admin \<Rightarrow> on_admin key payload c
     | MessageType_Ping \<Rightarrow> on_ping key payload c
     | MessageType_Pong \<Rightarrow> Some (status_ok, c\<lparr>cd_pongs_received := cd_pongs_received c + 1\<rparr>)
     | MessageType_Error \<Rightarrow> Some (status_ok, c\<lparr>cd_errors_received := cd_errors_received c + 1\<rparr>)
     | type \<Rightarrow> send_error key nil_uuid Outcome_Unsupported
         (''message type is not accepted by the coordinator: '' @ message_type_to_string type) (reject_frame c))"

end
