(* ===== verification/Coordinator_Laws.thy ===== *)
theory Coordinator_Laws
  imports Coordinator_Admin
begin

text \<open>
  What every operation of the coordinator keeps. \<open>sound\<close> is the invariant of the registry the
  coordinator serves from: it is well formed, a usable grant was acknowledged by both cluster agents,
  and, when \<open>strict\<close>, a contract that counts as consented carries two accepting consents. \<open>stays\<close> says
  that an outcome of an action has the invariant; its rules follow the way actions are composed.
\<close>

section \<open>The invariant\<close>

definition grants_acknowledged :: "registry \<Rightarrow> bool" where
  "grants_acknowledged r \<longleftrightarrow>
    (\<forall>key g. om_find (rg_grants r) key = Some g \<longrightarrow> usable_state g \<longrightarrow> both_acknowledged g)"

definition counts_as_consented :: "contract_record \<Rightarrow> bool" where
  "counts_as_consented x \<longleftrightarrow> co_state x = ContractState_Consented \<or> co_state x = ContractState_Active"

definition contracts_consented :: "registry \<Rightarrow> bool" where
  "contracts_consented r \<longleftrightarrow>
    (\<forall>key x. om_find (rg_contracts r) key = Some x \<longrightarrow> counts_as_consented x \<longrightarrow> both_consented x)"

definition sound :: "bool \<Rightarrow> registry \<Rightarrow> bool" where
  "sound strict r \<longleftrightarrow> registry_ok r \<and> grants_acknowledged r \<and> (strict \<longrightarrow> contracts_consented r)"

lemma sound_ok: "sound strict r \<Longrightarrow> registry_ok r"
  by (simp add: sound_def)

lemma sound_other_tables:
  assumes "sound strict r" "registry_ok r'" "rg_grants r' = rg_grants r" "rg_contracts r' = rg_contracts r"
  shows "sound strict r'"
  using assms by (simp add: sound_def grants_acknowledged_def contracts_consented_def)

lemma sound_grant_found:
  "sound strict r \<Longrightarrow> find_grant r key = Some g \<Longrightarrow> grant_ok key g \<and> (usable_state g \<longrightarrow> both_acknowledged g)"
  using table_ok_find registry_ok_tables(6) by (fastforce simp: sound_def grants_acknowledged_def find_grant_def)

lemma sound_contract_found:
  "sound strict r \<Longrightarrow> find_contract r key = Some x \<Longrightarrow> contract_ok key x"
  using table_ok_find registry_ok_tables(5) by (fastforce simp: sound_def find_contract_def)

lemma sound_cluster_found: "sound strict r \<Longrightarrow> find_cluster r key = Some x \<Longrightarrow> cluster_ok key x"
  using table_ok_find registry_ok_tables(1) by (fastforce simp: sound_def find_cluster_def)

lemma sound_om: "sound strict r \<Longrightarrow> om_ok (rg_grants r) \<and> om_ok (rg_contracts r) \<and> om_ok (rg_clusters r)"
  by (simp add: sound_def registry_ok_def table_ok_def)

text \<open>Writing over a record that is present.\<close>

lemma table_ok_overwrite:
  assumes "table_ok m bound P" "om_find m k \<noteq> None" "P k v"
  shows "table_ok (om_put k v m) bound P"
  using assms set_om_put_subset [of k v m] by (auto simp: table_ok_def om_put_length)

lemma sound_overwrite_cluster:
  assumes "sound strict r" "find_cluster r key \<noteq> None" "cluster_ok key x"
  shows "sound strict (r\<lparr>rg_clusters := om_put key x (rg_clusters r)\<rparr>)"
  using assms sound_ok [OF assms(1)]
  by (intro sound_other_tables [OF assms(1)] registry_ok_update table_ok_overwrite registry_ok_tables)
    (simp_all add: find_cluster_def)

lemma sound_overwrite_grant:
  assumes "sound strict r" "find_grant r key \<noteq> None" "grant_ok key g" "usable_state g \<Longrightarrow> both_acknowledged g"
  shows "sound strict (r\<lparr>rg_grants := om_put key g (rg_grants r)\<rparr>)"
proof -
  have "registry_ok (r\<lparr>rg_grants := om_put key g (rg_grants r)\<rparr>)"
    using assms sound_ok [OF assms(1)]
    by (intro registry_ok_update table_ok_overwrite registry_ok_tables) (simp_all add: find_grant_def)
  then show ?thesis
    using assms(1,4) by (simp add: sound_def grants_acknowledged_def contracts_consented_def om_find_put)
qed

lemma sound_overwrite_contract:
  assumes "sound strict r" "find_contract r key \<noteq> None" "contract_ok key x"
    and "counts_as_consented x \<Longrightarrow> both_consented x"
  shows "sound strict (r\<lparr>rg_contracts := om_put key x (rg_contracts r)\<rparr>)"
proof -
  have "registry_ok (r\<lparr>rg_contracts := om_put key x (rg_contracts r)\<rparr>)"
    using assms sound_ok [OF assms(1)]
    by (intro registry_ok_update table_ok_overwrite registry_ok_tables) (simp_all add: find_contract_def)
  then show ?thesis
    using assms(1,4) by (simp add: sound_def grants_acknowledged_def contracts_consented_def om_find_put)
qed

text \<open>Storing a record that may be new.\<close>

lemma put_grant_grants:
  "rg_grants (snd (put_grant g r)) = rg_grants r \<or> rg_grants (snd (put_grant g r)) = om_put (gr_id g) g (rg_grants r)"
  "rg_contracts (snd (put_grant g r)) = rg_contracts r"
  by (auto simp: put_grant_def insert_bounded_def Let_def split_beta)

lemma put_contract_contracts:
  "rg_contracts (snd (put_contract x r)) = rg_contracts r
    \<or> rg_contracts (snd (put_contract x r)) = om_put (co_id x) x (rg_contracts r)"
  "rg_grants (snd (put_contract x r)) = rg_grants r"
  by (auto simp: put_contract_def insert_bounded_def Let_def split_beta)

lemma sound_put_grant:
  assumes "sound strict r" "usable_state g \<Longrightarrow> both_acknowledged g"
  shows "sound strict (snd (put_grant g r))"
  using assms put_grant.run_keeps [of r g] put_grant_grants [of g r]
  by (auto simp: sound_def grants_acknowledged_def contracts_consented_def om_find_put split: if_split_asm)

lemma sound_put_contract:
  assumes "sound strict r" "counts_as_consented x \<Longrightarrow> both_consented x"
  shows "sound strict (snd (put_contract x r))"
  using assms put_contract.run_keeps [of r x] put_contract_contracts [of x r]
  by (auto simp: sound_def grants_acknowledged_def contracts_consented_def om_find_put split: if_split_asm)

lemma put_other_tables:
  "rg_grants (snd (put_cluster x r)) = rg_grants r" "rg_contracts (snd (put_cluster x r)) = rg_contracts r"
  "rg_grants (snd (put_link l r)) = rg_grants r" "rg_contracts (snd (put_link l r)) = rg_contracts r"
  "rg_grants (snd (put_path pa r)) = rg_grants r" "rg_contracts (snd (put_path pa r)) = rg_contracts r"
  "rg_grants (snd (put_policy po r)) = rg_grants r" "rg_contracts (snd (put_policy po r)) = rg_contracts r"
  "rg_grants (snd (put_reservation rs r)) = rg_grants r" "rg_contracts (snd (put_reservation rs r)) = rg_contracts r"
  by (simp_all add: put_cluster_def put_link_def put_path_def put_policy_def put_reservation_def Let_def split_beta)

lemma erase_other_tables:
  "rg_grants (snd (erase_cluster key r)) = rg_grants r" "rg_contracts (snd (erase_cluster key r)) = rg_contracts r"
  "rg_grants (snd (erase_link key r)) = rg_grants r" "rg_contracts (snd (erase_link key r)) = rg_contracts r"
  "rg_grants (snd (erase_path key r)) = rg_grants r" "rg_contracts (snd (erase_path key r)) = rg_contracts r"
  "rg_grants (snd (erase_policy key r)) = rg_grants r" "rg_contracts (snd (erase_policy key r)) = rg_contracts r"
  by (simp_all add: erase_cluster_def erase_link_def erase_path_def erase_policy_def)

lemma sound_mutators:
  assumes "sound strict r"
  shows "sound strict (snd (put_cluster x r))" "sound strict (snd (put_link l r))" "sound strict (snd (put_path pa r))"
    "sound strict (snd (put_policy po r))" "sound strict (snd (put_reservation rs r))"
    "sound strict (snd (erase_cluster key r))" "sound strict (snd (erase_link key r))"
    "sound strict (snd (erase_path key r))" "sound strict (snd (erase_policy key r))"
  by (rule sound_other_tables [OF assms], rule run_keeps [OF sound_ok [OF assms]],
      (rule put_other_tables erase_other_tables)+)+

lemma sound_recompute:
  assumes "sound strict r"
  shows "sound strict (recompute_path_states r)"
  by (rule sound_other_tables [OF assms recompute_path_states_keeps [OF sound_ok [OF assms]]])
    (simp_all add: recompute_path_states_def)

lemma sound_append_audit:
  assumes "sound strict r" "append_audit at actor act subject out detail r = Some (s, r')"
  shows "sound strict r'"
proof (rule sound_other_tables [OF assms(1)])
  show "registry_ok r'" using append_audit_ok_keeps assms sound_ok by blast
  show "rg_grants r' = rg_grants r" "rg_contracts r' = rg_contracts r"
    using append_audit_frame [OF assms(2)] by auto
qed

lemma sound_evolves:
  assumes "sound strict r" "registry_ok r'" "evolves r r'"
  shows "sound strict r'"
proof -
  have g: "usable_state g' \<longrightarrow> both_acknowledged g'" if "om_find (rg_grants r') key = Some g'" for key g'
    using assms(1,3) table_evolves_back [OF _ that, of grant_evolves "rg_grants r"]
    by (auto simp: evolves_def sound_def grants_acknowledged_def grant_evolves_def withdrawn_grant_def usable_state_def)
  have x: "counts_as_consented x' \<longrightarrow> both_consented x'" if "strict" "om_find (rg_contracts r') key = Some x'" for key x'
    using assms(1,3) that(1) table_evolves_back [OF _ that(2), of contract_evolves "rg_contracts r"]
    by (auto simp: evolves_def sound_def contracts_consented_def contract_evolves_def withdrawn_contract_def
        counts_as_consented_def)
  show ?thesis using assms(2) g x by (auto simp: sound_def grants_acknowledged_def contracts_consented_def)
qed

lemma sound_fence:
  assumes "sound strict r" "apply_fence_plan plan at actor r = Some (res, r')"
  shows "sound strict r'"
proof -
  note run = assms(2) [unfolded apply_fence_plan_def]
  show ?thesis
    using assms(1) apply_actions_keeps [OF sound_ok [OF assms(1)] run]
      apply_actions_evolves [OF sound_ok [OF assms(1)] run] by (rule sound_evolves)
qed

section \<open>Actions\<close>

definition stays :: "bool \<Rightarrow> (status \<times> coordinator) option \<Rightarrow> bool" where
  "stays strict out \<longleftrightarrow> (\<forall>s c. out = Some (s, c) \<longrightarrow> sound strict (cd_registry c))"

named_theorems stay \<open>rules for the outcome of an action\<close>

lemma stays_None [simp]: "stays strict None"
  by (simp add: stays_def)

lemma stays_Some [simp]: "stays strict (Some (s, c)) \<longleftrightarrow> sound strict (cd_registry c)"
  by (auto simp: stays_def)

lemma stays_return [stay]: "sound strict (cd_registry c) \<Longrightarrow> stays strict (return s c)"
  by (simp add: return_def)

lemma stays_change [stay]: "sound strict (cd_registry (f c)) \<Longrightarrow> stays strict (change f c)"
  by (simp add: change_def)

lemma stays_and_do [stay]:
  assumes "stays strict (a c)" "\<And>c'. sound strict (cd_registry c') \<Longrightarrow> stays strict (b c')"
  shows "stays strict (and_do a b c)"
  using assms by (auto simp: and_do_def stays_def split: option.splits if_splits)

text \<open>An action that leaves the registry alone.\<close>

locale quiet_action =
  fixes run :: action
  assumes leaves_registry: "run c = Some (s, c') \<Longrightarrow> cd_registry c' = cd_registry c"
begin

lemma quiet: "sound strict (cd_registry c) \<Longrightarrow> stays strict (run c)"
  using leaves_registry by (auto simp: stays_def)

end

interpretation append_mutation: quiet_action "append_mutation m" for m
  by unfold_locales (auto simp: append_mutation_def Let_def split: prod.splits)

lemma quiet_and_do: "quiet_action a \<Longrightarrow> quiet_action b \<Longrightarrow> quiet_action (and_do a b)"
  by (fastforce simp: quiet_action_def and_do_def split: option.splits if_splits)

interpretation persist_all: quiet_action "persist_all ms" for ms
proof -
  have "quiet_action (return status_ok)" by unfold_locales (simp add: return_def)
  then show "quiet_action (persist_all ms)"
    by (induction ms) (simp_all add: quiet_and_do append_mutation.quiet_action_axioms)
qed

interpretation send_to: quiet_action "send_to key type payload" for key type payload
  by unfold_locales (auto simp: send_to_def split: option.splits prod.splits)

interpretation send_error: quiet_action "send_error key request out detail" for key request out detail
  using send_to.leaves_registry by unfold_locales (simp add: send_error_def)

interpretation send_refuse: quiet_action "send_refuse key out detail" for key out detail
  using send_to.leaves_registry by unfold_locales (fastforce simp: send_refuse_def count_refusal_def)

interpretation refuse_frame: quiet_action "refuse_frame key e" for key e
  using send_error.leaves_registry by unfold_locales (fastforce simp: refuse_frame_def reject_frame_def)

interpretation persist_cluster: quiet_action "persist_cluster key" for key
  using append_mutation.leaves_registry by unfold_locales (auto simp: persist_cluster_def split: option.splits)

interpretation compact_if_needed: quiet_action compact_if_needed
  by unfold_locales (auto simp: compact_if_needed_def draw_def Let_def split: prod.splits if_splits)

lemmas stays_quiet [stay] = append_mutation.quiet persist_all.quiet send_to.quiet send_error.quiet send_refuse.quiet
  refuse_frame.quiet persist_cluster.quiet compact_if_needed.quiet

lemma registry_updates [simp]:
  "cd_registry (reject_frame c) = cd_registry c" "cd_registry (reject_replay c) = cd_registry c"
  "cd_registry (count_refusal c) = cd_registry c" "cd_registry (set_registry r c) = r"
  "cd_registry (drop_pending key c) = cd_registry c"
  by (simp_all add: reject_frame_def reject_replay_def count_refusal_def set_registry_def drop_pending_def)

lemma set_record_registry:
  "cd_registry (set_cluster key x c) = (cd_registry c)\<lparr>rg_clusters := om_put key x (rg_clusters (cd_registry c))\<rparr>"
  "cd_registry (set_contract k y c) = (cd_registry c)\<lparr>rg_contracts := om_put k y (rg_contracts (cd_registry c))\<rparr>"
  "cd_registry (set_grant k g c) = (cd_registry c)\<lparr>rg_grants := om_put k g (rg_grants (cd_registry c))\<rparr>"
  by (simp_all add: set_cluster_def set_contract_def set_grant_def)

lemma draw_registry [simp]: "cd_registry (snd (draw c)) = cd_registry c"
  by (simp add: draw_def)

lemma stays_audit [stay]: "sound strict (cd_registry c) \<Longrightarrow> stays strict (audit actor act subject out detail c)"
  by (auto simp: audit_def append_mutation.quiet split: option.splits dest: sound_append_audit)

lemma send_anyway_registry [simp]: "cd_registry (send_anyway key type payload c) = cd_registry c"
  by (auto simp: send_anyway_def split: option.splits prod.splits dest: send_to.leaves_registry)

lemma fold_registry:
  "(\<And>x d. cd_registry (f x d) = cd_registry d) \<Longrightarrow> cd_registry (fold f xs c) = cd_registry c"
  by (induction xs arbitrary: c) simp_all

lemma notify_fence_registry [simp]: "cd_registry (notify_fence plan grants c) = cd_registry c"
  by (auto simp: notify_fence_def intro!: fold_registry split: prod.split)

lemma stays_fence_plan_apply [stay]:
  "sound strict (cd_registry c) \<Longrightarrow> stays strict (fence_plan_apply plan actor c)"
  by (auto simp: fence_plan_apply_def Let_def split: option.splits sum.splits dest: sound_fence intro!: stay)

lemma stays_fence_cluster [stay]:
  "sound strict (cd_registry c) \<Longrightarrow> stays strict (fence_cluster cluster trigger new previous generation c)"
  by (auto simp: fence_cluster_def Let_def intro!: stay)

section \<open>Grant flow\<close>

lemma set_endpoint_ids: "map ep_id (set_endpoint e xs) = map ep_id xs"
  by (induction xs) auto

lemma set_set_endpoint: "set (set_endpoint e xs) \<subseteq> insert e (set xs)"
  by (induction xs) auto

lemma length_set_endpoint [simp]: "length (set_endpoint e xs) = length xs"
  by (induction xs) auto

lemma reserved_within:
  fixes requested already capacity :: u64
  assumes "\<not> (requested > capacity \<or> already > capacity - requested)"
  shows "already + requested \<le> capacity"
proof -
  have "unat requested \<le> unat capacity" "unat already \<le> unat capacity - unat requested"
    using assms by (auto simp: word_le_nat_alt unat_sub_le not_less)
  then have "unat already + unat requested \<le> unat capacity" by linarith
  then show ?thesis
    using unsigned_less [of capacity, where ?'a = nat] by (simp add: word_le_nat_alt unat_add_small)
qed

lemma reserved_endpoints_ok:
  assumes "endpoints_ok cid eps" "e \<in> set eps" "amount \<le> ep_capacity e"
  shows "endpoints_ok cid (set_endpoint (e\<lparr>ep_reserved := amount\<rparr>) eps)"
  using assms set_set_endpoint [of "e\<lparr>ep_reserved := amount\<rparr>" eps]
  by (auto simp: endpoints_ok_def set_endpoint_ids)

lemma reserve_side_grants:
  assumes "reserve_side contract grant at side c = Some (s, c')"
  shows "rg_grants (cd_registry c') = rg_grants (cd_registry c)"
  using assms
  by (auto simp: reserve_side_def Let_def draw_def split_beta set_record_registry put_other_tables
      simp del: persist_all.simps split: option.splits if_split_asm dest!: persist_all.leaves_registry)

lemma stays_reserve_side [stay]:
  assumes s: "sound strict (cd_registry c)"
  shows "stays strict (reserve_side contract grant at side c)"
proof (cases "find_cluster (cd_registry c) (pt_cluster (party_at (co_parties contract) side))")
  case (Some cluster)
  let ?party = "party_at (co_parties contract) side"
  show ?thesis
  proof (cases "find (\<lambda>e. ep_id e = pt_endpoint ?party) (cl_endpoints cluster)")
    case found: (Some e)
    show ?thesis
    proof (cases "gr_capacity grant > ep_capacity e \<or> ep_reserved e > ep_capacity e - gr_capacity grant")
      case False
      let ?eps = "set_endpoint (e\<lparr>ep_reserved := ep_reserved e + gr_capacity grant\<rparr>) (cl_endpoints cluster)"
      have "cluster_ok (pt_cluster ?party) (cluster\<lparr>cl_endpoints := ?eps\<rparr>)"
        using sound_cluster_found [OF s Some] reserved_endpoints_ok reserved_within [OF False] find_SomeD [OF found]
        by (auto simp: cluster_ok_def)
      then have "sound strict (cd_registry (set_cluster (pt_cluster ?party) (cluster\<lparr>cl_endpoints := ?eps\<rparr>) c))"
        using sound_overwrite_cluster [OF s] Some by (simp add: set_record_registry)
      then show ?thesis
        using False by (auto simp: reserve_side_def Some found Let_def draw_def split_beta sound_mutators
            split del: if_split intro!: stay split: if_splits)
    qed (simp add: reserve_side_def Some found s)
  qed (simp add: reserve_side_def Some s)
qed (simp add: reserve_side_def s)

lemma stays_reserve_capacity [stay]:
  "sound strict (cd_registry c) \<Longrightarrow> stays strict (reserve_capacity grant at c)"
  by (auto simp: reserve_capacity_def split: option.split intro!: stay)

lemma reserve_capacity_grants:
  "reserve_capacity grant at c = Some (s, c') \<Longrightarrow> rg_grants (cd_registry c') = rg_grants (cd_registry c)"
  by (auto simp: reserve_capacity_def and_do_def split: option.splits if_splits dest!: reserve_side_grants)

lemma sound_set_grant:
  assumes "sound strict (cd_registry c)" "find_grant (cd_registry c) key = Some g"
    and "gr_id g' = gr_id g" "gr_contract g' = gr_contract g" "gr_capacity g' = gr_capacity g"
    and "usable_state g' \<Longrightarrow> both_acknowledged g'"
  shows "sound strict (cd_registry (set_grant key g' c))"
  using sound_grant_found [OF assms(1,2)] assms
  by (auto simp: set_record_registry grant_ok_def intro!: sound_overwrite_grant)

lemma stays_abort_grant [stay]:
  assumes s: "sound strict (cd_registry c)"
  shows "stays strict (abort_grant key reason c)"
proof (cases "find_grant (cd_registry c) key")
  case (Some g)
  have "sound strict (cd_registry (set_grant key (g\<lparr>gr_state := GrantState_Aborted, gr_note := reason\<rparr>) c))"
    by (rule sound_set_grant [OF s Some]) (simp_all add: usable_state_def)
  then show ?thesis
    using s by (auto simp: abort_grant_def Some Let_def stays_audit split: option.split
        dest!: append_mutation.leaves_registry)
qed (simp add: abort_grant_def s)

lemma stays_finalise_grant [stay]:
  assumes s: "sound strict (cd_registry c)"
  shows "stays strict (finalise_grant key at c)"
proof (cases "find_grant (cd_registry c) key")
  case (Some g)
  have kept: "sound strict (cd_registry (set_grant key g' c1))"
    if "reserve_capacity g at c = Some (reserved, c1)" "both_acknowledged g" "gr_id g' = gr_id g"
      "gr_contract g' = gr_contract g" "gr_capacity g' = gr_capacity g" "gr_acknowledged g' = gr_acknowledged g"
    for reserved c1 g'
  proof (rule sound_set_grant)
    show "sound strict (cd_registry c1)" using stays_reserve_capacity [OF s] that(1) by (simp add: stays_def)
    show "find_grant (cd_registry c1) key = Some g"
      using Some reserve_capacity_grants [OF that(1)] by (simp add: find_grant_def)
  qed (use that in \<open>simp_all add: both_acknowledged_def\<close>)
  have r: "stays strict (reserve_capacity g at c)" by (rule stays_reserve_capacity [OF s])
  show ?thesis
    using s r kept
    by (auto simp: finalise_grant_def Some Let_def stays_def [of _ "reserve_capacity g at c"] split: option.split
        intro!: stay)
qed (simp add: finalise_grant_def s)

lemma stays_commit_grant [stay]:
  assumes s: "sound strict (cd_registry c)"
  shows "stays strict (commit_grant key c)"
proof (cases "find_grant (cd_registry c) key")
  case (Some g)
  have "sound strict (cd_registry (set_grant key (g\<lparr>gr_state := st, gr_note := words\<rparr>) c))"
    if "st = GrantState_Indeterminate \<or> st = GrantState_Prepared" for st words
    by (rule sound_set_grant [OF s Some]) (use that in \<open>auto simp: usable_state_def\<close>)
  then show ?thesis
    using s by (auto simp: commit_grant_def send_commit_def Some Let_def split: option.split prod.split intro!: stay)
qed (simp add: commit_grant_def s)

lemma prepare_grant_outcome:
  assumes s: "sound strict (cd_registry c)" and run: "prepare_grant grant c = Some (st, g, c')"
    and new: "gr_state grant = GrantState_Preparing"
  shows "sound strict (cd_registry c')" "gr_id g = gr_id grant" "gr_contract g = gr_contract grant"
    "gr_capacity g = gr_capacity grant" "gr_state g = GrantState_Preparing"
    "find_grant (cd_registry c) key \<noteq> None \<Longrightarrow> find_grant (cd_registry c') key \<noteq> None"
proof -
  have put: "sound strict (snd (put_grant g (cd_registry d)))" if "sound strict (cd_registry d)"
    "gr_state g = GrantState_Preparing" for d :: coordinator and g
    by (rule sound_put_grant [OF that(1)]) (simp add: that(2) usable_state_def)
  have found: "find_grant (snd (put_grant g r)) key \<noteq> None" if "find_grant r key \<noteq> None" for g r
    using that put_grant_grants(1) [of g r] by (auto simp: find_grant_def om_find_put split: if_splits)
  show "gr_id g = gr_id grant" "gr_contract g = gr_contract grant" "gr_capacity g = gr_capacity grant"
    "gr_state g = GrantState_Preparing"
    using run new by (auto simp: prepare_grant_def Let_def split: option.splits if_splits sum.splits)
  show "sound strict (cd_registry c')"
    using run s put
    by (auto simp: prepare_grant_def Let_def and_do_def send_prepare_def split: option.splits if_splits sum.splits
        dest!: append_mutation.leaves_registry send_to.leaves_registry)
  show "find_grant (cd_registry c) key \<noteq> None \<Longrightarrow> find_grant (cd_registry c') key \<noteq> None"
    using run found [of "cd_registry c"]
    by (auto simp: prepare_grant_def Let_def and_do_def send_prepare_def split: option.splits if_splits sum.splits
        dest!: append_mutation.leaves_registry send_to.leaves_registry)
qed

lemma stays_prepare_local [stay]:
  assumes "sound strict (cd_registry c)" "gr_state grant = GrantState_Preparing"
  shows "stays strict (prepare_local grant c)"
  using prepare_grant_outcome(1) [OF assms(1) _ assms(2)] by (auto simp: prepare_local_def stays_def)

lemma stays_prepare_in_place:
  assumes s: "sound strict (cd_registry c)" and here: "find_grant (cd_registry c) key = Some g"
    and g': "gr_id g' = gr_id g" "gr_contract g' = gr_contract g" "gr_capacity g' = gr_capacity g"
      "gr_state g' = GrantState_Preparing"
  shows "stays strict (prepare_in_place key g' c)"
proof -
  have s1: "sound strict (cd_registry (set_grant key g' c))"
    by (rule sound_set_grant [OF s here g'(1-3)]) (simp add: g'(4) usable_state_def)
  have "sound strict (cd_registry (set_grant key h c'))"
    if run: "prepare_grant g' (set_grant key g' c) = Some (st, h, c')" for st h c'
  proof -
    note out = prepare_grant_outcome [OF s1 run g'(4)]
    have "find_grant (cd_registry (set_grant key g' c)) key \<noteq> None"
      by (simp add: set_record_registry find_grant_def om_find_put)
    then have "find_grant (cd_registry c') key \<noteq> None" by (rule out(6))
    moreover have "grant_ok key h"
      using sound_grant_found [OF s here] g' out(2-4) by (auto simp: grant_ok_def)
    ultimately show ?thesis
      using out(1,5) unfolding set_record_registry
      by (intro sound_overwrite_grant) (simp_all add: usable_state_def)
  qed
  then show ?thesis by (auto simp: prepare_in_place_def stays_def)
qed

section \<open>Handshake and reports\<close>

lemma session_updates [simp]:
  "cd_registry (set_session key session c) = cd_registry c" "cd_registry (install_key key channel c) = cd_registry c"
  by (simp_all add: set_session_def install_key_def split: option.split)

lemma sound_set_cluster:
  assumes "sound strict (cd_registry c)" "find_cluster (cd_registry c) key = Some x"
    and "cl_id x' = cl_id x" "cl_domain x' = cl_domain x" "cl_endpoints x' = cl_endpoints x"
  shows "sound strict (cd_registry (set_cluster key x' c))"
  using sound_cluster_found [OF assms(1,2)] assms
  by (auto simp: set_record_registry cluster_ok_def intro!: sound_overwrite_cluster)

lemma stays_refuse_hello [stay]: "sound strict (cd_registry c) \<Longrightarrow> stays strict (refuse_hello key ack out detail c)"
  by (auto simp: refuse_hello_def send_hello_ack_def intro!: stay)

lemma stays_finish_hello [stay]:
  "sound strict (cd_registry c) \<Longrightarrow> stays strict (finish_hello key request signing ack fenced detail c)"
  by (auto simp: finish_hello_def send_hello_ack_def Let_def draw_def intro!: stay)

lemma stays_hello_register [stay]:
  "sound strict (cd_registry c) \<Longrightarrow> (\<And>xs d c'. sound strict (cd_registry c') \<Longrightarrow> stays strict (go xs d c')) \<Longrightarrow>
    stays strict (hello_register key request ack go c)"
  using sound_mutators(1) [of strict "cd_registry c" "registered_cluster request (cd_now c)"]
  by (auto simp: hello_register_def split: prod.split intro!: stay)

lemma stays_hello_existing [stay]:
  assumes s: "sound strict (cd_registry c)" and here: "find_cluster (cd_registry c) (hel_cluster request) = Some x"
    and go: "\<And>xs d c'. sound strict (cd_registry c') \<Longrightarrow> stays strict (go xs d c')"
  shows "stays strict (hello_existing key request x ack go c)"
proof -
  note kept = sound_set_cluster [OF s here]
  show ?thesis
    unfolding hello_existing_def Let_def send_hello_ack_def
    by (auto intro!: stay go kept simp: s reincarnated_cluster_def)
qed

lemma stays_on_hello [stay]:
  "sound strict (cd_registry c) \<Longrightarrow> stays strict (on_hello key payload c)"
  by (auto simp: on_hello_def hello_agent_def hello_observer_def send_hello_ack_def draw_def Let_def
      split: sum.split option.split intro!: stay)

lemma stays_with_session [stay]:
  assumes "sound strict (cd_registry c)"
    and "\<And>session. session_for c key = Some session \<Longrightarrow> stays strict (body session c)"
  shows "stays strict (with_session key token body c)"
  using assms by (auto simp: with_session_def require_session_def split: option.split intro!: stay)

lemma stays_report_cluster [stay]:
  assumes s: "sound strict (cd_registry c)" and here: "find_cluster (cd_registry c) (se_cluster session) = Some x"
  shows "stays strict (report_cluster key session incoming x ack c)"
proof -
  note kept = sound_set_cluster [OF s here] and put = sound_mutators(1) [OF s]
  have conflict: "stays strict (report_conflict key session incoming x ack c)"
    by (auto simp: report_conflict_def send_report_ack_def Let_def intro!: stay kept)
  have refused: "stays strict (refuse_report key ack detail c)" for detail
    by (auto simp: refuse_report_def send_report_ack_def s intro!: stay)
  have stored: "stays strict (report_stored key y changed ack c')" if "sound strict (cd_registry c')" for y changed c'
    using that by (auto simp: report_stored_def send_report_ack_def sound_recompute intro!: stay)
  show ?thesis
    unfolding report_cluster_def Let_def
    using put [of "accepted_report session (cd_now c) x incoming"]
    by (auto simp: conflict refused split: prod.split option.split intro!: stay stored)
qed

lemma stays_on_report_cluster [stay]:
  "sound strict (cd_registry c) \<Longrightarrow> stays strict (on_report_cluster key payload c)"
  by (auto simp: on_report_cluster_def Let_def split: sum.split option.split intro!: stay)

section \<open>Messages of an agent\<close>

lemma both_consented_cases:
  "counts_as_consented (consented_contract side now record x) \<Longrightarrow> both_consented (consented_contract side now record x)"
  by (auto simp: counts_as_consented_def consented_contract_def Let_def both_consented_def split: if_splits)

lemma consented_contract_fields [simp]:
  "co_id (consented_contract side now record x) = co_id x"
  "co_parties (consented_contract side now record x) = co_parties x"
  "co_capacity (consented_contract side now record x) = co_capacity x"
  "co_terms_digest (consented_contract side now record x) = co_terms_digest x"
  by (simp_all add: consented_contract_def Let_def)

lemma stays_accept_consent [stay]:
  assumes s: "sound strict (cd_registry c)" and here: "find_contract (cd_registry c) (con_contract m) = Some x"
  shows "stays strict (accept_consent key m session x side c)"
proof -
  have "sound strict (cd_registry (set_contract (con_contract m) (consented_contract side now given x) c))" for now given
    using sound_contract_found [OF s here] here unfolding set_record_registry
    by (intro sound_overwrite_contract [OF s] both_consented_cases) (auto simp: contract_ok_def)
  then show ?thesis using s by (auto simp: accept_consent_def Let_def intro!: stay)
qed

lemma stays_on_contract_consent [stay]:
  "sound strict (cd_registry c) \<Longrightarrow> stays strict (on_contract_consent key payload c)"
  by (auto simp: on_contract_consent_def split: sum.split option.split intro!: stay)

lemma stays_on_ping [stay]: "sound strict (cd_registry c) \<Longrightarrow> stays strict (on_ping key payload c)"
  by (auto simp: on_ping_def split: sum.split intro!: stay)

lemma stays_with_grant [stay]:
  assumes "sound strict (cd_registry c)"
    and "\<And>g side. find_grant (cd_registry c) grant = Some g \<Longrightarrow> stays strict (body g side c)"
  shows "stays strict (with_grant key session grant attempt body c)"
  using assms by (auto simp: with_grant_def split: option.split intro!: stay)

lemma acknowledged_more:
  "both_acknowledged g \<Longrightarrow> both_acknowledged (g\<lparr>gr_acknowledged := set_party side True (gr_acknowledged g)\<rparr>)"
  by (simp add: both_acknowledged_def set_party_def)

lemma stays_accept_prepared [stay]:
  assumes s: "sound strict (cd_registry c)" and here: "find_grant (cd_registry c) (gpr_grant m) = Some g"
  shows "stays strict (accept_prepared key m g side c)"
proof -
  have kept: "sound strict (cd_registry (set_grant (gpr_grant m) (g\<lparr>gr_enforcement_digest := d\<rparr>) c))" for d
    using sound_grant_found [OF s here]
    by (intro sound_set_grant [OF s here]) (auto simp: usable_state_def both_acknowledged_def)
  show ?thesis using s by (auto simp: accept_prepared_def Let_def kept split: option.split intro!: stay)
qed

lemma stays_on_grant_prepared [stay]:
  "sound strict (cd_registry c) \<Longrightarrow> stays strict (on_grant_prepared key payload c)"
  by (auto simp: on_grant_prepared_def split: sum.split intro!: stay)

lemma sound_acknowledge:
  assumes s: "sound strict (cd_registry c)" and here: "find_grant (cd_registry c) key = Some g"
  shows "sound strict (cd_registry (set_grant key
    (g\<lparr>gr_acknowledged := set_party side True (gr_acknowledged g), gr_enforcement_digest := d\<rparr>) c))"
  using sound_grant_found [OF s here]
  by (intro sound_set_grant [OF s here]) (auto simp: usable_state_def both_acknowledged_def set_party_def)

lemma stays_accept_committed [stay]:
  assumes s: "sound strict (cd_registry c)" and here: "find_grant (cd_registry c) (gcm_grant m) = Some g"
  shows "stays strict (accept_committed m g side c)"
  using s by (auto simp: accept_committed_def Let_def sound_acknowledge [OF s here] intro!: stay)

lemma stays_on_grant_committed [stay]:
  "sound strict (cd_registry c) \<Longrightarrow> stays strict (on_grant_committed key payload c)"
  by (auto simp: on_grant_committed_def split: sum.split intro!: stay)

lemma stays_on_grant_aborted [stay]:
  "sound strict (cd_registry c) \<Longrightarrow> stays strict (on_grant_aborted key payload c)"
  by (auto simp: on_grant_aborted_def split: sum.split intro!: stay)

lemma stays_audit_fence_results [stay]:
  "sound strict (cd_registry c) \<Longrightarrow> stays strict (audit_fence_results cluster xs c)"
  by (induction xs arbitrary: c) (auto intro!: stay)

lemma stays_on_fence_ack [stay]: "sound strict (cd_registry c) \<Longrightarrow> stays strict (on_fence_ack key payload c)"
  by (auto simp: on_fence_ack_def split: sum.split intro!: stay)

lemma stays_accept_withdrawal [stay]:
  assumes s: "sound strict (cd_registry c)" and here: "find_cluster (cd_registry c) (se_cluster session) = Some x"
  shows "stays strict (accept_withdrawal key m session x c)"
  using sound_set_cluster [OF s here] by (auto simp: accept_withdrawal_def Let_def intro!: stay)

lemma stays_on_withdraw [stay]: "sound strict (cd_registry c) \<Longrightarrow> stays strict (on_withdraw key payload c)"
  by (auto simp: on_withdraw_def split: sum.split option.split intro!: stay)

lemma reconcile_grant_keeps:
  assumes s: "sound strict (cd_registry c)" and run: "reconcile_grant session reported key c = Some (st, fence, c')"
  shows "sound strict (cd_registry c')"
proof (cases "find_grant (cd_registry c) key")
  case (Some g)
  have kept: "sound strict (cd_registry (set_grant key (g\<lparr>gr_state := GrantState_Indeterminate, gr_note := words\<rparr>) c))" for words
    by (rule sound_set_grant [OF s Some]) (simp_all add: usable_state_def)
  from run s show ?thesis
    by (auto simp: reconcile_grant_def Some Let_def kept sound_acknowledge [OF s Some] split: option.splits if_split_asm
        dest!: append_mutation.leaves_registry)
qed (use run s in \<open>simp add: reconcile_grant_def\<close>)

lemma reconcile_grants_keeps:
  "sound strict (cd_registry c) \<Longrightarrow> reconcile_grants session reported keys fence c = Some (st, fence', c') \<Longrightarrow>
    sound strict (cd_registry c')"
  by (induction keys arbitrary: c fence) (auto split: option.splits if_splits dest: reconcile_grant_keeps)

lemma stays_finalise_ready [stay]: "sound strict (cd_registry c) \<Longrightarrow> stays strict (finalise_ready keys c)"
  by (induction keys arbitrary: c) (auto split: option.split intro!: stay)

lemma stays_accept_status_report [stay]:
  assumes "sound strict (cd_registry c)"
  shows "stays strict (accept_status_report m session c)"
  using assms
  by (auto simp: accept_status_report_def Let_def split: option.split intro!: stay dest!: reconcile_grants_keeps [rotated])

lemma stays_on_status_report [stay]:
  "sound strict (cd_registry c) \<Longrightarrow> stays strict (on_status_report key payload c)"
  by (auto simp: on_status_report_def split: sum.split intro!: stay)

section \<open>Disconnect and housekeeping\<close>

lemma sound_suspend_grant:
  assumes s: "sound strict (cd_registry c)"
  shows "sound strict (cd_registry (suspend_grant cluster key c))"
proof (cases "find_grant (cd_registry c) key")
  case (Some g)
  have "sound strict (cd_registry (set_grant key (g\<lparr>gr_state := GrantState_Indeterminate, gr_note := words\<rparr>) c))" for words
    by (rule sound_set_grant [OF s Some]) (simp_all add: usable_state_def)
  with s show ?thesis
    by (auto simp: suspend_grant_def Some Let_def split: option.split dest!: append_mutation.leaves_registry)
qed (simp add: suspend_grant_def s)

lemma sound_mark_expired:
  assumes s: "sound strict (cd_registry c)"
  shows "sound strict (cd_registry (mark_expired key c))"
proof (cases "find_grant (cd_registry c) key")
  case (Some g)
  have "sound strict (cd_registry (set_grant key (g\<lparr>gr_state := GrantState_Expired\<rparr>) c))"
    by (rule sound_set_grant [OF s Some]) (simp_all add: usable_state_def)
  with s show ?thesis
    by (auto simp: mark_expired_def Some Let_def split: option.split dest!: append_mutation.leaves_registry)
qed (simp add: mark_expired_def s)

lemma fold_sound:
  "(\<And>x d. sound strict (cd_registry d) \<Longrightarrow> sound strict (cd_registry (f x d))) \<Longrightarrow>
    sound strict (cd_registry c) \<Longrightarrow> sound strict (cd_registry (fold f xs c))"
  by (induction xs arbitrary: c) simp_all

lemma sound_handle_disconnect:
  "sound strict (cd_registry c) \<Longrightarrow> sound strict (cd_registry (handle_disconnect key reason c))"
  by (auto simp: handle_disconnect_def Let_def split: option.split intro!: fold_sound sound_suspend_grant)

lemma expire_grants_keeps:
  "sound strict (cd_registry c) \<Longrightarrow> expire_grants c = Some c' \<Longrightarrow> sound strict (cd_registry c')"
  using stays_fence_plan_apply [of strict c]
  by (auto simp: expire_grants_def Let_def stays_def split: option.splits if_splits
      intro!: fold_sound sound_mark_expired)

lemma abort_all_keeps:
  "sound strict (cd_registry c) \<Longrightarrow> abort_all keys c = Some c' \<Longrightarrow> sound strict (cd_registry c')"
proof (induction keys arbitrary: c)
  case (Cons key keys)
  obtain c1 where c1: "abort_anyway key c = Some c1" "abort_all keys c1 = Some c'"
    using Cons.prems(2) by (auto split: option.splits)
  then have "sound strict (cd_registry c1)"
    using stays_abort_grant [OF Cons.prems(1)] by (auto simp: abort_anyway_def stays_def)
  then show ?case using Cons.IH c1(2) by blast
qed simp

lemma resend_prepare_registry [simp]: "cd_registry (resend_prepare pending c) = cd_registry c"
  by (auto simp: resend_prepare_def Let_def split: option.split)

lemma retry_pending_flows_keeps:
  "sound strict (cd_registry c) \<Longrightarrow> retry_pending_flows c = Some c' \<Longrightarrow> sound strict (cd_registry c')"
  by (auto simp: retry_pending_flows_def Let_def fold_registry split: option.splits
      dest!: abort_all_keeps [where c = "c\<lparr>cd_pending := p\<rparr>" for p, rotated])

lemma ping_agents_registry [simp]: "cd_registry (ping_agents c) = cd_registry c"
  by (auto simp: ping_agents_def intro!: fold_registry split: prod.split)

lemma tick_keeps:
  assumes "sound strict (cd_registry c)" "tick c = Some c'"
  shows "sound strict (cd_registry c')"
proof -
  obtain c1 c2 s c3 where run: "expire_grants c = Some c1" "retry_pending_flows c1 = Some c2"
    "compact_if_needed c2 = Some (s, c3)" "c' = ping_agents c3"
    using assms(2) by (auto simp: tick_def split: option.splits)
  have "sound strict (cd_registry c2)"
    using retry_pending_flows_keeps [OF expire_grants_keeps [OF assms(1) run(1)] run(2)] .
  then show ?thesis using compact_if_needed.leaves_registry [OF run(3)] run(4) by simp
qed

section \<open>Administration\<close>

definition admin_stays :: "bool \<Rightarrow> (status \<times> admin_result_message \<times> coordinator) option \<Rightarrow> bool" where
  "admin_stays strict out \<longleftrightarrow> (\<forall>s res c. out = Some (s, res, c) \<longrightarrow> sound strict (cd_registry c))"

lemma admin_stays_steps [stay]:
  "sound strict (cd_registry c) \<Longrightarrow> admin_stays strict (admin_fail s result c)"
  "sound strict (cd_registry c) \<Longrightarrow> admin_stays strict (admin_done complete result c)"
  "sound strict (cd_registry c) \<Longrightarrow> admin_stays strict (admin_refuse s result c)"
  by (simp_all add: admin_stays_def admin_fail_def admin_done_def admin_refuse_def)

lemma admin_stays_do [stay]:
  assumes "stays strict (a c)" "\<And>c'. sound strict (cd_registry c') \<Longrightarrow> admin_stays strict (k result c')"
  shows "admin_stays strict (admin_do a k result c)"
  using assms by (auto simp: admin_do_def admin_fail_def admin_stays_def stays_def split: option.splits if_splits)

lemma admin_stays_record [stay]: "stays strict (a c) \<Longrightarrow> admin_stays strict (admin_record a result c)"
  by (auto simp: admin_record_def admin_stays_def stays_def Let_def split: option.splits if_splits)

lemma stays_on_registry [stay]: "sound strict (snd (f (cd_registry c))) \<Longrightarrow> stays strict (on_registry f c)"
  by (simp add: on_registry_def split_beta)

lemma stays_propose [stay]:
  "sound strict (cd_registry c) \<Longrightarrow> stays strict (propose_to_side contract side c)"
  by (auto simp: propose_to_side_def Let_def draw_def split: option.split intro!: stay)

lemma stays_propose_contract [stay]:
  "sound strict (cd_registry c) \<Longrightarrow> stays strict (propose_contract_to_agents contract c)"
  unfolding propose_contract_to_agents_def by (auto intro!: stay)

lemma proposed_contract_state: "\<not> counts_as_consented (proposed_contract c request key source target)"
  by (simp add: proposed_contract_def Let_def counts_as_consented_def)

lemma admin_stays_proposal [stay]:
  "sound strict (cd_registry c) \<Longrightarrow> admin_stays strict (apply_contract_proposal request result c)"
  by (auto simp: apply_contract_proposal_def Let_def draw_def proposed_contract_state split: option.split
      intro!: stay sound_put_contract)

lemma issued_grant_state [simp]: "gr_state (issued_grant c contract capacity key attempt a b) = GrantState_Preparing"
  by (simp add: issued_grant_def)

lemma admin_stays_issue [stay]:
  "sound strict (cd_registry c) \<Longrightarrow> admin_stays strict (apply_grant_issue request result c)"
  by (auto simp: apply_grant_issue_def Let_def draw_def usable_state_def split: option.split
      intro!: stay sound_put_grant)

lemma admin_stays_revalidation [stay]:
  assumes s: "sound strict (cd_registry c)"
  shows "admin_stays strict (apply_grant_revalidation request result c)"
proof (cases "find_grant (cd_registry c) (adm_grant request)")
  case (Some g)
  let ?c = "c\<lparr>cd_drawn := Suc (cd_drawn c)\<rparr>"
  have here: "find_grant (cd_registry ?c) (adm_grant request) = Some g" and s': "sound strict (cd_registry ?c)"
    using Some s by simp_all
  show ?thesis
    using s sound_grant_found [OF s Some]
    by (auto simp: apply_grant_revalidation_def Some Let_def draw_def usable_state_def both_acknowledged_def
        split: option.split intro!: stay sound_set_grant [OF s' here] stays_prepare_in_place [OF s' here])
qed (auto simp: apply_grant_revalidation_def s intro!: stay)

lemma stays_fence_own [stay]: "sound strict (cd_registry c) \<Longrightarrow> stays strict (fence_own x trigger c)"
  by (simp add: fence_own_def stays_fence_cluster)

lemma admin_stays_consent_change [stay]:
  "sound strict (cd_registry c) \<Longrightarrow> admin_stays strict (apply_consent_change request withdraw result c)"
  by (auto simp: apply_consent_change_def Let_def split: option.split intro!: stay sound_set_cluster)

lemma admin_stays_conflict [stay]:
  "sound strict (cd_registry c) \<Longrightarrow> admin_stays strict (apply_conflict_resolution request result c)"
  by (auto simp: apply_conflict_resolution_def Let_def split: option.split intro!: stay sound_set_cluster)

lemma stays_recompute_paths [stay]: "sound strict (cd_registry c) \<Longrightarrow> stays strict (recompute_paths c)"
  by (auto simp: recompute_paths_def sound_recompute intro!: stay)

interpretation persist_link: quiet_action "persist_link key" for key
  using append_mutation.leaves_registry by unfold_locales (auto simp: persist_link_def split: option.splits)

lemma stays_record_actions [stay]:
  assumes "sound strict (cd_registry c)"
  shows "stays strict (upsert_cluster x c)" "stays strict (delete_cluster key c)" "stays strict (upsert_link l c)"
    "stays strict (delete_link key c)" "stays strict (upsert_path pa c)" "stays strict (delete_path key c)"
    "stays strict (upsert_policy po c)" "stays strict (delete_policy key c)" "stays strict (revoke_grant g c)"
  using assms
  by (auto simp: upsert_cluster_def delete_cluster_def upsert_link_def delete_link_def upsert_path_def delete_path_def
      upsert_policy_def delete_policy_def revoke_grant_def fence_named_def Let_def sound_mutators split: option.split
      intro!: stay persist_link.quiet)

lemma stays_set_cluster_state [stay]:
  assumes s: "sound strict (cd_registry c)" and here: "find_cluster (cd_registry c) key = Some x"
  shows "stays strict (set_cluster_state key state x c)"
  by (auto simp: set_cluster_state_def Let_def intro!: stay sound_set_cluster [OF s here])

lemma stays_set_link_state [stay]:
  assumes s: "sound strict (cd_registry c)" and here: "find_link (cd_registry c) key = Some l"
  shows "stays strict (set_link_state key state l c)"
proof -
  let ?r = "cd_registry c"
  have "registry_ok (?r\<lparr>rg_links := om_put key l' (rg_links ?r)\<rparr>)"
    if "l' = l\<lparr>ln_state := state, ln_provenance := pv\<rparr>" for l' pv
    using table_ok_find [OF registry_ok_tables(2) [OF sound_ok [OF s]]] here sound_ok [OF s] that
    by (intro registry_ok_update table_ok_overwrite registry_ok_tables) (auto simp: find_link_def link_ok_def)
  then have kept: "sound strict (?r\<lparr>rg_links := om_put key (l\<lparr>ln_state := state, ln_provenance := pv\<rparr>) (rg_links ?r)\<rparr>)" for pv
    by (intro sound_other_tables [OF s]) simp_all
  show ?thesis by (auto simp: set_link_state_def Let_def kept intro!: stay)
qed

lemma admin_stays_handle_admin [stay]:
  assumes s: "sound strict (cd_registry c)"
  shows "admin_stays strict (handle_admin request given c)"
  unfolding handle_admin_def Let_def
  by (cases "adm_action request") (auto simp: s split: option.split intro!: stay)

lemma stays_on_admin [stay]:
  assumes s: "sound strict (cd_registry c)"
  shows "stays strict (on_admin key payload c)"
proof -
  have "stays strict (answer_admin key out)" if "admin_stays strict (Some out)" for out
    using that by (cases out) (auto simp: answer_admin_def admin_stays_def Let_def intro!: stay)
  then have "stays strict (Option.bind out (answer_admin key))" if "admin_stays strict out" for out
    using that by (cases out) simp_all
  then show ?thesis
    using s by (auto simp: on_admin_def split: sum.split intro!: stay)
qed

lemma stays_on_query [stay]: "sound strict (cd_registry c) \<Longrightarrow> stays strict (on_query key payload c)"
  by (auto simp: on_query_def split: sum.split prod.split intro!: stay)

lemma stays_handle_message:
  assumes s: "sound strict (cd_registry c)"
  shows "stays strict (handle_message key frame c)"
  unfolding handle_message_def Let_def
  by (cases "fh_type (fr_header frame)") (auto simp: s intro!: stay)

section \<open>Serving\<close>

text \<open>
  One event of the process: a frame is handled, a connection is lost, the timer fires. Between two
  events time passes and the network accepts, fills, flushes and drops connections.
\<close>

inductive coordinator_step :: "coordinator \<Rightarrow> coordinator \<Rightarrow> bool" where
  received: "handle_message key frame c = Some (s, c') \<Longrightarrow> coordinator_step c c'"
| lost: "coordinator_step c (handle_disconnect key reason c)"
| ticked: "tick c = Some c' \<Longrightarrow> coordinator_step c c'"
| waited: "coordinator_step c (c\<lparr>cd_now := now, cd_monotonic := monotonic, cd_connections := connections\<rparr>)"

inductive_cases coordinator_stepE: "coordinator_step c c'"

lemma coordinator_step_keeps:
  "coordinator_step c c' \<Longrightarrow> sound strict (cd_registry c) \<Longrightarrow> sound strict (cd_registry c')"
proof (induction rule: coordinator_step.induct)
  case (received key frame c s c')
  then show ?case using stays_handle_message [of strict c key frame] by (simp add: stays_def)
qed (simp_all add: sound_handle_disconnect tick_keeps)

lemma coordinator_run_keeps:
  "coordinator_step\<^sup>*\<^sup>* c c' \<Longrightarrow> sound strict (cd_registry c) \<Longrightarrow> sound strict (cd_registry c')"
  by (induction rule: rtranclp_induct) (blast intro: coordinator_step_keeps)+

end
