(* ===== verification/Store_Recovery.thy ===== *)
theory Store_Recovery
  imports Durable_Laws Registry_Invariant
begin

text \<open>
  What opening a store establishes, whatever its files hold: the recovered registry is well formed,
  because every record of the snapshot and of the log went through the mutators, and it is empty when
  nothing was recovered.
\<close>

section \<open>Opening the store\<close>

lemma scan_log_invariant:
  assumes "\<And>h p s v s'. P s \<Longrightarrow> visitor h p s = Some (v, s') \<Longrightarrow> is_ok v \<Longrightarrow> P s'"
  shows "scan_log visitor n sc s bs = Some (Inr (incident, sc', s')) \<Longrightarrow> P s \<Longrightarrow> sc_records sc \<le> n \<Longrightarrow>
    P s' \<and> sc_records sc \<le> sc_records sc' \<and> sc_records sc' \<le> n \<and> (sc_records sc' = sc_records sc \<longrightarrow> s' = s)"
proof (induction bs arbitrary: sc s rule: length_induct)
  case (1 bs)
  show ?case
  proof (cases "read_record (sc_previous sc) bs")
    case (Log_Record h payload rest)
    obtain v s1 where v: "visitor h payload s = Some (v, s1)" "is_ok v" "\<not> sc_records (scanned h payload sc) > n"
      "scan_log visitor n (scanned h payload sc) s1 rest = Some (Inr (incident, sc', s'))"
      using 1(2) Log_Record by (subst (asm) scan_log.simps) (auto split: option.splits if_splits)
    have "length rest < length bs" using Log_Record by (rule read_record_shorter)
    moreover have "sc_records (scanned h payload sc) \<le> n" using v(3) by simp
    ultimately have "P s' \<and> sc_records (scanned h payload sc) \<le> sc_records sc' \<and> sc_records sc' \<le> n"
      using 1(1) v(4) assms [OF 1(3) v(1,2)] by blast
    then show ?thesis by (simp add: scanned_def)
  qed (use 1(2-) in \<open>auto simp: scan_log.simps [of visitor n sc s bs]\<close>)
qed

lemma wal_open_invariant:
  assumes "\<And>h p s v s'. P s \<Longrightarrow> visitor h p s = Some (v, s') \<Longrightarrow> is_ok v \<Longrightarrow> P s'"
    and run: "wal_open os stream options visitor s disk = Some (Inr ((w, rec), s'), disk')" and "P s"
  shows "P s'" "wr_records rec = 0 \<Longrightarrow> s' = s"
proof -
  let ?n = "unat (wo_max_records (effective_options options))"
  have "P s' \<and> (wr_records rec = 0 \<longrightarrow> s' = s)"
  proof (cases "disk (wo_path options)")
    case None
    then show ?thesis using run \<open>P s\<close> by (auto simp: wal_open_def split: if_splits prod.splits)
  next
    case (Some contents)
    obtain incident sc where sc: "scan_log visitor ?n scan_start s (drop kWalHeaderSize contents) = Some (Inr (incident, sc, s'))"
      and fin: "finish_open os options incident sc disk = (Inr (w, rec), disk')"
      using run Some by (auto simp: wal_open_def split: if_splits option.splits sum.splits prod.splits)
    have "P s' \<and> sc_records sc \<le> ?n \<and> (sc_records sc = 0 \<longrightarrow> s' = s)"
      using scan_log_invariant [where P = P, OF assms(1) sc \<open>P s\<close>] by (simp add: scan_start_def)
    moreover have "wr_records rec = word_of_nat (sc_records sc)"
      using fin by (auto simp: finish_open_def Let_def no_recovery_def split: option.splits prod.splits if_splits)
    moreover have "?n < 2 ^ 64" using unsigned_less [of "wo_max_records (effective_options options)", where ?'a = nat] by simp
    ultimately show ?thesis by (auto simp: word_of_nat_eq_0_iff dest: dvd_imp_le)
  qed
  then show "P s'" "wr_records rec = 0 \<Longrightarrow> s' = s" by blast+
qed

lemma replay_decoded_keeps:
  assumes "registry_ok (re_registry rec)" "replay_decoded m rec = Some (v, rec')"
  shows "registry_ok (re_registry rec')"
proof -
  have "registry_ok r'" if "apply_mutation m (re_registry rec) = Some (s, r')" for s r'
    using apply_mutation_keeps [OF assms(1) that] .
  then show ?thesis using assms by (cases m) (auto simp: set_meta_def split: option.splits if_splits)
qed

lemma replay_keeps:
  assumes "registry_ok (re_registry rec)" "replay h p rec = Some (v, rec')"
  shows "registry_ok (re_registry rec')"
  using assms replay_decoded_keeps
  by (auto simp: replay_def replay_mutation_def replay_meta_def set_meta_def split: record_kind.splits sum.splits
      prod.splits if_splits)

lemma note_incidents_recovered [simp]:
  "re_recovered_from_store (fold note_incident ts rec) = re_recovered_from_store rec"
  by (induction ts arbitrary: rec) (simp_all add: note_incident_def)

lemma conclude_recovered:
  "re_recovered_from_store (conclude wr rec) \<longleftrightarrow> re_snapshot_loaded rec \<or> wr_records wr > 0"
  by (simp add: conclude_def Let_def)

lemma load_base_keeps:
  assumes "load_base os options disk = Some (Inr base)"
  shows "registry_ok (re_registry base)" "\<not> re_snapshot_loaded base \<Longrightarrow> re_registry base = empty_registry"
  using assms registry_ok_empty decode_snapshot_sound(1)
  by (auto simp: load_base_def load_snapshot_def fresh_recovery_def Let_def split: if_splits option.splits sum.splits)

lemma store_open_keeps:
  assumes "store_open os directory stream options disk = Some (Inr (ds, rec), disk')"
  shows "registry_ok (re_registry rec)" "\<not> re_recovered_from_store rec \<Longrightarrow> re_registry rec = empty_registry"
proof -
  obtain base w wr rec0 where base: "load_base os options disk = Some (Inr base)"
    and run: "wal_open os stream (log_options options) replay base disk = Some (Inr ((w, wr), rec0), disk')"
    and rec: "rec = conclude wr rec0"
    using assms by (auto simp: store_open_def Let_def split: if_splits option.splits sum.splits prod.splits)
  let ?P = "\<lambda>s. registry_ok (re_registry s)"
  note visited = wal_open_invariant [where P = ?P, OF replay_keeps run load_base_keeps(1) [OF base]]
  show "registry_ok (re_registry rec)" using visited(1) rec by simp
  assume "\<not> re_recovered_from_store rec"
  then have "\<not> re_snapshot_loaded rec0" "wr_records wr = 0"
    using rec by (auto simp: conclude_recovered word_greater_zero_iff)
  then show "re_registry rec = empty_registry" using visited(2) load_base_keeps(2) [OF base] rec by simp
qed

end
