(* ===== verification/Coordinator_Start.thy ===== *)
theory Coordinator_Start
  imports Coordinator_Laws Store_Recovery
begin

text \<open>
  What the start of the coordinator establishes, whatever the files of its store hold: the registry
  is well formed and nothing in it is live. The recovered registry is well formed because every
  record of the snapshot and of the log went through the mutators; it is not live because everything
  recovered is fenced before the first request is served.
\<close>

section \<open>The start\<close>

definition nothing_live :: "registry \<Rightarrow> bool" where
  "nothing_live r \<longleftrightarrow>
    (\<forall>g \<in> snd ` set (rg_grants r). \<not> fenceable g) \<and> (\<forall>rs \<in> snd ` set (rg_reservations r). rs_released rs)"

definition cold :: "registry \<Rightarrow> bool" where
  "cold r \<longleftrightarrow> registry_ok r \<and> nothing_live r"

lemma cold_sound: "cold r \<Longrightarrow> sound False r"
  using usable_fenceable om_find_in
  by (fastforce simp: cold_def sound_def nothing_live_def grants_acknowledged_def)

lemma cold_not_authorized:
  assumes "cold r"
  shows "\<not> authorized (decide r q v)"
proof -
  have "\<not> contract_authorizes r q v x" for x
    by (rule unusable_contract) (use assms in \<open>auto simp: cold_def nothing_live_def\<close>)
  then show ?thesis
    unfolding decide_authorized
    by (auto simp: authorization_spec_def resolved_spec_def list_ex_iff split: option.splits)
qed

lemma cold_append_audit:
  "cold r \<Longrightarrow> append_audit at actor act subject out detail r = Some (s, r') \<Longrightarrow> cold r'"
  using append_audit_ok_keeps append_audit_frame by (fastforce simp: cold_def nothing_live_def)

lemma cold_recovered:
  assumes "registry_ok r" "fence_recovered_state at actor previous term r = Some (Inr fo, r')"
  shows "cold r'"
  using assms(2) recovered_state_grants [OF assms] recovered_state_reservations [OF assms] apply_actions_keeps [OF assms(1)]
  by (auto simp: cold_def nothing_live_def fence_recovered_state_def apply_fence_plan_def)

lemma audit_cold:
  assumes "cold (cd_registry c)" "audit actor act subject out detail c = Some (s, c')"
  shows "cold (cd_registry c')"
  using assms cold_append_audit [OF assms(1)]
  by (auto simp: audit_def split: option.splits if_splits dest!: append_mutation.leaves_registry)

interpretation append_term: quiet_action append_term
  by unfold_locales (auto simp: append_term_def Let_def split: prod.splits)

interpretation record_incident: quiet_action "record_incident words" for words
  by unfold_locales (auto simp: record_incident_def split: prod.splits)

lemma apply_actions_error: "apply_actions trigger at actor as st = Some (Inl e, r') \<Longrightarrow> \<not> is_ok e"
  by (induction as arbitrary: st) (auto split: option.splits if_splits)

lemma fence_recovered_cold:
  assumes ok: "registry_ok (cd_registry c)" and run: "fence_recovered c = Some (s, c')" "is_ok s"
  shows "cold (cd_registry c')"
proof -
  let ?fenced = "fence_recovered_state (cd_started_at c) ''coordinator-recovery'' (cd_previous_incarnation c) (cd_term c)
    (cd_registry c)"
  obtain res r' where out: "?fenced = Some (res, r')"
    using run(1) by (auto simp: fence_recovered_def split: option.splits)
  then obtain fo where fo: "res = Inr fo"
    using run apply_actions_error
    by (cases res) (auto simp: fence_recovered_def fence_recovered_state_def apply_fence_plan_def)
  have "cd_registry c' = r'"
    using run out fo by (auto simp: fence_recovered_def elim!: and_do_ok
        dest!: record_incident.leaves_registry persist_all.leaves_registry)
  then show ?thesis using cold_recovered ok out fo by blast
qed

lemma begin_incarnation_cold:
  assumes ok: "registry_ok (cd_registry c)" and run: "begin_incarnation c = Some (s, c')" "is_ok s"
    and fresh: "\<not> re_recovered_from_store (cd_recovery c) \<Longrightarrow> cd_registry c = empty_registry"
  shows "cold (cd_registry c')"
proof -
  let ?c = "c\<lparr>cd_drawn := Suc (cd_drawn c), cd_previous_incarnation := sm_incarnation (re_meta (cd_recovery c)),
    cd_term := after_sequence (sm_term (re_meta (cd_recovery c))), cd_incarnation := cd_identities c (cd_drawn c),
    cd_started_at := cd_now c\<rparr>"
  obtain s1 c1 s2 c2 words where begun: "append_term ?c = Some (s1, c1)"
    and fence: "(if re_recovered_from_store (cd_recovery c) then fence_recovered else return status_ok) c1 = Some (s2, c2)"
      "is_ok s2"
    and last: "audit ''coordinator'' ''begin-incarnation'' (uuid_to_string (cd_identities c (cd_drawn c))) Outcome_Ok words c2
      = Some (s, c')"
    using run by (auto simp: begin_incarnation_def draw_def Let_def elim!: and_do_ok)
  have c1: "cd_registry c1 = cd_registry c" using append_term.leaves_registry [OF begun] by simp
  have "cold empty_registry"
    using registry_ok_empty by (simp add: cold_def nothing_live_def empty_registry_def)
  then have "cold (cd_registry c2)"
    using fence c1 ok fresh fence_recovered_cold [of c1 s2 c2] by (auto simp: return_def split: if_splits)
  then show ?thesis using last by (rule audit_cold)
qed

text \<open>A coordinator is constructed with an empty registry.\<close>

lemma load_state_keeps:
  assumes "load_state directory c = Some (s, c')" "cd_registry c = empty_registry"
  shows "registry_ok (cd_registry c')" "\<not> re_recovered_from_store (cd_recovery c') \<Longrightarrow> cd_registry c' = empty_registry"
  using assms registry_ok_empty
  by (auto simp: load_state_def draw_def Let_def split: option.splits sum.splits prod.splits dest: store_open_keeps)

lemma start_cold:
  assumes run: "start directory listening c = Some (s, c')" "is_ok s" and new: "cd_registry c = empty_registry"
  shows "cold (cd_registry c')" "cd_started c'"
proof -
  have "\<not> cd_started c" using run by (auto simp: start_def split: if_splits)
  then obtain s1 c1 s2 c2 where load: "load_state directory c = Some (s1, c1)"
    and begun: "begin_incarnation c1 = Some (s2, c2)" "is_ok s2"
    and rest: "compact_if_needed (c2\<lparr>cd_started := True\<rparr>) = Some (s, c')"
    using run by (auto simp: start_def return_def change_def elim!: and_do_ok)
  have "cold (cd_registry c2)"
    using begin_incarnation_cold [OF load_state_keeps(1) [OF load new] begun load_state_keeps(2) [OF load new]] .
  then show "cold (cd_registry c')" using compact_if_needed.leaves_registry [OF rest] by simp
  show "cd_started c'"
    using rest by (auto simp: compact_if_needed_def draw_def Let_def split: if_splits prod.splits)
qed

end
