(* ===== verification/Coordinator_Sessions.thy ===== *)
theory Coordinator_Sessions
  imports Coordinator_Laws
begin

text \<open>
  Who may change what. A frame that does not present the token of a completed handshake only
  draws an answer: the locale \<open>reply_action\<close> is the contract of everything that merely answers. Then
  what a consent may change, and that a grant flow nobody answers comes to an end.
\<close>

section \<open>Answers\<close>

text \<open>Everything that is authoritative or survives a restart, and the sessions and flows.\<close>

definition untouched :: "coordinator \<Rightarrow> coordinator \<Rightarrow> bool" where
  "untouched c c' \<longleftrightarrow>
    cd_registry c' = cd_registry c \<and> cd_store c' = cd_store c \<and> cd_disk c' = cd_disk c
    \<and> cd_sessions c' = cd_sessions c \<and> cd_pending c' = cd_pending c
    \<and> cd_term c' = cd_term c \<and> cd_incarnation c' = cd_incarnation c"

lemma untouched_refl [simp]: "untouched c c"
  by (simp add: untouched_def)

lemma untouched_counters [simp]:
  "untouched c (reject_frame c') \<longleftrightarrow> untouched c c'" "untouched (reject_frame c) c' \<longleftrightarrow> untouched c c'"
  "untouched c (reject_replay c') \<longleftrightarrow> untouched c c'" "untouched (reject_replay c) c' \<longleftrightarrow> untouched c c'"
  by (simp_all add: untouched_def reject_frame_def reject_replay_def)

locale reply_action =
  fixes run :: action
  assumes leaves_all: "run c = Some (s, c') \<Longrightarrow> untouched c c'"

sublocale reply_action \<subseteq> quiet_action
  using leaves_all by unfold_locales (simp add: untouched_def)

interpretation reply_send_to: reply_action "send_to key type payload" for key type payload
  by unfold_locales (auto simp: send_to_def untouched_def split: option.splits prod.splits)

interpretation reply_send_error: reply_action "send_error key request out detail" for key request out detail
  using reply_send_to.leaves_all by unfold_locales (simp add: send_error_def)

interpretation reply_refuse_frame: reply_action "refuse_frame key e" for key e
  using reply_send_error.leaves_all by unfold_locales (fastforce simp: refuse_frame_def)

lemmas replies = reply_send_to.leaves_all reply_send_error.leaves_all reply_refuse_frame.leaves_all

section \<open>Authentication\<close>

definition token_of :: "('a \<Rightarrow> session_token) \<Rightarrow> 'a result \<Rightarrow> session_token option" where
  "token_of field decoded = (case decoded of Inl _ \<Rightarrow> None | Inr m \<Rightarrow> Some (field m))"

definition presented_token :: "frame \<Rightarrow> session_token option" where
  "presented_token frame =
    (case fh_type (fr_header frame) of
       MessageType_ReportCluster \<Rightarrow> token_of rpc_session (decode_report_cluster (fr_payload frame))
     | MessageType_ContractConsent \<Rightarrow> token_of con_session (decode_contract_consent (fr_payload frame))
     | MessageType_GrantPrepared \<Rightarrow> token_of gpr_session (decode_grant_prepared (fr_payload frame))
     | MessageType_GrantCommitted \<Rightarrow> token_of gcm_session (decode_grant_committed (fr_payload frame))
     | MessageType_GrantAborted \<Rightarrow> token_of gab_session (decode_grant_aborted (fr_payload frame))
     | MessageType_FenceAck \<Rightarrow> token_of fak_session (decode_fence_ack (fr_payload frame))
     | MessageType_Withdraw \<Rightarrow> token_of wdr_session (decode_withdraw (fr_payload frame))
     | MessageType_StatusReport \<Rightarrow> token_of srp_session (decode_status_report (fr_payload frame))
     | _ \<Rightarrow> None)"

definition holds_token :: "coordinator \<Rightarrow> u64 \<Rightarrow> session_token \<Rightarrow> bool" where
  "holds_token c key token \<longleftrightarrow>
    (case session_for c key of None \<Rightarrow> False | Some session \<Rightarrow> se_hello_complete session \<and> se_token session = token)"

definition authenticated :: "coordinator \<Rightarrow> u64 \<Rightarrow> frame \<Rightarrow> bool" where
  "authenticated c key frame \<longleftrightarrow>
    (case presented_token frame of None \<Rightarrow> False | Some token \<Rightarrow> holds_token c key token)"

lemma with_session_refused:
  "with_session key token body c = Some (s, c') \<Longrightarrow> \<not> holds_token c key token \<Longrightarrow> untouched c c'"
  by (auto simp: with_session_def require_session_def holds_token_def split: option.splits if_splits dest!: replies)

lemma unauthenticated_untouched:
  assumes "handle_message key frame c = Some (s, c')" "\<not> authenticated c key frame"
    and "fh_type (fr_header frame) \<noteq> MessageType_Hello"
    and "fh_type (fr_header frame) = MessageType_Admin \<Longrightarrow> agent_session c key"
  shows "untouched c c'"
  using assms
  by (cases "fh_type (fr_header frame)")
    (auto simp: handle_message_def authenticated_def presented_token_def token_of_def Let_def on_report_cluster_def
      on_contract_consent_def on_grant_prepared_def on_grant_committed_def on_grant_aborted_def on_fence_ack_def
      on_withdraw_def on_status_report_def on_query_def on_admin_def on_ping_def untouched_def [of c "_ :: coordinator"]
      split: sum.splits prod.splits option.splits dest!: replies with_session_refused)

section \<open>Consent\<close>

text \<open>The change a consent makes: the slot of one party, under the terms the contract has.\<close>

definition consent_change :: "cluster_id \<Rightarrow> contract_record \<Rightarrow> contract_record \<Rightarrow> bool" where
  "consent_change cluster x x' \<longleftrightarrow>
    (\<exists>side given. contract_side_of x cluster = Some side
      \<and> co_consents x' = set_party side (Some given) (co_consents x)
      \<and> cs_cluster given = cluster \<and> cs_terms_digest given = co_terms_digest x
      \<and> cs_endpoint given = pt_endpoint (party_at (co_parties x) side)
      \<and> co_id x' = co_id x \<and> co_parties x' = co_parties x \<and> co_capacity x' = co_capacity x
      \<and> co_terms_digest x' = co_terms_digest x
      \<and> (counts_as_consented x' \<longrightarrow> both_consented x'))"

lemma audit_contracts:
  "audit actor act subject out detail c = Some (s, c') \<Longrightarrow> rg_contracts (cd_registry c') = rg_contracts (cd_registry c)"
  by (auto simp: audit_def append_audit_def registry_append_audit_def Let_def
      split: option.splits sum.splits if_splits dest!: append_mutation.leaves_registry)

lemma accept_consent_contracts:
  assumes "accept_consent key m session x side c = Some (s, c')"
    and "find_contract (cd_registry c) (con_contract m) = Some x" "contract_side_of x (se_cluster session) = Some side"
    and "om_find (rg_contracts (cd_registry c')) k = Some x'" "om_find (rg_contracts (cd_registry c)) k \<noteq> Some x'"
  shows "om_find (rg_contracts (cd_registry c)) k = Some x \<and> consent_change (se_cluster session) x x'"
proof -
  let ?given = "given_consent session (cd_now c) m"
  let ?x = "consented_contract side (cd_now c) ?given x"
  have change: "rg_contracts (cd_registry c') = om_put (con_contract m) ?x (rg_contracts (cd_registry c))"
    and terms: "con_terms_digest m = co_terms_digest x" "con_endpoint m = pt_endpoint (party_at (co_parties x) side)"
    using assms(1,4,5)
    by (auto simp: accept_consent_def and_do_def Let_def set_record_registry split: if_splits option.splits
        dest!: audit_contracts append_mutation.leaves_registry send_error.leaves_registry)
  then have "k = con_contract m" "x' = ?x" using assms(4,5) by (auto simp: om_find_put split: if_splits)
  moreover have "consent_change (se_cluster session) x ?x"
    unfolding consent_change_def using assms(3) terms both_consented_cases [of side "cd_now c" ?given x]
    by (intro exI [of _ side] exI [of _ ?given]) (simp add: given_consent_def consented_contract_def Let_def)
  ultimately show ?thesis using assms(2) by (simp add: find_contract_def)
qed

lemma consent_change_contracts:
  assumes "on_contract_consent key payload c = Some (s, c')"
    and "om_find (rg_contracts (cd_registry c')) k = Some x'"
    and "om_find (rg_contracts (cd_registry c)) k \<noteq> Some x'"
  shows "\<exists>session x. session_for c key = Some session \<and> se_role session = PeerRole_Agent
    \<and> om_find (rg_contracts (cd_registry c)) k = Some x \<and> consent_change (se_cluster session) x x'"
  using assms
  by (auto simp: on_contract_consent_def with_session_def require_session_def
      split: sum.splits option.splits if_splits
      dest!: send_error.leaves_registry refuse_frame.leaves_registry dest: accept_consent_contracts)

section \<open>Grant flows\<close>

locale flow_keeping =
  fixes run :: action
  assumes leaves_flows: "run c = Some (s, c') \<Longrightarrow> cd_pending c' = cd_pending c"

lemma flow_and_do: "flow_keeping a \<Longrightarrow> flow_keeping b \<Longrightarrow> flow_keeping (and_do a b)"
  by (fastforce simp: flow_keeping_def and_do_def split: option.splits if_splits)

interpretation flow_append: flow_keeping "append_mutation m" for m
  by unfold_locales (auto simp: append_mutation_def Let_def split: prod.splits)

interpretation flow_persist_all: flow_keeping "persist_all ms" for ms
proof -
  have "flow_keeping (return status_ok)" by unfold_locales (simp add: return_def)
  then show "flow_keeping (persist_all ms)"
    by (induction ms) (simp_all add: flow_and_do flow_append.flow_keeping_axioms)
qed

interpretation flow_send_to: flow_keeping "send_to key type payload" for key type payload
  using reply_send_to.leaves_all by unfold_locales (simp add: untouched_def)

interpretation flow_audit: flow_keeping "audit actor act subject out detail" for actor act subject out detail
  by unfold_locales
    (auto simp: audit_def set_registry_def split: option.splits if_splits dest!: flow_append.leaves_flows)

interpretation flow_compact: flow_keeping compact_if_needed
  by unfold_locales (auto simp: compact_if_needed_def draw_def Let_def split: prod.splits if_splits)

lemma fold_flows: "(\<And>x d. cd_pending (f x d) = cd_pending d) \<Longrightarrow> cd_pending (fold f xs c) = cd_pending c"
  by (induction xs arbitrary: c) simp_all

lemma send_anyway_flows [simp]: "cd_pending (send_anyway key type payload c) = cd_pending c"
  by (auto simp: send_anyway_def split: option.splits prod.splits dest: flow_send_to.leaves_flows)

lemma notify_fence_flows [simp]: "cd_pending (notify_fence plan grants c) = cd_pending c"
  by (auto simp: notify_fence_def intro!: fold_flows split: prod.split)

lemma set_grant_flows [simp]: "cd_pending (set_grant key g c) = cd_pending c"
  by (simp add: set_grant_def set_registry_def)

interpretation flow_fence: flow_keeping "fence_plan_apply plan actor" for plan actor
  by unfold_locales
    (auto simp: fence_plan_apply_def and_do_def change_def set_registry_def Let_def split: option.splits sum.splits if_splits
      dest!: flow_persist_all.leaves_flows)

lemma mark_expired_flows [simp]: "cd_pending (mark_expired key c) = cd_pending c"
  by (auto simp: mark_expired_def Let_def split: option.splits dest!: flow_append.leaves_flows)

lemma expire_grants_flows: "expire_grants c = Some c' \<Longrightarrow> cd_pending c' = cd_pending c"
  by (auto simp: expire_grants_def Let_def fold_flows split: option.splits if_splits dest!: flow_fence.leaves_flows)

lemma ping_agents_flows [simp]: "cd_pending (ping_agents c) = cd_pending c"
  by (auto simp: ping_agents_def intro!: fold_flows split: prod.split)

lemma resend_prepare_flows [simp]: "cd_pending (resend_prepare pending c) = cd_pending c"
  by (auto simp: resend_prepare_def Let_def split: option.split)

lemma abort_grant_flows:
  "abort_grant key reason c = Some (s, c') \<Longrightarrow> cd_pending c' = om_erase key (cd_pending c)"
  by (auto simp: abort_grant_def drop_pending_def Let_def split: option.splits if_splits
      dest!: flow_append.leaves_flows flow_audit.leaves_flows)

lemma abort_all_flows:
  "abort_all keys c = Some c' \<Longrightarrow> om_find (cd_pending c') k = (if k \<in> set keys then None else om_find (cd_pending c) k)"
  by (induction keys arbitrary: c)
    (auto simp: abort_anyway_def om_find_erase split: option.splits dest!: abort_grant_flows)

lemma retried_fields:
  "pn_grant (retried c p) = pn_grant p" "pn_deadline (retried c p) = pn_deadline p"
  "pn_attempts (retried c p) = (if timed_out c p then pn_attempts p else pn_attempts p + 1)"
  by (simp_all add: retried_def Let_def timed_out_def)

definition flows_keyed :: "coordinator \<Rightarrow> bool" where
  "flows_keyed c \<longleftrightarrow> (\<forall>k p. om_find (cd_pending c) k = Some p \<longrightarrow> pn_grant p = k)"

lemma retry_pending_flows_step:
  assumes "flows_keyed c" "retry_pending_flows c = Some c'" "om_find (cd_pending c') k = Some p'"
  shows "\<exists>p. om_find (cd_pending c) k = Some p \<and> \<not> timed_out c p \<and> pn_attempts p' = pn_attempts p + 1 \<and> pn_grant p' = k"
proof -
  let ?late = "map pn_grant (filter (timed_out c) (map snd (cd_pending c)))"
  obtain c1 where c1: "abort_all ?late (c\<lparr>cd_pending := om_map (\<lambda>_. retried c) (cd_pending c)\<rparr>) = Some c1"
    "cd_pending c' = cd_pending c1"
    using assms(2) by (auto simp: retry_pending_flows_def Let_def fold_flows split: option.splits)
  have "k \<notin> set ?late" "om_find (om_map (\<lambda>_. retried c) (cd_pending c)) k = Some p'"
    using abort_all_flows [OF c1(1), of k] assms(3) c1(2) by (auto split: if_splits)
  then obtain p where p: "om_find (cd_pending c) k = Some p" "p' = retried c p" "k \<notin> set ?late"
    by (auto simp: om_find_map)
  have "pn_grant p = k" using assms(1) p(1) by (simp add: flows_keyed_def)
  moreover have "\<not> timed_out c p"
    using p(1,3) \<open>pn_grant p = k\<close> om_find_in [OF p(1)] by force
  ultimately show ?thesis using p by (simp add: retried_fields)
qed

lemma tick_flows:
  assumes "flows_keyed c" "tick c = Some c'" "om_find (cd_pending c') k = Some p'"
  shows "\<exists>p. om_find (cd_pending c) k = Some p \<and> unat (pn_attempts p) < 64 \<and> pn_attempts p' = pn_attempts p + 1
    \<and> pn_grant p' = k"
proof -
  obtain c1 c2 s c3 where run: "expire_grants c = Some c1" "retry_pending_flows c1 = Some c2"
    "compact_if_needed c2 = Some (s, c3)" "c' = ping_agents c3"
    using assms(2) by (auto simp: tick_def split: option.splits)
  have "cd_pending c1 = cd_pending c" "cd_pending c' = cd_pending c2"
    using expire_grants_flows [OF run(1)] flow_compact.leaves_flows [OF run(3)] run(4) by simp_all
  then show ?thesis
    using retry_pending_flows_step [OF _ run(2), of k p'] assms(1,3)
    by (auto simp: flows_keyed_def timed_out_def kMaxRevalidateAttempts_def)
qed

text \<open>The periodic timer at the given times, with nothing else happening.\<close>

fun ticks :: "timestamp list \<Rightarrow> coordinator \<Rightarrow> coordinator option" where
  "ticks [] c = Some c"
| "ticks (now # later) c = Option.bind (tick (c\<lparr>cd_now := now\<rparr>)) (ticks later)"

lemma ticks_flows:
  assumes "flows_keyed c" "ticks nows c = Some c'" "om_find (cd_pending c') k = Some p'"
  shows "\<exists>p. om_find (cd_pending c) k = Some p \<and> unat (pn_attempts p') = unat (pn_attempts p) + length nows
    \<and> (nows \<noteq> [] \<longrightarrow> unat (pn_attempts p') \<le> 64)"
  using assms
proof (induction nows arbitrary: c)
  case (Cons now later)
  let ?c = "c\<lparr>cd_now := now\<rparr>"
  obtain c1 where c1: "tick ?c = Some c1" "ticks later c1 = Some c'"
    using Cons.prems(2) by (auto simp: Option.bind_eq_Some_conv)
  have keyed: "flows_keyed ?c" using Cons.prems(1) by (simp add: flows_keyed_def)
  have keyed1: "flows_keyed c1" using tick_flows [OF keyed c1(1)] by (auto simp: flows_keyed_def)
  obtain p1 where p1: "om_find (cd_pending c1) k = Some p1" "unat (pn_attempts p') = unat (pn_attempts p1) + length later"
    "later \<noteq> [] \<longrightarrow> unat (pn_attempts p') \<le> 64"
    using Cons.IH [OF keyed1 c1(2) Cons.prems(3)] by blast
  obtain p where p: "om_find (cd_pending c) k = Some p" "unat (pn_attempts p) < 64" "pn_attempts p1 = pn_attempts p + 1"
    using tick_flows [OF keyed c1(1) p1(1)] by auto
  have "unat (pn_attempts p1) = Suc (unat (pn_attempts p))"
    using p(2,3) unat_add_small [of "pn_attempts p" 1] by simp
  then show ?case using p(1,2) p1(2,3) by auto
qed simp

lemma flows_end:
  assumes "flows_keyed c" "ticks nows c = Some c'" "64 < length nows"
  shows "cd_pending c' = []"
proof (cases "cd_pending c'")
  case (Cons e rest)
  obtain k p where "e = (k, p)" by fastforce
  then have "om_find (cd_pending c') k = Some p" using Cons by simp
  from ticks_flows [OF assms(1,2) this] assms(3) show ?thesis by fastforce
qed

end
