(* ===== verification/Store_Room.thy ===== *)
theory Store_Room
  imports Coordinator_Start Coordinator_Sessions
begin

text \<open>
  When the file calls succeed the coordinator makes progress: \<open>roomy n\<close> says that the log is open, that
  the next file calls succeed and that \<open>n\<close> more records of the largest size fit below the limits of the log,
  4194304 records and 512 MiB. Under it every append succeeds and uses up
  one record, so a handler that logs a bounded number of records does not stop half way; and a
  coordinator on an empty disk starts.
\<close>

section \<open>Room in the log\<close>

text \<open>
  Room for \<open>n\<close> more records with a payload of at most \<open>limit\<close> bytes: each takes its payload and 36 bytes of
  header and checksum, and the limits are those of the store.
\<close>

definition log_room :: "nat \<Rightarrow> nat \<Rightarrow> wal \<Rightarrow> bool" where
  "log_room limit n w \<longleftrightarrow> wa_open w \<and> wo_max_records (wa_options w) = kMaxStoreRecords
    \<and> wo_max_bytes (wa_options w) = kMaxStoreBytes
    \<and> unat (wa_records w) + n \<le> unat kMaxStoreRecords \<and> unat (wa_bytes w) + n * (36 + limit) \<le> unat kMaxStoreBytes"

lemma store_limits: "unat kMaxStoreRecords = 4194304" "unat kMaxStoreBytes = 536870912"
  by (simp_all add: kMaxStoreRecords_def kMaxStoreBytes_def push_bit_eq_mult)

lemma log_room_less:
  assumes "log_room limit n w" "m \<le> n"
  shows "log_room limit m w"
proof -
  have "m * (36 + limit) \<le> n * (36 + limit)" using assms(2) by (rule mult_le_mono1)
  then show ?thesis using assms unfolding log_room_def by linarith
qed

text \<open>How far \<open>n\<close> appends can fill a log.\<close>

definition log_grows :: "nat \<Rightarrow> wal \<Rightarrow> wal \<Rightarrow> bool" where
  "log_grows n w w' \<longleftrightarrow> unat (wa_records w') \<le> unat (wa_records w) + n \<and> unat (wa_bytes w') \<le> unat (wa_bytes w) + n * 2 ^ 21"

definition store_grows :: "nat \<Rightarrow> durable_store \<Rightarrow> durable_store \<Rightarrow> bool" where
  "store_grows n ds ds' \<longleftrightarrow> ds_options ds' = ds_options ds \<and> log_grows n (ds_wal ds) (ds_wal ds')"

lemma store_grows_refl [simp]: "store_grows n ds ds"
  by (simp add: store_grows_def log_grows_def)

lemma store_grows_trans: "store_grows m ds ds' \<Longrightarrow> store_grows n ds' ds'' \<Longrightarrow> store_grows (m + n) ds ds''"
  by (auto simp: store_grows_def log_grows_def algebra_simps)

definition roomy :: "nat \<Rightarrow> coordinator \<Rightarrow> bool" where
  "roomy n c \<longleftrightarrow> ds_open (cd_store c) \<and> log_room kMaxStoreRecordPayload n (ds_wal (cd_store c))
    \<and> (\<forall>k. os_well (cd_answers c k) (2 ^ 21))"

lemma roomy_less: "roomy n c \<Longrightarrow> m \<le> n \<Longrightarrow> roomy m c"
  by (auto simp: roomy_def intro: log_room_less)

lemma append_file_serves:
  assumes "os_well os (2 ^ 21)" "length contents \<le> 2 ^ 21"
  shows "\<exists>disk'. append_file os path contents durable disk = (status_ok, disk')"
proof -
  have "os_well os (length contents)" using assms by (simp add: os_well_def)
  then show ?thesis by (auto simp: append_file_def os_well_def Let_def)
qed

lemma wal_append_room:
  assumes "log_room limit (Suc n) w" "os_well os (2 ^ 21)" "length payload \<le> limit" "limit \<le> kMaxStoreRecordPayload"
    "record_kind_known kind"
  shows "\<exists>w' disk'. wal_append os kind sequence at payload w disk = (status_ok, w', disk') \<and> log_room limit n w' \<and> log_grows 1 w w'"
proof -
  let ?e = "\<lparr>le_kind = kind, le_sequence = sequence, le_at = at, le_payload = payload\<rparr>"
  have len: "length (encode_record kind sequence at payload) = 36 + length payload"
    using length_encode_entry [of ?e] by (simp add: encode_entry_def)
  have q: "length payload \<le> kMaxStoreRecordPayload" using assms(3,4) by simp
  then have p: "length payload \<le> 1048576" by (simp add: kMaxStoreRecordPayload_def)
  define added :: u64 where "added = word_of_nat (kRecordHeaderSize + kRecordTrailerSize) + word_of_nat (length payload)"
  have sizes: "unat (word_of_nat (kRecordHeaderSize + kRecordTrailerSize) :: u64) = 36"
    "unat (word_of_nat (length payload) :: u64) = length payload"
    using p by (simp_all add: kRecordHeaderSize_def kRecordTrailerSize_def unat_of_nat take_bit_nat_eq_self)
  then have added: "unat added = 36 + length payload"
    unfolding added_def using p by (subst unat_add_small) simp_all
  have w: "wa_open w" "unat (wa_records w) + Suc n \<le> 4194304"
    "wo_max_records (wa_options w) = kMaxStoreRecords" "wo_max_bytes (wa_options w) = kMaxStoreBytes"
    using assms(1) by (auto simp: log_room_def store_limits)
  have left: "unat (wa_bytes w) + (36 + length payload) + n * (36 + limit) \<le> 536870912"
    using assms(1,3) by (simp add: log_room_def store_limits)
  have add1: "add_size (word_of_nat (kRecordHeaderSize + kRecordTrailerSize)) (word_of_nat (length payload)) = Some added"
    unfolding add_size_eq add_u64_spec sizes added_def using p by simp
  have bytes: "unat (added + wa_bytes w) = 36 + length payload + unat (wa_bytes w)"
    using left added by (subst unat_add_small) simp_all
  have add2: "add_size added (wa_bytes w) = Some (added + wa_bytes w)"
    unfolding add_size_eq add_u64_spec using left added by simp
  have fits: "\<not> wo_max_records (wa_options w) \<le> wa_records w" "\<not> added + wa_bytes w > wo_max_bytes (wa_options w)"
    using w left bytes store_limits by (simp_all add: word_le_nat_alt word_less_nat_alt)
  obtain disk' where appended: "append_file os (wo_path (wa_options w)) (encode_record kind sequence at payload)
      (wo_durable (wa_options w)) disk = (status_ok, disk')"
    using append_file_serves [OF assms(2), of "encode_record kind sequence at payload"] len p by fastforce
  let ?w = "w\<lparr>wa_bytes := wa_bytes w + word_of_nat (length (encode_record kind sequence at payload)),
    wa_records := wa_records w + 1, wa_last_sequence := sequence\<rparr>"
  have "wal_append os kind sequence at payload w disk = (status_ok, ?w, disk')"
    using w(1) q assms(5) fits by (simp add: wal_append_def add1 add2 appended del: of_nat_add)
  moreover have "log_room limit n ?w \<and> log_grows 1 w ?w"
  proof -
    have "wa_bytes w + word_of_nat (length (encode_record kind sequence at payload)) = added + wa_bytes w"
      by (simp add: len added_def kRecordHeaderSize_def kRecordTrailerSize_def)
    moreover have "unat (wa_records w + 1) = unat (wa_records w) + 1"
      using w(2) by (subst unat_add_small) simp_all
    ultimately show ?thesis using w bytes p left by (simp add: log_room_def log_grows_def store_limits add.commute [of added])
  qed
  ultimately show ?thesis by blast
qed

lemma store_append_room:
  assumes "ds_open ds" "log_room limit (Suc n) (ds_wal ds)" "os_well os (2 ^ 21)" "length (encode_mutation m) \<le> limit"
    "limit \<le> kMaxStoreRecordPayload"
  shows "\<exists>q ds' disk'. store_append os m at ds disk = (Inr q, ds', disk') \<and> ds_open ds' \<and> log_room limit n (ds_wal ds')
    \<and> store_grows 1 ds ds'"
  using wal_append_room [OF assms(2,3,4,5), of RecordKind_Mutation "ds_next_sequence ds" at disk] assms(1)
  by (auto simp: store_append_def append_payload_def record_kind_known_def store_grows_def Let_def)

text \<open>One record is used up, and nothing but the store moves.\<close>

lemma append_mutation_room:
  assumes "roomy (Suc n) c" "length (encode_mutation m) \<le> kMaxStoreRecordPayload"
  obtains ds disk where
    "append_mutation m c = Some (status_ok, c\<lparr>cd_store := ds, cd_disk := disk, cd_calls := Suc (cd_calls c)\<rparr>)"
    "roomy n (c\<lparr>cd_store := ds, cd_disk := disk, cd_calls := Suc (cd_calls c)\<rparr>)" "store_grows 1 (cd_store c) ds"
proof -
  obtain q ds disk where "store_append (cd_answers c (cd_calls c)) m (cd_now c) (cd_store c) (cd_disk c) = (Inr q, ds, disk)"
    "ds_open ds" "log_room kMaxStoreRecordPayload n (ds_wal ds)" "store_grows 1 (cd_store c) ds"
    using assms store_append_room [of "cd_store c" kMaxStoreRecordPayload n "cd_answers c (cd_calls c)" m "cd_now c" "cd_disk c"]
    by (auto simp: roomy_def)
  with assms(1) show ?thesis by (intro that [where ds = ds and disk = disk]) (simp_all add: append_mutation_def roomy_def)
qed

lemma roomy_registry [simp]: "roomy n (set_registry r c) = roomy n c" "roomy n (c\<lparr>cd_registry := r\<rparr>) = roomy n c"
  by (simp_all add: roomy_def set_registry_def)

lemma length_bounded: "length (bounded s n) \<le> n"
  by (simp add: bounded_def)

text \<open>A new audit record: numbered after the last one, and small enough to be logged.\<close>

lemma append_audit_fits:
  assumes "rg_audit r = [] \<or> au_sequence (last (rg_audit r)) \<noteq> - 1" "length (rg_audit r) < kMaxAuditRecords"
  obtains a where "append_audit at actor act subject out detail r = Some (status_ok, r\<lparr>rg_audit := rg_audit r @ [a]\<rparr>)"
    "length (encode_mutation (Mutation_AuditAppend a)) \<le> 2048"
proof -
  have "\<exists>a. append_audit at actor act subject out detail r = Some (status_ok, r\<lparr>rg_audit := rg_audit r @ [a]\<rparr>)
    \<and> length (au_actor a) \<le> 64 \<and> length (au_action a) \<le> 64 \<and> length (au_subject a) \<le> 128
    \<and> length (au_detail a) \<le> kMaxStringField"
    using assms by (auto simp: append_audit_def registry_append_audit_def counter_next_def counter_increment_def Let_def length_bounded)
  then obtain a where a: "append_audit at actor act subject out detail r = Some (status_ok, r\<lparr>rg_audit := rg_audit r @ [a]\<rparr>)"
    "length (au_actor a) \<le> 64" "length (au_action a) \<le> 64" "length (au_subject a) \<le> 128"
    "length (au_detail a) \<le> kMaxStringField" by blast
  then have "length (encode_mutation (Mutation_AuditAppend a)) \<le> 2048"
    by (simp add: encode_mutation_def encode_audit_def kMaxStringField_def)
  then show ?thesis using a(1) that by blast
qed

lemma audit_room:
  assumes "roomy (Suc n) c" "rg_audit (cd_registry c) = [] \<or> au_sequence (last (rg_audit (cd_registry c))) \<noteq> - 1"
  obtains ds disk r calls where
    "audit actor act subject out detail c = Some (status_ok, c\<lparr>cd_registry := r, cd_store := ds, cd_disk := disk, cd_calls := calls\<rparr>)"
    "roomy n (c\<lparr>cd_registry := r, cd_store := ds, cd_disk := disk, cd_calls := calls\<rparr>)" "store_grows 1 (cd_store c) ds"
    "r = cd_registry c \<or> (\<exists>a. r = (cd_registry c)\<lparr>rg_audit := rg_audit (cd_registry c) @ [a]\<rparr>)"
proof (cases "length (rg_audit (cd_registry c)) \<ge> kMaxAuditRecords")
  case True
  have "roomy n c" using roomy_less [OF assms(1)] by simp
  then show ?thesis using True by (intro that [where r = "cd_registry c" and ds = "cd_store c" and disk = "cd_disk c" and calls = "cd_calls c"]) (simp_all add: audit_def)
next
  case False
  then have few: "length (rg_audit (cd_registry c)) < kMaxAuditRecords" by simp
  obtain a where a: "append_audit (cd_now c) actor act subject out detail (cd_registry c)
      = Some (status_ok, (cd_registry c)\<lparr>rg_audit := rg_audit (cd_registry c) @ [a]\<rparr>)"
    "length (encode_mutation (Mutation_AuditAppend a)) \<le> 2048"
    by (rule append_audit_fits [OF assms(2) few])
  then have fits: "length (encode_mutation (Mutation_AuditAppend a)) \<le> kMaxStoreRecordPayload"
    by (simp add: kMaxStoreRecordPayload_def)
  define r where "r = (cd_registry c)\<lparr>rg_audit := rg_audit (cd_registry c) @ [a]\<rparr>"
  have "roomy (Suc n) (set_registry r c)" using assms(1) by simp
  from append_mutation_room [OF this fits] obtain ds disk where
    "append_mutation (Mutation_AuditAppend a) (set_registry r c)
      = Some (status_ok, (set_registry r c)\<lparr>cd_store := ds, cd_disk := disk, cd_calls := Suc (cd_calls (set_registry r c))\<rparr>)"
    "roomy n ((set_registry r c)\<lparr>cd_store := ds, cd_disk := disk, cd_calls := Suc (cd_calls (set_registry r c))\<rparr>)"
    "store_grows 1 (cd_store (set_registry r c)) ds" .
  moreover have "last (rg_audit r) = a" by (simp add: r_def)
  ultimately show ?thesis using a(1) few
    by (intro that [where r = r and ds = ds and disk = disk and calls = "Suc (cd_calls c)"])
      (simp_all add: audit_def set_registry_def r_def [symmetric], use r_def in blast)
qed

section \<open>Starting on an empty disk\<close>

lemma store_open_fresh:
  assumes "so_directory options \<noteq> []" "os_well os (2 ^ 21)" "uuid_ok stream"
  obtains disk' where "store_open os status_ok stream options (\<lambda>_. None) =
    Some (Inr (\<lparr>ds_options = options, ds_wal = opened_wal (log_options options) (word_of_nat kWalHeaderSize) 0 0,
        ds_next_sequence = 1, ds_open = True\<rparr>,
      conclude (no_recovery\<lparr>wr_created := True\<rparr>) (fresh_recovery\<lparr>re_created_fresh := True\<rparr>)), disk')"
proof -
  have "length (make_header stream 0) = 64" using make_header_ok [OF assms(3), of 0] by (simp add: header_ok_def kWalHeaderSize_def)
  then have "os_well os (length (make_header stream 0))" using assms(2) by (simp add: os_well_def)
  then obtain s disk' where "write_file_atomic os (wal_path options) (make_header stream 0) (\<lambda>_. None) = (s, disk')" "is_ok s"
    using write_file_atomic_well by (metis fst_conv surj_pair)
  then show ?thesis using assms(1)
    by (intro that [of disk']) (simp add: store_open_def load_base_def file_exists_def wal_open_def wal_path_not_Nil
        no_recovery_def log_options_path)
qed

lemma begin_fresh:
  assumes "roomy (Suc (Suc n)) c" "\<not> re_recovered_from_store (cd_recovery c)" "cd_registry c = empty_registry"
    and "uuid_ok (cd_identities c (cd_drawn c))"
  obtains c' where "begin_incarnation c = Some (status_ok, c')" "roomy n c'"
    "store_grows 2 (cd_store c) (cd_store c')"
proof -
  define c2 where "c2 = (snd (draw c))\<lparr>cd_previous_incarnation := sm_incarnation (re_meta (cd_recovery c)),
    cd_term := after_sequence (sm_term (re_meta (cd_recovery c))),
    cd_incarnation := cd_identities c (cd_drawn c), cd_started_at := cd_now c\<rparr>"
  have c2: "cd_store c2 = cd_store c" "cd_answers c2 = cd_answers c" "cd_registry c2 = empty_registry"
    "cd_incarnation c2 = cd_identities c (cd_drawn c)" "cd_now c2 = cd_started_at c2"
    using assms(3) by (simp_all add: c2_def draw_def)
  have "length (encode_mutation (Mutation_MetaSet (cd_term c2) (cd_incarnation c2))) \<le> kMaxStoreRecordPayload"
    using assms(4) c2(4) by (simp add: encode_mutation_def kMaxStoreRecordPayload_def uuid_ok_def w_uuid_def w_raw_def)
  moreover have "roomy (Suc (Suc n)) c2" using assms(1) c2 by (simp add: roomy_def)
  ultimately obtain ds disk where one: "append_mutation (Mutation_MetaSet (cd_term c2) (cd_incarnation c2)) c2
      = Some (status_ok, c2\<lparr>cd_store := ds, cd_disk := disk, cd_calls := Suc (cd_calls c2)\<rparr>)"
    "roomy (Suc n) (c2\<lparr>cd_store := ds, cd_disk := disk, cd_calls := Suc (cd_calls c2)\<rparr>)"
    "store_grows 1 (cd_store c2) ds"
    using append_mutation_room by blast
  have logged: "append_term c2 = append_mutation (Mutation_MetaSet (cd_term c2) (cd_incarnation c2)) c2"
    by (simp add: append_term_def append_meta_def append_mutation_def c2(5) Let_def split: prod.split)
  let ?c3 = "c2\<lparr>cd_store := ds, cd_disk := disk, cd_calls := Suc (cd_calls c2)\<rparr>"
  let ?audit = "audit ''coordinator'' ''begin-incarnation'' (uuid_to_string (cd_incarnation c2)) Outcome_Ok
    (''term='' @ decimal (unat (cd_term c2)) @ '' recovered=false'')"
  have "rg_audit (cd_registry ?c3) = []" using c2(3) by (simp add: empty_registry_def)
  then have fresh: "rg_audit (cd_registry ?c3) = [] \<or> au_sequence (last (rg_audit (cd_registry ?c3))) \<noteq> - 1" ..
  obtain c4 where two: "?audit ?c3 = Some (status_ok, c4)" "roomy n c4" "store_grows 1 (cd_store ?c3) (cd_store c4)"
    by (rule audit_room [OF one(2) fresh]) (rule that, assumption, assumption, simp)
  have "begin_incarnation c = Some (status_ok, c4)"
    using one(1) two(1) assms(2) unfolding logged [symmetric]
    by (simp add: begin_incarnation_def Let_def split_beta c2_def [symmetric] draw_def) (simp add: c2_def draw_def and_do_def return_def)
  moreover have "store_grows (1 + 1) (cd_store c) (cd_store c4)"
    using store_grows_trans [OF one(3), of 1 "cd_store c4"] two(3) c2(1) by simp
  ultimately show ?thesis using two(2) by (intro that [of c4]) (simp_all add: numeral_2_eq_2)
qed

lemma start_fresh:
  assumes "\<not> cd_started c" "cd_disk c = (\<lambda>_. None)" "cf_state_directory (cd_config c) \<noteq> []"
    and "\<forall>k. os_well (cd_answers c k) (2 ^ 21)" "\<forall>k. uuid_ok (cd_identities c k)"
    and "cf_compact_bytes (cd_config c) > 2 ^ 23" "cf_compact_records (cd_config c) > 3"
  shows "\<exists>c'. start status_ok status_ok c = Some (status_ok, c')"
proof -
  let ?os = "cd_answers c (cd_calls c)" and ?options = "coordinator_options (cd_config c)"
  have dir: "so_directory ?options \<noteq> []" using assms(3) by (simp add: coordinator_options_def)
  have os: "os_well ?os (2 ^ 21)" and stream: "uuid_ok (cd_identities c (cd_drawn c))" using assms(4,5) by simp_all
  from store_open_fresh [OF dir os stream] obtain disk where opened:
    "store_open ?os status_ok (cd_identities c (cd_drawn c)) ?options (\<lambda>_. None) =
      Some (Inr (\<lparr>ds_options = ?options, ds_wal = opened_wal (log_options ?options) (word_of_nat kWalHeaderSize) 0 0,
          ds_next_sequence = 1, ds_open = True\<rparr>,
        conclude (no_recovery\<lparr>wr_created := True\<rparr>) (fresh_recovery\<lparr>re_created_fresh := True\<rparr>)), disk)" .
  then obtain c1 where c1: "load_state status_ok c = Some (status_ok, c1)"
    "cd_store c1 = \<lparr>ds_options = ?options, ds_wal = opened_wal (log_options ?options) (word_of_nat kWalHeaderSize) 0 0,
          ds_next_sequence = 1, ds_open = True\<rparr>"
    "cd_registry c1 = empty_registry" "\<not> re_recovered_from_store (cd_recovery c1)"
    "cd_answers c1 = cd_answers c" "cd_identities c1 = cd_identities c"
    using assms(2) by (auto simp: load_state_def draw_def conclude_recovered no_recovery_def fresh_recovery_def)
  have "log_room kMaxStoreRecordPayload (Suc (Suc 0)) (ds_wal (cd_store c1))"
    by (simp add: c1(2) log_room_def store_limits opened_wal_def effective_options_def log_options_def kWalHeaderSize_def
        kMaxStoreRecordPayload_def)
  then have "roomy (Suc (Suc 0)) c1" using assms(4) c1(2,5) by (simp add: roomy_def)
  then obtain c2 where c2: "begin_incarnation c1 = Some (status_ok, c2)" "store_grows 2 (cd_store c1) (cd_store c2)"
    using begin_fresh c1(3,4,6) assms(5) by metis
  then have "ds_options (cd_store c2) = ?options" "unat (wa_records (ds_wal (cd_store c2))) \<le> 2"
    "unat (wa_bytes (ds_wal (cd_store c2))) \<le> 64 + 2 * 2 ^ 21"
    by (simp_all add: store_grows_def log_grows_def c1(2) opened_wal_def kWalHeaderSize_def)
  then have "\<not> store_needs_compaction (cd_store c2)"
    using assms(6,7)
    by (simp add: store_needs_compaction_def wal_needs_compaction_def coordinator_options_def word_le_nat_alt word_less_nat_alt)
  then show ?thesis using assms(1) c1(1) c2(1)
    by (simp add: start_def and_do_def return_def change_def compact_if_needed_def)
qed

end
