(* ===== verification/Coordinator_Faults.thy ===== *)
theory Coordinator_Faults
  imports Store_Room
begin

text \<open>
  Two defects of the coordinator, as lemmas about its handlers: the record a deletion logs cannot be
  decoded, so the log that holds it cannot be replayed; and a commit acknowledgement is accepted
  whatever the state of the grant it names.
\<close>

section \<open>Deletions\<close>

text \<open>A record without the names the decoder insists on.\<close>

lemma empty_name_refused: "\<exists>e. decode_name id_tag kMaxNameLength (w_blob [] @ rest) = Inl e \<and> \<not> is_ok e"
proof -
  have "text_ok kMaxNameLength []"
    by (simp add: text_ok_def kMaxNameLength_def bytes_of_string_def ascii_string_valid_utf8)
  then show ?thesis
    by (simp add: decode_name_def blob.dec_step) (simp add: lift_result_def name_parse_def id_tag_def)
qed

lemma refused_stops: "\<exists>e. a bs = Inl e \<and> \<not> is_ok e \<Longrightarrow> \<exists>e. and_then a f bs = Inl e \<and> \<not> is_ok e"
  by (auto simp: and_then_def)

lemma second_name_refused:
  assumes "name_ok id_tag key"
  shows "\<exists>e. and_then (decode_name id_tag kMaxNameLength) (\<lambda>k. and_then (decode_name id_tag kMaxNameLength) (f k))
    (w_blob key @ w_blob [] @ rest) = Inl e \<and> \<not> is_ok e"
  using empty_name_refused [of rest] by (simp add: ident.dec_step assms) (auto simp: and_then_def)

definition erasures :: "string \<Rightarrow> mutation set" where
  "erasures key = {Mutation_ClusterErase (erased_cluster key), Mutation_LinkErase (erased_link key),
     Mutation_PathErase (erased_path key), Mutation_PolicyErase (erased_policy key)}"

lemma nameless_refused:
  assumes "name_ok id_tag key" "note_ok key"
  shows "\<exists>e. decode_cluster (w_blob key @ w_blob [] @ rest) = Inl e \<and> \<not> is_ok e" "\<exists>e. decode_link (w_blob key @ w_blob [] @ rest) = Inl e \<and> \<not> is_ok e"
    "\<exists>e. decode_path (w_blob key @ w_blob [] @ rest) = Inl e \<and> \<not> is_ok e" "\<exists>e. decode_policy (w_blob key @ w_blob [] @ rest) = Inl e \<and> \<not> is_ok e"
proof -
  show "\<exists>e. decode_cluster (w_blob key @ w_blob [] @ rest) = Inl e \<and> \<not> is_ok e" "\<exists>e. decode_link (w_blob key @ w_blob [] @ rest) = Inl e \<and> \<not> is_ok e"
    "\<exists>e. decode_path (w_blob key @ w_blob [] @ rest) = Inl e \<and> \<not> is_ok e"
    unfolding decode_cluster_def decode_link_def decode_path_def using assms(1) by (rule second_name_refused)+
  show "\<exists>e. decode_policy (w_blob key @ w_blob [] @ rest) = Inl e \<and> \<not> is_ok e"
    using empty_name_refused [of rest]
    by (simp add: decode_policy_def free_text.dec_step assms(2) require_def refused_stops refuse_def)
qed

lemma erased_undecodable:
  assumes "name_ok id_tag key" "note_ok key" "m \<in> erasures key"
  shows "\<exists>e. decode_mutation (encode_mutation m) = Inl e \<and> \<not> is_ok e"
proof -
  note refused = nameless_refused [OF assms(1,2)]
  have "\<exists>e. decode_body (mutation_kind m) (encode_body m) = Inl e \<and> \<not> is_ok e"
    using assms(3) unfolding erasures_def
    by (elim insertE emptyE)
      (simp_all add: decode_body_def encode_cluster_def encode_link_def encode_path_def encode_policy_def erased_cluster_def
        erased_link_def erased_path_def erased_policy_def refused_stops refused)
  moreover have "mutation_kind_known (mutation_kind m)"
    using assms(3) by (auto simp: erasures_def mutation_kind_known_def)
  ultimately show ?thesis by (simp add: decode_mutation_def encode_mutation_def u16.dec_step)
qed

lemma store_append_error: "store_append os m at ds disk = (Inl e, ds', disk') \<Longrightarrow> \<not> is_ok e"
  by (auto simp: store_append_def append_payload_def Let_def split: prod.splits if_splits)

lemma undecodable_refused:
  assumes holds: "store_holds options hdr es ds disk" and paths: "store_paths_ok options" and few: "length es < 4194304"
    and before: "store_open os directory stream options disk = Some (Inr (ds0, rec0), disk0)"
    and m: "decode_mutation (encode_mutation m) = Inl e" "\<not> is_ok e" and at: "i64_ok at"
    and run: "store_append os1 m at ds disk = (Inr q, ds', disk')"
  shows "\<exists>err. store_open os directory stream options disk' = Some (Inl err, disk')"
proof -
  let ?p = "encode_mutation m"
  define x where "x = \<lparr>le_kind = RecordKind_Mutation, le_sequence = ds_next_sequence ds, le_at = at, le_payload = ?p\<rparr>"
  note h = holds [unfolded store_holds_def]
  have held: "wal_holds (log_options options) es (ds_wal ds)"
    "disk (wo_path (log_options options)) = Some (hdr @ encode_log es)" using h by simp_all
  obtain s w' where app: "wal_append os1 RecordKind_Mutation (ds_next_sequence ds) at ?p (ds_wal ds) disk = (s, w', disk')" "is_ok s"
    using run h by (auto simp: store_append_def append_payload_def Let_def split: prod.splits if_splits)
  note w = wal_append_holds(1) [OF held app(1) x_def app(2)]
  have "entry_ok x" using w at by (simp add: entry_ok_def x_def record_kind_known_def)
  then have fol: "follows None (es @ [x])" using h by (simp add: follows_append x_def)
  have "\<exists>base rec. is_ok directory \<and> load_base os options disk = Some (Inr base) \<and> visit_all replay es base = Some (Inr rec) \<and> os_open os"
    using store_open_replays [OF paths before held(2) [simplified]] h few by (metis less_imp_le)
  then obtain base rec where o: "is_ok directory" "load_base os options disk = Some (Inr base)"
    "visit_all replay es base = Some (Inr rec)" "os_open os" by blast
  have f: "visit_all replay (es @ [x]) base = Some (Inl e)"
    using o(3) m by (simp add: visit_all_append replay_def replay_mutation_def entry_header_def x_def)
  have here: "disk' = disk(wal_path options \<mapsto> hdr @ encode_log (es @ [x]) @ [])" using w by simp
  have base: "load_base os options disk' = Some (Inr base)"
    using load_base_local [of disk' options disk os] o(2) h paths here by (simp add: store_paths_ok_def)
  have "store_open os directory stream options disk' = Some (Inl e, disk')"
    by (rule store_open_refused [OF paths o(1) base _ _ fol f o(4)]) (use here h few in auto)
  then show ?thesis by blast
qed

section \<open>Commit acknowledgements\<close>

lemma audit_grants:
  "audit actor act subject out detail c = Some (s, c') \<Longrightarrow> rg_grants (cd_registry c') = rg_grants (cd_registry c)"
  by (auto simp: audit_def append_audit_def registry_append_audit_def Let_def
      split: option.splits sum.splits if_splits dest!: append_mutation.leaves_registry)

lemma finalise_commits:
  assumes "finalise_grant key at c = Some (s, c')" "is_ok s" "find_grant (cd_registry c) key = Some g" "both_acknowledged g"
  shows "\<exists>g'. find_grant (cd_registry c') key = Some g' \<and> usable_state g'"
proof (cases "gr_state g = GrantState_Committed \<or> gr_state g = GrantState_Active")
  case True
  then show ?thesis using assms by (auto simp: finalise_grant_def usable_state_def)
next
  case False
  let ?g = "g\<lparr>gr_state := GrantState_Committed, gr_note := ''committed by both cluster agents'',
    gr_provenance := (gr_provenance g)\<lparr>pv_source := EvidenceSource_DerivedFromTopology,
      pv_verification := VerificationState_Verified, pv_observed_at := at\<rparr>\<rparr>"
  obtain reserved c1 where "reserve_capacity g at c = Some (reserved, c1)" "is_ok reserved"
    using assms False by (auto simp: finalise_grant_def and_do_def return_def split: option.splits if_splits)
  then have "rg_grants (cd_registry c') = om_put key ?g (rg_grants (cd_registry c1))"
    using assms False
    by (auto simp: finalise_grant_def and_do_def Let_def set_record_registry split: option.splits if_splits
        dest!: append_mutation.leaves_registry audit_grants)
  then show ?thesis by (simp add: find_grant_def om_find_put usable_state_def)
qed

lemma acknowledged_commits:
  assumes "accept_committed m g side c = Some (s, c')" "is_ok s" "gcm_installed m" "both_acknowledged g"
  shows "\<exists>g'. find_grant (cd_registry c') (gcm_grant m) = Some g' \<and> usable_state g'"
proof -
  let ?g = "g\<lparr>gr_acknowledged := set_party side True (gr_acknowledged g),
    gr_enforcement_digest := set_party side (gcm_enforcement_digest m) (gr_enforcement_digest g)\<rparr>"
  have both: "both_acknowledged ?g" using assms(4) by (auto simp: both_acknowledged_def set_party_def)
  obtain s1 c1 where c1: "append_mutation (Mutation_GrantPut ?g) (set_grant (gcm_grant m) ?g c) = Some (s1, c1)"
    "finalise_grant (gcm_grant m) (cd_now c1) c1 = Some (s, c')"
    using assms(1-3) both by (auto simp: accept_committed_def and_do_def Let_def split: option.splits if_splits)
  have "find_grant (cd_registry c1) (gcm_grant m) = Some ?g"
    using append_mutation.leaves_registry [OF c1(1)] by (simp add: set_record_registry find_grant_def om_find_put)
  from finalise_commits [OF c1(2) assms(2) this both] show ?thesis .
qed

end
