(* ===== verification/Commit_Progress.thy ===== *)
theory Commit_Progress
  imports Store_Room
begin

text \<open>
  Progress of the two-phase grant: when the log has room, both clusters have acknowledged and both
  endpoints have the capacity, finalising a grant succeeds. First the size of what is logged: grants
  and reservations within the bounds of the format fit into one log record, a cluster does with up to
  1024 endpoints, and reserving does not change the length of a cluster's record.
\<close>

section \<open>Sizes of logged records\<close>

lemma name_length: "name_ok id_tag s \<Longrightarrow> length s \<le> 96" "name_ok scope_tag s \<Longrightarrow> length s \<le> 192"
  by (auto simp: name_ok_def name_parse_def id_tag_def scope_tag_def kMaxNameLength_def kMaxScopeLength_def split: if_splits)

lemma wire_lengths:
  "uuid_ok u \<Longrightarrow> length (w_uuid u) = 16" "digest_ok d \<Longrightarrow> length (w_digest d) = 32"
  "length (encode_enum8 vs x) = 1" "note_ok s \<Longrightarrow> length s \<le> 512"
  by (simp_all add: uuid_ok_def digest_ok_def w_uuid_def w_digest_def w_raw_def encode_enum8_def note_ok_def text_ok_def
      kMaxText_def kMaxStringField_def)

lemma length_provenance: "provenance_wire p \<Longrightarrow> length (encode_provenance p) = 66"
  by (simp add: encode_provenance_def provenance_wire_def wire_lengths)

lemma length_endpoint: "endpoint_wire e \<Longrightarrow> length (encode_endpoint e) \<le> 500"
  using name_length [of "ep_id e"] name_length [of "ep_cluster e"] name_length [of "ep_scope e"]
  by (simp add: encode_endpoint_def endpoint_wire_def length_provenance wire_lengths)

lemma length_endpoints: "list_all endpoint_wire es \<Longrightarrow> length (concat (map encode_endpoint es)) \<le> 500 * length es"
  by (induction es) (auto dest: length_endpoint)

lemma length_count: "length (snd (w_count n)) \<le> 4"
  by (auto simp: w_count_def split: option.split)

lemma length_cluster:
  assumes "cluster_wire c" "length (cl_endpoints c) \<le> 1024"
  shows "length (encode_cluster c) \<le> 600000"
  using assms length_endpoints [of "cl_endpoints c"] name_length(1) [of "cl_id c"] name_length(1) [of "cl_domain c"]
    length_count [of "length (cl_endpoints c)"]
  by (simp add: encode_cluster_def cluster_wire_def length_provenance wire_lengths split: option.split)

lemma grant_wire_note: "grant_wire g \<Longrightarrow> length (gr_note g) \<le> 512"
  by (simp add: grant_wire_def wire_lengths)

lemma length_grant:
  assumes "grant_wire g"
  shows "length (encode_grant g) \<le> 2048"
  using assms [unfolded grant_wire_def binding_wire_def] grant_wire_note [OF assms]
  by (simp add: encode_grant_def encode_binding_def length_provenance wire_lengths(1-3))

lemma length_reservation: "reservation_wire rs \<Longrightarrow> length (encode_reservation rs) \<le> 512"
  using name_length(1) [of "rs_endpoint rs"] name_length(1) [of "rs_cluster rs"]
  by (simp add: encode_reservation_def reservation_wire_def length_provenance wire_lengths)

lemma mutation_fits:
  "cluster_wire x \<Longrightarrow> length (cl_endpoints x) \<le> 1024 \<Longrightarrow> length (encode_mutation (Mutation_ClusterPut x)) \<le> kMaxStoreRecordPayload"
  "grant_wire g \<Longrightarrow> length (encode_mutation (Mutation_GrantPut g)) \<le> kMaxStoreRecordPayload"
  "reservation_wire rs \<Longrightarrow> length (encode_mutation (Mutation_ReservationPut rs)) \<le> kMaxStoreRecordPayload"
  using length_cluster [of x] length_grant [of g] length_reservation [of rs]
  by (simp_all add: encode_mutation_def kMaxStoreRecordPayload_def)

section \<open>Reserving\<close>

definition can_reserve :: "registry \<Rightarrow> contract_record \<Rightarrow> u64 \<Rightarrow> nat \<Rightarrow> bool" where
  "can_reserve r x requested side \<longleftrightarrow>
    (case find_cluster r (pt_cluster (party_at (co_parties x) side)) of
       None \<Rightarrow> False
     | Some cluster \<Rightarrow> cluster_wire cluster \<and> length (encode_mutation (Mutation_ClusterPut cluster)) \<le> kMaxStoreRecordPayload
         \<and> (case find (\<lambda>e. ep_id e = pt_endpoint (party_at (co_parties x) side)) (cl_endpoints cluster) of
              None \<Rightarrow> False
            | Some endpoint \<Rightarrow> unat (ep_reserved endpoint) + unat requested \<le> unat (ep_capacity endpoint)))"

text \<open>A reservation counter has a fixed width.\<close>

lemma length_reserved [simp]: "length (encode_endpoint (e\<lparr>ep_reserved := amount\<rparr>)) = length (encode_endpoint e)"
  by (simp add: encode_endpoint_def)

lemma length_same_endpoint:
  assumes "find (\<lambda>x. ep_id x = i) es = Some e" "ep_id e' = i" "length (encode_endpoint e') = length (encode_endpoint e)"
  shows "length (concat (map encode_endpoint (set_endpoint e' es))) = length (concat (map encode_endpoint es))"
  using assms by (induction es) (auto split: if_splits)

lemma length_reserved_cluster:
  assumes "find (\<lambda>x. ep_id x = i) (cl_endpoints cluster) = Some e" "ep_id e = i"
  shows "length (encode_mutation (Mutation_ClusterPut
      (cluster\<lparr>cl_endpoints := set_endpoint (e\<lparr>ep_reserved := amount\<rparr>) (cl_endpoints cluster)\<rparr>)))
    = length (encode_mutation (Mutation_ClusterPut cluster))"
  using length_same_endpoint [OF assms(1), of "e\<lparr>ep_reserved := amount\<rparr>"] assms(2)
  by (simp add: encode_mutation_def encode_cluster_def del: length_concat)

lemma find_wire: "find P es = Some e \<Longrightarrow> list_all Q es \<Longrightarrow> Q e \<and> P e"
  by (induction es) (auto split: if_splits)

lemma capacity_left:
  assumes "unat taken + unat requested \<le> unat (capacity :: u64)"
  shows "\<not> requested > capacity" "\<not> taken > capacity - requested" "unat (taken + requested) = unat taken + unat requested"
proof -
  show le: "\<not> requested > capacity" using assms by (simp add: word_less_nat_alt)
  then have "unat (capacity - requested) = unat capacity - unat requested" by (simp add: unat_sub not_less)
  then show "\<not> taken > capacity - requested" using assms by (simp add: word_less_nat_alt)
  show "unat (taken + requested) = unat taken + unat requested"
    using assms unsigned_less [of capacity, where 'a = nat] by (intro unat_add_small) simp
qed

text \<open>What one side's reservation leaves behind: its cluster, one more reservation, and the rest as before.\<close>

lemma reserve_side_room:
  assumes room: "roomy (Suc (Suc n)) c" and can: "can_reserve (cd_registry c) x (gr_capacity g) side"
    and fresh: "uuid_ok (cd_identities c (cd_drawn c))" "\<not> is_nil (cd_identities c (cd_drawn c))"
    and few: "length (rg_reservations (cd_registry c)) < kMaxReservations"
    and g: "uuid_ok (gr_id g)" "gr_capacity g \<le> kMaxCapacity" "i64_ok at"
  obtains ds disk calls cluster rs where
    "reserve_side x g at side c = Some (status_ok, c\<lparr>cd_drawn := Suc (cd_drawn c), cd_registry := (cd_registry c)\<lparr>
        rg_clusters := om_put (pt_cluster (party_at (co_parties x) side)) cluster (rg_clusters (cd_registry c)),
        rg_reservations := om_put (rs_id rs) rs (rg_reservations (cd_registry c))\<rparr>,
      cd_store := ds, cd_disk := disk, cd_calls := calls\<rparr>)"
    "roomy n (c\<lparr>cd_store := ds, cd_calls := calls\<rparr>)" "rs_grant rs = gr_id g" "rs_amount rs = gr_capacity g" "\<not> rs_released rs"
proof -
  let ?party = "party_at (co_parties x) side" and ?key = "cd_identities c (cd_drawn c)"
  obtain cluster endpoint where found: "find_cluster (cd_registry c) (pt_cluster ?party) = Some cluster"
    "cluster_wire cluster" "length (encode_mutation (Mutation_ClusterPut cluster)) \<le> kMaxStoreRecordPayload"
    "find (\<lambda>e. ep_id e = pt_endpoint ?party) (cl_endpoints cluster) = Some endpoint"
    "unat (ep_reserved endpoint) + unat (gr_capacity g) \<le> unat (ep_capacity endpoint)"
    using can by (auto simp: can_reserve_def split: option.splits)
  note left = capacity_left [OF found(5)]
  have e: "endpoint_wire endpoint" "ep_id endpoint = pt_endpoint ?party"
    using find_wire [OF found(4), of endpoint_wire] found(2) by (simp_all add: cluster_wire_def)
  define cluster' where "cluster' = cluster\<lparr>cl_endpoints :=
    set_endpoint (endpoint\<lparr>ep_reserved := ep_reserved endpoint + gr_capacity g\<rparr>) (cl_endpoints cluster)\<rparr>"
  define rs where "rs = \<lparr>rs_id = ?key, rs_grant = gr_id g, rs_endpoint = ep_id endpoint, rs_cluster = cl_id cluster,
    rs_amount = gr_capacity g, rs_released = False, rs_created_at = at, rs_released_at = 0, rs_revision = 0,
    rs_provenance = derived_provenance at\<rparr>"
  have fits1: "length (encode_mutation (Mutation_ClusterPut cluster')) \<le> kMaxStoreRecordPayload"
    using length_reserved_cluster [OF found(4) e(2)] found(3) by (simp add: cluster'_def)
  have "reservation_wire rs"
    using e(1) found(2) fresh g
    by (simp add: reservation_wire_def rs_def endpoint_wire_def cluster_wire_def derived_provenance_def provenance_wire_def
        default_provenance_def i64_ok_def)
  then have fits2: "length (encode_mutation (Mutation_ReservationPut rs)) \<le> kMaxStoreRecordPayload" by (rule mutation_fits(3))
  let ?r = "(cd_registry c)\<lparr>rg_clusters := om_put (pt_cluster ?party) cluster' (rg_clusters (cd_registry c)),
    rg_reservations := om_put (rs_id rs) rs (rg_reservations (cd_registry c))\<rparr>"
  define c2 where "c2 = c\<lparr>cd_drawn := Suc (cd_drawn c), cd_registry := ?r\<rparr>"
  have "roomy (Suc (Suc n)) c2" using room by (simp add: roomy_def c2_def)
  from append_mutation_room [OF this fits2] obtain ds1 disk1 where one:
    "append_mutation (Mutation_ReservationPut rs) c2
      = Some (status_ok, c2\<lparr>cd_store := ds1, cd_disk := disk1, cd_calls := Suc (cd_calls c2)\<rparr>)"
    "roomy (Suc n) (c2\<lparr>cd_store := ds1, cd_disk := disk1, cd_calls := Suc (cd_calls c2)\<rparr>)" .
  let ?c3 = "c2\<lparr>cd_store := ds1, cd_disk := disk1, cd_calls := Suc (cd_calls c2)\<rparr>"
  from append_mutation_room [OF one(2) fits1] obtain ds2 disk2 where two:
    "append_mutation (Mutation_ClusterPut cluster') ?c3
      = Some (status_ok, ?c3\<lparr>cd_store := ds2, cd_disk := disk2, cd_calls := Suc (cd_calls ?c3)\<rparr>)"
    "roomy n (?c3\<lparr>cd_store := ds2, cd_disk := disk2, cd_calls := Suc (cd_calls ?c3)\<rparr>)" .
  have stored: "put_reservation rs ((cd_registry c)\<lparr>rg_clusters := om_put (pt_cluster ?party) cluster' (rg_clusters (cd_registry c))\<rparr>)
      = (status_ok, ?r)"
    using fresh(2) few by (simp add: put_reservation_def insert_bounded_def rs_def)
  have "reserve_side x g at side c = persist_all [Mutation_ReservationPut rs, Mutation_ClusterPut cluster'] c2"
    using stored left(1,2)
    by (simp add: reserve_side_def found(1,4) Let_def draw_def set_cluster_def set_registry_def cluster'_def [symmetric]
        rs_def [symmetric] c2_def)
  also have "\<dots> = Some (status_ok, c2\<lparr>cd_store := ds2, cd_disk := disk2, cd_calls := Suc (Suc (cd_calls c2))\<rparr>)"
    using one(1) two(1) by (simp add: and_do_def return_def)
  finally have "reserve_side x g at side c = Some (status_ok, c\<lparr>cd_drawn := Suc (cd_drawn c),
      cd_registry := ?r, cd_store := ds2, cd_disk := disk2, cd_calls := Suc (Suc (cd_calls c))\<rparr>)"
    by (simp add: c2_def)
  moreover have "roomy n (c\<lparr>cd_store := ds2, cd_calls := Suc (Suc (cd_calls c))\<rparr>)"
    using two(2) by (simp add: roomy_def c2_def)
  ultimately show ?thesis
    by (rule that) (simp_all add: rs_def)
qed

section \<open>Committing\<close>

definition can_commit :: "coordinator \<Rightarrow> grant_record \<Rightarrow> bool" where
  "can_commit c g \<longleftrightarrow>
    (case find_contract (cd_registry c) (gr_contract g) of
       None \<Rightarrow> False
     | Some x \<Rightarrow> pt_cluster (fst (co_parties x)) \<noteq> pt_cluster (snd (co_parties x))
         \<and> can_reserve (cd_registry c) x (gr_capacity g) 0 \<and> can_reserve (cd_registry c) x (gr_capacity g) 1)
    \<and> grant_wire g \<and> i64_ok (cd_now c) \<and> Suc (length (rg_reservations (cd_registry c))) < kMaxReservations
    \<and> (\<forall>k \<in> {cd_drawn c, Suc (cd_drawn c)}. uuid_ok (cd_identities c k) \<and> \<not> is_nil (cd_identities c k))
    \<and> (rg_audit (cd_registry c) = [] \<or> au_sequence (last (rg_audit (cd_registry c))) \<noteq> - 1)"

lemma om_put_grows: "length (om_put k v m) \<le> Suc (length m)"
  by (induction m) auto

lemma reserve_capacity_room:
  assumes room: "roomy (Suc (Suc (Suc (Suc n)))) c" and can: "can_commit c g"
  obtains c' where "reserve_capacity g (cd_now c) c = Some (status_ok, c')" "roomy n c'" "cd_pending c' = cd_pending c"
    "rg_grants (cd_registry c') = rg_grants (cd_registry c)" "rg_audit (cd_registry c') = rg_audit (cd_registry c)"
proof -
  obtain x where x: "find_contract (cd_registry c) (gr_contract g) = Some x"
    "pt_cluster (fst (co_parties x)) \<noteq> pt_cluster (snd (co_parties x))"
    "can_reserve (cd_registry c) x (gr_capacity g) 0" "can_reserve (cd_registry c) x (gr_capacity g) 1"
    using can by (auto simp: can_commit_def split: option.splits)
  have g: "uuid_ok (gr_id g)" "gr_capacity g \<le> kMaxCapacity" "i64_ok (cd_now c)"
    and ids: "uuid_ok (cd_identities c (cd_drawn c))" "\<not> is_nil (cd_identities c (cd_drawn c))"
      "uuid_ok (cd_identities c (Suc (cd_drawn c)))" "\<not> is_nil (cd_identities c (Suc (cd_drawn c)))"
    and few: "Suc (length (rg_reservations (cd_registry c))) < kMaxReservations"
    using can by (auto simp: can_commit_def grant_wire_def)
  then have few1: "length (rg_reservations (cd_registry c)) < kMaxReservations" by simp
  obtain ds disk calls cluster rs where one: "reserve_side x g (cd_now c) 0 c = Some (status_ok, c\<lparr>cd_drawn := Suc (cd_drawn c),
      cd_registry := (cd_registry c)\<lparr>
        rg_clusters := om_put (pt_cluster (party_at (co_parties x) 0)) cluster (rg_clusters (cd_registry c)),
        rg_reservations := om_put (rs_id rs) rs (rg_reservations (cd_registry c))\<rparr>,
      cd_store := ds, cd_disk := disk, cd_calls := calls\<rparr>)" "roomy (Suc (Suc n)) (c\<lparr>cd_store := ds, cd_calls := calls\<rparr>)"
    by (rule reserve_side_room [OF room x(3) ids(1,2) few1 g])
  define c1 where "c1 = c\<lparr>cd_drawn := Suc (cd_drawn c), cd_registry := (cd_registry c)\<lparr>
        rg_clusters := om_put (pt_cluster (party_at (co_parties x) 0)) cluster (rg_clusters (cd_registry c)),
        rg_reservations := om_put (rs_id rs) rs (rg_reservations (cd_registry c))\<rparr>,
      cd_store := ds, cd_disk := disk, cd_calls := calls\<rparr>"
  have room1: "roomy (Suc (Suc n)) c1" using one(2) by (simp add: roomy_def c1_def)
  have can1: "can_reserve (cd_registry c1) x (gr_capacity g) 1"
    using x(2,4) by (simp add: can_reserve_def c1_def find_cluster_def om_find_put party_at_def)
  have few2: "length (rg_reservations (cd_registry c1)) < kMaxReservations"
    using few om_put_grows [of "rs_id rs" rs "rg_reservations (cd_registry c)"] by (simp add: c1_def)
  have ids1: "uuid_ok (cd_identities c1 (cd_drawn c1))" "\<not> is_nil (cd_identities c1 (cd_drawn c1))"
    using ids by (simp_all add: c1_def)
  obtain ds2 disk2 calls2 cluster2 rs2 where two: "reserve_side x g (cd_now c) 1 c1 = Some (status_ok, c1\<lparr>cd_drawn := Suc (cd_drawn c1),
      cd_registry := (cd_registry c1)\<lparr>
        rg_clusters := om_put (pt_cluster (party_at (co_parties x) 1)) cluster2 (rg_clusters (cd_registry c1)),
        rg_reservations := om_put (rs_id rs2) rs2 (rg_reservations (cd_registry c1))\<rparr>,
      cd_store := ds2, cd_disk := disk2, cd_calls := calls2\<rparr>)" "roomy n (c1\<lparr>cd_store := ds2, cd_calls := calls2\<rparr>)"
    by (rule reserve_side_room [OF room1 can1 ids1 few2 g])
  show ?thesis
    by (rule that [of "c1\<lparr>cd_drawn := Suc (cd_drawn c1), cd_registry := (cd_registry c1)\<lparr>
        rg_clusters := om_put (pt_cluster (party_at (co_parties x) 1)) cluster2 (rg_clusters (cd_registry c1)),
        rg_reservations := om_put (rs_id rs2) rs2 (rg_reservations (cd_registry c1))\<rparr>,
      cd_store := ds2, cd_disk := disk2, cd_calls := calls2\<rparr>"])
      (use one(1) two in \<open>simp_all add: reserve_capacity_def x(1) and_do_def c1_def [symmetric] roomy_def\<close>, simp_all add: c1_def)
qed

lemma finalise_room:
  assumes room: "roomy (Suc (Suc (Suc (Suc (Suc (Suc n)))))) c" and can: "can_commit c g"
    and g: "find_grant (cd_registry c) key = Some g" "both_acknowledged g" "\<not> usable_state g"
  obtains c' g' where "finalise_grant key (cd_now c) c = Some (status_ok, c')" "roomy n c'"
    "find_grant (cd_registry c') key = Some g'" "gr_state g' = GrantState_Committed" "cd_pending c' = om_erase key (cd_pending c)"
proof -
  obtain c1 where c1: "reserve_capacity g (cd_now c) c = Some (status_ok, c1)" "roomy (Suc (Suc n)) c1" "cd_pending c1 = cd_pending c"
    "rg_grants (cd_registry c1) = rg_grants (cd_registry c)" "rg_audit (cd_registry c1) = rg_audit (cd_registry c)"
    by (rule reserve_capacity_room [OF room can])
  define g' where "g' = g\<lparr>gr_state := GrantState_Committed, gr_note := ''committed by both cluster agents'',
    gr_provenance := (gr_provenance g)\<lparr>pv_source := EvidenceSource_DerivedFromTopology,
      pv_verification := VerificationState_Verified, pv_observed_at := cd_now c\<rparr>\<rparr>"
  have "note_ok ''committed by both cluster agents''"
    by (simp add: note_ok_def text_ok_def kMaxText_def kMaxStringField_def ascii_string_valid_utf8 bytes_of_string_def)
      (simp add: ascii_valid_utf8 byte_of_char_def)
  then have "grant_wire g'" using can by (simp add: can_commit_def grant_wire_def g'_def provenance_wire_def)
  then have fits: "length (encode_mutation (Mutation_GrantPut g')) \<le> kMaxStoreRecordPayload" by (rule mutation_fits(2))
  have room2: "roomy (Suc (Suc n)) (set_grant key g' c1)" using c1(2) by (simp add: set_grant_def)
  obtain ds disk where two: "append_mutation (Mutation_GrantPut g') (set_grant key g' c1)
      = Some (status_ok, (set_grant key g' c1)\<lparr>cd_store := ds, cd_disk := disk, cd_calls := Suc (cd_calls (set_grant key g' c1))\<rparr>)"
    "roomy (Suc n) ((set_grant key g' c1)\<lparr>cd_store := ds, cd_disk := disk, cd_calls := Suc (cd_calls (set_grant key g' c1))\<rparr>)"
    by (rule append_mutation_room [OF room2 fits])
  define c2 where "c2 = (set_grant key g' c1)\<lparr>cd_store := ds, cd_disk := disk, cd_calls := Suc (cd_calls (set_grant key g' c1))\<rparr>"
  define c3 where "c3 = drop_pending key (c2\<lparr>cd_commits := cd_commits c2 + 1\<rparr>)"
  have room3: "roomy (Suc n) c3" using two(2) by (simp add: c3_def c2_def drop_pending_def roomy_def)
  have "cd_registry c3 = (cd_registry c1)\<lparr>rg_grants := om_put key g' (rg_grants (cd_registry c1))\<rparr>"
    by (simp add: c3_def c2_def set_record_registry)
  then have r3: "rg_grants (cd_registry c3) = om_put key g' (rg_grants (cd_registry c1))"
    "rg_audit (cd_registry c3) = rg_audit (cd_registry c)" using c1(5) by simp_all
  have trail: "rg_audit (cd_registry c3) = [] \<or> au_sequence (last (rg_audit (cd_registry c3))) \<noteq> - 1"
    using can by (simp add: can_commit_def r3(2))
  obtain ds4 disk4 r4 calls4 where four: "audit ''coordinator'' ''commit-grant'' (uuid_to_string key) Outcome_Ok
      ''both cluster agents acknowledged the same attempt'' c3
      = Some (status_ok, c3\<lparr>cd_registry := r4, cd_store := ds4, cd_disk := disk4, cd_calls := calls4\<rparr>)"
    "roomy n (c3\<lparr>cd_registry := r4, cd_store := ds4, cd_disk := disk4, cd_calls := calls4\<rparr>)"
    "r4 = cd_registry c3 \<or> (\<exists>a. r4 = (cd_registry c3)\<lparr>rg_audit := rg_audit (cd_registry c3) @ [a]\<rparr>)"
    by (rule audit_room [OF room3 trail])
  have "finalise_grant key (cd_now c) c = Some (status_ok, c3\<lparr>cd_registry := r4, cd_store := ds4, cd_disk := disk4, cd_calls := calls4\<rparr>)"
    using g c1(1) two(1) four(1)
    by (simp add: finalise_grant_def usable_state_def Let_def g'_def [symmetric] and_do_def c2_def [symmetric] c3_def [symmetric])
  moreover have "find_grant r4 key = Some g'" using four(3) r3(1) by (auto simp: find_grant_def om_find_put)
  moreover have "cd_pending c3 = om_erase key (cd_pending c)"
    using c1(3) by (simp add: c3_def c2_def drop_pending_def set_grant_def set_registry_def)
  ultimately show ?thesis using four(2)
    by (intro that [where c' = "c3\<lparr>cd_registry := r4, cd_store := ds4, cd_disk := disk4, cd_calls := calls4\<rparr>" and g' = g'])
      (simp_all add: g'_def)
qed

end
