(* ===== verification/Coordinator_Properties.thy ===== *)
theory Coordinator_Properties
  imports Coordinator_Faults Commit_Progress Store_Properties Message_Laws Sample
begin

text \<open>The properties of the coordinator, and a small coordinator on which they are instantiated.\<close>

definition sample_config :: coordinator_config where
  "sample_config = \<lparr>cf_state_directory = ''d'', cf_domain = ''n'', cf_durable = True, cf_allow_agent_registration = True,
     cf_domain_keys = [], cf_default_lease = 1000, cf_ping_interval = 0, cf_grant_flow_deadline = 30,
     cf_compact_bytes = 67108864, cf_compact_records = 65536\<rparr>"

definition sample_coordinator :: "registry \<Rightarrow> coordinator" where
  "sample_coordinator r = \<lparr>cd_config = sample_config, cd_store = sample_store [], cd_recovery = fresh_recovery,
     cd_registry = r, cd_term = 7, cd_incarnation = uid 3, cd_previous_incarnation = nil_uuid, cd_started_at = 0,
     cd_connections = [], cd_sessions = [], cd_pending = [], cd_commits = 0, cd_fences = 0, cd_refusals = 0,
     cd_revalidations = 0, cd_rejected_replays = 0, cd_rejected_frames = 0, cd_pongs_received = 0, cd_errors_received = 0,
     cd_started = False, cd_disk = sample_disk [], cd_now = 500, cd_monotonic = 0, cd_answers = (\<lambda>_. sample_os),
     cd_calls = 0, cd_identities = (\<lambda>n. uid (n + 50)), cd_drawn = 0\<rparr>"

definition sample_agent :: peer_session where
  "sample_agent = \<lparr>se_role = PeerRole_Agent, se_cluster = ''a'', se_domain = ''n'', se_token = uid 9, se_incarnation = uid 1,
     se_generation = 1, se_policy_generation = 1, se_agent_term = 1, se_signing = False, se_hello_complete = True,
     se_connected_at = 0, se_connection_id = 5\<rparr>"

lemma sample_os_serves [simp]: "os_well sample_os 2097152"
  by (simp add: os_well_def sample_os_def)

lemma sample_roomy: "roomy 255 (sample_coordinator r)"
  by (simp add: roomy_def sample_coordinator_def sample_store_def sample_wal_def log_room_def store_limits kMaxStoreRecordPayload_def effective_options_def
      log_options_def kWalHeaderSize_def sample_options_def)

definition blank_coordinator :: coordinator where
  "blank_coordinator = (sample_coordinator empty_registry)\<lparr>cd_disk := \<lambda>_. None\<rparr>"

lemma blank_registry [simp]: "cd_registry blank_coordinator = empty_registry"
  by (simp add: blank_coordinator_def sample_coordinator_def)

lemma blank_starts: "\<exists>c'. start status_ok status_ok blank_coordinator = Some (status_ok, c')"
  by (rule start_fresh) (simp_all add: blank_coordinator_def sample_coordinator_def sample_config_def)

section \<open>What the coordinator serves\<close>

text \<open>
  C2. Whatever the files of the store hold, and whatever messages, disconnections, timer events and
  clock changes follow, the registry the coordinator serves stays well formed and every grant in a
  usable state was acknowledged by both clusters; and a contract never counts as consented without
  the acceptance of both parties, unless it was so when the coordinator started.
\<close>

theorem served_state_is_sound:
  assumes "start directory listening c0 = Some (s, c1)" "is_ok s" "cd_registry c0 = empty_registry"
    and "coordinator_step\<^sup>*\<^sup>* c1 c"
  shows "registry_ok (cd_registry c) \<and> grants_acknowledged (cd_registry c)
    \<and> (contracts_consented (cd_registry c1) \<longrightarrow> contracts_consented (cd_registry c))"
proof -
  have "sound False (cd_registry c1)" by (rule cold_sound [OF start_cold(1) [OF assms(1-3)]])
  then show ?thesis
    using coordinator_run_keeps [OF assms(4), of False] coordinator_run_keeps [OF assms(4), of True] by (auto simp: sound_def)
qed

theorem served_state_is_sound_witness:
  "\<exists>c1. start status_ok status_ok blank_coordinator = Some (status_ok, c1)
    \<and> registry_ok (cd_registry (handle_disconnect 5 status_ok (c1\<lparr>cd_now := 600\<rparr>)))
    \<and> grants_acknowledged (cd_registry (handle_disconnect 5 status_ok (c1\<lparr>cd_now := 600\<rparr>)))"
proof -
  obtain c1 where c1: "start status_ok status_ok blank_coordinator = Some (status_ok, c1)" using blank_starts by blast
  have "coordinator_step c1 (c1\<lparr>cd_now := 600\<rparr>)"
    using coordinator_step.waited [where c = c1 and now = 600 and monotonic = "cd_monotonic c1" and connections = "cd_connections c1"] by simp
  then have "coordinator_step\<^sup>*\<^sup>* c1 (handle_disconnect 5 status_ok (c1\<lparr>cd_now := 600\<rparr>))"
    using coordinator_step.lost [of "c1\<lparr>cd_now := 600\<rparr>" 5 status_ok] by (rule converse_rtranclp_into_rtranclp [OF _ r_into_rtranclp])
  from served_state_is_sound [OF c1 _ _ this] c1 show ?thesis by simp
qed

text \<open>
  C5. A coordinator that has just started authorizes nothing: whatever its files hold, no query is
  answered with an authorization, every grant is out of use and every reservation is released.
\<close>

theorem start_authorizes_nothing:
  assumes "start directory listening c0 = Some (s, c1)" "is_ok s" "cd_registry c0 = empty_registry"
  shows "cd_started c1 \<and> nothing_live (cd_registry c1) \<and> \<not> authorized (decide (cd_registry c1) q v)"
  using start_cold [OF assms] cold_not_authorized by (auto simp: cold_def)

theorem start_authorizes_nothing_witness:
  "\<exists>c1. start status_ok status_ok blank_coordinator = Some (status_ok, c1) \<and> cd_started c1
    \<and> \<not> authorized (decide (cd_registry c1) sample_query sample_view)"
proof -
  obtain c1 where c1: "start status_ok status_ok blank_coordinator = Some (status_ok, c1)" using blank_starts by blast
  from start_authorizes_nothing [OF c1, of sample_query sample_view] c1
  show ?thesis by simp
qed

section \<open>Who may change it\<close>

text \<open>
  C12. A frame that does not carry the token of the session completed on its connection changes
  nothing: registry, store, files, sessions, grant flows, term and incarnation stay as they were. The
  handshake itself is excepted, and so is administration, which an agent's connection is refused but
  which is served on any other connection.
\<close>

theorem unauthenticated_frame_changes_nothing:
  assumes "handle_message key frame c = Some (s, c')" "\<not> authenticated c key frame"
    and "fh_type (fr_header frame) \<noteq> MessageType_Hello"
    and "fh_type (fr_header frame) = MessageType_Admin \<longrightarrow> agent_session c key"
  shows "untouched c c'"
  using unauthenticated_untouched [OF assms(1-3)] assms(4) by blast

definition sample_notice :: withdraw_message where
  "sample_notice = \<lparr>wdr_session = uid 8, wdr_cluster = ''a'', wdr_incarnation = uid 1, wdr_generation = 1, wdr_reason = []\<rparr>"

definition sample_withdrawal :: frame where
  "sample_withdrawal = \<lparr>fr_header = \<lparr>fh_version = 1, fh_type = MessageType_Withdraw, fh_flags = 0, fh_payload_length = 0\<rparr>,
     fr_payload = encode_withdraw sample_notice, fr_signed_frame = False\<rparr>"

definition sample_serving :: "registry \<Rightarrow> coordinator" where
  "sample_serving r = (sample_coordinator r)\<lparr>cd_sessions := [(5, sample_agent)]\<rparr>"

lemma serving_simps [simp]:
  "cd_registry (sample_serving r) = r" "session_for (sample_serving r) 5 = Some sample_agent"
  "connection_for (sample_serving r) key = None" "cd_pending (sample_serving r) = []"
  by (simp_all add: sample_serving_def sample_coordinator_def session_for_def connection_for_def)

lemma uid_eq [simp]: "uid m = uid n \<longleftrightarrow> (word_of_nat m :: byte) = word_of_nat n"
  by (simp add: uid_def)

theorem unauthenticated_frame_changes_nothing_witness:
  "\<exists>s c'. handle_message 5 sample_withdrawal (sample_serving sample_registry) = Some (s, c')
    \<and> untouched (sample_serving sample_registry) c'"
proof -
  have "decode_withdraw (encode_withdraw sample_notice) = Inr sample_notice"
    unfolding decode_withdraw_def by (rule withdraw.whole_message_enc) (simp add: withdraw_wire_def sample_notice_def kMaxGeneration_def)
  then have d: "decode_withdraw (fr_payload sample_withdrawal) = Inr sample_notice"
    "fh_type (fr_header sample_withdrawal) = MessageType_Withdraw" by (simp_all add: sample_withdrawal_def)
  obtain s c' where run: "handle_message 5 sample_withdrawal (sample_serving sample_registry) = Some (s, c')"
    by (auto simp: handle_message_def d on_withdraw_def with_session_def require_session_def sample_notice_def sample_agent_def
        send_error_def send_to_def connection_for_def kVirtualConnection_def reject_replay_def sample_serving_def sample_coordinator_def session_for_def)
  have "\<not> authenticated (sample_serving sample_registry) 5 sample_withdrawal"
    by (simp add: authenticated_def presented_token_def d token_of_def holds_token_def sample_agent_def sample_notice_def)
  from unauthenticated_frame_changes_nothing [OF run this] run show ?thesis by (simp add: d)
qed

text \<open>
  C22. A consent changes one slot of one contract: when the consent of an agent changes a contract,
  the agent's session is complete, its cluster is a party of that contract, only that party's slot is
  replaced, the consent covers exactly the terms and the endpoint the contract holds for it, and the
  contract counts as consented afterwards only if both slots hold an acceptance.
\<close>

theorem consent_changes_own_slot:
  assumes "on_contract_consent key payload c = Some (s, c')"
    and "om_find (rg_contracts (cd_registry c')) k = Some x'" "om_find (rg_contracts (cd_registry c)) k \<noteq> Some x'"
  shows "\<exists>session x. session_for c key = Some session \<and> se_role session = PeerRole_Agent
    \<and> om_find (rg_contracts (cd_registry c)) k = Some x \<and> consent_change (se_cluster session) x x'"
  by (rule consent_change_contracts [OF assms])

definition sample_answer :: contract_consent_message where
  "sample_answer = \<lparr>con_session = uid 9, con_contract = uid 20, con_terms_digest = zero_digest,
     con_decision = ConsentDecision_Refused, con_endpoint = ''ea'', con_incarnation = uid 1, con_generation = 1,
     con_policy_generation = 1, con_agent_term = 1, con_reason = []\<rparr>"

lemma sample_side: "contract_side_of sample_contract ''a'' = Some 0"
  by (simp add: contract_side_of_def parties_side_of_def sample_contract_def)

theorem consent_changes_own_slot_witness:
  "\<exists>s c' x'. on_contract_consent 5 (encode_contract_consent sample_answer) (sample_serving sample_registry) = Some (s, c')
    \<and> om_find (rg_contracts (cd_registry c')) (uid 20) = Some x' \<and> consent_change ''a'' sample_contract x'"
proof -
  let ?c = "sample_serving sample_registry"
  let ?given = "given_consent sample_agent 500 sample_answer"
  let ?x = "consented_contract 0 500 ?given sample_contract"
  have decoded: "decode_contract_consent (encode_contract_consent sample_answer) = Inr sample_answer"
    unfolding decode_contract_consent_def
    by (rule contract_consent.whole_message_enc) (simp add: contract_consent_wire_def sample_answer_def kMaxGeneration_def)
  have now: "cd_now ?c = 500" by (simp add: sample_serving_def sample_coordinator_def)
  have found: "find_contract sample_registry (uid 20) = Some sample_contract"
    by (simp add: find_contract_def sample_registry_def)
  have accept: "on_contract_consent 5 (encode_contract_consent sample_answer) ?c
      = accept_consent 5 sample_answer sample_agent sample_contract 0 ?c"
    by (simp add: on_contract_consent_def decoded with_session_def require_session_def)
      (simp add: sample_agent_def sample_answer_def found sample_side)
  have go: "accept_consent 5 sample_answer sample_agent sample_contract 0 ?c =
      and_do (append_mutation (Mutation_ContractPut ?x)) (audit ''agent'' ''contract-consent'' (uuid_to_string (uid 20)) Outcome_Ok
        (''decision='' @ consent_decision_to_string ConsentDecision_Refused)) (set_contract (uid 20) ?x ?c)"
    by (simp add: accept_consent_def now Let_def)
      (simp add: sample_answer_def sample_agent_def sample_contract_def party_at_def given_consent_def same_consent_def sample_consent_def)
  have "length (encode_mutation (Mutation_ContractPut ?x)) \<le> kMaxStoreRecordPayload"
    by (simp add: encode_mutation_def encode_contract_def encode_party_def encode_consent_slot_def encode_consent_def wire_lengths
        length_provenance consented_contract_def given_consent_def sample_contract_def sample_consent_def sample_answer_def
        sample_agent_def set_party_def kMaxStoreRecordPayload_def Let_def)
  moreover have "roomy (Suc 254) (set_contract (uid 20) ?x ?c)"
    using sample_roomy [of sample_registry] by (simp add: set_contract_def) (simp add: roomy_def sample_serving_def)
  ultimately obtain ds disk where one: "append_mutation (Mutation_ContractPut ?x) (set_contract (uid 20) ?x ?c)
      = Some (status_ok, (set_contract (uid 20) ?x ?c)\<lparr>cd_store := ds, cd_disk := disk,
          cd_calls := Suc (cd_calls (set_contract (uid 20) ?x ?c))\<rparr>)"
    "roomy 254 ((set_contract (uid 20) ?x ?c)\<lparr>cd_store := ds, cd_disk := disk,
          cd_calls := Suc (cd_calls (set_contract (uid 20) ?x ?c))\<rparr>)"
    using append_mutation_room by blast
  let ?c2 = "(set_contract (uid 20) ?x ?c)\<lparr>cd_store := ds, cd_disk := disk, cd_calls := Suc (cd_calls (set_contract (uid 20) ?x ?c))\<rparr>"
  let ?audit = "audit ''agent'' ''contract-consent'' (uuid_to_string (uid 20)) Outcome_Ok
    (''decision='' @ consent_decision_to_string ConsentDecision_Refused)"
  have r2: "cd_registry ?c2 = sample_registry\<lparr>rg_contracts := om_put (uid 20) ?x (rg_contracts sample_registry)\<rparr>"
    by (simp add: set_record_registry)
  then have trail: "rg_audit (cd_registry ?c2) = [] \<or> au_sequence (last (rg_audit (cd_registry ?c2))) \<noteq> - 1"
    by (simp add: sample_registry_def)
  have room2: "roomy (Suc 253) ?c2" using one(2) by simp
  obtain c' where two: "?audit ?c2 = Some (status_ok, c')"
    by (rule audit_room [OF room2 trail])
  have run: "on_contract_consent 5 (encode_contract_consent sample_answer) ?c = Some (status_ok, c')"
    "rg_contracts (cd_registry c') = om_put (uid 20) ?x (rg_contracts sample_registry)"
    using one(1) two audit_contracts [OF two] r2 by (simp_all only: accept go) (simp_all add: and_do_def)
  have changed: "?x \<noteq> sample_contract"
    by (simp add: consented_contract_def given_consent_def sample_answer_def Let_def sample_contract_def)
  have "om_find (rg_contracts (cd_registry c')) (uid 20) = Some ?x" "om_find (rg_contracts (cd_registry ?c)) (uid 20) = Some sample_contract"
    using run(2) by (simp_all add: om_find_put sample_registry_def)
  then have "consent_change ''a'' sample_contract ?x"
    using consent_changes_own_slot [OF run(1), of "uid 20" ?x] changed by (simp add: sample_agent_def)
  then show ?thesis using run om_find_put [of "uid 20" ?x] by auto
qed

section \<open>Grant flows\<close>

text \<open>
  C19. A grant flow nobody answers ends: after more than 64 timer events with nothing else happening no
  flow is pending, whatever times the clock shows.
\<close>

theorem pending_flow_ends:
  assumes "flows_keyed c" "ticks nows c = Some c'" "64 < length nows"
  shows "cd_pending c' = []"
  by (rule flows_end [OF assms])

lemma tick_idle:
  assumes "cd_pending c = []" "rg_grants (cd_registry c) = []" "\<not> store_needs_compaction (cd_store c)"
    and "cf_ping_interval (cd_config c) \<le> 0"
  shows "tick c = Some c"
  using assms by (simp add: tick_def expire_grants_def retry_pending_flows_def compact_if_needed_def ping_agents_def
      om_map_def Let_def)

lemma ticks_idle:
  assumes "cd_pending c = []" "rg_grants (cd_registry c) = []" "\<not> store_needs_compaction (cd_store c)"
    and "cf_ping_interval (cd_config c) \<le> 0"
  shows "ticks (replicate n (cd_now c)) c = Some c"
  by (induction n) (simp_all add: tick_idle assms)

definition sample_waiting :: coordinator where
  "sample_waiting = (sample_coordinator empty_registry)\<lparr>cd_pending := [(uid 30,
     \<lparr>pn_grant = uid 30, pn_contract = uid 20, pn_prepared = (False, False), pn_targets = (no_target, no_target),
      pn_deadline = 100, pn_attempts = 3\<rparr>)]\<rparr>"

theorem pending_flow_ends_witness:
  "\<exists>c'. ticks (replicate 65 500) sample_waiting = Some c' \<and> cd_pending c' = []"
proof -
  let ?c = "sample_coordinator empty_registry"
  have quiet: "\<not> store_needs_compaction (cd_store ?c)"
    by (simp add: sample_coordinator_def sample_store_def store_needs_compaction_def wal_needs_compaction_def sample_options_def
        sample_wal_def kWalHeaderSize_def)
  have one: "tick (sample_waiting\<lparr>cd_now := 500\<rparr>) = Some ?c"
    using quiet
    by (simp add: sample_waiting_def sample_coordinator_def tick_def expire_grants_def retry_pending_flows_def timed_out_def
        abort_anyway_def abort_grant_def find_grant_def empty_registry_def drop_pending_def compact_if_needed_def ping_agents_def
        sample_config_def om_map_def om_erase_def Let_def)
  have "cd_now ?c = 500" "cd_pending ?c = []" "rg_grants (cd_registry ?c) = []" "cf_ping_interval (cd_config ?c) \<le> 0"
    by (simp_all add: sample_coordinator_def empty_registry_def sample_config_def)
  then have "ticks (replicate 64 500) ?c = Some ?c" using ticks_idle [of ?c 64] quiet by metis
  then have "ticks (500 # replicate 64 500) sample_waiting = Some ?c" using one by simp
  then have run: "ticks (replicate 65 500) sample_waiting = Some ?c" by (simp only: replicate_Suc [symmetric]) simp
  have "flows_keyed sample_waiting" by (simp add: flows_keyed_def sample_waiting_def)
  from pending_flow_ends [OF this run] run show ?thesis by simp
qed

text \<open>
  C17. A grant commits when it can: if both clusters have acknowledged it, the contract's endpoints, of two
  different clusters, have the capacity it asks for, the file calls succeed and the log has room for six
  records of the largest size below its limits of 4194304 records and 512 MiB, then finalising it
  succeeds, leaves it committed and ends its flow. The records involved are within the bounds of the
  format, those of the two clusters fit into a log record, two more reservations fit into the registry,
  the identities drawn are not nil, and the numbers of the audit trail are not used up.
\<close>

theorem grant_commit_completes:
  assumes "roomy 6 c" "find_grant (cd_registry c) key = Some g" "both_acknowledged g" "\<not> usable_state g" "can_commit c g"
  shows "\<exists>c' g'. finalise_grant key (cd_now c) c = Some (status_ok, c') \<and> find_grant (cd_registry c') key = Some g'
    \<and> gr_state g' = GrantState_Committed \<and> cd_pending c' = om_erase key (cd_pending c)"
proof -
  have "roomy (Suc (Suc (Suc (Suc (Suc (Suc 0)))))) c" using assms(1) by (simp add: numeral_eq_Suc)
  from finalise_room [OF this assms(5,2,3,4)] show ?thesis by blast
qed

definition stopped_grant :: "grant_state \<Rightarrow> grant_record" where
  "stopped_grant state = sample_grant\<lparr>gr_state := state\<rparr>"

definition stopped_registry :: "grant_state \<Rightarrow> registry" where
  "stopped_registry state = sample_registry\<lparr>rg_grants := [(uid 30, stopped_grant state)]\<rparr>"

lemma stopped_grant_found: "find_grant (stopped_registry state) (uid 30) = Some (stopped_grant state)"
  by (simp add: find_grant_def stopped_registry_def)

lemma stopped_can_commit: "can_commit (sample_serving (stopped_registry state)) (stopped_grant state)"
proof -
  have wire: "cluster_wire (sample_cluster ''a'' ''n'' 1 ''ea'')" "cluster_wire (sample_cluster ''b'' ''s'' 2 ''eb'')" "grant_wire sample_grant"
    using sample_registry_wire by (simp_all add: registry_wire_def sample_registry_def)
  have "length (cl_endpoints (sample_cluster i d n e)) \<le> 1024" for i d n e by (simp add: sample_cluster_def)
  note fits = mutation_fits(1) [OF wire(1) this] mutation_fits(1) [OF wire(2) this]
  show ?thesis
    using wire fits
    by (simp add: can_commit_def stopped_registry_def stopped_grant_def sample_registry_def find_contract_def sample_grant_def
        sample_contract_def can_reserve_def find_cluster_def sample_cluster_def sample_endpoint_def party_at_def grant_wire_def
        sample_serving_def sample_coordinator_def i64_ok_def kMaxReservations_def)
qed

theorem grant_commit_completes_witness:
  "\<exists>c' g'. finalise_grant (uid 30) 500 (sample_serving (stopped_registry GrantState_Preparing)) = Some (status_ok, c')
    \<and> find_grant (cd_registry c') (uid 30) = Some g' \<and> gr_state g' = GrantState_Committed"
proof -
  let ?c = "sample_serving (stopped_registry GrantState_Preparing)"
  have "roomy 6 ?c" by (rule roomy_less [where n = 255]) (use sample_roomy in \<open>simp_all add: sample_serving_def roomy_def\<close>)
  moreover have "both_acknowledged (stopped_grant GrantState_Preparing)" "\<not> usable_state (stopped_grant GrantState_Preparing)"
    "cd_now ?c = 500"
    by (simp_all add: stopped_grant_def sample_grant_def both_acknowledged_def usable_state_def sample_serving_def sample_coordinator_def)
  ultimately show ?thesis
    using grant_commit_completes [of ?c "uid 30" "stopped_grant GrantState_Preparing"] stopped_can_commit stopped_grant_found
    by fastforce
qed

section \<open>Defects\<close>

text \<open>
  C34. Deleting a cluster, a link, a path or a policy rule leaves the coordinator unable to restart:
  the log could be opened before and the deletion is acknowledged, and afterwards the store refuses
  to open, because the record the deletion logs carries none of the names the decoder insists on.
\<close>

theorem deleted_record_bricks_store:
  assumes "store_holds options hdr es (cd_store c) (cd_disk c)" "store_paths_ok options" "length es < 4194304"
    and "store_open os directory stream options (cd_disk c) = Some (Inr (ds0, rec0), disk0)"
    and "run \<in> {delete_cluster key, delete_link key, delete_path key, delete_policy key}"
    and "run c = Some (s, c')" "is_ok s" "name_ok id_tag key" "note_ok key" "i64_ok (cd_now c)"
  shows "\<exists>err. store_open os directory stream options (cd_disk c') = Some (Inl err, cd_disk c')"
proof -
  have "\<exists>m \<in> erasures key. \<exists>r. append_mutation m (set_registry r c) = Some (s, c')"
    using assms(5-7)
    by (auto simp: delete_cluster_def delete_link_def delete_path_def delete_policy_def erasures_def and_do_def on_registry_def
        split: prod.splits if_splits option.splits)
  then obtain m r where m: "m \<in> erasures key" "append_mutation m (set_registry r c) = Some (s, c')" by blast
  obtain e where "decode_mutation (encode_mutation m) = Inl e" "\<not> is_ok e"
    using erased_undecodable [OF assms(8,9) m(1)] by blast
  moreover obtain q ds where "store_append (cd_answers c (cd_calls c)) m (cd_now c) (cd_store c) (cd_disk c) = (Inr q, ds, cd_disk c')"
    using m(2) assms(7) store_append_error
    by (auto simp: append_mutation_def set_registry_def Let_def split: prod.splits sum.splits)
  ultimately show ?thesis using undecodable_refused [OF assms(1-4)] assms(10) by blast
qed

theorem deleted_record_bricks_store_witness:
  "\<exists>c' err. delete_path ''p'' (sample_coordinator sample_registry) = Some (status_ok, c')
    \<and> store_open sample_os status_ok (uid 2) sample_options (cd_disk c') = Some (Inl err, cd_disk c')"
proof -
  let ?c = "sample_coordinator sample_registry"
  obtain ds0 rec0 disk0 where before: "store_open sample_os status_ok (uid 2) sample_options (sample_disk [])
      = Some (Inr (ds0, rec0), disk0)"
    using sample_opens by blast
  have "length (encode_mutation (Mutation_PathErase (erased_path ''p''))) \<le> kMaxStoreRecordPayload"
    using length_count [of 0]
    by (simp add: encode_mutation_def encode_path_def erased_path_def kMaxStoreRecordPayload_def wire_lengths length_provenance)
  moreover obtain r where r: "erase_path ''p'' sample_registry = (status_ok, r)"
    by (simp add: erase_path_def sample_registry_def)
  moreover have "roomy (Suc 254) (set_registry r ?c)" using sample_roomy by simp
  ultimately obtain c' where "append_mutation (Mutation_PathErase (erased_path ''p'')) (set_registry r ?c) = Some (status_ok, c')"
    using append_mutation_room by blast
  then have run: "delete_path ''p'' ?c = Some (status_ok, c')"
    using r by (simp add: delete_path_def and_do_def on_registry_def sample_coordinator_def)
  have "note_ok ''p''"
    by (simp add: note_ok_def text_ok_def kMaxText_def kMaxStringField_def ascii_string_valid_utf8 bytes_of_string_def)
      (simp add: ascii_valid_utf8 byte_of_char_def)
  moreover have "store_holds sample_options (make_header (uid 11) 0) [] (cd_store ?c) (cd_disk ?c)" "cd_disk ?c = sample_disk []"
    "i64_ok (cd_now ?c)"
    using sample_holds(1) by (simp_all add: sample_coordinator_def i64_ok_def)
  ultimately have "\<exists>err. store_open sample_os status_ok (uid 2) sample_options (cd_disk c') = Some (Inl err, cd_disk c')"
    using deleted_record_bricks_store [of sample_options "make_header (uid 11) 0" "[]" ?c sample_os status_ok "uid 2" ds0 rec0 disk0
        "delete_path ''p''" "''p''" status_ok c'] sample_paths_ok run before by simp
  then show ?thesis using run by blast
qed

text \<open>
  C33. A fenced grant can be revived: fencing leaves the acknowledgements of a grant in place and a
  commit acknowledgement is accepted in every state of the grant, so a duplicate of the one a cluster
  sent before the fence makes the grant usable again.
\<close>

theorem fenced_grant_revived:
  assumes "on_grant_committed key payload c = Some (s, c')" "is_ok s" "decode_grant_committed payload = Inr m" "gcm_installed m"
    and "session_for c key = Some session" "se_hello_complete session" "se_token session = gcm_session m"
    and "find_grant (cd_registry c) (gcm_grant m) = Some g" "gr_state g = GrantState_Fenced" "both_acknowledged g"
    and "gr_attempt g = gcm_attempt m" "find_contract (cd_registry c) (gr_contract g) = Some x"
    and "contract_side_of x (se_cluster session) = Some side" "party_at (gr_incarnations g) side = se_incarnation session"
    and "party_at (gr_generations g) side = se_generation session"
  shows "\<exists>g'. find_grant (cd_registry c') (gcm_grant m) = Some g' \<and> usable_state g'"
proof -
  have "accept_committed m g side c = Some (s, c')"
    using assms by (simp add: on_grant_committed_def with_session_def require_session_def with_grant_def)
  then show ?thesis using acknowledged_commits assms(2,4,10) by blast
qed

definition sample_duplicate :: grant_committed_message where
  "sample_duplicate = \<lparr>gcm_session = uid 9, gcm_grant = uid 30, gcm_attempt = uid 4, gcm_installed = True, gcm_agent_term = 1,
     gcm_enforcement_digest = zero_digest, gcm_detail = []\<rparr>"

theorem fenced_grant_revived_witness:
  "\<exists>c' g'. on_grant_committed 5 (encode_grant_committed sample_duplicate) (sample_serving (stopped_registry GrantState_Fenced))
      = Some (status_ok, c')
    \<and> find_grant (cd_registry c') (uid 30) = Some g' \<and> usable_state g'"
proof -
  let ?r = "stopped_registry GrantState_Fenced" and ?g = "stopped_grant GrantState_Fenced"
  let ?c = "sample_serving ?r"
  have decoded: "decode_grant_committed (encode_grant_committed sample_duplicate) = Inr sample_duplicate"
    unfolding decode_grant_committed_def
    by (rule grant_committed.whole_message_enc) (simp add: grant_committed_wire_def sample_duplicate_def kMaxGeneration_def)
  have found: "find_contract ?r (uid 20) = Some sample_contract"
    by (simp add: find_contract_def stopped_registry_def sample_registry_def)
  have g: "gr_contract ?g = uid 20" "gr_attempt ?g = uid 4" "gr_incarnations ?g = (uid 1, uid 2)" "gr_generations ?g = (1, 1)"
    "gr_state ?g = GrantState_Fenced" "both_acknowledged ?g" "\<not> usable_state ?g"
    "?g\<lparr>gr_acknowledged := set_party 0 True (gr_acknowledged ?g),
      gr_enforcement_digest := set_party 0 zero_digest (gr_enforcement_digest ?g)\<rparr> = ?g"
    by (simp_all add: stopped_grant_def sample_grant_def both_acknowledged_def usable_state_def set_party_def)
  have same: "set_grant (uid 30) ?g ?c = ?c"
    by (simp add: set_grant_def set_registry_def sample_serving_def sample_coordinator_def stopped_registry_def)
  have "grant_wire ?g" using stopped_can_commit [of GrantState_Fenced] by (simp add: can_commit_def)
  then have fits: "length (encode_mutation (Mutation_GrantPut ?g)) \<le> kMaxStoreRecordPayload" by (rule mutation_fits(2))
  have room: "roomy (Suc (Suc (Suc (Suc (Suc (Suc (Suc 0))))))) ?c"
    by (rule roomy_less [where n = 255]) (use sample_roomy in \<open>simp_all add: sample_serving_def roomy_def\<close>)
  obtain ds disk where one: "append_mutation (Mutation_GrantPut ?g) ?c
      = Some (status_ok, ?c\<lparr>cd_store := ds, cd_disk := disk, cd_calls := Suc (cd_calls ?c)\<rparr>)"
    "roomy (Suc (Suc (Suc (Suc (Suc (Suc 0)))))) (?c\<lparr>cd_store := ds, cd_disk := disk, cd_calls := Suc (cd_calls ?c)\<rparr>)"
    by (rule append_mutation_room [OF room fits])
  let ?c1 = "?c\<lparr>cd_store := ds, cd_disk := disk, cd_calls := Suc (cd_calls ?c)\<rparr>"
  have can: "can_commit ?c1 ?g" using stopped_can_commit [of GrantState_Fenced] by (simp add: can_commit_def cong: option.case_cong)
  have at: "find_grant (cd_registry ?c1) (uid 30) = Some ?g" using stopped_grant_found by simp
  obtain c' g' where two: "finalise_grant (uid 30) (cd_now ?c1) ?c1 = Some (status_ok, c')"
    by (rule finalise_room [OF one(2) can at g(6,7)])
  have "accept_committed sample_duplicate ?g 0 ?c = Some (status_ok, c')"
    using one(1) two g(6,8) same by (simp add: accept_committed_def sample_duplicate_def Let_def and_do_def)
  then have run: "on_grant_committed 5 (encode_grant_committed sample_duplicate) ?c = Some (status_ok, c')"
    using stopped_grant_found found g
    by (simp add: on_grant_committed_def decoded with_session_def require_session_def with_grant_def)
      (simp add: sample_duplicate_def sample_agent_def party_at_def sample_side)
  have "\<exists>g'. find_grant (cd_registry c') (gcm_grant sample_duplicate) = Some g' \<and> usable_state g'"
    by (rule fenced_grant_revived [OF run _ decoded, where session = sample_agent and g = ?g and x = sample_contract and side = 0])
      (use stopped_grant_found found g in \<open>simp_all add: sample_duplicate_def sample_agent_def party_at_def sample_side\<close>)
  then show ?thesis using run by (simp add: sample_duplicate_def)
qed

end
