(* ===== verification/Event_Loop.thy ===== *)
theory Event_Loop
  imports Connection Time "HOL-Library.Product_Lexorder"
begin

text \<open>
  \<open>net/reactor.cpp\<close>, the event loop: the table of connections, the timers and the sweep that reports
  closed connections. A timer's callback is a value of a type of its owner, who runs it. Polling and
  accepting are operating system calls; serving one connection after the poll is in \<open>Connection\<close>.
\<close>

record 'cb event_loop =
  el_connections :: "(u64, connection) omap"
  el_pending_erase :: "u64 list"
  el_timers :: "(timestamp \<times> u64, 'cb) omap"
  el_next_connection :: u64
  el_next_timer :: u64
  el_max_connections :: nat

definition kMaxConnections :: nat where "kMaxConnections = 512"
definition kMaxSendQueueBytes :: nat where "kMaxSendQueueBytes = 8 * 2 ^ 20"
definition kMaxPendingSends :: nat where "kMaxPendingSends = 256"

definition default_connection_config :: connection_config where
  "default_connection_config =
    \<lparr>cc_max_payload = kMaxFramePayload, cc_max_queued_bytes = kMaxSendQueueBytes, cc_max_pending_frames = kMaxPendingSends,
     cc_idle_deadline = 15000 * 1000000, cc_verify_key = [], cc_sign_outbound = False\<rparr>"

definition new_loop :: "'cb event_loop" where
  "new_loop = \<lparr>el_connections = [], el_pending_erase = [], el_timers = [], el_next_connection = 1, el_next_timer = 1,
     el_max_connections = kMaxConnections\<rparr>"

section \<open>Connections\<close>

definition el_find :: "'cb event_loop \<Rightarrow> u64 \<Rightarrow> connection option" where
  "el_find l key = om_find (el_connections l) key"

definition el_set :: "u64 \<Rightarrow> connection \<Rightarrow> 'cb event_loop \<Rightarrow> 'cb event_loop" where
  "el_set key c l = l\<lparr>el_connections := om_put key c (el_connections l)\<rparr>"

text \<open>\<open>valid\<close>: whether the socket is open. A table entry that exists is not replaced.\<close>

definition adopt :: "bool \<Rightarrow> timestamp \<Rightarrow> connection_config \<Rightarrow> 'cb event_loop \<Rightarrow> u64 result \<times> 'cb event_loop" where
  "adopt valid now config l =
    (if \<not> valid then (Inl (invalid ''cannot adopt an invalid socket''), l)
     else if length (el_connections l) \<ge> el_max_connections l
     then (Inl (status_make Outcome_CapacityExceeded ''connection limit reached''), l)
     else
       let key = el_next_connection l;
           connection = (new_connection config)\<lparr>cn_last_activity := now\<rparr>;
           l' = l\<lparr>el_next_connection := key + 1\<rparr>
       in (Inr key, if el_find l key = None then el_set key connection l' else l'))"

section \<open>Timers\<close>

text \<open>Timer identities count up, so the key of a new timer is not in the table.\<close>

definition schedule :: "timestamp \<Rightarrow> 'cb \<Rightarrow> 'cb event_loop \<Rightarrow> u64 \<times> 'cb event_loop" where
  "schedule deadline callback l =
    (let key = el_next_timer l in
     (key, l\<lparr>el_next_timer := key + 1, el_timers := om_put (deadline, key) callback (el_timers l)\<rparr>))"

definition cancel :: "u64 \<Rightarrow> 'cb event_loop \<Rightarrow> 'cb event_loop" where
  "cancel key l = l\<lparr>el_timers := filter (\<lambda>e. snd (fst e) \<noteq> key) (el_timers l)\<rparr>"

text \<open>The loop over the timers: the least time left, or \<open>None\<close> when one is due.\<close>

fun least_delta :: "timestamp \<Rightarrow> int \<Rightarrow> timestamp list \<Rightarrow> int option" where
  "least_delta now best [] = Some best"
| "least_delta now best (deadline # deadlines) =
    (let delta = deadline - now in
     if delta \<le> 0 then None
     else least_delta now (if best < 0 \<or> delta < best then delta else best) deadlines)"

definition compute_timeout :: "timestamp \<Rightarrow> 'cb event_loop \<Rightarrow> int" where
  "compute_timeout now l =
    (case least_delta now (if el_connections l = [] then - 1 else 1000000000) (map (fst \<circ> fst) (el_timers l)) of
       None \<Rightarrow> 0
     | Some best \<Rightarrow>
         if best < 0 then - 1
         else
           let millis = best div 1000000;
               millis = (if millis = 0 then 1 else millis)
           in if millis > 1000 then 1000 else millis)"

text \<open>The due callbacks in the order they are run, and the loop without them.\<close>

definition due :: "timestamp \<Rightarrow> (timestamp \<times> u64) \<times> 'cb \<Rightarrow> bool" where
  "due now entry \<longleftrightarrow> fst (fst entry) \<le> now"

definition fire_due_timers :: "timestamp \<Rightarrow> 'cb event_loop \<Rightarrow> 'cb list \<times> 'cb event_loop" where
  "fire_due_timers now l =
    (map snd (takeWhile (due now) (el_timers l)), l\<lparr>el_timers := dropWhile (due now) (el_timers l)\<rparr>)"

section \<open>The sweep\<close>

text \<open>The owner's close handler changes the loop and the owner's state.\<close>

type_synonym ('cb, 's) close_handler = "u64 \<Rightarrow> status \<Rightarrow> 'cb event_loop \<times> 's \<Rightarrow> 'cb event_loop \<times> 's"

fun report_closed :: "('cb, 's) close_handler \<Rightarrow> u64 list \<Rightarrow> 'cb event_loop \<times> 's \<Rightarrow> 'cb event_loop \<times> 's" where
  "report_closed on_close [] ls = ls"
| "report_closed on_close (key # keys) (l, s) =
    (case el_find l key of
       None \<Rightarrow> report_closed on_close keys (l, s)
     | Some c \<Rightarrow>
         if \<not> cn_closed c \<or> cn_close_reported c then report_closed on_close keys (l, s)
         else report_closed on_close keys
                (on_close key (cn_close_reason c) (el_set key (c\<lparr>cn_close_reported := True\<rparr>) l, s)))"

definition report_and_erase :: "('cb, 's) close_handler \<Rightarrow> 'cb event_loop \<times> 's \<Rightarrow> 'cb event_loop \<times> 's" where
  "report_and_erase on_close ls =
    (let keys = el_pending_erase (fst ls); (l, s) = report_closed on_close keys ls
     in (l\<lparr>el_connections := fold om_erase keys (el_connections l), el_pending_erase := []\<rparr>, s))"

definition idle_expired :: "timestamp \<Rightarrow> connection \<Rightarrow> bool" where
  "idle_expired now c \<longleftrightarrow>
    cc_idle_deadline (cn_config c) > 0 \<and> cn_last_activity c \<noteq> 0
    \<and> timestamp_since now (cn_last_activity c) > cc_idle_deadline (cn_config c)"

definition expire_idle :: "timestamp \<Rightarrow> 'cb event_loop \<Rightarrow> 'cb event_loop" where
  "expire_idle now l =
    (let close = (\<lambda>c. if \<not> cn_closed c \<and> idle_expired now c
           then close_connection (status_make Outcome_Unreachable ''connection idle deadline expired'') c else c);
         gone = map fst (filter (\<lambda>e. cn_closed (snd e) \<or> idle_expired now (snd e)) (el_connections l))
     in l\<lparr>el_connections := om_map (\<lambda>_. close) (el_connections l), el_pending_erase := el_pending_erase l @ gone\<rparr>)"

definition sweep_connections :: "timestamp \<Rightarrow> ('cb, 's) close_handler \<Rightarrow> 'cb event_loop \<times> 's \<Rightarrow> 'cb event_loop \<times> 's" where
  "sweep_connections now on_close ls =
    (case report_and_erase on_close ls of
       (l, s) \<Rightarrow> report_and_erase on_close (expire_idle now l, s))"

section \<open>Laws\<close>

text \<open>The timers are sorted by deadline, so the scan that stops at the first one not due misses none.\<close>

lemma due_prefix:
  assumes "om_ok ts"
  shows "takeWhile (due now) ts = filter (due now) ts" "dropWhile (due now) ts = filter (\<lambda>e. \<not> due now e) ts"
proof -
  have "takeWhile (due now) ts = filter (due now) ts \<and> dropWhile (due now) ts = filter (\<lambda>e. \<not> due now e) ts"
    using assms
  proof (induction ts)
    case (Cons e ts)
    obtain d k cb where e: "e = ((d, k), cb)" by (metis prod.collapse)
    show ?case
    proof (cases "due now e")
      case True
      then show ?thesis using Cons by (simp add: e om_ok_Cons)
    next
      case False
      have late: "\<not> due now x" if "x \<in> set ts" for x
        using Cons.prems False that by (force simp: e om_ok_Cons due_def less_prod_def)
      then have "filter (due now) ts = []" "filter (\<lambda>e. \<not> due now e) ts = ts"
        by (simp_all add: filter_empty_conv)
      then show ?thesis using False by simp
    qed
  qed simp
  then show "takeWhile (due now) ts = filter (due now) ts" "dropWhile (due now) ts = filter (\<lambda>e. \<not> due now e) ts"
    by simp_all
qed

lemma fire_due_timers_exact:
  assumes "om_ok (el_timers l)"
  shows "fire_due_timers now l = (map snd (filter (due now) (el_timers l)), l\<lparr>el_timers := filter (\<lambda>e. \<not> due now e) (el_timers l)\<rparr>)"
  using due_prefix [OF assms] by (simp add: fire_due_timers_def)

lemma least_delta_None: "least_delta now best ds = None \<longleftrightarrow> (\<exists>d \<in> set ds. d \<le> now)"
  by (induction ds arbitrary: best) (auto simp: Let_def)

lemma least_delta_Some:
  "least_delta now best ds = Some b \<Longrightarrow> (if best < 0 \<and> ds = [] then b = best else 0 \<le> b)
    \<and> (0 \<le> best \<longrightarrow> b \<le> best) \<and> (\<forall>d \<in> set ds. b \<le> d - now)"
proof (induction ds arbitrary: best)
  case (Cons d ds)
  then have "\<not> d - now \<le> 0" "least_delta now (if best < 0 \<or> d - now < best then d - now else best) ds = Some b"
    by (auto simp: Let_def split: if_splits)
  with Cons.IH [OF this(2)] show ?case by (auto split: if_splits)
qed simp

lemma compute_timeout_cases:
  "compute_timeout now l = 0 \<longleftrightarrow> (\<exists>e \<in> set (el_timers l). due now e)"
  "compute_timeout now l = - 1 \<longleftrightarrow> el_connections l = [] \<and> el_timers l = []"
  "- 1 \<le> compute_timeout now l \<and> compute_timeout now l \<le> 1000"
proof -
  define best :: int where "best = (if el_connections l = [] then - 1 else 1000000000)"
  let ?ds = "map (fst \<circ> fst) (el_timers l)"
  have none: "least_delta now best ?ds = None \<longleftrightarrow> (\<exists>e \<in> set (el_timers l). due now e)"
    by (simp add: least_delta_None due_def)
  have t: "compute_timeout now l = (case least_delta now best ?ds of None \<Rightarrow> 0 | Some b \<Rightarrow> if b < 0 then - 1
      else let millis = b div 1000000; millis = (if millis = 0 then 1 else millis) in if millis > 1000 then 1000 else millis)"
    by (simp add: compute_timeout_def best_def)
  have pos: "0 \<le> b div 1000000" if "\<not> b < 0" for b :: int using that by simp
  have "(compute_timeout now l = 0 \<longleftrightarrow> (\<exists>e \<in> set (el_timers l). due now e))
    \<and> (compute_timeout now l = - 1 \<longleftrightarrow> el_connections l = [] \<and> el_timers l = [])
    \<and> - 1 \<le> compute_timeout now l \<and> compute_timeout now l \<le> 1000"
  proof (cases "least_delta now best ?ds")
    case None
    then show ?thesis using none t by (cases "el_timers l") auto
  next
    case (Some b)
    have "b < 0 \<longleftrightarrow> el_connections l = [] \<and> el_timers l = []"
      using least_delta_Some [OF Some] by (auto simp: best_def split: if_splits)
    then show ?thesis using none Some t pos [of b] by (auto simp: Let_def)
  qed
  then show "compute_timeout now l = 0 \<longleftrightarrow> (\<exists>e \<in> set (el_timers l). due now e)"
    "compute_timeout now l = - 1 \<longleftrightarrow> el_connections l = [] \<and> el_timers l = []"
    "- 1 \<le> compute_timeout now l \<and> compute_timeout now l \<le> 1000" by simp_all
qed

text \<open>The loop does not sleep past a deadline by more than its granularity of a millisecond.\<close>

lemma compute_timeout_deadline:
  assumes "e \<in> set (el_timers l)" "\<not> due now e" "0 < compute_timeout now l"
  shows "(compute_timeout now l - 1) * 1000000 < fst (fst e) - now"
proof -
  let ?best = "if el_connections l = [] then - 1 else 1000000000 :: int" and ?ds = "map (fst \<circ> fst) (el_timers l)"
  obtain b where b: "least_delta now ?best ?ds = Some b"
    using assms(3) by (cases "least_delta now ?best ?ds") (auto simp: compute_timeout_def)
  have "b \<le> fst (fst e) - now" using least_delta_Some [OF b] assms(1) by auto
  moreover have "0 < fst (fst e) - now" using assms(2) by (simp add: due_def)
  moreover have "b div 1000000 * 1000000 \<le> b" using div_mult_mod_eq [of b 1000000] pos_mod_sign [of 1000000 b] by linarith
  ultimately show ?thesis using assms(3) b by (auto simp: compute_timeout_def Let_def split: if_splits)
qed

end
