(* ===== verification/Agent.thy ===== *)
theory Agent
  imports Event_Loop Action Durable_Store Fencing Messages
begin

text \<open>
  \<open>runtime/agent.cpp\<close>: the state of the cluster-side agent, its durable records, its start, its
  connection to the coordinator and the enforcement of grants. As for the coordinator the clock, the
  answers of the operating system and the identities drawn are part of the state; the answer to
  opening a socket or binding a listener is an argument.
\<close>

section \<open>State\<close>

record agent_config =
  af_cluster :: cluster_id
  af_domain :: domain_id
  af_generation :: u64
  af_policy_generation :: u64
  af_state :: cluster_state
  af_endpoints :: "endpoint_record list"
  af_state_directory :: string
  af_channel_key :: string
  af_durable :: bool
  af_handshake_deadline :: duration
  af_reconnect_backoff :: duration
  af_reconnect_backoff_max :: duration
  af_compact_bytes :: u64
  af_compact_records :: u64
  af_require_coordinator :: bool

record control_role =
  ro_observer :: bool
  ro_hello_complete :: bool
  ro_token :: session_token
  ro_cluster :: cluster_id
  ro_connection_id :: u64

text \<open>The callbacks the agent gives to its loop.\<close>

datatype agent_timer = Timer_Tick | Timer_Connect | Timer_Reconnect | Timer_Handshake

record agent =
  ag_config :: agent_config
  ag_store :: durable_store
  ag_recovery :: store_recovery
  ag_registry :: registry
  ag_term :: u64
  ag_incarnation :: incarnation_id
  ag_generation :: u64
  ag_policy_generation :: u64
  ag_cluster_state :: cluster_state
  ag_started_at :: timestamp
  ag_loop :: "agent_timer event_loop"
  ag_roles :: "(u64, control_role) omap"
  ag_coordinator_connection :: u64
  ag_coordinator_session :: session_token
  ag_coordinator_term :: u64
  ag_coordinator_incarnation :: incarnation_id
  ag_coordinator_connected :: bool
  ag_handshake_complete :: bool
  ag_backoff :: duration
  ag_enforced :: u64
  ag_fences :: u64
  ag_refusals :: u64
  ag_revalidations :: u64
  ag_rejected_frames :: u64
  ag_errors_received :: u64
  ag_recovered_grants_fenced :: u64
  ag_started :: bool
  ag_consent_withdrawn :: bool
  ag_connect_scheduled :: bool
  ag_disk :: disk
  ag_now :: timestamp
  ag_monotonic :: int
  ag_answers :: "nat \<Rightarrow> os_answers"
  ag_calls :: nat
  ag_identities :: "nat \<Rightarrow> uuid"
  ag_drawn :: nat

type_synonym agent_action = "agent step"

definition agent_draw :: "agent \<Rightarrow> uuid \<times> agent" where
  "agent_draw a = (ag_identities a (ag_drawn a), a\<lparr>ag_drawn := Suc (ag_drawn a)\<rparr>)"

definition agent_schedule :: "duration \<Rightarrow> agent_timer \<Rightarrow> agent \<Rightarrow> agent" where
  "agent_schedule delay timer a =
    a\<lparr>ag_loop := snd (schedule (timestamp_plus (ag_now a) delay) timer (ag_loop a))\<rparr>"

definition count_refused :: "agent \<Rightarrow> agent" where
  "count_refused a = a\<lparr>ag_refusals := ag_refusals a + 1\<rparr>"

definition count_rejected :: "agent \<Rightarrow> agent" where
  "count_rejected a = a\<lparr>ag_rejected_frames := ag_rejected_frames a + 1\<rparr>"

section \<open>Durable records\<close>

definition agent_append :: "mutation \<Rightarrow> agent_action" where
  "agent_append m a =
    (case store_append (ag_answers a (ag_calls a)) m (ag_now a) (ag_store a) (ag_disk a) of
       (appended, ds, disk) \<Rightarrow>
         Some (case appended of Inl e \<Rightarrow> e | Inr _ \<Rightarrow> status_ok,
           a\<lparr>ag_store := ds, ag_disk := disk, ag_calls := Suc (ag_calls a)\<rparr>))"

definition agent_audit :: "string \<Rightarrow> string \<Rightarrow> outcome \<Rightarrow> string \<Rightarrow> agent_action" where
  "agent_audit what subject out detail a =
    (if length (rg_audit (ag_registry a)) \<ge> kMaxAuditRecords then Some (status_ok, a)
     else case append_audit (ag_now a) (af_cluster (ag_config a)) what subject out detail (ag_registry a) of
       None \<Rightarrow> None
     | Some (recorded, r') \<Rightarrow>
         if \<not> is_ok recorded then Some (recorded, a\<lparr>ag_registry := r'\<rparr>)
         else agent_append (Mutation_AuditAppend (last (rg_audit r'))) (a\<lparr>ag_registry := r'\<rparr>))"

definition local_cluster :: "agent \<Rightarrow> cluster_record option" where
  "local_cluster a = find_cluster (ag_registry a) (af_cluster (ag_config a))"

text \<open>A grant changed in place and logged.\<close>

definition keep_grant :: "grant_id \<Rightarrow> grant_record \<Rightarrow> agent_action" where
  "keep_grant key g a =
    agent_append (Mutation_GrantPut g)
      (a\<lparr>ag_registry := (ag_registry a)\<lparr>rg_grants := om_put key g (rg_grants (ag_registry a))\<rparr>\<rparr>)"

text \<open>\<open>for (auto& entry : registry_.grants())\<close> with a body that may return early.\<close>

fun for_grants :: "(grant_id \<Rightarrow> grant_record \<Rightarrow> agent_action) \<Rightarrow> (grant_id \<times> grant_record) list \<Rightarrow> agent_action" where
  "for_grants body [] = return status_ok"
| "for_grants body ((key, g) # rest) = and_do (body key g) (for_grants body rest)"

definition each_grant :: "(grant_id \<Rightarrow> grant_record \<Rightarrow> agent_action) \<Rightarrow> agent_action" where
  "each_grant body a = for_grants body (rg_grants (ag_registry a)) a"

section \<open>Start\<close>

definition agent_options :: "agent_config \<Rightarrow> store_options" where
  "agent_options config =
    \<lparr>so_directory = af_state_directory config, so_snapshot_name = ''agent.snapshot'', so_wal_name = ''agent.wal'',
     so_compact_bytes = af_compact_bytes config, so_compact_records = af_compact_records config,
     so_durable = af_durable config\<rparr>"

definition agent_load_state :: "status \<Rightarrow> agent_action" where
  "agent_load_state directory a =
    (let (stream, a1) = agent_draw a in
     case store_open (ag_answers a (ag_calls a)) directory stream (agent_options (ag_config a)) (ag_disk a) of
       None \<Rightarrow> None
     | Some (Inl e, disk) \<Rightarrow> Some (e, a1\<lparr>ag_disk := disk, ag_calls := Suc (ag_calls a)\<rparr>)
     | Some (Inr (ds, rec), disk) \<Rightarrow>
         Some (status_ok,
           a1\<lparr>ag_disk := disk, ag_calls := Suc (ag_calls a), ag_store := ds,
              ag_registry := re_registry rec, ag_recovery := rec\<lparr>re_registry := empty_registry\<rparr>\<rparr>))"

definition live_on_disk :: "grant_record \<Rightarrow> bool" where
  "live_on_disk g \<longleftrightarrow>
    gr_state g = GrantState_Active \<or> gr_state g = GrantState_Committed \<or> gr_state g = GrantState_Prepared
    \<or> gr_state g = GrantState_Preparing \<or> gr_state g = GrantState_Indeterminate"

definition fence_recovered_grant :: "grant_id \<Rightarrow> grant_record \<Rightarrow> agent_action" where
  "fence_recovered_grant key g a =
    (if live_on_disk g
     then keep_grant key
            (g\<lparr>gr_state := GrantState_Fenced,
               gr_note := ''recovered enforcement is historical until the coordinator revalidates it''\<rparr>)
            (a\<lparr>ag_recovered_grants_fenced := ag_recovered_grants_fenced a + 1\<rparr>)
     else Some (status_ok, a))"

definition recovered_incident :: agent_action where
  "recovered_incident a =
    (case append_incident (ag_answers a (ag_calls a))
            (''recovered from store: '' @ decimal (unat (ag_recovered_grants_fenced a))
             @ '' enforcement records fenced pending revalidation'') (ag_started_at a) (ag_store a) (ag_disk a) of
       (appended, ds, disk) \<Rightarrow>
         Some (case appended of Inl e \<Rightarrow> e | Inr _ \<Rightarrow> status_ok,
           a\<lparr>ag_store := ds, ag_disk := disk, ag_calls := Suc (ag_calls a)\<rparr>))"

definition agent_append_meta :: agent_action where
  "agent_append_meta a =
    (let meta = \<lparr>sm_term = ag_term a, sm_incarnation = ag_incarnation a,
           sm_revision = sm_revision (re_meta (ag_recovery a)), sm_sequence = wa_last_sequence (ds_wal (ag_store a)),
           sm_written_at = ag_started_at a, sm_truncations = sm_truncations (re_meta (ag_recovery a)),
           sm_state_digest = registry_digest (ag_registry a)\<rparr>
     in case append_meta (ag_answers a (ag_calls a)) meta (ag_started_at a) (ag_store a) (ag_disk a) of
          (appended, ds, disk) \<Rightarrow>
            Some (case appended of Inl e \<Rightarrow> e | Inr _ \<Rightarrow> status_ok,
              a\<lparr>ag_store := ds, ag_disk := disk, ag_calls := Suc (ag_calls a)\<rparr>))"

text \<open>What the record of the previous incarnation decides.\<close>

definition resume_identity :: agent_action where
  "resume_identity a =
    (case local_cluster a of
       None \<Rightarrow> Some (status_ok, a)
     | Some previous \<Rightarrow>
         let config = ag_config a in
         if af_generation config < cl_generation previous
         then Some (status_make Outcome_Stale
                ''the configured generation is older than the generation recorded on disk'', a)
         else Some (status_ok,
           a\<lparr>ag_generation :=
               (if af_generation config = cl_generation previous
                then (case counter_next (cl_generation previous) of Inr bumped \<Rightarrow> bumped | Inl _ \<Rightarrow> cl_generation previous)
                else ag_generation a),
             ag_cluster_state :=
               (if cl_state previous = ClusterState_Unknown then af_state config else cl_state previous),
             ag_policy_generation :=
               (if af_policy_generation config < cl_policy_generation previous then cl_policy_generation previous
                else ag_policy_generation a),
             ag_consent_withdrawn := cl_consent_withdrawn previous\<rparr>))"

definition agent_begin_incarnation :: agent_action where
  "agent_begin_incarnation a =
    (let (key, a1) = agent_draw a;
         a2 = a1\<lparr>ag_term := after_sequence (sm_term (re_meta (ag_recovery a))), ag_incarnation := key,
                 ag_generation := af_generation (ag_config a),
                 ag_policy_generation := af_policy_generation (ag_config a),
                 ag_cluster_state := af_state (ag_config a), ag_started_at := ag_now a\<rparr>
     in and_do resume_identity
          (and_do agent_append_meta
            (and_do (if re_recovered_from_store (ag_recovery a)
                     then and_do (each_grant fence_recovered_grant) recovered_incident
                     else return status_ok)
              (agent_audit ''begin-incarnation'' (uuid_to_string key) Outcome_Ok
                 (''term='' @ decimal (unat (ag_term a2)))))) a2)"

definition blank_cluster :: cluster_record where
  "blank_cluster =
    \<lparr>cl_id = [], cl_domain = [], cl_incarnation = nil_uuid, cl_generation = 0, cl_policy_generation = 0,
     cl_state = ClusterState_Unknown, cl_consent_withdrawn = False, cl_last_seen = 0, cl_endpoints = [],
     cl_content_digest = zero_digest, cl_generation_conflict = False, cl_conflicting_generation = None,
     cl_revision = 0, cl_provenance = default_provenance, cl_incarnation_changes = 0\<rparr>"

definition content_digest_of :: "cluster_record \<Rightarrow> digest" where
  "content_digest_of c =
    sha256_hash (encode_cluster (c\<lparr>cl_revision := 0, cl_provenance := default_provenance, cl_incarnation_changes := 0,
      cl_generation_conflict := False, cl_conflicting_generation := None, cl_content_digest := zero_digest,
      cl_last_seen := 0, cl_consent_withdrawn := False\<rparr>))"

definition own_record :: "agent \<Rightarrow> cluster_record" where
  "own_record a =
    (let config = ag_config a;
         base = (case local_cluster a of None \<Rightarrow> blank_cluster | Some existing \<Rightarrow> existing);
         endpoints = sort_key ep_id (map (\<lambda>e. e\<lparr>ep_cluster := af_cluster config,
           ep_policy_generation := ag_policy_generation a\<rparr>) (af_endpoints config));
         described = base\<lparr>cl_id := af_cluster config, cl_domain := af_domain config, cl_incarnation := ag_incarnation a,
           cl_generation := ag_generation a, cl_policy_generation := ag_policy_generation a,
           cl_state := ag_cluster_state a, cl_consent_withdrawn := ag_consent_withdrawn a, cl_last_seen := ag_now a,
           cl_endpoints := endpoints,
           cl_provenance := (cl_provenance base)\<lparr>pv_source := EvidenceSource_AdminConfigured,
             pv_verification := VerificationState_Verified, pv_observed_at := ag_now a\<rparr>\<rparr>
     in described\<lparr>cl_content_digest := content_digest_of described,
          cl_revision := snd (counter_increment (cl_revision described))\<rparr>)"

definition persist_own_cluster :: agent_action where
  "persist_own_cluster a =
    (case put_cluster (own_record a) (ag_registry a) of
       (stored, r') \<Rightarrow>
         if \<not> is_ok stored then Some (stored, a\<lparr>ag_registry := r'\<rparr>)
         else case find_cluster r' (af_cluster (ag_config a)) of
           None \<Rightarrow> None
         | Some kept \<Rightarrow> agent_append (Mutation_ClusterPut kept) (a\<lparr>ag_registry := r'\<rparr>))"

text \<open>\<open>directory\<close> and \<open>listening\<close>: the answers to creating the state directory and to binding the control port.\<close>

definition agent_start :: "status \<Rightarrow> status \<Rightarrow> agent_action" where
  "agent_start directory listening a =
    (if ag_started a then Some (status_make Outcome_AlreadyExists ''the agent is already started'', a)
     else and_do (agent_load_state directory)
            (and_do agent_begin_incarnation
              (and_do persist_own_cluster
                (and_do (return listening)
                  (change (\<lambda>a. (agent_schedule 0 Timer_Connect (agent_schedule 0 Timer_Tick a))\<lparr>ag_started := True\<rparr>))))) a)"

section \<open>The coordinator connection\<close>

definition agent_key :: "agent \<Rightarrow> bytes" where
  "agent_key a = bytes_of_string (af_channel_key (ag_config a))"

text \<open>Queueing on one connection of the loop, signed as the connection is set up.\<close>

definition agent_queue :: "u64 \<Rightarrow> connection \<Rightarrow> message_type \<Rightarrow> bytes \<Rightarrow> agent_action" where
  "agent_queue key connection type payload a =
    (case queue_frame type payload (cc_sign_outbound (cn_config connection)) connection of
       (s, connection') \<Rightarrow> Some (s, a\<lparr>ag_loop := el_set key connection' (ag_loop a)\<rparr>))"

definition send_message :: "message_type \<Rightarrow> bytes \<Rightarrow> agent_action" where
  "send_message type payload a =
    (if ag_coordinator_connection a = 0
     then Some (status_make Outcome_Unreachable ''the coordinator connection is not established'', a)
     else case el_find (ag_loop a) (ag_coordinator_connection a) of
       None \<Rightarrow> Some (status_make Outcome_Unreachable ''the coordinator connection is gone'', a)
     | Some connection \<Rightarrow> agent_queue (ag_coordinator_connection a) connection type payload a)"

definition send_error_to :: "u64 \<Rightarrow> uuid \<Rightarrow> outcome \<Rightarrow> string \<Rightarrow> agent_action" where
  "send_error_to key request out detail a =
    (case el_find (ag_loop a) key of
       None \<Rightarrow> Some (status_ok, a)
     | Some connection \<Rightarrow>
         agent_queue key connection MessageType_Error
           (encode_error \<lparr>err_request = request, err_outcome = out, err_detail = detail\<rparr>) a)"

definition own_hello :: "agent \<Rightarrow> hello_message" where
  "own_hello a =
    \<lparr>hel_role = PeerRole_Agent, hel_cluster = af_cluster (ag_config a), hel_domain = af_domain (ag_config a),
     hel_incarnation = ag_incarnation a, hel_generation = ag_generation a,
     hel_policy_generation = ag_policy_generation a, hel_agent_term = ag_term a,
     hel_protocol_min = kProtocolVersionMin, hel_protocol_max = kProtocolVersionMax,
     hel_capabilities = kCapabilityAll,
     hel_content_digest = (case local_cluster a of None \<Rightarrow> zero_digest | Some c \<Rightarrow> cl_content_digest c),
     hel_started_at = ag_started_at a\<rparr>"

text \<open>\<open>opened\<close>: the answer to connecting the socket.\<close>

definition connect_to_coordinator :: "status \<Rightarrow> agent_action" where
  "connect_to_coordinator opened a =
    (if ag_coordinator_connected a then Some (status_ok, a)
     else if ag_coordinator_connection a \<noteq> 0 \<and> el_find (ag_loop a) (ag_coordinator_connection a) \<noteq> None
     then Some (status_ok, a)
     else if \<not> is_ok opened
     then
       let next = min (ag_backoff a * 2) (af_reconnect_backoff_max (ag_config a));
           a' = a\<lparr>ag_backoff := next\<rparr>
       in Some (opened, agent_schedule next Timer_Connect a')
     else
       let config = default_connection_config\<lparr>cc_idle_deadline := 30000 * 1000000, cc_verify_key := agent_key a\<rparr>
       in case adopt True (ag_now a) config (ag_loop a) of
            (Inl e, l) \<Rightarrow> Some (e, a\<lparr>ag_loop := l\<rparr>)
          | (Inr key, l) \<Rightarrow>
              and_do (\<lambda>a'. send_message MessageType_Hello (encode_hello (own_hello a')) a')
                (change (\<lambda>a'. agent_schedule (af_handshake_deadline (ag_config a')) Timer_Handshake a'))
                (a\<lparr>ag_loop := l, ag_coordinator_connection := key, ag_handshake_complete := False,
                   ag_coordinator_connected := False\<rparr>))"

text \<open>The timer set by the handshake.\<close>

definition handshake_expired :: "agent \<Rightarrow> agent" where
  "handshake_expired a =
    (if ag_handshake_complete a \<or> ag_coordinator_connection a = 0 then a
     else case el_find (ag_loop a) (ag_coordinator_connection a) of
       None \<Rightarrow> a
     | Some connection \<Rightarrow>
         a\<lparr>ag_loop := el_set (ag_coordinator_connection a)
             (close_connection (status_make Outcome_Unreachable ''the handshake deadline expired'') connection)
             (ag_loop a)\<rparr>)"

definition agent_report_cluster :: agent_action where
  "agent_report_cluster a =
    (case local_cluster a of
       None \<Rightarrow> Some (status_make Outcome_Internal ''the agent has no local cluster record'', a)
     | Some cluster \<Rightarrow>
         send_message MessageType_ReportCluster
           (encode_report_cluster \<lparr>rpc_session = ag_coordinator_session a, rpc_cluster = cluster\<rparr>) a)"

section \<open>Enforcement\<close>

text \<open>The loops over the two parties keep the last match.\<close>

definition own_side :: "agent \<Rightarrow> party_ref \<times> party_ref \<Rightarrow> nat option" where
  "own_side a parties =
    (if pt_cluster (snd parties) = af_cluster (ag_config a) then Some 1
     else if pt_cluster (fst parties) = af_cluster (ag_config a) then Some 0
     else None)"

definition grant_enforceable :: "agent \<Rightarrow> grant_record \<Rightarrow> bool" where
  "grant_enforceable a g \<longleftrightarrow>
    (if gr_state g \<noteq> GrantState_Active then False
     else if \<not> af_require_coordinator (ag_config a) then True
     else case find_contract (ag_registry a) (gr_contract g) of
       None \<Rightarrow> False
     | Some contract \<Rightarrow>
         (case own_side a (co_parties contract) of
            None \<Rightarrow> False
          | Some side \<Rightarrow>
              party_at (gr_incarnations g) side = ag_incarnation a \<and> party_at (gr_generations g) side = ag_generation a
              \<and> party_at (gr_policies g) side = ag_policy_generation a
              \<and> gr_coordinator_term g = ag_coordinator_term a
              \<and> \<not> ag_now a > gr_valid_until g
              \<and> \<not> (ag_consent_withdrawn a \<or> ag_cluster_state a \<noteq> ClusterState_Active)))"

definition local_enforcement_outcome :: "agent \<Rightarrow> grant_id \<Rightarrow> outcome" where
  "local_enforcement_outcome a key =
    (case find_grant (ag_registry a) key of
       None \<Rightarrow> Outcome_NotFound
     | Some g \<Rightarrow>
         if gr_state g = GrantState_Fenced then Outcome_Fenced
         else if gr_state g = GrantState_Aborted then Outcome_Cancelled
         else if gr_state g = GrantState_Expired then Outcome_Expired
         else if \<not> grant_enforceable a g
         then (if ag_now a > gr_valid_until g then Outcome_Expired
               else if gr_coordinator_term g \<noteq> ag_coordinator_term a then Outcome_Fenced
               else Outcome_Stale)
         else Outcome_Ok)"

definition enforced_grant_count :: "agent \<Rightarrow> nat" where
  "enforced_grant_count a = length (filter (grant_enforceable a) (map snd (rg_grants (ag_registry a))))"

definition count_fence :: "agent \<Rightarrow> agent" where
  "count_fence a = a\<lparr>ag_fences := ag_fences a + 1\<rparr>"

definition out_of_term :: "u64 \<Rightarrow> grant_record \<Rightarrow> bool" where
  "out_of_term term g \<longleftrightarrow>
    (gr_state g = GrantState_Active \<or> gr_state g = GrantState_Committed \<or> gr_state g = GrantState_Indeterminate
     \<or> gr_state g = GrantState_Prepared) \<and> gr_coordinator_term g \<noteq> term"

definition fence_out_of_term :: "u64 \<Rightarrow> grant_id \<Rightarrow> grant_record \<Rightarrow> agent_action" where
  "fence_out_of_term term key g a =
    (if out_of_term term g
     then keep_grant key
            (g\<lparr>gr_state := GrantState_Fenced,
               gr_note := ''the coordinator established a new authority term; this grant was not revalidated''\<rparr>)
            (count_fence a)
     else Some (status_ok, a))"

definition fence_not_revalidated :: "u64 \<Rightarrow> agent_action" where
  "fence_not_revalidated term a =
    (let fenced = length (filter (out_of_term term) (map snd (rg_grants (ag_registry a)))) in
     and_do (each_grant (fence_out_of_term term))
       (if fenced > 0
        then agent_audit ''fence-term-change'' (uuid_to_string (ag_incarnation a)) Outcome_Fenced
               (decimal fenced @ '' grants fenced under the previous authority term'')
        else return status_ok) a)"

definition reevaluate_grant :: "string \<Rightarrow> grant_id \<Rightarrow> grant_record \<Rightarrow> agent_action" where
  "reevaluate_grant reason key g a =
    (if gr_state g \<noteq> GrantState_Active \<and> gr_state g \<noteq> GrantState_Committed then Some (status_ok, a)
     else if ag_now a > gr_valid_until g
     then keep_grant key (g\<lparr>gr_state := GrantState_Expired, gr_note := ''the lease elapsed''\<rparr>) (count_fence a)
     else if gr_state g = GrantState_Committed \<and> grant_enforceable a g
     then and_do (keep_grant key (g\<lparr>gr_state := GrantState_Active\<rparr>))
            (change (\<lambda>a. a\<lparr>ag_enforced := ag_enforced a + 1\<rparr>)) a
     else if gr_state g = GrantState_Active \<and> \<not> grant_enforceable a g
     then keep_grant key (g\<lparr>gr_state := GrantState_Fenced, gr_note := reason\<rparr>) (count_fence a)
     else Some (status_ok, a))"

definition reevaluate_enforcement :: "string \<Rightarrow> agent_action" where
  "reevaluate_enforcement reason = each_grant (reevaluate_grant reason)"

end
