(* ===== verification/Agent_Handlers.thy ===== *)
theory Agent_Handlers
  imports Agent
begin

text \<open>
  \<open>runtime/agent.cpp\<close>: the messages of the coordinator, the local control channel, the operations behind
  it, and the timer.
\<close>

section \<open>Handshake\<close>

definition close_coordinator :: "status \<Rightarrow> agent \<Rightarrow> agent" where
  "close_coordinator reason a =
    (case el_find (ag_loop a) (ag_coordinator_connection a) of
       None \<Rightarrow> a
     | Some connection \<Rightarrow>
         a\<lparr>ag_loop := el_set (ag_coordinator_connection a) (close_connection reason connection) (ag_loop a)\<rparr>)"

definition sign_coordinator :: "agent \<Rightarrow> agent" where
  "sign_coordinator a =
    (case el_find (ag_loop a) (ag_coordinator_connection a) of
       None \<Rightarrow> a
     | Some connection \<Rightarrow>
         a\<lparr>ag_loop := el_set (ag_coordinator_connection a) (enable_outbound_signing connection) (ag_loop a)\<rparr>)"

definition on_hello_ack :: "bytes \<Rightarrow> agent_action" where
  "on_hello_ack payload a =
    (case decode_hello_ack payload of
       Inl e \<Rightarrow> Some (e, count_rejected a)
     | Inr ack \<Rightarrow>
         if hak_outcome ack \<noteq> Outcome_Ok
         then Some (status_ok, close_coordinator (status_make (hak_outcome ack) (hak_detail ack)) (count_refused a))
         else and_do (fence_not_revalidated (hak_coordinator_term ack)) agent_report_cluster
                ((sign_coordinator a)
                 \<lparr>ag_coordinator_session := hak_session ack, ag_coordinator_term := hak_coordinator_term ack,
                  ag_coordinator_incarnation := hak_coordinator ack, ag_handshake_complete := True,
                  ag_coordinator_connected := True, ag_backoff := af_reconnect_backoff (ag_config a)\<rparr>))"

definition on_report_ack :: "bytes \<Rightarrow> agent_action" where
  "on_report_ack payload a =
    (case decode_report_ack payload of
       Inl e \<Rightarrow> Some (e, count_rejected a)
     | Inr ack \<Rightarrow> Some (status_ok, if rpa_outcome ack \<noteq> Outcome_Ok then count_refused a else a))"

section \<open>Contracts\<close>

definition consent_answer :: "agent \<Rightarrow> propose_contract_message \<Rightarrow> contract_consent_message" where
  "consent_answer a proposal =
    \<lparr>con_session = ag_coordinator_session a, con_contract = prc_contract proposal,
     con_terms_digest = terms_digest (prc_terms proposal), con_decision = ConsentDecision_Refused, con_endpoint = [],
     con_incarnation = ag_incarnation a, con_generation = ag_generation a,
     con_policy_generation = ag_policy_generation a, con_agent_term = ag_term a, con_reason = []\<rparr>"

definition send_consent :: "contract_consent_message \<Rightarrow> agent_action" where
  "send_consent answer = send_message MessageType_ContractConsent (encode_contract_consent answer)"

definition refuse_consent :: "contract_consent_message \<Rightarrow> string \<Rightarrow> agent_action" where
  "refuse_consent answer reason a = send_consent (answer\<lparr>con_reason := reason\<rparr>) (count_refused a)"

definition own_endpoint :: "agent \<Rightarrow> endpoint_id \<Rightarrow> endpoint_record option" where
  "own_endpoint a key =
    (case local_cluster a of None \<Rightarrow> None | Some cluster \<Rightarrow> find (\<lambda>e. ep_id e = key) (cl_endpoints cluster))"

definition own_consent :: "agent \<Rightarrow> endpoint_id \<Rightarrow> digest \<Rightarrow> string \<Rightarrow> consent_record" where
  "own_consent a endpoint digest reason =
    \<lparr>cs_cluster = af_cluster (ag_config a), cs_endpoint = endpoint, cs_incarnation = ag_incarnation a,
     cs_generation = ag_generation a, cs_policy_generation = ag_policy_generation a, cs_agent_term = ag_term a,
     cs_terms_digest = digest, cs_decision = ConsentDecision_Accepted, cs_decided_at = ag_now a,
     cs_session = ag_coordinator_session a,
     cs_authenticity = (if af_channel_key (ag_config a) = [] then TransportAuthenticity_None
                        else TransportAuthenticity_SharedKeyMac),
     cs_reason = reason\<rparr>"

definition blank_contract :: contract_record where
  "blank_contract =
    \<lparr>co_id = nil_uuid, co_parties = (\<lparr>pt_cluster = [], pt_endpoint = [], pt_domain = []\<rparr>,
       \<lparr>pt_cluster = [], pt_endpoint = [], pt_domain = []\<rparr>),
     co_capacity = 0, co_lease_duration = 0, co_terms_digest = zero_digest, co_state = ContractState_Proposed,
     co_consents = (None, None), co_created_at = 0, co_updated_at = 0, co_revision = 0,
     co_provenance = default_provenance\<rparr>"

definition accepted_contract :: "agent \<Rightarrow> propose_contract_message \<Rightarrow> nat \<Rightarrow> contract_record" where
  "accepted_contract a proposal side =
    (let terms = prc_terms proposal; digest = terms_digest terms;
         base = (case find_contract (ag_registry a) (prc_contract proposal) of None \<Rightarrow> blank_contract | Some x \<Rightarrow> x);
         consent = own_consent a (pt_endpoint (party_at (tm_parties terms) side)) digest
           ''terms accepted by the cluster agent''
     in base\<lparr>co_id := prc_contract proposal, co_parties := tm_parties terms, co_capacity := tm_capacity terms,
          co_lease_duration := tm_lease_duration terms, co_terms_digest := digest,
          co_created_at := (if co_created_at base = 0 then ag_now a else co_created_at base),
          co_updated_at := ag_now a, co_state := ContractState_AwaitingConsent,
          co_provenance := (co_provenance base)\<lparr>pv_source := EvidenceSource_AgentReported,
            pv_verification := VerificationState_Verified, pv_observed_at := ag_now a\<rparr>,
          co_consents := set_party side (Some consent) (co_consents base),
          co_revision := snd (counter_increment (co_revision base))\<rparr>)"

definition accept_contract :: "propose_contract_message \<Rightarrow> nat \<Rightarrow> contract_consent_message \<Rightarrow> agent_action" where
  "accept_contract proposal side answer a =
    (let contract = accepted_contract a proposal side in
     case put_contract contract (ag_registry a) of
       (stored, r') \<Rightarrow>
         if \<not> is_ok stored then Some (stored, a\<lparr>ag_registry := r'\<rparr>)
         else and_do (agent_append (Mutation_ContractPut contract))
                (and_do (agent_audit ''consent'' (uuid_to_string (co_id contract)) Outcome_Ok
                           ''terms accepted and bound to this incarnation and generation'')
                  (send_consent (answer\<lparr>con_decision := ConsentDecision_Accepted,
                     con_reason := ''terms accepted by the cluster agent''\<rparr>)))
                (a\<lparr>ag_registry := r'\<rparr>))"

text \<open>The guards of the consent, in the order of the code: the reason to refuse, if there is one.\<close>

definition refusal_of_terms :: "agent \<Rightarrow> contract_terms \<Rightarrow> nat \<Rightarrow> string option" where
  "refusal_of_terms a terms side =
    (if party_at (tm_incarnations terms) side \<noteq> ag_incarnation a
     then Some ''the terms are bound to a superseded incarnation''
     else if party_at (tm_generations terms) side \<noteq> ag_generation a
     then Some ''the terms are bound to a superseded generation''
     else if party_at (tm_policies terms) side \<noteq> ag_policy_generation a
     then Some ''the terms are bound to a superseded policy generation''
     else if ag_consent_withdrawn a then Some ''this cluster has withdrawn consent''
     else if ag_cluster_state a \<noteq> ClusterState_Active then Some ''this cluster is not in the active state''
     else case own_endpoint a (pt_endpoint (party_at (tm_parties terms) side)) of
       None \<Rightarrow> Some ''the terms name an endpoint scope this cluster does not own''
     | Some endpoint \<Rightarrow>
         if \<not> ep_inter_cluster_allowed endpoint \<or> ep_state endpoint \<noteq> EndpointState_Active
         then Some ''the endpoint scope does not accept inter-cluster connectivity''
         else if \<not> is_ok (terms_validate terms) then Some (st_message (terms_validate terms))
         else None)"

definition on_propose_contract :: "bytes \<Rightarrow> agent_action" where
  "on_propose_contract payload a =
    (case decode_propose_contract payload of
       Inl e \<Rightarrow> Some (e, count_rejected a)
     | Inr proposal \<Rightarrow>
         let terms = prc_terms proposal; answer = consent_answer a proposal in
         case own_side a (tm_parties terms) of
           None \<Rightarrow> refuse_consent answer ''the terms do not name this cluster'' a
         | Some side \<Rightarrow>
             let answer' = answer\<lparr>con_endpoint := pt_endpoint (party_at (tm_parties terms) side)\<rparr> in
             (case refusal_of_terms a terms side of
                Some reason \<Rightarrow> refuse_consent answer' reason a
              | None \<Rightarrow> accept_contract proposal side answer' a))"

section \<open>Grants\<close>

definition enforcement_digest_of :: "grant_record \<Rightarrow> digest" where
  "enforcement_digest_of g = sha256_hash (encode_grant g)"

definition prepare_answer :: "agent \<Rightarrow> grant_record \<Rightarrow> grant_prepared_message" where
  "prepare_answer a g =
    \<lparr>gpr_session = ag_coordinator_session a, gpr_grant = gr_id g, gpr_attempt = gr_attempt g, gpr_accepted = False,
     gpr_agent_term = ag_term a, gpr_enforcement_digest = zero_digest, gpr_detail = []\<rparr>"

definition send_prepared :: "grant_prepared_message \<Rightarrow> agent_action" where
  "send_prepared answer = send_message MessageType_GrantPrepared (encode_grant_prepared answer)"

text \<open>The guards of the preparation: the reason to refuse, if there is one.\<close>

definition refusal_of_grant :: "agent \<Rightarrow> grant_record \<Rightarrow> string option" where
  "refusal_of_grant a g =
    (case find_contract (ag_registry a) (gr_contract g) of
       None \<Rightarrow> Some ''no local record of the contract this grant names''
     | Some contract \<Rightarrow>
         (case own_side a (co_parties contract) of
            None \<Rightarrow> Some ''the grant does not involve this cluster''
          | Some side \<Rightarrow>
              (case party_at (co_consents contract) side of
                 None \<Rightarrow> Some ''this cluster has not consented to the contract''
               | Some consent \<Rightarrow>
                   if cs_decision consent \<noteq> ConsentDecision_Accepted
                   then Some ''this cluster has not consented to the contract''
                   else if cs_terms_digest consent \<noteq> gr_terms_digest g \<or> co_terms_digest contract \<noteq> gr_terms_digest g
                   then Some ''the grant does not cover the terms this cluster consented to''
                   else if party_at (gr_incarnations g) side \<noteq> ag_incarnation a
                     \<or> party_at (gr_generations g) side \<noteq> ag_generation a
                     \<or> party_at (gr_policies g) side \<noteq> ag_policy_generation a
                   then Some ''the grant is bound to a superseded incarnation, generation, or policy generation''
                   else if gr_coordinator_term g \<noteq> ag_coordinator_term a
                   then Some ''the grant was issued under a superseded coordinator term''
                   else case own_endpoint a (pt_endpoint (party_at (co_parties contract) side)) of
                     None \<Rightarrow> Some ''the grant names an endpoint scope this cluster does not own''
                   | Some endpoint \<Rightarrow>
                       if gr_capacity g > ep_capacity endpoint
                       then Some ''the granted capacity exceeds the declared endpoint capacity''
                       else None)))"

definition prepared_grant :: "timestamp \<Rightarrow> grant_record \<Rightarrow> grant_record" where
  "prepared_grant now g =
    g\<lparr>gr_state := GrantState_Prepared, gr_note := ''prepared by the cluster agent; waiting for the coordinator commit'',
      gr_provenance := (gr_provenance g)\<lparr>pv_source := EvidenceSource_AgentReported,
        pv_verification := VerificationState_Verified, pv_observed_at := now\<rparr>\<rparr>"

definition accept_prepare :: "grant_record \<Rightarrow> grant_prepared_message \<Rightarrow> agent_action" where
  "accept_prepare g answer a =
    (let g' = prepared_grant (ag_now a) g in
     case put_grant g' (ag_registry a) of
       (stored, r') \<Rightarrow>
         if \<not> is_ok stored then send_prepared (answer\<lparr>gpr_detail := st_message stored\<rparr>) (a\<lparr>ag_registry := r'\<rparr>)
         else and_do (agent_append (Mutation_GrantPut g'))
                (send_prepared (answer\<lparr>gpr_accepted := True, gpr_detail := ''prepared'',
                   gpr_enforcement_digest := enforcement_digest_of g'\<rparr>))
                (a\<lparr>ag_registry := r'\<rparr>))"

definition on_prepare_grant :: "bytes \<Rightarrow> agent_action" where
  "on_prepare_grant payload a =
    (case decode_prepare_grant payload of
       Inl e \<Rightarrow> Some (e, count_rejected a)
     | Inr m \<Rightarrow>
         let g = prg_grant m; answer = prepare_answer a g in
         case refusal_of_grant a g of
           Some reason \<Rightarrow> send_prepared (answer\<lparr>gpr_detail := reason\<rparr>) (count_refused a)
         | None \<Rightarrow> accept_prepare g answer a)"

definition commit_answer :: "agent \<Rightarrow> commit_grant_message \<Rightarrow> grant_committed_message" where
  "commit_answer a m =
    \<lparr>gcm_session = ag_coordinator_session a, gcm_grant = cmg_grant m, gcm_attempt = cmg_attempt m,
     gcm_installed = False, gcm_agent_term = ag_term a, gcm_enforcement_digest = zero_digest, gcm_detail = []\<rparr>"

definition send_committed :: "grant_committed_message \<Rightarrow> agent_action" where
  "send_committed answer = send_message MessageType_GrantCommitted (encode_grant_committed answer)"

definition on_commit_grant :: "bytes \<Rightarrow> agent_action" where
  "on_commit_grant payload a =
    (case decode_commit_grant payload of
       Inl e \<Rightarrow> Some (e, count_rejected a)
     | Inr m \<Rightarrow>
         let answer = commit_answer a m in
         case find_grant (ag_registry a) (cmg_grant m) of
           None \<Rightarrow> send_committed (answer\<lparr>gcm_detail := ''the grant is not recorded locally''\<rparr>) (count_refused a)
         | Some g \<Rightarrow>
             if gr_attempt g \<noteq> cmg_attempt m
             then send_committed (answer\<lparr>gcm_detail := ''the commit names a different attempt than the prepared one''\<rparr>) a
             else if gr_state g \<noteq> GrantState_Prepared \<and> gr_state g \<noteq> GrantState_Active
             then send_committed (answer\<lparr>gcm_detail := ''the grant is in state '' @ grant_state_to_string (gr_state g)
                    @ '' and cannot be committed''\<rparr>) a
             else
               let g' = g\<lparr>gr_state := GrantState_Active, gr_note := ''enforced by the cluster agent'',
                     gr_provenance := (gr_provenance g)\<lparr>pv_observed_at := ag_now a\<rparr>\<rparr>
               in and_do (keep_grant (cmg_grant m) g')
                    (and_do (agent_audit ''commit-grant'' (uuid_to_string (gr_id g')) Outcome_Ok
                               ''the exact attempt the coordinator prepared is now enforced'')
                      (send_committed (answer\<lparr>gcm_installed := True, gcm_detail := ''enforced'',
                         gcm_enforcement_digest := enforcement_digest_of g'\<rparr>))) a)"

definition on_abort_grant :: "bytes \<Rightarrow> agent_action" where
  "on_abort_grant payload a =
    (case decode_abort_grant payload of
       Inl e \<Rightarrow> Some (e, count_rejected a)
     | Inr m \<Rightarrow>
         and_do (case find_grant (ag_registry a) (abg_grant m) of
                   None \<Rightarrow> return status_ok
                 | Some g \<Rightarrow> keep_grant (abg_grant m) (g\<lparr>gr_state := GrantState_Aborted, gr_note := abg_reason m\<rparr>))
           (send_message MessageType_GrantAborted
              (encode_grant_aborted \<lparr>gab_session = ag_coordinator_session a, gab_grant = abg_grant m,
                 gab_attempt = abg_attempt m, gab_reason = abg_reason m\<rparr>)) a)"

text \<open>The loop of \<open>on_fence\<close>: the results so far are threaded beside the state.\<close>

fun fence_listed :: "string \<Rightarrow> grant_id list \<Rightarrow> fence_result list \<Rightarrow> agent \<Rightarrow> (status \<times> fence_result list \<times> agent) option" where
  "fence_listed reason [] results a = Some (status_ok, results, a)"
| "fence_listed reason (key # keys) results a =
    (case find_grant (ag_registry a) key of
       None \<Rightarrow> fence_listed reason keys (results @ [\<lparr>fre_grant = key, fre_outcome = Outcome_NotFound\<rparr>]) a
     | Some g \<Rightarrow>
         if gr_state g = GrantState_Fenced
         then fence_listed reason keys (results @ [\<lparr>fre_grant = key, fre_outcome = Outcome_Fenced\<rparr>]) a
         else case keep_grant key (g\<lparr>gr_state := GrantState_Fenced, gr_note := reason\<rparr>) a of
           None \<Rightarrow> None
         | Some (persisted, a') \<Rightarrow>
             if \<not> is_ok persisted then Some (persisted, results, a')
             else fence_listed reason keys (results @ [\<lparr>fre_grant = key, fre_outcome = Outcome_Ok\<rparr>]) (count_fence a'))"

definition on_fence :: "bytes \<Rightarrow> agent_action" where
  "on_fence payload a =
    (case decode_fence payload of
       Inl e \<Rightarrow> Some (e, count_rejected a)
     | Inr m \<Rightarrow>
         (case fence_listed (fen_reason m) (fen_grants m) [] a of
            None \<Rightarrow> None
          | Some (fenced, results, a') \<Rightarrow>
              if \<not> is_ok fenced then Some (fenced, a')
              else and_do (agent_audit ''fence-grants'' (uuid_to_string (ag_incarnation a')) Outcome_Fenced
                             (decimal (length results) @ '' grants fenced on coordinator request''))
                     (send_message MessageType_FenceAck
                        (encode_fence_ack \<lparr>fak_session = ag_coordinator_session a', fak_results = results\<rparr>)) a'))"

section \<open>Status\<close>

definition status_entry :: "grant_record \<Rightarrow> grant_status_entry" where
  "status_entry g =
    \<lparr>gse_grant = gr_id g, gse_attempt = gr_attempt g, gse_state = gr_state g, gse_agent_term = gr_coordinator_term g,
     gse_enforcement_digest = fst (gr_enforcement_digest g)\<rparr>"

definition on_status_request :: "bytes \<Rightarrow> agent_action" where
  "on_status_request payload a =
    (case decode_status_request payload of
       Inl e \<Rightarrow> Some (e, count_rejected a)
     | Inr m \<Rightarrow>
         send_message MessageType_StatusReport
           (encode_status_report
             \<lparr>srp_session = ag_coordinator_session a, srp_request = srq_request m, srp_cluster = af_cluster (ag_config a),
              srp_incarnation = ag_incarnation a, srp_generation = ag_generation a,
              srp_policy_generation = ag_policy_generation a, srp_agent_term = ag_term a,
              srp_grants = take kMaxGrants (map (status_entry \<circ> snd) (rg_grants (ag_registry a)))\<rparr>) a)"

definition agent_on_ping :: "bytes \<Rightarrow> agent_action" where
  "agent_on_ping payload a =
    (let sequence = (case decode_ping payload of Inl _ \<Rightarrow> 0 | Inr m \<Rightarrow> pin_sequence m) in
     case el_find (ag_loop a) (ag_coordinator_connection a) of
       None \<Rightarrow> Some (status_ok, a)
     | Some connection \<Rightarrow>
         agent_queue (ag_coordinator_connection a) connection MessageType_Pong
           (encode_pong \<lparr>pon_sequence = sequence\<rparr>) a)"

end
