(* ===== verification/Agent_Control.thy ===== *)
theory Agent_Control
  imports Agent_Handlers
begin

text \<open>
  \<open>runtime/agent.cpp\<close>: the local control channel, the operations it offers, the dispatch of a frame,
  the loss of a connection and the timers.
\<close>

section \<open>Queries\<close>

definition agent_status :: "agent \<Rightarrow> coordinator_status" where
  "agent_status a =
    (let r = ag_registry a; n = counts r in
     \<lparr>cst_domain = af_domain (ag_config a), cst_incarnation = ag_incarnation a, cst_term = ag_term a,
      cst_started_at = ag_started_at a,
      cst_uptime_nanos = word_of_int (if ag_monotonic a < 0 then 0 else ag_monotonic a),
      cst_view_digest = registry_digest r, cst_revision = 0,
      cst_recovered_from_store = re_recovered_from_store (ag_recovery a),
      cst_recovered_records = wr_records (re_wal (ag_recovery a)),
      cst_truncations_recovered = sm_truncations (re_meta (ag_recovery a)),
      cst_clusters = word_of_nat (rc_clusters n), cst_endpoints = word_of_nat (rc_endpoints n),
      cst_links = 0, cst_paths = 0,
      cst_contracts = word_of_nat (rc_contracts n), cst_grants = word_of_nat (rc_grants n),
      cst_reservations = word_of_nat (rc_reservations n), cst_policies = word_of_nat (rc_policies n),
      cst_audit = word_of_nat (rc_audit n),
      cst_connected_agents = (if ag_coordinator_connected a then 1 else 0),
      cst_commits = ag_enforced a, cst_fences = ag_fences a, cst_refusals = ag_refusals a,
      cst_revalidations = ag_revalidations a, cst_rejected_replays = ag_recovered_grants_fenced a,
      cst_rejected_frames = ag_rejected_frames a,
      cst_store_path = snapshot_path (ds_options (ag_store a))\<rparr>)"

definition handle_query_local :: "query_message \<Rightarrow> agent \<Rightarrow> status \<times> query_result_message" where
  "handle_query_local q a =
    (let r = ag_registry a; limit = (if qry_limit q = 0 then 256 else unat (qry_limit q));
         result = blank_result (qry_request q) (qry_kind q) Outcome_Ok []
     in case qry_kind q of
          QueryKind_Status \<Rightarrow> (status_ok, result\<lparr>qrs_status := Some (agent_status a)\<rparr>)
        | QueryKind_ListClusters \<Rightarrow>
            (status_ok, result\<lparr>qrs_clusters := (case local_cluster a of None \<Rightarrow> [] | Some c \<Rightarrow> [c])\<rparr>)
        | QueryKind_ListGrants \<Rightarrow> (status_ok, result\<lparr>qrs_grants := take limit (map snd (rg_grants r))\<rparr>)
        | QueryKind_ShowGrant \<Rightarrow>
            (case find_grant r (qry_grant q) of
               None \<Rightarrow> (not_found ''grant is not recorded locally'', result)
             | Some g \<Rightarrow>
                 (status_ok, result\<lparr>qrs_grants := [g], qrs_detail := ''local enforcement outcome: ''
                    @ outcome_to_string (local_enforcement_outcome a (qry_grant q))\<rparr>))
        | QueryKind_ListContracts \<Rightarrow> (status_ok, result\<lparr>qrs_contracts := take limit (map snd (rg_contracts r))\<rparr>)
        | QueryKind_ShowContract \<Rightarrow>
            (case find_contract r (qry_contract q) of
               None \<Rightarrow> (not_found ''contract is not recorded locally'', result)
             | Some x \<Rightarrow> (status_ok, result\<lparr>qrs_contracts := [x]\<rparr>))
        | QueryKind_ListAudit \<Rightarrow>
            (status_ok, result\<lparr>qrs_audit := drop (length (rg_audit r) - min (length (rg_audit r)) limit) (rg_audit r)\<rparr>)
        | _ \<Rightarrow> (status_make Outcome_Unsupported
                 ''the local control channel answers status, cluster, grant, contract, and audit queries'', result))"

definition agent_on_query :: "u64 \<Rightarrow> bytes \<Rightarrow> agent_action" where
  "agent_on_query key payload a =
    (case decode_query payload of
       Inl e \<Rightarrow> send_error_to key nil_uuid (st_outcome e) (st_message e) (count_rejected a)
     | Inr q \<Rightarrow>
         (case handle_query_local q a of
            (handled, result) \<Rightarrow>
              let result' = (if is_ok handled then result
                    else result\<lparr>qrs_outcome := st_outcome handled, qrs_detail := st_message handled\<rparr>)
              in case el_find (ag_loop a) key of
                   None \<Rightarrow> Some (status_ok, a)
                 | Some connection \<Rightarrow>
                     agent_queue key connection MessageType_QueryResult (encode_query_result result') a))"

section \<open>Local operations\<close>

definition report_if_connected :: agent_action where
  "report_if_connected a = (if ag_coordinator_connected a then agent_report_cluster a else Some (status_ok, a))"

definition agent_set_cluster_state :: "cluster_state \<Rightarrow> agent_action" where
  "agent_set_cluster_state state a =
    and_do persist_own_cluster
      (and_do (reevaluate_enforcement ''the cluster left the active state'') report_if_connected)
      (a\<lparr>ag_cluster_state := state\<rparr>)"

definition fence_superseded :: "grant_id \<Rightarrow> grant_record \<Rightarrow> agent_action" where
  "fence_superseded key g a =
    (if gr_state g = GrantState_Active \<or> gr_state g = GrantState_Committed
     then keep_grant key (g\<lparr>gr_state := GrantState_Fenced,
            gr_note := ''the cluster generation advanced; the grant must be reissued''\<rparr>) a
     else Some (status_ok, a))"

definition bump_generation :: "string \<Rightarrow> agent_action" where
  "bump_generation reason a =
    (case counter_next (ag_generation a) of
       Inl e \<Rightarrow> Some (e, a)
     | Inr next \<Rightarrow>
         and_do (fence_not_revalidated (ag_term a))
           (and_do (each_grant fence_superseded)
             (and_do persist_own_cluster
               (and_do (agent_audit ''bump-generation'' (af_cluster (ag_config a)) Outcome_Ok reason)
                 report_if_connected)))
           (a\<lparr>ag_generation := next\<rparr>))"

definition set_policy_generation :: "u64 \<Rightarrow> agent_action" where
  "set_policy_generation generation a =
    (if generation < ag_policy_generation a
     then Some (status_make Outcome_Stale ''the policy generation must not move backwards'', a)
     else and_do persist_own_cluster
            (and_do (reevaluate_enforcement ''the policy generation changed'') report_if_connected)
            (a\<lparr>ag_policy_generation := generation\<rparr>))"

definition send_withdrawal :: "string \<Rightarrow> agent_action" where
  "send_withdrawal reason a =
    (if ag_coordinator_connected a
     then send_message MessageType_Withdraw
            (encode_withdraw \<lparr>wdr_session = ag_coordinator_session a, wdr_cluster = af_cluster (ag_config a),
               wdr_incarnation = ag_incarnation a, wdr_generation = ag_generation a, wdr_reason = reason\<rparr>) a
     else Some (status_ok, a))"

definition withdraw_consent :: "string \<Rightarrow> agent_action" where
  "withdraw_consent reason a =
    and_do persist_own_cluster
      (and_do (reevaluate_enforcement ''consent withdrawn by the cluster'')
        (and_do (send_withdrawal reason)
          (agent_audit ''withdraw-consent'' (af_cluster (ag_config a)) Outcome_Fenced reason)))
      (a\<lparr>ag_consent_withdrawn := True\<rparr>)"

definition fence_local_grant :: "grant_id \<Rightarrow> string \<Rightarrow> agent_action" where
  "fence_local_grant key reason a =
    (case find_grant (ag_registry a) key of
       None \<Rightarrow> Some (not_found ''the grant is not recorded locally'', a)
     | Some g \<Rightarrow>
         and_do (keep_grant key (g\<lparr>gr_state := GrantState_Fenced, gr_note := reason\<rparr>))
           (and_do (change count_fence)
             (agent_audit ''fence-local-grant'' (uuid_to_string key) Outcome_Fenced reason)) a)"

definition own_endpoint_record :: "agent \<Rightarrow> endpoint_record \<Rightarrow> endpoint_record" where
  "own_endpoint_record a e =
    e\<lparr>ep_cluster := af_cluster (ag_config a), ep_policy_generation := ag_policy_generation a,
      ep_state := (if ep_state e = EndpointState_Unknown then EndpointState_Active else ep_state e),
      ep_provenance := (ep_provenance e)\<lparr>pv_source := EvidenceSource_AdminConfigured,
        pv_verification := VerificationState_Verified, pv_observed_at := ag_now a\<rparr>\<rparr>"

text \<open>The first endpoint of that identity is replaced; \<open>None\<close> when there is none.\<close>

fun replace_endpoint :: "endpoint_record \<Rightarrow> endpoint_record list \<Rightarrow> endpoint_record list option" where
  "replace_endpoint e [] = None"
| "replace_endpoint e (x # xs) =
    (if ep_id x = ep_id e then Some (e # xs) else map_option ((#) x) (replace_endpoint e xs))"

definition set_endpoints :: "endpoint_record list \<Rightarrow> agent \<Rightarrow> agent" where
  "set_endpoints es a = a\<lparr>ag_config := (ag_config a)\<lparr>af_endpoints := es\<rparr>\<rparr>"

definition upsert_endpoint :: "endpoint_record \<Rightarrow> agent_action" where
  "upsert_endpoint given a =
    (let e = own_endpoint_record a given; declared = af_endpoints (ag_config a) in
     case replace_endpoint e declared of
       Some es \<Rightarrow> and_do persist_own_cluster report_if_connected (set_endpoints es a)
     | None \<Rightarrow>
         if length declared \<ge> kMaxEndpointsPerCluster
         then Some (status_make Outcome_CapacityExceeded ''the cluster declares too many endpoint scopes'', a)
         else and_do persist_own_cluster report_if_connected (set_endpoints (declared @ [e]) a))"

fun upsert_endpoints :: "endpoint_record list \<Rightarrow> agent_action" where
  "upsert_endpoints [] = return status_ok"
| "upsert_endpoints (e # es) = and_do (upsert_endpoint e) (upsert_endpoints es)"

section \<open>Administration\<close>

definition operator_reason :: "admin_message \<Rightarrow> string" where
  "operator_reason request = (if adm_reason request = [] then ''operator request'' else adm_reason request)"

text \<open>The detail of the result beside the status; it is only set where the action is not supported.\<close>

definition update_from_admin :: "admin_message \<Rightarrow> agent \<Rightarrow> ((status \<times> string) \<times> agent) option" where
  "update_from_admin request a =
    (let plain = map_option (\<lambda>(s, a'). ((s, []), a'));
         refused = (\<lambda>detail. Some ((status_make Outcome_Unsupported detail, detail), a))
     in case adm_action request of
          AdminAction_SetClusterState \<Rightarrow> plain (agent_set_cluster_state (adm_cluster_state request) a)
        | AdminAction_WithdrawConsent \<Rightarrow> plain (withdraw_consent (operator_reason request) a)
        | AdminAction_RestoreConsent \<Rightarrow> plain (persist_own_cluster (a\<lparr>ag_consent_withdrawn := False\<rparr>))
        | AdminAction_FenceGrant \<Rightarrow> plain (fence_local_grant (adm_grant request) (operator_reason request) a)
        | AdminAction_UpsertCluster \<Rightarrow>
            (case adm_cluster request of
               None \<Rightarrow> plain (Some (invalid ''upsert-cluster requires a cluster record'', a))
             | Some cluster \<Rightarrow> plain (upsert_endpoints (cl_endpoints cluster) a))
        | AdminAction_ReloadStore \<Rightarrow>
            refused ''the store is opened during startup; restart the agent to reload it''
        | other \<Rightarrow>
            refused (''the local control channel does not accept action '' @ [char_of (39 :: nat)]
              @ admin_action_to_string other @ [char_of (39 :: nat)]))"

definition agent_on_admin :: "u64 \<Rightarrow> bytes \<Rightarrow> agent_action" where
  "agent_on_admin key payload a =
    (case decode_admin payload of
       Inl e \<Rightarrow> send_error_to key nil_uuid (st_outcome e) (st_message e) (count_rejected a)
     | Inr request \<Rightarrow>
         (case update_from_admin request a of
            None \<Rightarrow> None
          | Some ((handled, detail), a') \<Rightarrow>
              let result = \<lparr>ads_request = adm_request request,
                    ads_outcome = (if is_ok handled then Outcome_Ok else st_outcome handled),
                    ads_detail = (if \<not> is_ok handled \<and> detail = [] then st_message handled else detail),
                    ads_view_digest = registry_digest (ag_registry a'), ads_revision = 0,
                    ads_contract = nil_uuid, ads_grant = nil_uuid\<rparr>
              in case el_find (ag_loop a') key of
                   None \<Rightarrow> Some (status_ok, a')
                 | Some connection \<Rightarrow>
                     agent_queue key connection MessageType_AdminResult (encode_admin_result result) a'))"

section \<open>The control channel\<close>

definition control_ack :: "agent \<Rightarrow> hello_ack_message" where
  "control_ack a =
    \<lparr>hak_session = nil_uuid, hak_coordinator = ag_incarnation a, hak_coordinator_term = ag_term a,
     hak_outcome = Outcome_Internal, hak_negotiated_version = 0, hak_view_digest = registry_digest (ag_registry a),
     hak_revalidate = [], hak_detail = []\<rparr>"

definition on_control_hello :: "u64 \<Rightarrow> bytes \<Rightarrow> agent_action" where
  "on_control_hello key payload a =
    (case decode_hello payload of
       Inl e \<Rightarrow> send_error_to key nil_uuid (st_outcome e) (st_message e) (count_rejected a)
     | Inr hello \<Rightarrow>
         let ack = control_ack a in
         if hel_role hello \<noteq> PeerRole_Observer
         then
           let refusal = ack\<lparr>hak_outcome := Outcome_Unauthorized,
                 hak_detail := ''the local control channel accepts observer sessions only''\<rparr>;
               a' = count_refused a
           in (case el_find (ag_loop a) key of
                 None \<Rightarrow> Some (status_ok, a')
               | Some connection \<Rightarrow>
                   map_option (\<lambda>(_, a''). (status_ok, a''))
                     (agent_queue key connection MessageType_HelloAck (encode_hello_ack refusal) a'))
         else
           let (token, a1) = agent_draw a;
               a2 = a1\<lparr>ag_roles := om_put key \<lparr>ro_observer = True, ro_hello_complete = True, ro_token = token,
                 ro_cluster = [], ro_connection_id = key\<rparr> (ag_roles a1)\<rparr>;
               welcome = ack\<lparr>hak_session := token, hak_outcome := Outcome_Ok,
                 hak_negotiated_version := kProtocolVersionMax, hak_detail := ''local control session established''\<rparr>
           in (case el_find (ag_loop a2) key of
                 None \<Rightarrow> Some (status_ok, a2)
               | Some connection \<Rightarrow>
                   agent_queue key connection MessageType_HelloAck (encode_hello_ack welcome) a2))"

text \<open>A connection accepted on the control port.\<close>

definition control_accepted :: agent_action where
  "control_accepted a =
    (case adopt True (ag_now a) (default_connection_config\<lparr>cc_idle_deadline := 60 * 1000000000\<rparr>) (ag_loop a) of
       (Inl e, l) \<Rightarrow> Some (e, a\<lparr>ag_loop := l\<rparr>)
     | (Inr key, l) \<Rightarrow>
         Some (status_ok, a\<lparr>ag_loop := l, ag_roles := om_put key \<lparr>ro_observer = True, ro_hello_complete = False,
           ro_token = nil_uuid, ro_cluster = [], ro_connection_id = key\<rparr> (ag_roles a)\<rparr>))"

section \<open>Frames, lost connections and timers\<close>

definition agent_handle_message :: "u64 \<Rightarrow> frame \<Rightarrow> agent_action" where
  "agent_handle_message key frame a =
    (let payload = fr_payload frame; type = fh_type (fr_header frame);
         from_coordinator = (key = ag_coordinator_connection a)
     in if from_coordinator
        then (case type of
            MessageType_HelloAck \<Rightarrow> on_hello_ack payload a
          | MessageType_ReportAck \<Rightarrow> on_report_ack payload a
          | MessageType_ProposeContract \<Rightarrow> on_propose_contract payload a
          | MessageType_PrepareGrant \<Rightarrow> on_prepare_grant payload a
          | MessageType_CommitGrant \<Rightarrow> on_commit_grant payload a
          | MessageType_AbortGrant \<Rightarrow> on_abort_grant payload a
          | MessageType_Fence \<Rightarrow> on_fence payload a
          | MessageType_StatusRequest \<Rightarrow> on_status_request payload a
          | MessageType_Ping \<Rightarrow> agent_on_ping payload a
          | MessageType_Pong \<Rightarrow> Some (status_ok, a)
          | MessageType_Error \<Rightarrow> Some (status_ok, a\<lparr>ag_errors_received := ag_errors_received a + 1\<rparr>)
          | _ \<Rightarrow> send_error_to key nil_uuid Outcome_Unsupported
                  (''message type is not accepted from the coordinator: '' @ message_type_to_string type) (count_rejected a))
        else (case type of
            MessageType_Hello \<Rightarrow> on_control_hello key payload a
          | MessageType_Query \<Rightarrow> agent_on_query key payload a
          | MessageType_Admin \<Rightarrow> agent_on_admin key payload a
          | MessageType_Ping \<Rightarrow> agent_on_ping payload a
          | MessageType_Pong \<Rightarrow> Some (status_ok, a)
          | MessageType_Error \<Rightarrow> Some (status_ok, a\<lparr>ag_errors_received := ag_errors_received a + 1\<rparr>)
          | _ \<Rightarrow> send_error_to key nil_uuid Outcome_Unauthorized
                  ''the local control channel accepts only queries and local administration'' (count_rejected a)))"

definition agent_handle_disconnect :: "u64 \<Rightarrow> agent \<Rightarrow> agent" where
  "agent_handle_disconnect key a =
    (let a1 = a\<lparr>ag_roles := om_erase key (ag_roles a)\<rparr> in
     if key \<noteq> ag_coordinator_connection a then a1
     else (agent_schedule (ag_backoff a) Timer_Reconnect
            (a1\<lparr>ag_coordinator_connected := False, ag_handshake_complete := False, ag_coordinator_connection := 0\<rparr>))
          \<lparr>ag_connect_scheduled := True\<rparr>)"

text \<open>The close handler the agent gives with its connections to the loop.\<close>

definition agent_closed :: "(agent_timer, agent) close_handler" where
  "agent_closed key reason la =
    (let a = agent_handle_disconnect key ((snd la)\<lparr>ag_loop := fst la\<rparr>) in (ag_loop a, a))"

definition agent_compact :: "agent \<Rightarrow> agent" where
  "agent_compact a =
    (if \<not> store_needs_compaction (ag_store a) then a
     else
       let meta = (re_meta (ag_recovery a))\<lparr>sm_term := ag_term a, sm_incarnation := ag_incarnation a,
             sm_state_digest := registry_digest (ag_registry a)\<rparr>;
           (stream, a1) = agent_draw a
       in case compact (ag_answers a (ag_calls a)) (ag_answers a (Suc (ag_calls a))) stream (ag_registry a) meta (ag_now a)
                 (ag_store a) (ag_disk a) of
            (_, ds, disk) \<Rightarrow> a1\<lparr>ag_store := ds, ag_disk := disk, ag_calls := ag_calls a + 2\<rparr>)"

definition kAgentTickInterval :: duration where "kAgentTickInterval = 250 * 1000000"

definition agent_tick :: "status \<Rightarrow> agent \<Rightarrow> agent option" where
  "agent_tick opened a =
    (let connected =
       (if \<not> ag_coordinator_connected a \<and> \<not> ag_connect_scheduled a
        then map_option (\<lambda>(s, a'). if is_ok s then a' else a'\<lparr>ag_connect_scheduled := True\<rparr>) (connect_to_coordinator opened a)
        else Some a)
     in case connected of
          None \<Rightarrow> None
        | Some a1 \<Rightarrow>
            (case reevaluate_enforcement ''the grant is no longer enforceable locally'' a1 of
               None \<Rightarrow> None
             | Some (_, a2) \<Rightarrow> Some (agent_schedule kAgentTickInterval Timer_Tick (agent_compact a2))))"

text \<open>Running a callback.\<close>

definition agent_fire :: "status \<Rightarrow> agent_timer \<Rightarrow> agent \<Rightarrow> agent option" where
  "agent_fire opened timer a =
    (case timer of
       Timer_Tick \<Rightarrow> agent_tick opened a
     | Timer_Connect \<Rightarrow> map_option snd (connect_to_coordinator opened a)
     | Timer_Reconnect \<Rightarrow> map_option snd (connect_to_coordinator opened (a\<lparr>ag_connect_scheduled := False\<rparr>))
     | Timer_Handshake \<Rightarrow> Some (handshake_expired a))"

fun run_callbacks :: "status \<Rightarrow> agent_timer list \<Rightarrow> agent \<Rightarrow> agent option" where
  "run_callbacks opened [] a = Some a"
| "run_callbacks opened (timer # timers) a =
    (case agent_fire opened timer a of None \<Rightarrow> None | Some a' \<Rightarrow> run_callbacks opened timers a')"

text \<open>One turn of the event loop up to the poll: the due timers, then the sweep.\<close>

definition agent_turn :: "status \<Rightarrow> agent \<Rightarrow> agent option" where
  "agent_turn opened a =
    (case fire_due_timers (ag_now a) (ag_loop a) of
       (timers, l) \<Rightarrow>
         (case run_callbacks opened timers (a\<lparr>ag_loop := l\<rparr>) of
            None \<Rightarrow> None
          | Some a1 \<Rightarrow>
              (case sweep_connections (ag_now a1) agent_closed (ag_loop a1, a1) of
                 (l', a2) \<Rightarrow> Some (a2\<lparr>ag_loop := l'\<rparr>))))"

section \<open>Construction\<close>

text \<open>\<open>port\<close>: the coordinator's port of the configuration.\<close>

definition agent_create :: "nat \<Rightarrow> status \<Rightarrow> status \<Rightarrow> agent_action" where
  "agent_create port directory listening a =
    (let config = ag_config a in
     if af_cluster config = [] then Some (invalid ''the agent requires a cluster identity'', a)
     else if af_domain config = [] then Some (invalid ''the agent requires an authority domain identity'', a)
     else if af_state_directory config = [] then Some (invalid ''the agent requires a state directory'', a)
     else if port = 0 then Some (invalid ''the agent requires the coordinator's port'', a)
     else agent_start directory listening a)"

end
