(* ===== verification/Agent_Laws.thy ===== *)
theory Agent_Laws
  imports Agent_Control Store_Recovery Fencing_Laws
begin

text \<open>
  What every operation of the cluster agent keeps. The contracts are locales, from the strongest to
  the weakest: an action that only answers (\<open>quiet_agent\<close>), one that leaves the grants alone
  (\<open>steady_agent\<close>), one that at most takes grants out of enforcement (\<open>moving_agent\<close>); the loops over
  the grants meet the last through the contract of their body (\<open>grant_loop\<close>).
\<close>

section \<open>The life cycle of a grant\<close>

text \<open>What the coordinator issued, and the one way a grant moves by itself: out of enforcement.\<close>

definition grant_binding :: "grant_record \<Rightarrow> _" where
  "grant_binding g =
    (gr_id g, gr_contract g, gr_attempt g, gr_terms_digest g, gr_incarnations g, gr_generations g, gr_policies g,
     gr_coordinator_term g, gr_capacity g, gr_valid_until g)"

definition taken_out :: "grant_record \<Rightarrow> bool" where
  "taken_out g \<longleftrightarrow> gr_state g = GrantState_Fenced \<or> gr_state g = GrantState_Aborted \<or> gr_state g = GrantState_Expired"

definition grant_lapses :: "grant_record \<Rightarrow> grant_record \<Rightarrow> bool" where
  "grant_lapses g g' \<longleftrightarrow> grant_binding g' = grant_binding g
    \<and> (gr_state g' = gr_state g \<or> taken_out g')"

lemma grant_lapses_refl [simp]: "grant_lapses g g"
  by (simp add: grant_lapses_def)

lemma grant_lapses_trans: "transp grant_lapses"
  by (auto intro!: transpI simp: grant_lapses_def taken_out_def)

lemma grant_lapses_ok: "grant_lapses g g' \<Longrightarrow> grant_ok key g \<Longrightarrow> grant_ok key g'"
  by (auto simp: grant_lapses_def grant_binding_def grant_ok_def)

section \<open>Contracts of actions\<close>

text \<open>What decides whether a grant is enforced, beside the registry.\<close>

definition agent_view :: "agent \<Rightarrow> _" where
  "agent_view a =
    (ag_config a, ag_incarnation a, ag_term a, ag_generation a, ag_policy_generation a, ag_cluster_state a,
     ag_consent_withdrawn a, ag_coordinator_term a, ag_now a)"

definition agent_moves :: "agent \<Rightarrow> agent \<Rightarrow> bool" where
  "agent_moves a a' \<longleftrightarrow>
    (registry_ok (ag_registry a) \<longrightarrow>
      registry_ok (ag_registry a') \<and> table_evolves grant_lapses (rg_grants (ag_registry a)) (rg_grants (ag_registry a'))
      \<and> ag_incarnation a' = ag_incarnation a \<and> ag_term a' = ag_term a
      \<and> ag_generation a \<le> ag_generation a' \<and> ag_policy_generation a \<le> ag_policy_generation a')"

lemma agent_moves_refl [simp]: "agent_moves a a"
  by (simp add: agent_moves_def table_evolves_refl)

lemma agent_moves_trans: "agent_moves a b \<Longrightarrow> agent_moves b c \<Longrightarrow> agent_moves a c"
  using table_evolves_trans [OF grant_lapses_trans] by (auto simp: agent_moves_def intro: order_trans)

lemma agent_moves_same:
  assumes "ag_registry a' = ag_registry a" "agent_view a' = agent_view a"
  shows "agent_moves a a'"
  using assms by (simp add: agent_moves_def agent_view_def table_evolves_refl)

locale moving_agent =
  fixes run :: agent_action
  assumes moves: "run a = Some (s, a') \<Longrightarrow> agent_moves a a'"

locale steady_agent =
  fixes run :: agent_action
  assumes keeps_view: "run a = Some (s, a') \<Longrightarrow> agent_view a' = agent_view a"
    and keeps_grants: "run a = Some (s, a') \<Longrightarrow> rg_grants (ag_registry a') = rg_grants (ag_registry a)"
    and keeps_contracts: "run a = Some (s, a') \<Longrightarrow> rg_contracts (ag_registry a') = rg_contracts (ag_registry a)"
    and keeps_registry: "run a = Some (s, a') \<Longrightarrow> registry_ok (ag_registry a) \<Longrightarrow> registry_ok (ag_registry a')"

sublocale steady_agent \<subseteq> moving_agent
proof
  fix a s a' assume run: "run a = Some (s, a')"
  show "agent_moves a a'"
    using keeps_view [OF run] keeps_grants [OF run] keeps_registry [OF run]
    by (simp add: agent_moves_def agent_view_def table_evolves_refl)
qed

locale quiet_agent =
  fixes run :: agent_action
  assumes same_registry: "run a = Some (s, a') \<Longrightarrow> ag_registry a' = ag_registry a"
    and same_view: "run a = Some (s, a') \<Longrightarrow> agent_view a' = agent_view a"
begin

lemma same: "run a = Some (s, a') \<Longrightarrow> ag_registry a' = ag_registry a \<and> agent_view a' = agent_view a"
  using same_registry same_view by blast

end

sublocale quiet_agent \<subseteq> steady_agent
  using same_registry same_view by unfold_locales auto

section \<open>Actions that only answer\<close>

interpretation agent_append: quiet_agent "agent_append m" for m
  by unfold_locales (auto simp: agent_append_def agent_view_def split: prod.splits)

interpretation agent_queue: quiet_agent "agent_queue key connection type payload" for key connection type payload
  by unfold_locales (auto simp: agent_queue_def agent_view_def split: prod.splits)

interpretation send_message: quiet_agent "send_message type payload" for type payload
  by unfold_locales
    (auto simp: send_message_def agent_queue.same_registry agent_queue.same_view split: if_splits option.splits)

interpretation send_error_to: quiet_agent "send_error_to key request out detail" for key request out detail
  by unfold_locales
    (auto simp: send_error_to_def agent_queue.same_registry agent_queue.same_view split: option.splits)

interpretation agent_report_cluster: quiet_agent agent_report_cluster
  by unfold_locales
    (auto simp: agent_report_cluster_def send_message.same_registry send_message.same_view split: option.splits)

interpretation report_if_connected: quiet_agent report_if_connected
  by unfold_locales (auto simp: report_if_connected_def agent_report_cluster.same_registry
      agent_report_cluster.same_view split: if_splits)

lemma counters_view [simp]:
  "ag_registry (count_refused a) = ag_registry a" "agent_view (count_refused a) = agent_view a"
  "ag_registry (count_rejected a) = ag_registry a" "agent_view (count_rejected a) = agent_view a"
  "ag_registry (count_fence a) = ag_registry a" "agent_view (count_fence a) = agent_view a"
  "ag_registry (agent_schedule delay timer a) = ag_registry a" "agent_view (agent_schedule delay timer a) = agent_view a"
  by (simp_all add: count_refused_def count_rejected_def count_fence_def agent_schedule_def agent_view_def)

section \<open>Actions that leave the grants alone\<close>

interpretation agent_audit: steady_agent "agent_audit what subject out detail" for what subject out detail
proof
  fix a s a' assume run: "agent_audit what subject out detail a = Some (s, a')"
  have "(ag_registry a' = ag_registry a \<or> (\<exists>t. append_audit (ag_now a) (af_cluster (ag_config a)) what subject out detail
      (ag_registry a) = Some (t, ag_registry a'))) \<and> agent_view a' = agent_view a"
    using run by (auto simp: agent_audit_def agent_view_def split: if_splits option.splits
        dest!: agent_append.same)
  then show "agent_view a' = agent_view a" "rg_grants (ag_registry a') = rg_grants (ag_registry a)"
    "rg_contracts (ag_registry a') = rg_contracts (ag_registry a)"
    "registry_ok (ag_registry a) \<Longrightarrow> registry_ok (ag_registry a')"
    using append_audit_frame append_audit_ok_keeps by fastforce+
qed

interpretation persist_own_cluster: steady_agent persist_own_cluster
proof
  fix a s a' assume run: "persist_own_cluster a = Some (s, a')"
  have "ag_registry a' = snd (put_cluster (own_record a) (ag_registry a)) \<and> agent_view a' = agent_view a"
    using run by (auto simp: persist_own_cluster_def agent_view_def split: if_splits option.splits prod.splits
        dest!: agent_append.same)
  then show "agent_view a' = agent_view a" "rg_grants (ag_registry a') = rg_grants (ag_registry a)"
    "rg_contracts (ag_registry a') = rg_contracts (ag_registry a)"
    "registry_ok (ag_registry a) \<Longrightarrow> registry_ok (ag_registry a')"
    using put_cluster.run_keeps by (auto simp: put_cluster_def Let_def split_beta)
qed

lemma steady_and_do: "steady_agent x \<Longrightarrow> steady_agent y \<Longrightarrow> steady_agent (and_do x y)"
  by (fastforce simp: steady_agent_def and_do_def split: option.splits if_splits)

section \<open>Loops over the grants\<close>

text \<open>A grant changed in place: only its own entry of the table is written.\<close>

lemma keep_grant_result:
  assumes "keep_grant key g' a = Some (s, a')"
  shows "ag_registry a' = (ag_registry a)\<lparr>rg_grants := om_put key g' (rg_grants (ag_registry a))\<rparr>"
    "agent_view a' = agent_view a"
  using agent_append.same_registry [OF assms [unfolded keep_grant_def]]
    agent_append.same_view [OF assms [unfolded keep_grant_def]] by (simp_all add: agent_view_def)

lemma rewritten_grants:
  assumes "registry_ok r" "find_grant r key = Some g" "grant_lapses g g'"
  shows "registry_ok (r\<lparr>rg_grants := om_put key g' (rg_grants r)\<rparr>)"
    "table_evolves grant_lapses (rg_grants r) (om_put key g' (rg_grants r))"
proof -
  have found: "om_find (rg_grants r) key = Some g" using assms(2) by (simp add: find_grant_def)
  have "grant_ok key g'" by (rule grant_lapses_ok [OF assms(3) table_ok_find [OF registry_ok_tables(6) [OF assms(1)] found]])
  then show "registry_ok (r\<lparr>rg_grants := om_put key g' (rg_grants r)\<rparr>)"
    using registry_ok_update(6) [OF assms(1)] table_ok_replace [OF registry_ok_tables(6) [OF assms(1)] found] by blast
  show "table_evolves grant_lapses (rg_grants r) (om_put key g' (rg_grants r))"
    using found assms(3) by (auto simp: table_evolves_def om_find_put option.rel_refl)
qed

lemma keep_grant_moves:
  assumes "find_grant (ag_registry a) key = Some g" "grant_lapses g g'" "keep_grant key g' a = Some (s, a')"
  shows "agent_moves a a'"
  using keep_grant_result [OF assms(3)] rewritten_grants [OF _ assms(1,2)] by (simp add: agent_moves_def agent_view_def)

locale grant_loop =
  fixes body :: "grant_id \<Rightarrow> grant_record \<Rightarrow> agent_action"
    and post :: "agent \<Rightarrow> grant_record \<Rightarrow> bool"
  assumes body_rewrites: "body key g a = Some (s, a') \<Longrightarrow> find_grant (ag_registry a) key = Some g \<Longrightarrow>
      om_ok (rg_grants (ag_registry a)) \<Longrightarrow>
      \<exists>g'. ag_registry a' = (ag_registry a)\<lparr>rg_grants := om_put key g' (rg_grants (ag_registry a))\<rparr>
        \<and> agent_view a' = agent_view a \<and> grant_lapses g g' \<and> (is_ok s \<longrightarrow> post a g')"
    and post_view: "agent_view a' = agent_view a \<Longrightarrow>
      rg_contracts (ag_registry a') = rg_contracts (ag_registry a) \<Longrightarrow> post a' g = post a g"
begin

definition looped :: "(grant_id \<times> grant_record) list \<Rightarrow> agent \<Rightarrow> status \<Rightarrow> agent \<Rightarrow> bool" where
  "looped xs a s a' \<longleftrightarrow>
    agent_view a' = agent_view a \<and> rg_contracts (ag_registry a') = rg_contracts (ag_registry a)
    \<and> rg_audit (ag_registry a') = rg_audit (ag_registry a) \<and> registry_ok (ag_registry a') \<and> table_evolves grant_lapses (rg_grants (ag_registry a)) (rg_grants (ag_registry a'))
    \<and> (\<forall>k. k \<notin> fst ` set xs \<longrightarrow> find_grant (ag_registry a') k = find_grant (ag_registry a) k)
    \<and> (is_ok s \<longrightarrow> (\<forall>k \<in> fst ` set xs. \<forall>g. find_grant (ag_registry a') k = Some g \<longrightarrow> post a g))"

lemma for_grants_looped:
  "for_grants body xs a = Some (s, a') \<Longrightarrow> registry_ok (ag_registry a) \<Longrightarrow> distinct (map fst xs) \<Longrightarrow>
    (\<forall>(k, g) \<in> set xs. find_grant (ag_registry a) k = Some g) \<Longrightarrow> looped xs a s a'"
proof (induction xs arbitrary: a)
  case Nil
  then show ?case by (simp add: return_def looped_def table_evolves_refl)
next
  case (Cons e xs)
  obtain key g where e: "e = (key, g)" by fastforce
  obtain s1 a1 where run: "body key g a = Some (s1, a1)"
    and rest: "if is_ok s1 then for_grants body xs a1 = Some (s, a') else (s, a') = (s1, a1)"
    using Cons.prems(1) by (auto simp: e and_do_def split: option.splits if_splits)
  have found: "find_grant (ag_registry a) key = Some g" using Cons.prems(4) e by auto
  obtain g' where g': "ag_registry a1 = (ag_registry a)\<lparr>rg_grants := om_put key g' (rg_grants (ag_registry a))\<rparr>"
    "agent_view a1 = agent_view a" "grant_lapses g g'" "is_ok s1 \<longrightarrow> post a g'"
    using body_rewrites [OF run found] table_ok_om registry_ok_tables(6) Cons.prems(2) by blast
  note ok1 = rewritten_grants [OF Cons.prems(2) found g'(3)]
  have find1: "find_grant (ag_registry a1) k = (if k = key then Some g' else find_grant (ag_registry a) k)" for k
    by (simp add: g'(1) find_grant_def om_find_put)
  show ?case
  proof (cases "is_ok s1")
    case True
    have "looped xs a1 s a'"
    proof (rule Cons.IH)
      show "\<forall>(k, g) \<in> set xs. find_grant (ag_registry a1) k = Some g"
        using Cons.prems(3,4) by (force simp: e find1)
    qed (use rest True ok1 g'(1) Cons.prems(3) in \<open>simp_all add: e\<close>)
    moreover have "post a1 = post a" using post_view [of a1 a] g'(1,2) by auto
    moreover have "key \<notin> fst ` set xs" using Cons.prems(3) e by simp
    moreover have "rg_contracts (ag_registry a1) = rg_contracts (ag_registry a)"
      "rg_audit (ag_registry a1) = rg_audit (ag_registry a)"
      "table_evolves grant_lapses (rg_grants (ag_registry a)) (rg_grants (ag_registry a1))"
      using ok1(2) g'(1) by simp_all
    ultimately show ?thesis
      using table_evolves_trans [OF grant_lapses_trans] g'(2,4) True by (auto simp: looped_def e find1)
  next
    case False
    then show ?thesis using rest ok1 g' find1 by (auto simp: looped_def e)
  qed
qed

lemma each_looped:
  assumes "each_grant body a = Some (s, a')" "registry_ok (ag_registry a)"
  shows "looped (rg_grants (ag_registry a)) a s a'"
proof (rule for_grants_looped [OF assms(1) [unfolded each_grant_def] assms(2)])
  have ok: "om_ok (rg_grants (ag_registry a))" using table_ok_om registry_ok_tables(6) assms(2) by blast
  then show "distinct (map fst (rg_grants (ag_registry a)))" by (simp add: om_ok_def strict_sorted_iff)
  show "\<forall>(k, g) \<in> set (rg_grants (ag_registry a)). find_grant (ag_registry a) k = Some g"
    using ok by (auto simp: find_grant_def in_om_find)
qed

lemma each_post:
  assumes "each_grant body a = Some (s, a')" "registry_ok (ag_registry a)" "is_ok s"
    and "find_grant (ag_registry a') k = Some g"
  shows "post a' g"
proof -
  note l = each_looped [OF assms(1,2), unfolded looped_def]
  have "k \<in> fst ` set (rg_grants (ag_registry a))"
    using l assms(4) om_find_None_iff [of "rg_grants (ag_registry a)" k] by (force simp: find_grant_def)
  then have "post a g" using l assms(3,4) by blast
  then show ?thesis using post_view [of a' a] l by simp
qed

lemma each_view: "each_grant body a = Some (s, a') \<Longrightarrow> registry_ok (ag_registry a) \<Longrightarrow> agent_view a' = agent_view a"
  using each_looped by (simp add: looped_def)

end

lemma untouched_grant:
  assumes "find_grant r key = Some g" "om_ok (rg_grants r)"
  shows "r = r\<lparr>rg_grants := om_put key g (rg_grants r)\<rparr>"
  using om_put_id [OF assms(2)] assms(1) by (simp add: find_grant_def)

lemma enforceable_view:
  assumes "agent_view a' = agent_view a" "rg_contracts (ag_registry a') = rg_contracts (ag_registry a)"
  shows "grant_enforceable a' g = grant_enforceable a g"
proof -
  have "own_side a' = own_side a" using assms(1) by (simp add: own_side_def agent_view_def fun_eq_iff)
  then show ?thesis
    using assms by (simp add: grant_enforceable_def agent_view_def find_contract_def split: option.split)
qed

text \<open>The outcome of a body: the grant is rewritten, or left as it is.\<close>

lemma body_cases:
  assumes "find_grant (ag_registry a) key = Some g" "om_ok (rg_grants (ag_registry a))"
    and "keep_grant key g' b = Some (s, a') \<and> ag_registry b = ag_registry a \<and> agent_view b = agent_view a
        \<and> grant_lapses g g' \<and> P g'
      \<or> a' = a \<and> P g"
  shows "\<exists>g'. ag_registry a' = (ag_registry a)\<lparr>rg_grants := om_put key g' (rg_grants (ag_registry a))\<rparr>
    \<and> agent_view a' = agent_view a \<and> grant_lapses g g' \<and> (is_ok s \<longrightarrow> P g')"
  using assms(3)
proof (elim disjE conjE)
  assume "keep_grant key g' b = Some (s, a')" "ag_registry b = ag_registry a" "agent_view b = agent_view a"
    "grant_lapses g g'" "P g'"
  then show ?thesis using keep_grant_result by metis
next
  assume "a' = a" "P g"
  then show ?thesis using untouched_grant [OF assms(1,2)] grant_lapses_refl by metis
qed

lemma lapses_updates [simp]:
  "grant_lapses g (g\<lparr>gr_state := GrantState_Fenced, gr_note := words\<rparr>)"
  "grant_lapses g (g\<lparr>gr_state := GrantState_Aborted, gr_note := words\<rparr>)"
  "grant_lapses g (g\<lparr>gr_state := GrantState_Expired, gr_note := words\<rparr>)"
  by (simp_all add: grant_lapses_def grant_binding_def taken_out_def)

interpretation recovered_loop: grant_loop fence_recovered_grant "\<lambda>_ g. \<not> live_on_disk g"
proof
  fix key g a s a'
  assume run: "fence_recovered_grant key g a = Some (s, a')" and f: "find_grant (ag_registry a) key = Some g"
    and ok: "om_ok (rg_grants (ag_registry a))"
  show "\<exists>g'. ag_registry a' = (ag_registry a)\<lparr>rg_grants := om_put key g' (rg_grants (ag_registry a))\<rparr>
        \<and> agent_view a' = agent_view a \<and> grant_lapses g g' \<and> (is_ok s \<longrightarrow> \<not> live_on_disk g')"
    by (rule body_cases [OF f ok, where b = "a\<lparr>ag_recovered_grants_fenced := ag_recovered_grants_fenced a + 1\<rparr>"])
      (use run in \<open>auto simp: fence_recovered_grant_def live_on_disk_def agent_view_def split: if_splits\<close>)
qed simp

interpretation term_loop: grant_loop "fence_out_of_term term" "\<lambda>_ g. \<not> out_of_term term g" for "term"
proof
  fix key g a s a'
  assume run: "fence_out_of_term term key g a = Some (s, a')" and f: "find_grant (ag_registry a) key = Some g"
    and ok: "om_ok (rg_grants (ag_registry a))"
  show "\<exists>g'. ag_registry a' = (ag_registry a)\<lparr>rg_grants := om_put key g' (rg_grants (ag_registry a))\<rparr>
        \<and> agent_view a' = agent_view a \<and> grant_lapses g g' \<and> (is_ok s \<longrightarrow> \<not> out_of_term term g')"
    by (rule body_cases [OF f ok, where b = "count_fence a"])
      (use run in \<open>auto simp: fence_out_of_term_def out_of_term_def split: if_splits\<close>)
qed simp

interpretation reevaluation: grant_loop "reevaluate_grant reason" "\<lambda>a g. gr_state g = GrantState_Active \<longrightarrow> grant_enforceable a g"
  for reason
proof
  fix key g a s a'
  assume run: "reevaluate_grant reason key g a = Some (s, a')" and f: "find_grant (ag_registry a) key = Some g"
    and ok: "om_ok (rg_grants (ag_registry a))"
  show "\<exists>g'. ag_registry a' = (ag_registry a)\<lparr>rg_grants := om_put key g' (rg_grants (ag_registry a))\<rparr>
        \<and> agent_view a' = agent_view a \<and> grant_lapses g g'
        \<and> (is_ok s \<longrightarrow> gr_state g' = GrantState_Active \<longrightarrow> grant_enforceable a g')"
  proof (rule body_cases [OF f ok])
    let ?expired = "g\<lparr>gr_state := GrantState_Expired, gr_note := ''the lease elapsed''\<rparr>"
    let ?g = "if ag_now a > gr_valid_until g then ?expired else g\<lparr>gr_state := GrantState_Fenced, gr_note := reason\<rparr>"
    have "keep_grant key ?g (count_fence a) = Some (s, a') \<or> a' = a \<and> (gr_state g = GrantState_Active \<longrightarrow> grant_enforceable a g)"
      using run by (auto simp: reevaluate_grant_def grant_enforceable_def split: if_split_asm)
    then show "keep_grant key ?g (count_fence a) = Some (s, a') \<and> ag_registry (count_fence a) = ag_registry a
        \<and> agent_view (count_fence a) = agent_view a \<and> grant_lapses g ?g
        \<and> (gr_state ?g = GrantState_Active \<longrightarrow> grant_enforceable a ?g)
      \<or> a' = a \<and> (gr_state g = GrantState_Active \<longrightarrow> grant_enforceable a g)"
      by auto
  qed
qed (metis enforceable_view)

interpretation superseded_loop: grant_loop fence_superseded
  "\<lambda>_ g. gr_state g \<noteq> GrantState_Active \<and> gr_state g \<noteq> GrantState_Committed"
proof
  fix key g a s a'
  assume run: "fence_superseded key g a = Some (s, a')" and f: "find_grant (ag_registry a) key = Some g"
    and ok: "om_ok (rg_grants (ag_registry a))"
  show "\<exists>g'. ag_registry a' = (ag_registry a)\<lparr>rg_grants := om_put key g' (rg_grants (ag_registry a))\<rparr>
        \<and> agent_view a' = agent_view a \<and> grant_lapses g g'
        \<and> (is_ok s \<longrightarrow> gr_state g' \<noteq> GrantState_Active \<and> gr_state g' \<noteq> GrantState_Committed)"
    by (rule body_cases [OF f ok, where b = a])
      (use run in \<open>auto simp: fence_superseded_def split: if_splits\<close>)
qed simp

end
