(* ===== verification/Agent_Moves.thy ===== *)
theory Agent_Moves
  imports Agent_Laws
begin

text \<open>
  Every message, timer and operator request at most takes grants out of enforcement, except two: a
  preparation the agent accepts records the coordinator's grant as prepared, and a commit installs a
  prepared grant. The step relation of the agent.
\<close>

section \<open>Composition\<close>

definition moves_to :: "agent \<Rightarrow> (status \<times> agent) option \<Rightarrow> bool" where
  "moves_to a out \<longleftrightarrow> (\<forall>s a'. out = Some (s, a') \<longrightarrow> agent_moves a a')"

named_theorems move \<open>rules for the outcome of an action of the agent\<close>

lemma moves_to_None [simp]: "moves_to a None"
  by (simp add: moves_to_def)

lemma moves_to_Some [simp]: "moves_to a (Some (s, a')) \<longleftrightarrow> agent_moves a a'"
  by (auto simp: moves_to_def)

lemma moves_to_return [move]: "agent_moves a b \<Longrightarrow> moves_to a (return s b)"
  by (simp add: return_def)

lemma moves_to_change [move]: "agent_moves a (f b) \<Longrightarrow> moves_to a (change f b)"
  by (simp add: change_def)

lemma moves_to_and_do [move]:
  assumes "moves_to a (x b)" "\<And>c. agent_moves a c \<Longrightarrow> moves_to a (y c)"
  shows "moves_to a (and_do x y b)"
  using assms by (auto simp: and_do_def moves_to_def split: option.splits if_splits)

lemma agent_moves_update:
  assumes "agent_moves a b" "ag_registry b' = ag_registry b" "ag_incarnation b' = ag_incarnation b"
    "ag_term b' = ag_term b" "ag_generation b \<le> ag_generation b'" "ag_policy_generation b \<le> ag_policy_generation b'"
  shows "agent_moves a b'"
  using assms by (auto simp: agent_moves_def intro: order_trans)

lemma agent_moves_view:
  assumes "agent_moves a b" "ag_registry b' = ag_registry b" "agent_view b' = agent_view b"
  shows "agent_moves a b'"
  using assms by (auto simp: agent_view_def intro: agent_moves_update)

lemmas agent_moves_counters [move] =
  agent_moves_view [OF _ counters_view(1,2)] agent_moves_view [OF _ counters_view(3,4)]
  agent_moves_view [OF _ counters_view(5,6)] agent_moves_view [OF _ counters_view(7,8)]

context moving_agent
begin

lemma run_moves: "agent_moves a b \<Longrightarrow> moves_to a (run b)"
  using agent_moves_trans moves by (auto simp: moves_to_def)

end

lemmas moving_answers [move] = agent_append.run_moves agent_queue.run_moves send_message.run_moves
  send_error_to.run_moves agent_report_cluster.run_moves report_if_connected.run_moves agent_audit.run_moves
  persist_own_cluster.run_moves

context grant_loop
begin

lemma each_moves: "agent_moves a b \<Longrightarrow> moves_to a (each_grant body b)"
proof -
  have "agent_moves b b'" if "each_grant body b = Some (s, b')" for s b'
    using each_looped [OF that] by (simp add: agent_moves_def looped_def agent_view_def)
  then show "agent_moves a b \<Longrightarrow> moves_to a (each_grant body b)" using agent_moves_trans by (auto simp: moves_to_def)
qed

end

lemmas moving_loops [move] = recovered_loop.each_moves term_loop.each_moves reevaluation.each_moves
  superseded_loop.each_moves

lemma keep_grant_run:
  assumes "find_grant (ag_registry b) key = Some g" "grant_lapses g g'" "agent_moves a b"
  shows "moves_to a (keep_grant key g' b)"
  using keep_grant_moves [OF assms(1,2)] agent_moves_trans [OF assms(3)] by (auto simp: moves_to_def)

section \<open>Enforcement\<close>

interpretation fence_not_revalidated: moving_agent "fence_not_revalidated term" for "term"
proof
  fix a s a' assume "fence_not_revalidated term a = Some (s, a')"
  moreover have "moves_to a (fence_not_revalidated term a)"
    by (auto simp: fence_not_revalidated_def Let_def intro!: move)
  ultimately show "agent_moves a a'" by (simp add: moves_to_def)
qed

interpretation reevaluate_enforcement: moving_agent "reevaluate_enforcement reason" for reason
  using reevaluation.each_moves [OF agent_moves_refl] by unfold_locales (auto simp: moves_to_def reevaluate_enforcement_def)

lemma moving_agentI: "(\<And>a. moves_to a (run a)) \<Longrightarrow> moving_agent run"
  by unfold_locales (auto simp: moves_to_def)

section \<open>The coordinator's messages\<close>

lemma coordinator_connection_view [simp]:
  "ag_registry (close_coordinator e a) = ag_registry a" "agent_view (close_coordinator e a) = agent_view a"
  "ag_registry (sign_coordinator a) = ag_registry a" "agent_view (sign_coordinator a) = agent_view a"
  by (simp_all add: close_coordinator_def sign_coordinator_def agent_view_def split: option.split)

text \<open>The state in which an accepted handshake leaves the agent before it fences.\<close>

definition handshaken :: "hello_ack_message \<Rightarrow> agent \<Rightarrow> agent" where
  "handshaken ack a =
    (sign_coordinator a)
      \<lparr>ag_coordinator_session := hak_session ack, ag_coordinator_term := hak_coordinator_term ack,
       ag_coordinator_incarnation := hak_coordinator ack, ag_handshake_complete := True,
       ag_coordinator_connected := True, ag_backoff := af_reconnect_backoff (ag_config a)\<rparr>"

lemma handshaken_moves: "agent_moves a (handshaken ack a)"
  using coordinator_connection_view(4) [of a]
  by (intro agent_moves_update [OF agent_moves_refl]) (simp_all add: handshaken_def agent_view_def)

lemma on_hello_ack_accepted:
  "decode_hello_ack payload = Inr ack \<Longrightarrow> hak_outcome ack = Outcome_Ok \<Longrightarrow>
    on_hello_ack payload a = and_do (fence_not_revalidated (hak_coordinator_term ack)) agent_report_cluster (handshaken ack a)"
  by (simp add: on_hello_ack_def handshaken_def)

interpretation on_hello_ack: moving_agent "on_hello_ack payload" for payload
proof (rule moving_agentI)
  fix a
  show "moves_to a (on_hello_ack payload a)"
  proof (cases "decode_hello_ack payload")
    case (Inr ack)
    show ?thesis
    proof (cases "hak_outcome ack = Outcome_Ok")
      case True
      show ?thesis unfolding on_hello_ack_accepted [OF Inr True]
        by (intro move fence_not_revalidated.run_moves handshaken_moves)
    qed (simp add: on_hello_ack_def Inr agent_moves_same)
  qed (auto simp: on_hello_ack_def intro!: move)
qed

interpretation on_report_ack: moving_agent "on_report_ack payload" for payload
  by (rule moving_agentI) (auto simp: on_report_ack_def split: sum.split intro!: move)

interpretation send_consent: quiet_agent "send_consent answer" for answer
  using send_message.same by unfold_locales (auto simp: send_consent_def)

interpretation accept_contract: moving_agent "accept_contract proposal side answer" for proposal side answer
proof (rule moving_agentI)
  fix a
  let ?c = "accepted_contract a proposal side"
  have "agent_moves a (a\<lparr>ag_registry := snd (put_contract ?c (ag_registry a))\<rparr>)"
    using put_contract.run_keeps [of "ag_registry a" ?c]
    by (auto simp: agent_moves_def put_contract_def Let_def split_beta table_evolves_refl)
  then show "moves_to a (accept_contract proposal side answer a)"
    by (auto simp: accept_contract_def Let_def split: prod.split intro!: move send_consent.run_moves)
qed

interpretation on_propose_contract: moving_agent "on_propose_contract payload" for payload
  by (rule moving_agentI)
    (auto simp: on_propose_contract_def refuse_consent_def Let_def split: sum.split option.split
      intro!: move send_consent.run_moves accept_contract.run_moves)

interpretation send_committed: quiet_agent "send_committed answer" for answer
  using send_message.same by unfold_locales (auto simp: send_committed_def)

interpretation on_abort_grant: moving_agent "on_abort_grant payload" for payload
  by (rule moving_agentI)
    (auto simp: on_abort_grant_def split: sum.split option.split intro!: move keep_grant_run)

lemma fence_listed_moves:
  "agent_moves a b \<Longrightarrow> fence_listed reason keys results b = Some (s, results', a') \<Longrightarrow> agent_moves a a'"
proof (induction keys arbitrary: results b)
  case (Cons key keys)
  show ?case
  proof (cases "find_grant (ag_registry b) key")
    case None
    then show ?thesis using Cons by simp
  next
    case (Some g)
    show ?thesis
    proof (cases "gr_state g = GrantState_Fenced")
      case False
      let ?g = "g\<lparr>gr_state := GrantState_Fenced, gr_note := reason\<rparr>"
      obtain t c where kept: "keep_grant key ?g b = Some (t, c)"
        using Cons.prems(2) Some False by (auto split: option.splits)
      have c: "agent_moves a c" using agent_moves_trans [OF Cons.prems(1) keep_grant_moves [OF Some _ kept]] by simp
      then show ?thesis
        using Cons.prems(2) Cons.IH [OF agent_moves_counters(3) [OF c]] Some False kept by (auto split: if_splits)
    qed (use Cons Some in simp)
  qed
qed simp

interpretation on_fence: moving_agent "on_fence payload" for payload
  by (rule moving_agentI)
    (auto simp: on_fence_def split: sum.split option.split intro!: move dest!: fence_listed_moves [OF agent_moves_refl])

interpretation on_status_request: moving_agent "on_status_request payload" for payload
  by (rule moving_agentI) (auto simp: on_status_request_def split: sum.split intro!: move)

interpretation agent_on_ping: quiet_agent "agent_on_ping payload" for payload
  using agent_queue.same by unfold_locales (auto simp: agent_on_ping_def Let_def split: option.splits)

section \<open>The control channel\<close>

interpretation agent_on_query: quiet_agent "agent_on_query key payload" for key payload
  using agent_queue.same send_error_to.same
  by unfold_locales (fastforce simp: agent_on_query_def Let_def split: sum.splits prod.splits option.splits)+

lemma agent_draw_view [simp]:
  "ag_registry (snd (agent_draw a)) = ag_registry a" "agent_view (snd (agent_draw a)) = agent_view a"
  by (simp_all add: agent_draw_def agent_view_def)

interpretation agent_set_cluster_state: moving_agent "agent_set_cluster_state state" for state
  by (rule moving_agentI)
    (auto simp: agent_set_cluster_state_def intro!: move reevaluate_enforcement.run_moves agent_moves_update [OF agent_moves_refl])

interpretation bump_generation: moving_agent "bump_generation reason" for reason
  by (rule moving_agentI)
    (auto simp: bump_generation_def split: sum.split
      intro!: move fence_not_revalidated.run_moves agent_moves_update [OF agent_moves_refl]
      dest: counter_next_mono)

interpretation set_policy_generation: moving_agent "set_policy_generation generation" for generation
  by (rule moving_agentI)
    (auto simp: set_policy_generation_def intro!: move reevaluate_enforcement.run_moves agent_moves_update [OF agent_moves_refl])

interpretation withdraw_consent: moving_agent "withdraw_consent reason" for reason
  by (rule moving_agentI)
    (auto simp: withdraw_consent_def send_withdrawal_def
      intro!: move reevaluate_enforcement.run_moves agent_moves_update [OF agent_moves_refl])

interpretation fence_local_grant: moving_agent "fence_local_grant key reason" for key reason
  by (rule moving_agentI) (auto simp: fence_local_grant_def split: option.split intro!: move keep_grant_run)

interpretation upsert_endpoint: moving_agent "upsert_endpoint e" for e
  by (rule moving_agentI)
    (auto simp: upsert_endpoint_def Let_def set_endpoints_def split: option.split
      intro!: move agent_moves_update [OF agent_moves_refl])

interpretation upsert_endpoints: moving_agent "upsert_endpoints es" for es
proof (rule moving_agentI)
  fix a
  have "agent_moves a b \<Longrightarrow> moves_to a (upsert_endpoints es b)" for b
    by (induction es arbitrary: b) (auto intro!: move upsert_endpoint.run_moves)
  then show "moves_to a (upsert_endpoints es a)" by simp
qed

lemma update_from_admin_moves:
  assumes "update_from_admin request a = Some (answer, a')"
  shows "agent_moves a a'"
proof -
  have "agent_moves a b" if "persist_own_cluster (a\<lparr>ag_consent_withdrawn := False\<rparr>) = Some (s, b)" for s b
    using agent_moves_trans [OF agent_moves_update [OF agent_moves_refl] persist_own_cluster.moves [OF that]] by simp
  then show ?thesis
    using assms
    by (auto simp: update_from_admin_def Let_def split: admin_action.splits option.splits
        dest: agent_set_cluster_state.moves withdraw_consent.moves fence_local_grant.moves upsert_endpoints.moves)
qed

interpretation agent_on_admin: moving_agent "agent_on_admin key payload" for key payload
  by (rule moving_agentI)
    (auto simp: agent_on_admin_def Let_def split: sum.split option.split intro!: move dest!: update_from_admin_moves)

interpretation on_control_hello: moving_agent "on_control_hello key payload" for key payload
proof (rule moving_agentI)
  fix a
  have q: "moves_to a (map_option (\<lambda>(_, b). (status_ok, b)) (agent_queue k c t p b))" if "agent_moves a b" for k c t p b
    using agent_queue.run_moves [OF that] by (auto simp: moves_to_def)
  have drawn: "agent_moves a ((snd (agent_draw a))\<lparr>ag_roles := roles\<rparr>)" for roles
    by (rule agent_moves_update [OF agent_moves_refl]) (simp_all add: agent_draw_def)
  show "moves_to a (on_control_hello key payload a)"
    by (auto simp: on_control_hello_def Let_def split_beta split: sum.split option.split intro!: move q drawn)
qed

interpretation control_accepted: moving_agent control_accepted
  by (rule moving_agentI)
    (auto simp: control_accepted_def split: prod.split sum.split intro!: agent_moves_update [OF agent_moves_refl])

section \<open>Preparation\<close>

text \<open>A preparation the agent accepts: the coordinator's grant, bound to what the agent is now.\<close>

definition prepares :: "grant_record \<Rightarrow> agent \<Rightarrow> agent \<Rightarrow> bool" where
  "prepares g a a' \<longleftrightarrow>
    refusal_of_grant a g = None \<and> agent_view a' = agent_view a \<and> registry_ok (ag_registry a')
    \<and> ag_registry a' = (ag_registry a)\<lparr>rg_grants := om_put (gr_id g) (prepared_grant (ag_now a) g) (rg_grants (ag_registry a))\<rparr>"

interpretation send_prepared: quiet_agent "send_prepared answer" for answer
  using send_message.same by unfold_locales (auto simp: send_prepared_def)

lemma put_grant_ok:
  "is_ok (fst (put_grant g r)) \<Longrightarrow> snd (put_grant g r) = r\<lparr>rg_grants := om_put (gr_id g) g (rg_grants r)\<rparr>"
  by (auto simp: put_grant_def insert_bounded_def Let_def split: if_splits)

lemma on_prepare_grant_result:
  assumes "on_prepare_grant payload a = Some (s, a')" "registry_ok (ag_registry a)"
  shows "agent_moves a a' \<or> (\<exists>m. decode_prepare_grant payload = Inr m \<and> prepares (prg_grant m) a a')"
proof (cases "decode_prepare_grant payload")
  case (Inl e)
  then show ?thesis using assms(1) by (auto simp: on_prepare_grant_def intro!: move)
next
  case (Inr m)
  define g' where "g' = prepared_grant (ag_now a) (prg_grant m)"
  obtain t r' where put: "put_grant g' (ag_registry a) = (t, r')" by fastforce
  show ?thesis
  proof (cases "refusal_of_grant a (prg_grant m)")
    case None
    have res: "ag_registry a' = r' \<and> agent_view a' = agent_view a"
      using assms(1) None put
      by (auto simp: on_prepare_grant_def Inr accept_prepare_def Let_def and_do_def agent_view_def g'_def [symmetric]
          split: if_splits option.splits dest!: send_prepared.same agent_append.same)
    show ?thesis
    proof (cases "is_ok t")
      case True
      then have "r' = (ag_registry a)\<lparr>rg_grants := om_put (gr_id g') g' (rg_grants (ag_registry a))\<rparr>"
        using put_grant_ok [of g' "ag_registry a"] put by simp
      moreover have "gr_id g' = gr_id (prg_grant m)" by (simp add: g'_def prepared_grant_def)
      ultimately show ?thesis
        using res None put_grant.run_keeps [OF assms(2), of g'] put Inr by (simp add: prepares_def g'_def)
    next
      case False
      then show ?thesis using put_grant.run_failed [of g' "ag_registry a"] put res agent_moves_same by simp
    qed
  next
    case (Some reason)
    have "moves_to a (on_prepare_grant payload a)"
      by (auto simp: on_prepare_grant_def Inr Some Let_def intro!: move send_prepared.run_moves)
    then show ?thesis using assms(1) by (simp add: moves_to_def)
  qed
qed

section \<open>Installation\<close>

definition installed_grant :: "timestamp \<Rightarrow> grant_record \<Rightarrow> grant_record" where
  "installed_grant now g =
    g\<lparr>gr_state := GrantState_Active, gr_note := ''enforced by the cluster agent'',
      gr_provenance := (gr_provenance g)\<lparr>pv_observed_at := now\<rparr>\<rparr>"

text \<open>A commit the agent accepts: the attempt it prepared, or one that is installed already.\<close>

definition installs :: "commit_grant_message \<Rightarrow> grant_record \<Rightarrow> agent \<Rightarrow> agent \<Rightarrow> bool" where
  "installs m g a a' \<longleftrightarrow>
    find_grant (ag_registry a) (cmg_grant m) = Some g \<and> gr_attempt g = cmg_attempt m
    \<and> (gr_state g = GrantState_Prepared \<or> gr_state g = GrantState_Active)
    \<and> agent_view a' = agent_view a \<and> registry_ok (ag_registry a')
    \<and> rg_grants (ag_registry a') = om_put (cmg_grant m) (installed_grant (ag_now a) g) (rg_grants (ag_registry a))"

lemma installed_ok: "grant_ok key g \<Longrightarrow> grant_ok key (installed_grant now g)"
  by (auto simp: grant_ok_def installed_grant_def)

lemma on_commit_installs:
  assumes run: "on_commit_grant payload a = Some (s, a')" and ok: "registry_ok (ag_registry a)"
    and m: "decode_commit_grant payload = Inr m" and f: "find_grant (ag_registry a) (cmg_grant m) = Some g"
    and g: "gr_attempt g = cmg_attempt m" "gr_state g = GrantState_Prepared \<or> gr_state g = GrantState_Active"
  shows "installs m g a a'"
proof -
  let ?g = "installed_grant (ag_now a) g"
  let ?rest = "and_do (agent_audit ''commit-grant'' (uuid_to_string (gr_id ?g)) Outcome_Ok
       ''the exact attempt the coordinator prepared is now enforced'')
     (send_committed ((commit_answer a m)\<lparr>gcm_installed := True, gcm_detail := ''enforced'',
        gcm_enforcement_digest := enforcement_digest_of ?g\<rparr>))"
  have "and_do (keep_grant (cmg_grant m) ?g) ?rest a = Some (s, a')"
    using run m f g by (auto simp: on_commit_grant_def Let_def installed_grant_def)
  then obtain t b where b: "keep_grant (cmg_grant m) ?g a = Some (t, b)" "a' = b \<or> ?rest b = Some (s, a')"
    unfolding and_do_def [of "keep_grant (cmg_grant m) ?g"] by (auto split: option.splits if_splits)
  note kept = keep_grant_result [OF b(1)]
  have "om_find (rg_grants (ag_registry a)) (cmg_grant m) = Some g" using f by (simp add: find_grant_def)
  then have "registry_ok (ag_registry b)"
    using kept(1) registry_ok_update(6) [OF ok] table_ok_replace [OF registry_ok_tables(6) [OF ok]]
      installed_ok table_ok_find [OF registry_ok_tables(6) [OF ok]] by metis
  moreover have rest: "steady_agent ?rest"
    by (intro steady_and_do agent_audit.steady_agent_axioms send_committed.steady_agent_axioms)
  ultimately have "agent_view a' = agent_view b \<and> rg_grants (ag_registry a') = rg_grants (ag_registry b)
    \<and> registry_ok (ag_registry a')"
    using b(2) steady_agent.keeps_view [OF rest] steady_agent.keeps_grants [OF rest] steady_agent.keeps_registry [OF rest]
    by auto
  then show ?thesis using f g kept by (simp add: installs_def)
qed

lemma on_commit_grant_result:
  assumes "on_commit_grant payload a = Some (s, a')" "registry_ok (ag_registry a)"
  shows "agent_moves a a' \<or> (\<exists>m g. decode_commit_grant payload = Inr m \<and> installs m g a a')"
proof (cases "\<exists>m g. decode_commit_grant payload = Inr m \<and> find_grant (ag_registry a) (cmg_grant m) = Some g
    \<and> gr_attempt g = cmg_attempt m \<and> (gr_state g = GrantState_Prepared \<or> gr_state g = GrantState_Active)")
  case True
  then show ?thesis using on_commit_installs [OF assms] by blast
next
  case False
  then have "moves_to a (on_commit_grant payload a)"
    by (auto simp: on_commit_grant_def Let_def split: sum.split option.split intro!: move send_committed.run_moves)
  then show ?thesis using assms(1) by (simp add: moves_to_def)
qed

section \<open>Timers\<close>

interpretation connect_to_coordinator: moving_agent "connect_to_coordinator opened" for opened
  by (rule moving_agentI)
    (auto simp: connect_to_coordinator_def Let_def split: prod.split sum.split
      intro!: move agent_moves_update [OF agent_moves_refl])

lemma agent_compact_view [simp]:
  "ag_registry (agent_compact a) = ag_registry a" "agent_view (agent_compact a) = agent_view a"
  by (simp_all add: agent_compact_def agent_draw_def agent_view_def Let_def split: prod.split)

lemma agent_tick_moves:
  assumes "agent_tick opened a = Some a'"
  shows "agent_moves a a'"
proof -
  define connected where "connected =
    (if \<not> ag_coordinator_connected a \<and> \<not> ag_connect_scheduled a
     then map_option (\<lambda>(s, a'). if is_ok s then a' else a'\<lparr>ag_connect_scheduled := True\<rparr>) (connect_to_coordinator opened a)
     else Some a)"
  have mark: "agent_moves a (b\<lparr>ag_connect_scheduled := True\<rparr>)" if "agent_moves a b" for b
    by (rule agent_moves_update [OF that]) simp_all
  have a1: "agent_moves a b" if c: "connected = Some b" for b
  proof (cases "\<not> ag_coordinator_connected a \<and> \<not> ag_connect_scheduled a")
    case True
    then obtain t d where "connect_to_coordinator opened a = Some (t, d)" "b = (if is_ok t then d else d\<lparr>ag_connect_scheduled := True\<rparr>)"
      using c by (auto simp: connected_def)
    then show ?thesis using mark [OF connect_to_coordinator.moves] connect_to_coordinator.moves by (cases "is_ok t") auto
  qed (use c in \<open>auto simp: connected_def\<close>)
  obtain b s a2 where b: "connected = Some b" and a2: "reevaluate_enforcement
      ''the grant is no longer enforceable locally'' b = Some (s, a2)"
    and a': "a' = agent_schedule kAgentTickInterval Timer_Tick (agent_compact a2)"
    using assms by (auto simp: agent_tick_def connected_def [symmetric] split: option.splits)
  have "agent_moves a (agent_compact a2)"
    by (rule agent_moves_view [OF agent_moves_trans [OF a1 [OF b] reevaluate_enforcement.moves [OF a2]]]) simp_all
  then show ?thesis unfolding a' by (rule move)
qed

lemma agent_fire_moves: "agent_fire opened timer a = Some a' \<Longrightarrow> agent_moves a a'"
proof (cases timer)
  case Timer_Reconnect
  have "agent_moves a (a\<lparr>ag_connect_scheduled := False\<rparr>)" by (rule agent_moves_update [OF agent_moves_refl]) simp_all
  moreover assume "agent_fire opened timer a = Some a'"
  ultimately show ?thesis
    using Timer_Reconnect connect_to_coordinator.moves agent_moves_trans by (fastforce simp: agent_fire_def)
next
  case Timer_Handshake
  assume "agent_fire opened timer a = Some a'"
  then show ?thesis
    using Timer_Handshake
    by (auto simp: agent_fire_def handshake_expired_def agent_view_def split: option.splits if_splits
        intro!: agent_moves_same)
qed (auto simp: agent_fire_def agent_tick_moves connect_to_coordinator.moves)

section \<open>The step relation\<close>

text \<open>The public operations of the agent, besides the control channel.\<close>

datatype local_operation =
  Local_State cluster_state
| Local_Generation string
| Local_Policy u64
| Local_Withdraw string
| Local_Fence grant_id string
| Local_Endpoint endpoint_record

fun perform :: "local_operation \<Rightarrow> agent_action" where
  "perform (Local_State state) = agent_set_cluster_state state"
| "perform (Local_Generation reason) = bump_generation reason"
| "perform (Local_Policy generation) = set_policy_generation generation"
| "perform (Local_Withdraw reason) = withdraw_consent reason"
| "perform (Local_Fence key reason) = fence_local_grant key reason"
| "perform (Local_Endpoint e) = upsert_endpoint e"

inductive agent_step :: "agent \<Rightarrow> agent \<Rightarrow> bool" where
  received: "agent_handle_message key frame a = Some (s, a') \<Longrightarrow> agent_step a a'"
| lost: "agent_step a (agent_handle_disconnect key a)"
| accepted: "control_accepted a = Some (s, a') \<Longrightarrow> agent_step a a'"
| fired: "agent_fire opened timer a = Some a' \<Longrightarrow> agent_step a a'"
| operated: "perform operation a = Some (s, a') \<Longrightarrow> agent_step a a'"
| waited: "agent_step a (a\<lparr>ag_loop := l, ag_now := now, ag_monotonic := m\<rparr>)"

inductive_cases agent_stepE: "agent_step a a'"

lemma perform_moves: "perform operation a = Some (s, a') \<Longrightarrow> agent_moves a a'"
  by (cases operation) (auto dest: agent_set_cluster_state.moves bump_generation.moves set_policy_generation.moves
      withdraw_consent.moves fence_local_grant.moves upsert_endpoint.moves)

lemma disconnect_moves: "agent_moves a (agent_handle_disconnect key a)"
  by (rule agent_moves_update [OF agent_moves_refl]) (simp_all add: agent_handle_disconnect_def agent_schedule_def Let_def)

lemma agent_handle_message_moves:
  assumes "agent_handle_message key frame a = Some (s, a')" "registry_ok (ag_registry a)"
  shows "agent_moves a a' \<or>
    key = ag_coordinator_connection a \<and>
    (fh_type (fr_header frame) = MessageType_PrepareGrant
       \<and> (\<exists>m. decode_prepare_grant (fr_payload frame) = Inr m \<and> prepares (prg_grant m) a a')
     \<or> fh_type (fr_header frame) = MessageType_CommitGrant
       \<and> (\<exists>m g. decode_commit_grant (fr_payload frame) = Inr m \<and> installs m g a a'))"
proof (cases "key = ag_coordinator_connection a \<and> (fh_type (fr_header frame) = MessageType_PrepareGrant
    \<or> fh_type (fr_header frame) = MessageType_CommitGrant)")
  case True
  then show ?thesis
    using assms on_prepare_grant_result [of "fr_payload frame" a s a'] on_commit_grant_result [of "fr_payload frame" a s a']
    by (auto simp: agent_handle_message_def Let_def)
next
  case False
  have err: "agent_moves a (a\<lparr>ag_errors_received := ag_errors_received a + 1\<rparr>)"
    by (rule agent_moves_update [OF agent_moves_refl]) simp_all
  have "moves_to a (agent_handle_message key frame a)"
    using False
    by (cases "key = ag_coordinator_connection a"; cases "fh_type (fr_header frame)")
      (simp_all add: agent_handle_message_def Let_def on_hello_ack.run_moves on_report_ack.run_moves
        on_propose_contract.run_moves on_abort_grant.run_moves on_fence.run_moves
        on_status_request.run_moves agent_on_ping.run_moves on_control_hello.run_moves agent_on_query.run_moves
        agent_on_admin.run_moves err send_error_to.run_moves agent_moves_counters)
  then show ?thesis using assms(1) by (simp add: moves_to_def)
qed

text \<open>The frames that begin and end an installation, as the coordinator sends them.\<close>

definition prepare_received :: "grant_record \<Rightarrow> agent \<Rightarrow> agent \<Rightarrow> bool" where
  "prepare_received g a a' \<longleftrightarrow>
    (\<exists>frame s m. agent_handle_message (ag_coordinator_connection a) frame a = Some (s, a')
      \<and> fh_type (fr_header frame) = MessageType_PrepareGrant
      \<and> decode_prepare_grant (fr_payload frame) = Inr m \<and> prg_grant m = g)"

definition commit_received :: "grant_id \<Rightarrow> uuid \<Rightarrow> agent \<Rightarrow> agent \<Rightarrow> bool" where
  "commit_received key attempt a a' \<longleftrightarrow>
    (\<exists>frame s m. agent_handle_message (ag_coordinator_connection a) frame a = Some (s, a')
      \<and> fh_type (fr_header frame) = MessageType_CommitGrant
      \<and> decode_commit_grant (fr_payload frame) = Inr m \<and> cmg_grant m = key \<and> cmg_attempt m = attempt)"

lemma agent_step_moves:
  assumes "agent_step a a'" "registry_ok (ag_registry a)"
  obtains (moves) "agent_moves a a'"
  | (prepares) g where "prepares g a a'" "prepare_received g a a'"
  | (installs) m g where "installs m g a a'" "commit_received (cmg_grant m) (cmg_attempt m) a a'"
proof -
  have "agent_moves a a' \<or> (\<exists>g. prepares g a a' \<and> prepare_received g a a')
    \<or> (\<exists>m g. installs m g a a' \<and> commit_received (cmg_grant m) (cmg_attempt m) a a')"
    using assms(1)
  proof (cases rule: agent_step.cases)
    case (received key frame s)
    then show ?thesis
      using agent_handle_message_moves [OF received assms(2)]
      unfolding prepare_received_def commit_received_def by blast
  next
    case (waited l now m)
    then show ?thesis by (auto intro!: agent_moves_update [OF agent_moves_refl])
  qed (use control_accepted.moves agent_fire_moves perform_moves disconnect_moves in blast)+
  then show thesis using that by blast
qed

section \<open>A turn of the loop\<close>

lemma loop_step: "agent_step a (a\<lparr>ag_loop := l\<rparr>)"
  using agent_step.waited [where a = a and l = l and now = "ag_now a" and m = "ag_monotonic a"] by simp

lemma run_callbacks_steps: "run_callbacks opened timers a = Some a' \<Longrightarrow> agent_step\<^sup>*\<^sup>* a a'"
proof (induction timers arbitrary: a)
  case (Cons timer timers)
  then obtain b where b: "agent_fire opened timer a = Some b" "run_callbacks opened timers b = Some a'"
    by (auto split: option.splits)
  show ?case using agent_step.fired [OF b(1)] Cons.IH [OF b(2)] by (rule converse_rtranclp_into_rtranclp)
qed simp

text \<open>The loop of a report is that of the agent, up to the state the sweep keeps beside it.\<close>

lemma closed_eq:
  "agent_closed key reason (l, a) =
    (ag_loop (agent_handle_disconnect key (a\<lparr>ag_loop := l\<rparr>)), agent_handle_disconnect key (a\<lparr>ag_loop := l\<rparr>))"
  by (simp add: agent_closed_def Let_def)

lemma report_closed_steps: "report_closed agent_closed keys (l, a) = (l', a') \<Longrightarrow> agent_step\<^sup>*\<^sup>* a a'"
proof (induction keys arbitrary: l a)
  case (Cons key keys)
  show ?case
  proof (cases "\<exists>c. el_find l key = Some c \<and> cn_closed c \<and> \<not> cn_close_reported c")
    case True
    then obtain c where c: "el_find l key = Some c" "cn_closed c" "\<not> cn_close_reported c" by blast
    let ?a = "a\<lparr>ag_loop := el_set key (c\<lparr>cn_close_reported := True\<rparr>) l\<rparr>"
    let ?b = "agent_handle_disconnect key ?a"
    have "report_closed agent_closed keys (ag_loop ?b, ?b) = (l', a')"
      using Cons.prems c closed_eq [of key "cn_close_reason c"] by simp
    from Cons.IH [OF this] have "agent_step\<^sup>*\<^sup>* ?b a'" .
    then show ?thesis using loop_step agent_step.lost by (meson converse_rtranclp_into_rtranclp)
  next
    case False
    then have "report_closed agent_closed keys (l, a) = (l', a')"
      using Cons.prems by (auto split: option.splits if_splits)
    then show ?thesis by (rule Cons.IH)
  qed
qed simp

lemma report_and_erase_steps: "report_and_erase agent_closed (l, a) = (l', a') \<Longrightarrow> agent_step\<^sup>*\<^sup>* a a'"
  by (auto simp: report_and_erase_def Let_def split: prod.splits dest: report_closed_steps)

lemma agent_turn_steps:
  assumes "agent_turn opened a = Some a'"
  shows "agent_step\<^sup>*\<^sup>* a a'"
proof -
  obtain timers l where due: "fire_due_timers (ag_now a) (ag_loop a) = (timers, l)" by fastforce
  obtain a1 where a1: "run_callbacks opened timers (a\<lparr>ag_loop := l\<rparr>) = Some a1"
    using assms due by (auto simp: agent_turn_def split: option.splits)
  obtain l2 b2 where first: "report_and_erase agent_closed (ag_loop a1, a1) = (l2, b2)" by fastforce
  obtain l3 b3 where second: "report_and_erase agent_closed (expire_idle (ag_now a1) l2, b2) = (l3, b3)" by fastforce
  have a': "a' = b3\<lparr>ag_loop := l3\<rparr>"
    using assms due a1 first second by (simp add: agent_turn_def sweep_connections_def)
  have "agent_step\<^sup>*\<^sup>* a (a\<lparr>ag_loop := l\<rparr>)" using loop_step by (rule r_into_rtranclp)
  also have "agent_step\<^sup>*\<^sup>* (a\<lparr>ag_loop := l\<rparr>) a1" by (rule run_callbacks_steps [OF a1])
  also have "agent_step\<^sup>*\<^sup>* a1 b2" by (rule report_and_erase_steps [OF first])
  also have "agent_step\<^sup>*\<^sup>* b2 b3" by (rule report_and_erase_steps [OF second])
  also have "agent_step\<^sup>*\<^sup>* b3 a'" unfolding a' using loop_step by (rule r_into_rtranclp)
  finally show ?thesis .
qed

end
