(* ===== verification/Agent_Start.thy ===== *)
theory Agent_Start
  imports Agent_Moves
begin

text \<open>
  What the start of the agent establishes, whatever its store holds: a well-formed registry in which
  no grant is live, a term above the recorded one and a generation above the one the cluster had
  before. What is live later was prepared by this incarnation.
\<close>

definition nothing_enforced :: "registry \<Rightarrow> bool" where
  "nothing_enforced r \<longleftrightarrow> (\<forall>key g. find_grant r key = Some g \<longrightarrow> \<not> live_on_disk g)"

lemma nothing_enforced_grants: "rg_grants r' = rg_grants r \<Longrightarrow> nothing_enforced r' = nothing_enforced r"
  by (simp add: nothing_enforced_def find_grant_def)

section \<open>Loading\<close>

text \<open>An agent is constructed with an empty registry.\<close>

lemma agent_load_state_keeps:
  assumes "agent_load_state directory a = Some (s, a')" "ag_registry a = empty_registry"
  shows "registry_ok (ag_registry a')" "\<not> re_recovered_from_store (ag_recovery a') \<Longrightarrow> ag_registry a' = empty_registry"
  using assms registry_ok_empty
  by (auto simp: agent_load_state_def agent_draw_def Let_def split: option.splits sum.splits prod.splits dest: store_open_keeps)

lemma agent_load_state_recovered:
  assumes "agent_load_state directory a = Some (s, a')"
    "store_open (ag_answers a (ag_calls a)) directory (ag_identities a (ag_drawn a)) (agent_options (ag_config a)) (ag_disk a)
      = Some (Inr (ds, rec), disk)"
  shows "ag_registry a' = re_registry rec \<and> ag_recovery a' = rec\<lparr>re_registry := empty_registry\<rparr> \<and> ag_config a' = ag_config a"
  using assms by (auto simp: agent_load_state_def agent_draw_def)

section \<open>The new incarnation\<close>

lemma resume_identity_result:
  assumes "resume_identity a = Some (s, a')"
  shows "ag_registry a' = ag_registry a \<and> ag_incarnation a' = ag_incarnation a \<and> ag_term a' = ag_term a
    \<and> ag_config a' = ag_config a \<and> ag_recovery a' = ag_recovery a"
  using assms by (auto simp: resume_identity_def Let_def split: option.splits if_splits)

lemma resume_identity_generation:
  assumes "resume_identity a = Some (s, a')" "is_ok s" "local_cluster a = Some previous"
    "ag_generation a = af_generation (ag_config a)"
  shows "cl_generation previous < ag_generation a' \<or> cl_generation previous = - 1"
proof (cases "counter_next (cl_generation previous)")
  case (Inl e)
  then have "cl_generation previous = - 1" using counter_next_Inr [of "cl_generation previous" "cl_generation previous + 1"] by auto
  then show ?thesis by simp
next
  case (Inr bumped)
  show ?thesis
    using assms Inr counter_next_mono [OF Inr] by (auto simp: resume_identity_def Let_def split: if_split_asm)
qed

interpretation agent_append_meta: quiet_agent agent_append_meta
  by unfold_locales (auto simp: agent_append_meta_def agent_view_def Let_def split: prod.splits)

interpretation recovered_incident: quiet_agent recovered_incident
  by unfold_locales (auto simp: recovered_incident_def agent_view_def split: prod.splits)

lemma fence_recovered_result:
  assumes "(if recovered then and_do (each_grant fence_recovered_grant) recovered_incident else return status_ok) a = Some (s, a')"
    and "is_ok s" "registry_ok (ag_registry a)" "\<not> recovered \<Longrightarrow> ag_registry a = empty_registry"
  shows "registry_ok (ag_registry a') \<and> nothing_enforced (ag_registry a') \<and> agent_view a' = agent_view a"
proof (cases recovered)
  case True
  obtain s1 b where b: "each_grant fence_recovered_grant a = Some (s1, b)" "is_ok s1" "recovered_incident b = Some (s, a')"
    using assms(1,2) True by (auto elim: and_do_ok)
  have "nothing_enforced (ag_registry b)"
    using recovered_loop.each_post [OF b(1) assms(3) b(2)] by (auto simp: nothing_enforced_def)
  moreover have "registry_ok (ag_registry b) \<and> agent_view b = agent_view a"
    using recovered_loop.each_looped [OF b(1) assms(3)] by (simp add: recovered_loop.looped_def)
  ultimately show ?thesis using recovered_incident.same [OF b(3)] by simp
next
  case False
  then show ?thesis using assms by (auto simp: return_def nothing_enforced_def find_grant_def empty_registry_def)
qed

lemma begin_incarnation_result:
  assumes "agent_begin_incarnation a = Some (s, a')" "is_ok s" "registry_ok (ag_registry a)"
    and "\<not> re_recovered_from_store (ag_recovery a) \<Longrightarrow> ag_registry a = empty_registry"
  shows "registry_ok (ag_registry a') \<and> nothing_enforced (ag_registry a')
    \<and> ag_term a' = after_sequence (sm_term (re_meta (ag_recovery a))) \<and> ag_incarnation a' = ag_identities a (ag_drawn a)
    \<and> (\<forall>previous. local_cluster a = Some previous \<longrightarrow> cl_generation previous < ag_generation a' \<or> cl_generation previous = - 1)"
proof -
  define a2 where "a2 = (snd (agent_draw a))\<lparr>ag_term := after_sequence (sm_term (re_meta (ag_recovery a))),
     ag_incarnation := fst (agent_draw a), ag_generation := af_generation (ag_config a),
     ag_policy_generation := af_policy_generation (ag_config a),
     ag_cluster_state := af_state (ag_config a), ag_started_at := ag_now a\<rparr>"
  let ?fence = "if re_recovered_from_store (ag_recovery a)
     then and_do (each_grant fence_recovered_grant) recovered_incident else return status_ok"
  let ?audit = "agent_audit ''begin-incarnation'' (uuid_to_string (fst (agent_draw a))) Outcome_Ok
     (''term='' @ decimal (unat (ag_term a2)))"
  have run: "and_do resume_identity (and_do agent_append_meta (and_do ?fence ?audit)) a2 = Some (s, a')"
    using assms(1) by (simp add: agent_begin_incarnation_def a2_def split_beta Let_def)
  obtain s3 b3 where b3: "resume_identity a2 = Some (s3, b3)" "is_ok s3"
    and run3: "and_do agent_append_meta (and_do ?fence ?audit) b3 = Some (s, a')" by (rule and_do_ok [OF run assms(2)])
  obtain s4 b4 where b4: "agent_append_meta b3 = Some (s4, b4)" and run4: "and_do ?fence ?audit b4 = Some (s, a')"
    by (rule and_do_ok [OF run3 assms(2)])
  obtain s5 b5 where b5: "?fence b4 = Some (s5, b5)" "is_ok s5" and a': "?audit b5 = Some (s, a')"
    by (rule and_do_ok [OF run4 assms(2)])
  have a2: "ag_registry a2 = ag_registry a" "ag_config a2 = ag_config a" "ag_generation a2 = af_generation (ag_config a)"
    "ag_term a2 = after_sequence (sm_term (re_meta (ag_recovery a)))" "ag_incarnation a2 = ag_identities a (ag_drawn a)"
    by (simp_all add: a2_def agent_draw_def)
  note r3 = resume_identity_result [OF b3(1)] and r4 = agent_append_meta.same [OF b4]
  have r5: "registry_ok (ag_registry b5) \<and> nothing_enforced (ag_registry b5) \<and> agent_view b5 = agent_view b4"
    by (rule fence_recovered_result [OF b5]) (use r3 r4 a2 assms(3,4) in simp_all)
  have "local_cluster a2 = local_cluster a" using a2 by (simp add: local_cluster_def)
  then have gen: "cl_generation previous < ag_generation b3 \<or> cl_generation previous = - 1"
    if "local_cluster a = Some previous" for previous
    using resume_identity_generation [OF b3] that a2 by simp
  have view: "agent_view a' = agent_view b3" using agent_audit.keeps_view [OF a'] r5 r4 by simp
  show ?thesis
    using agent_audit.keeps_registry [OF a'] nothing_enforced_grants [OF agent_audit.keeps_grants [OF a']] r5 view r3 a2 gen
    by (simp add: agent_view_def)
qed

lemma agent_start_chain:
  assumes "agent_start directory listening a = Some (s, a')" "is_ok s"
  obtains s1 b1 s2 b2 where "agent_load_state directory a = Some (s1, b1)"
    "agent_begin_incarnation b1 = Some (s2, b2)" "is_ok s2"
    "registry_ok (ag_registry b2) \<Longrightarrow> registry_ok (ag_registry a')"
    "rg_grants (ag_registry a') = rg_grants (ag_registry b2)" "agent_view a' = agent_view b2" "ag_started a'"
proof -
  let ?go = "\<lambda>a. (agent_schedule 0 Timer_Connect (agent_schedule 0 Timer_Tick a))\<lparr>ag_started := True\<rparr>"
  have "\<not> ag_started a" using assms by (auto simp: agent_start_def split: if_splits)
  then have run: "and_do (agent_load_state directory) (and_do agent_begin_incarnation (and_do persist_own_cluster
      (and_do (return listening) (change ?go)))) a = Some (s, a')"
    using assms(1) by (simp add: agent_start_def)
  obtain s1 b1 where b1: "agent_load_state directory a = Some (s1, b1)" and run1: "and_do agent_begin_incarnation
      (and_do persist_own_cluster (and_do (return listening) (change ?go))) b1 = Some (s, a')"
    by (rule and_do_ok [OF run assms(2)])
  obtain s2 b2 where b2: "agent_begin_incarnation b1 = Some (s2, b2)" "is_ok s2"
    and run2: "and_do persist_own_cluster (and_do (return listening) (change ?go)) b2 = Some (s, a')"
    by (rule and_do_ok [OF run1 assms(2)])
  obtain s3 b3 where b3: "persist_own_cluster b2 = Some (s3, b3)"
    and run3: "and_do (return listening) (change ?go) b3 = Some (s, a')"
    by (rule and_do_ok [OF run2 assms(2)])
  obtain s4 b4 where b4: "return listening b3 = Some (s4, b4)" and a': "change ?go b4 = Some (s, a')"
    by (rule and_do_ok [OF run3 assms(2)])
  have last: "ag_registry a' = ag_registry b3" "agent_view a' = agent_view b3" "ag_started a'"
    using a' b4 by (auto simp: change_def return_def agent_view_def agent_schedule_def)
  show thesis
    by (rule that [OF b1 b2])
      (use last persist_own_cluster.keeps_registry [OF b3] persist_own_cluster.keeps_grants [OF b3]
        persist_own_cluster.keeps_view [OF b3] in simp_all)
qed

lemma agent_start_cold:
  assumes "agent_start directory listening a = Some (s, a')" "is_ok s" "ag_registry a = empty_registry"
  shows "registry_ok (ag_registry a')" "nothing_enforced (ag_registry a')" "ag_started a'"
proof -
  obtain s1 b1 s2 b2 where b: "agent_load_state directory a = Some (s1, b1)"
    "agent_begin_incarnation b1 = Some (s2, b2)" "is_ok s2"
    "registry_ok (ag_registry b2) \<Longrightarrow> registry_ok (ag_registry a')"
    "rg_grants (ag_registry a') = rg_grants (ag_registry b2)" "ag_started a'"
    using agent_start_chain [OF assms(1,2)] by metis
  note begun = begin_incarnation_result [OF b(2,3) agent_load_state_keeps [OF b(1) assms(3)]]
  show "registry_ok (ag_registry a')" "nothing_enforced (ag_registry a')" "ag_started a'"
    using begun b(4,6) nothing_enforced_grants [OF b(5)] by simp_all
qed

lemma agent_start_identity:
  assumes "agent_start directory listening a = Some (s, a')" "is_ok s"
    and "store_open (ag_answers a (ag_calls a)) directory (ag_identities a (ag_drawn a)) (agent_options (ag_config a)) (ag_disk a)
      = Some (Inr (ds, rec), disk)"
  shows "ag_term a' = after_sequence (sm_term (re_meta rec))"
    "find_cluster (re_registry rec) (af_cluster (ag_config a)) = Some previous \<Longrightarrow>
      cl_generation previous < ag_generation a' \<or> cl_generation previous = - 1"
proof -
  obtain s1 b1 s2 b2 where b: "agent_load_state directory a = Some (s1, b1)"
    "agent_begin_incarnation b1 = Some (s2, b2)" "is_ok s2" "agent_view a' = agent_view b2"
    using agent_start_chain [OF assms(1,2)] by metis
  have loaded: "ag_registry b1 = re_registry rec" "ag_recovery b1 = rec\<lparr>re_registry := empty_registry\<rparr>"
    "ag_config b1 = ag_config a"
    using agent_load_state_recovered [OF b(1) assms(3)] by simp_all
  have "registry_ok (ag_registry b1)" "\<not> re_recovered_from_store (ag_recovery b1) \<Longrightarrow> ag_registry b1 = empty_registry"
    using store_open_keeps [OF assms(3)] loaded by simp_all
  note begun = begin_incarnation_result [OF b(2,3) this]
  have same: "ag_term a' = ag_term b2" "ag_generation a' = ag_generation b2" using b(4) by (simp_all add: agent_view_def)
  have "ag_term b2 = after_sequence (sm_term (re_meta (ag_recovery b1)))" using begun by blast
  then show "ag_term a' = after_sequence (sm_term (re_meta rec))" using loaded(2) same(1) by simp
  assume "find_cluster (re_registry rec) (af_cluster (ag_config a)) = Some previous"
  then have "local_cluster b1 = Some previous" using loaded by (simp add: local_cluster_def)
  then show "cl_generation previous < ag_generation a' \<or> cl_generation previous = - 1" unfolding same(2) using begun by blast
qed

section \<open>Reachable states\<close>

definition bound_here :: "agent \<Rightarrow> grant_record \<Rightarrow> bool" where
  "bound_here a g \<longleftrightarrow> fst (gr_incarnations g) = ag_incarnation a \<or> snd (gr_incarnations g) = ag_incarnation a"

definition agent_sound :: "agent \<Rightarrow> bool" where
  "agent_sound a \<longleftrightarrow> registry_ok (ag_registry a)
    \<and> (\<forall>key g. find_grant (ag_registry a) key = Some g \<longrightarrow> live_on_disk g \<longrightarrow> bound_here a g)"

lemma lapses_live: "grant_lapses g g' \<Longrightarrow> live_on_disk g' \<Longrightarrow> live_on_disk g \<and> gr_incarnations g' = gr_incarnations g"
  by (auto simp: grant_lapses_def grant_binding_def live_on_disk_def taken_out_def)

lemma admitted_bound:
  assumes "refusal_of_grant a g = None"
  shows "bound_here a g"
  using assms by (auto simp: refusal_of_grant_def bound_here_def party_at_def own_side_def split: option.splits if_splits)

lemma agent_step_sound:
  assumes "agent_step a a'" "agent_sound a"
  shows "agent_sound a' \<and> ag_incarnation a' = ag_incarnation a"
proof -
  have ok: "registry_ok (ag_registry a)" using assms(2) by (simp add: agent_sound_def)
  show ?thesis
    using assms(1) ok
  proof (cases rule: agent_step_moves)
    case moves
    have "bound_here a' g'" if "find_grant (ag_registry a') key = Some g'" "live_on_disk g'" for key g'
    proof -
      have f: "om_find (rg_grants (ag_registry a')) key = Some g'" using that(1) by (simp add: find_grant_def)
      have t: "table_evolves grant_lapses (rg_grants (ag_registry a)) (rg_grants (ag_registry a'))"
        using moves ok by (simp add: agent_moves_def)
      obtain g where "om_find (rg_grants (ag_registry a)) key = Some g" "grant_lapses g g'"
        using table_evolves_back [OF t f] by auto
      then have "bound_here a g" "gr_incarnations g' = gr_incarnations g"
        using assms(2) lapses_live [OF _ that(2)] by (auto simp: agent_sound_def find_grant_def)
      then show ?thesis using moves ok by (simp add: bound_here_def agent_moves_def)
    qed
    then show ?thesis using moves ok by (auto simp: agent_sound_def agent_moves_def)
  next
    case (prepares g)
    then show ?thesis
      using assms(2) admitted_bound [of a g]
      by (auto simp: agent_sound_def prepares_def find_grant_def om_find_put agent_view_def bound_here_def prepared_grant_def
          split: if_split_asm)
  next
    case (installs m g)
    have "live_on_disk g" using installs(1) by (auto simp: installs_def live_on_disk_def)
    then have "bound_here a g" using installs(1) assms(2) by (auto simp: installs_def agent_sound_def)
    then show ?thesis
      using assms(2) installs(1)
      by (auto simp: agent_sound_def installs_def find_grant_def om_find_put agent_view_def bound_here_def installed_grant_def
          split: if_split_asm)
  qed
qed

lemma agent_run_sound:
  assumes "agent_step\<^sup>*\<^sup>* a a'" "agent_sound a"
  shows "agent_sound a' \<and> ag_incarnation a' = ag_incarnation a"
  using assms by (induction rule: rtranclp_induct) (auto dest: agent_step_sound)

end
