(* ===== verification/Agent_Progress.thy ===== *)
theory Agent_Progress
  imports Agent_Start Commit_Progress
begin

text \<open>
  Progress of the agent when the file calls succeed: \<open>agent_roomy n\<close> says that the log is open, that the
  file calls succeed and that \<open>n\<close> more records of up to 2048 bytes fit, which is more than a grant or an audit
  record takes. Under it the agent starts on an empty disk, and a
  re-evaluation reaches every grant.
\<close>

section \<open>Room in the log\<close>

definition agent_roomy :: "nat \<Rightarrow> agent \<Rightarrow> bool" where
  "agent_roomy n a \<longleftrightarrow>
    ds_open (ag_store a) \<and> log_room 2048 n (ds_wal (ag_store a)) \<and> (\<forall>k. os_well (ag_answers a k) (2 ^ 21))"

lemma agent_roomy_less: "agent_roomy n a \<Longrightarrow> m \<le> n \<Longrightarrow> agent_roomy m a"
  by (auto simp: agent_roomy_def intro: log_room_less)

lemma agent_append_room:
  assumes "agent_roomy (Suc n) a" "length (encode_mutation m) \<le> 2048"
  obtains ds disk where
    "agent_append m a = Some (status_ok, a\<lparr>ag_store := ds, ag_disk := disk, ag_calls := Suc (ag_calls a)\<rparr>)"
    "agent_roomy n (a\<lparr>ag_store := ds, ag_disk := disk, ag_calls := Suc (ag_calls a)\<rparr>)"
proof -
  obtain q ds disk where "store_append (ag_answers a (ag_calls a)) m (ag_now a) (ag_store a) (ag_disk a) = (Inr q, ds, disk)"
    "ds_open ds" "log_room 2048 n (ds_wal ds)"
    using assms store_append_room [of "ag_store a" 2048 n "ag_answers a (ag_calls a)" m "ag_now a" "ag_disk a"]
    by (auto simp: agent_roomy_def kMaxStoreRecordPayload_def)
  with assms(1) show ?thesis by (intro that [where ds = ds and disk = disk]) (simp_all add: agent_append_def agent_roomy_def)
qed

lemma agent_audit_room:
  assumes "agent_roomy (Suc n) a" "rg_audit (ag_registry a) = [] \<or> au_sequence (last (rg_audit (ag_registry a))) \<noteq> - 1"
  obtains a' where "agent_audit what subject out detail a = Some (status_ok, a')" "agent_roomy n a'"
proof (cases "length (rg_audit (ag_registry a)) \<ge> kMaxAuditRecords")
  case True
  then show ?thesis using agent_roomy_less [OF assms(1), of n] by (intro that [of a]) (simp_all add: agent_audit_def)
next
  case False
  then have few: "length (rg_audit (ag_registry a)) < kMaxAuditRecords" by simp
  obtain e where e: "append_audit (ag_now a) (af_cluster (ag_config a)) what subject out detail (ag_registry a)
      = Some (status_ok, (ag_registry a)\<lparr>rg_audit := rg_audit (ag_registry a) @ [e]\<rparr>)"
    "length (encode_mutation (Mutation_AuditAppend e)) \<le> 2048"
    by (rule append_audit_fits [OF assms(2) few])
  let ?a = "a\<lparr>ag_registry := (ag_registry a)\<lparr>rg_audit := rg_audit (ag_registry a) @ [e]\<rparr>\<rparr>"
  have "agent_roomy (Suc n) ?a" using assms(1) by (simp add: agent_roomy_def)
  from agent_append_room [OF this e(2)] obtain ds disk where
    "agent_append (Mutation_AuditAppend e) ?a = Some (status_ok, ?a\<lparr>ag_store := ds, ag_disk := disk, ag_calls := Suc (ag_calls ?a)\<rparr>)"
    "agent_roomy n (?a\<lparr>ag_store := ds, ag_disk := disk, ag_calls := Suc (ag_calls ?a)\<rparr>)" .
  then show ?thesis using e(1) False
    by (intro that [of "?a\<lparr>ag_store := ds, ag_disk := disk, ag_calls := Suc (ag_calls ?a)\<rparr>"]) (simp_all add: agent_audit_def)
qed

section \<open>Loops\<close>

lemma noted_fits:
  assumes "grant_wire g" "length words \<le> 512"
  shows "length (encode_mutation (Mutation_GrantPut (g\<lparr>gr_state := state, gr_note := words\<rparr>))) \<le> 2048"
  using assms(1) [unfolded grant_wire_def binding_wire_def] assms(2)
  by (simp add: encode_mutation_def encode_grant_def encode_binding_def length_provenance wire_lengths(1-3)
      kMaxStoreRecordPayload_def)

lemma keep_grant_room:
  assumes "agent_roomy (Suc n) a" "grant_wire g" "length words \<le> 512"
  obtains a' where "keep_grant key (g\<lparr>gr_state := state, gr_note := words\<rparr>) a = Some (status_ok, a')" "agent_roomy n a'"
proof -
  let ?g = "g\<lparr>gr_state := state, gr_note := words\<rparr>"
  let ?a = "a\<lparr>ag_registry := (ag_registry a)\<lparr>rg_grants := om_put key ?g (rg_grants (ag_registry a))\<rparr>\<rparr>"
  have "agent_roomy (Suc n) ?a" using assms(1) by (simp add: agent_roomy_def)
  from agent_append_room [OF this noted_fits [OF assms(2,3), of state]] that show ?thesis
    by (auto simp: keep_grant_def)
qed

lemma for_grants_room:
  assumes body: "\<And>key g a n. agent_roomy (Suc n) a \<Longrightarrow> grant_wire g \<Longrightarrow>
      \<exists>a'. body key g a = Some (status_ok, a') \<and> agent_roomy n a'"
  shows "agent_roomy (n + length xs) a \<Longrightarrow> \<forall>(k, g) \<in> set xs. grant_wire g \<Longrightarrow>
    \<exists>a'. for_grants body xs a = Some (status_ok, a') \<and> agent_roomy n a'"
proof (induction xs arbitrary: a)
  case (Cons e xs)
  obtain key g where e: "e = (key, g)" by fastforce
  obtain a1 where "body key g a = Some (status_ok, a1)" "agent_roomy (n + length xs) a1"
    using body [of "n + length xs" a g key] Cons.prems by (auto simp: e)
  with Cons show ?case by (auto simp: e and_do_def)
qed (simp add: return_def)

lemma reevaluate_grant_room:
  assumes "agent_roomy (Suc n) a" "grant_wire g" "length reason \<le> 512"
  shows "\<exists>a'. reevaluate_grant reason key g a = Some (status_ok, a') \<and> agent_roomy n a'"
proof -
  have room: "agent_roomy (Suc n) (count_fence a)" using assms(1) by (simp add: agent_roomy_def count_fence_def)
  have "\<not> (gr_state g = GrantState_Committed \<and> grant_enforceable a g)" by (auto simp: grant_enforceable_def)
  moreover have "agent_roomy n a" using agent_roomy_less [OF assms(1)] by simp
  moreover obtain a1 where "keep_grant key (g\<lparr>gr_state := GrantState_Expired, gr_note := ''the lease elapsed''\<rparr>) (count_fence a)
      = Some (status_ok, a1)" "agent_roomy n a1"
    by (rule keep_grant_room [OF room assms(2), where words = "''the lease elapsed''" and state = GrantState_Expired and key = key]) simp_all
  moreover obtain a2 where "keep_grant key (g\<lparr>gr_state := GrantState_Fenced, gr_note := reason\<rparr>) (count_fence a)
      = Some (status_ok, a2)" "agent_roomy n a2"
    by (rule keep_grant_room [OF room assms(2,3), where state = GrantState_Fenced and key = key])
  ultimately show ?thesis by (auto simp: reevaluate_grant_def)
qed

lemma reevaluate_room:
  assumes "agent_roomy (n + length (rg_grants (ag_registry a))) a" "\<forall>(k, g) \<in> set (rg_grants (ag_registry a)). grant_wire g"
    "length reason \<le> 512"
  shows "\<exists>a'. reevaluate_enforcement reason a = Some (status_ok, a') \<and> agent_roomy n a'"
  unfolding reevaluate_enforcement_def each_grant_def
  by (rule for_grants_room [OF _ assms(1,2)]) (use reevaluate_grant_room [OF _ _ assms(3)] in blast)

lemma fence_out_of_term_room:
  assumes "agent_roomy (Suc n) a" "grant_wire g"
  shows "\<exists>a'. fence_out_of_term term key g a = Some (status_ok, a') \<and> agent_roomy n a'"
proof -
  have room: "agent_roomy (Suc n) (count_fence a)" using assms(1) by (simp add: agent_roomy_def count_fence_def)
  let ?why = "''the coordinator established a new authority term; this grant was not revalidated''"
  have "agent_roomy n a" using agent_roomy_less [OF assms(1)] by simp
  moreover obtain b where "keep_grant key (g\<lparr>gr_state := GrantState_Fenced, gr_note := ?why\<rparr>) (count_fence a) = Some (status_ok, b)"
    "agent_roomy n b"
    by (rule keep_grant_room [OF room assms(2), where words = ?why and state = GrantState_Fenced and key = key]) simp_all
  ultimately show ?thesis by (auto simp: fence_out_of_term_def)
qed

lemma fence_not_revalidated_room:
  assumes ok: "registry_ok (ag_registry a)" and wire: "\<forall>(k, g) \<in> set (rg_grants (ag_registry a)). grant_wire g"
    and room: "agent_roomy (Suc (length (rg_grants (ag_registry a)))) a"
    and trail: "rg_audit (ag_registry a) = [] \<or> au_sequence (last (rg_audit (ag_registry a))) \<noteq> - 1"
  obtains a' where "fence_not_revalidated term a = Some (status_ok, a')" "agent_view a' = agent_view a"
    "\<And>key g. find_grant (ag_registry a') key = Some g \<Longrightarrow> \<not> out_of_term term g"
proof -
  have "agent_roomy (Suc 0 + length (rg_grants (ag_registry a))) a" using room by simp
  then obtain b where b: "each_grant (fence_out_of_term term) a = Some (status_ok, b)" "agent_roomy (Suc 0) b"
    unfolding each_grant_def
    using for_grants_room [where body = "fence_out_of_term term", OF fence_out_of_term_room _ wire, of "Suc 0"] by blast
  note looped = term_loop.each_looped [OF b(1) ok, unfolded term_loop.looped_def]
  have fenced: "\<not> out_of_term term g" if "find_grant (ag_registry b) key = Some g" for key g
    using term_loop.each_post [OF b(1) ok _ that] by simp
  let ?n = "length (filter (out_of_term term) (map snd (rg_grants (ag_registry a))))"
  let ?audit = "agent_audit ''fence-term-change'' (uuid_to_string (ag_incarnation a)) Outcome_Fenced
    (decimal ?n @ '' grants fenced under the previous authority term'')"
  have "rg_audit (ag_registry b) = [] \<or> au_sequence (last (rg_audit (ag_registry b))) \<noteq> - 1" using trail looped by simp
  then obtain c where c: "?audit b = Some (status_ok, c)" using agent_audit_room [OF b(2)] by blast
  have kept: "find_grant (ag_registry c) = find_grant (ag_registry b)" "agent_view c = agent_view b"
    using agent_audit.keeps_grants [OF c] agent_audit.keeps_view [OF c] by (simp_all add: find_grant_def fun_eq_iff)
  show thesis
  proof (cases "?n > 0")
    case True
    show ?thesis
      by (rule that [of c]) (use b(1) c True kept looped fenced in \<open>simp_all add: fence_not_revalidated_def and_do_def Let_def\<close>)
  next
    case False
    show ?thesis
      by (rule that [of b]) (use b(1) False looped fenced in \<open>simp_all add: fence_not_revalidated_def and_do_def return_def Let_def\<close>)
  qed
qed

section \<open>The tick\<close>

definition same_store :: "agent \<Rightarrow> agent \<Rightarrow> bool" where
  "same_store a a' \<longleftrightarrow> ag_store a' = ag_store a \<and> ag_answers a' = ag_answers a \<and> ag_registry a' = ag_registry a
    \<and> agent_view a' = agent_view a"

lemma send_message_store: "\<exists>s a'. send_message type payload a = Some (s, a') \<and> same_store a a'"
  by (auto simp: send_message_def agent_queue_def same_store_def agent_view_def split: option.split prod.split)

lemma connect_store: "\<exists>s a'. connect_to_coordinator opened a = Some (s, a') \<and> same_store a a'"
proof -
  define a1 where "a1 l key = a\<lparr>ag_loop := l, ag_coordinator_connection := key, ag_handshake_complete := False,
    ag_coordinator_connected := False\<rparr>" for l key
  have "same_store a (a1 l key)" for l key by (simp add: same_store_def a1_def agent_view_def)
  then have "\<exists>s a'. send_message MessageType_Hello (encode_hello (own_hello (a1 l key))) (a1 l key) = Some (s, a')
      \<and> same_store a a'" for l key
    using send_message_store [of MessageType_Hello "encode_hello (own_hello (a1 l key))" "a1 l key"]
    by (auto simp: same_store_def)
  then have "\<exists>s a'. and_do (\<lambda>a'. send_message MessageType_Hello (encode_hello (own_hello a')) a')
      (change (\<lambda>a'. agent_schedule (af_handshake_deadline (ag_config a')) Timer_Handshake a')) (a1 l key) = Some (s, a')
      \<and> same_store a a'" for l key
    by (fastforce simp: and_do_def change_def same_store_def agent_schedule_def agent_view_def split: option.split)
  then show ?thesis
    by (auto simp: connect_to_coordinator_def Let_def a1_def [symmetric] split: prod.split sum.split)
      (auto simp: same_store_def agent_schedule_def agent_view_def)
qed

lemma scheduled_timer:
  "om_find (el_timers (ag_loop (agent_schedule delay timer a)))
    (timestamp_plus (ag_now a) delay, el_next_timer (ag_loop a)) = Some timer"
  by (simp add: agent_schedule_def schedule_def Let_def om_find_put)

lemma agent_tick_room:
  assumes ok: "registry_ok (ag_registry a)" and wire: "\<forall>(k, g) \<in> set (rg_grants (ag_registry a)). grant_wire g"
    and room: "agent_roomy (length (rg_grants (ag_registry a))) a"
  obtains a' where "agent_tick opened a = Some a'"
    "\<And>key g. find_grant (ag_registry a') key = Some g \<Longrightarrow> gr_state g = GrantState_Active \<Longrightarrow> grant_enforceable a' g"
    "\<exists>n. om_find (el_timers (ag_loop a')) (timestamp_plus (ag_now a) kAgentTickInterval, n) = Some Timer_Tick"
proof -
  define connected where "connected =
    (if \<not> ag_coordinator_connected a \<and> \<not> ag_connect_scheduled a
     then map_option (\<lambda>(s, a'). if is_ok s then a' else a'\<lparr>ag_connect_scheduled := True\<rparr>) (connect_to_coordinator opened a)
     else Some a)"
  have "\<exists>b. connected = Some b \<and> same_store a b"
  proof (cases "\<not> ag_coordinator_connected a \<and> \<not> ag_connect_scheduled a")
    case True
    obtain s c where "connect_to_coordinator opened a = Some (s, c)" "same_store a c" using connect_store by blast
    then show ?thesis using True by (auto simp: connected_def same_store_def agent_view_def)
  qed (auto simp: connected_def same_store_def)
  then obtain b where b: "connected = Some b" "same_store a b" by blast
  let ?why = "''the grant is no longer enforceable locally''"
  have "agent_roomy (0 + length (rg_grants (ag_registry b))) b" "\<forall>(k, g) \<in> set (rg_grants (ag_registry b)). grant_wire g"
    "registry_ok (ag_registry b)" using assms b(2) by (simp_all add: same_store_def agent_roomy_def)
  then obtain c where c: "reevaluate_enforcement ?why b = Some (status_ok, c)" using reevaluate_room [of 0 b ?why] by auto
  note each = c [unfolded reevaluate_enforcement_def]
  let ?a = "agent_schedule kAgentTickInterval Timer_Tick (agent_compact c)"
  have view: "agent_view c = agent_view a"
    using reevaluation.each_view [OF each] \<open>registry_ok (ag_registry b)\<close> b(2) by (simp add: same_store_def)
  then have now: "ag_now (agent_compact c) = ag_now a"
    using agent_compact_view(2) [of c] by (simp add: agent_view_def)
  show thesis
  proof (rule that [of ?a])
    show "agent_tick opened a = Some ?a"
      using b(1) c by (simp add: agent_tick_def connected_def [symmetric])
    show "grant_enforceable ?a g" if "find_grant (ag_registry ?a) key = Some g" "gr_state g = GrantState_Active" for key g
    proof -
      have "grant_enforceable c g"
        using reevaluation.each_post [OF each \<open>registry_ok (ag_registry b)\<close>] that by simp
      then show ?thesis using enforceable_view [of ?a c g] by simp
    qed
    show "\<exists>n. om_find (el_timers (ag_loop ?a)) (timestamp_plus (ag_now a) kAgentTickInterval, n) = Some Timer_Tick"
      using scheduled_timer [of kAgentTickInterval Timer_Tick "agent_compact c"] now by auto
  qed
qed

section \<open>Starting on an empty disk\<close>

definition plain_config :: "agent_config \<Rightarrow> bool" where
  "plain_config config \<longleftrightarrow>
    name_ok id_tag (af_cluster config) \<and> name_ok id_tag (af_domain config) \<and> af_cluster config \<noteq> []
    \<and> af_domain config \<noteq> [] \<and> af_endpoints config = [] \<and> af_state_directory config \<noteq> []"

lemma length_content_digest [simp]: "length (content_digest_of c) = 32"
  using digest_ok_sha256_hash by (simp add: content_digest_of_def digest_ok_def)

lemma own_record_plain:
  assumes "plain_config (ag_config a)" "local_cluster a = None" "uuid_ok (ag_incarnation a)"
  shows "length (encode_mutation (Mutation_ClusterPut (own_record a))) \<le> 2048"
    "cl_id (own_record a) = af_cluster (ag_config a)" "cl_domain (own_record a) = af_domain (ag_config a)"
    "cl_endpoints (own_record a) = []"
  using assms name_length(1) [of "af_cluster (ag_config a)"] name_length(1) [of "af_domain (ag_config a)"] length_count [of 0]
  by (simp_all add: own_record_def plain_config_def blank_cluster_def Let_def encode_mutation_def encode_cluster_def
      kMaxStoreRecordPayload_def wire_lengths length_provenance encode_provenance_def default_provenance_def
      uuid_ok_def w_uuid_def w_raw_def nil_uuid_def zero_digest_def w_digest_def digest_ok_def)

lemma persist_own_cluster_room:
  assumes "agent_roomy (Suc n) a" "plain_config (ag_config a)" "rg_clusters (ag_registry a) = []" "uuid_ok (ag_incarnation a)"
  obtains a' where "persist_own_cluster a = Some (status_ok, a')" "agent_roomy n a'"
proof -
  have none: "local_cluster a = None" using assms(3) by (simp add: local_cluster_def find_cluster_def)
  note own = own_record_plain [OF assms(2) none assms(4)]
  let ?r = "(ag_registry a)\<lparr>rg_clusters := [(af_cluster (ag_config a), own_record a)]\<rparr>"
  have same: "(own_record a)\<lparr>cl_endpoints := []\<rparr> = own_record a" using own(4) by simp
  have put: "put_cluster (own_record a) (ag_registry a) = (status_ok, ?r)"
    using own assms(2,3) same by (simp add: put_cluster_def plain_config_def insert_bounded_def kMaxClusters_def Let_def)
  have found: "find_cluster ?r (af_cluster (ag_config a)) = Some (own_record a)" by (simp add: find_cluster_def)
  have room: "agent_roomy (Suc n) (a\<lparr>ag_registry := ?r\<rparr>)" using assms(1) by (simp add: agent_roomy_def)
  obtain a' where "agent_append (Mutation_ClusterPut (own_record a)) (a\<lparr>ag_registry := ?r\<rparr>) = Some (status_ok, a')" "agent_roomy n a'"
    by (rule agent_append_room [OF room own(1)])
  then show ?thesis using put found by (intro that [of a']) (simp_all add: persist_own_cluster_def)
qed

lemma persist_own_cluster_trail:
  assumes "persist_own_cluster a = Some (s, a')"
  shows "rg_audit (ag_registry a') = rg_audit (ag_registry a)"
proof -
  have "ag_registry a' = snd (put_cluster (own_record a) (ag_registry a))"
    using assms by (auto simp: persist_own_cluster_def split: if_splits option.splits prod.splits dest!: agent_append.same_registry)
  then show ?thesis by (simp add: put_cluster_def Let_def split_beta)
qed

lemma agent_append_meta_room:
  assumes "agent_roomy (Suc n) a" "uuid_ok (ag_incarnation a)"
  obtains ds disk where
    "agent_append_meta a = Some (status_ok, a\<lparr>ag_store := ds, ag_disk := disk, ag_calls := Suc (ag_calls a)\<rparr>)"
    "agent_roomy n (a\<lparr>ag_store := ds, ag_disk := disk, ag_calls := Suc (ag_calls a)\<rparr>)"
proof -
  let ?m = "Mutation_MetaSet (ag_term a) (ag_incarnation a)"
  have fits: "length (encode_mutation ?m) \<le> 2048"
    using assms(2) by (simp add: encode_mutation_def kMaxStoreRecordPayload_def uuid_ok_def w_uuid_def w_raw_def)
  obtain q ds disk where "store_append (ag_answers a (ag_calls a)) ?m (ag_started_at a) (ag_store a) (ag_disk a) = (Inr q, ds, disk)"
    "ds_open ds" "log_room 2048 n (ds_wal ds)"
    using assms(1) fits store_append_room [of "ag_store a" 2048 n "ag_answers a (ag_calls a)" ?m "ag_started_at a" "ag_disk a"]
    by (auto simp: agent_roomy_def kMaxStoreRecordPayload_def)
  then show ?thesis using assms(1)
    by (intro that [where ds = ds and disk = disk]) (simp_all add: agent_append_meta_def append_meta_def agent_roomy_def Let_def)
qed

lemma agent_audit_clusters:
  assumes "agent_audit what subject out detail a = Some (s, a')"
  shows "rg_clusters (ag_registry a') = rg_clusters (ag_registry a)"
proof -
  have "rg_clusters r = rg_clusters (ag_registry a)"
    if "append_audit (ag_now a) (af_cluster (ag_config a)) what subject out detail (ag_registry a) = Some (t, r)" for t r
    using append_audit_frame [OF that] by auto
  then show ?thesis
    using assms by (auto simp: agent_audit_def split: if_splits option.splits dest!: agent_append.same_registry)
qed

lemma agent_begin_fresh:
  assumes "agent_roomy (Suc (Suc n)) a" "\<not> re_recovered_from_store (ag_recovery a)" "ag_registry a = empty_registry"
    and "uuid_ok (ag_identities a (ag_drawn a))"
  obtains a' where "agent_begin_incarnation a = Some (status_ok, a')" "agent_roomy n a'"
    "rg_clusters (ag_registry a') = []" "ag_config a' = ag_config a" "uuid_ok (ag_incarnation a')"
proof -
  define a2 where "a2 = (snd (agent_draw a))\<lparr>ag_term := after_sequence (sm_term (re_meta (ag_recovery a))),
     ag_incarnation := fst (agent_draw a), ag_generation := af_generation (ag_config a),
     ag_policy_generation := af_policy_generation (ag_config a),
     ag_cluster_state := af_state (ag_config a), ag_started_at := ag_now a\<rparr>"
  have resumed: "resume_identity a2 = Some (status_ok, a2)"
    using assms(3) by (simp add: resume_identity_def local_cluster_def find_cluster_def a2_def agent_draw_def empty_registry_def)
  have "agent_roomy (Suc (Suc n)) a2" "uuid_ok (ag_incarnation a2)"
    using assms(1,4) by (simp_all add: a2_def agent_draw_def agent_roomy_def)
  from agent_append_meta_room [OF this] obtain ds disk where
    meta: "agent_append_meta a2 = Some (status_ok, a2\<lparr>ag_store := ds, ag_disk := disk, ag_calls := Suc (ag_calls a2)\<rparr>)"
    and room: "agent_roomy (Suc n) (a2\<lparr>ag_store := ds, ag_disk := disk, ag_calls := Suc (ag_calls a2)\<rparr>)" .
  let ?a3 = "a2\<lparr>ag_store := ds, ag_disk := disk, ag_calls := Suc (ag_calls a2)\<rparr>"
  have fresh: "rg_audit (ag_registry ?a3) = [] \<or> au_sequence (last (rg_audit (ag_registry ?a3))) \<noteq> - 1"
    using assms(3) by (simp add: a2_def agent_draw_def empty_registry_def)
  obtain a4 where audited: "agent_audit ''begin-incarnation'' (uuid_to_string (fst (agent_draw a))) Outcome_Ok
     (''term='' @ decimal (unat (ag_term a2))) ?a3 = Some (status_ok, a4)" "agent_roomy n a4"
    by (rule agent_audit_room [OF room fresh])
  have "agent_view a4 = agent_view ?a3" by (rule agent_audit.keeps_view [OF audited(1)])
  then have "ag_config a4 = ag_config a" "uuid_ok (ag_incarnation a4)"
    using assms(4) by (simp_all add: agent_view_def a2_def agent_draw_def)
  moreover have "rg_clusters (ag_registry a4) = []"
    using agent_audit_clusters [OF audited(1)] assms(3) by (simp add: a2_def agent_draw_def empty_registry_def)
  moreover have "agent_begin_incarnation a = Some (status_ok, a4)"
    using resumed meta assms(2) audited(1)
    by (simp add: agent_begin_incarnation_def Let_def split_beta a2_def [symmetric] and_do_def return_def)
  ultimately show ?thesis using audited(2) that by blast
qed

lemma agent_start_fresh:
  assumes "\<not> ag_started a" "ag_disk a = (\<lambda>_. None)" "plain_config (ag_config a)"
    and "\<forall>k. os_well (ag_answers a k) (2 ^ 21)" "\<forall>k. uuid_ok (ag_identities a k)"
  shows "\<exists>a'. agent_start status_ok status_ok a = Some (status_ok, a')"
proof -
  let ?os = "ag_answers a (ag_calls a)" and ?options = "agent_options (ag_config a)"
  have dir: "so_directory ?options \<noteq> []" using assms(3) by (simp add: agent_options_def plain_config_def)
  have os: "os_well ?os (2 ^ 21)" and stream: "uuid_ok (ag_identities a (ag_drawn a))" using assms(4,5) by simp_all
  from store_open_fresh [OF dir os stream] obtain disk where opened:
    "store_open ?os status_ok (ag_identities a (ag_drawn a)) ?options (\<lambda>_. None) =
      Some (Inr (\<lparr>ds_options = ?options, ds_wal = opened_wal (log_options ?options) (word_of_nat kWalHeaderSize) 0 0,
          ds_next_sequence = 1, ds_open = True\<rparr>,
        conclude (no_recovery\<lparr>wr_created := True\<rparr>) (fresh_recovery\<lparr>re_created_fresh := True\<rparr>)), disk)" .
  then obtain a1 where a1: "agent_load_state status_ok a = Some (status_ok, a1)"
    "ag_store a1 = \<lparr>ds_options = ?options, ds_wal = opened_wal (log_options ?options) (word_of_nat kWalHeaderSize) 0 0,
          ds_next_sequence = 1, ds_open = True\<rparr>"
    "ag_registry a1 = empty_registry" "\<not> re_recovered_from_store (ag_recovery a1)"
    "ag_answers a1 = ag_answers a" "ag_identities a1 = ag_identities a" "ag_config a1 = ag_config a"
    using assms(2) by (auto simp: agent_load_state_def agent_draw_def conclude_recovered no_recovery_def fresh_recovery_def)
  have "log_room 2048 255 (ds_wal (ag_store a1))"
    by (simp add: a1(2) log_room_def store_limits opened_wal_def effective_options_def log_options_def kWalHeaderSize_def)
  then have "agent_roomy (Suc (Suc (Suc 252))) a1" using assms(4) a1(2,5) by (simp add: agent_roomy_def)
  then obtain a2 where a2: "agent_begin_incarnation a1 = Some (status_ok, a2)" "agent_roomy (Suc 252) a2"
    "rg_clusters (ag_registry a2) = []" "ag_config a2 = ag_config a1" "uuid_ok (ag_incarnation a2)"
    by (rule agent_begin_fresh [OF _ a1(4,3)]) (use assms(5) a1(6) in auto)
  obtain a3 where "persist_own_cluster a2 = Some (status_ok, a3)"
    by (rule persist_own_cluster_room [OF a2(2) _ a2(3,5)]) (use assms(3) a1(7) a2(4) in auto)
  then show ?thesis
    using assms(1) a1(1) a2(1) by (simp add: agent_start_def and_do_def return_def change_def)
qed

end
