(* ===== verification/Event_Loop_Laws.thy ===== *)
theory Event_Loop_Laws
  imports Event_Loop
begin

text \<open>
  What the sweep promises its owner: every connection that is closed, or silent past its deadline, is
  reported once and leaves the table; the others stay. The contract asks of the close handler that it
  does not touch the table of connections, and follows the reports through a log of its state.
\<close>

definition idle_status :: status where
  "idle_status = status_make Outcome_Unreachable ''connection idle deadline expired''"

text \<open>Who leaves the table, and the reason reported for it.\<close>

definition swept :: "timestamp \<Rightarrow> connection \<Rightarrow> bool" where
  "swept now c \<longleftrightarrow> cn_closed c \<or> idle_expired now c"

definition sweep_reason :: "connection \<Rightarrow> status" where
  "sweep_reason c = (if cn_closed c then cn_close_reason c else idle_status)"

definition reportable :: "u64 set \<Rightarrow> 'cb event_loop \<Rightarrow> u64 \<Rightarrow> status \<Rightarrow> bool" where
  "reportable keys l key reason \<longleftrightarrow> key \<in> keys \<and>
    (\<exists>c. el_find l key = Some c \<and> cn_closed c \<and> \<not> cn_close_reported c \<and> cn_close_reason c = reason)"

lemma find_erased: "om_find (fold om_erase keys m) k = (if k \<in> set keys then None else om_find m k)"
  by (induction keys arbitrary: m) (simp_all add: om_find_erase)

lemma erased_ok: "om_ok m \<Longrightarrow> om_ok (fold om_erase keys m)"
  by (induction keys arbitrary: m) simp_all

lemma expire_idle_find:
  "el_find (expire_idle now l) k =
    map_option (\<lambda>c. if \<not> cn_closed c \<and> idle_expired now c then close_connection idle_status c else c) (el_find l k)"
  unfolding idle_status_def by (simp add: expire_idle_def el_find_def om_find_map)

lemma expire_idle_pending:
  assumes "om_ok (el_connections l)" "el_pending_erase l = []"
  shows "k \<in> set (el_pending_erase (expire_idle now l)) \<longleftrightarrow> (\<exists>c. el_find l k = Some c \<and> swept now c)"
  using assms by (force simp: expire_idle_def el_find_def swept_def in_om_find [symmetric])

locale close_observer =
  fixes on_close :: "('cb, 's) close_handler" and reports :: "'s \<Rightarrow> (u64 \<times> status) list"
  assumes leaves_table: "el_connections (fst (on_close key reason (l, s))) = el_connections l"
    and leaves_pending: "el_pending_erase (fst (on_close key reason (l, s))) = el_pending_erase l"
    and reported: "reports (snd (on_close key reason (l, s))) = reports s @ [(key, reason)]"
begin

lemma report_closed_result:
  "report_closed on_close keys (l, s) = (l', s') \<Longrightarrow>
    (om_ok (el_connections l) \<longrightarrow> om_ok (el_connections l'))
    \<and> el_pending_erase l' = el_pending_erase l \<and> (\<forall>k. k \<notin> set keys \<longrightarrow> el_find l' k = el_find l k)
    \<and> (\<exists>new. reports s' = reports s @ new \<and> distinct (map fst new)
      \<and> (\<forall>k r. (k, r) \<in> set new \<longleftrightarrow> reportable (set keys) l k r))"
proof (induction keys arbitrary: l s)
  case Nil
  then show ?case by (simp add: reportable_def)
next
  case (Cons key keys)
  show ?case
  proof (cases "\<exists>c. el_find l key = Some c \<and> cn_closed c \<and> \<not> cn_close_reported c")
    case True
    then obtain c where c: "el_find l key = Some c" "cn_closed c" "\<not> cn_close_reported c" by blast
    obtain l1 s1 where step: "on_close key (cn_close_reason c) (el_set key (c\<lparr>cn_close_reported := True\<rparr>) l, s) = (l1, s1)"
      by fastforce
    have find1: "el_find l1 k = (if k = key then Some (c\<lparr>cn_close_reported := True\<rparr>) else el_find l k)" for k
      using leaves_table [of key "cn_close_reason c" "el_set key (c\<lparr>cn_close_reported := True\<rparr>) l" s] step
      by (simp add: el_find_def el_set_def om_find_put)
    have ok1: "om_ok (el_connections l) \<longrightarrow> om_ok (el_connections l1)"
      using leaves_table [of key "cn_close_reason c" "el_set key (c\<lparr>cn_close_reported := True\<rparr>) l" s] step
      by (simp add: el_set_def)
    have pend1: "el_pending_erase l1 = el_pending_erase l"
      using leaves_pending [of key "cn_close_reason c" "el_set key (c\<lparr>cn_close_reported := True\<rparr>) l" s] step
      by (simp add: el_set_def)
    have rep1: "reports s1 = reports s @ [(key, cn_close_reason c)]"
      using reported [of key "cn_close_reason c" "el_set key (c\<lparr>cn_close_reported := True\<rparr>) l" s] step by simp
    have run1: "report_closed on_close keys (l1, s1) = (l', s')" using Cons.prems c step by simp
    obtain new where IH: "om_ok (el_connections l1) \<longrightarrow> om_ok (el_connections l')" "el_pending_erase l' = el_pending_erase l1" "\<forall>k. k \<notin> set keys \<longrightarrow> el_find l' k = el_find l1 k"
      and new: "reports s' = reports s1 @ new" "distinct (map fst new)"
        "\<forall>k r. (k, r) \<in> set new \<longleftrightarrow> reportable (set keys) l1 k r"
      using Cons.IH [OF run1] by blast
    have other: "reportable (set keys) l1 k r \<longleftrightarrow> k \<noteq> key \<and> reportable (set (key # keys)) l k r" for k r
      by (auto simp: reportable_def find1)
    have this_one: "reportable (set (key # keys)) l key r \<longleftrightarrow> r = cn_close_reason c" for r
      using c by (auto simp: reportable_def)
    have "key \<notin> fst ` set new" using new(3) other by auto
    moreover have "(k, r) \<in> set ((key, cn_close_reason c) # new) \<longleftrightarrow> reportable (set (key # keys)) l k r" for k r
      using new(3) other this_one by (cases "k = key") auto
    ultimately have "reports s' = reports s @ ((key, cn_close_reason c) # new)
      \<and> distinct (map fst ((key, cn_close_reason c) # new))
      \<and> (\<forall>k r. (k, r) \<in> set ((key, cn_close_reason c) # new) \<longleftrightarrow> reportable (set (key # keys)) l k r)"
      using new rep1 by simp
    then show ?thesis using IH ok1 pend1 find1 by (intro conjI exI) auto
  next
    case False
    then have run1: "report_closed on_close keys (l, s) = (l', s')"
      using Cons.prems by (auto split: option.splits if_splits)
    have "reportable (set (key # keys)) l k r \<longleftrightarrow> reportable (set keys) l k r" for k r
      using False by (auto simp: reportable_def)
    then show ?thesis using Cons.IH [OF run1] by auto
  qed
qed

lemma report_and_erase_result:
  assumes "report_and_erase on_close (l, s) = (l', s')"
  shows "om_ok (el_connections l) \<Longrightarrow> om_ok (el_connections l')" "el_pending_erase l' = []"
    "el_find l' k = (if k \<in> set (el_pending_erase l) then None else el_find l k)"
    "\<exists>new. reports s' = reports s @ new \<and> distinct (map fst new)
      \<and> (\<forall>k r. (k, r) \<in> set new \<longleftrightarrow> reportable (set (el_pending_erase l)) l k r)"
proof -
  obtain l1 s1 where run: "report_closed on_close (el_pending_erase l) (l, s) = (l1, s1)" by fastforce
  note res = report_closed_result [OF run]
  have l': "l' = l1\<lparr>el_connections := fold om_erase (el_pending_erase l) (el_connections l1), el_pending_erase := []\<rparr>" "s' = s1"
    using assms run by (simp_all add: report_and_erase_def Let_def)
  show "om_ok (el_connections l) \<Longrightarrow> om_ok (el_connections l')" using l' res by (simp add: erased_ok)
  show "el_pending_erase l' = []" using l' by simp
  show "el_find l' k = (if k \<in> set (el_pending_erase l) then None else el_find l k)"
    using l' res by (auto simp: el_find_def find_erased)
  show "\<exists>new. reports s' = reports s @ new \<and> distinct (map fst new)
      \<and> (\<forall>k r. (k, r) \<in> set new \<longleftrightarrow> reportable (set (el_pending_erase l)) l k r)"
    using l' res by blast
qed

lemma sweep_connections_result:
  assumes run: "sweep_connections now on_close (l, s) = (l', s')" and ok: "om_ok (el_connections l)"
  shows "el_pending_erase l' = []"
    "el_find l' k = (case el_find l k of None \<Rightarrow> None
      | Some c \<Rightarrow> if k \<in> set (el_pending_erase l) \<or> swept now c then None else Some c)"
    "\<exists>new. reports s' = reports s @ new \<and> distinct (map fst new)
      \<and> (\<forall>k r. (k, r) \<in> set new \<longleftrightarrow> (\<exists>c. el_find l k = Some c \<and> \<not> cn_close_reported c
          \<and> (cn_closed c \<or> k \<notin> set (el_pending_erase l) \<and> idle_expired now c) \<and> r = sweep_reason c))"
proof -
  obtain l1 s1 where first: "report_and_erase on_close (l, s) = (l1, s1)" by fastforce
  note r1 = report_and_erase_result [OF first]
  let ?l = "expire_idle now l1"
  have second: "report_and_erase on_close (?l, s1) = (l', s')" using run first by (simp add: sweep_connections_def)
  note r2 = report_and_erase_result [OF second] and p1 = expire_idle_pending [OF r1(1) [OF ok] r1(2)]
  show "el_pending_erase l' = []" by (rule r2(2))
  show "el_find l' k = (case el_find l k of None \<Rightarrow> None
      | Some c \<Rightarrow> if k \<in> set (el_pending_erase l) \<or> swept now c then None else Some c)"
    by (auto simp: r2(3) r1(3) p1 expire_idle_find swept_def split: option.split)
  obtain new1 where new1: "reports s1 = reports s @ new1" "distinct (map fst new1)"
    "\<forall>k r. (k, r) \<in> set new1 \<longleftrightarrow> reportable (set (el_pending_erase l)) l k r" using r1(4) by blast
  obtain new2 where new2: "reports s' = reports s1 @ new2" "distinct (map fst new2)"
    "\<forall>k r. (k, r) \<in> set new2 \<longleftrightarrow> reportable (set (el_pending_erase ?l)) ?l k r" using r2(4) by blast
  have late: "reportable (set (el_pending_erase ?l)) ?l k r \<longleftrightarrow> k \<notin> set (el_pending_erase l)
      \<and> (\<exists>c. el_find l k = Some c \<and> \<not> cn_close_reported c \<and> swept now c \<and> r = sweep_reason c)" for k r
    by (cases "el_find l k")
      (auto simp: reportable_def p1 expire_idle_find r1(3) swept_def sweep_reason_def close_connection_def)
  have "fst ` set new1 \<inter> fst ` set new2 = {}" using new1(3) new2(3) late by (auto simp: reportable_def)
  moreover have "(k, r) \<in> set (new1 @ new2) \<longleftrightarrow> (\<exists>c. el_find l k = Some c \<and> \<not> cn_close_reported c
      \<and> (cn_closed c \<or> k \<notin> set (el_pending_erase l) \<and> idle_expired now c) \<and> r = sweep_reason c)" for k r
  proof -
    have "(k, r) \<in> set new1 \<longleftrightarrow> reportable (set (el_pending_erase l)) l k r"
      "(k, r) \<in> set new2 \<longleftrightarrow> reportable (set (el_pending_erase ?l)) ?l k r" using new1(3) new2(3) by blast+
    then show ?thesis unfolding late by (auto simp: reportable_def swept_def sweep_reason_def)
  qed
  ultimately show "\<exists>new. reports s' = reports s @ new \<and> distinct (map fst new)
      \<and> (\<forall>k r. (k, r) \<in> set new \<longleftrightarrow> (\<exists>c. el_find l k = Some c \<and> \<not> cn_close_reported c
          \<and> (cn_closed c \<or> k \<notin> set (el_pending_erase l) \<and> idle_expired now c) \<and> r = sweep_reason c))"
    using new1(1,2) new2(1,2) by (intro exI [of _ "new1 @ new2"]) auto
qed

end

end
