(* ===== verification/Agent_Properties.thy ===== *)
theory Agent_Properties
  imports Agent_Progress Event_Loop_Laws Coordinator_Properties
begin

text \<open>The properties of the cluster agent and of the event loop, and a small agent on which they are instantiated.\<close>

section \<open>A sample agent\<close>

definition sample_agent_config :: agent_config where
  "sample_agent_config = \<lparr>af_cluster = ''a'', af_domain = ''n'', af_generation = 1, af_policy_generation = 1,
     af_state = ClusterState_Active, af_endpoints = [], af_state_directory = ''d'', af_channel_key = [], af_durable = True,
     af_handshake_deadline = 5, af_reconnect_backoff = 5, af_reconnect_backoff_max = 50, af_compact_bytes = 67108864,
     af_compact_records = 65536, af_require_coordinator = True\<rparr>"

definition sample_node :: "registry \<Rightarrow> agent" where
  "sample_node r = \<lparr>ag_config = sample_agent_config, ag_store = sample_store [], ag_recovery = fresh_recovery,
     ag_registry = r, ag_term = 3, ag_incarnation = uid 1, ag_generation = 1, ag_policy_generation = 1,
     ag_cluster_state = ClusterState_Active, ag_started_at = 0, ag_loop = new_loop, ag_roles = [],
     ag_coordinator_connection = 5, ag_coordinator_session = uid 9, ag_coordinator_term = 7,
     ag_coordinator_incarnation = uid 3, ag_coordinator_connected = False, ag_handshake_complete = False, ag_backoff = 5,
     ag_enforced = 0, ag_fences = 0, ag_refusals = 0, ag_revalidations = 0, ag_rejected_frames = 0, ag_errors_received = 0,
     ag_recovered_grants_fenced = 0, ag_started = False, ag_consent_withdrawn = False, ag_connect_scheduled = False,
     ag_disk = (\<lambda>_. None), ag_now = 500, ag_monotonic = 0, ag_answers = (\<lambda>_. sample_os), ag_calls = 0,
     ag_identities = (\<lambda>n. uid (n + 50)), ag_drawn = 0\<rparr>"

lemma sample_node_fields [simp]:
  "ag_registry (sample_node r) = r" "ag_incarnation (sample_node r) = uid 1" "ag_now (sample_node r) = 500"
  "ag_coordinator_connection (sample_node r) = 5" "ag_coordinator_term (sample_node r) = 7"
  "ag_config (sample_node r) = sample_agent_config"
  by (simp_all add: sample_node_def)

lemma sample_node_room: "agent_roomy 255 (sample_node r)"
  by (simp add: agent_roomy_def sample_node_def sample_store_def sample_wal_def log_room_def store_limits effective_options_def
      log_options_def kWalHeaderSize_def sample_options_def)

lemma sample_plain: "plain_config sample_agent_config"
  by (simp add: plain_config_def sample_agent_config_def)

lemma sample_node_starts: "\<exists>a'. agent_start status_ok status_ok (sample_node r) = Some (status_ok, a')"
  by (rule agent_start_fresh) (simp_all add: sample_plain, simp_all add: sample_node_def)

lemma stopped_registry_ok: "registry_ok (stopped_registry state)"
proof -
  have "table_ok (rg_grants sample_registry) kMaxGrants grant_ok" using sample_registry_ok by (rule registry_ok_tables)
  then have "table_ok [(uid 30, stopped_grant state)] kMaxGrants grant_ok"
    by (simp add: table_ok_def sample_registry_def om_ok_def stopped_grant_def grant_ok_def)
  then show ?thesis unfolding stopped_registry_def using sample_registry_ok by (intro registry_ok_update) auto
qed

lemma stopped_registry_wire: "\<forall>(k, g) \<in> set (rg_grants (stopped_registry state)). grant_wire g"
proof -
  have "grant_wire sample_grant" using sample_registry_wire by (simp add: registry_wire_def sample_registry_def)
  then show ?thesis by (simp add: stopped_registry_def stopped_grant_def grant_wire_def)
qed

lemma stopped_registry_trail [simp]: "rg_audit (stopped_registry state) = []"
  by (simp add: stopped_registry_def sample_registry_def)

lemma enforceable_active: "grant_enforceable a g \<Longrightarrow> gr_state g = GrantState_Active"
  by (simp add: grant_enforceable_def split: if_split_asm)

lemma outcome_ok_iff:
  "local_enforcement_outcome a key = Outcome_Ok \<longleftrightarrow> (\<exists>g. find_grant (ag_registry a) key = Some g \<and> grant_enforceable a g)"
  by (cases "find_grant (ag_registry a) key") (auto simp: local_enforcement_outcome_def dest: enforceable_active)

section \<open>Start and restart\<close>

text \<open>
  C9. Whatever the store of an agent holds, the agent that started on it enforces nothing: the registry
  is well formed, no grant counts as enforced, and every enforcement question is answered in the
  negative. Its term follows the recorded term, and its generation lies above the one its cluster had
  before, unless that was the last one there is.
\<close>

theorem agent_start_enforces_nothing:
  assumes "agent_start directory listening a = Some (s, a')" "is_ok s" "ag_registry a = empty_registry"
    and "store_open (ag_answers a (ag_calls a)) directory (ag_identities a (ag_drawn a)) (agent_options (ag_config a)) (ag_disk a)
      = Some (Inr (ds, rec), disk)"
  shows "registry_ok (ag_registry a') \<and> enforced_grant_count a' = 0 \<and> local_enforcement_outcome a' key \<noteq> Outcome_Ok
    \<and> ag_term a' = after_sequence (sm_term (re_meta rec))
    \<and> (case find_cluster (re_registry rec) (af_cluster (ag_config a)) of
         None \<Rightarrow> True
       | Some previous \<Rightarrow> cl_generation previous < ag_generation a' \<or> cl_generation previous = - 1)"
proof -
  note cold = agent_start_cold [OF assms(1-3)]
  have quiet: "\<not> grant_enforceable a' g" if "find_grant (ag_registry a') k = Some g" for k g
    using cold(2) that by (auto simp: nothing_enforced_def live_on_disk_def grant_enforceable_def)
  have "om_ok (rg_grants (ag_registry a'))" by (rule table_ok_om [OF registry_ok_tables(6) [OF cold(1)]])
  then have "enforced_grant_count a' = 0"
    using quiet by (force simp: enforced_grant_count_def find_grant_def in_om_find filter_empty_conv)
  moreover have "local_enforcement_outcome a' key \<noteq> Outcome_Ok"
    using quiet [of key] by (auto simp: local_enforcement_outcome_def split: option.split)
  ultimately show ?thesis
    using cold(1) agent_start_identity [OF assms(1,2,4)] by (simp split: option.split)
qed

theorem agent_start_enforces_nothing_witness:
  "\<exists>a'. agent_start status_ok status_ok (sample_node empty_registry) = Some (status_ok, a')
    \<and> enforced_grant_count a' = 0 \<and> local_enforcement_outcome a' (uid 30) \<noteq> Outcome_Ok \<and> ag_term a' = 1"
proof -
  let ?a = "sample_node empty_registry"
  obtain a' where run: "agent_start status_ok status_ok ?a = Some (status_ok, a')" using sample_node_starts by blast
  have d: "ag_disk ?a = (\<lambda>_. None)" by (simp add: sample_node_def)
  have dir: "so_directory (agent_options (ag_config ?a)) \<noteq> []" by (simp add: agent_options_def sample_agent_config_def)
  have os: "os_well (ag_answers ?a (ag_calls ?a)) (2 ^ 21)" and stream: "uuid_ok (ag_identities ?a (ag_drawn ?a))"
    by (simp_all add: sample_node_def)
  from store_open_fresh [OF dir os stream] obtain ds disk where opened:
    "store_open (ag_answers ?a (ag_calls ?a)) status_ok (ag_identities ?a (ag_drawn ?a)) (agent_options (ag_config ?a)) (ag_disk ?a)
      = Some (Inr (ds, conclude (no_recovery\<lparr>wr_created := True\<rparr>) (fresh_recovery\<lparr>re_created_fresh := True\<rparr>)), disk)"
    unfolding d by blast
  have "after_sequence (sm_term (re_meta (conclude (no_recovery\<lparr>wr_created := True\<rparr>) (fresh_recovery\<lparr>re_created_fresh := True\<rparr>)))) = 1"
    by (simp add: conclude_def fresh_recovery_def no_recovery_def Let_def after_sequence_def counter_next_def counter_increment_def
        default_meta_def)
  then show ?thesis using agent_start_enforces_nothing [OF run _ _ opened, of "uid 30"] run by simp
qed

section \<open>What is enforced\<close>

text \<open>
  C6. After a start, whatever messages, disconnections, timers, operator requests, clock changes and
  turns of the event loop follow, the agent keeps the incarnation it started with, its registry stays
  well formed, and every grant that is prepared, committed or active there is bound to that incarnation
  in the slot of one of its two parties: nothing a former incarnation held is ever enforced again.
\<close>

theorem agent_enforces_own_incarnation:
  assumes "agent_start directory listening a0 = Some (s, a1)" "is_ok s" "ag_registry a0 = empty_registry"
    and "agent_step\<^sup>*\<^sup>* a1 b" "agent_turn opened b = Some a"
  shows "\<forall>c \<in> {b, a}. registry_ok (ag_registry c) \<and> ag_incarnation c = ag_incarnation a1
    \<and> (\<forall>key g. find_grant (ag_registry c) key = Some g \<longrightarrow> live_on_disk g \<longrightarrow> bound_here a1 g)"
proof
  fix c assume "c \<in> {b, a}"
  then have "agent_step\<^sup>*\<^sup>* a1 c" using assms(4) agent_turn_steps [OF assms(5)] by (auto intro: rtranclp_trans)
  moreover have "agent_sound a1"
    using agent_start_cold [OF assms(1-3)] by (simp add: agent_sound_def nothing_enforced_def)
  ultimately have run: "agent_sound c \<and> ag_incarnation c = ag_incarnation a1" by (rule agent_run_sound)
  then have "bound_here c = bound_here a1" by (simp add: bound_here_def fun_eq_iff)
  then show "registry_ok (ag_registry c) \<and> ag_incarnation c = ag_incarnation a1
    \<and> (\<forall>key g. find_grant (ag_registry c) key = Some g \<longrightarrow> live_on_disk g \<longrightarrow> bound_here a1 g)"
    using run by (simp add: agent_sound_def)
qed

theorem agent_enforces_own_incarnation_witness:
  "\<exists>a1 a. agent_start status_ok status_ok (sample_node empty_registry) = Some (status_ok, a1)
    \<and> agent_turn status_ok ((agent_handle_disconnect 5 a1)\<lparr>ag_loop := new_loop\<rparr>) = Some a
    \<and> registry_ok (ag_registry a) \<and> ag_incarnation a = ag_incarnation a1"
proof -
  obtain a1 where run: "agent_start status_ok status_ok (sample_node empty_registry) = Some (status_ok, a1)"
    using sample_node_starts by blast
  let ?b = "(agent_handle_disconnect 5 a1)\<lparr>ag_loop := new_loop\<rparr>"
  have "agent_step\<^sup>*\<^sup>* a1 (agent_handle_disconnect 5 a1)" using agent_step.lost [of a1 5] by (rule r_into_rtranclp)
  then have steps: "agent_step\<^sup>*\<^sup>* a1 ?b" using loop_step by (rule rtranclp.rtrancl_into_rtrancl)
  have turn: "\<exists>a. agent_turn status_ok ?b = Some a"
    by (simp add: agent_turn_def new_loop_def fire_due_timers_def sweep_connections_def report_and_erase_def expire_idle_def om_map_def)
  then obtain a where "agent_turn status_ok ?b = Some a" ..
  with agent_enforces_own_incarnation [OF run _ _ steps this] run show ?thesis by auto
qed

text \<open>
  C7. A grant becomes active at an agent only by a commit that arrives on the connection to the
  coordinator and names that grant and the attempt the agent has recorded as prepared; what it is bound
  to (contract, terms, incarnations, generations, term, capacity, lease) does not change.
\<close>

theorem activation_needs_commit:
  assumes "agent_step a a'" "registry_ok (ag_registry a)"
    and "find_grant (ag_registry a') key = Some g'" "gr_state g' = GrantState_Active"
    and "\<And>g. find_grant (ag_registry a) key = Some g \<Longrightarrow> gr_state g \<noteq> GrantState_Active"
  shows "\<exists>g. find_grant (ag_registry a) key = Some g \<and> gr_state g = GrantState_Prepared
    \<and> commit_received key (gr_attempt g) a a' \<and> grant_binding g' = grant_binding g"
  using assms(1,2)
proof (cases rule: agent_step_moves)
  case moves
  obtain g where "find_grant (ag_registry a) key = Some g" "grant_lapses g g'"
    using table_evolves_back [of grant_lapses "rg_grants (ag_registry a)" "rg_grants (ag_registry a')" key g'] moves assms(2,3)
    by (auto simp: agent_moves_def find_grant_def)
  then show ?thesis using assms(4,5) by (auto simp: grant_lapses_def taken_out_def)
next
  case (prepares g)
  then show ?thesis
    using assms(3-5) by (auto simp: prepares_def find_grant_def om_find_put prepared_grant_def split: if_split_asm)
next
  case (installs m g)
  then have "key = cmg_grant m"
    using assms(3-5) by (auto simp: installs_def find_grant_def om_find_put split: if_split_asm)
  then show ?thesis
    using installs assms(3-5)
    by (auto simp: installs_def find_grant_def om_find_put installed_grant_def grant_binding_def)
qed

definition sample_frame :: "message_type \<Rightarrow> bytes \<Rightarrow> frame" where
  "sample_frame type payload = sample_withdrawal\<lparr>fr_header := (fr_header sample_withdrawal)\<lparr>fh_type := type\<rparr>, fr_payload := payload\<rparr>"

definition sample_commit :: commit_grant_message where
  "sample_commit = \<lparr>cmg_session = uid 9, cmg_grant = uid 30, cmg_attempt = uid 4\<rparr>"

lemma agent_audit_total: "rg_audit (ag_registry a) = [] \<Longrightarrow> \<exists>s a'. agent_audit what subject out detail a = Some (s, a')"
  by (auto simp: agent_audit_def agent_append_def append_audit_def registry_append_audit_def counter_next_def counter_increment_def
      Let_def split: prod.split)

lemma send_message_total: "\<exists>s a'. send_message type payload a = Some (s, a')"
  using send_message_store [of type payload a] by blast

lemma agent_report_cluster_total: "\<exists>s b. agent_report_cluster a = Some (s, b)"
  by (simp add: agent_report_cluster_def send_message_total split: option.split)

lemma send_withdrawal_total: "\<exists>s b. send_withdrawal reason a = Some (s, b)"
  by (simp add: send_withdrawal_def send_message_total)

lemma keep_grant_total: "\<exists>s b. keep_grant key g a = Some (s, b)"
  by (simp add: keep_grant_def agent_append_def split: prod.split)

lemma on_commit_total:
  assumes "decode_commit_grant payload = Inr m" "find_grant (ag_registry a) (cmg_grant m) = Some g"
    "gr_attempt g = cmg_attempt m" "gr_state g = GrantState_Prepared" "rg_audit (ag_registry a) = []"
  shows "\<exists>s a'. on_commit_grant payload a = Some (s, a')"
proof -
  obtain t b where b: "keep_grant (cmg_grant m) (installed_grant (ag_now a) g) a = Some (t, b)"
    using keep_grant_total by blast
  have empty: "rg_audit (ag_registry b) = []" using keep_grant_result(1) [OF b] assms(5) by simp
  obtain u c where c: "agent_audit ''commit-grant'' (uuid_to_string (gr_id (installed_grant (ag_now a) g))) Outcome_Ok
     ''the exact attempt the coordinator prepared is now enforced'' b = Some (u, c)"
    using agent_audit_total [OF empty] by blast
  let ?g = "installed_grant (ag_now a) g"
  let ?send = "send_committed ((commit_answer a m)\<lparr>gcm_installed := True, gcm_detail := ''enforced'',
    gcm_enforcement_digest := enforcement_digest_of ?g\<rparr>)"
  have "on_commit_grant payload a = and_do (keep_grant (cmg_grant m) ?g)
     (and_do (agent_audit ''commit-grant'' (uuid_to_string (gr_id ?g)) Outcome_Ok
        ''the exact attempt the coordinator prepared is now enforced'') ?send) a"
    using assms(1-4) by (simp add: on_commit_grant_def Let_def installed_grant_def)
  moreover obtain v d where "?send c = Some (v, d)" using send_message_total unfolding send_committed_def by blast
  ultimately show ?thesis using b c by (simp add: and_do_def)
qed

theorem activation_needs_commit_witness:
  "\<exists>s a'. agent_handle_message 5 (sample_frame MessageType_CommitGrant (encode_commit_grant sample_commit))
      (sample_node (stopped_registry GrantState_Prepared)) = Some (s, a')
    \<and> commit_received (uid 30) (uid 4) (sample_node (stopped_registry GrantState_Prepared)) a'"
proof -
  let ?a = "sample_node (stopped_registry GrantState_Prepared)"
  let ?f = "sample_frame MessageType_CommitGrant (encode_commit_grant sample_commit)"
  have d: "decode_commit_grant (encode_commit_grant sample_commit) = Inr sample_commit"
    unfolding decode_commit_grant_def by (rule commit_grant.whole_message_enc) (simp add: commit_grant_wire_def sample_commit_def)
  let ?g = "stopped_grant GrantState_Prepared"
  have f: "find_grant (ag_registry ?a) (cmg_grant sample_commit) = Some ?g"
    by (simp add: stopped_grant_found sample_commit_def)
  have g: "gr_attempt ?g = cmg_attempt sample_commit" "gr_state ?g = GrantState_Prepared"
    by (simp_all add: stopped_grant_def sample_grant_def sample_commit_def)
  have "\<exists>s a'. on_commit_grant (encode_commit_grant sample_commit) ?a = Some (s, a')"
    by (rule on_commit_total [OF d f g]) simp
  then obtain s a' where run: "on_commit_grant (encode_commit_grant sample_commit) ?a = Some (s, a')" by blast
  have handled: "agent_handle_message 5 ?f ?a = Some (s, a')"
    using run by (simp add: agent_handle_message_def sample_frame_def)
  note ok = stopped_registry_ok [of GrantState_Prepared]
  have "installs sample_commit ?g ?a a'" by (rule on_commit_installs [OF run _ d f g(1)]) (simp_all add: ok g(2))
  then have "find_grant (ag_registry a') (uid 30) = Some (installed_grant 500 ?g)"
    by (simp add: installs_def find_grant_def om_find_put sample_commit_def)
  then have "\<exists>g. find_grant (ag_registry ?a) (uid 30) = Some g \<and> gr_state g = GrantState_Prepared
      \<and> commit_received (uid 30) (gr_attempt g) ?a a' \<and> grant_binding (installed_grant 500 ?g) = grant_binding g"
    by (intro activation_needs_commit [OF agent_step.received [OF handled]])
      (auto simp: ok installed_grant_def stopped_grant_found stopped_grant_def)
  then show ?thesis using handled g by (auto simp: stopped_grant_found sample_commit_def)
qed

text \<open>What the agent holds against a grant before it prepares it.\<close>

definition consented_grant :: "agent \<Rightarrow> grant_record \<Rightarrow> bool" where
  "consented_grant a g \<longleftrightarrow>
    (\<exists>contract side consent endpoint.
      find_contract (ag_registry a) (gr_contract g) = Some contract
      \<and> pt_cluster (party_at (co_parties contract) side) = af_cluster (ag_config a)
      \<and> party_at (co_consents contract) side = Some consent \<and> cs_decision consent = ConsentDecision_Accepted
      \<and> cs_terms_digest consent = gr_terms_digest g \<and> co_terms_digest contract = gr_terms_digest g
      \<and> party_at (gr_incarnations g) side = ag_incarnation a \<and> party_at (gr_generations g) side = ag_generation a
      \<and> party_at (gr_policies g) side = ag_policy_generation a \<and> gr_coordinator_term g = ag_coordinator_term a
      \<and> own_endpoint a (pt_endpoint (party_at (co_parties contract) side)) = Some endpoint
      \<and> gr_capacity g \<le> ep_capacity endpoint)"

lemma admitted_consented:
  assumes "refusal_of_grant a g = None"
  shows "consented_grant a g"
proof -
  obtain contract side consent endpoint where
    "find_contract (ag_registry a) (gr_contract g) = Some contract" "own_side a (co_parties contract) = Some side"
    "party_at (co_consents contract) side = Some consent" "cs_decision consent = ConsentDecision_Accepted"
    "cs_terms_digest consent = gr_terms_digest g" "co_terms_digest contract = gr_terms_digest g"
    "party_at (gr_incarnations g) side = ag_incarnation a" "party_at (gr_generations g) side = ag_generation a"
    "party_at (gr_policies g) side = ag_policy_generation a" "gr_coordinator_term g = ag_coordinator_term a"
    "own_endpoint a (pt_endpoint (party_at (co_parties contract) side)) = Some endpoint" "gr_capacity g \<le> ep_capacity endpoint"
    using assms by (auto simp: refusal_of_grant_def not_less split: option.split_asm if_split_asm)
  moreover from this(2) have "pt_cluster (party_at (co_parties contract) side) = af_cluster (ag_config a)"
    by (auto simp: own_side_def party_at_def split: if_split_asm)
  ultimately show ?thesis unfolding consented_grant_def by blast
qed

text \<open>
  C8. A grant becomes prepared at an agent only by a preparation that arrives on the connection to the
  coordinator, for a contract whose exact terms this cluster accepted, bound to the agent's present
  incarnation, generation and policy generation and to the coordinator term it knows, and within the
  declared capacity of an endpoint of the cluster.
\<close>

theorem preparation_needs_consent:
  assumes "agent_step a a'" "registry_ok (ag_registry a)"
    and "find_grant (ag_registry a') key = Some g'" "gr_state g' = GrantState_Prepared"
    and "\<And>g. find_grant (ag_registry a) key = Some g \<Longrightarrow> gr_state g \<noteq> GrantState_Prepared"
  shows "\<exists>g. prepare_received g a a' \<and> gr_id g = key \<and> consented_grant a g \<and> g' = prepared_grant (ag_now a) g"
  using assms(1,2)
proof (cases rule: agent_step_moves)
  case moves
  obtain g where "find_grant (ag_registry a) key = Some g" "grant_lapses g g'"
    using table_evolves_back [of grant_lapses "rg_grants (ag_registry a)" "rg_grants (ag_registry a')" key g'] moves assms(2,3)
    by (auto simp: agent_moves_def find_grant_def)
  then show ?thesis using assms(4,5) by (auto simp: grant_lapses_def taken_out_def)
next
  case (prepares g)
  then have "consented_grant a g" using admitted_consented by (simp add: prepares_def)
  moreover have "gr_id g = key \<and> g' = prepared_grant (ag_now a) g"
    using prepares(1) assms(3-5) by (auto simp: prepares_def find_grant_def om_find_put split: if_split_asm)
  ultimately show ?thesis using prepares(2) by blast
next
  case (installs m g)
  then show ?thesis
    using assms(3-5) by (auto simp: installs_def find_grant_def om_find_put installed_grant_def split: if_split_asm)
qed

definition sample_prepare :: prepare_grant_message where
  "sample_prepare = \<lparr>prg_session = uid 9, prg_grant = stopped_grant GrantState_Preparing\<rparr>"

lemma sample_admitted: "refusal_of_grant (sample_node (stopped_registry state)) (stopped_grant state') = None"
  by (simp add: refusal_of_grant_def find_contract_def stopped_registry_def stopped_grant_def sample_registry_def sample_grant_def
      sample_contract_def sample_consent_def own_side_def sample_node_def sample_agent_config_def party_at_def own_endpoint_def
      local_cluster_def find_cluster_def sample_cluster_def sample_endpoint_def)

theorem preparation_needs_consent_witness:
  "\<exists>s a'. agent_handle_message 5 (sample_frame MessageType_PrepareGrant (encode_prepare_grant sample_prepare))
      (sample_node (stopped_registry GrantState_Aborted)) = Some (s, a')
    \<and> (\<exists>g. prepare_received g (sample_node (stopped_registry GrantState_Aborted)) a' \<and> gr_id g = uid 30)"
proof -
  let ?a = "sample_node (stopped_registry GrantState_Aborted)" and ?g = "stopped_grant GrantState_Preparing"
  let ?f = "sample_frame MessageType_PrepareGrant (encode_prepare_grant sample_prepare)"
  note ok = stopped_registry_ok [of GrantState_Aborted]
  have "grant_wire ?g" using stopped_registry_wire [of GrantState_Preparing] by (simp add: stopped_registry_def)
  then have d: "decode_prepare_grant (encode_prepare_grant sample_prepare) = Inr sample_prepare"
    unfolding decode_prepare_grant_def
    by (intro prepare_grant.whole_message_enc) (simp add: prepare_grant_wire_def sample_prepare_def)
  have put: "put_grant (prepared_grant 500 ?g) (stopped_registry GrantState_Aborted)
      = (status_ok, (stopped_registry GrantState_Aborted)\<lparr>rg_grants := [(uid 30, prepared_grant 500 ?g)]\<rparr>)"
    by (simp add: put_grant_def prepared_grant_def stopped_grant_def sample_grant_def kMaxCapacity_def insert_bounded_def
        stopped_registry_def)
  have "\<exists>s a'. accept_prepare ?g answer ?a = Some (s, a') \<and> find_grant (ag_registry a') (uid 30) = Some (prepared_grant 500 ?g)" for answer
  proof -
    let ?b = "?a\<lparr>ag_registry := (stopped_registry GrantState_Aborted)\<lparr>rg_grants := [(uid 30, prepared_grant 500 ?g)]\<rparr>\<rparr>"
    obtain t c where c: "agent_append (Mutation_GrantPut (prepared_grant 500 ?g)) ?b = Some (t, c)"
      by (cases "store_append (ag_answers ?b (ag_calls ?b)) (Mutation_GrantPut (prepared_grant 500 ?g)) (ag_now ?b) (ag_store ?b) (ag_disk ?b)")
        (simp add: agent_append_def)
    let ?send = "send_prepared (answer\<lparr>gpr_accepted := True, gpr_detail := ''prepared'',
      gpr_enforcement_digest := enforcement_digest_of (prepared_grant 500 ?g)\<rparr>)"
    obtain v e where e: "?send c = Some (v, e)" using send_message_total unfolding send_prepared_def by blast
    have "accept_prepare ?g answer ?a = Some (if is_ok t then (v, e) else (t, c))"
      using c e put by (simp add: accept_prepare_def and_do_def)
    moreover have "find_grant (ag_registry c) (uid 30) = Some (prepared_grant 500 ?g)"
      "ag_registry e = ag_registry c"
      using agent_append.same_registry [OF c] send_prepared.same_registry [OF e] by (simp_all add: find_grant_def)
    ultimately show ?thesis by (cases "is_ok t") auto
  qed
  then obtain s a' where run: "accept_prepare ?g (prepare_answer ?a ?g) ?a = Some (s, a')"
    and found: "find_grant (ag_registry a') (uid 30) = Some (prepared_grant 500 ?g)" by blast
  have handled: "agent_handle_message 5 ?f ?a = Some (s, a')"
    using run d sample_admitted by (simp add: agent_handle_message_def sample_frame_def on_prepare_grant_def sample_prepare_def)
  have "\<exists>g. prepare_received g ?a a' \<and> gr_id g = uid 30 \<and> consented_grant ?a g \<and> prepared_grant 500 ?g = prepared_grant (ag_now ?a) g"
    by (rule preparation_needs_consent [OF agent_step.received [OF handled] _ found])
      (auto simp: ok prepared_grant_def stopped_grant_found stopped_grant_def)
  then show ?thesis using handled by blast
qed

section \<open>What ends enforcement\<close>

text \<open>
  C20. When a coordinator accepts the agent's handshake under some authority term, then, whatever becomes of
  the report that follows, no grant of another term is left prepared, committed, active or indeterminate.
  This holds while the file calls succeed and the log has room for a record of 2048 bytes per grant and
  one for the audit trail, below its limits of 4194304 records and 512 MiB; the grants are within the
  bounds of the format, and the numbers of the audit trail are not used up.
\<close>

theorem handshake_fences_other_terms:
  assumes "decode_hello_ack payload = Inr ack" "hak_outcome ack = Outcome_Ok" "registry_ok (ag_registry a)"
    and "\<forall>(k, g) \<in> set (rg_grants (ag_registry a)). grant_wire g"
    and "agent_roomy (Suc (length (rg_grants (ag_registry a)))) a"
    and "rg_audit (ag_registry a) = [] \<or> au_sequence (last (rg_audit (ag_registry a))) \<noteq> - 1"
  shows "\<exists>s a'. on_hello_ack payload a = Some (s, a') \<and> ag_coordinator_term a' = hak_coordinator_term ack
    \<and> (\<forall>key g. find_grant (ag_registry a') key = Some g \<longrightarrow> \<not> out_of_term (ag_coordinator_term a') g)"
proof -
  let ?h = "handshaken ack a"
  have h: "ag_registry ?h = ag_registry a" "agent_roomy (Suc (length (rg_grants (ag_registry a)))) ?h"
    "ag_coordinator_term ?h = hak_coordinator_term ack"
    using assms(5) by (simp_all add: handshaken_def agent_roomy_def sign_coordinator_def split: option.split)
  obtain b where b: "fence_not_revalidated (hak_coordinator_term ack) ?h = Some (status_ok, b)" "agent_view b = agent_view ?h"
    "\<And>key g. find_grant (ag_registry b) key = Some g \<Longrightarrow> \<not> out_of_term (hak_coordinator_term ack) g"
    by (rule fence_not_revalidated_room [of ?h "hak_coordinator_term ack"]) (use assms(3,4,6) h in simp_all)
  obtain s c where c: "agent_report_cluster b = Some (s, c)"
    using agent_report_cluster_total by blast
  have "on_hello_ack payload a = Some (s, c)"
    unfolding on_hello_ack_accepted [OF assms(1,2)] by (simp add: and_do_def b(1) c)
  moreover have "ag_coordinator_term c = hak_coordinator_term ack"
    using agent_report_cluster.same_view [OF c] b(2) h(3) by (simp add: agent_view_def)
  ultimately show ?thesis using b(3) agent_report_cluster.same_registry [OF c] by (intro exI [of _ s] exI [of _ c]) simp
qed

definition sample_ack :: hello_ack_message where
  "sample_ack = \<lparr>hak_session = uid 9, hak_coordinator = uid 3, hak_coordinator_term = 8, hak_outcome = Outcome_Ok,
     hak_negotiated_version = 1, hak_view_digest = zero_digest, hak_revalidate = [], hak_detail = []\<rparr>"

theorem handshake_fences_other_terms_witness:
  "\<exists>s a'. on_hello_ack (encode_hello_ack sample_ack) (sample_node (stopped_registry GrantState_Active)) = Some (s, a')
    \<and> ag_coordinator_term a' = 8 \<and> local_enforcement_outcome a' (uid 30) \<noteq> Outcome_Ok"
proof -
  let ?a = "sample_node (stopped_registry GrantState_Active)"
  have d: "decode_hello_ack (encode_hello_ack sample_ack) = Inr sample_ack"
    unfolding decode_hello_ack_def
    by (rule hello_ack.whole_message_enc) (simp add: hello_ack_wire_def sample_ack_def kMaxGeneration_def)
  have room: "agent_roomy (Suc (length (rg_grants (ag_registry ?a)))) ?a"
    by (rule agent_roomy_less [OF sample_node_room]) (simp add: stopped_registry_def)
  obtain s a' where run: "on_hello_ack (encode_hello_ack sample_ack) ?a = Some (s, a')" "ag_coordinator_term a' = 8"
    and none: "\<forall>key g. find_grant (ag_registry a') key = Some g \<longrightarrow> \<not> out_of_term (ag_coordinator_term a') g"
    using handshake_fences_other_terms [OF d _ _ _ room] stopped_registry_ok stopped_registry_wire by (auto simp: sample_ack_def)
  have "grant_binding g' = grant_binding (stopped_grant GrantState_Active)"
    if "find_grant (ag_registry a') (uid 30) = Some g'" for g'
  proof -
    have "agent_moves ?a a'" by (rule on_hello_ack.moves [OF run(1)])
    then show ?thesis
      using table_evolves_back [of grant_lapses "rg_grants (ag_registry ?a)" "rg_grants (ag_registry a')" "uid 30" g'] that
        stopped_registry_ok stopped_grant_found
      by (auto simp: agent_moves_def find_grant_def grant_lapses_def)
  qed
  then have seven: "gr_coordinator_term g' = 7" if "find_grant (ag_registry a') (uid 30) = Some g'" for g'
    using that by (simp add: grant_binding_def stopped_grant_def sample_grant_def)
  have "local_enforcement_outcome a' (uid 30) \<noteq> Outcome_Ok"
  proof (cases "find_grant (ag_registry a') (uid 30)")
    case (Some g)
    have "gr_coordinator_term g = 7" "\<not> out_of_term 8 g" using seven [OF Some] none Some run(2) by auto
    then have "gr_state g \<noteq> GrantState_Active" by (auto simp: out_of_term_def)
    then show ?thesis using Some by (simp add: local_enforcement_outcome_def grant_enforceable_def)
  qed (simp add: local_enforcement_outcome_def)
  then show ?thesis using run by blast
qed

definition stands_down :: "local_operation \<Rightarrow> bool" where
  "stands_down operation \<longleftrightarrow>
    (case operation of Local_Withdraw _ \<Rightarrow> True | Local_State state \<Rightarrow> state \<noteq> ClusterState_Active | _ \<Rightarrow> False)"

definition stood_down :: "agent \<Rightarrow> bool" where
  "stood_down a \<longleftrightarrow> af_require_coordinator (ag_config a) \<and> (ag_consent_withdrawn a \<or> ag_cluster_state a \<noteq> ClusterState_Active)"

lemma stood_down_view: "agent_view a' = agent_view a \<Longrightarrow> stood_down a' = stood_down a"
  by (simp add: stood_down_def agent_view_def)

lemma stood_down_enforces_nothing:
  assumes "stood_down a"
  shows "\<not> grant_enforceable a g" "enforced_grant_count a = 0"
proof -
  show no: "\<not> grant_enforceable a g" for g using assms by (auto simp: stood_down_def grant_enforceable_def split: option.splits)
  show "enforced_grant_count a = 0" using no by (simp add: enforced_grant_count_def)
qed

text \<open>The shape the two operations share: describe the cluster, re-evaluate, then answer.\<close>

lemma standing_down:
  assumes run: "and_do persist_own_cluster (and_do (reevaluate_enforcement reason) rest) a = Some (s, a')"
    and "steady_agent rest" "stood_down a" "registry_ok (ag_registry a)"
  shows "enforced_grant_count a' = 0 \<and> (is_ok s \<longrightarrow> (\<forall>key g. find_grant (ag_registry a') key = Some g \<longrightarrow> gr_state g \<noteq> GrantState_Active))"
proof -
  obtain t b where b: "persist_own_cluster a = Some (t, b)"
    and rest1: "if is_ok t then and_do (reevaluate_enforcement reason) rest b = Some (s, a') else (s, a') = (t, b)"
    using run by (auto simp: and_do_def [of persist_own_cluster] split: option.splits if_splits)
  have down: "stood_down b" "registry_ok (ag_registry b)"
    using stood_down_view [OF persist_own_cluster.keeps_view [OF b]] assms(3) persist_own_cluster.keeps_registry [OF b assms(4)]
    by simp_all
  show ?thesis
  proof (cases "is_ok t")
    case True
    then obtain u c where c: "reevaluate_enforcement reason b = Some (u, c)"
      and rest2: "if is_ok u then rest c = Some (s, a') else (s, a') = (u, c)"
      using rest1 by (auto simp: and_do_def split: option.splits if_splits)
    note each = c [unfolded reevaluate_enforcement_def]
    have downc: "stood_down c" using stood_down_view [OF reevaluation.each_view [OF each down(2)]] down(1) by simp
    have none: "gr_state g \<noteq> GrantState_Active" if "is_ok u" "find_grant (ag_registry c) key = Some g" for key g
      using reevaluation.each_post [OF each down(2) that] stood_down_enforces_nothing(1) [OF downc] by blast
    show ?thesis
    proof (cases "is_ok u")
      case True
      then have last: "rest c = Some (s, a')" using rest2 by simp
      have "stood_down a'" using stood_down_view [OF steady_agent.keeps_view [OF assms(2) last]] downc by simp
      then show ?thesis
        using none [OF True] stood_down_enforces_nothing(2) steady_agent.keeps_grants [OF assms(2) last] by (auto simp: find_grant_def)
    qed (use rest2 stood_down_enforces_nothing(2) [OF downc] in auto)
  qed (use rest1 stood_down_enforces_nothing(2) [OF down(1)] in auto)
qed

interpretation send_withdrawal: quiet_agent "send_withdrawal reason" for reason
  using send_message.same by unfold_locales (auto simp: send_withdrawal_def split: if_splits)

text \<open>
  C21. An agent that requires a coordinator, as every agent the daemon configures does, and that withdraws
  its consent, or whose cluster leaves the active state, stops: whatever the store answers nothing is
  enforced afterwards, and if the operation succeeds no grant is left in the active state. An agent that
  does not require a coordinator enforces every active grant whatever its consent or state.
\<close>

theorem standing_down_ends_enforcement:
  assumes "perform operation a = Some (s, a')" "stands_down operation" "registry_ok (ag_registry a)"
    and "af_require_coordinator (ag_config a)"
  shows "enforced_grant_count a' = 0
    \<and> (is_ok s \<longrightarrow> (\<forall>key g. find_grant (ag_registry a') key = Some g \<longrightarrow> gr_state g \<noteq> GrantState_Active))"
proof (cases operation)
  case (Local_State state)
  have "stood_down (a\<lparr>ag_cluster_state := state\<rparr>)" using assms(2,4) Local_State by (simp add: stands_down_def stood_down_def)
  then show ?thesis
    using assms(1,3) Local_State standing_down [where a = "a\<lparr>ag_cluster_state := state\<rparr>", OF _ report_if_connected.steady_agent_axioms]
    by (simp add: agent_set_cluster_state_def)
next
  case (Local_Withdraw reason)
  let ?rest = "and_do (send_withdrawal reason) (agent_audit ''withdraw-consent'' (af_cluster (ag_config a)) Outcome_Fenced reason)"
  have "steady_agent ?rest"
    by (intro steady_and_do agent_audit.steady_agent_axioms send_withdrawal.steady_agent_axioms)
  moreover have "stood_down (a\<lparr>ag_consent_withdrawn := True\<rparr>)" using assms(4) by (simp add: stood_down_def)
  ultimately show ?thesis
    using assms(1,3) Local_Withdraw standing_down [where a = "a\<lparr>ag_consent_withdrawn := True\<rparr>" and rest = ?rest]
    by (simp add: withdraw_consent_def)
qed (use assms(2) in \<open>simp_all add: stands_down_def\<close>)

theorem standing_down_ends_enforcement_witness:
  "\<exists>s a'. perform (Local_Withdraw ''r1'') (sample_node ((stopped_registry GrantState_Active)\<lparr>rg_clusters := []\<rparr>)) = Some (s, a')
    \<and> enforced_grant_count a' = 0"
proof -
  let ?r = "(stopped_registry GrantState_Active)\<lparr>rg_clusters := []\<rparr>"
  let ?a = "(sample_node ?r)\<lparr>ag_consent_withdrawn := True\<rparr>"
  have ok: "registry_ok ?r" using stopped_registry_ok by (intro registry_ok_update) simp_all
  have room: "agent_roomy (Suc 252) ?a" using agent_roomy_less [OF sample_node_room, of 253 ?r] by (simp add: agent_roomy_def)
  obtain b where b: "persist_own_cluster ?a = Some (status_ok, b)" "agent_roomy 252 b"
    by (rule persist_own_cluster_room [OF room]) (use sample_plain in simp_all)
  have grants: "rg_grants (ag_registry b) = rg_grants (stopped_registry GrantState_Active)"
    using persist_own_cluster.keeps_grants [OF b(1)] by simp
  let ?why = "''consent withdrawn by the cluster''"
  have "agent_roomy (Suc 0 + length (rg_grants (ag_registry b))) b"
    by (rule agent_roomy_less [OF b(2)]) (simp add: grants stopped_registry_def)
  then obtain c where c: "reevaluate_enforcement ?why b = Some (status_ok, c)" "agent_roomy (Suc 0) c"
    using reevaluate_room [of "Suc 0" b ?why] stopped_registry_wire [of GrantState_Active] grants by auto
  have "registry_ok (ag_registry b)" using persist_own_cluster.keeps_registry [OF b(1)] ok by simp
  from reevaluation.each_looped [OF c(1) [unfolded reevaluate_enforcement_def] this]
  have empty: "rg_audit (ag_registry c) = []"
    using persist_own_cluster_trail [OF b(1)] by (simp add: reevaluation.looped_def)
  obtain t d where d: "send_withdrawal ''r1'' c = Some (t, d)"
    using send_withdrawal_total by blast
  have trail: "rg_audit (ag_registry d) = []" using send_withdrawal.same_registry [OF d] empty by simp
  obtain u e where e: "agent_audit ''withdraw-consent'' ''a'' Outcome_Fenced ''r1'' d = Some (u, e)"
    using agent_audit_total [OF trail] by blast
  have "perform (Local_Withdraw ''r1'') (sample_node ?r) = Some (if is_ok t then (u, e) else (t, d))"
    using b(1) c(1) d e by (simp add: withdraw_consent_def and_do_def sample_agent_config_def)
  then obtain s a' where run: "perform (Local_Withdraw ''r1'') (sample_node ?r) = Some (s, a')" by (cases "is_ok t") auto
  then show ?thesis
    using standing_down_ends_enforcement [OF run] ok by (auto simp: stands_down_def sample_agent_config_def)
qed

text \<open>
  C18. While the file calls succeed and the log has room for a record of 2048 bytes per grant, below its
  limits of 4194304 records and 512 MiB, a tick of the agent completes, leaves only grants in the active
  state that may be enforced at that moment, and schedules the next tick a quarter of a second later.
  The grants are within the bounds of the format.
\<close>

theorem tick_withdraws_stale_grants:
  assumes "registry_ok (ag_registry a)" "\<forall>(k, g) \<in> set (rg_grants (ag_registry a)). grant_wire g"
    and "agent_roomy (length (rg_grants (ag_registry a))) a"
  shows "\<exists>a'. agent_tick opened a = Some a'
    \<and> (\<forall>key g. find_grant (ag_registry a') key = Some g \<longrightarrow> gr_state g = GrantState_Active \<longrightarrow> grant_enforceable a' g)
    \<and> (\<exists>n. om_find (el_timers (ag_loop a')) (timestamp_plus (ag_now a) kAgentTickInterval, n) = Some Timer_Tick)"
  by (rule agent_tick_room [OF assms, of opened]) blast

theorem tick_withdraws_stale_grants_witness:
  "\<exists>a'. agent_tick status_ok ((sample_node (stopped_registry GrantState_Active))\<lparr>ag_now := 2000\<rparr>) = Some a'
    \<and> (\<forall>key. local_enforcement_outcome a' key = Outcome_Ok
        \<longleftrightarrow> (\<exists>g. find_grant (ag_registry a') key = Some g \<and> gr_state g = GrantState_Active))"
proof -
  let ?a = "(sample_node (stopped_registry GrantState_Active))\<lparr>ag_now := 2000\<rparr>"
  have "agent_roomy (length (rg_grants (ag_registry ?a))) ?a"
    using agent_roomy_less [OF sample_node_room, of 1 "stopped_registry GrantState_Active"]
    by (simp add: agent_roomy_def stopped_registry_def)
  then obtain a' where a': "agent_tick status_ok ?a = Some a'"
    "\<forall>key g. find_grant (ag_registry a') key = Some g \<longrightarrow> gr_state g = GrantState_Active \<longrightarrow> grant_enforceable a' g"
    using tick_withdraws_stale_grants [of ?a status_ok] stopped_registry_ok stopped_registry_wire by auto
  have "local_enforcement_outcome a' key = Outcome_Ok
      \<longleftrightarrow> (\<exists>g. find_grant (ag_registry a') key = Some g \<and> gr_state g = GrantState_Active)" for key
    using a'(2) enforceable_active by (auto simp: outcome_ok_iff)
  then show ?thesis using a'(1) by blast
qed

section \<open>The event loop\<close>

text \<open>
  C26. The wait of the event loop is at most a second; it is zero exactly when a timer is due and
  unbounded exactly when there is neither a connection nor a timer; it ends less than a millisecond
  after the next deadline. Then exactly the timers that are due fire, and the others stay.
\<close>

theorem event_loop_serves_deadlines:
  assumes "om_ok (el_timers l)"
  shows "compute_timeout now l \<le> 1000
    \<and> (compute_timeout now l = 0 \<longleftrightarrow> (\<exists>e \<in> set (el_timers l). due now e))
    \<and> (compute_timeout now l = - 1 \<longleftrightarrow> el_connections l = [] \<and> el_timers l = [])
    \<and> (\<forall>e \<in> set (el_timers l). 0 < compute_timeout now l \<longrightarrow> (compute_timeout now l - 1) * 1000000 < fst (fst e) - now)
    \<and> fire_due_timers now l =
        (map snd (filter (due now) (el_timers l)), l\<lparr>el_timers := filter (\<lambda>e. \<not> due now e) (el_timers l)\<rparr>)"
proof -
  have "(compute_timeout now l - 1) * 1000000 < fst (fst e) - now"
    if "e \<in> set (el_timers l)" "0 < compute_timeout now l" for e
    using compute_timeout_deadline [OF that(1) _ that(2)] that compute_timeout_cases(1) [of now l] by auto
  then show ?thesis using compute_timeout_cases [of now l] fire_due_timers_exact [OF assms] by blast
qed

theorem event_loop_serves_deadlines_witness:
  "compute_timeout 500 (snd (schedule 2500500 Timer_Tick (snd (schedule 400 Timer_Connect new_loop)))) = 0
    \<and> fst (fire_due_timers 500 (snd (schedule 2500500 Timer_Tick (snd (schedule 400 Timer_Connect new_loop))))) = [Timer_Connect]"
proof -
  let ?l = "snd (schedule 2500500 Timer_Tick (snd (schedule 400 Timer_Connect new_loop)))"
  have t: "el_timers ?l = [((400, 1), Timer_Connect), ((2500500, 2), Timer_Tick)]"
    by (simp add: schedule_def new_loop_def Let_def less_prod_def)
  then have "om_ok (el_timers ?l)" by (simp add: om_ok_def less_prod_def)
  from event_loop_serves_deadlines [OF this, of 500] show ?thesis by (simp add: t due_def)
qed

text \<open>A close handler beside a log of its calls, and the agent's as one the sweep's contract covers.\<close>

definition logged :: "('cb, 's) close_handler \<Rightarrow> ('cb, 's \<times> (u64 \<times> status) list) close_handler" where
  "logged on_close key reason ls =
    (case ls of (l, s, calls) \<Rightarrow> case on_close key reason (l, s) of (l', s') \<Rightarrow> (l', s', calls @ [(key, reason)]))"

interpretation agent_sweep: close_observer "logged agent_closed" snd
proof
  fix key reason and l :: "agent_timer event_loop" and s :: "agent \<times> (u64 \<times> status) list"
  obtain a calls where s: "s = (a, calls)" by fastforce
  show "el_connections (fst (logged agent_closed key reason (l, s))) = el_connections l"
    "el_pending_erase (fst (logged agent_closed key reason (l, s))) = el_pending_erase l"
    "snd (snd (logged agent_closed key reason (l, s))) = snd s @ [(key, reason)]"
    by (simp_all add: s logged_def agent_closed_def agent_handle_disconnect_def agent_schedule_def schedule_def Let_def)
qed

text \<open>
  C25. A sweep of the loop tells the agent of every connection that is closed, or silent past its
  deadline, exactly once and with the reason, unless it was told before; these leave the table, every
  other connection stays as it is, and nothing is left to erase.
\<close>

theorem sweep_reports_each_close_once:
  assumes "sweep_connections now (logged agent_closed) (l, a, []) = (l', a', calls)" "om_ok (el_connections l)"
  shows "el_pending_erase l' = [] \<and> distinct (map fst calls)
    \<and> (\<forall>k. el_find l' k = (case el_find l k of None \<Rightarrow> None
        | Some c \<Rightarrow> if k \<in> set (el_pending_erase l) \<or> swept now c then None else Some c))
    \<and> (\<forall>k r. (k, r) \<in> set calls \<longleftrightarrow> (\<exists>c. el_find l k = Some c \<and> \<not> cn_close_reported c
        \<and> (cn_closed c \<or> k \<notin> set (el_pending_erase l) \<and> idle_expired now c) \<and> r = sweep_reason c))"
  using agent_sweep.sweep_connections_result [OF assms] by auto

definition silent_connection :: connection where
  "silent_connection = (new_connection default_connection_config)\<lparr>cn_last_activity := 1\<rparr>"

theorem sweep_reports_each_close_once_witness:
  "\<exists>l' a'. sweep_connections 20000000000 (logged agent_closed)
      (new_loop\<lparr>el_connections := [(5, silent_connection)]\<rparr>, sample_node sample_registry, [])
      = (l', a', [(5, idle_status)]) \<and> el_find l' 5 = None"
proof -
  define l :: "agent_timer event_loop" where "l = new_loop\<lparr>el_connections := [(5, silent_connection)]\<rparr>"
  obtain l' a' calls where run: "sweep_connections 20000000000 (logged agent_closed) (l, sample_node sample_registry, []) = (l', a', calls)"
    by (metis prod_cases3)
  have fields: "el_find l k = (if k = 5 then Some silent_connection else None)" "\<not> cn_closed silent_connection"
    "\<not> cn_close_reported silent_connection" "idle_expired 20000000000 silent_connection" "el_pending_erase l = []" for k
    by (simp_all add: l_def el_find_def new_loop_def silent_connection_def new_connection_def idle_expired_def
        default_connection_config_def timestamp_since_def)
  have "om_ok (el_connections l)" by (simp add: l_def om_ok_def)
  note swept = sweep_reports_each_close_once [OF run this, unfolded fields]
  have calls: "(k, r) \<in> set calls \<longleftrightarrow> k = 5 \<and> r = idle_status" for k r
    using swept fields(2-4) by (auto simp: sweep_reason_def)
  then have "set calls = {(5, idle_status)}" by auto
  moreover have "distinct calls" using swept by (simp add: distinct_map)
  ultimately have "calls = [(5, idle_status)]" by (cases calls rule: remdups_adj.cases) auto
  moreover have "el_find l' 5 = None" using swept fields(2-4) by (simp add: swept_def)
  ultimately show ?thesis using run unfolding l_def by blast
qed

end
