(* ===== verification/Calendar.thy ===== *)
theory Calendar
  imports Time Files "HOL-Library.Signed_Division"
begin

text \<open>
  \<open>core/time.cpp\<close>: the text form of a timestamp. Division of signed values rounds towards zero, as in
  the source; the unsigned intermediate values of \<open>civil_from_days\<close> never fall below zero
  (\<open>year_of_era\<close>), so they are integers too.
\<close>

section \<open>Printing\<close>

record civil_date =
  cv_year :: int
  cv_month :: int
  cv_day :: int

definition civil_from_days :: "int \<Rightarrow> civil_date" where
  "civil_from_days days0 =
    (let days = days0 + 719468;
         era = (if days \<ge> 0 then days else days - 146096) sdiv 146097;
         doe = days - era * 146097;
         yoe = (doe - doe div 1460 + doe div 36524 - doe div 146096) div 365;
         y = yoe + era * 400;
         doy = doe - (365 * yoe + yoe div 4 - yoe div 100);
         mp = (5 * doy + 2) div 153;
         d = doy - (153 * mp + 2) div 5 + 1;
         m = (if mp < 10 then mp + 3 else mp - 9);
         year = y + (if m \<le> 2 then 1 else 0)
     in \<lparr>cv_year = year, cv_month = m, cv_day = d\<rparr>)"

text \<open>The conversions \<open>%04d\<close>, \<open>%02u\<close> and \<open>%09lld\<close>: zeros up to the width, after the sign of a negative value.\<close>

definition zero_pad :: "nat \<Rightarrow> string \<Rightarrow> string" where
  "zero_pad width digits = replicate (width - length digits) CHR ''0'' @ digits"

definition print_padded :: "nat \<Rightarrow> int \<Rightarrow> string" where
  "print_padded width v =
    (if v < 0 then CHR ''-'' # zero_pad (width - 1) (decimal (nat (- v))) else zero_pad width (decimal (nat v)))"

definition to_iso8601 :: "timestamp \<Rightarrow> string" where
  "to_iso8601 nanos =
    (let seconds = nanos sdiv 1000000000;
         fraction = nanos smod 1000000000;
         (fraction, seconds) = (if fraction < 0 then (fraction + 1000000000, seconds - 1) else (fraction, seconds));
         days = seconds sdiv 86400;
         second_of_day = seconds smod 86400;
         (second_of_day, days) = (if second_of_day < 0 then (second_of_day + 86400, days - 1) else (second_of_day, days));
         date = civil_from_days days;
         hour = second_of_day div 3600;
         minute = (second_of_day mod 3600) div 60;
         second = second_of_day mod 60
     in print_padded 4 (cv_year date) @ ''-'' @ print_padded 2 (cv_month date) @ ''-'' @ print_padded 2 (cv_day date) @ ''T''
        @ print_padded 2 hour @ '':'' @ print_padded 2 minute @ '':'' @ print_padded 2 second @ ''.''
        @ print_padded 9 fraction @ ''Z'')"

section \<open>Parsing\<close>

fun digits_value :: "string \<Rightarrow> int \<Rightarrow> int option" where
  "digits_value [] value = Some value"
| "digits_value (c # cs) value = (if is_digit c then digits_value cs (value * 10 + int (digit_value c)) else None)"

definition read_uint :: "string \<Rightarrow> nat \<Rightarrow> nat \<Rightarrow> int option" where
  "read_uint text offset count =
    (if offset + count > length text then None else digits_value (take count (drop offset text)) 0)"

text \<open>
  The optional fraction at position 19, as nanoseconds and the position after it; an error when it has
  no digit or more than nine.
\<close>

definition read_fraction :: "string \<Rightarrow> (int \<times> nat) result" where
  "read_fraction text =
    (if 19 < length text \<and> text ! 19 = CHR ''.''
     then
       let run = takeWhile is_digit (drop 20 text);
           digits = length run
       in if digits = 0 \<or> digits > 9 then Inl (invalid ''timestamp fractional seconds must have 1 to 9 digits'')
          else Inr (foldl (\<lambda>value i. value * 10 + (if i < digits then int (digit_value (run ! i)) else 0)) 0 [0..<9], 20 + digits)
     else Inr (0, 19))"

definition days_from_civil :: "int \<Rightarrow> int \<Rightarrow> int \<Rightarrow> int" where
  "days_from_civil year m d =
    (let y = year - (if m \<le> 2 then 1 else 0);
         era = (if y \<ge> 0 then y else y - 399) sdiv 400;
         yoe = y - era * 400;
         doy = (153 * (m + (if m > 2 then - 3 else 9)) + 2) sdiv 5 + d - 1;
         doe = yoe * 365 + yoe sdiv 4 - yoe sdiv 100 + doy
     in era * 146097 + doe - 719468)"

text \<open>
  The last addition is on signed 64-bit values without a check: where the sum does not fit the source
  has no defined result, and the integer here is out of range.
\<close>

definition timestamp_of_fields :: "int \<Rightarrow> int \<Rightarrow> int \<Rightarrow> int \<Rightarrow> int \<Rightarrow> int \<Rightarrow> int \<Rightarrow> timestamp result" where
  "timestamp_of_fields year month day hour minute second fraction =
    (let days = days_from_civil year month day;
         seconds = days * 86400 + hour * 3600 + minute * 60 + second;
         magnitude = (if seconds < 0 then word_of_int (- (seconds + 1)) + 1 else word_of_int seconds) :: u64
     in case mul_u64 magnitude 1000000000 of
          None \<Rightarrow> Inl (status_make Outcome_Overflow ''timestamp overflows the nanosecond range'')
        | Some nanos \<Rightarrow>
            if nanos > 9223372036854775807
            then Inl (status_make Outcome_Overflow ''timestamp overflows the nanosecond range'')
            else let total = (if seconds < 0 then - uint nanos else uint nanos) in Inr (total + fraction))"

definition parse_iso8601 :: "string \<Rightarrow> timestamp result" where
  "parse_iso8601 text =
    (if length text < 20 \<or> last text \<noteq> CHR ''Z''
     then Inl (invalid ''timestamp must be an ISO-8601 UTC value ending in Z'')
     else if text ! 4 \<noteq> CHR ''-'' \<or> text ! 7 \<noteq> CHR ''-'' \<or> text ! 10 \<noteq> CHR ''T'' \<or> text ! 13 \<noteq> CHR '':''
       \<or> text ! 16 \<noteq> CHR '':''
     then Inl (invalid ''timestamp separators are malformed'')
     else case (read_uint text 0 4, read_uint text 5 2, read_uint text 8 2, read_uint text 11 2, read_uint text 14 2,
           read_uint text 17 2) of
         (Some year, Some month, Some day, Some hour, Some minute, Some second) \<Rightarrow>
           (case read_fraction text of
              Inl e \<Rightarrow> Inl e
            | Inr (fraction, index) \<Rightarrow>
                if index + 1 \<noteq> length text then Inl (invalid ''timestamp has trailing characters'')
                else if month < 1 \<or> month > 12 \<or> day < 1 \<or> day > 31 \<or> hour > 23 \<or> minute > 59 \<or> second > 60
                then Inl (invalid ''timestamp field is out of range'')
                else timestamp_of_fields year month day hour minute second fraction)
       | _ \<Rightarrow> Inl (invalid ''timestamp contains a non-digit field''))"

section \<open>The calendar\<close>

lemma sdiv_nonneg: "0 \<le> a \<Longrightarrow> 0 < k \<Longrightarrow> a sdiv k = a div (k :: int)"
  by (cases "a = 0") (simp_all add: signed_divide_int_def sgn_if)

lemma sdiv_floor:
  fixes a k :: int
  assumes "0 < k"
  shows "(if a \<ge> 0 then a else a - (k - 1)) sdiv k = a div k"
proof (cases "a \<ge> 0")
  case False
  then have "(a - (k - 1)) sdiv k = - ((k - 1 - a) div k)" using assms by (simp add: signed_divide_int_def)
  also have "k - 1 - a = (- a) + (k - 1)" by simp
  also have "- (((- a) + (k - 1)) div k) = a div k"
  proof -
    have "(- a + (k - 1)) div k = - (a div k)"
    proof (rule int_div_pos_eq)
      show "- a + (k - 1) = k * - (a div k) + (k - 1 - a mod k)" by (simp add: minus_mod_eq_mult_div [symmetric] algebra_simps)
      show "0 \<le> k - 1 - a mod k" using pos_mod_bound [OF assms, of a] by simp
      show "k - 1 - a mod k < k" using pos_mod_sign [OF assms, of a] by simp
    qed
    then show ?thesis by simp
  qed
  finally show ?thesis using False by simp
qed (use assms in \<open>simp add: sdiv_nonneg\<close>)

text \<open>Years start in March here: \<open>year_start y\<close> is the first day of year \<open>y\<close>, and \<open>y + 1\<close> decides whether it has 366 days.\<close>

definition leap_year :: "int \<Rightarrow> bool" where
  "leap_year y \<longleftrightarrow> 4 dvd y \<and> (\<not> 100 dvd y \<or> 400 dvd y)"

definition year_start :: "int \<Rightarrow> int" where
  "year_start y = 365 * y + y div 4 - y div 100 + y div 400"

lemma dvd_step: "(y + 1) div k = y div k + (if k dvd y + 1 then 1 else 0)" if "0 < k" for y k :: int
proof (cases "k dvd y + 1")
  case True
  then obtain j where j: "y + 1 = k * j" by blast
  then have "y = k * (j - 1) + (k - 1)" by (simp add: algebra_simps)
  then have "y div k = j - 1" using that int_div_pos_eq [of y k "j - 1" "k - 1"] by simp
  then show ?thesis using that True j by simp
next
  case False
  have "(y + 1) mod k \<noteq> 0" using False by (simp add: dvd_eq_mod_eq_0)
  then have "0 < (y + 1) mod k" using pos_mod_sign [OF that, of "y + 1"] by linarith
  moreover have "y = k * ((y + 1) div k) + ((y + 1) mod k - 1)" by (simp add: minus_mod_eq_mult_div [symmetric])
  ultimately have "y div k = (y + 1) div k" 
    using pos_mod_bound [OF that, of "y + 1"] int_div_pos_eq [of y k "(y + 1) div k" "(y + 1) mod k - 1"] by simp
  then show ?thesis using False by simp
qed

lemma year_start_step: "year_start (y + 1) = year_start y + 365 + (if leap_year (y + 1) then 1 else 0)"
proof -
  have d: "400 dvd y + 1 \<Longrightarrow> 100 dvd y + 1" "100 dvd y + 1 \<Longrightarrow> 4 dvd y + 1"
    by (rule dvd_trans [of 100 400], simp, assumption) (rule dvd_trans [of 4 100], simp, assumption)
  define p q r where "p \<longleftrightarrow> 4 dvd y + 1" "q \<longleftrightarrow> 100 dvd y + 1" "r \<longleftrightarrow> 400 dvd y + 1"
  note names = this
  have steps: "(y + 1) div 4 = y div 4 + (if p then 1 else 0)" "(y + 1) div 100 = y div 100 + (if q then 1 else 0)"
    "(y + 1) div 400 = y div 400 + (if r then 1 else 0)" unfolding names by (rule dvd_step, simp)+
  have sum: "365 * (y + 1) + (a + (if p then 1 else 0)) - (b + (if q then 1 else 0)) + (c + (if r then 1 else 0))
      = 365 * y + a - b + c + 365 + (if p \<and> (\<not> q \<or> r) then 1 else 0)" for a b c :: int
    using d unfolding names [symmetric] by (cases p; cases q; cases r) simp_all
  show ?thesis unfolding year_start_def leap_year_def names [symmetric] steps by (rule sum)
qed

lemma year_start_mono: "y < z \<Longrightarrow> year_start (y + 1) \<le> year_start z"
proof (induction z rule: int_gr_induct [where k = y])
  case (step z)
  then show ?case using year_start_step [of z] by (simp split: if_split_asm)
qed auto

lemma year_of_era:
  fixes doe :: int
  assumes "0 \<le> doe" "doe < 146097"
  defines "yoe \<equiv> (doe - doe div 1460 + doe div 36524 - doe div 146096) div 365"
  defines "doy \<equiv> doe - (365 * yoe + yoe div 4 - yoe div 100)"
  shows "0 \<le> yoe \<and> yoe < 400 \<and> 0 \<le> doy \<and> doy \<le> 365 \<and> (doy = 365 \<longrightarrow> leap_year (yoe + 1))"
proof (cases "doe = 146096")
  case True
  then show ?thesis by (simp add: yoe_def doy_def leap_year_def)
next
  case False
  define q c a b where "q = doe div 1460" "c = doe div 36524" "a = yoe div 4" "b = yoe mod 4"
  note names = this
  have q: "1460 * q \<le> doe" "doe < 1460 * q + 1460" unfolding names by linarith+
  have c: "36524 * c \<le> doe" "doe < 36524 * c + 36524" unfolding names by linarith+
  have l: "doe div 146096 = 0" using assms(1,2) False by (simp add: div_pos_pos_trivial)
  have ab: "yoe = 4 * a + b" "0 \<le> b" "b < 4" unfolding names by simp_all
  have y: "365 * yoe \<le> doe - q + c" "doe - q + c < 365 * yoe + 365" unfolding yoe_def names l by linarith+
  have c4: "0 \<le> c" "c \<le> 3" using c assms(1,2) False by linarith+
  have e: "100 * c \<le> yoe" "yoe < 100 * c + 100" using q c y c4 by linarith+
  have doy: "doy = doe - 1461 * a - 365 * b + c"
    using e unfolding doy_def names(3) [symmetric] by (simp add: ab(1) int_div_pos_eq [of yoe 100 c "yoe - 100 * c"])
  have a: "a \<le> q" "q \<le> a + 1" using q c y ab c4 assms(1) e by linarith+
  have range: "0 \<le> yoe" "yoe < 400" "0 \<le> doy" "doy \<le> 365" using c4 e a y ab unfolding doy by linarith+
  moreover have "leap_year (yoe + 1)" if "doy = 365"
  proof -
    have "q = a + 1" using that a y ab unfolding doy by linarith
    then have b3: "b = 3" using that q ab e c4 unfolding doy by linarith
    have "yoe \<noteq> 100 * c + 99"
    proof
      assume "yoe = 100 * c + 99"
      then have "a = 25 * c + 24" using ab b3 by linarith
      then show False using that b3 c unfolding doy by linarith
    qed
    moreover have "yoe = 100 * c + 99" if "yoe + 1 = 100 * k" for k
    proof -
      have "k = c + 1" using that e by linarith
      then show ?thesis using that by simp
    qed
    ultimately have "\<not> 100 dvd yoe + 1" by (auto elim: dvdE)
    moreover have "4 dvd yoe + 1" using ab(1) b3 by (intro dvdI [of _ _ "a + 1"]) simp
    ultimately show ?thesis by (simp add: leap_year_def)
  qed
  ultimately show ?thesis by blast
qed

definition month_day :: "int \<Rightarrow> int \<times> int" where
  "month_day doy =
    (let mp = (5 * doy + 2) div 153 in (if mp < 10 then mp + 3 else mp - 9, doy - (153 * mp + 2) div 5 + 1))"

definition date_in_year :: "int \<Rightarrow> int \<Rightarrow> civil_date" where
  "date_in_year y doy =
    (case month_day doy of (m, d) \<Rightarrow> \<lparr>cv_year = y + (if m \<le> 2 then 1 else 0), cv_month = m, cv_day = d\<rparr>)"

lemma year_start_era:
  assumes "0 \<le> yoe" "yoe < 400"
  shows "year_start (yoe + era * 400) = era * 146097 + (365 * yoe + yoe div 4 - yoe div 100)"
proof -
  have "(yoe + era * 400) div 4 = yoe div 4 + era * 100" "(yoe + era * 400) div 100 = yoe div 100 + era * 4"
    using div_mult_self1 [of 4 yoe "era * 100"] div_mult_self1 [of 100 yoe "era * 4"] by (simp_all add: algebra_simps)
  moreover have "(yoe + era * 400) div 400 = era" using assms by (simp add: div_pos_pos_trivial)
  ultimately show ?thesis by (simp add: year_start_def)
qed

lemma leap_year_era: "leap_year (y + era * 400) = leap_year y"
proof -
  have "4 dvd era * 400" "100 dvd era * 400" "400 dvd era * 400" by simp_all
  then show ?thesis unfolding leap_year_def by (simp only: dvd_add_left_iff)
qed

text \<open>What \<open>civil_from_days\<close> computes: the year that contains the day, and the day within it.\<close>

lemma civil_from_days_year:
  obtains y doy where "civil_from_days n = date_in_year y doy" "year_start y + doy = n + 719468"
    "0 \<le> doy" "doy < year_start (y + 1) - year_start y"
proof -
  define days era doe where "days = n + 719468" "era = days div 146097" "doe = days mod 146097"
  define yoe where "yoe = (doe - doe div 1460 + doe div 36524 - doe div 146096) div 365"
  define doy where "doy = doe - (365 * yoe + yoe div 4 - yoe div 100)"
  have doe: "0 \<le> doe" "doe < 146097" "days = era * 146097 + doe" unfolding days_era_doe_def by simp_all
  note split = year_of_era [OF doe(1,2), folded yoe_def, folded doy_def]
  have "(146097 :: int) - 1 = 146096" by simp
  from sdiv_floor [of 146097 days, unfolded this]
  have fields: "(if days \<ge> 0 then days else days - 146096) sdiv 146097 = era" "days - era * 146097 = doe"
    using doe(3) unfolding days_era_doe_def(2) by (simp, linarith)
  have civil: "civil_from_days n = date_in_year (yoe + era * 400) doy"
    unfolding civil_from_days_def date_in_year_def month_day_def Let_def days_era_doe_def(1) [symmetric] fields
      yoe_def [symmetric] doy_def [symmetric] by simp
  have start: "year_start (yoe + era * 400) + doy = n + 719468"
    using year_start_era [of yoe era] split doe(3) unfolding doy_def days_era_doe_def(1) by simp
  have "leap_year (yoe + era * 400 + 1) = leap_year (yoe + 1)"
    using leap_year_era [of "yoe + 1" era] by (simp only: ac_simps)
  then have "year_start (yoe + era * 400 + 1) - year_start (yoe + era * 400) = 365 + (if leap_year (yoe + 1) then 1 else 0)"
    using year_start_step [of "yoe + era * 400"] by simp
  then have "doy < year_start (yoe + era * 400 + 1) - year_start (yoe + era * 400)" using split by auto
  then show ?thesis using that civil start split by blast
qed

lemma year_unique:
  assumes "year_start y + doy = year_start z + doz" "0 \<le> doy" "0 \<le> doz"
    and "doy < year_start (y + 1) - year_start y" "doz < year_start (z + 1) - year_start z"
  shows "y = z \<and> doy = doz"
proof -
  have "\<not> y < z" "\<not> z < y" using assms year_start_mono [of y z] year_start_mono [of z y] by linarith+
  then show ?thesis using assms(1) by simp
qed

section \<open>The Gregorian calendar\<close>

definition month_length :: "int \<Rightarrow> int \<Rightarrow> int" where
  "month_length y m =
    (if m = 2 then (if leap_year y then 29 else 28) else if m \<in> {4, 6, 9, 11} then 30 else 31)"

definition next_day :: "civil_date \<Rightarrow> civil_date" where
  "next_day date =
    (if cv_day date < month_length (cv_year date) (cv_month date) then date\<lparr>cv_day := cv_day date + 1\<rparr>
     else if cv_month date < 12 then date\<lparr>cv_month := cv_month date + 1, cv_day := 1\<rparr>
     else \<lparr>cv_year = cv_year date + 1, cv_month = 1, cv_day = 1\<rparr>)"

lemma list_all_upto: "list_all P [a..b] \<Longrightarrow> a \<le> i \<Longrightarrow> i \<le> b \<Longrightarrow> P i"
  by (simp add: list_all_iff)

text \<open>The days of the year up to the last of February, by evaluation.\<close>

lemma month_day_steps:
  "list_all (\<lambda>doy. case month_day doy of (m, d) \<Rightarrow>
     (m = 2 \<longrightarrow> d < 28) \<and>
     month_day (doy + 1) = (if d < month_length 1 m then (m, d + 1) else if m < 12 then (m + 1, 1) else (1, 1))) [0..363]"
  by code_simp

lemma month_day_ranges: "list_all (\<lambda>doy. case month_day doy of (m, d) \<Rightarrow> 1 \<le> m \<and> m \<le> 12 \<and> 1 \<le> d \<and> d \<le> 31
    \<and> (153 * (m + (if m > 2 then - 3 else 9)) + 2) div 5 + d - 1 = doy) [0..365]"
  by code_simp

lemma month_day_range:
  assumes "0 \<le> doy" "doy \<le> 365" "month_day doy = (m, d)"
  shows "1 \<le> m \<and> m \<le> 12 \<and> 1 \<le> d \<and> d \<le> 31 \<and> (153 * (m + (if m > 2 then - 3 else 9)) + 2) div 5 + d - 1 = doy"
  using list_all_upto [OF month_day_ranges assms(1,2)] assms(3) by simp

lemma date_in_year_step:
  assumes "0 \<le> doy" "doy < 364"
  shows "next_day (date_in_year y doy) = date_in_year y (doy + 1)"
proof -
  obtain m d where md: "month_day doy = (m, d)" by fastforce
  have "(m = 2 \<longrightarrow> d < 28) \<and>
      month_day (doy + 1) = (if d < month_length 1 m then (m, d + 1) else if m < 12 then (m + 1, 1) else (1, 1))"
    using list_all_upto [OF month_day_steps assms(1)] assms(2) md by simp
  moreover have "1 \<le> m" using month_day_range [OF _ _ md] assms by simp
  ultimately show ?thesis using md by (auto simp: date_in_year_def next_day_def month_length_def)
qed

lemma date_in_year_last:
  assumes "364 \<le> doy" "doy < year_start (y + 1) - year_start y"
  shows "next_day (date_in_year y doy)
    = (if doy + 1 < year_start (y + 1) - year_start y then date_in_year y (doy + 1) else date_in_year (y + 1) 0)"
proof -
  have step: "year_start (y + 1) - year_start y = (if leap_year (y + 1) then 366 else 365)"
    using year_start_step [of y] by simp
  then have "doy = 364 \<or> doy = 365 \<and> leap_year (y + 1)" using assms by (auto split: if_splits)
  moreover have "month_day 364 = (2, 28)" "month_day 365 = (2, 29)" "month_day 0 = (3, 1)" by code_simp+
  ultimately show ?thesis unfolding step by (auto simp: date_in_year_def next_day_def month_length_def)
qed

lemma civil_from_days_next: "civil_from_days (n + 1) = next_day (civil_from_days n)"
proof -
  obtain y doy where n: "civil_from_days n = date_in_year y doy" "year_start y + doy = n + 719468" "0 \<le> doy"
    "doy < year_start (y + 1) - year_start y" by (rule civil_from_days_year)
  obtain z doz where s: "civil_from_days (n + 1) = date_in_year z doz" "year_start z + doz = n + 1 + 719468" "0 \<le> doz"
    "doz < year_start (z + 1) - year_start z" by (rule civil_from_days_year)
  have long: "year_start (v + 1) - year_start v \<ge> 365" for v using year_start_step [of v] by simp
  show ?thesis
  proof (cases "doy + 1 < year_start (y + 1) - year_start y")
    case True
    then have "z = y \<and> doz = doy + 1" using year_unique [of z doz y "doy + 1"] n s by simp
    moreover have "next_day (date_in_year y doy) = date_in_year y (doy + 1)"
      using date_in_year_step [OF n(3)] date_in_year_last [OF _ n(4)] True by (cases "doy < 364") simp_all
    ultimately show ?thesis using n(1) s(1) by simp
  next
    case False
    then have "z = y + 1 \<and> doz = 0" using year_unique [of z doz "y + 1" 0] n s long [of "y + 1"] by simp
    moreover have "364 \<le> doy" using False long [of y] by linarith
    then have "next_day (date_in_year y doy) = date_in_year (y + 1) 0" using date_in_year_last [OF _ n(4)] False by simp
    ultimately show ?thesis using n(1) s(1) by simp
  qed
qed

lemma days_from_civil_inverse:
  "days_from_civil (cv_year (civil_from_days n)) (cv_month (civil_from_days n)) (cv_day (civil_from_days n)) = n"
proof -
  obtain y doy where n: "civil_from_days n = date_in_year y doy" "year_start y + doy = n + 719468" "0 \<le> doy"
    "doy < year_start (y + 1) - year_start y" by (rule civil_from_days_year)
  obtain m d where md: "month_day doy = (m, d)" by fastforce
  have "doy \<le> 365" using n(4) year_start_step [of y] by (simp split: if_split_asm)
  note range = month_day_range [OF n(3) this md]
  have "(153 * (m + (if m > 2 then - 3 else 9)) + 2) sdiv 5 = (153 * (m + (if m > 2 then - 3 else 9)) + 2) div 5"
    using range by (intro sdiv_nonneg) auto
  moreover have "0 \<le> y mod 400" by simp
  then have "(y - y div 400 * 400) sdiv 4 = (y mod 400) div 4" "(y - y div 400 * 400) sdiv 100 = (y mod 400) div 100"
    using sdiv_nonneg [of "y mod 400" 4] sdiv_nonneg [of "y mod 400" 100] by (simp_all add: minus_div_mult_eq_mod)
  moreover have "year_start y = y div 400 * 146097 + (y mod 400 * 365 + (y mod 400) div 4 - (y mod 400) div 100)"
    using year_start_era [of "y mod 400" "y div 400"] by simp
  moreover have "(if y \<ge> 0 then y else y - 399) sdiv 400 = y div 400" 
    using sdiv_floor [of 400 y] by (cases "0 \<le> y") simp_all
  moreover have "days_from_civil (y + (if m \<le> 2 then 1 else 0)) m d =
      (if y \<ge> 0 then y else y - 399) sdiv 400 * 146097
      + ((y - (if y \<ge> 0 then y else y - 399) sdiv 400 * 400) * 365
         + (y - (if y \<ge> 0 then y else y - 399) sdiv 400 * 400) sdiv 4
         - (y - (if y \<ge> 0 then y else y - 399) sdiv 400 * 400) sdiv 100
         + ((153 * (m + (if m > 2 then - 3 else 9)) + 2) sdiv 5 + d - 1)) - 719468"
    unfolding days_from_civil_def Let_def by simp
  ultimately have "days_from_civil (y + (if m \<le> 2 then 1 else 0)) m d = n"
    using n(2) range by (simp only: minus_div_mult_eq_mod)
  then show ?thesis using n(1) md by (simp add: date_in_year_def)
qed

section \<open>Digits\<close>

fun fixed_digits :: "nat \<Rightarrow> nat \<Rightarrow> string" where
  "fixed_digits 0 v = []"
| "fixed_digits (Suc n) v = fixed_digits n (v div 10) @ [char_of (48 + v mod 10)]"

lemma length_fixed_digits [simp]: "length (fixed_digits n v) = n"
  by (induction n arbitrary: v) simp_all

lemma fixed_digits_0: "fixed_digits n 0 = replicate n CHR ''0''"
proof (induction n)
  case (Suc n)
  have "char_of (48 :: nat) = CHR ''0''" by code_simp
  with Suc show ?case by (simp add: replicate_append_same)
qed simp

lemma digit_char [simp]:
  assumes "d < 10"
  shows "is_digit (char_of (48 + d))" "digit_value (char_of (48 + d)) = d"
  using assms by (simp_all add: is_digit_def digit_value_def less_eq_char_def)

lemma zero_pad_snoc: "zero_pad (Suc n) (xs @ [c]) = zero_pad n xs @ [c]"
  by (simp add: zero_pad_def)

lemma zero_pad_decimal: "v < 10 ^ n \<Longrightarrow> 0 < n \<Longrightarrow> zero_pad n (decimal v) = fixed_digits n v"
proof (induction n arbitrary: v)
  case (Suc n)
  show ?case
  proof (cases "v < 10")
    case True
    then show ?thesis by (simp add: decimal.simps [of v] zero_pad_def fixed_digits_0)
  next
    case False
    have "0 < n" using False Suc.prems(1) by (cases n) auto
    moreover have "v div 10 < 10 ^ n" using Suc.prems(1) by (simp add: less_mult_imp_div_less mult.commute)
    ultimately show ?thesis using Suc.IH False by (simp add: decimal.simps [of v] zero_pad_snoc)
  qed
qed simp

lemma print_padded_digits: "0 \<le> v \<Longrightarrow> v < 10 ^ n \<Longrightarrow> 0 < n \<Longrightarrow> print_padded n v = fixed_digits n (nat v)"
  by (simp add: print_padded_def zero_pad_decimal nat_less_iff)

lemma digits_value_append: "digits_value (xs @ ys) a = Option.bind (digits_value xs a) (digits_value ys)"
  by (induction xs arbitrary: a) auto

lemma digits_value_fixed: "v < 10 ^ n \<Longrightarrow> digits_value (fixed_digits n v) a = Some (a * 10 ^ n + int v)"
proof (induction n arbitrary: v)
  case (Suc n)
  have "v div 10 < 10 ^ n" using Suc.prems by (simp add: less_mult_imp_div_less mult.commute)
  moreover have "int v = int (v div 10) * 10 + int (v mod 10)" by presburger
  ultimately show ?case using Suc.IH [of "v div 10"] by (simp add: digits_value_append algebra_simps)
qed simp

lemma fixed_digits_all: "list_all is_digit (fixed_digits n v)"
  by (induction n arbitrary: v) simp_all

lemma digits_value_foldl: "list_all is_digit xs \<Longrightarrow> digits_value xs a = Some (foldl (\<lambda>b c. b * 10 + int (digit_value c)) a xs)"
  by (induction xs arbitrary: a) auto

lemma foldl_nth: "foldl (\<lambda>b i. f b (xs ! i)) a [0..<length xs] = foldl f a xs"
proof -
  have "foldl f a (map ((!) xs) [0..<length xs]) = foldl (\<lambda>b i. f b (xs ! i)) a [0..<length xs]" by (simp add: foldl_map)
  then show ?thesis by (simp add: map_nth)
qed

lemma read_fraction_fixed:
  assumes "length pre = 19" "v < 1000000000"
  shows "read_fraction (pre @ ''.'' @ fixed_digits 9 v @ ''Z'') = Inr (int v, 29)"
proof -
  let ?text = "pre @ ''.'' @ fixed_digits 9 v @ ''Z''" and ?run = "fixed_digits 9 v"
  have run: "takeWhile is_digit (drop 20 ?text) = ?run"
    using fixed_digits_all [of 9 v] assms(1) by (simp add: takeWhile_append2 list_all_iff is_digit_def less_eq_char_def)
  have "foldl (\<lambda>value i. value * 10 + (if i < 9 then int (digit_value (?run ! i)) else 0)) 0 [0..<9]
      = foldl (\<lambda>value i. value * 10 + int (digit_value (?run ! i))) 0 [0..<length ?run]"
    by (rule foldl_cong) auto
  also have "\<dots> = foldl (\<lambda>b c. b * 10 + int (digit_value c)) 0 ?run" by (rule foldl_nth)
  also have "\<dots> = int v"
    using digits_value_foldl [OF fixed_digits_all, of 9 v 0] digits_value_fixed [of v 9 0] assms(2) by simp
  finally show ?thesis
    using run assms(1) length_fixed_digits [of 9 v] by (auto simp: read_fraction_def Let_def nth_append simp del: length_fixed_digits)
qed

section \<open>The round trip\<close>

lemma floor_split:
  fixes a k :: int
  assumes "0 < k"
  shows "(if a smod k < 0 then (a smod k + k, a sdiv k - 1) else (a smod k, a sdiv k)) = (a mod k, a div k)"
proof -
  have eq: "a = k * (a sdiv k) + a smod k" by (simp add: mult_sdiv_smod_eq)
  have small: "\<bar>a smod k\<bar> < k" using abs_mod_less [of k "\<bar>a\<bar>"] assms by (auto simp: signed_modulo_int_def abs_mult sgn_if)
  show ?thesis
  proof (cases "a smod k < 0")
    case True
    have eq': "a = k * (a sdiv k - 1) + (a smod k + k)" using eq by (simp add: right_diff_distrib)
    show ?thesis using int_div_pos_eq [OF eq'] int_mod_pos_eq [OF eq'] small True by simp
  next
    case False
    then show ?thesis using int_div_pos_eq [OF eq] int_mod_pos_eq [OF eq] small by simp
  qed
qed

lemma civil_year_bound:
  assumes "- 106752 \<le> n" "n \<le> 106752"
  shows "0 \<le> cv_year (civil_from_days n) \<and> cv_year (civil_from_days n) < 9999"
proof -
  obtain y doy where n: "civil_from_days n = date_in_year y doy" "year_start y + doy = n + 719468" "0 \<le> doy"
    "doy < year_start (y + 1) - year_start y" by (rule civil_from_days_year)
  have "doy \<le> 365" using n(4) year_start_step [of y] by (simp split: if_split_asm)
  then have "612350 \<le> year_start y" "year_start y \<le> 826220" using n(2,3) assms by linarith+
  moreover have "4 * (y div 4) \<le> y" "y < 4 * (y div 4) + 4" "100 * (y div 100) \<le> y" "y < 100 * (y div 100) + 100"
    "400 * (y div 400) \<le> y" "y < 400 * (y div 400) + 400" by linarith+
  ultimately have "0 \<le> y" "y < 9990" unfolding year_start_def by linarith+
  then show ?thesis using n(1) by (simp add: date_in_year_def split: prod.split)
qed

lemma civil_date_range:
  "1 \<le> cv_month (civil_from_days n) \<and> cv_month (civil_from_days n) \<le> 12
    \<and> 1 \<le> cv_day (civil_from_days n) \<and> cv_day (civil_from_days n) \<le> 31"
proof -
  obtain y doy where n: "civil_from_days n = date_in_year y doy" "0 \<le> doy" "doy < year_start (y + 1) - year_start y"
    by (rule civil_from_days_year)
  have "doy \<le> 365" using n(3) year_start_step [of y] by (simp split: if_split_asm)
  then show ?thesis using n(1) month_day_range [OF n(2)] by (auto simp: date_in_year_def split: prod.split)
qed

lemma to_iso8601_fields:
  "to_iso8601 t =
    (let seconds = t div 1000000000; date = civil_from_days (seconds div 86400); second_of_day = seconds mod 86400
     in print_padded 4 (cv_year date) @ ''-'' @ print_padded 2 (cv_month date) @ ''-'' @ print_padded 2 (cv_day date) @ ''T''
        @ print_padded 2 (second_of_day div 3600) @ '':'' @ print_padded 2 ((second_of_day mod 3600) div 60) @ '':''
        @ print_padded 2 (second_of_day mod 60) @ ''.'' @ print_padded 9 (t mod 1000000000) @ ''Z'')"
  using floor_split [of 1000000000 t] floor_split [of 86400 "t div 1000000000"]
  by (simp add: to_iso8601_def Let_def)

lemma timestamp_of_fields_seconds:
  assumes "days_from_civil year month day * 86400 + hour * 3600 + minute * 60 + second = seconds"
    "- 9223372037 \<le> seconds" "seconds \<le> 9223372036"
  shows "timestamp_of_fields year month day hour minute second fraction =
    (if seconds = - 9223372037 then Inl (status_make Outcome_Overflow ''timestamp overflows the nanosecond range'')
     else Inr (seconds * 1000000000 + fraction))"
proof -
  define magnitude :: u64 where "magnitude = (if seconds < 0 then word_of_int (- (seconds + 1)) + 1 else word_of_int seconds)"
  have m: "magnitude = word_of_int \<bar>seconds\<bar>" by (simp add: magnitude_def)
  then have u: "uint magnitude = \<bar>seconds\<bar>" using assms(2,3) by (simp add: uint_word_of_int_eq take_bit_int_eq_self)
  then have "unat magnitude * unat (1000000000 :: u64) < 2 ^ 64" using assms(2,3) by (simp add: unat_eq_nat_uint)
  then have mul: "mul_u64 magnitude 1000000000 = Some (magnitude * 1000000000)"
    by (simp add: mul_u64_spec)
  have n: "uint (magnitude * 1000000000) = \<bar>seconds\<bar> * 1000000000"
    using assms(2,3) by (simp add: uint_word_ariths u)
  then have over: "magnitude * 1000000000 > 9223372036854775807 \<longleftrightarrow> seconds = - 9223372037"
    using assms(2,3) by (simp add: word_less_alt) linarith
  show ?thesis
    unfolding timestamp_of_fields_def Let_def assms(1) magnitude_def [symmetric] mul using over n by simp
qed

lemma parse_fixed:
  assumes "year < 10000" "1 \<le> month" "month \<le> 12" "1 \<le> day" "day \<le> 31" "hour \<le> 23" "minute \<le> 59" "second \<le> 60"
    "fraction < 1000000000"
  shows "parse_iso8601 (fixed_digits 4 year @ ''-'' @ fixed_digits 2 month @ ''-'' @ fixed_digits 2 day @ ''T''
      @ fixed_digits 2 hour @ '':'' @ fixed_digits 2 minute @ '':'' @ fixed_digits 2 second @ ''.'' @ fixed_digits 9 fraction @ ''Z'')
    = timestamp_of_fields (int year) (int month) (int day) (int hour) (int minute) (int second) (int fraction)"
    (is "parse_iso8601 ?text = _")
proof -
  let ?pre = "fixed_digits 4 year @ ''-'' @ fixed_digits 2 month @ ''-'' @ fixed_digits 2 day @ ''T''
      @ fixed_digits 2 hour @ '':'' @ fixed_digits 2 minute @ '':'' @ fixed_digits 2 second"
  have whole: "?text = ?pre @ ''.'' @ fixed_digits 9 fraction @ ''Z''" by simp
  have "read_fraction ?text = Inr (int fraction, 29)" unfolding whole by (rule read_fraction_fixed) (use assms in simp_all)
  moreover have "read_uint ?text 0 4 = Some (int year)" "read_uint ?text 5 2 = Some (int month)" "read_uint ?text 8 2 = Some (int day)"
    "read_uint ?text 11 2 = Some (int hour)" "read_uint ?text 14 2 = Some (int minute)" "read_uint ?text 17 2 = Some (int second)"
    using assms by (simp_all add: read_uint_def digits_value_fixed)
  moreover have "?text ! 4 = CHR ''-''" "?text ! 7 = CHR ''-''" "?text ! 10 = CHR ''T''" "?text ! 13 = CHR '':''"
    "?text ! 16 = CHR '':''" by (simp_all add: nth_append)
  moreover have "length ?text = 30" "last ?text = CHR ''Z''" by simp_all
  ultimately show ?thesis using assms unfolding parse_iso8601_def by simp
qed

lemma parse_printed:
  assumes "0 \<le> year" "year < 10000" "1 \<le> month" "month \<le> 12" "1 \<le> day" "day \<le> 31" "0 \<le> hour" "hour \<le> 23"
    "0 \<le> minute" "minute \<le> 59" "0 \<le> second" "second \<le> 60" "0 \<le> fraction" "fraction < 1000000000"
  shows "parse_iso8601 (print_padded 4 year @ ''-'' @ print_padded 2 month @ ''-'' @ print_padded 2 day @ ''T''
      @ print_padded 2 hour @ '':'' @ print_padded 2 minute @ '':'' @ print_padded 2 second @ ''.'' @ print_padded 9 fraction @ ''Z'')
    = timestamp_of_fields year month day hour minute second fraction"
proof -
  have two: "print_padded 2 v = fixed_digits 2 (nat v)" if "0 \<le> v" "v \<le> 60" for v
    using that by (intro print_padded_digits) simp_all
  have "print_padded 4 year = fixed_digits 4 (nat year)" "print_padded 9 fraction = fixed_digits 9 (nat fraction)"
    using assms by (intro print_padded_digits; simp)+
  then show ?thesis
    using parse_fixed [of "nat year" "nat month" "nat day" "nat hour" "nat minute" "nat second" "nat fraction"] assms
    by (simp add: two nat_le_iff nat_less_iff le_nat_iff)
qed

lemma clock_fields:
  fixes sod :: int
  assumes "0 \<le> sod" "sod < 86400"
  shows "0 \<le> sod div 3600 \<and> sod div 3600 \<le> 23 \<and> 0 \<le> sod mod 3600 div 60 \<and> sod mod 3600 div 60 \<le> 59
    \<and> 0 \<le> sod mod 60 \<and> sod mod 60 \<le> 60 \<and> sod div 3600 * 3600 + sod mod 3600 div 60 * 60 + sod mod 60 = sod"
proof -
  have "sod mod 3600 = sod mod 3600 div 60 * 60 + sod mod 3600 mod 60" by simp
  moreover have "sod mod 3600 mod 60 = sod mod 60" by (simp add: mod_mod_cancel)
  moreover have "sod = sod div 3600 * 3600 + sod mod 3600" by simp
  moreover have "0 \<le> sod mod 60" "sod mod 60 < 60" "0 \<le> sod mod 3600" "sod mod 3600 < 3600" by simp_all
  ultimately show ?thesis using assms by linarith
qed

lemma iso8601_round_trip:
  assumes "i64_ok t"
  shows "parse_iso8601 (to_iso8601 t) =
    (if t < - 9223372036000000000 then Inl (status_make Outcome_Overflow ''timestamp overflows the nanosecond range'') else Inr t)"
proof -
  define seconds date sod where "seconds = t div 1000000000" "date = civil_from_days (seconds div 86400)" "sod = seconds mod 86400"
  note names = this
  have "- 9223372036854775808 \<le> t" "t \<le> 9223372036854775807" using assms by (simp_all add: i64_ok_def)
  then have s: "- 9223372037 \<le> seconds" "seconds \<le> 9223372036" unfolding names by linarith+
  then have day: "- 106752 \<le> seconds div 86400" "seconds div 86400 \<le> 106752" by linarith+
  have "0 \<le> sod" "sod < 86400" unfolding names by simp_all
  note clock = clock_fields [OF this]
  note date = civil_year_bound [OF day, folded names(2)] civil_date_range [of "seconds div 86400", folded names(2)]
  have "days_from_civil (cv_year date) (cv_month date) (cv_day date) = seconds div 86400"
    unfolding names by (rule days_from_civil_inverse)
  then have total: "days_from_civil (cv_year date) (cv_month date) (cv_day date) * 86400
      + sod div 3600 * 3600 + sod mod 3600 div 60 * 60 + sod mod 60 = seconds"
    using div_mult_mod_eq [of seconds 86400] clock unfolding names(3) [symmetric] by linarith
  have "parse_iso8601 (to_iso8601 t) = timestamp_of_fields (cv_year date) (cv_month date) (cv_day date)
      (sod div 3600) (sod mod 3600 div 60) (sod mod 60) (t mod 1000000000)"
    unfolding to_iso8601_fields Let_def names [symmetric]
    using clock date by (intro parse_printed) (blast | linarith | simp)+
  also have "\<dots> = (if seconds = - 9223372037 then Inl (status_make Outcome_Overflow ''timestamp overflows the nanosecond range'')
      else Inr (seconds * 1000000000 + t mod 1000000000))"
    by (rule timestamp_of_fields_seconds [OF total s])
  also have "seconds = - 9223372037 \<longleftrightarrow> t < - 9223372036000000000" using s(1) unfolding names by linarith
  also have "seconds * 1000000000 + t mod 1000000000 = t" unfolding names by simp
  finally show ?thesis .
qed

end
