(* ===== verification/Config.thy ===== *)
theory Config
  imports Calendar Ordered_Map
begin

text \<open>
  \<open>core/config.cpp\<close>: configuration text, one \<open>key = value\<close> per line, and the typed access to its values. A
  configuration is the map of its entries. What opening and reading a file gave is a parameter.
\<close>

definition kMaxConfigLines :: nat where "kMaxConfigLines = 512"
definition kMaxConfigLineLength :: nat where "kMaxConfigLineLength = 4096"

type_synonym config = "(string, string) omap"

section \<open>Text\<close>

definition newline :: char where "newline = CHR 0x0A"

definition is_blank :: "char \<Rightarrow> bool" where
  "is_blank c \<longleftrightarrow> c = CHR '' '' \<or> c = CHR 0x09 \<or> c = CHR 0x0D"

definition trim :: "string \<Rightarrow> string" where
  "trim s = rev (dropWhile is_blank (rev (dropWhile is_blank s)))"

definition valid_key :: "string \<Rightarrow> bool" where
  "valid_key key \<longleftrightarrow> key \<noteq> [] \<and> length key \<le> 64
    \<and> list_all (\<lambda>c. char_between (CHR ''a'') (CHR ''z'') c \<or> char_between (CHR ''A'') (CHR ''Z'') c
        \<or> char_between (CHR ''0'') (CHR ''9'') c \<or> c = CHR ''.'' \<or> c = CHR ''_'' \<or> c = CHR ''-'') key"

definition parse_bool :: "string \<Rightarrow> bool result" where
  "parse_bool s =
    (if s = ''true'' \<or> s = ''yes'' \<or> s = ''on'' \<or> s = ''1'' then Inr True
     else if s = ''false'' \<or> s = ''no'' \<or> s = ''off'' \<or> s = ''0'' then Inr False
     else Inl (invalid ''expected one of true/false, yes/no, on/off, 1/0''))"

fun parse_u64_digits :: "string \<Rightarrow> u64 \<Rightarrow> u64 result" where
  "parse_u64_digits [] value = Inr value"
| "parse_u64_digits (c # cs) value =
    (if \<not> is_digit c then Inl (invalid ''expected an unsigned decimal integer'')
     else case Option.bind (mul_u64 value 10) (\<lambda>tens. add_u64 tens (word_of_nat (digit_value c))) of
       None \<Rightarrow> Inl (status_make Outcome_Overflow ''integer does not fit in 64 bits'')
     | Some next \<Rightarrow> parse_u64_digits cs next)"

definition parse_u64 :: "string \<Rightarrow> u64 result" where
  "parse_u64 s =
    (if s = [] then Inl (invalid ''expected an unsigned decimal integer'') else parse_u64_digits s 0)"

definition parse_i64 :: "string \<Rightarrow> int result" where
  "parse_i64 s =
    (if s = [] then Inl (invalid ''expected a signed decimal integer'')
     else
       let negative = hd s = CHR ''-'';
           rest = (if negative \<or> hd s = CHR ''+'' then tl s else s)
       in case parse_u64 rest of
            Inl e \<Rightarrow> Inl e
          | Inr magnitude \<Rightarrow>
              let limit = (if negative then 9223372036854775807 + 1 else 9223372036854775807)
              in if magnitude > limit then Inl (status_make Outcome_Overflow ''integer does not fit in 64 bits'')
                 else if negative
                 then (if magnitude = 9223372036854775807 + 1 then Inr (- (2 ^ 63)) else Inr (- uint magnitude))
                 else Inr (uint magnitude))"

section \<open>Parsing a configuration\<close>

text \<open>The line at the front, and the text behind its newline where there is one.\<close>

definition next_line :: "string \<Rightarrow> string \<times> string option" where
  "next_line s =
    (takeWhile (\<lambda>c. c \<noteq> newline) s, case dropWhile (\<lambda>c. c \<noteq> newline) s of [] \<Rightarrow> None | _ # rest \<Rightarrow> Some rest)"

lemma next_line_shorter: "next_line s = (l, Some rest) \<Longrightarrow> length rest < length s"
proof -
  assume "next_line s = (l, Some rest)"
  then obtain c where "dropWhile (\<lambda>c. c \<noteq> newline) s = c # rest" by (auto simp: next_line_def split: list.splits)
  then show ?thesis using length_dropWhile_le [of "\<lambda>c. c \<noteq> newline" s] by simp
qed

text \<open>One line: the entry it holds, if any.\<close>

definition parse_line :: "string \<Rightarrow> nat \<Rightarrow> string \<Rightarrow> (string \<times> string) option result" where
  "parse_line origin number line =
    (let content = trim line in
     if content = [] \<or> hd content = CHR ''#'' then Inr None
     else if CHR ''='' \<notin> set content
     then Inl (invalid (origin @ '': line '' @ decimal number @ '' is missing '' @ [CHR 0x27] @ ''='' @ [CHR 0x27]))
     else
       let key = trim (takeWhile (\<lambda>c. c \<noteq> CHR ''='') content);
           value = trim (tl (dropWhile (\<lambda>c. c \<noteq> CHR ''='') content))
       in if \<not> valid_key key then Inl (invalid (origin @ '': line '' @ decimal number @ '' has an invalid key''))
          else if value = [] then Inl (invalid (origin @ '': line '' @ decimal number @ '' has an empty value''))
          else if length value > kMaxStringField
          then Inl (invalid (origin @ '': line '' @ decimal number @ '' value is too long''))
          else Inr (Some (key, value)))"

function parse_lines :: "string \<Rightarrow> string \<Rightarrow> nat \<Rightarrow> config \<Rightarrow> config result" where
  "parse_lines origin s before config =
    (case next_line s of (line, rest) \<Rightarrow>
       let number = before + 1 in
       if number > kMaxConfigLines then Inl (invalid (origin @ '': too many configuration lines''))
       else if length line > kMaxConfigLineLength
       then Inl (invalid (origin @ '': configuration line exceeds the maximum length''))
       else case parse_line origin number line of
         Inl e \<Rightarrow> Inl e
       | Inr entry \<Rightarrow>
           (case (case entry of
                None \<Rightarrow> Inr config
              | Some (key, value) \<Rightarrow>
                  if om_find config key \<noteq> None
                  then Inl (invalid (origin @ '': duplicate key '' @ [CHR 0x27] @ key @ [CHR 0x27]))
                  else Inr (om_put key value config)) of
              Inl e \<Rightarrow> Inl e
            | Inr config' \<Rightarrow>
                (case rest of None \<Rightarrow> Inr config' | Some s' \<Rightarrow> parse_lines origin s' number config')))"
  by pat_completeness auto
termination
  by (relation "measure (\<lambda>(_, s, _, _). length s)") (auto dest: next_line_shorter [OF sym])

declare parse_lines.simps [simp del]

definition config_parse :: "string \<Rightarrow> string \<Rightarrow> config result" where
  "config_parse s origin =
    (if \<not> is_valid_utf8 (bytes_of_string s) then Inl (invalid (origin @ '': configuration is not valid UTF-8''))
     else parse_lines origin s 0 [])"

text \<open>What the file system gives for a path.\<close>

datatype file_contents = Unopened | Unreadable | Contents string

definition load_file :: "(string \<Rightarrow> file_contents) \<Rightarrow> string \<Rightarrow> config result" where
  "load_file files path =
    (case files path of
       Unopened \<Rightarrow> Inl (status_make Outcome_NotFound (''cannot open configuration file: '' @ path))
     | Unreadable \<Rightarrow> Inl (status_make Outcome_Internal (''failed while reading configuration file: '' @ path))
     | Contents s \<Rightarrow> config_parse s path)"

section \<open>Access\<close>

definition config_has :: "config \<Rightarrow> string \<Rightarrow> bool" where
  "config_has config key \<longleftrightarrow> om_find config key \<noteq> None"

definition config_set :: "string \<Rightarrow> string \<Rightarrow> config \<Rightarrow> status \<times> config" where
  "config_set key value config =
    (if \<not> valid_key key then (invalid (''invalid configuration key: '' @ key), config)
     else if value = [] \<or> length value > kMaxStringField
     then (invalid ''configuration value has an invalid length'', config)
     else if \<not> is_valid_utf8 (bytes_of_string value) then (invalid ''configuration value is not valid UTF-8'', config)
     else (status_ok, om_put key value config))"

definition get_string :: "config \<Rightarrow> string \<Rightarrow> string result" where
  "get_string config key =
    (case om_find config key of
       None \<Rightarrow> Inl (status_make Outcome_NotFound (''missing configuration key '' @ [CHR 0x27] @ key @ [CHR 0x27]))
     | Some value \<Rightarrow> Inr value)"

definition get_u64 :: "config \<Rightarrow> string \<Rightarrow> u64 result" where
  "get_u64 config key = (case get_string config key of Inl e \<Rightarrow> Inl e | Inr value \<Rightarrow> parse_u64 value)"

definition get_i64 :: "config \<Rightarrow> string \<Rightarrow> int result" where
  "get_i64 config key = (case get_string config key of Inl e \<Rightarrow> Inl e | Inr value \<Rightarrow> parse_i64 value)"

definition get_bool :: "config \<Rightarrow> string \<Rightarrow> bool result" where
  "get_bool config key = (case get_string config key of Inl e \<Rightarrow> Inl e | Inr value \<Rightarrow> parse_bool value)"

definition get_duration :: "config \<Rightarrow> string \<Rightarrow> duration result" where
  "get_duration config key = (case get_string config key of Inl e \<Rightarrow> Inl e | Inr value \<Rightarrow> duration_parse value)"

definition get_string_or :: "config \<Rightarrow> string \<Rightarrow> string \<Rightarrow> string" where
  "get_string_or config key fallback = (case om_find config key of None \<Rightarrow> fallback | Some value \<Rightarrow> value)"

definition get_u64_or :: "config \<Rightarrow> string \<Rightarrow> u64 \<Rightarrow> u64" where
  "get_u64_or config key fallback = (case get_u64 config key of Inl _ \<Rightarrow> fallback | Inr value \<Rightarrow> value)"

definition get_bool_or :: "config \<Rightarrow> string \<Rightarrow> bool \<Rightarrow> bool" where
  "get_bool_or config key fallback = (case get_bool config key of Inl _ \<Rightarrow> fallback | Inr value \<Rightarrow> value)"

definition get_duration_or :: "config \<Rightarrow> string \<Rightarrow> duration \<Rightarrow> duration" where
  "get_duration_or config key fallback = (case get_duration config key of Inl _ \<Rightarrow> fallback | Inr value \<Rightarrow> value)"

fun reject_unknown :: "string list \<Rightarrow> config \<Rightarrow> status" where
  "reject_unknown known [] = status_ok"
| "reject_unknown known ((key, value) # rest) =
    (if key \<notin> set known then invalid (''unrecognised configuration key '' @ [CHR 0x27] @ key @ [CHR 0x27])
     else reject_unknown known rest)"

end
