(* ===== verification/Log.thy ===== *)
theory Log
  imports Calendar
begin

text \<open>
  \<open>core/log.cpp\<close>: the levels and the text of a log line. Where the line is written, the lock around it and the
  clock are not part of the model; the time is a parameter.
\<close>

datatype log_level = LogLevel_Trace | LogLevel_Debug | LogLevel_Info | LogLevel_Warn | LogLevel_Error | LogLevel_Off

primrec log_level_value :: "log_level \<Rightarrow> nat" where
  "log_level_value LogLevel_Trace = 0"
| "log_level_value LogLevel_Debug = 1"
| "log_level_value LogLevel_Info = 2"
| "log_level_value LogLevel_Warn = 3"
| "log_level_value LogLevel_Error = 4"
| "log_level_value LogLevel_Off = 5"

primrec log_level_to_string :: "log_level \<Rightarrow> string" where
  "log_level_to_string LogLevel_Trace = ''TRACE''"
| "log_level_to_string LogLevel_Debug = ''DEBUG''"
| "log_level_to_string LogLevel_Info = ''INFO''"
| "log_level_to_string LogLevel_Warn = ''WARN''"
| "log_level_to_string LogLevel_Error = ''ERROR''"
| "log_level_to_string LogLevel_Off = ''OFF''"

definition log_level_from_string :: "string \<Rightarrow> log_level option" where
  "log_level_from_string s =
    (if s = ''trace'' then Some LogLevel_Trace
     else if s = ''debug'' then Some LogLevel_Debug
     else if s = ''info'' then Some LogLevel_Info
     else if s = ''warn'' then Some LogLevel_Warn
     else if s = ''error'' then Some LogLevel_Error
     else if s = ''off'' then Some LogLevel_Off
     else None)"

definition log_enabled :: "log_level \<Rightarrow> log_level \<Rightarrow> bool" where
  "log_enabled threshold level \<longleftrightarrow> log_level_value level \<ge> log_level_value threshold"

definition utf8_cut :: "nat \<Rightarrow> string \<Rightarrow> string" where
  "utf8_cut n s = take (utf8_prefix_length (bytes_of_string s) n) s"

text \<open>A byte of a log message: quotes and backslashes are escaped, control characters replaced.\<close>

definition is_control :: "char \<Rightarrow> bool" where
  "is_control c \<longleftrightarrow> (of_char c :: nat) < 0x20 \<or> (of_char c :: nat) = 0x7F"

definition sanitize_char :: "char \<Rightarrow> string" where
  "sanitize_char c =
    (if c = CHR 0x22 \<or> c = CHR 0x5C then [CHR 0x5C, c] else if is_control c then ''?'' else [c])"

definition sanitize :: "string \<Rightarrow> string" where
  "sanitize s = concat (map sanitize_char (utf8_cut 256 s))"

definition kMaxLogLineLength :: nat where "kMaxLogLineLength = 4096"

definition log_text :: "timestamp \<Rightarrow> log_level \<Rightarrow> string \<Rightarrow> string \<Rightarrow> (string \<times> string) list \<Rightarrow> string" where
  "log_text now level component message items =
    to_iso8601 now @ '' level='' @ log_level_to_string level @ '' component='' @ utf8_cut 64 component
    @ '' message='' @ [CHR 0x22] @ sanitize message @ [CHR 0x22]
    @ concat (map (\<lambda>(name, val). '' '' @ take 48 name @ ''='' @ sanitize val) items)"

definition write_fields ::
  "log_level \<Rightarrow> timestamp \<Rightarrow> log_level \<Rightarrow> string \<Rightarrow> string \<Rightarrow> (string \<times> string) list \<Rightarrow> string option" where
  "write_fields threshold now level component message items =
    (if \<not> log_enabled threshold level then None
     else
       let line = log_text now level component message items;
           line = (if length line > kMaxLogLineLength then utf8_cut kMaxLogLineLength line else line)
       in Some (line @ [CHR 0x0A]))"

section \<open>A log line is one line\<close>

definition printable :: "string \<Rightarrow> bool" where
  "printable s \<longleftrightarrow> list_all (\<lambda>c. \<not> is_control c) s"

lemma printable_append [simp]: "printable (s @ s') \<longleftrightarrow> printable s \<and> printable s'"
  by (simp add: printable_def)

lemma printable_take: "printable s \<Longrightarrow> printable (take n s)"
  by (auto simp: printable_def list_all_iff dest: in_set_takeD)

lemma printable_cut: "printable s \<Longrightarrow> printable (utf8_cut n s)"
  by (simp add: utf8_cut_def printable_take)

lemma printable_sanitize: "printable (sanitize s)"
proof -
  have "printable (sanitize_char c)" for c by (auto simp: sanitize_char_def printable_def is_control_def)
  then show ?thesis by (auto simp: sanitize_def printable_def list_all_iff)
qed

lemma printable_decimal: "printable (decimal n)"
proof (induction n rule: decimal.induct)
  case (1 n)
  have "printable [char_of (48 + d)]" if "d < 10" for d :: nat using that by (simp add: printable_def is_control_def)
  then show ?case using 1 by (auto simp: decimal.simps [of n])
qed

lemma printable_padded: "printable (print_padded n v)"
proof -
  have "printable (CHR ''-'' # s) \<longleftrightarrow> printable s" "printable (replicate k CHR ''0'')" for s k
    by (simp_all add: printable_def is_control_def list_all_iff)
  then show ?thesis by (simp add: print_padded_def zero_pad_def printable_decimal)
qed

lemma printable_log_text:
  assumes "printable component" "list_all (\<lambda>f. printable (fst f)) items"
  shows "printable (log_text now level component message items)"
proof -
  have fixed: "printable ''-''" "printable ''T''" "printable '':''" "printable ''.''" "printable ''Z''" "printable '' level=''"
    "printable '' component=''" "printable '' message=''" "printable [CHR 0x22]" "printable '' ''" "printable ''=''"
    by (simp_all add: printable_def is_control_def)
  have level: "printable (log_level_to_string level)" by (cases level) (simp_all add: printable_def is_control_def)
  have date: "printable (to_iso8601 now)" unfolding to_iso8601_fields Let_def by (simp only: printable_append printable_padded fixed simp_thms)
  have "printable (concat (map (\<lambda>(name, val). '' '' @ take 48 name @ ''='' @ sanitize val) items))"
    using assms(2)
  proof (induction items)
    case (Cons f items)
    obtain name val where f: "f = (name, val)" by fastforce
    then have "printable (take 48 name)" using Cons.prems printable_take by simp
    then show ?case
      using Cons f by (simp only: list.map concat.simps prod.case printable_append fixed printable_sanitize list.pred_inject simp_thms)
  qed (simp add: printable_def)
  then show ?thesis
    unfolding log_text_def by (simp only: printable_append fixed level date printable_cut [OF assms(1)] printable_sanitize simp_thms)
qed

lemma log_line_is_one_line:
  assumes "write_fields threshold now level component message items = Some line"
    and "printable component" "list_all (\<lambda>f. printable (fst f)) items"
  shows "\<exists>body. line = body @ [CHR 0x0A] \<and> printable body \<and> length body \<le> kMaxLogLineLength"
proof -
  let ?body = "log_text now level component message items"
  have "length (utf8_cut kMaxLogLineLength ?body) \<le> kMaxLogLineLength"
    using utf8_prefix_length_le [of "bytes_of_string ?body" kMaxLogLineLength] by (simp add: utf8_cut_def)
  then show ?thesis
    using assms(1) printable_log_text [OF assms(2,3)] printable_cut [OF printable_log_text [OF assms(2,3)]]
    by (auto simp: write_fields_def Let_def split: if_splits)
qed

end
