(* ===== verification/Command_Line.thy ===== *)
theory Command_Line
  imports Config Log Records
begin

text \<open>
  \<open>apps/common/app_support.hpp\<close>: the command line of the programs, how it is merged with a configuration
  file, and the declarations read from the result. An argument is a C string: it holds no zero byte.
\<close>

section \<open>Arguments\<close>

definition normalize_option :: "string \<Rightarrow> string" where
  "normalize_option key =
    map (\<lambda>c. if c = CHR ''-'' then CHR ''_'' else c) (takeWhile (\<lambda>c. c \<noteq> CHR ''.'') key)
    @ dropWhile (\<lambda>c. c \<noteq> CHR ''.'') key"

fun option_u64_digits :: "string \<Rightarrow> u64 \<Rightarrow> u64 result" where
  "option_u64_digits [] w = Inr w"
| "option_u64_digits (c # cs) w =
    (if \<not> is_digit c then Inl (invalid ''expected an unsigned decimal integer'')
     else let digit = word_of_nat (digit_value c) in
       if w > (- 1 - digit) div 10 then Inl (status_make Outcome_Overflow ''integer does not fit in 64 bits'')
       else option_u64_digits cs (w * 10 + digit))"

definition option_u64 :: "string \<Rightarrow> u64 result" where
  "option_u64 s =
    (if s = [] \<or> length s > 20 then Inl (invalid ''expected an unsigned decimal integer'') else option_u64_digits s 0)"

definition option_bool :: "string \<Rightarrow> bool result" where
  "option_bool s =
    (if s = ''true'' \<or> s = ''1'' \<or> s = ''yes'' \<or> s = ''on'' then Inr True
     else if s = ''false'' \<or> s = ''0'' \<or> s = ''no'' \<or> s = ''off'' then Inr False
     else Inl (invalid ''expected a boolean value''))"

record arguments =
  ar_options :: "(string, string) omap"
  ar_positional :: "string list"

definition arguments_has :: "arguments \<Rightarrow> string \<Rightarrow> bool" where
  "arguments_has arguments key \<longleftrightarrow> om_find (ar_options arguments) (normalize_option key) \<noteq> None"

definition arguments_get :: "arguments \<Rightarrow> string \<Rightarrow> string \<Rightarrow> string" where
  "arguments_get arguments key fallback =
    (case om_find (ar_options arguments) (normalize_option key) of None \<Rightarrow> fallback | Some val \<Rightarrow> val)"

definition arguments_get_u64 :: "arguments \<Rightarrow> string \<Rightarrow> u64 result" where
  "arguments_get_u64 arguments key =
    (case om_find (ar_options arguments) (normalize_option key) of
       None \<Rightarrow> Inl (status_make Outcome_NotFound (''missing option --'' @ key))
     | Some val \<Rightarrow> option_u64 val)"

definition add_option :: "string \<Rightarrow> string \<Rightarrow> arguments \<Rightarrow> arguments" where
  "add_option key val arguments = arguments\<lparr>ar_options := om_put (normalize_option key) val (ar_options arguments)\<rparr>"

definition add_positional :: "string \<Rightarrow> arguments \<Rightarrow> arguments" where
  "add_positional token arguments = arguments\<lparr>ar_positional := ar_positional arguments @ [token]\<rparr>"

text \<open>Whether the token after an option is its value: it does not start with a dash, or is a single dash.\<close>

definition is_option_value :: "string \<Rightarrow> bool" where
  "is_option_value token \<longleftrightarrow> token = [] \<or> hd token \<noteq> CHR ''-'' \<or> tl token = []"

fun parse_tokens :: "string list \<Rightarrow> bool \<Rightarrow> arguments \<Rightarrow> arguments" where
  "parse_tokens [] positional_only arguments = arguments"
| "parse_tokens (token # rest) positional_only arguments =
    (if positional_only then parse_tokens rest True (add_positional token arguments)
     else if token = ''--'' then parse_tokens rest True arguments
     else if length token > 2 \<and> take 2 token = ''--'' then
       (if CHR ''='' \<in> set token
        then parse_tokens rest False
          (add_option (takeWhile (\<lambda>c. c \<noteq> CHR ''='') (drop 2 token)) (tl (dropWhile (\<lambda>c. c \<noteq> CHR ''='') token)) arguments)
        else case rest of
          [] \<Rightarrow> add_option (drop 2 token) ''true'' arguments
        | val # rest' \<Rightarrow>
            if is_option_value val then parse_tokens rest' False (add_option (drop 2 token) val arguments)
            else parse_tokens rest False (add_option (drop 2 token) ''true'' arguments))
     else parse_tokens rest False (add_positional token arguments))"

definition parse_arguments :: "string list \<Rightarrow> arguments result" where
  "parse_arguments argv = Inr (parse_tokens (tl argv) False \<lparr>ar_options = [], ar_positional = []\<rparr>)"

definition log_level_from :: "arguments \<Rightarrow> log_level \<Rightarrow> log_level" where
  "log_level_from arguments fallback =
    (let s = arguments_get arguments ''log_level'' []
     in if s = [] then fallback else case log_level_from_string s of None \<Rightarrow> fallback | Some level \<Rightarrow> level)"

text \<open>The host before the last colon and the port after it; \<open>strchr\<close> looks at the host up to a zero byte.\<close>

definition parse_endpoint :: "string \<Rightarrow> (string \<times> u16) result" where
  "parse_endpoint s =
    (let port_text = rev (takeWhile (\<lambda>c. c \<noteq> CHR '':'') (rev s));
         host = butlast (rev (dropWhile (\<lambda>c. c \<noteq> CHR '':'') (rev s)))
     in if CHR '':'' \<notin> set s \<or> host = [] \<or> port_text = [] then Inl (invalid ''expected host:port'')
        else case option_u64 port_text of
          Inl e \<Rightarrow> Inl e
        | Inr port \<Rightarrow>
            if port > 65535 then Inl (invalid ''port is out of range'')
            else
              let seen = takeWhile (\<lambda>c. c \<noteq> CHR 0x00) host
              in if CHR ''@'' \<in> set seen \<or> CHR ''/'' \<in> set seen
                 then Inl (invalid ''host contains characters that are not accepted'')
                 else Inr (host, ucast port))"

section \<open>Options over configuration\<close>

fun apply_options :: "(string \<times> string) list \<Rightarrow> config \<Rightarrow> config result" where
  "apply_options [] config = Inr config"
| "apply_options ((key, val) # rest) config =
    (if key = ''config'' \<or> key = ''log_level'' then apply_options rest config
     else case config_set key val config of
       (applied, config') \<Rightarrow> if is_ok applied then apply_options rest config' else Inl applied)"

definition load_config :: "(string \<Rightarrow> file_contents) \<Rightarrow> arguments \<Rightarrow> config result" where
  "load_config files arguments =
    (let path = arguments_get arguments ''config'' [];
         loaded = (if path = [] then Inr [] else load_file files path)
     in case loaded of Inl e \<Rightarrow> Inl e | Inr config \<Rightarrow> apply_options (ar_options arguments) config)"

definition config_string :: "config \<Rightarrow> arguments \<Rightarrow> string \<Rightarrow> string \<Rightarrow> string" where
  "config_string config arguments key fallback =
    (if arguments_has arguments key then arguments_get arguments key [] else get_string_or config key fallback)"

definition config_u64 :: "config \<Rightarrow> arguments \<Rightarrow> string \<Rightarrow> u64 \<Rightarrow> u64" where
  "config_u64 config arguments key fallback =
    (if arguments_has arguments key
     then case option_u64 (arguments_get arguments key []) of Inl _ \<Rightarrow> fallback | Inr w \<Rightarrow> w
     else get_u64_or config key fallback)"

definition config_bool :: "config \<Rightarrow> arguments \<Rightarrow> string \<Rightarrow> bool \<Rightarrow> bool" where
  "config_bool config arguments key fallback =
    (if arguments_has arguments key
     then case option_bool (arguments_get arguments key []) of Inl _ \<Rightarrow> fallback | Inr b \<Rightarrow> b
     else get_bool_or config key fallback)"

definition starts_with :: "string \<Rightarrow> string \<Rightarrow> bool" where
  "starts_with prefix key \<longleftrightarrow> length key > length prefix \<and> take (length prefix) key = prefix"

definition channel_keys :: "config \<Rightarrow> (string, string) omap" where
  "channel_keys config =
    fold (\<lambda>(key, val) keys. if starts_with ''domain_key.'' key then om_put (drop 11 key) val keys else keys) config []"

section \<open>Endpoint declarations\<close>

definition declared_endpoint :: "endpoint_id \<Rightarrow> cluster_id \<Rightarrow> endpoint_record" where
  "declared_endpoint key cluster =
    \<lparr>ep_id = key, ep_cluster = cluster, ep_scope = [], ep_capacity = 0, ep_reserved = 0, ep_policy_generation = 0,
     ep_state = EndpointState_Active, ep_inter_cluster_allowed = True, ep_permits_degraded = False,
     ep_provenance = default_provenance\<rparr>"

definition apply_field :: "string \<Rightarrow> string \<Rightarrow> endpoint_record \<Rightarrow> endpoint_record result" where
  "apply_field field val e =
    (if field = ''scope'' then
       (case name_parse scope_tag val of Inl err \<Rightarrow> Inl err | Inr scope \<Rightarrow> Inr (e\<lparr>ep_scope := scope\<rparr>))
     else if field = ''capacity'' then
       (case option_u64 val of
          Inl err \<Rightarrow> Inl err
        | Inr capacity \<Rightarrow>
            if capacity > kMaxCapacity then Inl (status_make Outcome_Overflow ''endpoint capacity exceeds the maximum'')
            else Inr (e\<lparr>ep_capacity := capacity\<rparr>))
     else if field = ''degraded'' then
       (case option_bool val of Inl err \<Rightarrow> Inl err | Inr degraded \<Rightarrow> Inr (e\<lparr>ep_permits_degraded := degraded\<rparr>))
     else if field = ''allow'' then
       (case option_bool val of Inl err \<Rightarrow> Inl err | Inr allowed \<Rightarrow> Inr (e\<lparr>ep_inter_cluster_allowed := allowed\<rparr>))
     else Inl (invalid (''unknown endpoint configuration field: '' @ field)))"

text \<open>The scope an endpoint has when none is declared; \<open>value()\<close> of a failed result throws.\<close>

definition default_scope :: "string \<Rightarrow> endpoint_record \<Rightarrow> endpoint_record option" where
  "default_scope id_text e =
    (if ep_scope e = []
     then case name_parse scope_tag (''/'' @ id_text) of Inl _ \<Rightarrow> None | Inr scope \<Rightarrow> Some (e\<lparr>ep_scope := scope\<rparr>)
     else Some e)"

definition split_declaration :: "string \<Rightarrow> (string \<times> string) option" where
  "split_declaration remainder =
    (if CHR ''.'' \<notin> set remainder then None
     else Some (takeWhile (\<lambda>c. c \<noteq> CHR ''.'') remainder, tl (dropWhile (\<lambda>c. c \<noteq> CHR ''.'') remainder)))"

text \<open>The loop over the entries; the outer \<open>None\<close> is an exception.\<close>

fun declare_endpoints ::
  "cluster_id \<Rightarrow> (string \<times> string) list \<Rightarrow> endpoint_record list \<Rightarrow> (string, nat) omap \<Rightarrow> endpoint_record list result option"
where
  "declare_endpoints cluster [] endpoints index_by_id = Some (Inr endpoints)"
| "declare_endpoints cluster ((key, val) # rest) endpoints index_by_id =
    (if \<not> starts_with ''endpoint.'' key then declare_endpoints cluster rest endpoints index_by_id
     else case split_declaration (drop 9 key) of
       None \<Rightarrow> Some (Inl (invalid (''endpoint configuration key must be endpoint.<id>.<field>: '' @ key)))
     | Some (id_text, field) \<Rightarrow>
         (case name_parse id_tag id_text of
            Inl e \<Rightarrow> Some (Inl e)
          | Inr name \<Rightarrow>
              if om_find index_by_id id_text = None \<and> length endpoints \<ge> kMaxEndpointsPerCluster
              then Some (Inl (status_make Outcome_CapacityExceeded ''too many endpoint scopes declared''))
              else
                let (endpoints, index_by_id, index) =
                  (case om_find index_by_id id_text of
                     None \<Rightarrow> (endpoints @ [declared_endpoint name cluster], om_put id_text (length endpoints) index_by_id, length endpoints)
                   | Some index \<Rightarrow> (endpoints, index_by_id, index))
                in case apply_field field val (endpoints ! index) of
                     Inl e \<Rightarrow> Some (Inl e)
                   | Inr e \<Rightarrow>
                       (case default_scope id_text e of
                          None \<Rightarrow> None
                        | Some e' \<Rightarrow> declare_endpoints cluster rest (endpoints[index := e']) index_by_id)))"

definition parse_endpoints :: "config \<Rightarrow> cluster_id \<Rightarrow> endpoint_record list result option" where
  "parse_endpoints config cluster =
    map_option (map_sum id (sort_key ep_id)) (declare_endpoints cluster config [] [])"

end
