(* ===== verification/Config_Laws.thy ===== *)
theory Config_Laws
  imports Config
begin

text \<open>
  What a configuration text says, stated line by line, and that \<open>config_parse\<close> accepts exactly that; the
  numbers the parsers accept.
\<close>

section \<open>Lines\<close>

fun split_lines :: "string \<Rightarrow> string list" where
  "split_lines [] = [[]]"
| "split_lines (c # cs) =
    (if c = newline then [] # split_lines cs
     else case split_lines cs of [] \<Rightarrow> [[c]] | line # lines \<Rightarrow> (c # line) # lines)"

lemma split_lines_next:
  "split_lines s = (case next_line s of (line, None) \<Rightarrow> [line] | (line, Some rest) \<Rightarrow> line # split_lines rest)"
proof (induction s)
  case (Cons c s)
  then show ?case by (auto simp: next_line_def split: list.splits)
qed (simp add: next_line_def)

definition blank_line :: "string \<Rightarrow> bool" where
  "blank_line line \<longleftrightarrow> trim line = [] \<or> hd (trim line) = CHR ''#''"

definition holds_entry :: "string \<Rightarrow> string \<times> string \<Rightarrow> bool" where
  "holds_entry line entry \<longleftrightarrow>
    (\<exists>before after. trim line = before @ ''='' @ after \<and> CHR ''='' \<notin> set before
      \<and> entry = (trim before, trim after))
    \<and> valid_key (fst entry) \<and> snd entry \<noteq> [] \<and> length (snd entry) \<le> kMaxStringField"

lemma cut_at_first:
  "xs = before @ c # after \<and> c \<notin> set before
    \<longleftrightarrow> c \<in> set xs \<and> before = takeWhile (\<lambda>x. x \<noteq> c) xs \<and> after = tl (dropWhile (\<lambda>x. x \<noteq> c) xs)"
  (is "?l \<longleftrightarrow> ?r")
proof
  assume l: ?l
  then have p: "x \<noteq> c" if "x \<in> set before" for x using that by blast
  show ?r using l takeWhile_append2 [of before "\<lambda>x. x \<noteq> c", OF p] dropWhile_append2 [of before "\<lambda>x. x \<noteq> c", OF p] by simp
next
  assume r: ?r
  then obtain d rest where "dropWhile (\<lambda>x. x \<noteq> c) xs = d # rest"
    by (cases "dropWhile (\<lambda>x. x \<noteq> c) xs") (auto simp: dropWhile_eq_Nil_conv)
  moreover from this have "d = c" using dropWhile_eq_Cons_conv [of "\<lambda>x. x \<noteq> c" xs d rest] by simp
  ultimately show ?l using r takeWhile_dropWhile_id [of "\<lambda>x. x \<noteq> c" xs] by (auto dest: set_takeWhileD)
qed

lemma holds_entry_iff:
  "holds_entry line entry \<longleftrightarrow> CHR ''='' \<in> set (trim line)
    \<and> entry = (trim (takeWhile (\<lambda>c. c \<noteq> CHR ''='') (trim line)), trim (tl (dropWhile (\<lambda>c. c \<noteq> CHR ''='') (trim line))))
    \<and> valid_key (fst entry) \<and> snd entry \<noteq> [] \<and> length (snd entry) \<le> kMaxStringField"
proof -
  have "(\<exists>before after. trim line = before @ ''='' @ after \<and> CHR ''='' \<notin> set before \<and> entry = (trim before, trim after))
    \<longleftrightarrow> (\<exists>before after. (trim line = before @ CHR ''='' # after \<and> CHR ''='' \<notin> set before) \<and> entry = (trim before, trim after))"
    by simp
  then show ?thesis unfolding holds_entry_def cut_at_first by auto
qed

lemma parse_line_blank: "blank_line line \<Longrightarrow> parse_line origin n line = Inr None"
  by (simp add: parse_line_def blank_line_def Let_def)

lemma parse_line_entry:
  assumes "\<not> blank_line line"
  shows "parse_line origin n line = Inr e \<longleftrightarrow> (\<exists>entry. e = Some entry \<and> holds_entry line entry)"
  using assms unfolding parse_line_def holds_entry_iff blank_line_def Let_def by (auto simp: not_less)

section \<open>Texts\<close>

definition reads :: "string list \<Rightarrow> (string \<times> string) list \<Rightarrow> bool" where
  "reads lines es \<longleftrightarrow> list_all2 holds_entry (filter (\<lambda>l. \<not> blank_line l) lines) es"

lemma reads_Nil: "reads [] es \<longleftrightarrow> es = []"
  by (simp add: reads_def)

lemma ex_reads_Cons:
  "(\<exists>es. reads (l # ls) es \<and> P es) \<longleftrightarrow>
    (if blank_line l then \<exists>es. reads ls es \<and> P es
     else \<exists>key val. holds_entry l (key, val) \<and> (\<exists>es. reads ls es \<and> P ((key, val) # es)))"
  by (auto simp: reads_def list_all2_Cons1)

definition fresh_entries :: "(string \<times> string) list \<Rightarrow> config \<Rightarrow> bool" where
  "fresh_entries es config \<longleftrightarrow> distinct (map fst es) \<and> list_all (\<lambda>e. om_find config (fst e) = None) es"

definition add_entries :: "(string \<times> string) list \<Rightarrow> config \<Rightarrow> config" where
  "add_entries es config = fold (\<lambda>(key, value). om_put key value) es config"

lemma fresh_entries_Cons:
  "fresh_entries ((key, value) # es) config \<longleftrightarrow> om_find config key = None \<and> fresh_entries es (om_put key value config)"
  by (auto simp: fresh_entries_def om_find_put list_all_iff)

lemma parse_lines_step:
  assumes "next_line s = (l, rest)"
  shows "parse_lines origin s n config = Inr c \<longleftrightarrow>
    n + 1 \<le> kMaxConfigLines \<and> length l \<le> kMaxConfigLineLength
    \<and> (\<exists>config'. (if blank_line l then config' = config
          else \<exists>key val. holds_entry l (key, val) \<and> om_find config key = None \<and> config' = om_put key val config)
        \<and> (case rest of None \<Rightarrow> c = config' | Some s' \<Rightarrow> parse_lines origin s' (n + 1) config' = Inr c))"
proof (cases "blank_line l")
  case True
  then show ?thesis
    using assms parse_line_blank [OF True, of origin "n + 1"]
    by (auto simp: parse_lines.simps [of origin s n config] Let_def not_less split: option.split)
next
  case False
  show ?thesis
  proof (cases "parse_line origin (n + 1) l")
    case (Inl e)
    then have "\<not> holds_entry l entry" for entry using parse_line_entry [OF False, of origin "n + 1" "Some entry"] by auto
    then show ?thesis using assms False Inl by (simp add: parse_lines.simps [of origin s n config] Let_def)
  next
    case (Inr e)
    then obtain key val where e: "e = Some (key, val)" "holds_entry l (key, val)"
      using parse_line_entry [OF False, of origin "n + 1" e] by auto
    have "holds_entry l (key', val') \<longleftrightarrow> key' = key \<and> val' = val" for key' val'
      using e(2) unfolding holds_entry_iff by auto
    then show ?thesis
      using assms False Inr e(1)
      by (auto simp: parse_lines.simps [of origin s n config] Let_def not_less split: option.split)
  qed
qed

lemma parse_lines_exact:
  "parse_lines origin s n config = Inr c \<longleftrightarrow>
    n + length (split_lines s) \<le> kMaxConfigLines \<and> list_all (\<lambda>l. length l \<le> kMaxConfigLineLength) (split_lines s)
    \<and> (\<exists>es. reads (split_lines s) es \<and> fresh_entries es config \<and> c = add_entries es config)"
proof (induction "length s" arbitrary: s n config rule: less_induct)
  case less
  obtain l rest where cut: "next_line s = (l, rest)" by fastforce
  have none: "fresh_entries [] config" "add_entries [] config = config" for config
    by (simp_all add: fresh_entries_def add_entries_def)
  have add: "add_entries ((key, val) # es) config = add_entries es (om_put key val config)" for key val es config
    by (simp add: add_entries_def)
  show ?case
  proof (cases rest)
    case None
    then have lines: "split_lines s = [l]" using cut split_lines_next [of s] by simp
    show ?thesis
      unfolding parse_lines_step [OF cut] lines ex_reads_Cons using None
      by (cases "blank_line l") (auto simp: reads_Nil none fresh_entries_Cons add)
  next
    case (Some s')
    then have lines: "split_lines s = l # split_lines s'" using cut split_lines_next [of s] by simp
    have "length s' < length s" using cut Some next_line_shorter by blast
    note IH = less(1) [OF this, of "Suc n"]
    show ?thesis
      unfolding parse_lines_step [OF cut] lines ex_reads_Cons using Some
      by (cases "blank_line l") (auto simp: IH fresh_entries_Cons add)
  qed
qed

lemma add_entries_set:
  assumes "om_ok config" "fresh_entries es config"
  shows "om_ok (add_entries es config) \<and> set (add_entries es config) = set config \<union> set es"
  using assms
proof (induction es arbitrary: config)
  case (Cons e es)
  obtain key val where e: "e = (key, val)" by fastforce
  have fresh: "om_find config key = None" "fresh_entries es (om_put key val config)"
    using Cons.prems(2) e by (simp_all add: fresh_entries_Cons)
  have "set (om_put key val config) = insert e (set config)"
  proof -
    have "(k, v) \<in> set (om_put key val config) \<longleftrightarrow> (k, v) \<in> insert e (set config)" for k v
      using Cons.prems(1) fresh(1) e in_om_find [of config k v] in_om_find [OF om_ok_put [OF Cons.prems(1)], of k v key val]
      by (auto simp: om_find_put)
    then show ?thesis by (simp add: set_eq_iff split_paired_all)
  qed
  then show ?case using Cons.IH [OF om_ok_put [OF Cons.prems(1)] fresh(2)] e by (simp add: add_entries_def)
qed (simp add: add_entries_def)

lemma om_same_set: "om_ok m \<Longrightarrow> om_ok m' \<Longrightarrow> set m = set m' \<Longrightarrow> m = m'"
  using om.entries_extensional [of m m'] in_om_find by (metis not_Some_eq)

lemma config_parse_exact:
  "config_parse s origin = Inr c \<longleftrightarrow>
    is_valid_utf8 (bytes_of_string s) \<and> length (split_lines s) \<le> kMaxConfigLines
    \<and> list_all (\<lambda>l. length l \<le> kMaxConfigLineLength) (split_lines s)
    \<and> om_ok c \<and> (\<exists>es. reads (split_lines s) es \<and> distinct (map fst es) \<and> set c = set es)"
proof -
  have "fresh_entries es [] \<longleftrightarrow> distinct (map fst es)" for es by (simp add: fresh_entries_def list_all_iff)
  moreover have "c = add_entries es [] \<longleftrightarrow> om_ok c \<and> set c = set es" if "distinct (map fst es)" for es
    using add_entries_set [of "[]" es] that calculation om_same_set [of c "add_entries es []"] by auto
  ultimately show ?thesis unfolding config_parse_def by (auto simp: parse_lines_exact)
qed

text \<open>A configuration written out, one entry per line, is read back.\<close>

definition config_text :: "config \<Rightarrow> string" where
  "config_text config = concat (map (\<lambda>(key, val). key @ '' = '' @ val @ [newline]) config)"

definition plain_value :: "string \<Rightarrow> bool" where
  "plain_value val \<longleftrightarrow> val \<noteq> [] \<and> length val \<le> kMaxStringField \<and> newline \<notin> set val
    \<and> \<not> is_blank (hd val) \<and> \<not> is_blank (last val)"

lemma trim_tight: "xs \<noteq> [] \<Longrightarrow> \<not> is_blank (hd xs) \<Longrightarrow> \<not> is_blank (last xs) \<Longrightarrow> trim xs = xs"
  by (simp add: trim_def dropWhile_eq_self_iff [THEN iffD2] hd_rev)

section \<open>Numbers\<close>

lemma digit_value_less: "is_digit c \<Longrightarrow> digit_value c < 10"
  by (auto simp: is_digit_def digit_value_def less_eq_char_def)

lemma decimal_step:
  assumes "d < 10"
  shows "Option.bind (mul_u64 w 10) (\<lambda>tens. add_u64 tens (word_of_nat d))
    = (if uint w * 10 + int d < 2 ^ 64 then Some (w * 10 + word_of_nat d) else None)"
proof -
  have "uint w * 10 + int d = int (unat w * 10 + d)" by simp
  then have u: "uint w * 10 + int d < 2 ^ 64 \<longleftrightarrow> unat w * 10 + d < 2 ^ 64" by (metis of_nat_less_iff of_nat_numeral of_nat_power)
  have d: "unat (word_of_nat d :: u64) = d" using assms by (simp add: unat_of_nat take_bit_nat_eq_self)
  show ?thesis
  proof (cases "unat w * 10 < 2 ^ 64")
    case True
    then have "unat (w * 10) = unat w * 10" by (simp add: unat_word_ariths)
    then show ?thesis using True u d by (simp add: mul_u64_spec add_u64_spec)
  next
    case False
    then show ?thesis using u by (simp add: mul_u64_spec)
  qed
qed

lemma digits_value_grows: "digits_value s a = Some b \<Longrightarrow> 0 \<le> a \<Longrightarrow> a \<le> b"
  by (induction s arbitrary: a) (fastforce split: if_split_asm)+

lemma parse_u64_digits_exact:
  "parse_u64_digits s w = Inr v \<longleftrightarrow> digits_value s (uint w) = Some (uint v)"
proof (induction s arbitrary: w)
  case Nil
  then show ?case by (auto simp: word_uint_eq_iff)
next
  case (Cons c s)
  show ?case
  proof (cases "is_digit c")
    case True
    note d = digit_value_less [OF True]
    let ?sum = "uint w * 10 + int (digit_value c)"
    show ?thesis
    proof (cases "?sum < 2 ^ 64")
      case small: True
      moreover have "w * 10 + word_of_nat (digit_value c) = word_of_int ?sum" by simp
      ultimately have "uint (w * 10 + word_of_nat (digit_value c)) = ?sum"
        by (simp only: uint_word_of_int_eq) (simp add: take_bit_int_eq_self)
      then show ?thesis using True small Cons.IH by (simp add: decimal_step [OF d])
    next
      case False
      have "digits_value s ?sum \<noteq> Some (uint v)"
        using digits_value_grows [of s ?sum "uint v"] False uint_lt2p [of v] by auto
      then show ?thesis using True False by (simp add: decimal_step [OF d])
    qed
  qed simp
qed

lemma parse_u64_exact: "parse_u64 s = Inr v \<longleftrightarrow> s \<noteq> [] \<and> digits_value s 0 = Some (uint v)"
  by (simp add: parse_u64_def parse_u64_digits_exact)

definition signed_digits :: "string \<Rightarrow> int \<Rightarrow> bool" where
  "signed_digits s i \<longleftrightarrow>
    (\<exists>digits. digits \<noteq> [] \<and>
      ((s = digits \<or> s = CHR ''+'' # digits) \<and> digits_value digits 0 = Some i
       \<or> s = CHR ''-'' # digits \<and> digits_value digits 0 = Some (- i)))"

lemma sign_no_digit [simp]: "\<not> is_digit CHR ''-''" "\<not> is_digit CHR ''+''"
  by (simp_all add: is_digit_def less_eq_char_def)

lemma parse_u64_word: "s \<noteq> [] \<and> digits_value s 0 = Some x \<and> x < 2 ^ 64 \<longleftrightarrow> (\<exists>v. parse_u64 s = Inr v \<and> uint v = x)"
proof -
  have "0 \<le> x" if "digits_value s 0 = Some x" using digits_value_grows [OF that] by simp
  then have "uint (word_of_int x :: u64) = x" if "digits_value s 0 = Some x" "x < 2 ^ 64"
    using that by (simp add: uint_word_of_int_eq take_bit_int_eq_self)
  then show ?thesis using uint_lt2p [where ?'a = 64] by (force simp: parse_u64_exact)
qed

lemma parse_i64_sign:
  "parse_i64 (CHR ''-'' # ds) = Inr i \<longleftrightarrow> (\<exists>v. parse_u64 ds = Inr v \<and> uint v = - i) \<and> i64_ok i"
  "parse_i64 (CHR ''+'' # ds) = Inr i \<longleftrightarrow> (\<exists>v. parse_u64 ds = Inr v \<and> uint v = i) \<and> i64_ok i"
  "c \<noteq> CHR ''-'' \<Longrightarrow> c \<noteq> CHR ''+'' \<Longrightarrow>
    parse_i64 (c # ds) = Inr i \<longleftrightarrow> (\<exists>v. parse_u64 (c # ds) = Inr v \<and> uint v = i) \<and> i64_ok i"
  by (auto simp: parse_i64_def Let_def i64_ok_def word_less_alt not_less word_uint_eq_iff split: sum.split
      intro: le_less_trans [of _ 0] order_trans [of _ 0])

lemma parse_i64_exact: "parse_i64 s = Inr i \<longleftrightarrow> i64_ok i \<and> signed_digits s i"
proof (cases s)
  case (Cons c cs)
  have "i < 2 ^ 64" "- i < 2 ^ 64" if "i64_ok i" using that by (simp_all add: i64_ok_def)
  then show ?thesis
    using Cons by (cases "c = CHR ''-''"; cases "c = CHR ''+''")
      (auto simp: parse_i64_sign parse_u64_word [symmetric] signed_digits_def)
qed (simp add: parse_i64_def signed_digits_def)

lemma digits_value_decimal: "digits_value (decimal n) 0 = Some (int n)"
proof (induction n rule: decimal.induct)
  case (1 n)
  have "int (n div 10) * 10 + int (n mod 10) = int n" by presburger
  then show ?case using 1 by (auto simp: decimal.simps [of n] digits_value_append)
qed

lemma decimal_nonempty: "decimal n \<noteq> []"
  by (simp add: decimal.simps [of n])

end
