(* ===== verification/Command_Line_Laws.thy ===== *)
theory Command_Line_Laws
  imports Command_Line Config_Laws Registry_Invariant
begin

text \<open>
  The command line wins over the file, numbers are exact, and what is declared as an endpoint is what
  the registry accepts as one.
\<close>

section \<open>Numbers\<close>

lemma option_step:
  assumes "d < 10"
  shows "(w :: u64) > (- 1 - word_of_nat d) div 10 \<longleftrightarrow> \<not> uint w * 10 + int d < 2 ^ 64"
proof -
  have d: "unat (word_of_nat d :: u64) = d" using assms by (simp add: unat_of_nat take_bit_nat_eq_self)
  have "unat ((- 1 - word_of_nat d :: u64) div 10) = (2 ^ 64 - 1 - d) div 10" by (simp add: unat_div unat_max_minus d)
  then have "w > (- 1 - word_of_nat d) div 10 \<longleftrightarrow> (2 ^ 64 - 1 - d) div 10 < unat w" by (simp add: word_less_nat_alt)
  also have "\<dots> \<longleftrightarrow> \<not> unat w * 10 + d < 2 ^ 64"
  proof -
    have "unat w \<le> (2 ^ 64 - 1 - d) div 10 \<longleftrightarrow> unat w * 10 \<le> 2 ^ 64 - 1 - d"
      by (rule less_eq_div_iff_mult_less_eq) simp
    then show ?thesis using assms by (simp add: not_le [symmetric]) linarith
  qed
  also have "\<dots> \<longleftrightarrow> \<not> uint w * 10 + int d < 2 ^ 64"
  proof -
    have "uint w * 10 + int d = int (unat w * 10 + d)" by simp
    then show ?thesis by (metis of_nat_less_iff of_nat_numeral of_nat_power)
  qed
  finally show ?thesis .
qed

lemma option_u64_digits_exact: "option_u64_digits s w = Inr v \<longleftrightarrow> parse_u64_digits s w = Inr v"
proof (induction s arbitrary: w)
  case (Cons c s)
  show ?case
  proof (cases "is_digit c")
    case True
    note d = digit_value_less [OF True]
    show ?thesis using True Cons.IH option_step [OF d, of w] by (simp add: decimal_step [OF d] Let_def)
  qed simp
qed simp

lemma option_u64_exact: "option_u64 s = Inr v \<longleftrightarrow> length s \<le> 20 \<and> parse_u64 s = Inr v"
  by (auto simp: option_u64_def parse_u64_def option_u64_digits_exact)

section \<open>The command line over the file\<close>

definition applied_option :: "string \<Rightarrow> bool" where
  "applied_option key \<longleftrightarrow> key \<noteq> ''config'' \<and> key \<noteq> ''log_level''"

lemma config_set_ok: "config_set key val config = (s, config') \<Longrightarrow> is_ok s \<Longrightarrow>
    config' = om_put key val config \<and> valid_key key \<and> val \<noteq> [] \<and> length val \<le> kMaxStringField"
  by (auto simp: config_set_def split: if_splits)

lemma apply_options_result:
  assumes "apply_options es config = Inr config'" "om_ok config" "distinct (map fst es)"
  shows "om_ok config' \<and> (\<forall>key. om_find config' key =
    (if applied_option key \<and> om_find es key \<noteq> None then om_find es key else om_find config key))"
  using assms
proof (induction es arbitrary: config)
  case (Cons e es)
  obtain key val where e: "e = (key, val)" by fastforce
  show ?case
  proof (cases "applied_option key")
    case True
    then obtain s c where set: "config_set key val config = (s, c)" "is_ok s" "apply_options es c = Inr config'"
      using Cons.prems(1) e by (auto simp: applied_option_def split: prod.splits if_splits)
    note c = config_set_ok [OF set(1,2)]
    have "om_find es key = None" using Cons.prems(3) e by (simp add: om_find_None_iff)
    then show ?thesis using Cons.IH [OF set(3)] Cons.prems(2,3) c e True by (auto simp: om_find_put)
  next
    case False
    then have "apply_options es config = Inr config'" using Cons.prems(1) e by (auto simp: applied_option_def)
    then show ?thesis using Cons.IH [of config] Cons.prems(2,3) e False by auto
  qed
qed simp

definition file_config :: "(string \<Rightarrow> file_contents) \<Rightarrow> arguments \<Rightarrow> config result" where
  "file_config files arguments =
    (if arguments_get arguments ''config'' [] = [] then Inr [] else load_file files (arguments_get arguments ''config'' []))"

lemma load_file_ok: "load_file files path = Inr config \<Longrightarrow> om_ok config"
  by (auto simp: load_file_def config_parse_exact split: file_contents.splits)

lemma load_config_result:
  assumes "load_config files arguments = Inr config" "om_ok (ar_options arguments)"
  obtains base where "file_config files arguments = Inr base" "om_ok config"
    "\<And>key. om_find config key = (if applied_option key \<and> om_find (ar_options arguments) key \<noteq> None
      then om_find (ar_options arguments) key else om_find base key)"
proof -
  obtain base where base: "file_config files arguments = Inr base" "apply_options (ar_options arguments) base = Inr config"
    using assms(1) by (auto simp: load_config_def file_config_def Let_def split: sum.splits if_splits)
  have "om_ok base" using base(1) load_file_ok by (auto simp: file_config_def split: if_splits)
  moreover have "distinct (map fst (ar_options arguments))" using assms(2) by (simp add: om_ok_def strict_sorted_iff)
  ultimately show ?thesis using that base apply_options_result [OF base(2)] by blast
qed

lemma parse_tokens_ok: "om_ok (ar_options arguments) \<Longrightarrow> om_ok (ar_options (parse_tokens tokens only arguments))"
  by (induction tokens only arguments rule: parse_tokens.induct)
    (auto simp: add_option_def add_positional_def split: list.split)

lemma parse_arguments_ok: "parse_arguments argv = Inr arguments \<Longrightarrow> om_ok (ar_options arguments)"
  by (auto simp: parse_arguments_def intro!: parse_tokens_ok)

section \<open>Endpoint declarations\<close>

definition declared_ok :: "cluster_id \<Rightarrow> endpoint_record \<Rightarrow> bool" where
  "declared_ok cluster e \<longleftrightarrow>
    name_ok id_tag (ep_id e) \<and> ep_cluster e = cluster \<and> ep_state e = EndpointState_Active \<and> ep_reserved e = 0
    \<and> ep_capacity e \<le> kMaxCapacity \<and> name_ok scope_tag (ep_scope e)"

definition declared_names :: "(string \<times> string) list \<Rightarrow> string set" where
  "declared_names es =
    {name. \<exists>(key, val) \<in> set es. starts_with ''endpoint.'' key \<and> (\<exists>field. split_declaration (drop 9 key) = Some (name, field))}"

text \<open>The index finds the endpoint of an identity; every endpoint is complete.\<close>

definition table_indexed :: "cluster_id \<Rightarrow> endpoint_record list \<Rightarrow> (string, nat) omap \<Rightarrow> bool" where
  "table_indexed cluster eps index \<longleftrightarrow>
    distinct (map ep_id eps) \<and> length eps \<le> kMaxEndpointsPerCluster \<and> list_all (declared_ok cluster) eps
    \<and> (\<forall>name i. om_find index name = Some i \<longleftrightarrow> i < length eps \<and> ep_id (eps ! i) = name)"

lemma default_scope_total:
  assumes "name_ok id_tag name"
  shows "\<exists>e'. default_scope name e = Some e' \<and> e' = e\<lparr>ep_scope := if ep_scope e = [] then ''/'' @ name else ep_scope e\<rparr>"
    and "name_ok scope_tag (''/'' @ name)"
proof -
  have extra: "is_extra scope_tag c" if "is_extra id_tag c" for c using that by (auto simp: is_extra_def id_tag_def scope_tag_def)
  have "list_all (\<lambda>c. is_alnum c \<or> is_extra scope_tag c) name"
    using name_ok_chars [OF assms] extra by (auto simp: list_all_iff)
  moreover have "is_extra scope_tag CHR ''/''" by (simp add: is_extra_def scope_tag_def)
  moreover have "length name \<le> 96" using name_ok_length [OF assms] by (simp add: id_tag_def kMaxNameLength_def)
  ultimately show ok: "name_ok scope_tag (''/'' @ name)"
    by (simp add: name_ok_def name_parse_def scope_tag_def kMaxScopeLength_def)
  then show "\<exists>e'. default_scope name e = Some e' \<and> e' = e\<lparr>ep_scope := if ep_scope e = [] then ''/'' @ name else ep_scope e\<rparr>"
    by (simp add: default_scope_def name_ok_def)
qed

definition same_place :: "endpoint_record \<Rightarrow> endpoint_record \<Rightarrow> bool" where
  "same_place e e' \<longleftrightarrow> ep_id e' = ep_id e \<and> ep_cluster e' = ep_cluster e \<and> ep_state e' = ep_state e \<and> ep_reserved e' = ep_reserved e"

lemma apply_field_result:
  assumes "apply_field field val e = Inr e'"
  shows "same_place e e' \<and> (ep_capacity e \<le> kMaxCapacity \<longrightarrow> ep_capacity e' \<le> kMaxCapacity)
    \<and> (ep_scope e' = ep_scope e \<or> name_ok scope_tag (ep_scope e'))"
proof -
  have "name_ok scope_tag scope" if "name_parse scope_tag val = Inr scope" for scope
    using that name_parse_InrD [OF that] by (simp add: name_ok_def)
  then show ?thesis using assms by (auto simp: apply_field_def same_place_def split: if_splits sum.splits)
qed

text \<open>One declaration leaves a complete endpoint at its place.\<close>

lemma declaration_complete:
  assumes "apply_field field val e = Inr e1" "name_ok id_tag name" "ep_id e = name" "ep_cluster e = cluster"
    "ep_state e = EndpointState_Active" "ep_reserved e = 0" "ep_capacity e \<le> kMaxCapacity"
    "ep_scope e = [] \<or> name_ok scope_tag (ep_scope e)"
  obtains e2 where "default_scope name e1 = Some e2" "declared_ok cluster e2" "ep_id e2 = name"
proof -
  note f = apply_field_result [OF assms(1), unfolded same_place_def]
  obtain e2 where e2: "default_scope name e1 = Some e2" "e2 = e1\<lparr>ep_scope := if ep_scope e1 = [] then ''/'' @ name else ep_scope e1\<rparr>"
    using default_scope_total(1) [OF assms(2)] by blast
  have "declared_ok cluster e2"
    using f assms(2-8) default_scope_total(2) [OF assms(2)] by (auto simp: e2(2) declared_ok_def)
  then show ?thesis using that e2 f assms(3) by simp
qed

lemma table_indexed_update:
  assumes "table_indexed cluster eps index" "i < length eps" "declared_ok cluster e" "ep_id e = ep_id (eps ! i)"
  shows "table_indexed cluster (eps[i := e]) index \<and> map ep_id (eps[i := e]) = map ep_id eps"
proof -
  have ids: "map ep_id (eps[i := e]) = map ep_id eps" using assms(2,4) by (simp add: map_update list_update_same_conv)
  have "list_all (declared_ok cluster) (eps[i := e])"
    using assms(1,3) set_update_subset_insert [of eps i e] by (auto simp: table_indexed_def list_all_iff)
  moreover have "ep_id (eps[i := e] ! j) = ep_id (eps ! j)" if "j < length eps" for j
    using assms(4) that by (cases "i = j") simp_all
  ultimately show ?thesis using assms(1) ids by (auto simp: table_indexed_def)
qed

lemma table_indexed_add:
  assumes "table_indexed cluster eps index" "om_find index name = None" "length eps < kMaxEndpointsPerCluster"
    "declared_ok cluster e" "ep_id e = name"
  shows "table_indexed cluster (eps @ [e]) (om_put name (length eps) index)"
proof -
  have "name \<notin> set (map ep_id eps)"
    using assms(1,2) unfolding table_indexed_def by (metis in_set_conv_nth length_map nth_map option.distinct(1))
  moreover from this have "ep_id (eps ! i) \<noteq> name" if "i < length eps" for i using that by (metis length_map nth_map nth_mem)
  ultimately show ?thesis
    using assms by (auto simp: table_indexed_def om_find_put nth_append less_Suc_eq)
qed

text \<open>The slot a declaration works on: an endpoint that is there, or a new one.\<close>

definition slot_for :: "cluster_id \<Rightarrow> string \<Rightarrow> endpoint_record list \<Rightarrow> (string, nat) omap
    \<Rightarrow> endpoint_record list \<times> (string, nat) omap \<times> nat" where
  "slot_for cluster name eps index =
    (case om_find index name of
       None \<Rightarrow> (eps @ [declared_endpoint name cluster], om_put name (length eps) index, length eps)
     | Some i \<Rightarrow> (eps, index, i))"

lemma slot_for_result:
  assumes "table_indexed cluster eps index" "name_ok id_tag name"
    "\<not> (om_find index name = None \<and> length eps \<ge> kMaxEndpointsPerCluster)" "slot_for cluster name eps index = (eps0, index0, i)"
    "apply_field field val (eps0 ! i) = Inr e1"
  obtains e2 where "default_scope name e1 = Some e2" "table_indexed cluster (eps0[i := e2]) index0"
    "set (map ep_id (eps0[i := e2])) = insert name (set (map ep_id eps))"
proof (cases "om_find index name")
  case None
  have s: "eps0 = eps @ [declared_endpoint name cluster]" "index0 = om_put name (length eps) index" "i = length eps"
    using assms(4) None by (auto simp: slot_for_def)
  obtain e2 where e2: "default_scope name e1 = Some e2" "declared_ok cluster e2" "ep_id e2 = name"
    by (rule declaration_complete [OF assms(5,2), of cluster]) (simp_all add: s declared_endpoint_def)
  have "eps0[i := e2] = eps @ [e2]" by (simp add: s list_update_append)
  moreover have "table_indexed cluster (eps @ [e2]) index0"
    unfolding s(2) by (rule table_indexed_add [OF assms(1) None _ e2(2,3)]) (use assms(3) None in simp)
  ultimately show ?thesis using that e2 by simp
next
  case (Some j)
  have s: "eps0 = eps" "index0 = index" "i = j" using assms(4) Some by (simp_all add: slot_for_def)
  have i: "i < length eps" "ep_id (eps ! i) = name" using assms(1) Some s(3) by (auto simp: table_indexed_def)
  then have old: "declared_ok cluster (eps ! i)" using assms(1) by (auto simp: table_indexed_def list_all_length)
  obtain e2 where e2: "default_scope name e1 = Some e2" "declared_ok cluster e2" "ep_id e2 = name"
    by (rule declaration_complete [OF assms(5,2), of cluster]) (use old i(2) s(1) in \<open>simp_all add: declared_ok_def\<close>)
  have u: "table_indexed cluster (eps[i := e2]) index \<and> map ep_id (eps[i := e2]) = map ep_id eps"
    by (rule table_indexed_update [OF assms(1) i(1) e2(2)]) (simp add: e2(3) i(2))
  moreover have "name \<in> set (map ep_id eps)" using i by (metis length_map nth_map nth_mem)
  ultimately show ?thesis using that [of e2] e2(1) s by (simp only: s) (simp add: insert_absorb)
qed

lemma declare_endpoints_result:
  assumes "table_indexed cluster eps index"
  shows "\<exists>r. declare_endpoints cluster es eps index = Some r
    \<and> (\<forall>eps'. r = Inr eps' \<longrightarrow> (\<exists>index'. table_indexed cluster eps' index')
        \<and> set (map ep_id eps') = set (map ep_id eps) \<union> declared_names es)"
  using assms
proof (induction es arbitrary: eps index)
  case Nil
  then show ?case by (auto simp: declared_names_def)
next
  case (Cons entry es)
  obtain key val where entry: "entry = (key, val)" by fastforce
  show ?case
  proof (cases "starts_with ''endpoint.'' key \<and> split_declaration (drop 9 key) \<noteq> None")
    case False
    then have "declared_names (entry # es) = declared_names es" by (auto simp: declared_names_def entry)
    then show ?thesis using Cons False by (auto simp: entry split: option.split)
  next
    case True
    then obtain name field where decl: "starts_with ''endpoint.'' key" "split_declaration (drop 9 key) = Some (name, field)" by auto
    then have names: "declared_names (entry # es) = insert name (declared_names es)" by (auto simp: declared_names_def entry)
    obtain eps0 index0 i where slot: "slot_for cluster name eps index = (eps0, index0, i)" by (metis prod_cases3)
    show ?thesis
    proof (cases "name_parse id_tag name = Inr name \<and> \<not> (om_find index name = None \<and> length eps \<ge> kMaxEndpointsPerCluster)")
      case False
      then show ?thesis using decl by (cases "name_parse id_tag name") (auto simp: entry dest: name_parse_InrD)
    next
      case ok: True
      have run: "declare_endpoints cluster (entry # es) eps index =
          (case apply_field field val (eps0 ! i) of Inl e \<Rightarrow> Some (Inl e)
           | Inr e \<Rightarrow> (case default_scope name e of None \<Rightarrow> None
              | Some e' \<Rightarrow> declare_endpoints cluster es (eps0[i := e']) index0))"
        using decl ok slot unfolding slot_for_def by (auto simp: entry Let_def split: option.splits)
      show ?thesis
      proof (cases "apply_field field val (eps0 ! i)")
        case (Inr e1)
        obtain e2 where "default_scope name e1 = Some e2" "table_indexed cluster (eps0[i := e2]) index0"
          "set (map ep_id (eps0[i := e2])) = insert name (set (map ep_id eps))"
          by (rule slot_for_result [OF Cons.prems _ conjunct2 [OF ok] slot Inr]) (use ok in \<open>simp add: name_ok_def\<close>)
        then show ?thesis using Cons.IH [of "eps0[i := e2]" index0] run Inr names by auto
      qed (use run in simp)
    qed
  qed
qed

lemma parse_endpoints_result:
  "\<exists>r. parse_endpoints config cluster = Some r
    \<and> (\<forall>eps. r = Inr eps \<longrightarrow> endpoints_ok cluster eps \<and> list_all (declared_ok cluster) eps
        \<and> set (map ep_id eps) = declared_names config)"
proof -
  have "table_indexed cluster [] []" by (simp add: table_indexed_def)
  from declare_endpoints_result [OF this, of config] obtain r where r: "declare_endpoints cluster config [] [] = Some r"
    "\<And>eps. r = Inr eps \<Longrightarrow> \<exists>index. table_indexed cluster eps index" "\<And>eps. r = Inr eps \<Longrightarrow> set (map ep_id eps) = declared_names config"
    by auto
  have "endpoints_ok cluster (sort_key ep_id eps)" if "table_indexed cluster eps index" for eps index
  proof -
    have "sorted (map ep_id (sort_key ep_id eps))" by simp
    moreover have "distinct (map ep_id (sort_key ep_id eps))" using that by (simp add: table_indexed_def distinct_map)
    ultimately show ?thesis
      using that by (auto simp: endpoints_ok_def table_indexed_def strict_sorted_iff list_all_iff declared_ok_def)
  qed
  then show ?thesis using r by (cases r) (auto simp: parse_endpoints_def table_indexed_def list_all_iff)
qed

end
