(* ===== verification/Programs.thy ===== *)
theory Programs
  imports Command_Line_Laws Coordinator Agent
begin

text \<open>
  \<open>apps/icfd/main.cpp\<close> and \<open>apps/icfclusterd/main.cpp\<close>: from the command line to the configuration the coordinator
  and the agent are created with. \<open>Inl\<close> is the exit code of a program that stops before it has started
  anything; what it prints is not modelled.
\<close>

section \<open>The coordinator daemon\<close>

record icfd_config = coordinator_config +
  cf_listen_address :: string
  cf_listen_port :: u16
  cf_agent_idle_deadline :: duration
  cf_readiness_file :: string

text \<open>
  \<open>Duration::from_millis\<close> of an unsigned value: converted to a signed one and multiplied. The product is the
  mathematical one; where it exceeds 64 bits the source has no defined result.
\<close>

definition from_millis :: "u64 \<Rightarrow> duration" where
  "from_millis w = sint w * 1000000"

definition icfd_listen :: "config \<Rightarrow> arguments \<Rightarrow> string" where
  "icfd_listen config arguments =
    config_string config arguments ''listen''
      (config_string config arguments ''listen_address'' ''127.0.0.1'' @ '':''
       @ decimal (unat (config_u64 config arguments ''listen_port'' 0)))"

definition icfd_configure :: "config \<Rightarrow> arguments \<Rightarrow> nat + icfd_config" where
  "icfd_configure config arguments =
    (let state_dir = config_string config arguments ''state_dir'' [];
         domain_text = config_string config arguments ''domain'' []
     in if state_dir = [] \<or> domain_text = [] then Inl 2
        else case parse_endpoint (icfd_listen config arguments) of
          Inl _ \<Rightarrow> Inl 2
        | Inr (host, port) \<Rightarrow>
            (case name_parse id_tag domain_text of
               Inl _ \<Rightarrow> Inl 2
             | Inr domain \<Rightarrow>
                 Inr \<lparr>cf_state_directory = state_dir, cf_domain = domain,
                   cf_durable = config_bool config arguments ''durable'' True,
                   cf_allow_agent_registration = config_bool config arguments ''allow_agent_registration'' True,
                   cf_domain_keys = channel_keys config,
                   cf_default_lease = from_millis (config_u64 config arguments ''lease_ms'' 120000),
                   cf_ping_interval = from_millis (config_u64 config arguments ''ping_ms'' 5000),
                   cf_grant_flow_deadline = 10 * 1000000000,
                   cf_compact_bytes = config_u64 config arguments ''compact_bytes'' 8388608,
                   cf_compact_records = 16384,
                   cf_listen_address = host, cf_listen_port = port,
                   cf_agent_idle_deadline = from_millis (config_u64 config arguments ''agent_idle_ms'' 30000),
                   cf_readiness_file = config_string config arguments ''ready_file'' []\<rparr>))"

definition icfd_main :: "(string \<Rightarrow> file_contents) \<Rightarrow> string list \<Rightarrow> nat + icfd_config" where
  "icfd_main files argv =
    (case parse_arguments argv of
       Inl _ \<Rightarrow> Inl 2
     | Inr arguments \<Rightarrow>
         if arguments_has arguments ''help'' then Inl 0
         else case load_config files arguments of
           Inl _ \<Rightarrow> Inl 2
         | Inr config \<Rightarrow> icfd_configure config arguments)"

section \<open>The agent daemon\<close>

record icfclusterd_config = agent_config +
  af_coordinator_host :: string
  af_coordinator_port :: u16
  af_control_address :: string
  af_control_port :: u16
  af_readiness_file :: string

definition initial_state :: "string \<Rightarrow> cluster_state option" where
  "initial_state s =
    (if s = ''active'' then Some ClusterState_Active
     else if s = ''suspended'' then Some ClusterState_Suspended
     else if s = ''draining'' then Some ClusterState_Draining
     else None)"

text \<open>The outer \<open>None\<close> is an exception.\<close>

definition icfclusterd_configure :: "config \<Rightarrow> arguments \<Rightarrow> (nat + icfclusterd_config) option" where
  "icfclusterd_configure config arguments =
    (let cluster_text = config_string config arguments ''cluster'' [];
         domain_text = config_string config arguments ''domain'' [];
         coordinator_text = config_string config arguments ''coordinator'' [];
         state_dir = config_string config arguments ''state_dir'' []
     in if cluster_text = [] \<or> domain_text = [] \<or> coordinator_text = [] \<or> state_dir = [] then Some (Inl 2)
        else case name_parse id_tag domain_text of
          Inl _ \<Rightarrow> Some (Inl 2)
        | Inr domain \<Rightarrow>
       (case parse_endpoint coordinator_text of
          Inl _ \<Rightarrow> Some (Inl 2)
        | Inr (host, port) \<Rightarrow>
       (case name_parse id_tag cluster_text of
          Inl _ \<Rightarrow> Some (Inl 2)
        | Inr cluster \<Rightarrow>
       (case parse_endpoint (config_string config arguments ''control'' ''127.0.0.1:0'') of
          Inl _ \<Rightarrow> Some (Inl 2)
        | Inr (control_host, control_port) \<Rightarrow>
       (case initial_state (config_string config arguments ''state'' ''active'') of
          None \<Rightarrow> Some (Inl 2)
        | Some state \<Rightarrow>
       (case parse_endpoints config cluster of
          None \<Rightarrow> None
        | Some (Inl _) \<Rightarrow> Some (Inl 2)
        | Some (Inr endpoints) \<Rightarrow>
            Some (Inr \<lparr>af_cluster = cluster, af_domain = domain,
              af_generation = config_u64 config arguments ''generation'' 1,
              af_policy_generation = config_u64 config arguments ''policy_generation'' 1,
              af_state = state, af_endpoints = endpoints, af_state_directory = state_dir,
              af_channel_key = config_string config arguments ''shared_key'' [],
              af_durable = config_bool config arguments ''durable'' True,
              af_handshake_deadline = 10000 * 1000000, af_reconnect_backoff = 250 * 1000000,
              af_reconnect_backoff_max = 8000 * 1000000, af_compact_bytes = 2097152, af_compact_records = 8192,
              af_require_coordinator = True, af_coordinator_host = host, af_coordinator_port = port,
              af_control_address = control_host, af_control_port = control_port,
              af_readiness_file = config_string config arguments ''ready_file'' []\<rparr>)))))))"

definition icfclusterd_main :: "(string \<Rightarrow> file_contents) \<Rightarrow> string list \<Rightarrow> (nat + icfclusterd_config) option" where
  "icfclusterd_main files argv =
    (case parse_arguments argv of
       Inl _ \<Rightarrow> Some (Inl 2)
     | Inr arguments \<Rightarrow>
         if arguments_has arguments ''help'' then Some (Inl 0)
         else case load_config files arguments of
           Inl _ \<Rightarrow> Some (Inl 2)
         | Inr config \<Rightarrow> icfclusterd_configure config arguments)"

section \<open>What a configured agent has\<close>

text \<open>The program never throws, and the configuration it arrives at is well formed.\<close>

definition agent_config_ok :: "'a agent_config_scheme \<Rightarrow> bool" where
  "agent_config_ok config \<longleftrightarrow>
    name_ok id_tag (af_cluster config) \<and> name_ok id_tag (af_domain config) \<and> af_state_directory config \<noteq> []
    \<and> endpoints_ok (af_cluster config) (af_endpoints config)
    \<and> list_all (declared_ok (af_cluster config)) (af_endpoints config) \<and> af_require_coordinator config"

lemma parse_endpoints_total: "parse_endpoints config cluster \<noteq> None"
  using parse_endpoints_result [of config cluster] by auto

lemma parse_endpoints_ok:
  assumes "parse_endpoints config cluster = Some (Inr eps)"
  shows "endpoints_ok cluster eps \<and> list_all (declared_ok cluster) eps \<and> set (map ep_id eps) = declared_names config"
  using parse_endpoints_result [of config cluster] assms by auto

lemma icfclusterd_configure_total: "icfclusterd_configure config arguments \<noteq> None"
  unfolding icfclusterd_configure_def Let_def
  by (simp add: parse_endpoints_total [simplified] split: option.split sum.split prod.split) (metis not_None_eq parse_endpoints_total)

lemma icfclusterd_configure_code: "icfclusterd_configure config arguments = Some (Inl code) \<Longrightarrow> code = 2"
  by (auto simp: icfclusterd_configure_def Let_def split: if_splits sum.splits option.splits prod.splits)

lemma icfclusterd_configure_ok:
  assumes "icfclusterd_configure config arguments = Some (Inr daemon)"
  shows "agent_config_ok daemon \<and> set (map ep_id (af_endpoints daemon)) = declared_names config"
proof -
  obtain eps where eps: "parse_endpoints config (af_cluster daemon) = Some (Inr eps)" "af_endpoints daemon = eps"
    and fields: "name_parse id_tag (config_string config arguments ''cluster'' []) = Inr (af_cluster daemon)"
      "name_parse id_tag (config_string config arguments ''domain'' []) = Inr (af_domain daemon)"
      "af_state_directory daemon \<noteq> []" "af_require_coordinator daemon"
    using assms unfolding icfclusterd_configure_def Let_def
    by (simp split: option.splits sum.splits prod.splits if_splits) force
  have name: "name_ok id_tag s'" if "name_parse id_tag s = Inr s'" for s s'
    using that name_parse_InrD [OF that] by (simp add: name_ok_def)
  show ?thesis
    using parse_endpoints_ok [OF eps(1)] name [OF fields(1)] name [OF fields(2)] fields(3,4)
    by (simp add: eps(2) agent_config_ok_def)
qed

end
