(* ===== verification/Client.thy ===== *)
theory Client
  imports Frame_Laws Messages
begin

text \<open>
  \<open>client/client.cpp\<close>: the synchronous client. What the socket and the clock answer is a parameter, one answer
  per call in the order of the calls; \<open>kc_output\<close> and \<open>kc_input\<close> record what went over the socket. The loops of the
  source may run for ever, and \<open>None\<close> is a call that does not return.
\<close>

record client_options =
  ko_port :: u16
  ko_role :: peer_role
  ko_cluster :: cluster_id
  ko_domain :: domain_id
  ko_channel_key :: string
  ko_reply_deadline :: duration
  ko_send_hello :: bool

text \<open>
  The answer to one call: the clock's reading, how many bytes a send took, what a poll returned and
  whether it flagged a failure, what a receive delivered.
\<close>

record answer =
  aw_clock :: int
  aw_sent :: "nat result"
  aw_ready :: "nat result"
  aw_failed :: bool
  aw_received :: "bytes result"

record client =
  kc_options :: client_options
  kc_valid :: bool
  kc_parser :: frame_parser
  kc_hello_ack :: "hello_ack_message option"
  kc_verify_key :: bytes
  kc_signing :: bool
  kc_answers :: "nat \<Rightarrow> answer"
  kc_calls :: nat
  kc_output :: bytes
  kc_input :: bytes

definition ask :: "client \<Rightarrow> answer \<times> client" where
  "ask c = (kc_answers c (kc_calls c), c\<lparr>kc_calls := kc_calls c + 1\<rparr>)"

definition clock_now :: "client \<Rightarrow> int \<times> client" where
  "clock_now c = (case ask c of (w, c') \<Rightarrow> (aw_clock w, c'))"

section \<open>Sending\<close>

partial_function (option) send_loop :: "bytes \<Rightarrow> int \<Rightarrow> client \<Rightarrow> (status \<times> client) option" where
  "send_loop bs deadline c =
    (if bs = [] then Some (status_ok, c)
     else case ask c of (w, c) \<Rightarrow>
       (case aw_sent w of
          Inr written \<Rightarrow> send_loop (drop written bs) deadline (c\<lparr>kc_output := kc_output c @ take written bs\<rparr>)
        | Inl e \<Rightarrow>
            if st_outcome e \<noteq> Outcome_Busy then Some (e, c)
            else case ask c of (w, c) \<Rightarrow>
              (case aw_ready w of
                 Inl e \<Rightarrow> Some (e, c)
               | Inr _ \<Rightarrow>
                   (case clock_now c of (now, c) \<Rightarrow>
                      if now > deadline then Some (status_make Outcome_Unreachable ''the send deadline expired'', c)
                      else send_loop bs deadline c))))"

definition send_raw :: "bytes \<Rightarrow> client \<Rightarrow> (status \<times> client) option" where
  "send_raw bs c =
    (case clock_now c of (now, c) \<Rightarrow> send_loop bs (now + ko_reply_deadline (kc_options c)) c)"

definition client_key :: "client \<Rightarrow> bytes" where
  "client_key c = bytes_of_string (ko_channel_key (kc_options c))"

definition send_frame :: "message_type \<Rightarrow> bytes \<Rightarrow> client \<Rightarrow> (status \<times> client) option" where
  "send_frame type payload c =
    (if \<not> kc_valid c then Some (status_make Outcome_Unreachable ''the client is not connected'', c)
     else
       let sign = (kc_signing c \<and> ko_channel_key (kc_options c) \<noteq> []);
           header = \<lparr>fh_version = kProtocolVersionMax, fh_type = type, fh_flags = (if sign then kFlagSigned else 0),
             fh_payload_length = 0\<rparr>
       in case append_frame header payload (if sign then client_key c else []) [] of
            (appended, encoded) \<Rightarrow> if \<not> is_ok appended then Some (appended, c) else send_raw encoded c)"

section \<open>Receiving\<close>

partial_function (option) wait_loop :: "int \<Rightarrow> client \<Rightarrow> (status \<times> client) option" where
  "wait_loop limit c =
    (case ask c of (w, c) \<Rightarrow>
     case aw_ready w of
       Inl e \<Rightarrow> Some (e, c)
     | Inr ready \<Rightarrow>
         if aw_failed w then Some (status_make Outcome_Unreachable ''the peer closed the connection'', c)
         else if ready > 0 then Some (status_ok, c)
         else case clock_now c of (now, c) \<Rightarrow>
           if now > limit then Some (status_make Outcome_Unreachable ''the reply deadline expired'', c)
           else wait_loop limit c)"

definition wait_readable :: "duration \<Rightarrow> client \<Rightarrow> (status \<times> client) option" where
  "wait_readable deadline c = (case clock_now c of (now, c) \<Rightarrow> wait_loop (now + deadline) c)"

definition kReadableWait :: duration where "kReadableWait = 250 * 1000000"

partial_function (option) receive_loop :: "int \<Rightarrow> client \<Rightarrow> (frame result \<times> client) option" where
  "receive_loop limit c =
    (case parser_next (kc_verify_key c) (kc_parser c) of
       (Inl e, p) \<Rightarrow> Some (Inl e, c\<lparr>kc_parser := p\<rparr>)
     | (Inr (Some f), p) \<Rightarrow> Some (Inr f, c\<lparr>kc_parser := p\<rparr>)
     | (Inr None, p) \<Rightarrow>
         (case wait_readable kReadableWait (c\<lparr>kc_parser := p\<rparr>) of
            None \<Rightarrow> None
          | Some (readable, c) \<Rightarrow>
              if \<not> is_ok readable then Some (Inl readable, c)
              else case clock_now c of (now, c) \<Rightarrow>
                if now > limit then Some (Inl (status_make Outcome_Unreachable ''the reply deadline expired''), c)
                else case ask c of (w, c) \<Rightarrow>
                  (case aw_received w of
                     Inl e \<Rightarrow> if st_outcome e = Outcome_Busy then receive_loop limit c else Some (Inl e, c)
                   | Inr chunk \<Rightarrow>
                       if chunk = [] then Some (Inl (status_make Outcome_Unreachable ''the peer closed the connection''), c)
                       else case parser_push chunk (kc_parser c) of
                         (pushed, p) \<Rightarrow>
                           let c = c\<lparr>kc_parser := p, kc_input := kc_input c @ chunk\<rparr>
                           in if \<not> is_ok pushed then Some (Inl pushed, c) else receive_loop limit c)))"

definition receive_frame :: "client \<Rightarrow> (frame result \<times> client) option" where
  "receive_frame c =
    (case clock_now c of (now, c) \<Rightarrow> receive_loop (now + ko_reply_deadline (kc_options c)) c)"

section \<open>Requests\<close>

text \<open>Answering a ping; whether the answer could be sent is ignored.\<close>

definition answer_ping :: "frame \<Rightarrow> client \<Rightarrow> client option" where
  "answer_ping f c =
    (case decode_ping (fr_payload f) of
       Inl _ \<Rightarrow> Some c
     | Inr ping \<Rightarrow>
         map_option snd (send_frame MessageType_Pong (encode_pong \<lparr>pon_sequence = pin_sequence ping\<rparr>) c))"

partial_function (option) query_loop :: "uuid \<Rightarrow> int \<Rightarrow> client \<Rightarrow> (query_result_message result \<times> client) option" where
  "query_loop request limit c =
    (case receive_frame c of
       None \<Rightarrow> None
     | Some (Inl e, c) \<Rightarrow> Some (Inl e, c)
     | Some (Inr f, c) \<Rightarrow>
         if fh_type (fr_header f) = MessageType_Ping
         then (case answer_ping f c of None \<Rightarrow> None | Some c \<Rightarrow> query_loop request limit c)
         else if fh_type (fr_header f) \<noteq> MessageType_QueryResult
         then Some (Inl (invalid ''unexpected message while waiting for a query result''), c)
         else case decode_query_result (fr_payload f) of
           Inl e \<Rightarrow> Some (Inl e, c)
         | Inr answer \<Rightarrow>
             if qrs_request answer \<noteq> request
             then (case clock_now c of (now, c) \<Rightarrow>
               if now > limit
               then Some (Inl (status_make Outcome_Indeterminate ''a reply for a different request arrived after the deadline''), c)
               else query_loop request limit c)
             else Some (Inr answer, c))"

definition client_query :: "query_message \<Rightarrow> client \<Rightarrow> (query_result_message result \<times> client) option" where
  "client_query request c =
    (case send_frame MessageType_Query (encode_query request) c of
       None \<Rightarrow> None
     | Some (sent, c) \<Rightarrow>
         if \<not> is_ok sent then Some (Inl sent, c)
         else case clock_now c of (now, c) \<Rightarrow>
           query_loop (qry_request request) (now + ko_reply_deadline (kc_options c)) c)"

partial_function (option) admin_loop :: "uuid \<Rightarrow> client \<Rightarrow> (admin_result_message result \<times> client) option" where
  "admin_loop request c =
    (case receive_frame c of
       None \<Rightarrow> None
     | Some (Inl e, c) \<Rightarrow> Some (Inl e, c)
     | Some (Inr f, c) \<Rightarrow>
         if fh_type (fr_header f) = MessageType_Ping then admin_loop request c
         else if fh_type (fr_header f) \<noteq> MessageType_AdminResult
         then Some (Inl (invalid ''unexpected message while waiting for an administrative result''), c)
         else case decode_admin_result (fr_payload f) of
           Inl e \<Rightarrow> Some (Inl e, c)
         | Inr answer \<Rightarrow> if ads_request answer \<noteq> request then admin_loop request c else Some (Inr answer, c))"

definition client_admin :: "admin_message \<Rightarrow> client \<Rightarrow> (admin_result_message result \<times> client) option" where
  "client_admin request c =
    (case send_frame MessageType_Admin (encode_admin request) c of
       None \<Rightarrow> None
     | Some (sent, c) \<Rightarrow> if \<not> is_ok sent then Some (Inl sent, c) else admin_loop (adm_request request) c)"

definition send_consent :: "contract_consent_message \<Rightarrow> client \<Rightarrow> (status \<times> client) option" where
  "send_consent consent = send_frame MessageType_ContractConsent (encode_contract_consent consent)"

definition send_withdraw :: "withdraw_message \<Rightarrow> client \<Rightarrow> (status \<times> client) option" where
  "send_withdraw withdraw = send_frame MessageType_Withdraw (encode_withdraw withdraw)"

section \<open>Connecting\<close>

definition client_incarnation :: uuid where
  "client_incarnation =
    [0x11, 0x11, 0x11, 0x11, 0x22, 0x22, 0x43, 0x33, 0x84, 0x44, 0x55, 0x55, 0x55, 0x55, 0x55, 0x55]"

lemma client_incarnation_parsed: "uuid_parse ''11111111-2222-4333-8444-555555555555'' = Inr client_incarnation"
  by code_simp

definition client_hello :: "client_options \<Rightarrow> timestamp \<Rightarrow> hello_message" where
  "client_hello options now =
    \<lparr>hel_role = ko_role options, hel_cluster = ko_cluster options, hel_domain = ko_domain options,
     hel_incarnation = client_incarnation, hel_generation = 1, hel_policy_generation = 1, hel_agent_term = 1,
     hel_protocol_min = kProtocolVersionMin, hel_protocol_max = kProtocolVersionMax,
     hel_capabilities = (if ko_role options = PeerRole_Agent then kCapabilityAll else 0),
     hel_content_digest = zero_digest, hel_started_at = now\<rparr>"

definition handshake_refusal :: "frame \<Rightarrow> status" where
  "handshake_refusal f =
    (let detail = ''the peer answered the handshake with '' @ message_type_to_string (fh_type (fr_header f));
         reason = (if fh_type (fr_header f) = MessageType_Error
           then (case decode_error (fr_payload f) of
              Inl _ \<Rightarrow> []
            | Inr e \<Rightarrow> '': '' @ outcome_to_string (err_outcome e) @ '' ('' @ err_detail e @ '')'')
           else [])
     in status_make Outcome_Invalid (detail @ reason))"

definition new_client :: "client_options \<Rightarrow> (nat \<Rightarrow> answer) \<Rightarrow> client" where
  "new_client options answers =
    \<lparr>kc_options = options, kc_valid = True, kc_parser = new_parser kMaxFramePayload, kc_hello_ack = None,
     kc_verify_key = bytes_of_string (ko_channel_key options), kc_signing = False, kc_answers = answers, kc_calls = 0,
     kc_output = [], kc_input = []\<rparr>"

text \<open>\<open>opened\<close> is the outcome of connecting the socket and \<open>now\<close> the wall clock.\<close>

definition client_connect ::
  "client_options \<Rightarrow> status \<Rightarrow> timestamp \<Rightarrow> (nat \<Rightarrow> answer) \<Rightarrow> client result option" where
  "client_connect options opened now answers =
    (if ko_port options = 0 then Some (Inl (invalid ''a client requires a port''))
     else if \<not> is_ok opened then Some (Inl opened)
     else
       let c = new_client options answers
       in if \<not> ko_send_hello options then Some (Inr c)
          else case send_frame MessageType_Hello (encode_hello (client_hello options now)) c of
            None \<Rightarrow> None
          | Some (hello, c) \<Rightarrow>
              if \<not> is_ok hello then Some (Inl hello)
              else case receive_frame c of
                None \<Rightarrow> None
              | Some (Inl e, c) \<Rightarrow> Some (Inl e)
              | Some (Inr reply, c) \<Rightarrow>
                  if fh_type (fr_header reply) \<noteq> MessageType_HelloAck then Some (Inl (handshake_refusal reply))
                  else case decode_hello_ack (fr_payload reply) of
                    Inl e \<Rightarrow> Some (Inl e)
                  | Inr ack \<Rightarrow> Some (Inr (c\<lparr>kc_hello_ack := Some ack, kc_signing := (kc_verify_key c \<noteq> [])\<rparr>)))"

end
