(* ===== verification/Control_Program.thy ===== *)
theory Control_Program
  imports Command_Line Client
begin

text \<open>
  \<open>apps/icfctl/main.cpp\<close>: the request each command makes, and the exit code its answer gives. What the program
  prints is not modelled. A call of \<open>value()\<close> on a failed result throws, which is \<open>None\<close>.
\<close>

section \<open>Requests\<close>

datatype ctl_plan = Ctl_Exit nat | Ctl_Query string string query_message | Ctl_Admin string string admin_message

definition blank_query :: query_message where
  "blank_query =
    \<lparr>qry_request = nil_uuid, qry_kind = QueryKind_Status, qry_cluster = [], qry_cluster_b = [], qry_endpoint = [],
     qry_endpoint_b = [], qry_contract = nil_uuid, qry_grant = nil_uuid, qry_edge = [], qry_policy_id = [],
     qry_capacity = 0, qry_allow_degraded = False, qry_limit = 0, qry_expect_source_generation = False,
     qry_source_generation = 0, qry_expect_target_generation = False, qry_target_generation = 0, qry_at = 0\<rparr>"

definition blank_admin :: admin_message where
  "blank_admin =
    \<lparr>adm_request = nil_uuid, adm_action = AdminAction_UpsertCluster, adm_cluster = None, adm_link = None, adm_path = None,
     adm_policy = None, adm_cluster_id = [], adm_cluster_b = [], adm_endpoint = [], adm_endpoint_b = [],
     adm_contract = nil_uuid, adm_grant = nil_uuid, adm_edge = [], adm_policy_id = [], adm_generation = 0,
     adm_cluster_state = ClusterState_Unknown, adm_link_state = LinkState_Unknown, adm_capacity = 0,
     adm_lease_duration = 0, adm_reason = []\<rparr>"

definition admin_provenance :: provenance where
  "admin_provenance =
    default_provenance\<lparr>pv_source := EvidenceSource_AdminConfigured, pv_verification := VerificationState_Verified\<rparr>"

definition positional :: "arguments \<Rightarrow> nat \<Rightarrow> string \<Rightarrow> string" where
  "positional arguments n fallback =
    (if length (ar_positional arguments) > n then ar_positional arguments ! n else fallback)"

definition name_arg :: "arguments \<Rightarrow> string \<Rightarrow> string result" where
  "name_arg arguments name =
    (let s = arguments_get arguments name []
     in if s = [] then Inl (invalid (''missing --'' @ name)) else name_parse id_tag s)"

text \<open>\<open>get_u64(key).value()\<close> and \<open>get_u64(key).value_or(fallback)\<close>.\<close>

definition u64_value :: "arguments \<Rightarrow> string \<Rightarrow> u64 option" where
  "u64_value arguments key = (case arguments_get_u64 arguments key of Inl _ \<Rightarrow> None | Inr w \<Rightarrow> Some w)"

definition u64_or :: "arguments \<Rightarrow> string \<Rightarrow> u64 \<Rightarrow> u64" where
  "u64_or arguments key fallback = (case arguments_get_u64 arguments key of Inl _ \<Rightarrow> fallback | Inr w \<Rightarrow> w)"

definition plan_clusters :: "arguments \<Rightarrow> query_message option" where
  "plan_clusters arguments =
    (if positional arguments 1 ''list'' = ''show''
     then
       (case (case name_arg arguments ''cluster'' of
                Inr cluster \<Rightarrow> Inr cluster
              | Inl e \<Rightarrow> if length (ar_positional arguments) > 2 then name_parse id_tag (ar_positional arguments ! 2) else Inl e) of
          Inl _ \<Rightarrow> None
        | Inr cluster \<Rightarrow> Some (blank_query\<lparr>qry_kind := QueryKind_ShowCluster, qry_cluster := cluster\<rparr>))
     else Some (blank_query\<lparr>qry_kind := QueryKind_ListClusters\<rparr>))"

definition link_kind_arg :: "string \<Rightarrow> link_kind option" where
  "link_kind_arg kind =
    (if kind = ''loopback'' then Some LinkKind_LoopbackTcp
     else if kind = ''synthetic'' then Some LinkKind_SyntheticModel
     else if kind = ''optical'' then Some LinkKind_OpticalInterconnect
     else None)"

definition plan_link_add :: "arguments \<Rightarrow> edge_id \<Rightarrow> admin_message option" where
  "plan_link_add arguments edge =
    (case (name_arg arguments ''a'', name_arg arguments ''b'') of
       (Inr a, Inr b) \<Rightarrow>
         (case link_kind_arg (arguments_get arguments ''kind'' ''synthetic'') of
            None \<Rightarrow> None
          | Some kind \<Rightarrow>
              Some (blank_admin\<lparr>adm_action := AdminAction_UpsertLink,
                adm_link := Some \<lparr>ln_id = edge, ln_a = a, ln_b = b, ln_kind = kind, ln_state = LinkState_Up,
                  ln_capacity = u64_or arguments ''capacity'' 1000, ln_reserved = 0, ln_latency_micros = 0,
                  ln_revision = 0, ln_provenance = admin_provenance\<rparr>\<rparr>))
     | _ \<Rightarrow> None)"

definition plan_link_change :: "string \<Rightarrow> edge_id \<Rightarrow> admin_message option" where
  "plan_link_change sub edge =
    (let message = blank_admin\<lparr>adm_edge := edge\<rparr>
     in if sub = ''fail'' then Some (message\<lparr>adm_action := AdminAction_SetLinkState, adm_link_state := LinkState_Down\<rparr>)
        else if sub = ''restore'' then Some (message\<lparr>adm_action := AdminAction_SetLinkState, adm_link_state := LinkState_Up\<rparr>)
        else if sub = ''degrade''
        then Some (message\<lparr>adm_action := AdminAction_SetLinkState, adm_link_state := LinkState_Degraded\<rparr>)
        else if sub = ''delete'' then Some (message\<lparr>adm_action := AdminAction_DeleteLink\<rparr>)
        else None)"

definition plan_links :: "arguments \<Rightarrow> (query_message + admin_message) option" where
  "plan_links arguments =
    (let sub = positional arguments 1 ''list''
     in if sub = ''list'' then Some (Inl (blank_query\<lparr>qry_kind := QueryKind_ListLinks\<rparr>))
        else case name_parse id_tag (positional arguments 2 (arguments_get arguments ''edge'' [])) of
          Inl _ \<Rightarrow> None
        | Inr edge \<Rightarrow>
            map_option Inr (if sub = ''add'' then plan_link_add arguments edge else plan_link_change sub edge))"

text \<open>The hops of a path: the nonempty parts between commas.\<close>

fun split_commas :: "string \<Rightarrow> string list" where
  "split_commas [] = [[]]"
| "split_commas (c # cs) =
    (if c = CHR '','' then [] # split_commas cs
     else case split_commas cs of [] \<Rightarrow> [[c]] | part # parts \<Rightarrow> (c # part) # parts)"

fun parse_hops :: "string list \<Rightarrow> edge_id list option" where
  "parse_hops [] = Some []"
| "parse_hops (token # rest) =
    (if token = [] then parse_hops rest
     else case name_parse id_tag token of
       Inl _ \<Rightarrow> None
     | Inr hop \<Rightarrow> map_option (Cons hop) (parse_hops rest))"

definition plan_path_add :: "arguments \<Rightarrow> path_id \<Rightarrow> admin_message option" where
  "plan_path_add arguments path =
    (case (name_arg arguments ''a'', name_arg arguments ''b'') of
       (Inr a, Inr b) \<Rightarrow>
         (let hops = arguments_get arguments ''hops'' []
          in if hops = [] then None
             else case parse_hops (split_commas hops) of
               None \<Rightarrow> None
             | Some edges \<Rightarrow>
                 Some (blank_admin\<lparr>adm_action := AdminAction_UpsertPath,
                   adm_path := Some \<lparr>pa_id = path, pa_a = a, pa_b = b, pa_hops = edges, pa_bottleneck = 0,
                     pa_state = PathState_Unknown, pa_revision = 0, pa_provenance = admin_provenance,
                     pa_contains_unsupported_edge = False\<rparr>\<rparr>))
     | _ \<Rightarrow> None)"

definition plan_paths :: "arguments \<Rightarrow> (query_message + admin_message) option" where
  "plan_paths arguments =
    (let sub = positional arguments 1 ''list''
     in if sub = ''list'' then Some (Inl (blank_query\<lparr>qry_kind := QueryKind_ListPaths\<rparr>))
        else case name_parse id_tag (positional arguments 2 []) of
          Inl _ \<Rightarrow> None
        | Inr path \<Rightarrow>
            map_option Inr
              (if sub = ''delete'' then Some (blank_admin\<lparr>adm_action := AdminAction_DeletePath, adm_edge := path\<rparr>)
               else plan_path_add arguments path))"

text \<open>An optional name: absent, or one that parses.\<close>

definition optional_name :: "arguments \<Rightarrow> string \<Rightarrow> string option" where
  "optional_name arguments key =
    (let s = arguments_get arguments key []
     in if s = [] then Some [] else case name_parse id_tag s of Inl _ \<Rightarrow> None | Inr name \<Rightarrow> Some name)"

definition plan_rule :: "arguments \<Rightarrow> string \<Rightarrow> bool \<Rightarrow> admin_message option" where
  "plan_rule arguments rule allow =
    (case name_parse id_tag (arguments_get arguments ''owner'' []) of
       Inl _ \<Rightarrow> None
     | Inr owner \<Rightarrow>
         (case (optional_name arguments ''a'', optional_name arguments ''b'', optional_name arguments ''endpoint'',
             optional_name arguments ''endpoint-b'') of
            (Some a, Some b, Some endpoint_a, Some endpoint_b) \<Rightarrow>
              Some (blank_admin\<lparr>adm_action := AdminAction_UpsertPolicy,
                adm_policy := Some \<lparr>pr_id = rule, pr_owner = owner, pr_cluster_a = a, pr_cluster_b = b,
                  pr_endpoint_a = endpoint_a, pr_endpoint_b = endpoint_b, pr_generation = u64_or arguments ''generation'' 1,
                  pr_allow = allow, pr_allow_degraded = (arguments_get arguments ''degraded'' ''false'' = ''true''),
                  pr_max_capacity = u64_or arguments ''max-capacity'' 0, pr_revision = 0,
                  pr_provenance = admin_provenance\<rparr>\<rparr>)
          | _ \<Rightarrow> None))"

definition plan_policies :: "arguments \<Rightarrow> (query_message + admin_message) option" where
  "plan_policies arguments =
    (let sub = positional arguments 1 ''list'';
         rule = positional arguments 2 []
     in if sub = ''list'' then Some (Inl (blank_query\<lparr>qry_kind := QueryKind_ListPolicies\<rparr>))
        else if rule = [] then None
        else if sub = ''delete'' then Some (Inr (blank_admin\<lparr>adm_action := AdminAction_DeletePolicy, adm_policy_id := rule\<rparr>))
        else if sub = ''allow'' \<or> sub = ''refuse'' then map_option Inr (plan_rule arguments rule (sub = ''allow''))
        else None)"

definition plan_contracts :: "arguments \<Rightarrow> query_message option" where
  "plan_contracts arguments =
    (if positional arguments 1 ''list'' = ''show''
     then
       (case uuid_parse (positional arguments 2 (arguments_get arguments ''contract'' [])) of
          Inl _ \<Rightarrow> None
        | Inr contract \<Rightarrow> Some (blank_query\<lparr>qry_kind := QueryKind_ShowContract, qry_contract := contract\<rparr>))
     else Some (blank_query\<lparr>qry_kind := QueryKind_ListContracts\<rparr>))"

definition plan_grants :: "arguments \<Rightarrow> query_message option" where
  "plan_grants arguments =
    (if positional arguments 1 ''list'' = ''show''
     then
       (case uuid_parse (positional arguments 2 (arguments_get arguments ''grant'' [])) of
          Inl _ \<Rightarrow> None
        | Inr grant \<Rightarrow> Some (blank_query\<lparr>qry_kind := QueryKind_ShowGrant, qry_grant := grant\<rparr>))
     else Some (blank_query\<lparr>qry_kind := QueryKind_ListGrants\<rparr>))"

text \<open>
  The plans whose numbers are taken with \<open>value()\<close>: the outer \<open>None\<close> is the exception, the inner one a refused
  command line.
\<close>

definition plan_propose :: "arguments \<Rightarrow> admin_message option option" where
  "plan_propose arguments =
    (case (name_arg arguments ''a'', name_arg arguments ''b'', name_arg arguments ''endpoint'', name_arg arguments ''endpoint-b'') of
       (Inr a, Inr b, Inr endpoint_a, Inr endpoint_b) \<Rightarrow>
         (case (if arguments_get arguments ''capacity'' [] = [] then Some 0 else u64_value arguments ''capacity'') of
            None \<Rightarrow> None
          | Some capacity \<Rightarrow>
              (let lease_text = arguments_get arguments ''lease'' []
               in case (if lease_text = [] then Inr (120 * 1000000000) else duration_parse lease_text) of
                    Inl _ \<Rightarrow> Some None
                  | Inr lease \<Rightarrow>
                      Some (Some (blank_admin\<lparr>adm_action := AdminAction_AuthorizeContract, adm_cluster_id := a,
                        adm_cluster_b := b, adm_endpoint := endpoint_a, adm_endpoint_b := endpoint_b,
                        adm_capacity := capacity, adm_lease_duration := lease\<rparr>))))
     | _ \<Rightarrow> Some None)"

definition plan_grant :: "arguments \<Rightarrow> admin_message option option" where
  "plan_grant arguments =
    (case uuid_parse (arguments_get arguments ''contract'' []) of
       Inl _ \<Rightarrow> Some None
     | Inr contract \<Rightarrow>
         (case (if arguments_get arguments ''capacity'' [] = [] then Some 0 else u64_value arguments ''capacity'') of
            None \<Rightarrow> None
          | Some capacity \<Rightarrow>
              Some (Some (blank_admin\<lparr>adm_action := AdminAction_IssueGrant, adm_contract := contract, adm_capacity := capacity\<rparr>))))"

definition plan_grant_change :: "arguments \<Rightarrow> string \<Rightarrow> admin_message option" where
  "plan_grant_change arguments command =
    (case uuid_parse (arguments_get arguments ''grant'' []) of
       Inl _ \<Rightarrow> None
     | Inr grant \<Rightarrow>
         Some (blank_admin\<lparr>adm_action := (if command = ''revalidate'' then AdminAction_RevalidateGrant else AdminAction_FenceGrant),
           adm_grant := grant\<rparr>))"

definition plan_decide :: "arguments \<Rightarrow> query_message option option" where
  "plan_decide arguments =
    (case (name_arg arguments ''src'', name_arg arguments ''dst'') of
       (Inr source, Inr target) \<Rightarrow>
         (case (if arguments_get arguments ''capacity'' [] = [] then Some 1 else u64_value arguments ''capacity'',
             if arguments_has arguments ''expect-src-generation'' then map_option Some (u64_value arguments ''expect-src-generation'')
             else Some None,
             if arguments_has arguments ''expect-dst-generation'' then map_option Some (u64_value arguments ''expect-dst-generation'')
             else Some None) of
            (Some capacity, Some src, Some dst) \<Rightarrow>
              Some (Some (blank_query\<lparr>qry_kind := QueryKind_Decide, qry_endpoint := source, qry_endpoint_b := target,
                qry_capacity := capacity,
                qry_allow_degraded := (arguments_get arguments ''allow-degraded'' ''false'' = ''true''),
                qry_expect_source_generation := (src \<noteq> None), qry_source_generation := (case src of None \<Rightarrow> 0 | Some g \<Rightarrow> g),
                qry_expect_target_generation := (dst \<noteq> None), qry_target_generation := (case dst of None \<Rightarrow> 0 | Some g \<Rightarrow> g)\<rparr>))
          | _ \<Rightarrow> None)
     | _ \<Rightarrow> Some None)"

definition trigger_number :: "string \<Rightarrow> u32" where
  "trigger_number trigger =
    (if trigger = ''reincarnation'' then 1
     else if trigger = ''withdrawal'' then 2
     else if trigger = ''policy'' then 3
     else if trigger = ''coordinator'' then 4
     else 0)"

definition plan_fence_plan :: "arguments \<Rightarrow> query_message option" where
  "plan_fence_plan arguments =
    (case name_arg arguments ''cluster'' of
       Inl _ \<Rightarrow> None
     | Inr cluster \<Rightarrow>
         Some (blank_query\<lparr>qry_kind := QueryKind_FencePlan, qry_cluster := cluster,
           qry_limit := trigger_number (arguments_get arguments ''trigger'' ''manual'')\<rparr>))"

definition plan_withdraw :: "arguments \<Rightarrow> string \<Rightarrow> admin_message option" where
  "plan_withdraw arguments command =
    (case name_arg arguments ''cluster'' of
       Inl _ \<Rightarrow> None
     | Inr cluster \<Rightarrow>
         (let message = blank_admin\<lparr>adm_cluster_id := cluster, adm_reason := arguments_get arguments ''reason'' ''operator request''\<rparr>
          in Some (if command = ''withdraw'' then message\<lparr>adm_action := AdminAction_WithdrawConsent\<rparr>
               else message\<lparr>adm_action := AdminAction_ResolveConflict, adm_generation := u64_or arguments ''generation'' 0\<rparr>)))"

definition plan_listing :: "arguments \<Rightarrow> query_kind \<Rightarrow> query_message" where
  "plan_listing arguments kind = blank_query\<lparr>qry_kind := kind, qry_limit := ucast (u64_or arguments ''limit'' 64)\<rparr>"

definition plan_agent_state :: "string \<Rightarrow> admin_message option" where
  "plan_agent_state state =
    (let message = blank_admin\<lparr>adm_action := AdminAction_SetClusterState\<rparr>
     in if state = ''active'' then Some (message\<lparr>adm_cluster_state := ClusterState_Active\<rparr>)
        else if state = ''suspended'' then Some (message\<lparr>adm_cluster_state := ClusterState_Suspended\<rparr>)
        else if state = ''draining'' then Some (message\<lparr>adm_cluster_state := ClusterState_Draining\<rparr>)
        else None)"

definition plan_agent :: "arguments \<Rightarrow> string \<Rightarrow> (query_message + admin_message) option" where
  "plan_agent arguments command =
    (if command = ''agent-status'' then Some (Inl (plan_listing arguments QueryKind_Status))
     else if command = ''agent-grants'' then Some (Inl (plan_listing arguments QueryKind_ListGrants))
     else if command = ''agent-audit'' then Some (Inl (plan_listing arguments QueryKind_ListAudit))
     else if command = ''agent-show'' then
       (case uuid_parse (arguments_get arguments ''grant'' []) of
          Inl _ \<Rightarrow> None
        | Inr grant \<Rightarrow> Some (Inl (blank_query\<lparr>qry_kind := QueryKind_ShowGrant, qry_grant := grant\<rparr>)))
     else if command = ''agent-withdraw'' then
       Some (Inr (blank_admin\<lparr>adm_action := AdminAction_WithdrawConsent,
         adm_reason := arguments_get arguments ''reason'' ''operator request''\<rparr>))
     else if command = ''agent-state'' then map_option Inr (plan_agent_state (arguments_get arguments ''state'' []))
     else if command = ''agent-fence'' then
       (case uuid_parse (arguments_get arguments ''grant'' []) of
          Inl _ \<Rightarrow> None
        | Inr grant \<Rightarrow>
            Some (Inr (blank_admin\<lparr>adm_action := AdminAction_FenceGrant, adm_grant := grant,
              adm_reason := arguments_get arguments ''reason'' ''operator request''\<rparr>)))
     else None)"

text \<open>A plan for an address, or the exit code of a refused command line.\<close>

definition asking :: "string \<Rightarrow> string \<Rightarrow> query_message option \<Rightarrow> ctl_plan" where
  "asking address key q = (case q of None \<Rightarrow> Ctl_Exit 1 | Some query \<Rightarrow> Ctl_Query address key query)"

definition administering :: "string \<Rightarrow> string \<Rightarrow> admin_message option \<Rightarrow> ctl_plan" where
  "administering address key m = (case m of None \<Rightarrow> Ctl_Exit 1 | Some message \<Rightarrow> Ctl_Admin address key message)"

definition either :: "string \<Rightarrow> string \<Rightarrow> (query_message + admin_message) option \<Rightarrow> ctl_plan" where
  "either address key r =
    (case r of
       None \<Rightarrow> Ctl_Exit 1
     | Some (Inl query) \<Rightarrow> Ctl_Query address key query
     | Some (Inr message) \<Rightarrow> Ctl_Admin address key message)"

definition plan_command :: "arguments \<Rightarrow> string \<Rightarrow> string \<Rightarrow> string \<Rightarrow> ctl_plan option" where
  "plan_command arguments command address key =
    (if command = ''status'' then Some (asking address key (Some blank_query))
     else if command = ''clusters'' then Some (asking address key (plan_clusters arguments))
     else if command = ''links'' then Some (either address key (plan_links arguments))
     else if command = ''paths'' then Some (either address key (plan_paths arguments))
     else if command = ''policies'' then Some (either address key (plan_policies arguments))
     else if command = ''contracts'' then Some (asking address key (plan_contracts arguments))
     else if command = ''grants'' then Some (asking address key (plan_grants arguments))
     else if command = ''propose'' then map_option (administering address key) (plan_propose arguments)
     else if command = ''grant'' then map_option (administering address key) (plan_grant arguments)
     else if command = ''revalidate'' \<or> command = ''fence''
     then Some (administering address key (plan_grant_change arguments command))
     else if command = ''decide'' then map_option (asking address key) (plan_decide arguments)
     else if command = ''fence-plan'' then Some (asking address key (plan_fence_plan arguments))
     else if command = ''withdraw'' \<or> command = ''resolve''
     then Some (administering address key (plan_withdraw arguments command))
     else if command = ''accounting'' then Some (asking address key (Some (plan_listing arguments QueryKind_Accounting)))
     else if command = ''audit'' then Some (asking address key (Some (plan_listing arguments QueryKind_ListAudit)))
     else if take 6 command = ''agent-'' then
       (let agent_address = arguments_get arguments ''agent'' []
        in Some (if agent_address = [] then Ctl_Exit 1 else either agent_address [] (plan_agent arguments command)))
     else Some (Ctl_Exit 1))"

definition plan_main :: "arguments \<Rightarrow> ctl_plan option" where
  "plan_main arguments =
    (if ar_positional arguments = [] \<or> arguments_has arguments ''help''
     then Some (Ctl_Exit (if arguments_has arguments ''help'' then 0 else 1))
     else
       let command = ar_positional arguments ! 0;
           address = arguments_get arguments ''connect'' [];
           key = arguments_get arguments ''shared_key'' []
       in if command = ''version'' then Some (Ctl_Exit 0)
          else if address = [] \<and> take 6 command \<noteq> ''agent-'' then Some (Ctl_Exit 1)
          else plan_command arguments command address key)"

section \<open>Running a request\<close>

definition exit_code_for :: "outcome \<Rightarrow> nat" where
  "exit_code_for out =
    (if out = Outcome_Ok then 0 else if out = Outcome_DegradedAuthorized then 3 else 4)"

definition connect_client ::
  "string \<Rightarrow> string \<Rightarrow> status \<Rightarrow> timestamp \<Rightarrow> (nat \<Rightarrow> answer) \<Rightarrow> client result option" where
  "connect_client address key opened now answers =
    (case parse_endpoint address of
       Inl e \<Rightarrow> Some (Inl e)
     | Inr (host, port) \<Rightarrow>
         client_connect \<lparr>ko_port = port, ko_role = PeerRole_Observer, ko_cluster = [], ko_domain = [], ko_channel_key = key,
           ko_reply_deadline = 10 * 1000000000, ko_send_hello = True\<rparr> opened now answers)"

definition run_query :: "uuid \<Rightarrow> query_message \<Rightarrow> client result \<Rightarrow> nat option" where
  "run_query request query connected =
    (case connected of
       Inl _ \<Rightarrow> Some 2
     | Inr c \<Rightarrow>
         (case client_query (query\<lparr>qry_request := request\<rparr>) c of
            None \<Rightarrow> None
          | Some (Inl _, _) \<Rightarrow> Some 2
          | Some (Inr answer, _) \<Rightarrow>
              Some (if qrs_outcome answer \<noteq> Outcome_Ok \<and> qrs_decision answer = None then exit_code_for (qrs_outcome answer)
                else case qrs_decision answer of None \<Rightarrow> 0 | Some d \<Rightarrow> exit_code_for (dc_outcome d))))"

definition run_admin :: "uuid \<Rightarrow> admin_message \<Rightarrow> client result \<Rightarrow> nat option" where
  "run_admin request message connected =
    (case connected of
       Inl _ \<Rightarrow> Some 2
     | Inr c \<Rightarrow>
         (case client_admin (message\<lparr>adm_request := request\<rparr>) c of
            None \<Rightarrow> None
          | Some (Inl _, _) \<Rightarrow> Some 2
          | Some (Inr answer, _) \<Rightarrow> Some (exit_code_for (ads_outcome answer))))"

text \<open>The whole program, given the outcome of connecting, the clocks and socket, and the identity of the request.\<close>

definition ctl_main :: "status \<Rightarrow> timestamp \<Rightarrow> (nat \<Rightarrow> answer) \<Rightarrow> uuid \<Rightarrow> string list \<Rightarrow> nat option" where
  "ctl_main opened now answers request argv =
    (case parse_arguments argv of
       Inl _ \<Rightarrow> Some 1
     | Inr arguments \<Rightarrow>
         (case plan_main arguments of
            None \<Rightarrow> None
          | Some (Ctl_Exit code) \<Rightarrow> Some code
          | Some (Ctl_Query address key query) \<Rightarrow>
              Option.bind (connect_client address key opened now answers) (run_query request query)
          | Some (Ctl_Admin address key message) \<Rightarrow>
              Option.bind (connect_client address key opened now answers) (run_admin request message)))"

end
