(* ===== verification/Client_Laws.thy ===== *)
theory Client_Laws
  imports Client Connection "HOL-Library.Sublist"
begin

text \<open>
  What the client's calls promise: a send that succeeds has put exactly its bytes on the socket, the
  frames handed over are exactly those the peer sent, in order, and the calls return.
\<close>

section \<open>What no call changes\<close>

definition same_client :: "client \<Rightarrow> client \<Rightarrow> bool" where
  "same_client c c' \<longleftrightarrow> kc_options c' = kc_options c \<and> kc_verify_key c' = kc_verify_key c \<and> kc_signing c' = kc_signing c
    \<and> kc_valid c' = kc_valid c \<and> kc_answers c' = kc_answers c \<and> kc_calls c \<le> kc_calls c'"

lemma same_client_refl [simp]: "same_client c c"
  by (simp add: same_client_def)

lemma same_client_trans [trans]: "same_client c d \<Longrightarrow> same_client d e \<Longrightarrow> same_client c e"
  by (simp add: same_client_def)

lemma ask_same: "ask c = (w, d) \<Longrightarrow> same_client c d \<and> kc_parser d = kc_parser c \<and> kc_input d = kc_input c
    \<and> kc_output d = kc_output c \<and> kc_calls d = kc_calls c + 1 \<and> w = kc_answers c (kc_calls c)"
  by (auto simp: ask_def same_client_def)

lemma clock_now_same: "clock_now c = (now, d) \<Longrightarrow> same_client c d \<and> kc_parser d = kc_parser c \<and> kc_input d = kc_input c
    \<and> kc_output d = kc_output c \<and> kc_calls d = kc_calls c + 1 \<and> now = aw_clock (kc_answers c (kc_calls c))"
  using ask_same by (auto simp: clock_now_def split: prod.splits)

text \<open>A failed result carries a status that is not ok.\<close>

definition honest :: "(nat \<Rightarrow> answer) \<Rightarrow> bool" where
  "honest answers \<longleftrightarrow> (\<forall>n e. (aw_sent (answers n) = Inl e \<or> aw_ready (answers n) = Inl e \<or> aw_received (answers n) = Inl e)
    \<longrightarrow> \<not> is_ok e)"

section \<open>Sending\<close>

definition sent_part :: "bytes \<Rightarrow> client \<Rightarrow> status \<times> client \<Rightarrow> bool" where
  "sent_part bs c r \<longleftrightarrow> (case r of (s, c') \<Rightarrow>
    same_client c c' \<and> kc_parser c' = kc_parser c \<and> kc_input c' = kc_input c
    \<and> (\<exists>n. kc_output c' = kc_output c @ take n bs \<and> (honest (kc_answers c) \<longrightarrow> is_ok s \<longrightarrow> take n bs = bs)))"

lemma sent_part_later:
  assumes "sent_part (drop n bs) d r" "same_client c d" "kc_parser d = kc_parser c" "kc_input d = kc_input c"
    "kc_output d = kc_output c @ take n bs"
  shows "sent_part bs c r"
proof -
  obtain s c' m where r: "r = (s, c')" "same_client d c'" "kc_parser c' = kc_parser d" "kc_input c' = kc_input d"
    "kc_output c' = kc_output d @ take m (drop n bs)" "honest (kc_answers d) \<Longrightarrow> is_ok s \<Longrightarrow> take m (drop n bs) = drop n bs"
    using assms(1) unfolding sent_part_def by (auto split: prod.splits)
  have "take n bs @ take m (drop n bs) = take (n + m) bs" by (simp add: take_add)
  moreover have "take n bs @ drop n bs = bs" by simp
  ultimately show ?thesis
    using r assms(2-5) same_client_trans [OF assms(2) r(2)]
    unfolding sent_part_def by (auto simp: same_client_def intro!: exI [of _ "n + m"])
qed

lemma sent_nothing:
  assumes "same_client c d" "kc_parser d = kc_parser c" "kc_input d = kc_input c" "kc_output d = kc_output c"
    "honest (kc_answers c) \<Longrightarrow> \<not> is_ok s"
  shows "sent_part bs c (s, d)"
  using assms unfolding sent_part_def by (auto intro!: exI [of _ 0])

lemma send_loop_sent: "send_loop bs deadline c = Some r \<Longrightarrow> sent_part bs c r"
proof (induction bs deadline c r rule: send_loop.raw_induct [rotated 1, consumes 1, case_names 1])
  case (1 sending bs deadline c r)
  show ?case
  proof (cases "bs = []")
    case True
    then show ?thesis using 1(2) by (auto simp: sent_part_def)
  next
    case False
    obtain w d where d: "ask c = (w, d)" by fastforce
    note same = ask_same [OF d]
    show ?thesis
    proof (cases "aw_sent w")
      case (Inr written)
      then have "sending (drop written bs) deadline (d\<lparr>kc_output := kc_output d @ take written bs\<rparr>) = Some r"
        using 1(2) False d by simp
      from 1(1) [OF this] show ?thesis by (rule sent_part_later) (use same in \<open>simp_all add: same_client_def\<close>)
    next
      case (Inl e)
      have err: "honest (kc_answers c) \<Longrightarrow> \<not> is_ok e" using same Inl unfolding honest_def by metis
      show ?thesis
      proof (cases "st_outcome e = Outcome_Busy")
        case other: False
        then show ?thesis using 1(2) False d Inl same err by (auto intro!: sent_nothing)
      next
        case True
        obtain w1 f where f: "ask d = (w1, f)" by fastforce
        obtain now g where g: "clock_now f = (now, g)" by fastforce
        note more = ask_same [OF f] clock_now_same [OF g]
        have cg: "same_client c f" "same_client c g" using same more same_client_trans by blast+
        show ?thesis
        proof (cases "aw_ready w1")
          case (Inl e1)
          have "honest (kc_answers c) \<Longrightarrow> \<not> is_ok e1" using Inl same more(1) unfolding honest_def same_client_def by metis
          moreover have "r = (e1, f)" using 1(2) False d \<open>aw_sent w = Inl e\<close> True f Inl by simp
          ultimately show ?thesis using cg same more by (auto intro!: sent_nothing)
        next
          case (Inr _)
          show ?thesis
          proof (cases "now > deadline")
            case late: True
            then have "r = (status_make Outcome_Unreachable ''the send deadline expired'', g)"
              using 1(2) False d \<open>aw_sent w = Inl e\<close> True f g Inr by simp
            then show ?thesis using cg same more by (auto intro!: sent_nothing)
          next
            case early: False
            then have "sending bs deadline g = Some r" using 1(2) False d \<open>aw_sent w = Inl e\<close> True f g Inr by simp
            then have "sent_part (drop 0 bs) g r" using 1(1) by simp
            then show ?thesis by (rule sent_part_later) (use cg same more in simp_all)
          qed
        qed
      qed
    qed
  qed
qed

lemma send_raw_sent:
  assumes "send_raw bs c = Some r"
  shows "sent_part bs c r"
proof -
  obtain now d where d: "clock_now c = (now, d)" by fastforce
  have "sent_part (drop 0 bs) d r" using assms d send_loop_sent by (simp add: send_raw_def)
  then show ?thesis by (rule sent_part_later) (use clock_now_same [OF d] in simp_all)
qed

text \<open>The frame a client sends, and the key its signature is made with.\<close>

definition client_frame :: "message_type \<Rightarrow> bytes \<Rightarrow> client \<Rightarrow> frame" where
  "client_frame type payload c =
    (let sign = (kc_signing c \<and> ko_channel_key (kc_options c) \<noteq> [])
     in \<lparr>fr_header = \<lparr>fh_version = kProtocolVersionMax, fh_type = type, fh_flags = (if sign then kFlagSigned else 0),
           fh_payload_length = word_of_nat (length payload)\<rparr>,
         fr_payload = payload, fr_signed_frame = sign\<rparr>)"

definition sending_key :: "client \<Rightarrow> bytes" where
  "sending_key c = (if kc_signing c then client_key c else [])"

lemma fresh_frame_encoded:
  assumes "append_frame \<lparr>fh_version = kProtocolVersionMax, fh_type = type, fh_flags = (if sign then kFlagSigned else 0),
      fh_payload_length = 0\<rparr> payload key [] = (st, encoded)" (is "append_frame ?raw payload key [] = _")
    and "is_ok st" "message_type_known type" "sign = (key \<noteq> [])"
  defines "f \<equiv> \<lparr>fr_header = \<lparr>fh_version = kProtocolVersionMax, fh_type = type, fh_flags = (if sign then kFlagSigned else 0),
      fh_payload_length = word_of_nat (length payload)\<rparr>, fr_payload = payload, fr_signed_frame = sign\<rparr>"
  shows "frame_ok key f \<and> encoded = frame_bytes key f"
proof -
  have app: "append_frame ?raw payload key [] = (status_ok, encoded)"
    using assms(1,2) unfolding append_frame_def Let_def
    by (auto dest: checked_sum_refused split: if_split_asm sum.splits)
  have small: "length payload \<le> kMaxFramePayload"
    using assms(1,2) by (auto simp: append_frame_def Let_def split: if_split_asm)
  have ok: "frame_ok key f"
    using assms(3,4) small
    by (auto simp: f_def frame_ok_def header_valid_def kProtocolVersionMax_def kFlagSigned_def frame_sizes unat_word_of_nat_u32)
  have same: "append_frame ?raw payload key [] = append_frame (fr_header f) (fr_payload f) key []"
    unfolding f_def append_frame_def Let_def frame_header.simps frame_header.select_convs frame.select_convs ..
  have none: "length ([] :: bytes) < 2 ^ 63" by simp
  have "append_frame (fr_header f) (fr_payload f) key [] = (status_ok, frame_bytes key f)"
    using append_frame_bytes [OF ok none] by (simp only: append_Nil)
  then show ?thesis using ok app same by (metis prod.inject)
qed

lemma send_frame_sent:
  assumes "send_frame type payload c = Some (s, c')" "honest (kc_answers c)" "message_type_known type"
  shows "same_client c c' \<and> kc_parser c' = kc_parser c \<and> kc_input c' = kc_input c \<and> prefix (kc_output c) (kc_output c')
    \<and> (is_ok s \<longrightarrow> kc_output c' = kc_output c @ frame_bytes (sending_key c) (client_frame type payload c)
         \<and> frame_ok (sending_key c) (client_frame type payload c))"
proof (cases "kc_valid c")
  case False
  then show ?thesis using assms(1) by (auto simp: send_frame_def)
next
  case True
  let ?sign = "kc_signing c \<and> ko_channel_key (kc_options c) \<noteq> []"
  have key: "(if ?sign then client_key c else []) = sending_key c" "?sign = (sending_key c \<noteq> [])"
    by (auto simp: sending_key_def client_key_def bytes_of_string_def)
  obtain st encoded where app: "append_frame \<lparr>fh_version = kProtocolVersionMax, fh_type = type,
      fh_flags = (if ?sign then kFlagSigned else 0), fh_payload_length = 0\<rparr> payload (sending_key c) [] = (st, encoded)"
    by fastforce
  have run: "(if \<not> is_ok st then Some (st, c) else send_raw encoded c) = Some (s, c')"
    using assms(1) True app unfolding send_frame_def Let_def key(1) by simp
  show ?thesis
  proof (cases "is_ok st")
    case False
    then show ?thesis using run by auto
  next
    case True
    note frame = fresh_frame_encoded [OF app True assms(3) key(2), folded client_frame_def [unfolded Let_def]]
    have "sent_part encoded c (s, c')" using run True send_raw_sent by simp
    then show ?thesis using frame assms(2) by (auto simp: sent_part_def)
  qed
qed

section \<open>Receiving\<close>

definition same_stream :: "client \<Rightarrow> client \<Rightarrow> bool" where
  "same_stream c c' \<longleftrightarrow> same_client c c' \<and> kc_parser c' = kc_parser c \<and> kc_input c' = kc_input c \<and> kc_output c' = kc_output c"

lemma same_stream_trans [trans]: "same_stream c d \<Longrightarrow> same_stream d e \<Longrightarrow> same_stream c e"
  using same_client_trans by (auto simp: same_stream_def)

lemma ask_stream: "ask c = (w, d) \<Longrightarrow> same_stream c d"
  using ask_same by (auto simp: same_stream_def)

lemma clock_stream: "clock_now c = (now, d) \<Longrightarrow> same_stream c d"
  using clock_now_same by (auto simp: same_stream_def)

lemma wait_loop_stream: "wait_loop limit c = Some r \<Longrightarrow> same_stream c (snd r)"
proof (induction limit c r rule: wait_loop.raw_induct [rotated 1, consumes 1, case_names 1])
  case (1 waiting limit c r)
  obtain w d where d: "ask c = (w, d)" by fastforce
  obtain now e where e: "clock_now d = (now, e)" by fastforce
  have "same_stream c d" "same_stream c e" using ask_stream [OF d] clock_stream [OF e] same_stream_trans by blast+
  moreover have "same_stream c (snd r)" if "waiting limit e = Some r"
    using 1(1) [OF that] calculation same_stream_trans by blast
  ultimately show ?case using 1(2) d e by (auto split: sum.splits if_splits)
qed

lemma wait_readable_stream: "wait_readable deadline c = Some (s, d) \<Longrightarrow> same_stream c d"
  using wait_loop_stream clock_stream same_stream_trans by (fastforce simp: wait_readable_def split: prod.splits)

text \<open>The frames taken from what the peer has sent so far.\<close>

definition delivered :: "frame list \<Rightarrow> client \<Rightarrow> bool" where
  "delivered fs c \<longleftrightarrow> kc_input c = concat (map (frame_bytes (kc_verify_key c)) fs) @ fp_buffer (kc_parser c)
    \<and> list_all (frame_ok (kc_verify_key c)) fs"

lemma delivered_stream: "same_stream c d \<Longrightarrow> delivered fs d = delivered fs c"
  by (simp add: same_stream_def same_client_def delivered_def)

definition received_next :: "client \<Rightarrow> frame result \<times> client \<Rightarrow> bool" where
  "received_next c r \<longleftrightarrow> same_client c (snd r) \<and> kc_output (snd r) = kc_output c
    \<and> (\<forall>f fs. fst r = Inr f \<longrightarrow> delivered fs c \<longrightarrow> delivered (fs @ [f]) (snd r))"

lemma received_next_later:
  assumes "received_next d r" "same_client c d" "kc_output d = kc_output c" "\<And>fs. delivered fs c \<Longrightarrow> delivered fs d"
  shows "received_next c r"
  using assms same_client_trans unfolding received_next_def by metis

lemma received_error: "same_client c d \<Longrightarrow> kc_output d = kc_output c \<Longrightarrow> received_next c (Inl e, d)"
  by (simp add: received_next_def)

lemma parser_next_None: "parser_next key p = (Inr None, p') \<Longrightarrow> p' = p"
  by (auto simp: parser_next_def Let_def split: if_splits sum.splits)

lemma parser_push_accepted: "parser_push bs p = (s, p') \<Longrightarrow> is_ok s \<Longrightarrow> p' = p\<lparr>fp_buffer := fp_buffer p @ bs\<rparr>"
  by (auto simp: parser_push_def Let_def dest: checked_sum_refused split: sum.splits if_splits)

lemma receive_loop_next: "receive_loop limit c = Some r \<Longrightarrow> received_next c r"
proof (induction limit c r rule: receive_loop.raw_induct [rotated 1, consumes 1, case_names 1])
  case (1 receiving limit c r)
  obtain pr p where p: "parser_next (kc_verify_key c) (kc_parser c) = (pr, p)" by fastforce
  consider (err) e where "pr = Inl e" | (got) f where "pr = Inr (Some f)" | (wait) "pr = Inr None"
    by (cases pr) (metis not_Some_eq)+
  then show ?case
  proof cases
    case err
    then show ?thesis using 1(2) p by (auto simp: received_next_def same_client_def)
  next
    case got
    then have r: "r = (Inr f, c\<lparr>kc_parser := p\<rparr>)" using 1(2) p by simp
    have "frame_ok (kc_verify_key c) f \<and> fp_buffer (kc_parser c) = frame_bytes (kc_verify_key c) f @ fp_buffer p"
      using p got parser_next_iff by blast
    then show ?thesis unfolding r by (auto simp: received_next_def same_client_def delivered_def)
  next
    case wait
    then have pc: "c\<lparr>kc_parser := p\<rparr> = c" using parser_next_None p by fastforce
    show ?thesis
    proof (cases "wait_readable kReadableWait c")
      case None
      then show ?thesis using 1(2) p wait pc by simp
    next
      case (Some rd)
      obtain readable d where rd: "rd = (readable, d)" by fastforce
      obtain now e where e: "clock_now d = (now, e)" by fastforce
      obtain w f where f: "ask e = (w, f)" by fastforce
      have str: "same_stream c d" "same_stream c e" "same_stream c f"
        using wait_readable_stream Some rd clock_stream [OF e] ask_stream [OF f] same_stream_trans by blast+
      note str' = str [unfolded same_stream_def]
      have again: "received_next c r" if "receiving limit g = Some r" "same_client c g" "kc_output g = kc_output c"
          "\<And>fs. delivered fs c \<Longrightarrow> delivered fs g" for g
        by (rule received_next_later [OF 1(1) [OF that(1)]]) (use that in auto)
      show ?thesis
      proof (cases "is_ok readable \<and> \<not> now > limit")
        case False
        then show ?thesis using 1(2) p wait pc Some rd e str' by (auto intro!: received_error split: if_splits)
      next
        case ok: True
        show ?thesis
        proof (cases "aw_received w")
          case (Inl err)
          then show ?thesis
            using 1(2) p wait pc Some rd e f ok str' again [of f] delivered_stream [OF str(3)]
            by (auto intro!: received_error split: if_splits)
        next
          case (Inr chunk)
          obtain pushed q where q: "parser_push chunk (kc_parser f) = (pushed, q)" by fastforce
          let ?g = "f\<lparr>kc_parser := q, kc_input := kc_input f @ chunk\<rparr>"
          have g: "same_client c ?g" "kc_output ?g = kc_output c" using str' by (simp_all add: same_client_def)
          have "delivered fs ?g" if "is_ok pushed" "delivered fs c" for fs
            using that delivered_stream [OF str(3)] parser_push_accepted [OF q] by (simp add: delivered_def)
          then show ?thesis
            using 1(2) p wait pc Some rd e f ok str' Inr q again [of ?g] g
            by (auto intro!: received_error simp: Let_def split: if_splits)
        qed
      qed
    qed
  qed
qed

lemma receive_frame_next:
  assumes "receive_frame c = Some r"
  shows "received_next c r"
proof -
  obtain now d where d: "clock_now c = (now, d)" by fastforce
  have "received_next d r" using assms d receive_loop_next by (simp add: receive_frame_def)
  then show ?thesis
    by (rule received_next_later) (use clock_stream [OF d] delivered_stream [OF clock_stream [OF d]] in \<open>auto simp: same_stream_def\<close>)
qed

section \<open>Answers\<close>

text \<open>
  A call of the client between two states: the output only grows, and the frames that were taken are
  followed by others.
\<close>

definition exchanged :: "frame list \<Rightarrow> client \<Rightarrow> client \<Rightarrow> bool" where
  "exchanged gs c c' \<longleftrightarrow> same_client c c' \<and> prefix (kc_output c) (kc_output c')
    \<and> (\<forall>fs. delivered fs c \<longrightarrow> delivered (fs @ gs) c')"

lemma exchanged_trans: "exchanged gs c d \<Longrightarrow> exchanged hs d e \<Longrightarrow> exchanged (gs @ hs) c e"
  using same_client_trans prefix_order.trans unfolding exchanged_def by (metis append.assoc)

lemma exchanged_stream: "same_stream c d \<Longrightarrow> exchanged [] c d"
  using delivered_stream by (auto simp: exchanged_def same_stream_def)

lemma receive_frame_exchanged: "receive_frame c = Some (Inr f, d) \<Longrightarrow> exchanged [f] c d"
  using receive_frame_next by (fastforce simp: received_next_def exchanged_def)

lemma send_frame_exchanged:
  assumes "send_frame type payload c = Some (s, d)" "honest (kc_answers c)" "message_type_known type"
  shows "exchanged [] c d"
  using send_frame_sent [OF assms] by (auto simp: exchanged_def delivered_def same_client_def)

lemma answer_ping_exchanged: "answer_ping f c = Some d \<Longrightarrow> honest (kc_answers c) \<Longrightarrow> exchanged [] c d"
  using send_frame_exchanged [of MessageType_Pong _ c] exchanged_stream [of c c]
  by (auto simp: answer_ping_def message_type_known_def same_stream_def split: sum.splits)

lemma exchanged_answers: "exchanged gs c d \<Longrightarrow> kc_answers d = kc_answers c"
  by (simp add: exchanged_def same_client_def)

text \<open>A call that ended with an answer: the last frame taken is that answer.\<close>

definition answered :: "message_type \<Rightarrow> (bytes \<Rightarrow> 'm result) \<Rightarrow> 'm \<Rightarrow> client \<Rightarrow> client \<Rightarrow> bool" where
  "answered type decode m c c' \<longleftrightarrow>
    (\<exists>gs f. exchanged (gs @ [f]) c c' \<and> fh_type (fr_header f) = type \<and> decode (fr_payload f) = Inr m)"

lemma answered_later:
  assumes "answered type decode m d e" "exchanged gs c d"
  shows "answered type decode m c e"
  using assms exchanged_trans [OF assms(2)] unfolding answered_def by (metis append.assoc)

lemma query_loop_answered:
  "query_loop request limit c = Some r \<Longrightarrow> honest (kc_answers c) \<longrightarrow> (\<forall>m. fst r = Inr m \<longrightarrow>
    qrs_request m = request \<and> answered MessageType_QueryResult decode_query_result m c (snd r))"
proof (induction request limit c r rule: query_loop.raw_induct [rotated 1, consumes 1, case_names 1])
  case (1 querying request limit c r)
  show ?case
  proof (intro impI allI)
    fix m assume honest: "honest (kc_answers c)" and m: "fst r = Inr m"
    obtain f d where f: "receive_frame c = Some (Inr f, d)"
      using 1(2) m by (auto split: option.splits sum.splits)
    note ex = receive_frame_exchanged [OF f]
    have again: "qrs_request m = request \<and> answered MessageType_QueryResult decode_query_result m c (snd r)"
      if "querying request limit e = Some r" "exchanged gs d e" for e gs
      using 1(1) [OF that(1)] m honest exchanged_answers [OF ex] exchanged_answers [OF that(2)]
        answered_later [OF _ exchanged_trans [OF ex that(2)]] by auto
    show "qrs_request m = request \<and> answered MessageType_QueryResult decode_query_result m c (snd r)"
    proof (cases "fh_type (fr_header f) = MessageType_Ping")
      case True
      then obtain e where "answer_ping f d = Some e" "querying request limit e = Some r"
        using 1(2) f by (auto split: option.splits)
      then show ?thesis using again answer_ping_exchanged honest exchanged_answers [OF ex] by metis
    next
      case False
      obtain now e where e: "clock_now d = (now, e)" by fastforce
      have type: "fh_type (fr_header f) = MessageType_QueryResult" using 1(2) f False m by (auto split: if_splits)
      then obtain x where x: "decode_query_result (fr_payload f) = Inr x" using 1(2) f m by (auto split: sum.splits)
      show ?thesis
      proof (cases "qrs_request x = request")
        case True
        then have "r = (Inr x, d)" using 1(2) f type x by simp
        moreover have "answered MessageType_QueryResult decode_query_result x c d"
          unfolding answered_def using ex type x by (intro exI [of _ "[]"] exI [of _ f]) simp
        ultimately show ?thesis using True m by simp
      next
        case False
        then have "querying request limit e = Some r" using 1(2) f type x e m by (auto split: if_splits)
        then show ?thesis using again exchanged_stream [OF clock_stream [OF e]] by blast
      qed
    qed
  qed
qed

lemma admin_loop_answered:
  "admin_loop request c = Some r \<Longrightarrow> \<forall>m. fst r = Inr m \<longrightarrow>
    ads_request m = request \<and> answered MessageType_AdminResult decode_admin_result m c (snd r)"
proof (induction request c r rule: admin_loop.raw_induct [rotated 1, consumes 1, case_names 1])
  case (1 waiting request c r)
  show ?case
  proof (intro allI impI)
    fix m assume m: "fst r = Inr m"
    obtain f d where f: "receive_frame c = Some (Inr f, d)" using 1(2) m by (auto split: option.splits sum.splits)
    note ex = receive_frame_exchanged [OF f]
    have again: "ads_request m = request \<and> answered MessageType_AdminResult decode_admin_result m c (snd r)"
      if "waiting request d = Some r"
      using 1(1) [OF that] m answered_later [OF _ ex] by auto
    show "ads_request m = request \<and> answered MessageType_AdminResult decode_admin_result m c (snd r)"
    proof (cases "waiting request d = Some r")
      case False
      then have type: "fh_type (fr_header f) = MessageType_AdminResult" using 1(2) f m by (auto split: if_splits)
      then obtain x where x: "decode_admin_result (fr_payload f) = Inr x" using 1(2) f m by (auto split: sum.splits)
      then have "r = (Inr x, d) \<and> ads_request x = request" using 1(2) f type x False by (auto split: if_splits)
      moreover have "answered MessageType_AdminResult decode_admin_result x c d"
        unfolding answered_def using ex type x by (intro exI [of _ "[]"] exI [of _ f]) simp
      ultimately show ?thesis using m by auto
    qed (rule again)
  qed
qed

section \<open>Calls return\<close>

definition clock_advances :: "(nat \<Rightarrow> answer) \<Rightarrow> bool" where
  "clock_advances answers \<longleftrightarrow> (\<forall>limit. \<exists>n. \<forall>k \<ge> n. aw_clock (answers k) > limit)"

definition sends_progress :: "(nat \<Rightarrow> answer) \<Rightarrow> bool" where
  "sends_progress answers \<longleftrightarrow> (\<forall>n. aw_sent (answers n) \<noteq> Inr 0)"

lemma same_answers: "same_client c d \<Longrightarrow> kc_answers d = kc_answers c" "same_client c d \<Longrightarrow> kc_calls c \<le> kc_calls d"
  by (simp_all add: same_client_def)

lemma wait_loop_returns:
  assumes "\<forall>k \<ge> n. aw_clock (kc_answers c k) > limit"
  shows "\<exists>r. wait_loop limit c = Some r"
  using assms
proof (induction "n - kc_calls c" arbitrary: c rule: less_induct)
  case less
  obtain w d where d: "ask c = (w, d)" by fastforce
  obtain now e where e: "clock_now d = (now, e)" by fastforce
  have d': "kc_answers d = kc_answers c" "kc_calls d = kc_calls c + 1" using ask_same [OF d] same_answers by auto
  have e': "kc_answers e = kc_answers c" "kc_calls e = kc_calls c + 2" "now = aw_clock (kc_answers c (kc_calls c + 1))"
    using clock_now_same [OF e] same_answers d' by auto
  have "\<exists>r. wait_loop limit e = Some r" if "\<not> now > limit"
  proof -
    have "kc_calls c + 1 < n" using less(2) that e'(3) not_less by blast
    then show ?thesis using less(2) e' by (intro less(1)) auto
  qed
  then show ?case by (subst wait_loop.simps) (auto simp: d e split: sum.split)
qed

lemma wait_readable_returns:
  assumes "clock_advances (kc_answers c)"
  shows "\<exists>s d. wait_readable deadline c = Some (s, d)"
proof -
  obtain now d where d: "clock_now c = (now, d)" by fastforce
  obtain n where "\<forall>k \<ge> n. aw_clock (kc_answers d k) > now + deadline"
    using assms clock_now_same [OF d] same_answers unfolding clock_advances_def by metis
  from wait_loop_returns [OF this] show ?thesis using d by (simp add: wait_readable_def)
qed

lemma receive_loop_returns:
  assumes "clock_advances (kc_answers c)" "\<forall>k \<ge> n. aw_clock (kc_answers c k) > limit"
  shows "\<exists>r. receive_loop limit c = Some r"
  using assms
proof (induction "n - kc_calls c" arbitrary: c rule: less_induct)
  case less
  obtain pr p where p: "parser_next (kc_verify_key c) (kc_parser c) = (pr, p)" by fastforce
  have "\<exists>s d. wait_readable kReadableWait (c\<lparr>kc_parser := p\<rparr>) = Some (s, d)" by (rule wait_readable_returns) (use less(2) in simp)
  then obtain s d where d: "wait_readable kReadableWait (c\<lparr>kc_parser := p\<rparr>) = Some (s, d)" by blast
  obtain now e where e: "clock_now d = (now, e)" by fastforce
  obtain w f where f: "ask e = (w, f)" by fastforce
  have "same_client c d" using wait_readable_stream [OF d] by (simp add: same_stream_def same_client_def)
  note d' = same_answers [OF this]
  have e': "kc_answers e = kc_answers c" "kc_calls e = kc_calls d + 1" "now = aw_clock (kc_answers c (kc_calls d))"
    using clock_now_same [OF e] same_answers d' by auto
  have f': "kc_answers f = kc_answers c" "kc_calls f = kc_calls d + 2" using ask_same [OF f] same_answers e' by auto
  have again: "\<exists>r. receive_loop limit g = Some r" if "\<not> now > limit" "kc_answers g = kc_answers c" "kc_calls g = kc_calls f" for g
  proof -
    have "kc_calls d < n" using less(3) that(1) e'(3) not_less by blast
    then show ?thesis using less(2,3) that(2,3) d'(2) f'(2) by (intro less(1)) auto
  qed
  show ?case
    using again [of f] again [of "f\<lparr>kc_parser := _, kc_input := kc_input f @ _\<rparr>"] f'
    by (subst receive_loop.simps) (auto simp: p d e f Let_def split: sum.split option.split prod.split)
qed

lemma receive_frame_total:
  assumes "clock_advances (kc_answers c)"
  shows "\<exists>r d. receive_frame c = Some (r, d)"
proof -
  obtain now d where d: "clock_now c = (now, d)" by fastforce
  have ans: "kc_answers d = kc_answers c" using clock_now_same [OF d] same_answers by blast
  let ?limit = "now + ko_reply_deadline (kc_options d)"
  obtain n where "\<forall>k \<ge> n. aw_clock (kc_answers d k) > ?limit" using assms ans unfolding clock_advances_def by metis
  then have "\<exists>r. receive_loop ?limit d = Some r" by (intro receive_loop_returns) (use assms ans in simp_all)
  then show ?thesis using d by (simp add: receive_frame_def)
qed

lemma send_loop_returns:
  assumes "sends_progress (kc_answers c)" "\<forall>k \<ge> n. aw_clock (kc_answers c k) > deadline"
  shows "\<exists>r. send_loop bs deadline c = Some r"
  using assms
proof (induction "length bs + (n - kc_calls c)" arbitrary: bs c rule: less_induct)
  case less
  obtain w d where d: "ask c = (w, d)" by fastforce
  obtain w1 e where e: "ask d = (w1, e)" by fastforce
  obtain now f where f: "clock_now e = (now, f)" by fastforce
  have d': "kc_answers d = kc_answers c" "kc_calls d = kc_calls c + 1" "w = kc_answers c (kc_calls c)"
    using ask_same [OF d] same_answers by auto
  have e': "kc_answers e = kc_answers c" "kc_calls e = kc_calls c + 2" using ask_same [OF e] same_answers d' by auto
  have f': "kc_answers f = kc_answers c" "kc_calls f = kc_calls c + 3" "now = aw_clock (kc_answers c (kc_calls c + 2))"
    using clock_now_same [OF f] same_answers e' by auto
  have part: "\<exists>r. send_loop (drop k bs) deadline (d\<lparr>kc_output := out\<rparr>) = Some r" if "bs \<noteq> []" "k \<noteq> 0" for k out
  proof (rule less(1))
    have "length (drop k bs) < length bs" using that by (cases bs) auto
    then show "length (drop k bs) + (n - kc_calls (d\<lparr>kc_output := out\<rparr>)) < length bs + (n - kc_calls c)" by (simp add: d'(2))
  qed (use less(2,3) d' in simp_all)
  have busy: "\<exists>r. send_loop bs deadline f = Some r" if "\<not> now > deadline"
  proof -
    have "kc_calls c + 2 < n" using less(3) that f'(3) not_less by blast
    then show ?thesis using less(2,3) f' by (intro less(1)) auto
  qed
  have "aw_sent w \<noteq> Inr 0" using less(2) d' by (simp add: sends_progress_def)
  then show ?case
    using part busy by (subst send_loop.simps) (auto simp: d e f split: sum.split)
qed

lemma send_frame_total:
  assumes "clock_advances (kc_answers c)" "sends_progress (kc_answers c)"
  shows "\<exists>s d. send_frame type payload c = Some (s, d)"
proof -
  have "\<exists>r. send_raw bs c = Some r" for bs
  proof -
    obtain now d where d: "clock_now c = (now, d)" by fastforce
    have ans: "kc_answers d = kc_answers c" using clock_now_same [OF d] same_answers by blast
    let ?limit = "now + ko_reply_deadline (kc_options d)"
    obtain n where "\<forall>k \<ge> n. aw_clock (kc_answers d k) > ?limit" using assms ans unfolding clock_advances_def by metis
    then have "\<exists>r. send_loop bs ?limit d = Some r" by (intro send_loop_returns) (use assms ans in simp_all)
    then show ?thesis using d by (simp add: send_raw_def)
  qed
  then show ?thesis by (auto simp: send_frame_def Let_def split: prod.split)
qed

end
