(* ===== verification/Control_Laws.thy ===== *)
theory Control_Laws
  imports Control_Program Client_Laws
begin

text \<open>What the exit code of \<open>icfctl\<close> stands for, in terms of the frames the peer sent.\<close>

lemma new_client_delivered: "delivered [] (new_client options answers)"
  by (simp add: delivered_def new_client_def new_parser_def)

lemma client_connect_result:
  assumes "client_connect options opened now answers = Some (Inr c)" "honest answers"
  shows "kc_answers c = answers \<and> kc_verify_key c = bytes_of_string (ko_channel_key options)
    \<and> (\<exists>fs. delivered fs c)"
proof (cases "ko_send_hello options")
  case False
  then have "c = new_client options answers" using assms(1) by (auto simp: client_connect_def Let_def split: if_splits)
  then show ?thesis using new_client_delivered by (auto simp: new_client_def)
next
  case True
  let ?c = "new_client options answers"
  obtain hello d where d: "send_frame MessageType_Hello (encode_hello (client_hello options now)) ?c = Some (hello, d)"
    and hello: "is_ok hello"
    using assms(1) True by (auto simp: client_connect_def Let_def split: if_splits option.splits)
  obtain reply e where e: "receive_frame d = Some (Inr reply, e)"
    using assms(1) True d hello by (auto simp: client_connect_def Let_def split: if_splits option.splits sum.splits)
  have c: "\<exists>ack. c = e\<lparr>kc_hello_ack := Some ack, kc_signing := (kc_verify_key e \<noteq> [])\<rparr>"
    using assms(1) True d hello e by (auto simp: client_connect_def Let_def split: if_splits sum.splits)
  have "exchanged [] ?c d"
    by (rule send_frame_exchanged [OF d]) (use assms(2) in \<open>simp_all add: new_client_def message_type_known_def\<close>)
  from exchanged_trans [OF this receive_frame_exchanged [OF e]] have "exchanged [reply] ?c e" by simp
  then have "same_client ?c e" "delivered [reply] e" using new_client_delivered by (fastforce simp: exchanged_def)+
  then show ?thesis using c by (auto simp: same_client_def new_client_def delivered_def intro!: exI [of _ "[reply]"])
qed

text \<open>An answer that comes from the peer: valid under the key, after whatever else was sent.\<close>

definition peer_said :: "bytes \<Rightarrow> message_type \<Rightarrow> (bytes \<Rightarrow> 'm result) \<Rightarrow> 'm \<Rightarrow> bytes \<Rightarrow> bool" where
  "peer_said key type decode m input \<longleftrightarrow>
    (\<exists>fs f rest. input = concat (map (frame_bytes key) (fs @ [f])) @ rest \<and> list_all (frame_ok key) (fs @ [f])
      \<and> fh_type (fr_header f) = type \<and> decode (fr_payload f) = Inr m)"

lemma answered_said:
  assumes "answered type decode m c c'" "delivered fs c"
  shows "peer_said (kc_verify_key c) type decode m (kc_input c')"
proof -
  obtain gs f where f: "exchanged (gs @ [f]) c c'" "fh_type (fr_header f) = type" "decode (fr_payload f) = Inr m"
    using assms(1) unfolding answered_def by blast
  then have "delivered ((fs @ gs) @ [f]) c'" "kc_verify_key c' = kc_verify_key c"
    using assms(2) by (simp_all add: exchanged_def same_client_def)
  then show ?thesis
    using f(2,3) unfolding peer_said_def delivered_def by (intro exI [of _ "fs @ gs"] exI [of _ f]) auto
qed

lemma client_query_answered:
  assumes "client_query request c = Some (Inr m, c')" "honest (kc_answers c)" "delivered fs c"
  shows "qrs_request m = qry_request request
    \<and> peer_said (kc_verify_key c) MessageType_QueryResult decode_query_result m (kc_input c')
    \<and> prefix (kc_output c @ frame_bytes (sending_key c) (client_frame MessageType_Query (encode_query request) c)) (kc_output c')"
proof -
  obtain s d where d: "send_frame MessageType_Query (encode_query request) c = Some (s, d)" "is_ok s"
    using assms(1) by (auto simp: client_query_def split: option.splits if_splits)
  obtain now e where e: "clock_now d = (now, e)" by fastforce
  have loop: "query_loop (qry_request request) (now + ko_reply_deadline (kc_options e)) e = Some (Inr m, c')"
    using assms(1) d e by (simp add: client_query_def)
  have known: "message_type_known MessageType_Query" by (simp add: message_type_known_def)
  note sent = send_frame_sent [OF d(1) assms(2) known]
  have ex: "exchanged [] c e"
    using exchanged_trans [OF send_frame_exchanged [OF d(1) assms(2) known] exchanged_stream [OF clock_stream [OF e]]] by simp
  have res: "qrs_request m = qry_request request \<and> answered MessageType_QueryResult decode_query_result m e c'"
    using query_loop_answered [OF loop] exchanged_answers [OF ex] assms(2) by simp
  have "answered MessageType_QueryResult decode_query_result m c c'" using answered_later [OF conjunct2 [OF res] ex] .
  from answered_said [OF this assms(3)] have said: "peer_said (kc_verify_key c) MessageType_QueryResult decode_query_result m (kc_input c')" .
  have "prefix (kc_output e) (kc_output c')" using res by (auto simp: answered_def exchanged_def)
  moreover have "kc_output e = kc_output d" using clock_now_same [OF e] by simp
  ultimately show ?thesis using res said sent d(2) by simp
qed

end
