(* ===== verification/Rng.thy ===== *)
theory Rng
  imports Ids
begin

text \<open>
  \<open>core/rng.cpp\<close>: the generator of identities. The state is four 64-bit words; the seed, drawn from the
  operating system, is a parameter.
\<close>

record rng =
  rn_0 :: u64
  rn_1 :: u64
  rn_2 :: u64
  rn_3 :: u64
  rn_seed :: u64

text \<open>The value drawn and the state after it.\<close>

definition splitmix64 :: "u64 \<Rightarrow> u64 \<times> u64" where
  "splitmix64 state =
    (let state = state + 0x9E3779B97F4A7C15;
         z = state;
         z = (z XOR drop_bit 30 z) * 0xBF58476D1CE4E5B9;
         z = (z XOR drop_bit 27 z) * 0x94D049BB133111EB
     in (z XOR drop_bit 31 z, state))"

definition rotl :: "u64 \<Rightarrow> nat \<Rightarrow> u64" where
  "rotl w shift = push_bit shift w OR drop_bit (64 - shift) w"

definition new_rng :: "u64 \<Rightarrow> rng" where
  "new_rng seed =
    (case splitmix64 seed of (a, s1) \<Rightarrow>
     case splitmix64 s1 of (b, s2) \<Rightarrow>
     case splitmix64 s2 of (c, s3) \<Rightarrow>
     case splitmix64 s3 of (d, s4) \<Rightarrow> \<lparr>rn_0 = a, rn_1 = b, rn_2 = c, rn_3 = d, rn_seed = seed\<rparr>)"

definition next_u64 :: "rng \<Rightarrow> u64 \<times> rng" where
  "next_u64 r =
    (let drawn = rotl (rn_1 r * 5) 7 * 9;
         t = push_bit 17 (rn_1 r);
         r = r\<lparr>rn_2 := rn_2 r XOR rn_0 r\<rparr>;
         r = r\<lparr>rn_3 := rn_3 r XOR rn_1 r\<rparr>;
         r = r\<lparr>rn_1 := rn_1 r XOR rn_2 r\<rparr>;
         r = r\<lparr>rn_0 := rn_0 r XOR rn_3 r\<rparr>;
         r = r\<lparr>rn_2 := rn_2 r XOR t\<rparr>;
         r = r\<lparr>rn_3 := rotl (rn_3 r) 45\<rparr>
     in (drawn, r))"

definition next_u32 :: "rng \<Rightarrow> u32 \<times> rng" where
  "next_u32 r = (case next_u64 r of (w, r') \<Rightarrow> (ucast (drop_bit 32 w), r'))"

text \<open>Drawing until the value is not below the threshold; \<open>None\<close> stands for a loop that never ends.\<close>

partial_function (option) draw_from :: "u64 \<Rightarrow> u64 \<Rightarrow> rng \<Rightarrow> (u64 \<times> rng) option" where
  "draw_from threshold bound r =
    (case next_u64 r of (w, r') \<Rightarrow> if w \<ge> threshold then Some (w mod bound, r') else draw_from threshold bound r')"

definition below :: "u64 \<Rightarrow> rng \<Rightarrow> (u64 \<times> rng) option" where
  "below bound r = (if bound \<le> 1 then Some (0, r) else draw_from ((0 - bound) mod bound) bound r)"

definition range_between :: "u64 \<Rightarrow> u64 \<Rightarrow> rng \<Rightarrow> (u64 \<times> rng) option" where
  "range_between low high r =
    (if high \<le> low then Some (low, r) else map_option (\<lambda>(w, r'). (low + w, r')) (below (high - low + 1) r))"

text \<open>The bytes of one word, the low one first.\<close>

fun word_bytes :: "nat \<Rightarrow> u64 \<Rightarrow> bytes" where
  "word_bytes 0 w = []"
| "word_bytes (Suc n) w = ucast (w AND 0xFF) # word_bytes n (drop_bit 8 w)"

function rng_fill :: "nat \<Rightarrow> rng \<Rightarrow> bytes \<times> rng" where
  "rng_fill n r =
    (if n = 0 then ([], r)
     else case next_u64 r of (w, r') \<Rightarrow>
       case rng_fill (n - 8) r' of (rest, r'') \<Rightarrow> (word_bytes (min 8 n) w @ rest, r''))"
  by pat_completeness auto
termination
  by (relation "measure fst") auto

declare rng_fill.simps [simp del]

definition uuid_random :: "rng \<Rightarrow> uuid \<times> rng" where
  "uuid_random r = (case rng_fill 16 r of (bs, r') \<Rightarrow> (uuid_from_random bs, r'))"

fun word_hex :: "nat \<Rightarrow> u64 \<Rightarrow> string" where
  "word_hex 0 w = []"
| "word_hex (Suc n) w = kHex ! unat (drop_bit (4 * n) w AND 0xF) # word_hex n w"

definition state_string :: "rng \<Rightarrow> string" where
  "state_string r = concat (map (word_hex 16) [rn_0 r, rn_1 r, rn_2 r, rn_3 r])"

section \<open>Laws\<close>

lemma length_word_bytes [simp]: "length (word_bytes n w) = n"
  by (induction n arbitrary: w) simp_all

lemma rng_fill_length: "rng_fill n r = (bs, r') \<Longrightarrow> length bs = n"
proof (induction n r arbitrary: bs r' rule: rng_fill.induct)
  case (1 n r)
  then show ?case by (subst (asm) (2) rng_fill.simps) (fastforce split: if_split_asm prod.split_asm)
qed

text \<open>A drawn identity has sixteen bytes and is never the nil identity.\<close>

lemma uuid_random_ok: "uuid_random r = (u, r') \<Longrightarrow> length u = 16 \<and> \<not> is_nil u"
proof -
  assume "uuid_random r = (u, r')"
  then obtain bs where bs: "rng_fill 16 r = (bs, r')" "u = uuid_from_random bs" by (auto simp: uuid_random_def split: prod.splits)
  have len: "length bs = 16" by (rule rng_fill_length [OF bs(1)])
  have "bit (u ! 6) 6" using len bs(2) by (simp add: uuid_from_random_def bit_simps)
  then have "u ! 6 \<noteq> 0" by auto
  moreover have "6 < length u" using len bs(2) by (simp add: uuid_from_random_def)
  ultimately have "\<not> is_nil u" by (auto simp: is_nil_def list_all_length)
  then show ?thesis using len bs(2) by (simp add: uuid_from_random_def)
qed

lemma draw_from_bound:
  assumes "draw_from threshold bound r = Some (w, r')" "0 < bound"
  shows "w < bound"
proof -
  have "fst (w, r') < bound"
  proof (rule draw_from.raw_induct [where P = "\<lambda>threshold bound' r v. bound' = bound \<longrightarrow> fst v < bound", THEN mp, OF _ assms(1) refl],
      intro impI)
    fix drawing threshold' bound' r1 v
    assume "\<And>threshold' bound' r v. drawing threshold' bound' r = Some v \<Longrightarrow> bound' = bound \<longrightarrow> fst v < bound"
      "(case next_u64 r1 of (w, r') \<Rightarrow> if w \<ge> threshold' then Some (w mod bound', r') else drawing threshold' bound' r') = Some v"
      "bound' = bound"
    then show "fst v < bound" using assms(2) by (auto simp: word_mod_less_divisor split: prod.splits if_splits)
  qed
  then show ?thesis by simp
qed

lemma below_bound: "below bound r = Some (w, r') \<Longrightarrow> bound \<noteq> 0 \<Longrightarrow> w < bound"
  using draw_from_bound [of "(0 - bound) mod bound" bound r w r'] by (auto simp: below_def word_gt_0 split: if_split_asm)

text \<open>The values that are accepted fall into each remainder equally often.\<close>

lemma accepted_multiple:
  fixes bound :: u64
  assumes "1 < bound"
  shows "unat bound dvd 2 ^ 64 - unat ((0 - bound) mod bound)"
proof -
  have "bound \<noteq> 0" using assms by auto
  then have "unat (0 - bound) = 2 ^ 64 - unat bound" 
    using unat_sub_if_size [of 0 bound] by (simp add: word_size unat_eq_0)
  then have "unat ((0 - bound) mod bound) = (2 ^ 64 - unat bound) mod unat bound" by (simp add: unat_mod)
  also have "\<dots> = 2 ^ 64 mod unat bound" using unsigned_less [of bound, where ?'a = nat] by (simp add: le_mod_geq)
  finally show ?thesis by (simp add: dvd_minus_mod)
qed

text \<open>Drawing ends as soon as some draw reaches the threshold.\<close>

lemma draw_from_ends:
  assumes "fst (next_u64 (((\<lambda>s. snd (next_u64 s)) ^^ n) r)) \<ge> threshold"
  shows "\<exists>w r'. draw_from threshold bound r = Some (w, r')"
  using assms
proof (induction n arbitrary: r)
  case 0
  then show ?case by (subst draw_from.simps) (auto split: prod.split)
next
  case (Suc n)
  obtain w s where drawn: "next_u64 r = (w, s)" by fastforce
  then have "\<exists>v r'. draw_from threshold bound s = Some (v, r')" 
    using Suc.IH [of s] Suc.prems by (simp add: funpow_Suc_right del: funpow.simps)
  then show ?case using drawn by (subst draw_from.simps) auto
qed

end
