(* ===== verification/Edge_Properties.thy ===== *)
theory Edge_Properties
  imports Programs Control_Laws Rng Log Message_Laws Sample
begin

text \<open>The properties of the text formats, the programs and the client.\<close>

section \<open>Time\<close>

text \<open>
  C32. The text of a timestamp is its Gregorian date and time, and it reads back to the nanosecond: it
  prints the date of its day, the time within the day and the nanoseconds; the date moves to the
  calendar's next day from one day to the next, starting from 1 January 1970; and parsing returns the
  timestamp that was printed, except in the second that starts the 64-bit range, where it reports an
  overflow.
\<close>

theorem timestamp_text_is_faithful:
  assumes "i64_ok t"
  shows "parse_iso8601 (to_iso8601 t) =
      (if t < - 9223372036000000000 then Inl (status_make Outcome_Overflow ''timestamp overflows the nanosecond range'') else Inr t)
    \<and> to_iso8601 t =
      (let date = civil_from_days (t div 86400000000000); second_of_day = t div 1000000000 mod 86400
       in print_padded 4 (cv_year date) @ ''-'' @ print_padded 2 (cv_month date) @ ''-'' @ print_padded 2 (cv_day date) @ ''T''
          @ print_padded 2 (second_of_day div 3600) @ '':'' @ print_padded 2 (second_of_day mod 3600 div 60) @ '':''
          @ print_padded 2 (second_of_day mod 60) @ ''.'' @ print_padded 9 (t mod 1000000000) @ ''Z'')
    \<and> civil_from_days 0 = \<lparr>cv_year = 1970, cv_month = 1, cv_day = 1\<rparr>
    \<and> civil_from_days (t div 86400000000000 + 1) = next_day (civil_from_days (t div 86400000000000))"
proof -
  have "civil_from_days 0 = \<lparr>cv_year = 1970, cv_month = 1, cv_day = 1\<rparr>" by code_simp
  moreover have "t div 1000000000 div 86400 = t div 86400000000000"
    using zdiv_zmult2_eq [of 86400 t 1000000000] by simp
  ultimately show ?thesis
    using iso8601_round_trip [OF assms] civil_from_days_next [of "t div 86400000000000"] to_iso8601_fields [of t]
    unfolding Let_def by metis
qed

theorem timestamp_text_is_faithful_witness:
  "to_iso8601 68176800000000000 = ''1972-02-29T02:00:00.000000000Z''
    \<and> parse_iso8601 ''1972-02-29T02:00:00.000000000Z'' = Inr 68176800000000000"
proof -
  have t: "to_iso8601 68176800000000000 = ''1972-02-29T02:00:00.000000000Z''" by code_simp
  have "i64_ok 68176800000000000" by (simp add: i64_ok_def)
  from timestamp_text_is_faithful [OF this, THEN conjunct1] show ?thesis unfolding t by simp
qed

section \<open>Configuration\<close>

text \<open>
  C31. A configuration text means what its lines say: it is accepted exactly when it is UTF-8 of at most
  512 lines of at most 4096 bytes, each blank, a comment, or a valid key and a nonempty value of at most 512
  bytes around the first equals sign, no key twice; and then it holds exactly those entries.
\<close>

theorem config_means_its_lines:
  "config_parse s origin = Inr c \<longleftrightarrow>
    is_valid_utf8 (bytes_of_string s) \<and> length (split_lines s) \<le> kMaxConfigLines
    \<and> list_all (\<lambda>l. length l \<le> kMaxConfigLineLength) (split_lines s)
    \<and> om_ok c \<and> (\<exists>es. reads (split_lines s) es \<and> distinct (map fst es) \<and> set c = set es)"
  by (rule config_parse_exact)

text \<open>
  C30. The agent daemon turns any command line and whatever the file system answers, a file that cannot
  be read or does not parse included, into an exit code or into a well-formed configuration, and never
  throws. The exit code is zero only where help was asked for, and two otherwise. A configuration has
  valid identities and endpoints that are sorted, within bounds, active, of this cluster, and exactly
  the declared ones; what the command line says wins over the file, and what it does not mention is as
  in the file, which was loaded.
\<close>

theorem configured_agent_is_well_formed:
  "\<exists>r. icfclusterd_main files argv = Some r
    \<and> (\<forall>code. r = Inl code \<longrightarrow> code = 2
        \<or> code = 0 \<and> (\<exists>arguments. parse_arguments argv = Inr arguments \<and> arguments_has arguments ''help''))
    \<and> (\<forall>daemon. r = Inr daemon \<longrightarrow> agent_config_ok daemon
        \<and> (\<exists>arguments config base. parse_arguments argv = Inr arguments \<and> load_config files arguments = Inr config
          \<and> file_config files arguments = Inr base \<and> set (map ep_id (af_endpoints daemon)) = declared_names config
          \<and> (\<forall>key. om_find config key =
              (if applied_option key \<and> om_find (ar_options arguments) key \<noteq> None
               then om_find (ar_options arguments) key else om_find base key))))"
proof -
  obtain arguments where arguments: "parse_arguments argv = Inr arguments" by (auto simp: parse_arguments_def)
  show ?thesis
  proof (cases "arguments_has arguments ''help''")
    case True
    then show ?thesis using arguments by (simp add: icfclusterd_main_def)
  next
    case unaided: False
    show ?thesis
    proof (cases "load_config files arguments")
      case (Inl e)
      then show ?thesis using arguments unaided by (simp add: icfclusterd_main_def)
    next
      case (Inr config)
      obtain base where base: "file_config files arguments = Inr base"
        "\<And>key. om_find config key = (if applied_option key \<and> om_find (ar_options arguments) key \<noteq> None
          then om_find (ar_options arguments) key else om_find base key)"
        using load_config_result [OF Inr parse_arguments_ok [OF arguments]] by blast
      have run: "icfclusterd_main files argv = icfclusterd_configure config arguments"
        using arguments unaided Inr by (simp add: icfclusterd_main_def)
      obtain r where r: "icfclusterd_configure config arguments = Some r" using icfclusterd_configure_total by fastforce
      show ?thesis
      proof (cases r)
        case (Inl code)
        then show ?thesis using run r icfclusterd_configure_code by auto
      next
        case daemon: (Inr daemon)
        then show ?thesis using run r icfclusterd_configure_ok [of config arguments daemon] arguments Inr base by auto
      qed
    qed
  qed
qed

definition sample_argv :: "string list" where
  "sample_argv = [''icfclusterd'', ''--cluster'', ''c1'', ''--domain=d1'', ''--coordinator'', ''h:7000'', ''--state-dir'', ''s'',
     ''--endpoint.e1.capacity'', ''5'', ''--config'', ''f'']"

definition sample_files :: "string \<Rightarrow> file_contents" where
  "sample_files path = (if path = ''f'' then Contents (''domain = other'' @ [newline] @ ''endpoint.e2.scope = /x'') else Unopened)"

theorem configured_agent_is_well_formed_witness:
  "\<exists>daemon. icfclusterd_main sample_files sample_argv = Some (Inr daemon) \<and> agent_config_ok daemon
    \<and> map ep_id (af_endpoints daemon) = [''e1'', ''e2'']"
proof -
  have "map_option (map_sum id (\<lambda>daemon. map ep_id (af_endpoints daemon))) (icfclusterd_main sample_files sample_argv)
      = Some (Inr [''e1'', ''e2''])" by code_simp
  then obtain r where r: "icfclusterd_main sample_files sample_argv = Some r"
    "map_sum id (\<lambda>daemon. map ep_id (af_endpoints daemon)) r = Inr [''e1'', ''e2'']" by auto
  then obtain daemon where "icfclusterd_main sample_files sample_argv = Some (Inr daemon)" "map ep_id (af_endpoints daemon) = [''e1'', ''e2'']"
    by (cases r) auto
  then show ?thesis using configured_agent_is_well_formed [of sample_files sample_argv] by auto
qed

section \<open>The client\<close>

text \<open>
  C29. When \<open>icfctl\<close> exits with zero after a query, the peer has said so: what it sent starts with frames
  that are valid under the shared key, the last of them answers this very request, and its decision, or
  its outcome where there is no decision, is OK.
\<close>

theorem exit_zero_is_confirmed:
  assumes "ctl_main opened now answers request argv = Some 0" "parse_arguments argv = Inr arguments"
    and "plan_main arguments = Some (Ctl_Query address key query)" "honest answers"
  shows "\<exists>c c' m. connect_client address key opened now answers = Some (Inr c)
    \<and> client_query (query\<lparr>qry_request := request\<rparr>) c = Some (Inr m, c') \<and> qrs_request m = request
    \<and> peer_said (bytes_of_string key) MessageType_QueryResult decode_query_result m (kc_input c')
    \<and> (case qrs_decision m of None \<Rightarrow> qrs_outcome m = Outcome_Ok | Some d \<Rightarrow> dc_outcome d = Outcome_Ok)"
proof -
  obtain connected where con: "connect_client address key opened now answers = Some connected"
    "run_query request query connected = Some 0"
    using assms(1-3) by (auto simp: ctl_main_def bind_eq_Some_conv)
  obtain c where c: "connected = Inr c" using con(2) by (auto simp: run_query_def split: sum.splits)
  obtain m c' where m: "client_query (query\<lparr>qry_request := request\<rparr>) c = Some (Inr m, c')"
    using con(2) c by (auto simp: run_query_def split: option.splits sum.splits)
  have code: "case qrs_decision m of None \<Rightarrow> qrs_outcome m = Outcome_Ok | Some d \<Rightarrow> dc_outcome d = Outcome_Ok"
    using con(2) c m by (auto simp: run_query_def exit_code_for_def split: option.splits if_splits)
  obtain port where "client_connect \<lparr>ko_port = port, ko_role = PeerRole_Observer, ko_cluster = [], ko_domain = [],
      ko_channel_key = key, ko_reply_deadline = 10 * 1000000000, ko_send_hello = True\<rparr> opened now answers = Some (Inr c)"
    using con(1) c by (auto simp: connect_client_def split: sum.splits)
  from client_connect_result [OF this assms(4)] obtain fs where "kc_answers c = answers" "kc_verify_key c = bytes_of_string key"
    "delivered fs c" by auto
  with client_query_answered [OF m] assms(4) code show ?thesis using con(1) c m by auto
qed

text \<open>A peer and a socket that answer every call at once.\<close>

definition prompt :: "answer \<Rightarrow> bool" where
  "prompt w \<longleftrightarrow> aw_clock w = 0 \<and> aw_sent w = Inr (2 ^ 21) \<and> aw_ready w = Inr 1 \<and> \<not> aw_failed w"

definition idle_parser :: "frame_parser \<Rightarrow> bool" where
  "idle_parser p \<longleftrightarrow> fp_buffer p = [] \<and> fp_max_payload p = kMaxFramePayload"

lemma parser_next_idle: "idle_parser p \<Longrightarrow> parser_next key p = (Inr None, p)"
  by (simp add: parser_next_def idle_parser_def kFrameHeaderSize_def)

lemma receive_frame_prompt:
  assumes "\<And>n. prompt (kc_answers c n)" "0 \<le> ko_reply_deadline (kc_options c)" "idle_parser (kc_parser c)"
    "frame_ok (kc_verify_key c) f" "aw_received (kc_answers c (kc_calls c + 4)) = Inr (frame_bytes (kc_verify_key c) f)"
  obtains d where "receive_frame c = Some (Inr f, d)" "same_client c d" "kc_calls d = kc_calls c + 5" "kc_parser d = kc_parser c"
proof -
  let ?bs = "frame_bytes (kc_verify_key c) f"
  have size: "length (fr_payload f) \<le> kMaxFramePayload" using assms(4) by (auto simp: frame_ok_def header_valid_def)
  then have len: "length ?bs \<le> kMaxFramePayload + 56" "?bs \<noteq> []"
    using length_frame_bytes [of "kc_verify_key c" f] by (auto simp: frame_wire_size_def frame_sizes)
  have push: "parser_push ?bs (kc_parser c) = (status_ok, (kc_parser c)\<lparr>fp_buffer := ?bs\<rparr>)"
    using parser_push_ok [of "kc_parser c" ?bs] assms(3) len by (simp add: idle_parser_def kMaxFramePayload_def)
  have got: "parser_next (kc_verify_key c) ((kc_parser c)\<lparr>fp_buffer := ?bs\<rparr>) = (Inr (Some f), kc_parser c)"
    using parser_next_frame [OF assms(4), of "(kc_parser c)\<lparr>fp_buffer := ?bs\<rparr>" "[]"] assms(3) by (simp add: idle_parser_def)
  let ?at = "\<lambda>n. c\<lparr>kc_calls := n\<rparr>"
  have wait: "wait_readable kReadableWait (?at n) = Some (status_ok, ?at (n + 2))" for n
    using assms(1) [of "n + 1"]
    by (simp add: wait_readable_def clock_now_def ask_def wait_loop.simps prompt_def)
  note clock = assms(1) [of "kc_calls c", unfolded prompt_def] assms(1) [of "kc_calls c + 3", unfolded prompt_def]
  let ?full = "(?at (kc_calls c + 5))\<lparr>kc_parser := (kc_parser c)\<lparr>fp_buffer := ?bs\<rparr>, kc_input := kc_input c @ ?bs\<rparr>"
  have "receive_loop limit ?full = Some (Inr f, ?full\<lparr>kc_parser := kc_parser c\<rparr>)" for limit
    by (subst receive_loop.simps) (simp add: got)
  moreover have "receive_loop limit (?at (kc_calls c + 1)) = receive_loop limit ?full" if "0 \<le> limit" for limit
  proof -
    have same: "(?at (kc_calls c + 1))\<lparr>kc_parser := kc_parser c\<rparr> = ?at (kc_calls c + 1)" by simp
    have w: "wait_readable kReadableWait (?at (kc_calls c + 1)) = Some (status_ok, ?at (kc_calls c + 3))"
      using wait [of "kc_calls c + 1"] by (simp add: add.commute)
    have n: "clock_now (?at (kc_calls c + 3)) = (0, ?at (kc_calls c + 4))" using clock by (simp add: clock_now_def ask_def)
    have r: "ask (?at (kc_calls c + 4)) = (kc_answers c (kc_calls c + 4), ?at (kc_calls c + 5))" by (simp add: ask_def)
    have p: "parser_next (kc_verify_key (?at (kc_calls c + 1))) (kc_parser (?at (kc_calls c + 1))) = (Inr None, kc_parser c)"
      using parser_next_idle [OF assms(3)] by simp
    have late: "\<not> 0 > limit" using that by simp
    have push': "parser_push ?bs (kc_parser (?at (kc_calls c + 5))) = (status_ok, (kc_parser c)\<lparr>fp_buffer := ?bs\<rparr>)"
      using push by simp
    show ?thesis
      unfolding receive_loop.simps [of limit "?at (kc_calls c + 1)"] p prod.case sum.case option.case same w
      using late len(2) by (simp only: n r assms(5) push' prod.case sum.case Let_def is_ok_simps if_False if_True simp_thms) simp
  qed
  ultimately have "receive_frame c = Some (Inr f, ?full\<lparr>kc_parser := kc_parser c\<rparr>)"
    using assms(2) clock by (simp add: receive_frame_def clock_now_def ask_def)
  then show ?thesis by (rule that) (simp_all add: same_client_def)
qed

lemma send_frame_prompt:
  assumes "\<And>n. prompt (kc_answers c n)" "kc_valid c" "\<not> kc_signing c" "length payload \<le> kMaxFramePayload" "message_type_known type"
  obtains d where "send_frame type payload c = Some (status_ok, d)" "same_client c d" "kc_calls d = kc_calls c + 2"
    "kc_parser d = kc_parser c"
proof -
  define f where "f = client_frame type payload c"
  have ok: "frame_ok [] f"
    using assms(3-5)
    by (auto simp: f_def client_frame_def frame_ok_def header_valid_def kProtocolVersionMax_def frame_sizes unat_word_of_nat_u32)
  have "append_frame (fr_header f) (fr_payload f) [] [] = (status_ok, frame_bytes [] f)"
    using append_frame_bytes [OF ok, of "[]"] by (simp only: append_Nil list.size) simp
  moreover have "append_frame (fr_header f) (fr_payload f) [] []
      = append_frame \<lparr>fh_version = kProtocolVersionMax, fh_type = type, fh_flags = 0, fh_payload_length = 0\<rparr> payload [] []"
    using assms(3) unfolding f_def client_frame_def append_frame_def Let_def
    by (simp only: frame_header.simps frame_header.select_convs frame.select_convs simp_thms if_False)
  ultimately have sent: "send_frame type payload c = send_raw (frame_bytes [] f) c"
    using assms(2,3) by (simp add: send_frame_def Let_def)
  have "length (fr_payload f) \<le> kMaxFramePayload" using ok by (auto simp: frame_ok_def header_valid_def)
  then have len: "length (frame_bytes [] f) \<le> 2 ^ 21" "frame_bytes [] f \<noteq> []"
    using length_frame_bytes [of "[]" f] by (auto simp: frame_wire_size_def frame_sizes)
  note clock = assms(1) [of "kc_calls c + 1", unfolded prompt_def]
  have "send_loop (frame_bytes [] f) limit (c\<lparr>kc_calls := kc_calls c + 1\<rparr>)
      = Some (status_ok, c\<lparr>kc_calls := kc_calls c + 2, kc_output := kc_output c @ frame_bytes [] f\<rparr>)" for limit
    using clock len by (subst send_loop.simps) (simp add: ask_def send_loop.simps [of "[]"])
  then have "send_frame type payload c
      = Some (status_ok, c\<lparr>kc_calls := kc_calls c + 2, kc_output := kc_output c @ frame_bytes [] f\<rparr>)"
    unfolding sent send_raw_def clock_now_def ask_def by simp
  then show ?thesis by (rule that) (simp_all add: same_client_def)
qed

text \<open>A conversation in which the peer accepts the handshake and answers a listing.\<close>

definition sample_frame :: "message_type \<Rightarrow> bytes \<Rightarrow> frame" where
  "sample_frame type payload =
    \<lparr>fr_header = \<lparr>fh_version = kProtocolVersionMax, fh_type = type, fh_flags = 0,
       fh_payload_length = word_of_nat (length payload)\<rparr>, fr_payload = payload, fr_signed_frame = False\<rparr>"

lemma sample_frame_ok: "length payload \<le> kMaxFramePayload \<Longrightarrow> message_type_known type \<Longrightarrow> frame_ok [] (sample_frame type payload)"
  by (auto simp: sample_frame_def frame_ok_def header_valid_def kProtocolVersionMax_def frame_sizes unat_word_of_nat_u32)

definition sample_welcome :: hello_ack_message where
  "sample_welcome = \<lparr>hak_session = uid 9, hak_coordinator = uid 3, hak_coordinator_term = 8, hak_outcome = Outcome_Ok,
     hak_negotiated_version = 1, hak_view_digest = zero_digest, hak_revalidate = [], hak_detail = []\<rparr>"

definition no_clusters :: query_result_message where
  "no_clusters = blank_result (uid 5) QueryKind_ListClusters Outcome_Ok []"

definition sample_answers :: "nat \<Rightarrow> answer" where
  "sample_answers n =
    \<lparr>aw_clock = 0, aw_sent = Inr (2 ^ 21), aw_ready = Inr 1, aw_failed = False,
     aw_received = Inr (frame_bytes [] (if n \<le> 6 then sample_frame MessageType_HelloAck (encode_hello_ack sample_welcome)
       else sample_frame MessageType_QueryResult (encode_query_result no_clusters)))\<rparr>"

lemma sample_answers_prompt: "prompt (sample_answers n)"
  by (simp add: sample_answers_def prompt_def)

lemma sample_answers_honest: "honest sample_answers"
  by (simp add: sample_answers_def honest_def)

lemma sample_welcome_decoded: "decode_hello_ack (encode_hello_ack sample_welcome) = Inr sample_welcome"
  unfolding decode_hello_ack_def
  by (rule hello_ack.whole_message_enc) (simp add: hello_ack_wire_def sample_welcome_def kMaxGeneration_def)

lemma no_clusters_decoded: "decode_query_result (encode_query_result no_clusters) = Inr no_clusters"
  unfolding decode_query_result_def
  by (rule query_result.whole_message_enc)
    (simp add: query_result_wire_def answer_wire_def result_head_def no_clusters_def blank_result_def)

definition sample_ctl_options :: client_options where
  "sample_ctl_options =
    \<lparr>ko_port = 1, ko_role = PeerRole_Observer, ko_cluster = [], ko_domain = [], ko_channel_key = [],
     ko_reply_deadline = 10 * 1000000000, ko_send_hello = True\<rparr>"

lemma small_payload: "length bs \<le> 500 \<Longrightarrow> length bs \<le> kMaxFramePayload"
  by (simp add: kMaxFramePayload_def)

lemma sample_sizes:
  "length (encode_hello_ack sample_welcome) \<le> kMaxFramePayload" "length (encode_query_result no_clusters) \<le> kMaxFramePayload"
  "length (encode_hello (client_hello sample_ctl_options 0)) \<le> kMaxFramePayload"
  "length (encode_query (blank_query\<lparr>qry_kind := QueryKind_ListClusters, qry_request := uid 5\<rparr>)) \<le> kMaxFramePayload"
  by (rule small_payload, code_simp)+

lemma sample_connected:
  obtains c where "client_connect sample_ctl_options status_ok 0 sample_answers = Some (Inr c)" "kc_answers c = sample_answers"
    "kc_calls c = 7" "idle_parser (kc_parser c)" "kc_options c = sample_ctl_options" "kc_valid c" "\<not> kc_signing c" "kc_verify_key c = []"
proof -
  let ?c = "new_client sample_ctl_options sample_answers"
  have new: "kc_answers ?c = sample_answers" "kc_valid ?c" "\<not> kc_signing ?c" "kc_calls ?c = 0" "kc_verify_key ?c = []"
    "kc_options ?c = sample_ctl_options" "idle_parser (kc_parser ?c)"
    by (simp_all add: new_client_def sample_ctl_options_def bytes_of_string_def idle_parser_def new_parser_def)
  obtain d where d: "send_frame MessageType_Hello (encode_hello (client_hello sample_ctl_options 0)) ?c = Some (status_ok, d)"
    "same_client ?c d" "kc_calls d = 2" "kc_parser d = kc_parser ?c"
    by (rule send_frame_prompt [of ?c _ MessageType_Hello, OF _ _ _ sample_sizes(3)])
      (use new sample_answers_prompt in \<open>simp_all add: message_type_known_def\<close>)
  have same: "kc_answers d = sample_answers" "kc_verify_key d = []" "kc_options d = sample_ctl_options"
    using d(2) new by (simp_all add: same_client_def)
  let ?f = "sample_frame MessageType_HelloAck (encode_hello_ack sample_welcome)"
  have f: "frame_ok [] ?f" by (rule sample_frame_ok [OF sample_sizes(1)]) (simp add: message_type_known_def)
  obtain e where e: "receive_frame d = Some (Inr ?f, e)" "same_client d e" "kc_calls e = kc_calls d + 5" "kc_parser e = kc_parser d"
    by (rule receive_frame_prompt [of d ?f])
      (use same d(3,4) new(7) f sample_answers_prompt in \<open>simp_all add: sample_answers_def sample_ctl_options_def\<close>)
  have "client_connect sample_ctl_options status_ok 0 sample_answers
      = Some (Inr (e\<lparr>kc_hello_ack := Some sample_welcome, kc_signing := (kc_verify_key e \<noteq> [])\<rparr>))"
    unfolding client_connect_def Let_def d(1) option.case prod.case e(1) sum.case
    by (simp add: sample_ctl_options_def sample_frame_def sample_welcome_decoded)
  then show ?thesis by (rule that) (use e d same new in \<open>simp_all add: same_client_def\<close>)
qed

definition sample_ctl_argv :: "string list" where
  "sample_ctl_argv = [''icfctl'', ''--connect'', ''h:1'', ''clusters'']"

definition sample_ctl_arguments :: arguments where
  "sample_ctl_arguments = \<lparr>ar_options = [(''connect'', ''h:1'')], ar_positional = [''clusters'']\<rparr>"

lemma sample_parsed: "parse_arguments sample_ctl_argv = Inr sample_ctl_arguments"
  by code_simp

lemma sample_planned:
  "plan_main sample_ctl_arguments = Some (Ctl_Query ''h:1'' [] (blank_query\<lparr>qry_kind := QueryKind_ListClusters\<rparr>))"
  by code_simp

lemma sample_listed: "ctl_main status_ok 0 sample_answers (uid 5) sample_ctl_argv = Some 0"
proof -
  let ?query = "blank_query\<lparr>qry_kind := QueryKind_ListClusters, qry_request := uid 5\<rparr>"
  obtain c where c: "client_connect sample_ctl_options status_ok 0 sample_answers = Some (Inr c)" "kc_answers c = sample_answers"
    "kc_calls c = 7" "idle_parser (kc_parser c)" "kc_options c = sample_ctl_options" "kc_valid c" "\<not> kc_signing c" "kc_verify_key c = []"
    by (rule sample_connected)
  obtain d where d: "send_frame MessageType_Query (encode_query ?query) c = Some (status_ok, d)"
    "same_client c d" "kc_calls d = kc_calls c + 2" "kc_parser d = kc_parser c"
    by (rule send_frame_prompt [of c _ MessageType_Query, OF _ _ _ sample_sizes(4)])
      (use c sample_answers_prompt in \<open>simp_all add: message_type_known_def\<close>)
  let ?e = "d\<lparr>kc_calls := kc_calls d + 1\<rparr>" and ?f = "sample_frame MessageType_QueryResult (encode_query_result no_clusters)"
  have e: "clock_now d = (0, ?e)" "kc_answers ?e = sample_answers" "kc_options ?e = sample_ctl_options" "kc_verify_key ?e = []"
    "kc_calls ?e = 10" "idle_parser (kc_parser ?e)"
    using c d by (simp_all add: clock_now_def ask_def same_client_def sample_answers_def)
  have f: "frame_ok [] ?f" by (rule sample_frame_ok [OF sample_sizes(2)]) (simp add: message_type_known_def)
  obtain c' where "receive_frame ?e = Some (Inr ?f, c')"
    by (rule receive_frame_prompt [of ?e ?f])
      (use e f sample_answers_prompt in \<open>simp_all add: sample_answers_def sample_ctl_options_def\<close>)
  then have "query_loop (uid 5) limit ?e = Some (Inr no_clusters, c')" for limit
    by (subst query_loop.simps) (simp add: sample_frame_def no_clusters_decoded, simp add: no_clusters_def blank_result_def)
  then have "client_query ?query c = Some (Inr no_clusters, c')" using d(1) e(1) by (simp add: client_query_def)
  moreover have "qrs_outcome no_clusters = Outcome_Ok" "qrs_decision no_clusters = None"
    by (simp_all add: no_clusters_def blank_result_def)
  ultimately have "run_query (uid 5) (blank_query\<lparr>qry_kind := QueryKind_ListClusters\<rparr>) (Inr c) = Some 0"
    by (simp add: run_query_def)
  moreover have "parse_endpoint ''h:1'' = Inr (''h'', 1)" by code_simp
  then have "connect_client ''h:1'' [] status_ok 0 sample_answers = Some (Inr c)"
    using c(1) by (simp add: connect_client_def sample_ctl_options_def)
  ultimately show ?thesis by (simp add: ctl_main_def sample_planned sample_parsed)
qed

theorem exit_zero_is_confirmed_witness:
  "ctl_main status_ok 0 sample_answers (uid 5) sample_ctl_argv = Some 0
    \<and> (\<exists>c c' m. connect_client ''h:1'' [] status_ok 0 sample_answers = Some (Inr c)
      \<and> client_query (blank_query\<lparr>qry_kind := QueryKind_ListClusters, qry_request := uid 5\<rparr>) c = Some (Inr m, c')
      \<and> peer_said [] MessageType_QueryResult decode_query_result m (kc_input c') \<and> qrs_request m = uid 5)"
  using exit_zero_is_confirmed [OF sample_listed sample_parsed sample_planned sample_answers_honest] sample_listed
  by (auto simp: bytes_of_string_def)

text \<open>
  A peer that stays silent for 250 milliseconds ends the wait for a reply, whatever the reply deadline:
  while no frame is complete, one poll without data after that time makes \<open>receive_frame\<close> report that the reply
  deadline expired, and nothing of the connection changes.
\<close>

lemma silence_ends_reply_wait:
  assumes "parser_next (kc_verify_key c) (kc_parser c) = (Inr None, kc_parser c)"
    and "aw_ready (kc_answers c (kc_calls c + 2)) = Inr 0" "\<not> aw_failed (kc_answers c (kc_calls c + 2))"
    and "aw_clock (kc_answers c (kc_calls c + 3)) > aw_clock (kc_answers c (kc_calls c + 1)) + 250000000"
  shows "receive_frame c = Some (Inl (status_make Outcome_Unreachable ''the reply deadline expired''), c\<lparr>kc_calls := kc_calls c + 4\<rparr>)"
proof -
  let ?c = "c\<lparr>kc_calls := Suc (kc_calls c)\<rparr>"
  have same: "?c\<lparr>kc_parser := kc_parser c\<rparr> = ?c" by simp
  have wait: "wait_readable kReadableWait ?c
      = Some (status_make Outcome_Unreachable ''the reply deadline expired'', c\<lparr>kc_calls := kc_calls c + 4\<rparr>)"
    using assms(2-4)
    by (simp add: wait_readable_def clock_now_def ask_def wait_loop.simps [of _ "c\<lparr>kc_calls := m\<rparr>" for m] kReadableWait_def
        numeral_eq_Suc)
  have "receive_loop limit ?c = Some (Inl (status_make Outcome_Unreachable ''the reply deadline expired''), c\<lparr>kc_calls := kc_calls c + 4\<rparr>)" for limit
    using assms(1) unfolding receive_loop.simps [of limit ?c] by (simp add: same wait)
  then show ?thesis by (simp add: receive_frame_def clock_now_def ask_def)
qed

text \<open>The reply deadline of the sample client is ten seconds, and 300 milliseconds pass.\<close>

definition silent_answers :: "nat \<Rightarrow> answer" where
  "silent_answers n = (sample_answers n)\<lparr>aw_clock := int n * 150000000, aw_ready := Inr 0\<rparr>"

lemma silent_peer_example:
  "map_option fst (receive_frame (new_client sample_ctl_options silent_answers))
    = Some (Inl (status_make Outcome_Unreachable ''the reply deadline expired''))"
proof -
  let ?c = "new_client sample_ctl_options silent_answers"
  have "idle_parser (kc_parser ?c)" by (simp add: new_client_def idle_parser_def new_parser_def)
  note idle = parser_next_idle [OF this, of "kc_verify_key ?c"]
  show ?thesis
    by (subst silence_ends_reply_wait [OF idle]) (simp_all add: new_client_def silent_answers_def sample_answers_def)
qed

end
