(* ===== verification/Spec2Isabelle.thy ===== *)
theory Spec2Isabelle
  imports Core_Properties Model_Properties Runtime_Properties Store_Properties Wire_Properties Coordinator_Properties Agent_Properties Edge_Properties
begin

text \<open>
  \<^bold>\<open>Inter-Cluster Fabric: a model of the authority core and its correctness.\<close>

  The program decides which connectivity between independently managed clusters is authorized, under
  whose authority, and what has to be withdrawn when a side changes. A coordinator holds a registry
  of clusters, links, paths, policy rules, contracts, grants and reservations; cluster agents report
  into it and consent to contracts; a decision engine answers queries from the registry; a fencing
  component withdraws what a change made void; the registry is kept in a log and a snapshot in the
  canonical encoding, the same encoding the view digest is computed over.

  \<^bold>\<open>Layers.\<close> Each theory models the file of its name under \<open>src/\<close>, in the order the code has it.

  \<^item> \<open>Prelude\<close>: bytes and 64-bit words, strings as byte strings, pairs for the two parties.
  \<^item> \<open>Status\<close> (\<open>core/status\<close>): outcomes, statuses, results. A \<open>Result<T>\<close> is a sum, \<open>Inl\<close> the status.
  \<^item> \<open>Checked\<close> (\<open>core/checked\<close>, \<open>core/limits\<close>, the counters of \<open>core/ids\<close>): every bound and every
    guarded operation, on 64-bit words.
  \<^item> \<open>Ordered_Map\<close>: \<open>std::map\<close> as a key-sorted association list, behind the locale \<open>ordered_map\<close>.
  \<^item> \<open>Utf8\<close>, \<open>Hash\<close>, \<open>Ids\<close>, \<open>Bytes\<close> (the files of \<open>core\<close> with these names): text validation, CRC-32C,
    SHA-256 and HMAC, identifiers, and the byte reader and writer. A reader is a function from the
    bytes left to a value and the bytes left after it. The locales \<open>codec\<close> and \<open>canonical_codec\<close> state what
    a pair of encoder and decoder promises: reading back, and accepting nothing else.
  \<^item> \<open>Records\<close>, \<open>Registry\<close> (\<open>model/types\<close>, \<open>model/records\<close>, \<open>model/registry\<close>): the data and every operation
    of the registry. \<open>Registry_Invariant\<close> has the invariant \<open>registry_ok\<close> and the locale
    \<open>registry_operation\<close>, interpreted for every mutator; \<open>Registry_Paths\<close> has the derived path states.
  \<^item> \<open>Canonical\<close> (\<open>model/canonical\<close>): every record encoder and decoder and the registry's.
    \<open>Canonical_Laws\<close> interprets the codec locales for each record; \<open>Canonical_Registry\<close> lifts them to
    tables (locale \<open>loadable_table\<close>) and to the registry.
  \<^item> \<open>Terms\<close>, \<open>Policy\<close>, \<open>Decision\<close> (the files of \<open>model\<close> with these names).
  \<^item> \<open>Engine\<close>, \<open>Engine_Laws\<close> (\<open>runtime/engine\<close>): the staged decision and the fence plans; the contract
    \<open>authorization_spec\<close>. \<open>Fencing\<close>, \<open>Fencing_Laws\<close> (\<open>runtime/audit\<close>, \<open>runtime/fencing\<close>): applying a plan;
    the locale \<open>fence_step\<close> states what every kind of action promises.
  \<^item> \<open>Mutation\<close> (\<open>store/mutation\<close>): the log's mutations, their codec and their application.
  \<^item> \<open>Files\<close> (\<open>store/file_util\<close>): the file primitives over a disk, with the answers of the operating system
    to each call as a parameter, short writes and failed flushes included.
  \<^item> \<open>Wal\<close>, \<open>Wal_Laws\<close> (\<open>store/wal\<close>): the log, its scan and its truncation; a log file is the encoding of a
    sequence of entries, \<open>wal_holds\<close>. \<open>Snapshot\<close> (\<open>store/snapshot\<close>).
  \<^item> \<open>Durable_Store\<close>, \<open>Durable_Laws\<close> (\<open>store/durable_store\<close>): opening with replay, appending and compaction;
    \<open>store_holds\<close> says which registry the files of a store stand for.
  \<^item> \<open>Coordinator_Report\<close> (\<open>model/decision\<close>): the status report of the coordinator.
  \<^item> \<open>Frame\<close>, \<open>Frame_Laws\<close> (\<open>wire/frame\<close>): headers, encoding with checksum and MAC, the incremental parser;
    which byte sequences are frames. \<open>Messages\<close>, \<open>Message_Laws\<close> (\<open>wire/messages\<close>): every message; the codec
    locales interpreted for each.
  \<^item> \<open>Connection\<close> (the class \<open>Connection\<close> of \<open>net/reactor\<close>): output queue, flushing, filling and dispatching; what
    the socket accepts and delivers is a parameter.
  \<^item> \<open>Event_Loop\<close>, \<open>Event_Loop_Laws\<close> (the class \<open>Reactor\<close> of \<open>net/reactor\<close>): the table of connections, the timers, the
    wait, firing and sweeping; the locale \<open>close_observer\<close> is what a close handler promises to the sweep.
  \<^item> \<open>Action\<close>: steps that return a status or throw, and how the runtime chains them.
  \<^item> \<open>Time\<close>, \<open>Calendar\<close> (\<open>core/time\<close>): the arithmetic on timestamps the runtime uses; their text, with the Gregorian
    calendar stated on its own (\<open>next_day\<close>) and both conversions shown to follow it.
  \<^item> \<open>Config\<close>, \<open>Config_Laws\<close> (\<open>core/config\<close>): configuration texts, their numbers and getters; a text means the
    entries of its lines (\<open>reads\<close>), and a number is read exactly when it fits.
  \<^item> \<open>Log\<close> (\<open>core/log\<close>): the text of a log line, which is one line of bounded length whatever it reports.
    \<open>Rng\<close> (\<open>core/rng\<close>): the generator, the draws and the identities made of them.
  \<^item> \<open>Coordinator\<close>, \<open>Grant_Flow\<close>, \<open>Handshake\<close>, \<open>Agent_Messages\<close>, \<open>Coordinator_Admin\<close> (\<open>runtime/coordinator\<close>): the state and
    what its operations share; preparing, committing, aborting and fencing grants, recovery and start;
    the handshake and cluster reports; the messages of agents and the timer; queries, administration
    and the dispatch of messages. An operation is an \<open>action\<close> on the coordinator's state; the clock, the
    answers of the operating system and the identities drawn are part of that state.
  \<^item> \<open>Coordinator_Laws\<close>: the invariant \<open>sound\<close> and that every handler keeps it, so that it holds in every state
    reachable by \<open>coordinator_step\<close>; the locale \<open>quiet_action\<close> is the contract of the operations that leave the
    registry alone. \<open>Coordinator_Start\<close>: what a start establishes. \<open>Coordinator_Sessions\<close>: authentication, consent
    and the end of grant flows (locales \<open>reply_action\<close>, \<open>flow_keeping\<close>). \<open>Store_Room\<close>, \<open>Commit_Progress\<close>: that the
    coordinator starts and commits when the file calls succeed. \<open>Coordinator_Faults\<close>: two defects.
  \<^item> \<open>Agent\<close>, \<open>Agent_Handlers\<close>, \<open>Agent_Control\<close> (\<open>runtime/agent\<close>): the agent's state, its store and its enforcement
    of grants; the handlers of the coordinator's messages; start, the timer, the operator's channel, the
    dispatch and a turn of the event loop. \<open>Store_Recovery\<close>: what opening a store returns.
  \<^item> \<open>Agent_Laws\<close>: what an agent may do to its grants, \<open>agent_moves\<close> (a grant may only lapse), and the locales
    \<open>moving_agent\<close>, \<open>steady_agent\<close>, \<open>quiet_agent\<close> and \<open>grant_loop\<close> that state it for a step, for a step that keeps the
    registry, and for the loops over grants. \<open>Agent_Moves\<close>: every handler interpreted, and the relation
    \<open>agent_step\<close>: each step moves, prepares one grant or installs one. \<open>Agent_Start\<close>: what a start establishes and
    every run keeps. \<open>Agent_Progress\<close>: that the agent starts and that its timer withdraws grants.
  \<^item> \<open>Client\<close>, \<open>Client_Laws\<close> (\<open>client/client\<close>): the synchronous client over one answer of the socket and the clock per
    call; what was sent and received is recorded, and the laws relate each call to the frames in it.
  \<^item> \<open>Command_Line\<close>, \<open>Command_Line_Laws\<close> (\<open>apps/common/app_support\<close>): options, merging with a configuration file and the
    endpoint declarations. \<open>Programs\<close> (\<open>apps/icfd\<close>, \<open>apps/icfclusterd\<close>): the configurations the daemons start with.
    \<open>Control_Program\<close>, \<open>Control_Laws\<close> (\<open>apps/icfctl\<close>): the request of every command and the exit code.
  \<^item> \<open>Sample\<close>: a small deployment on which the general theorems are instantiated.
  \<^item> \<open>Core_Properties\<close>, \<open>Model_Properties\<close>, \<open>Runtime_Properties\<close>, \<open>Store_Properties\<close>, \<open>Wire_Properties\<close>,
    \<open>Coordinator_Properties\<close>, \<open>Agent_Properties\<close>, \<open>Edge_Properties\<close>: the properties, numbered in the order of their importance.

  \<^bold>\<open>Conventions.\<close> A mutator that returns a status is a function from a registry to the status and the
  registry after it. An exception is \<open>None\<close>. Fields carry a two-letter prefix of their record. A
  timestamp or a duration is an integer with its 64-bit range written out where the code encodes it.
  What the operating system answers to the file calls of one operation is one record, whose fields say
  what each kind of call does; opening a store uses the same record for the snapshot and the log.
  A loop is recursion over the list it walks, and total, without fuel. The exceptions are the loops of
  the client, which go on for as long as the socket keeps answering, and the rejection sampling of the
  generator: they are partial functions, \<open>None\<close> is a call that does not return, and \<open>receive_frame_total\<close> and
  \<open>send_frame_total\<close> say when the client's do. The clock does not move while a handler runs; in the client
  every call reads it anew.

  \<^bold>\<open>Not modelled.\<close> The sockets, polling and accepting, which only make operating system calls: what
  they deliver and accept is a parameter of the connection and of the client, and the outcome of
  connecting and listening one of the agent. The stream a log line goes to and the logger's lock, the
  readiness file, what the clocks read and the entropy a seed is drawn from, signal handlers, and what
  the programs print.
\<close>

end
